(* ===== verification/Prelude.thy ===== *)
theory Prelude
  imports Main "HOL-Library.Word"
begin

text \<open>
  Shared vocabulary of the development: the Go integer types the control plane computes with,
  the type of fallible effectful operations, the calculus for showing that an operation preserves
  an invariant whatever branch it takes, and a few generic facts on lists and association tables.
\<close>

named_theorems preserve \<open>rules that derive invariant preservation of a composite operation\<close>
named_theorems op_defs \<open>definitions of the operation combinators\<close>

section \<open>64-bit integers\<close>

text \<open>
  Go's \<open>int\<close> and \<open>int64\<close> are kept as mathematical integers; every addition or multiplication
  whose overflow the program does not exclude is written with an explicit wrap-around.
\<close>

definition min_int64 :: int where "min_int64 = - (2 ^ 63)"
definition max_int64 :: int where "max_int64 = 2 ^ 63 - 1"

definition in_int64 :: "int \<Rightarrow> bool" where
  "in_int64 x \<longleftrightarrow> min_int64 \<le> x \<and> x \<le> max_int64"

definition wrap64 :: "int \<Rightarrow> int" where
  "wrap64 x = (x + 2 ^ 63) mod 2 ^ 64 - 2 ^ 63"

definition add64 :: "int \<Rightarrow> int \<Rightarrow> int" where "add64 a b = wrap64 (a + b)"
definition mul64 :: "int \<Rightarrow> int \<Rightarrow> int" where "mul64 a b = wrap64 (a * b)"

text \<open>Go's division and remainder truncate towards zero.\<close>

definition go_div :: "int \<Rightarrow> int \<Rightarrow> int" where
  "go_div a b = sgn a * sgn b * (\<bar>a\<bar> div \<bar>b\<bar>)"

definition go_mod :: "int \<Rightarrow> int \<Rightarrow> int" where
  "go_mod a b = sgn a * (\<bar>a\<bar> mod \<bar>b\<bar>)"

lemma wrap64_range: "in_int64 (wrap64 x)"
proof -
  have "0 \<le> (x + 2 ^ 63) mod 2 ^ 64" "(x + 2 ^ 63) mod (2 ^ 64 :: int) < 2 ^ 64"
    by (rule pos_mod_sign, simp) (rule pos_mod_bound, simp)
  then show ?thesis
    by (simp add: in_int64_def wrap64_def min_int64_def max_int64_def)
qed

lemma wrap64_id [simp]: "in_int64 x \<Longrightarrow> wrap64 x = x"
  by (simp add: in_int64_def wrap64_def min_int64_def max_int64_def)

lemma wrap64_sint: "wrap64 x = sint (word_of_int x :: 64 word)"
  by (simp add: wrap64_def signed_take_bit_eq_take_bit_shift take_bit_eq_mod sint_sbintrunc')

lemma add64_id: "in_int64 (a + b) \<Longrightarrow> add64 a b = a + b"
  by (simp add: add64_def)

lemma mul64_id: "in_int64 (a * b) \<Longrightarrow> mul64 a b = a * b"
  by (simp add: mul64_def)

section \<open>Association tables\<close>

text \<open>
  A database table is a list of rows; a statement that selects by key filters it. The lemmas say how
  an update or an insertion shows up in a lookup.
\<close>

definition find_row :: "('r \<Rightarrow> bool) \<Rightarrow> 'r list \<Rightarrow> 'r option" where
  "find_row p rows = find p rows"

definition update_rows :: "('r \<Rightarrow> bool) \<Rightarrow> ('r \<Rightarrow> 'r) \<Rightarrow> 'r list \<Rightarrow> 'r list" where
  "update_rows p f rows = map (\<lambda>r. if p r then f r else r) rows"

lemma length_update_rows [simp]: "length (update_rows p f rows) = length rows"
  by (simp add: update_rows_def)

lemma update_rows_Nil [simp]: "update_rows p f [] = []"
  by (simp add: update_rows_def)

lemma update_rows_Cons [simp]:
  "update_rows p f (r # rows) = (if p r then f r else r) # update_rows p f rows"
  by (simp add: update_rows_def)

lemma update_rows_append [simp]:
  "update_rows p f (xs @ ys) = update_rows p f xs @ update_rows p f ys"
  by (simp add: update_rows_def)

lemma set_update_rows:
  "r \<in> set (update_rows p f rows) \<longleftrightarrow> (\<exists>r0 \<in> set rows. r = (if p r0 then f r0 else r0))"
  by (auto simp: update_rows_def)

lemma map_key_update_rows:
  "(\<And>r. p r \<Longrightarrow> k (f r) = k r) \<Longrightarrow> map k (update_rows p f rows) = map k rows"
  by (induction rows) auto

lemma find_row_Some_set: "find_row p rows = Some r \<Longrightarrow> r \<in> set rows \<and> p r"
  by (auto simp: find_row_def find_Some_iff)

lemma find_row_None: "find_row p rows = None \<longleftrightarrow> (\<forall>r \<in> set rows. \<not> p r)"
  by (auto simp: find_row_def find_None_iff)

lemma find_row_Nil [simp]: "find_row p [] = None"
  by (simp add: find_row_def)

lemma find_row_Cons [simp]:
  "find_row p (r # rows) = (if p r then Some r else find_row p rows)"
  by (simp add: find_row_def)

lemma find_row_append:
  "find_row p (xs @ ys) = (case find_row p xs of None \<Rightarrow> find_row p ys | Some r \<Rightarrow> Some r)"
  by (induction xs) auto

lemma find_row_update_same:
  "(\<And>r. p r \<Longrightarrow> q (f r)) \<Longrightarrow> (\<And>r. q r \<Longrightarrow> p r) \<Longrightarrow>
   find_row q (update_rows p f rows) = map_option f (find_row p rows)"
  by (induction rows) auto

lemma find_row_update_other:
  "(\<And>r. p r \<Longrightarrow> \<not> q r \<and> \<not> q (f r)) \<Longrightarrow> find_row q (update_rows p f rows) = find_row q rows"
  by (induction rows) auto

lemma find_row_update_keep:
  "(\<And>r. p r \<Longrightarrow> q (f r) = q r) \<Longrightarrow>
   find_row q (update_rows p f rows) = map_option (\<lambda>r. if p r then f r else r) (find_row q rows)"
  by (induction rows) auto

lemma distinct_find_row:
  "distinct (map k rows) \<Longrightarrow> r \<in> set rows \<Longrightarrow> find_row (\<lambda>x. k x = k r) rows = Some r"
  by (induction rows) auto

lemma length_filter_update_rows_le:
  "(\<And>r. p r \<Longrightarrow> q (f r) \<Longrightarrow> q r) \<Longrightarrow>
   length (filter q (update_rows p f rows)) \<le> length (filter q rows)"
  by (induction rows) auto

section \<open>Fallible operations on a state\<close>

text \<open>
  A Go method that mutates state and returns \<open>(value, error)\<close> is a function from the state to a
  result and the new state; the error is the left summand. \<open>bindE\<close> is the idiom
  \<open>v, err := m; if err != nil { return err }\<close>: the state changes made before the error stay.
  \<open>tryE\<close> hands the result to the continuation without returning, which is \<open>_ = m\<close> and
  \<open>if err := m; err != nil {...}\<close>.
\<close>

type_synonym ('e, 'w, 'a) eop = "'w \<Rightarrow> ('e + 'a) \<times> 'w"

definition okE :: "'a \<Rightarrow> ('e, 'w, 'a) eop" where "okE a = (\<lambda>w. (Inr a, w))"

definition failE :: "'e \<Rightarrow> ('e, 'w, 'a) eop" where "failE e = (\<lambda>w. (Inl e, w))"

definition bindE :: "('e, 'w, 'a) eop \<Rightarrow> ('a \<Rightarrow> ('e, 'w, 'b) eop) \<Rightarrow> ('e, 'w, 'b) eop" where
  "bindE m k = (\<lambda>w. case m w of (Inl e, w') \<Rightarrow> (Inl e, w') | (Inr a, w') \<Rightarrow> k a w')"

definition thenE :: "('e, 'w, 'a) eop \<Rightarrow> ('e, 'w, 'b) eop \<Rightarrow> ('e, 'w, 'b) eop" where
  "thenE m k = bindE m (\<lambda>_. k)"

definition tryE :: "('e, 'w, 'a) eop \<Rightarrow> ('e + 'a \<Rightarrow> ('e, 'w, 'b) eop) \<Rightarrow> ('e, 'w, 'b) eop" where
  "tryE m k = (\<lambda>w. case m w of (r, w') \<Rightarrow> k r w')"

definition ignoreE :: "('e, 'w, 'a) eop \<Rightarrow> ('e, 'w, 'b) eop \<Rightarrow> ('e, 'w, 'b) eop" where
  "ignoreE m k = tryE m (\<lambda>_. k)"

definition getE :: "('w \<Rightarrow> ('e, 'w, 'a) eop) \<Rightarrow> ('e, 'w, 'a) eop" where
  "getE k = (\<lambda>w. k w w)"

definition guardE :: "bool \<Rightarrow> 'e \<Rightarrow> ('e, 'w, 'a) eop \<Rightarrow> ('e, 'w, 'a) eop" where
  "guardE bad e k = (if bad then failE e else k)"

definition liftE :: "'e + 'a \<Rightarrow> ('e, 'w, 'a) eop" where "liftE r = (\<lambda>w. (r, w))"

fun forE :: "'x list \<Rightarrow> ('x \<Rightarrow> ('e, 'w, unit) eop) \<Rightarrow> ('e, 'w, unit) eop" where
  "forE [] body = okE ()"
| "forE (x # xs) body = thenE (body x) (forE xs body)"

declare okE_def [op_defs] failE_def [op_defs] bindE_def [op_defs] thenE_def [op_defs]
  tryE_def [op_defs] ignoreE_def [op_defs] getE_def [op_defs] guardE_def [op_defs]
  liftE_def [op_defs]

text \<open>
  \<open>run_state m w\<close> and \<open>run_result m w\<close> name the two halves of an execution. They distribute over
  the combinators, so that a long handler is evaluated step by step instead of by one case split
  over all its branches.
\<close>

definition run_state :: "('e, 'w, 'a) eop \<Rightarrow> 'w \<Rightarrow> 'w" where "run_state m w = snd (m w)"
definition run_result :: "('e, 'w, 'a) eop \<Rightarrow> 'w \<Rightarrow> 'e + 'a" where "run_result m w = fst (m w)"

lemma okE_run [simp]: "okE a w = (Inr a, w)" by (simp add: okE_def)
lemma failE_run [simp]: "failE e w = (Inl e, w)" by (simp add: failE_def)
lemma liftE_run [simp]: "liftE r w = (r, w)" by (simp add: liftE_def)

lemma bindE_Inr [simp]: "m w = (Inr a, w') \<Longrightarrow> bindE m k w = k a w'"
  by (simp add: bindE_def)

lemma bindE_Inl [simp]: "m w = (Inl e, w') \<Longrightarrow> bindE m k w = (Inl e, w')"
  by (simp add: bindE_def)

lemma bindE_okE [simp]: "bindE (okE a) k = k a" by (rule ext) (simp add: bindE_def)
lemma bindE_failE [simp]: "bindE (failE e) k = failE e" by (rule ext) (simp add: bindE_def)
lemma thenE_failE [simp]: "thenE (failE e) k = failE e" by (simp add: thenE_def)
lemma thenE_okE [simp]: "thenE (okE a) k = k" by (simp add: thenE_def)

lemma bindE_assoc: "bindE (bindE m f) g = bindE m (\<lambda>a. bindE (f a) g)"
  by (rule ext) (simp add: bindE_def split: prod.split sum.split)

lemma bindE_InrD:
  "bindE m k w = (Inr b, w') \<Longrightarrow> \<exists>a w1. m w = (Inr a, w1) \<and> k a w1 = (Inr b, w')"
  by (auto simp: bindE_def split: prod.splits sum.splits)

lemma thenE_InrD:
  "thenE m k w = (Inr b, w') \<Longrightarrow> \<exists>a w1. m w = (Inr a, w1) \<and> k w1 = (Inr b, w')"
  by (auto simp: thenE_def dest: bindE_InrD)

lemma bindE_InrE:
  assumes "bindE m k w = (Inr b, w')"
  obtains a w1 where "m w = (Inr a, w1)" and "k a w1 = (Inr b, w')"
  using bindE_InrD [OF assms] by blast

lemma thenE_InrE:
  assumes "thenE m k w = (Inr b, w')"
  obtains a w1 where "m w = (Inr a, w1)" and "k w1 = (Inr b, w')"
  using thenE_InrD [OF assms] by blast

lemma guardE_InrD: "guardE bad e k w = (Inr b, w') \<Longrightarrow> \<not> bad \<and> k w = (Inr b, w')"
  by (auto simp: guardE_def split: if_splits)

lemma guardE_True [simp]: "guardE True e k = failE e" by (simp add: guardE_def)
lemma guardE_False [simp]: "guardE False e k = k" by (simp add: guardE_def)

section \<open>Preservation\<close>

text \<open>
  \<open>preserves R m\<close>: whatever \<open>m\<close> returns, the state it leaves is related by \<open>R\<close> to the state it
  started in. With a reflexive and transitive \<open>R\<close> the rules below compose it along any handler,
  on the successful path and on every error path at once.
\<close>

definition preserves :: "('w \<Rightarrow> 'w \<Rightarrow> bool) \<Rightarrow> ('e, 'w, 'a) eop \<Rightarrow> bool" where
  "preserves R m \<longleftrightarrow> (\<forall>w. R w (snd (m w)))"

locale step_preorder =
  fixes R :: "'w \<Rightarrow> 'w \<Rightarrow> bool"
  assumes R_refl: "R w w"
    and R_trans: "R u v \<Longrightarrow> R v w \<Longrightarrow> R u w"
begin

lemma preserves_ok: "preserves R (okE a)"
  by (simp add: preserves_def R_refl)

lemma preserves_fail: "preserves R (failE e)"
  by (simp add: preserves_def R_refl)

lemma preserves_lift: "preserves R (liftE r)"
  by (simp add: preserves_def R_refl)

lemma preserves_bind:
  assumes "preserves R m" and "\<And>a. preserves R (k a)"
  shows "preserves R (bindE m k)"
proof -
  have "R w (snd (bindE m k w))" for w
  proof (cases "m w")
    case (Pair r v)
    with assms(1) have "R w v" by (metis preserves_def snd_conv)
    with assms(2) Pair show ?thesis
      by (cases r) (auto simp: preserves_def bindE_def intro: R_trans)
  qed
  then show ?thesis by (simp add: preserves_def)
qed

lemma preserves_then:
  "preserves R m \<Longrightarrow> preserves R k \<Longrightarrow> preserves R (thenE m k)"
  by (simp add: thenE_def preserves_bind)

lemma preserves_try:
  assumes "preserves R m" and "\<And>r. preserves R (k r)"
  shows "preserves R (tryE m k)"
proof -
  have "R w (snd (tryE m k w))" for w
  proof (cases "m w")
    case (Pair r v)
    with assms(1) have "R w v" by (metis preserves_def snd_conv)
    with assms(2) Pair show ?thesis by (auto simp: preserves_def tryE_def intro: R_trans)
  qed
  then show ?thesis by (simp add: preserves_def)
qed

lemma preserves_ignore:
  "preserves R m \<Longrightarrow> preserves R k \<Longrightarrow> preserves R (ignoreE m k)"
  by (simp add: ignoreE_def preserves_try)

lemma preserves_get: "(\<And>w. preserves R (k w)) \<Longrightarrow> preserves R (getE k)"
  by (simp add: preserves_def getE_def)

lemma preserves_guard: "preserves R k \<Longrightarrow> preserves R (guardE b e k)"
  by (simp add: guardE_def preserves_fail)

lemma preserves_if:
  "preserves R m \<Longrightarrow> preserves R k \<Longrightarrow> preserves R (if b then m else k)"
  by simp

lemma preserves_case_option:
  "preserves R m \<Longrightarrow> (\<And>a. preserves R (k a)) \<Longrightarrow> preserves R (case x of None \<Rightarrow> m | Some a \<Rightarrow> k a)"
  by (cases x) auto

lemma preserves_case_sum:
  "(\<And>e. preserves R (m e)) \<Longrightarrow> (\<And>a. preserves R (k a)) \<Longrightarrow>
   preserves R (case x of Inl e \<Rightarrow> m e | Inr a \<Rightarrow> k a)"
  by (cases x) auto

lemma preserves_case_prod:
  "(\<And>a b. preserves R (k a b)) \<Longrightarrow> preserves R (case x of (a, b) \<Rightarrow> k a b)"
  by (cases x) auto

lemma preserves_let: "(\<And>a. preserves R (k a)) \<Longrightarrow> preserves R (let a = x in k a)"
  by (simp add: Let_def)

lemma preserves_for: "(\<And>x. preserves R (body x)) \<Longrightarrow> preserves R (forE xs body)"
  by (induction xs) (auto intro: preserves_ok preserves_then)

lemmas preserves_rules =
  preserves_ok preserves_fail preserves_lift preserves_bind preserves_then preserves_try
  preserves_ignore preserves_get preserves_guard preserves_if preserves_case_option
  preserves_case_sum preserves_case_prod preserves_let preserves_for

end

lemma preservesD: "preserves R m \<Longrightarrow> m w = (r, w') \<Longrightarrow> R w w'"
  by (metis preserves_def snd_conv)

end
