(* ===== verification/GoStrings.thy ===== *)
theory GoStrings
  imports Prelude "HOL-Library.Char_ord" "HOL-Library.List_Lexorder"
begin

text \<open>
  The string and number routines of the Go standard library that the program calls
  (packages \<open>strings\<close>, \<open>strconv\<close> and the \<open>%d\<close>, \<open>%q\<close> verbs of \<open>fmt\<close>). A Go string is a byte
  sequence, here a \<open>char list\<close>; case folding and white space are the ASCII part of the Unicode
  tables, which is all that identifiers, image references and statuses of this program contain.
\<close>

section \<open>Case and white space\<close>

definition is_space :: "char \<Rightarrow> bool" where
  "is_space c \<longleftrightarrow> c \<in> {CHR 0x09, CHR 0x0A, CHR 0x0B, CHR 0x0C, CHR 0x0D, CHR 0x20}"

definition case_table :: "(char \<times> char) list" where
  "case_table = zip ''ABCDEFGHIJKLMNOPQRSTUVWXYZ'' ''abcdefghijklmnopqrstuvwxyz''"

definition lower_char :: "char \<Rightarrow> char" where
  "lower_char c = (case map_of case_table c of None \<Rightarrow> c | Some d \<Rightarrow> d)"

definition ToLower :: "string \<Rightarrow> string" where "ToLower s = map lower_char s"

definition trim_left_by :: "(char \<Rightarrow> bool) \<Rightarrow> string \<Rightarrow> string" where
  "trim_left_by p s = dropWhile p s"

definition trim_right_by :: "(char \<Rightarrow> bool) \<Rightarrow> string \<Rightarrow> string" where
  "trim_right_by p s = rev (dropWhile p (rev s))"

definition TrimSpace :: "string \<Rightarrow> string" where
  "TrimSpace s = trim_right_by is_space (trim_left_by is_space s)"

definition EqualFold :: "string \<Rightarrow> string \<Rightarrow> bool" where
  "EqualFold a b \<longleftrightarrow> ToLower a = ToLower b"

section \<open>Prefixes, suffixes, splitting and joining\<close>

definition HasPrefix :: "string \<Rightarrow> string \<Rightarrow> bool" where
  "HasPrefix s p \<longleftrightarrow> take (length p) s = p"

definition HasSuffix :: "string \<Rightarrow> string \<Rightarrow> bool" where
  "HasSuffix s p \<longleftrightarrow> HasPrefix (rev s) (rev p)"

definition TrimPrefix :: "string \<Rightarrow> string \<Rightarrow> string" where
  "TrimPrefix s p = (if HasPrefix s p then drop (length p) s else s)"

definition TrimSuffix :: "string \<Rightarrow> string \<Rightarrow> string" where
  "TrimSuffix s p = (if HasSuffix s p then take (length s - length p) s else s)"

fun split_on :: "char \<Rightarrow> string \<Rightarrow> string list" where
  "split_on c [] = [[]]"
| "split_on c (x # xs) =
     (if x = c then [] # split_on c xs
      else (case split_on c xs of [] \<Rightarrow> [[x]] | p # ps \<Rightarrow> (x # p) # ps))"

fun join_with :: "string \<Rightarrow> string list \<Rightarrow> string" where
  "join_with sep [] = []"
| "join_with sep [s] = s"
| "join_with sep (s # t # ts) = s @ sep @ join_with sep (t # ts)"

definition Contains :: "string \<Rightarrow> string \<Rightarrow> bool" where
  "Contains s p \<longleftrightarrow> (\<exists>i \<in> set [0 ..< Suc (length s)]. HasPrefix (drop i s) p)"

text \<open>\<open>strings.SplitN(s, ".", 2)\<close>: everything after the first separator stays in one piece.\<close>

definition split_first :: "char \<Rightarrow> string \<Rightarrow> string \<times> string option" where
  "split_first c s =
     (case dropWhile (\<lambda>x. x \<noteq> c) s of
        [] \<Rightarrow> (s, None) | _ # rest \<Rightarrow> (takeWhile (\<lambda>x. x \<noteq> c) s, Some rest))"

section \<open>Decimal numbers\<close>

definition digit_char :: "nat \<Rightarrow> char" where "digit_char d = ''0123456789'' ! d"

definition digit_val :: "char \<Rightarrow> nat option" where
  "digit_val c = map_of (zip ''0123456789'' [0, 1, 2, 3, 4, 5, 6, 7, 8, 9]) c"

fun fmt_nat :: "nat \<Rightarrow> string" where
  "fmt_nat n = (if n < 10 then [digit_char n] else fmt_nat (n div 10) @ [digit_char (n mod 10)])"

declare fmt_nat.simps [simp del]

text \<open>\<open>strconv.FormatInt(n, 10)\<close> and the verb \<open>%d\<close>.\<close>

definition fmt_int :: "int \<Rightarrow> string" where
  "fmt_int n = (if n < 0 then ''-'' @ fmt_nat (nat (- n)) else fmt_nat (nat n))"

fun parse_digits :: "nat \<Rightarrow> string \<Rightarrow> nat option" where
  "parse_digits acc [] = Some acc"
| "parse_digits acc (c # cs) =
     (case digit_val c of None \<Rightarrow> None | Some d \<Rightarrow> parse_digits (10 * acc + d) cs)"

definition parse_uint :: "string \<Rightarrow> nat option" where
  "parse_uint s = (if s = [] then None else parse_digits 0 s)"

definition check_int64 :: "int \<Rightarrow> int option" where
  "check_int64 n = (if in_int64 n then Some n else None)"

text \<open>\<open>strconv.ParseInt(s, 10, 64)\<close>: an optional sign, at least one digit, a range check.\<close>

definition ParseInt :: "string \<Rightarrow> int option" where
  "ParseInt s =
     (case s of
        [] \<Rightarrow> None
      | c # cs \<Rightarrow>
          (if c = CHR ''-'' then Option.bind (parse_uint cs) (\<lambda>n. check_int64 (- int n))
           else if c = CHR ''+'' then Option.bind (parse_uint cs) (\<lambda>n. check_int64 (int n))
           else Option.bind (parse_uint s) (\<lambda>n. check_int64 (int n))))"

text \<open>The verb \<open>%q\<close> on printable text: quotation marks and backslashes are escaped.\<close>

fun escape_chars :: "string \<Rightarrow> string" where
  "escape_chars [] = []"
| "escape_chars (c # cs) =
     (if c = CHR 0x22 \<or> c = CHR 0x5C then [CHR 0x5C, c] else [c]) @ escape_chars cs"

definition quote :: "string \<Rightarrow> string" where
  "quote s = [CHR 0x22] @ escape_chars s @ [CHR 0x22]"

section \<open>Facts on case and white space\<close>

lemma case_table_entries:
  "list_all (\<lambda>(c, d). map_of case_table d = None \<and> \<not> is_space d \<and> \<not> is_space c) case_table"
  by code_simp

lemma case_table_entry:
  assumes "map_of case_table c = Some d"
  shows "map_of case_table d = None \<and> \<not> is_space d \<and> \<not> is_space c"
  using map_of_SomeD [OF assms] case_table_entries unfolding list_all_iff by blast

lemma lower_char_idem [simp]: "lower_char (lower_char c) = lower_char c"
  by (auto simp: lower_char_def dest: case_table_entry split: option.split)

lemma is_space_lower_char [simp]: "is_space (lower_char c) = is_space c"
  by (auto simp: lower_char_def dest: case_table_entry split: option.split)

lemma ToLower_idem [simp]: "ToLower (ToLower s) = ToLower s"
  by (simp add: ToLower_def)

lemma ToLower_Nil [simp]: "ToLower [] = []"
  by (simp add: ToLower_def)

lemma ToLower_eq_Nil [simp]: "ToLower s = [] \<longleftrightarrow> s = []"
  by (simp add: ToLower_def)

lemma dropWhile_map_lower:
  "dropWhile is_space (map lower_char s) = map lower_char (dropWhile is_space s)"
  by (induction s) auto

lemma TrimSpace_ToLower: "TrimSpace (ToLower s) = ToLower (TrimSpace s)"
  by (simp add: TrimSpace_def trim_left_by_def trim_right_by_def ToLower_def dropWhile_map_lower
      rev_map)

lemma dropWhile_idem': "dropWhile p (dropWhile p s) = dropWhile p s"
  by (induction s) auto

lemma hd_dropWhile_not: "dropWhile p s = x # xs \<Longrightarrow> \<not> p x"
  by (induction s) (auto split: if_splits)

lemma trim_right_snoc:
  "trim_right_by p s = [] \<or> (\<exists>xs x. trim_right_by p s = xs @ [x] \<and> \<not> p x)"
proof (cases "dropWhile p (rev s)")
  case Nil
  then show ?thesis by (simp add: trim_right_by_def)
next
  case (Cons a list)
  then show ?thesis using hd_dropWhile_not [OF Cons] by (simp add: trim_right_by_def)
qed

lemma trim_right_fixed: "\<not> p x \<Longrightarrow> trim_right_by p (xs @ [x]) = xs @ [x]"
  by (simp add: trim_right_by_def)

lemma trim_right_decomp: "\<exists>zs. s = trim_right_by p s @ zs \<and> (\<forall>z \<in> set zs. p z)"
proof -
  have "rev s = takeWhile p (rev s) @ dropWhile p (rev s)" by simp
  then have "s = rev (dropWhile p (rev s)) @ rev (takeWhile p (rev s))"
    by (metis rev_append rev_rev_ident)
  then show ?thesis unfolding trim_right_by_def
    by (metis set_rev set_takeWhileD)
qed

lemma trim_left_of_trim_right:
  assumes "dropWhile p s = s"
  shows "dropWhile p (trim_right_by p s) = trim_right_by p s"
proof (cases "trim_right_by p s")
  case (Cons a as)
  obtain zs where "s = trim_right_by p s @ zs" using trim_right_decomp by blast
  then have "s = a # (as @ zs)" using Cons by simp
  with assms have "\<not> p a" by (metis hd_dropWhile_not)
  with Cons show ?thesis by simp
qed simp

lemma TrimSpace_idem [simp]: "TrimSpace (TrimSpace s) = TrimSpace s"
proof -
  let ?l = "dropWhile is_space s"
  have "dropWhile is_space (trim_right_by is_space ?l) = trim_right_by is_space ?l"
    by (rule trim_left_of_trim_right) (rule dropWhile_idem')
  moreover have "trim_right_by is_space (trim_right_by is_space ?l) = trim_right_by is_space ?l"
    by (simp add: trim_right_by_def dropWhile_idem')
  ultimately show ?thesis by (simp add: TrimSpace_def trim_left_by_def)
qed

lemma TrimSpace_Nil [simp]: "TrimSpace [] = []"
  by (simp add: TrimSpace_def trim_left_by_def trim_right_by_def)

lemma set_dropWhile_subset: "set (dropWhile p s) \<subseteq> set s"
  by (induction s) auto

lemma set_TrimSpace: "set (TrimSpace s) \<subseteq> set s"
proof -
  have "set (rev (dropWhile is_space (rev (dropWhile is_space s)))) \<subseteq> set (dropWhile is_space s)"
    using set_dropWhile_subset [of is_space "rev (dropWhile is_space s)"] by simp
  also have "\<dots> \<subseteq> set s" by (rule set_dropWhile_subset)
  finally show ?thesis by (simp add: TrimSpace_def trim_left_by_def trim_right_by_def)
qed

section \<open>Facts on splitting and joining\<close>

lemma split_on_nonempty [simp]: "split_on c s \<noteq> []"
  by (induction s) (auto split: list.split)

lemma split_on_no_sep: "c \<notin> set s \<Longrightarrow> split_on c s = [s]"
  by (induction s) auto

lemma split_on_append_sep:
  "c \<notin> set s \<Longrightarrow> split_on c (s @ c # t) = s # split_on c t"
  by (induction s) auto

lemma split_join_with:
  "ss \<noteq> [] \<Longrightarrow> \<forall>s \<in> set ss. c \<notin> set s \<Longrightarrow> split_on c (join_with [c] ss) = ss"
  by (induction "[c]" ss rule: join_with.induct) (auto simp: split_on_no_sep split_on_append_sep)

lemma join_split_with: "join_with [c] (split_on c s) = s"
proof (induction s)
  case (Cons x xs)
  then show ?case
    by (cases "split_on c xs" rule: list.exhaust; cases "tl (split_on c xs)") auto
qed simp

lemma split_on_parts_no_sep: "p \<in> set (split_on c s) \<Longrightarrow> c \<notin> set p"
  by (induction s arbitrary: p) (auto split: list.splits if_splits)

lemma HasPrefix_append [simp]: "HasPrefix (p @ s) p"
  by (simp add: HasPrefix_def)

lemma HasPrefix_iff: "HasPrefix s p \<longleftrightarrow> (\<exists>t. s = p @ t)"
  by (metis HasPrefix_append HasPrefix_def append_take_drop_id)

lemma HasSuffix_iff: "HasSuffix s p \<longleftrightarrow> (\<exists>t. s = t @ p)"
  unfolding HasSuffix_def HasPrefix_iff by (metis rev_append rev_rev_ident)

section \<open>Round trip of decimal numbers\<close>

lemma digit_val_char: "d < 10 \<Longrightarrow> digit_val (digit_char d) = Some d"
proof -
  assume "d < 10"
  then have "d \<in> {0, 1, 2, 3, 4, 5, 6, 7, 8, 9}" by auto
  then show ?thesis by (auto simp: digit_val_def digit_char_def)
qed

lemma digit_char_not_sign:
  "d < 10 \<Longrightarrow> digit_char d \<noteq> CHR ''-'' \<and> digit_char d \<noteq> CHR ''+'' \<and> digit_char d \<noteq> CHR ''.'' \<and>
   digit_char d \<noteq> CHR ''m'' \<and> \<not> is_space (digit_char d)"
proof -
  assume "d < 10"
  then have "d \<in> {0, 1, 2, 3, 4, 5, 6, 7, 8, 9}" by auto
  then show ?thesis by (auto simp: digit_char_def is_space_def)
qed

lemma parse_digits_append:
  "parse_digits acc (xs @ ys) =
     (case parse_digits acc xs of None \<Rightarrow> None | Some n \<Rightarrow> parse_digits n ys)"
  by (induction xs arbitrary: acc) (auto split: option.split)

lemma parse_digits_fmt_nat: "parse_digits 0 (fmt_nat n) = Some n"
proof (induction n rule: fmt_nat.induct)
  case (1 n)
  then show ?case
    by (cases "n < 10") (auto simp: fmt_nat.simps [of n] digit_val_char parse_digits_append)
qed

lemma fmt_nat_nonempty [simp]: "fmt_nat n \<noteq> []"
  by (subst fmt_nat.simps) simp

lemma fmt_nat_digits: "c \<in> set (fmt_nat n) \<Longrightarrow> \<exists>d < 10. c = digit_char d"
proof (induction n rule: fmt_nat.induct)
  case (1 n)
  show ?case
  proof (cases "n < 10")
    case True
    with "1.prems" show ?thesis by (auto simp: fmt_nat.simps [of n])
  next
    case False
    with "1.prems" have "c \<in> set (fmt_nat (n div 10)) \<or> c = digit_char (n mod 10)"
      by (auto simp: fmt_nat.simps [of n])
    then show ?thesis using "1.IH" [OF False] by (metis mod_less_divisor zero_less_numeral)
  qed
qed

lemma parse_uint_fmt_nat [simp]: "parse_uint (fmt_nat n) = Some n"
  by (simp add: parse_uint_def parse_digits_fmt_nat)

lemma fmt_nat_hd_not_sign:
  "fmt_nat n = c # cs \<Longrightarrow> c \<noteq> CHR ''-'' \<and> c \<noteq> CHR ''+''"
  using fmt_nat_digits [of c n] digit_char_not_sign by (metis list.set_intros(1))

lemma fmt_nat_clean:
  "CHR ''.'' \<notin> set (fmt_nat n) \<and> CHR ''m'' \<notin> set (fmt_nat n) \<and> (\<forall>c \<in> set (fmt_nat n). \<not> is_space c)"
  using fmt_nat_digits digit_char_not_sign by metis

lemma ParseInt_fmt_int: "in_int64 n \<Longrightarrow> ParseInt (fmt_int n) = Some n"
proof (cases "n < 0")
  case True
  assume "in_int64 n"
  with True show ?thesis by (simp add: ParseInt_def fmt_int_def check_int64_def)
next
  case False
  assume n: "in_int64 n"
  obtain c cs where f: "fmt_nat (nat n) = c # cs" by (cases "fmt_nat (nat n)") auto
  have "parse_uint (c # cs) = Some (nat n)" using f by (metis parse_uint_fmt_nat)
  with False n f fmt_nat_hd_not_sign [OF f] show ?thesis
    by (simp add: ParseInt_def fmt_int_def check_int64_def)
qed

end
