(* ===== verification/Model.thy ===== *)
theory Model
  imports GoStrings
begin

text \<open>
  The package \<open>internal/model\<close>: the string enumerations, the records that travel between the layers,
  runtime selections and classes, CPU quantities, feature normalisation and network policy. A Go
  string enumeration is a datatype with one constructor per declared constant and one for any other
  text; the functions \<open>..._string\<close> and \<open>..._of\<close> are the conversions to and from the text.
\<close>

section \<open>Enumerations\<close>

datatype sandbox_status =
    StatusCreating | StatusBooting | StatusDegraded | StatusStopped | StatusStarting
  | StatusRunning | StatusSuspending | StatusSuspended | StatusStopping | StatusDeleting
  | StatusDeleted | StatusError | StatusOther string

fun status_string :: "sandbox_status \<Rightarrow> string" where
  "status_string StatusCreating = ''creating''"
| "status_string StatusBooting = ''booting''"
| "status_string StatusDegraded = ''degraded''"
| "status_string StatusStopped = ''stopped''"
| "status_string StatusStarting = ''starting''"
| "status_string StatusRunning = ''running''"
| "status_string StatusSuspending = ''suspending''"
| "status_string StatusSuspended = ''suspended''"
| "status_string StatusStopping = ''stopping''"
| "status_string StatusDeleting = ''deleting''"
| "status_string StatusDeleted = ''deleted''"
| "status_string StatusError = ''error''"
| "status_string (StatusOther s) = s"

datatype network_mode = InternetEnabled | InternetDisabled | OtherNetworkMode string

fun network_mode_string :: "network_mode \<Rightarrow> string" where
  "network_mode_string InternetEnabled = ''internet-enabled''"
| "network_mode_string InternetDisabled = ''internet-disabled''"
| "network_mode_string (OtherNetworkMode s) = s"

datatype tunnel_protocol = TunnelHTTP | TunnelTCP | OtherProtocol string

fun tunnel_protocol_string :: "tunnel_protocol \<Rightarrow> string" where
  "tunnel_protocol_string TunnelHTTP = ''http''"
| "tunnel_protocol_string TunnelTCP = ''tcp''"
| "tunnel_protocol_string (OtherProtocol s) = s"

datatype snapshot_status = SnapshotCreating | SnapshotReady | SnapshotError | OtherSnapshotStatus string

fun snapshot_status_string :: "snapshot_status \<Rightarrow> string" where
  "snapshot_status_string SnapshotCreating = ''creating''"
| "snapshot_status_string SnapshotReady = ''ready''"
| "snapshot_status_string SnapshotError = ''error''"
| "snapshot_status_string (OtherSnapshotStatus s) = s"

datatype execution_status =
    ExecRunning | ExecDetached | ExecSucceeded | ExecFailed | ExecTimedOut | ExecCanceled
  | OtherExecStatus string

fun execution_status_string :: "execution_status \<Rightarrow> string" where
  "execution_status_string ExecRunning = ''running''"
| "execution_status_string ExecDetached = ''detached''"
| "execution_status_string ExecSucceeded = ''succeeded''"
| "execution_status_string ExecFailed = ''failed''"
| "execution_status_string ExecTimedOut = ''timed_out''"
| "execution_status_string ExecCanceled = ''canceled''"
| "execution_status_string (OtherExecStatus s) = s"

datatype guest_profile =
    ProfileCore | ProfileRuntime | ProfileBrowser | ProfileContainer | ProfileDebug
  | OtherProfile string

fun profile_string :: "guest_profile \<Rightarrow> string" where
  "profile_string ProfileCore = ''core''"
| "profile_string ProfileRuntime = ''runtime''"
| "profile_string ProfileBrowser = ''browser''"
| "profile_string ProfileContainer = ''container''"
| "profile_string ProfileDebug = ''debug''"
| "profile_string (OtherProfile s) = s"

abbreviation no_profile :: guest_profile where "no_profile \<equiv> OtherProfile []"

fun profile_IsValid :: "guest_profile \<Rightarrow> bool" where
  "profile_IsValid (OtherProfile s) = False"
| "profile_IsValid _ = True"

datatype control_mode = ControlAgent | ControlSSHCompat | OtherControlMode string

fun control_mode_string :: "control_mode \<Rightarrow> string" where
  "control_mode_string ControlAgent = ''agent''"
| "control_mode_string ControlSSHCompat = ''ssh-compat''"
| "control_mode_string (OtherControlMode s) = s"

abbreviation no_control_mode :: control_mode where "no_control_mode \<equiv> OtherControlMode []"

fun control_mode_IsValid :: "control_mode \<Rightarrow> bool" where
  "control_mode_IsValid (OtherControlMode s) = False"
| "control_mode_IsValid _ = True"

section \<open>Runtime selections and classes\<close>

datatype runtime_selection =
    DockerDev | ContainerdKataProfessional | QEMUProfessional | OtherSelection string

abbreviation no_selection :: runtime_selection where "no_selection \<equiv> OtherSelection []"

fun selection_string :: "runtime_selection \<Rightarrow> string" where
  "selection_string DockerDev = ''docker-dev''"
| "selection_string ContainerdKataProfessional = ''containerd-kata-professional''"
| "selection_string QEMUProfessional = ''qemu-professional''"
| "selection_string (OtherSelection s) = s"

datatype runtime_class = ClassTrustedDocker | ClassVM | OtherClass string

abbreviation no_class :: runtime_class where "no_class \<equiv> OtherClass []"

definition BackendToRuntimeClass :: "string \<Rightarrow> runtime_class" where
  "BackendToRuntimeClass backend =
     (if backend = ''docker'' then ClassTrustedDocker
      else if backend = ''kata'' then ClassVM
      else if backend = ''qemu'' then ClassVM
      else no_class)"

definition RuntimeSelectionFromBackend :: "string \<Rightarrow> runtime_selection" where
  "RuntimeSelectionFromBackend backend =
     (let b = ToLower (TrimSpace backend) in
      if b = ''docker'' then DockerDev
      else if b = ''kata'' then ContainerdKataProfessional
      else if b = ''qemu'' then QEMUProfessional
      else no_selection)"

fun selection_IsValid :: "runtime_selection \<Rightarrow> bool" where
  "selection_IsValid (OtherSelection s) = False"
| "selection_IsValid _ = True"

text \<open>
  The conversion of a text to the enumeration; \<open>ParseRuntimeSelection\<close> first normalises the text and
  drops anything that is not one of the three declared constants.
\<close>

definition selection_of :: "string \<Rightarrow> runtime_selection" where
  "selection_of s =
     (if s = ''docker-dev'' then DockerDev
      else if s = ''containerd-kata-professional'' then ContainerdKataProfessional
      else if s = ''qemu-professional'' then QEMUProfessional
      else OtherSelection s)"

definition ParseRuntimeSelection :: "string \<Rightarrow> runtime_selection" where
  "ParseRuntimeSelection value =
     (let selection = selection_of (ToLower (TrimSpace value)) in
      if \<not> selection_IsValid selection then no_selection else selection)"

definition ResolveRuntimeSelection :: "runtime_selection \<Rightarrow> string \<Rightarrow> runtime_selection" where
  "ResolveRuntimeSelection selection backend =
     (if selection_IsValid selection then selection else RuntimeSelectionFromBackend backend)"

fun Backend :: "runtime_selection \<Rightarrow> string" where
  "Backend DockerDev = ''docker''"
| "Backend ContainerdKataProfessional = ''kata''"
| "Backend QEMUProfessional = ''qemu''"
| "Backend (OtherSelection s) = []"

definition RuntimeClass :: "runtime_selection \<Rightarrow> runtime_class" where
  "RuntimeClass s = BackendToRuntimeClass (Backend s)"

definition class_IsVMBacked :: "runtime_class \<Rightarrow> bool" where
  "class_IsVMBacked c \<longleftrightarrow> c = ClassVM"

definition IsVMBacked :: "runtime_selection \<Rightarrow> bool" where
  "IsVMBacked s \<longleftrightarrow> class_IsVMBacked (RuntimeClass s)"

section \<open>Errors\<close>

text \<open>
  The error values the layers distinguish with \<open>errors.Is\<close> or a type assertion have a constructor of
  their own; \<open>Err\<close> carries the text of every other error the program makes, \<open>DriverError\<close>,
  \<open>OSError\<close> and \<open>RuntimeFailure\<close> stand for what the database driver, the operating system and a
  runtime backend report.
\<close>

datatype goerr =
    ErrNotFound
  | ErrForbidden string
  | AdmissionError string bool
  | ErrFileTransferTooLarge int
  | RuntimeUnavailableError runtime_selection string
  | UnsupportedRuntimeOperationError runtime_selection string
  | ErrMetadataUnavailable
  | DriverError
  | OSError string
  | RuntimeFailure string
  | MaxBytesError int
  | Err string

fun err_text :: "goerr \<Rightarrow> string" where
  "err_text ErrNotFound = ''not found''"
| "err_text (ErrForbidden m) = (if m = [] then ''forbidden'' else ''forbidden: '' @ m)"
| "err_text (AdmissionError m r) = m"
| "err_text (ErrFileTransferTooLarge n) =
     ''workspace file transfer too large: workspace file exceeds maximum transfer size of ''
     @ fmt_int n @ '' bytes''"
| "err_text (RuntimeUnavailableError sel oper) =
     ''runtime selection '' @ quote (selection_string sel) @ '' is unavailable for '' @ oper"
| "err_text (UnsupportedRuntimeOperationError sel oper) =
     (if selection_string sel \<noteq> [] then
        ''runtime '' @ [CHR 0x22] @ selection_string sel @ [CHR 0x22] @ '' does not support '' @ oper
      else ''runtime does not support '' @ oper)"
| "err_text ErrMetadataUnavailable = ''docker image metadata unavailable''"
| "err_text DriverError = ''database error''"
| "err_text (OSError m) = m"
| "err_text (RuntimeFailure m) = m"
| "err_text (MaxBytesError n) = ''http: request body too large''"
| "err_text (Err m) = m"

section \<open>CPU quantities\<close>

type_synonym cpu_quantity = int

definition milliCPUPerCore :: int where "milliCPUPerCore = 1000"

definition CPUCores :: "int \<Rightarrow> cpu_quantity" where
  "CPUCores value = mul64 value milliCPUPerCore"

definition pad_fraction :: "string \<Rightarrow> string" where
  "pad_fraction f = f @ replicate (3 - length f) (CHR ''0'')"

definition ParseCPUQuantity :: "string \<Rightarrow> goerr + cpu_quantity" where
  "ParseCPUQuantity value =
     (let trimmed = TrimSpace value in
      if trimmed = [] then Inl (Err ''cpu value is required'')
      else if HasSuffix trimmed ''m'' then
        (case ParseInt (TrimSuffix trimmed ''m'') of
           None \<Rightarrow> Inl (Err (''parse cpu milli value '' @ quote value))
         | Some millis \<Rightarrow> Inr millis)
      else
        (let (wholeText, rest) = split_first (CHR ''.'') trimmed in
         case ParseInt wholeText of
           None \<Rightarrow> Inl (Err (''parse cpu cores '' @ quote value))
         | Some whole \<Rightarrow>
             (let millis = mul64 whole milliCPUPerCore in
              case rest of
                None \<Rightarrow> Inr millis
              | Some fractional \<Rightarrow>
                  (if fractional = [] then
                     Inl (Err (''parse cpu cores '' @ quote value @ '': missing fractional digits''))
                   else if 3 < length fractional then
                     Inl (Err (''parse cpu cores '' @ quote value
                       @ '': supports at most 3 decimal places''))
                   else
                     (case ParseInt (pad_fraction fractional) of
                        None \<Rightarrow> Inl (Err (''parse cpu cores '' @ quote value))
                      | Some fractionalMillis \<Rightarrow>
                          (let signed = (if HasPrefix trimmed ''-'' then - fractionalMillis
                                         else fractionalMillis) in
                           Inr (add64 millis signed)))))))"

definition pad3 :: "nat \<Rightarrow> string" where
  "pad3 n = replicate (3 - length (fmt_nat n)) (CHR ''0'') @ fmt_nat n"

text \<open>
  \<open>String\<close>; the negation of the most negative quantity wraps, and a negative remainder is then printed
  with its sign by \<open>%03d\<close>.
\<close>

definition CPU_String :: "cpu_quantity \<Rightarrow> string" where
  "CPU_String q =
     (if go_mod q milliCPUPerCore = 0 then fmt_int (go_div q milliCPUPerCore)
      else
        (let sign = (if q < 0 then ''-'' else []);
             value = (if q < 0 then wrap64 (- q) else q);
             whole = go_div value milliCPUPerCore;
             fractional = go_mod value milliCPUPerCore;
             decimal = (if fractional < 0 then fmt_int fractional else pad3 (nat fractional))
         in sign @ fmt_int whole @ ''.'' @ trim_right_by (\<lambda>c. c = CHR ''0'') decimal))"

definition MilliValue :: "cpu_quantity \<Rightarrow> int" where "MilliValue q = q"

text \<open>
  The whole-core ceiling; the source rounds the quotient of two floating-point numbers, which is this
  integer ceiling for every quantity below \<open>2^50\<close> milli-CPU.
\<close>

definition VCPUCount :: "cpu_quantity \<Rightarrow> int" where
  "VCPUCount q = (if q \<le> 0 then 1 else - ((- q) div milliCPUPerCore))"

section \<open>Feature lists\<close>

definition DefaultGuestControlProtocolVersion :: string where
  "DefaultGuestControlProtocolVersion = ''3''"
definition DefaultWorkspaceContractVersion :: string where
  "DefaultWorkspaceContractVersion = ''1''"
definition DefaultImageContractVersion :: string where
  "DefaultImageContractVersion = ''1''"

fun normalize_loop :: "string list \<Rightarrow> string list \<Rightarrow> string list" where
  "normalize_loop seen [] = []"
| "normalize_loop seen (value # values) =
     (let v = ToLower (TrimSpace value) in
      if v = [] then normalize_loop seen values
      else if v \<in> set seen then normalize_loop seen values
      else v # normalize_loop (v # seen) values)"

definition NormalizeFeatures :: "string list \<Rightarrow> string list" where
  "NormalizeFeatures values = sort (normalize_loop [] values)"

definition NormalizeCapabilities :: "string list \<Rightarrow> string list" where
  "NormalizeCapabilities values = NormalizeFeatures values"

section \<open>Records\<close>

text \<open>Instants are nanoseconds since the Unix epoch; the zero instant of Go is the year 1.\<close>

type_synonym time = int

definition zero_time :: time where "zero_time = - 62135596800000000000"

definition IsZero :: "time \<Rightarrow> bool" where "IsZero t \<longleftrightarrow> t = zero_time"

text \<open>\<open>time.Time.Sub\<close> saturates at the range of a duration.\<close>

definition time_Sub :: "time \<Rightarrow> time \<Rightarrow> int" where
  "time_Sub a b = max min_int64 (min max_int64 (a - b))"

record sandbox =
  sb_ID :: string
  sb_TenantID :: string
  sb_Status :: sandbox_status
  sb_RuntimeSelection :: runtime_selection
  sb_RuntimeBackend :: string
  sb_RuntimeClass :: runtime_class
  sb_BaseImageRef :: string
  sb_Profile :: guest_profile
  sb_Features :: "string list"
  sb_Capabilities :: "string list"
  sb_ControlMode :: control_mode
  sb_ControlProtocolVersion :: string
  sb_WorkspaceContractVersion :: string
  sb_ImageContractVersion :: string
  sb_CPULimit :: cpu_quantity
  sb_MemoryLimitMB :: int
  sb_PIDsLimit :: int
  sb_DiskLimitMB :: int
  sb_NetworkMode :: network_mode
  sb_AllowTunnels :: bool
  sb_StorageRoot :: string
  sb_WorkspaceRoot :: string
  sb_CacheRoot :: string
  sb_RuntimeID :: string
  sb_RuntimeStatus :: string
  sb_LastRuntimeError :: string
  sb_CreatedAt :: time
  sb_UpdatedAt :: time
  sb_LastActiveAt :: time
  sb_DeletedAt :: "time option"

record create_request =
  cr_RuntimeSelection :: runtime_selection
  cr_BaseImageRef :: string
  cr_Profile :: guest_profile
  cr_Features :: "string list"
  cr_Capabilities :: "string list"
  cr_DangerousProfileReason :: string
  cr_CPULimit :: cpu_quantity
  cr_MemoryLimitMB :: int
  cr_PIDsLimit :: int
  cr_DiskLimitMB :: int
  cr_NetworkMode :: network_mode
  cr_AllowTunnels :: "bool option"
  cr_Start :: bool

record exec_request =
  xr_Command :: "string list"
  xr_Env :: "(string \<times> string) list"
  xr_Cwd :: string
  xr_Timeout :: int
  xr_Detached :: bool

record execution =
  ex_ID :: string
  ex_SandboxID :: string
  ex_TenantID :: string
  ex_Command :: string
  ex_Cwd :: string
  ex_TimeoutSeconds :: int
  ex_Status :: execution_status
  ex_ExitCode :: "int option"
  ex_StdoutPreview :: string
  ex_StderrPreview :: string
  ex_StdoutTruncated :: bool
  ex_StderrTruncated :: bool
  ex_StartedAt :: time
  ex_CompletedAt :: "time option"
  ex_DurationMS :: "int option"

record tty_request =
  tr_Command :: "string list"
  tr_Env :: "(string \<times> string) list"
  tr_Cwd :: string
  tr_Cols :: int
  tr_Rows :: int

record tty_session =
  tty_ID :: string
  tty_SandboxID :: string
  tty_TenantID :: string
  tty_Command :: string
  tty_Connected :: bool
  tty_CreatedAt :: time
  tty_ClosedAt :: "time option"
  tty_LastResize :: string

record tunnel_request =
  tq_TargetPort :: int
  tq_Protocol :: tunnel_protocol
  tq_AuthMode :: string
  tq_Visibility :: string

record tunnel_access =
  ta_RequiresTenantToken :: bool
  ta_TunnelTokenHeader :: string
  ta_TunnelTokenQuery :: string
  ta_ExampleCurl :: string

record tunnel =
  tun_ID :: string
  tun_SandboxID :: string
  tun_TenantID :: string
  tun_TargetPort :: int
  tun_Protocol :: tunnel_protocol
  tun_AuthMode :: string
  tun_Visibility :: string
  tun_Endpoint :: string
  tun_AccessToken :: string
  tun_Access :: tunnel_access
  tun_AuthSecretHash :: string
  tun_CreatedAt :: time
  tun_RevokedAt :: "time option"

record snapshot =
  sn_ID :: string
  sn_SandboxID :: string
  sn_TenantID :: string
  sn_Name :: string
  sn_Status :: snapshot_status
  sn_ImageRef :: string
  sn_RuntimeSelection :: runtime_selection
  sn_RuntimeBackend :: string
  sn_Profile :: guest_profile
  sn_ImageContractVersion :: string
  sn_ControlProtocolVersion :: string
  sn_WorkspaceContractVersion :: string
  sn_WorkspaceTar :: string
  sn_BundleSHA256 :: string
  sn_ExportLocation :: string
  sn_CreatedAt :: time
  sn_CompletedAt :: "time option"

record tenant =
  tn_ID :: string
  tn_Name :: string
  tn_TokenHash :: string
  tn_CreatedAt :: time

record tenant_quota =
  q_TenantID :: string
  q_MaxSandboxes :: int
  q_MaxRunningSandboxes :: int
  q_MaxConcurrentExecs :: int
  q_MaxTunnels :: int
  q_MaxCPUCores :: cpu_quantity
  q_MaxMemoryMB :: int
  q_MaxStorageMB :: int
  q_AllowTunnels :: bool
  q_DefaultTunnelAuthMode :: string
  q_DefaultTunnelVisibility :: string

record audit_event =
  au_ID :: string
  au_TenantID :: string
  au_SandboxID :: string
  au_Action :: string
  au_ResourceID :: string
  au_Outcome :: string
  au_Message :: string
  au_CreatedAt :: time

record service_account =
  sa_ID :: string
  sa_TenantID :: string
  sa_Name :: string
  sa_Scopes :: "string list"
  sa_Disabled :: bool
  sa_ExpiresAt :: "time option"
  sa_CreatedAt :: time
  sa_RevokedAt :: "time option"

record promoted_image =
  pi_ImageRef :: string
  pi_ImageSHA256 :: string
  pi_Profile :: guest_profile
  pi_ControlMode :: control_mode
  pi_ControlProtocolVersion :: string
  pi_ContractVersion :: string
  pi_ProvenanceJSON :: string
  pi_VerificationStatus :: string
  pi_PromotionStatus :: string
  pi_PromotedAt :: "time option"
  pi_PromotedBy :: string

record release_evidence =
  re_ID :: string
  re_GateName :: string
  re_HostFingerprint :: string
  re_RuntimeSelection :: runtime_selection
  re_ImageRef :: string
  re_Profile :: guest_profile
  re_Outcome :: string
  re_ArtifactPath :: string
  re_StartedAt :: time
  re_CompletedAt :: "time option"

record tunnel_capability =
  cap_ID :: string
  cap_TunnelID :: string
  cap_NonceHash :: string
  cap_Path :: string
  cap_ExpiresAt :: time
  cap_ConsumedAt :: "time option"
  cap_RevokedAt :: "time option"
  cap_CreatedAt :: time

record agent_sessions =
  as_SessionsOpened :: "64 word"
  as_SessionsReused :: "64 word"
  as_SessionsInvalidated :: "64 word"
  as_SessionsClosed :: "64 word"
  as_BufferedExecEvents :: "64 word"
  as_BufferedFileEvents :: "64 word"
  as_DroppedExecEvents :: "64 word"
  as_DroppedFileEvents :: "64 word"

record runtime_state =
  rs_RuntimeID :: string
  rs_Status :: sandbox_status
  rs_Running :: bool
  rs_Pid :: int
  rs_IPAddress :: string
  rs_ControlMode :: control_mode
  rs_ControlProtocolVersion :: string
  rs_StartedAt :: "time option"
  rs_Error :: string

record exec_result =
  er_ExitCode :: int
  er_Status :: execution_status
  er_CompletedAt :: time
  er_Duration :: int
  er_StdoutTruncated :: bool
  er_StderrTruncated :: bool

record snapshot_info =
  si_ImageRef :: string
  si_WorkspaceTar :: string

record storage_usage =
  su_RootfsBytes :: int
  su_WorkspaceBytes :: int
  su_CacheBytes :: int
  su_SnapshotBytes :: int
  su_RootfsEntries :: int
  su_WorkspaceEntries :: int
  su_CacheEntries :: int
  su_SnapshotEntries :: int

datatype storage_class = StorageWorkspace | StorageCache | StorageScratch | StorageSecrets | StorageSnapshot

fun storage_class_string :: "storage_class \<Rightarrow> string" where
  "storage_class_string StorageWorkspace = ''workspace''"
| "storage_class_string StorageCache = ''cache''"
| "storage_class_string StorageScratch = ''scratch''"
| "storage_class_string StorageSecrets = ''secrets''"
| "storage_class_string StorageSnapshot = ''snapshot''"

record network_policy =
  np_Internet :: bool
  np_LoopbackOnly :: bool
  np_AllowTunnels :: bool

definition ResolveNetworkPolicy :: "network_mode \<Rightarrow> bool \<Rightarrow> network_policy" where
  "ResolveNetworkPolicy mode allowTunnels =
     (let policy = \<lparr>np_Internet = False, np_LoopbackOnly = True, np_AllowTunnels = allowTunnels\<rparr> in
      if mode = InternetEnabled then policy\<lparr>np_Internet := True\<rparr> else policy)"

record sandbox_spec =
  sp_SandboxID :: string
  sp_TenantID :: string
  sp_RuntimeSelection :: runtime_selection
  sp_RuntimeBackend :: string
  sp_RuntimeClass :: runtime_class
  sp_BaseImageRef :: string
  sp_Profile :: guest_profile
  sp_Features :: "string list"
  sp_Capabilities :: "string list"
  sp_ControlMode :: control_mode
  sp_ControlProtocolVersion :: string
  sp_WorkspaceContractVersion :: string
  sp_ImageContractVersion :: string
  sp_CPULimit :: cpu_quantity
  sp_MemoryLimitMB :: int
  sp_PIDsLimit :: int
  sp_DiskLimitMB :: int
  sp_NetworkMode :: network_mode
  sp_AllowTunnels :: bool
  sp_StorageRoot :: string
  sp_WorkspaceRoot :: string
  sp_CacheRoot :: string
  sp_ScratchRoot :: string
  sp_SecretsRoot :: string
  sp_NetworkPolicy :: network_policy

record file_read_response =
  fr_Path :: string
  fr_Content :: string
  fr_ContentBase64 :: string
  fr_Size :: int
  fr_Encoding :: string

definition DefaultWorkspaceFileTransferMaxBytes :: int where
  "DefaultWorkspaceFileTransferMaxBytes = 64 * 1024 * 1024"

end
