(* ===== verification/ModelFacts.thy ===== *)
theory ModelFacts
  imports Model
begin

text \<open>
  Correctness of the pure part of \<open>internal/model\<close>: normal forms of feature lists, the round trip of
  CPU quantities through their text, and which runtime selections count as VM-backed.
\<close>

section \<open>Feature lists\<close>

lemma set_normalize_loop:
  "set (normalize_loop seen vs) = (\<lambda>v. ToLower (TrimSpace v)) ` set vs - {[]} - set seen"
  by (induction vs arbitrary: seen) (auto simp: Let_def)

lemma distinct_normalize_loop: "distinct (normalize_loop seen vs)"
  by (induction vs arbitrary: seen) (auto simp: Let_def set_normalize_loop)

lemma normalize_loop_fixed:
  assumes "distinct vs" and "\<forall>v \<in> set vs. v \<noteq> [] \<and> ToLower (TrimSpace v) = v"
    and "set vs \<inter> set seen = {}"
  shows "normalize_loop seen vs = vs"
  using assms by (induction vs arbitrary: seen) (auto simp: Let_def)

lemma normalized_fixed: "ToLower (TrimSpace (ToLower (TrimSpace v))) = ToLower (TrimSpace v)"
  by (simp add: TrimSpace_ToLower)

lemma set_NormalizeFeatures:
  "set (NormalizeFeatures vs) = (\<lambda>v. ToLower (TrimSpace v)) ` set vs - {[]}"
  by (simp add: NormalizeFeatures_def set_normalize_loop)

lemma NormalizeFeatures_elem:
  "v \<in> set (NormalizeFeatures vs) \<Longrightarrow> v \<noteq> [] \<and> ToLower (TrimSpace v) = v"
  by (auto simp: set_NormalizeFeatures normalized_fixed)

lemma NormalizeFeatures_fixed:
  "sorted vs \<Longrightarrow> distinct vs \<Longrightarrow> \<forall>v \<in> set vs. v \<noteq> [] \<and> ToLower (TrimSpace v) = v \<Longrightarrow>
   NormalizeFeatures vs = vs"
  by (simp add: NormalizeFeatures_def normalize_loop_fixed sorted_sort_id)

lemma NormalizeFeatures_sorted: "sorted (NormalizeFeatures vs)"
  by (simp add: NormalizeFeatures_def)

lemma NormalizeFeatures_distinct: "distinct (NormalizeFeatures vs)"
  by (simp add: NormalizeFeatures_def distinct_normalize_loop)

lemma NormalizeFeatures_idem: "NormalizeFeatures (NormalizeFeatures vs) = NormalizeFeatures vs"
  by (intro NormalizeFeatures_fixed NormalizeFeatures_sorted NormalizeFeatures_distinct)
    (use NormalizeFeatures_elem in blast)

lemma NormalizeFeatures_Nil [simp]: "NormalizeFeatures [] = []"
  by (simp add: NormalizeFeatures_def)

section \<open>Runtime selections\<close>

lemma RuntimeSelectionFromBackend_Backend:
  "selection_IsValid s \<Longrightarrow> RuntimeSelectionFromBackend (Backend s) = s"
  by (cases s) (simp_all add: RuntimeSelectionFromBackend_def TrimSpace_def trim_left_by_def
      trim_right_by_def is_space_def ToLower_def lower_char_def case_table_def)

lemma RuntimeSelectionFromBackend_cases:
  "RuntimeSelectionFromBackend b \<in> {DockerDev, ContainerdKataProfessional, QEMUProfessional, no_selection}"
  by (simp add: RuntimeSelectionFromBackend_def Let_def)

lemma IsVMBacked_iff:
  "IsVMBacked s \<longleftrightarrow> s = ContainerdKataProfessional \<or> s = QEMUProfessional"
  by (cases s) (simp_all add: IsVMBacked_def class_IsVMBacked_def RuntimeClass_def
      BackendToRuntimeClass_def)

lemma Backend_qemu_iff [simp]: "Backend s = ''qemu'' \<longleftrightarrow> s = QEMUProfessional"
  by (cases s) simp_all

lemma Backend_docker_iff [simp]: "Backend s = ''docker'' \<longleftrightarrow> s = DockerDev"
  by (cases s) simp_all

section \<open>CPU quantities\<close>

lemma TrimSpace_no_space: "\<forall>c \<in> set s. \<not> is_space c \<Longrightarrow> TrimSpace s = s"
proof -
  assume a: "\<forall>c \<in> set s. \<not> is_space c"
  have "dropWhile is_space s = s" using a by (cases s) auto
  moreover have "dropWhile is_space (rev s) = rev s" using a by (cases "rev s") auto
  ultimately show ?thesis by (simp add: TrimSpace_def trim_left_by_def trim_right_by_def)
qed

lemma HasSuffix_m_last: "s \<noteq> [] \<Longrightarrow> last s \<noteq> CHR ''m'' \<Longrightarrow> \<not> HasSuffix s ''m''"
  by (auto simp: HasSuffix_iff)

lemma split_first_none: "c \<notin> set s \<Longrightarrow> split_first c s = (s, None)"
proof -
  assume "c \<notin> set s"
  then have "dropWhile (\<lambda>x. x \<noteq> c) s = []" by (induction s) auto
  then show ?thesis unfolding split_first_def by (simp only: list.case)
qed

lemma split_first_some: "c \<notin> set s \<Longrightarrow> split_first c (s @ c # t) = (s, Some t)"
proof -
  assume c: "c \<notin> set s"
  have "dropWhile (\<lambda>x. x \<noteq> c) (s @ c # t) = c # t" using c by (induction s) auto
  moreover have "takeWhile (\<lambda>x. x \<noteq> c) (s @ c # t) = s" using c by (induction s) auto
  ultimately show ?thesis by (simp add: split_first_def)
qed

lemma fmt_int_clean:
  "CHR ''.'' \<notin> set (fmt_int n) \<and> CHR ''m'' \<notin> set (fmt_int n) \<and> (\<forall>c \<in> set (fmt_int n). \<not> is_space c)"
  using fmt_nat_clean by (auto simp: fmt_int_def is_space_def)

lemma fmt_int_nonempty [simp]: "fmt_int n \<noteq> []"
  by (simp add: fmt_int_def)

lemma parse_whole_cores:
  assumes "in_int64 (1000 * k)"
  shows "ParseCPUQuantity (fmt_int k) = Inr (1000 * k)"
proof -
  have k: "in_int64 k" using assms by (auto simp: in_int64_def min_int64_def max_int64_def)
  have "\<not> HasSuffix (fmt_int k) ''m''"
    using fmt_int_clean [of k] last_in_set [OF fmt_int_nonempty [of k]]
    by (intro HasSuffix_m_last) (simp, metis)
  then show ?thesis using assms k fmt_int_clean
    by (simp add: ParseCPUQuantity_def TrimSpace_no_space split_first_none ParseInt_fmt_int
        milliCPUPerCore_def mul64_def mult.commute)
qed

lemma pad3_digits:
  assumes "a < 10" "b < 10" "c < 10"
  shows "pad3 (100 * a + 10 * b + c) = [digit_char a, digit_char b, digit_char c]"
proof -
  have z: "CHR ''0'' = digit_char 0" by (simp add: digit_char_def)
  consider "a = 0 \<and> b = 0" | "a = 0 \<and> b > 0" | "a > 0" by (cases a; cases b) simp_all
  then show ?thesis
  proof cases
    case 1
    then show ?thesis using assms by (simp add: pad3_def fmt_nat.simps z numeral_2_eq_2)
  next
    case 2
    then have "fmt_nat (10 * b + c) = [digit_char b, digit_char c]"
      using assms by (simp add: fmt_nat.simps [of "10 * b + c"] fmt_nat.simps [of b])
    then show ?thesis using 2 by (simp add: pad3_def z)
  next
    case 3
    have e: "100 * a + 10 * b + c = c + (10 * a + b) * 10" by simp
    have "(100 * a + 10 * b + c) div 10 = 10 * a + b" "(100 * a + 10 * b + c) mod 10 = c"
      unfolding e div_mult_self1 mod_mult_self1 using assms by simp_all
    moreover have "fmt_nat (10 * a + b) = [digit_char a, digit_char b]"
      using assms 3 by (simp add: fmt_nat.simps [of "10 * a + b"] fmt_nat.simps [of a])
    ultimately have "fmt_nat (100 * a + 10 * b + c) = [digit_char a, digit_char b, digit_char c]"
      using 3 by (simp add: fmt_nat.simps [of "100 * a + 10 * b + c"])
    then show ?thesis by (simp add: pad3_def)
  qed
qed

lemma three_digits:
  assumes "f < (1000 :: nat)"
  obtains a b c where "a < 10" "b < 10" "c < 10" "f = 100 * a + 10 * b + c"
proof
  show "f div 100 < 10" "f div 10 mod 10 < 10" "f mod 10 < 10" using assms by auto
  have "f div 100 = f div 10 div 10" by (simp add: div_mult2_eq [symmetric])
  then show "f = 100 * (f div 100) + 10 * (f div 10 mod 10) + f mod 10"
    using mult_div_mod_eq [of 10 f] mult_div_mod_eq [of 10 "f div 10"] by linarith
qed

lemma ParseInt_pad3: "f < 1000 \<Longrightarrow> ParseInt (pad3 f) = Some (int f)"
proof (rule three_digits, assumption)
  fix a b c assume d: "a < 10" "b < 10" "c < 10" "f = 100 * a + 10 * b + c"
  have r: "in_int64 (int (100 * a + 10 * b + c))" using d
    by (simp add: in_int64_def min_int64_def max_int64_def)
  have "parse_uint [digit_char a, digit_char b, digit_char c] = Some (100 * a + 10 * b + c)"
    using d by (simp add: parse_uint_def digit_val_char algebra_simps)
  then show ?thesis using d r digit_char_not_sign [OF d(1)]
    by (simp add: pad3_digits ParseInt_def check_int64_def del: of_nat_add)
qed

definition fraction_text :: "nat \<Rightarrow> string" where
  "fraction_text f = trim_right_by (\<lambda>c. c = CHR ''0'') (pad3 f)"

lemma pad_fraction_text:
  assumes "f < 1000"
  shows "pad_fraction (fraction_text f) = pad3 f"
proof -
  have l: "length (pad3 f) = 3" using three_digits [OF assms] pad3_digits by (metis length_Cons list.size(3) numeral_3_eq_3)
  obtain zs where zs: "pad3 f = fraction_text f @ zs" "\<forall>z \<in> set zs. z = CHR ''0''"
    unfolding fraction_text_def using trim_right_decomp by blast
  then have "zs = replicate (length zs) (CHR ''0'')" by (simp add: replicate_length_same)
  moreover have "length zs = 3 - length (fraction_text f)" using zs(1) l by (metis diff_add_inverse length_append)
  ultimately show ?thesis using zs(1) by (simp add: pad_fraction_def)
qed

lemma fraction_text_shape:
  assumes "0 < f" "f < 1000"
  shows "fraction_text f \<noteq> []" "length (fraction_text f) \<le> 3" "last (fraction_text f) \<noteq> CHR ''m''"
    "\<forall>c \<in> set (fraction_text f). \<not> is_space c"
proof -
  obtain a b c where d: "a < 10" "b < 10" "c < 10" "f = 100 * a + 10 * b + c"
    using three_digits [OF assms(2)] .
  have p: "pad3 f = [digit_char a, digit_char b, digit_char c]" using d pad3_digits by simp
  obtain zs where zs: "pad3 f = fraction_text f @ zs"
    unfolding fraction_text_def using trim_right_decomp by blast
  show l: "length (fraction_text f) \<le> 3" using arg_cong [OF zs, of length] p by simp
  show ne: "fraction_text f \<noteq> []"
  proof
    assume "fraction_text f = []"
    then have "pad3 f = ''000''" using pad_fraction_text [OF assms(2)]
      by (simp add: pad_fraction_def numeral_3_eq_3)
    then have "ParseInt ''000'' = Some (int f)" using ParseInt_pad3 [OF assms(2)] by simp
    moreover have "ParseInt ''000'' = Some 0" by code_simp
    ultimately show False using assms(1) by simp
  qed
  have sub: "x \<in> set (fraction_text f) \<Longrightarrow> \<exists>k < 10. x = digit_char k" for x
    using arg_cong [OF zs, of set] p d by auto
  show "last (fraction_text f) \<noteq> CHR ''m''" using sub [OF last_in_set [OF ne]] digit_char_not_sign by metis
  show "\<forall>c \<in> set (fraction_text f). \<not> is_space c" using sub digit_char_not_sign by blast
qed

lemma sign_not_space: "\<not> is_space (CHR ''-'')" "\<not> is_space (CHR ''.'')"
  by (simp_all add: is_space_def)

lemma parse_fractional:
  assumes s: "s = [] \<or> s = ''-''" and f: "0 < f" "f < 1000"
    and r: "in_int64 (1000 * int w + int f)"
  shows "ParseCPUQuantity (s @ fmt_nat w @ ''.'' @ fraction_text f) =
     Inr ((if s = [] then 1 else - 1) * (1000 * int w + int f))"
proof -
  let ?t = "s @ fmt_nat w @ ''.'' @ fraction_text f"
  note shape = fraction_text_shape [OF f]
  have clean: "\<forall>c \<in> set ?t. \<not> is_space c"
    using s fmt_nat_clean [of w] shape(4) sign_not_space by (elim disjE) (simp_all add: ball_Un)
  have suffix: "\<not> HasSuffix ?t ''m''" using shape(1,3) by (intro HasSuffix_m_last) auto
  have dot: "CHR ''.'' \<notin> set (s @ fmt_nat w)" using s fmt_nat_clean [of w] by auto
  have split: "split_first (CHR ''.'') ?t = (s @ fmt_nat w, Some (fraction_text f))"
    using split_first_some [OF dot, of "fraction_text f"] by simp
  have wr: "in_int64 (int w)" "in_int64 (- int w)" "in_int64 (1000 * int w)" "in_int64 (- (1000 * int w))"
    using r by (auto simp: in_int64_def min_int64_def max_int64_def)
  have whole: "ParseInt (s @ fmt_nat w) = Some ((if s = [] then 1 else - 1) * int w)"
  proof (cases "s = []")
    case True
    then show ?thesis using ParseInt_fmt_int [OF wr(1)] by (simp add: fmt_int_def)
  next
    case False
    then show ?thesis using s wr by (simp add: ParseInt_def check_int64_def)
  qed
  have pre: "HasPrefix ?t ''-'' \<longleftrightarrow> s \<noteq> []"
    using s fmt_nat_hd_not_sign [of w] by (cases "fmt_nat w") (auto simp: HasPrefix_def)
  have frac: "ParseInt (pad_fraction (fraction_text f)) = Some (int f)"
    using f by (simp add: pad_fraction_text ParseInt_pad3)
  have sum: "in_int64 (- (1000 * int w) - int f)"
    using r by (auto simp: in_int64_def min_int64_def max_int64_def)
  have "TrimSpace ?t = ?t" "?t \<noteq> []" using TrimSpace_no_space [OF clean] by simp_all
  then show ?thesis
    unfolding ParseCPUQuantity_def Let_def
    using suffix split whole frac pre shape(1,2) r wr sum s
    by (auto simp: milliCPUPerCore_def mul64_def add64_def mult.commute)
qed

lemma go_split_pos: "0 < q \<Longrightarrow> go_mod q 1000 = q mod 1000 \<and> go_div q 1000 = q div 1000"
  by (simp add: go_mod_def go_div_def)

lemma CPU_String_fraction:
  assumes "go_mod q 1000 \<noteq> 0" and "min_int64 < q" and "q \<le> max_int64"
  shows "CPU_String q = (if q < 0 then ''-'' else []) @ fmt_nat (nat \<bar>q\<bar> div 1000) @ ''.''
     @ fraction_text (nat \<bar>q\<bar> mod 1000)"
proof -
  have q: "q \<noteq> 0" using assms(1) by (auto simp: go_mod_def)
  have w: "wrap64 (- q) = - q" using assms
    by (intro wrap64_id) (auto simp: in_int64_def min_int64_def max_int64_def)
  have v: "(if q < 0 then wrap64 (- q) else q) = \<bar>q\<bar>" using w by simp
  have pos: "0 < \<bar>q\<bar>" using q by simp
  have m: "nat (\<bar>q\<bar> mod 1000) = nat \<bar>q\<bar> mod 1000" "nat (\<bar>q\<bar> div 1000) = nat \<bar>q\<bar> div 1000"
    by (simp_all add: nat_mod_distrib nat_div_distrib)
  have i: "\<not> \<bar>q\<bar> mod 1000 < 0" "\<not> \<bar>q\<bar> div 1000 < 0"
    by (simp_all add: not_less pos_imp_zdiv_nonneg_iff)
  show ?thesis
    using assms(1) unfolding CPU_String_def Let_def v milliCPUPerCore_def
    by (simp add: go_split_pos [OF pos] i m fmt_int_def fraction_text_def)
qed

section \<open>Properties\<close>

text \<open>
  A CPU quantity survives printing and parsing: \<open>ParseCPUQuantity\<close> reads back exactly the value
  that \<open>String\<close> printed, for every 64-bit quantity but the most negative one.
\<close>

theorem cpu_string_roundtrip:
  assumes "min_int64 < q" and "q \<le> max_int64"
  shows "ParseCPUQuantity (CPU_String q) = Inr q"
proof (cases "go_mod q 1000 = 0")
  case True
  then have "\<bar>q\<bar> mod 1000 = 0" by (auto simp: go_mod_def sgn_if split: if_splits)
  then have "1000 * (\<bar>q\<bar> div 1000) = \<bar>q\<bar>" by (metis dvd_mult_div_cancel mod_0_imp_dvd)
  then have e: "1000 * go_div q 1000 = q"
    by (auto simp: go_div_def sgn_if)
  have "in_int64 (1000 * go_div q 1000)" using e assms by (simp add: in_int64_def)
  from parse_whole_cores [OF this] show ?thesis
    using True e by (simp add: CPU_String_def milliCPUPerCore_def)
next
  case False
  then have f: "0 < nat \<bar>q\<bar> mod 1000"
    by (rule contrapos_np) (auto simp: go_mod_def nat_mod_distrib [symmetric] nat_eq_iff
        dest: zero_less_nat_eq [THEN iffD2])
  have r: "1000 * int (nat \<bar>q\<bar> div 1000) + int (nat \<bar>q\<bar> mod 1000) = \<bar>q\<bar>"
    by (simp add: zdiv_int zmod_int)
  have "in_int64 \<bar>q\<bar>" using assms by (auto simp: in_int64_def min_int64_def max_int64_def)
  then show ?thesis
    using parse_fractional [of "if q < 0 then ''-'' else []", OF _ f] r
    by (simp add: CPU_String_fraction [OF False assms])
qed

text \<open>
  Feature lists are canonical: the normalised list is sorted and without duplicates, contains
  exactly the lower-cased, trimmed, non-empty entries of the input, and normalising it again changes
  nothing.
\<close>

theorem NormalizeFeatures_canonical:
  "sorted (NormalizeFeatures vs) \<and> distinct (NormalizeFeatures vs) \<and>
   set (NormalizeFeatures vs) = (\<lambda>v. ToLower (TrimSpace v)) ` set vs - {[]} \<and>
   NormalizeFeatures (NormalizeFeatures vs) = NormalizeFeatures vs"
  using NormalizeFeatures_sorted NormalizeFeatures_distinct set_NormalizeFeatures NormalizeFeatures_idem
  by auto

text \<open>
  A runtime selection is determined by either of its texts: its own name and the name of its
  backend both resolve back to it, in any case and with surrounding blanks, so a row that stores only
  the backend (a legacy row) denotes the same runtime.
\<close>

theorem runtime_selection_roundtrip:
  assumes "selection_IsValid s" and "ToLower (TrimSpace n) = selection_string s"
    and "ToLower (TrimSpace b) = Backend s"
  shows "ParseRuntimeSelection n = s \<and> ResolveRuntimeSelection no_selection b = s \<and>
     ResolveRuntimeSelection (ParseRuntimeSelection n) other = s"
  using assms
  by (cases s) (simp_all add: ParseRuntimeSelection_def selection_of_def ResolveRuntimeSelection_def
      RuntimeSelectionFromBackend_def)

end
