(* ===== verification/Store.thy ===== *)
theory Store
  imports ModelFacts "HOL-Library.Product_Lexorder"
begin

text \<open>
  \<open>internal/repository/store.go\<close> over the schema of \<open>internal/db/db.go\<close>. A table is the list of its
  rows in insertion order, a statement a partial function on the database (\<open>None\<close> when it violates a
  primary key, a uniqueness or a foreign key constraint), a store method an operation on the world the
  control plane acts on. Any method may also fail because the driver does (a busy or lost database, a
  cancelled context): the schedule \<open>w_dbfault\<close> says which calls do, and such a call leaves the
  database as it was. Columns the program writes but never reads (\<open>cpu_limit\<close>, \<open>max_cpu_cores\<close>) are
  left out; instants are stored as themselves, since \<open>RFC3339Nano\<close> reads back what it wrote.
\<close>

section \<open>Tables\<close>

record sandbox_row =
  c_sandbox_id :: string
  c_tenant_id :: string
  c_status :: sandbox_status
  c_runtime_selection :: string
  c_runtime_backend :: string
  c_runtime_class :: runtime_class
  c_base_image_ref :: string
  c_profile :: guest_profile
  c_feature_set :: string
  c_capability_set :: string
  c_control_mode :: control_mode
  c_control_protocol_version :: string
  c_workspace_contract_version :: string
  c_image_contract_version :: string
  c_cpu_limit_millis :: int
  c_memory_limit_mb :: int
  c_pids_limit :: int
  c_disk_limit_mb :: int
  c_network_mode :: network_mode
  c_allow_tunnels :: bool
  c_storage_root :: string
  c_workspace_root :: string
  c_cache_root :: string
  c_created_at :: time
  c_updated_at :: time
  c_last_active_at :: time
  c_deleted_at :: "time option"

record runtime_row =
  rr_sandbox_id :: string
  rr_runtime_id :: string
  rr_runtime_status :: string
  rr_last_runtime_error :: string
  rr_ip_address :: string
  rr_pid :: int
  rr_started_at :: "time option"

record storage_row =
  sr_sandbox_id :: string
  sr_usage :: storage_usage
  sr_updated_at :: time

record count_row =
  ac_tenant_id :: string
  ac_action :: string
  ac_outcome :: string
  ac_total :: int

record database =
  db_tenants :: "tenant list"
  db_quotas :: "tenant_quota list"
  db_sandboxes :: "sandbox_row list"
  db_runtime :: "runtime_row list"
  db_storage :: "storage_row list"
  db_tunnels :: "tunnel list"
  db_capabilities :: "tunnel_capability list"
  db_snapshots :: "snapshot list"
  db_executions :: "execution list"
  db_tty :: "tty_session list"
  db_audit :: "audit_event list"
  db_audit_counts :: "count_row list"
  db_service_accounts :: "service_account list"
  db_promoted :: "promoted_image list"
  db_evidence :: "release_evidence list"

definition empty_db :: database where
  "empty_db = \<lparr>db_tenants = [], db_quotas = [], db_sandboxes = [], db_runtime = [], db_storage = [],
     db_tunnels = [], db_capabilities = [], db_snapshots = [], db_executions = [], db_tty = [],
     db_audit = [], db_audit_counts = [], db_service_accounts = [], db_promoted = [], db_evidence = []\<rparr>"

section \<open>The world an operation acts on\<close>

text \<open>
  Besides the database the world holds the state of the runtime backend, the files and
  directories made and removed so far, and what the environment will answer: clock readings, random
  identifiers, and the failures of the database and of the operating system. Each use consumes one answer.
\<close>

datatype fs_op =
    MkdirAll string
  | RemoveAll string
  | WriteFile string string
  | RemovePath string
  | CreateFile string
  | CopyFile string string
  | TarGz string string
  | ExtractFile string int
  | RunCommand "string list"
  | WriteTar string "(string \<times> string option) list"
  | CloseFile string

record 'r world =
  w_db :: database
  w_rt :: 'r
  w_fs :: "fs_op list"
  w_clock :: "nat \<Rightarrow> time"
  w_rand :: "nat \<Rightarrow> string"
  w_dbfault :: "nat \<Rightarrow> bool"
  w_osfault :: "nat \<Rightarrow> goerr option"

definition now_utc :: "(goerr, 'r world, time) eop" where
  "now_utc = (\<lambda>w. (Inr (w_clock w 0), w\<lparr>w_clock := (\<lambda>n. w_clock w (Suc n))\<rparr>))"

definition newID :: "string \<Rightarrow> (goerr, 'r world, string) eop" where
  "newID prefix = (\<lambda>w. (Inr (prefix @ w_rand w 0), w\<lparr>w_rand := (\<lambda>n. w_rand w (Suc n))\<rparr>))"

definition os_call :: "fs_op \<Rightarrow> (goerr, 'r world, unit) eop" where
  "os_call oper = (\<lambda>w.
     let w' = w\<lparr>w_osfault := (\<lambda>n. w_osfault w (Suc n))\<rparr> in
     case w_osfault w 0 of
       Some e \<Rightarrow> (Inl e, w')
     | None \<Rightarrow> (Inr (), w'\<lparr>w_fs := w_fs w' @ [oper]\<rparr>))"

definition sql_exec :: "(database \<Rightarrow> database option) \<Rightarrow> (goerr, 'r world, unit) eop" where
  "sql_exec stmt = (\<lambda>w.
     let w' = w\<lparr>w_dbfault := (\<lambda>n. w_dbfault w (Suc n))\<rparr> in
     if w_dbfault w 0 then (Inl DriverError, w')
     else (case stmt (w_db w) of
             None \<Rightarrow> (Inl DriverError, w')
           | Some d \<Rightarrow> (Inr (), w'\<lparr>w_db := d\<rparr>)))"

definition sql_query :: "(database \<Rightarrow> goerr + 'a) \<Rightarrow> (goerr, 'r world, 'a) eop" where
  "sql_query q = (\<lambda>w.
     let w' = w\<lparr>w_dbfault := (\<lambda>n. w_dbfault w (Suc n))\<rparr> in
     if w_dbfault w 0 then (Inl DriverError, w') else (q (w_db w), w'))"

text \<open>
  \<open>WithTx\<close>: the statements of a transaction in order; when one fails the rollback restores the
  database, so the composite is again one statement.
\<close>

fun in_tx :: "(database \<Rightarrow> database option) list \<Rightarrow> database \<Rightarrow> database option" where
  "in_tx [] d = Some d"
| "in_tx (stmt # stmts) d = (case stmt d of None \<Rightarrow> None | Some d' \<Rightarrow> in_tx stmts d')"

definition WithTx :: "(database \<Rightarrow> database option) list \<Rightarrow> (goerr, 'r world, unit) eop" where
  "WithTx stmts = sql_exec (in_tx stmts)"

definition insert_row :: "('row \<Rightarrow> 'k) \<Rightarrow> 'row \<Rightarrow> 'row list \<Rightarrow> 'row list option" where
  "insert_row key r rows = (if key r \<in> set (map key rows) then None else Some (rows @ [r]))"

definition upsert_row :: "('row \<Rightarrow> 'k) \<Rightarrow> 'row \<Rightarrow> ('row \<Rightarrow> 'row) \<Rightarrow> 'row list \<Rightarrow> 'row list" where
  "upsert_row key r onconflict rows =
     (if key r \<in> set (map key rows) then update_rows (\<lambda>x. key x = key r) onconflict rows
      else rows @ [r])"

definition has_tenant :: "database \<Rightarrow> string \<Rightarrow> bool" where
  "has_tenant d t \<longleftrightarrow> t \<in> set (map tn_ID (db_tenants d))"

definition has_sandbox :: "database \<Rightarrow> string \<Rightarrow> bool" where
  "has_sandbox d s \<longleftrightarrow> s \<in> set (map c_sandbox_id (db_sandboxes d))"

definition has_tunnel :: "database \<Rightarrow> string \<Rightarrow> bool" where
  "has_tunnel d t \<longleftrightarrow> t \<in> set (map tun_ID (db_tunnels d))"

text \<open>
  \<open>ORDER BY\<close> on an instant compares the \<open>RFC3339Nano\<close> text: a fixed-width, monotone rendering of the
  seconds followed by the nanoseconds without their trailing zeros (and without the point when there
  are none).
\<close>

definition pad9 :: "nat \<Rightarrow> string" where
  "pad9 n = replicate (9 - length (fmt_nat n)) (CHR ''0'') @ fmt_nat n"

definition nano_text :: "nat \<Rightarrow> string" where
  "nano_text n = (if n = 0 then ''Z'' else ''.'' @ trim_right_by (\<lambda>c. c = CHR ''0'') (pad9 n) @ ''Z'')"

definition order_key :: "time \<Rightarrow> int \<times> string" where
  "order_key t = (t div 1000000000, nano_text (nat (t mod 1000000000)))"

section \<open>Tenants and quotas\<close>

record tenant_config =
  tc_ID :: string
  tc_Name :: string
  tc_Token :: string

definition token_taken :: "database \<Rightarrow> string \<Rightarrow> string \<Rightarrow> bool" where
  "token_taken d tenantID h \<longleftrightarrow> (\<exists>t \<in> set (db_tenants d). tn_TokenHash t = h \<and> tn_ID t \<noteq> tenantID)"

definition seed_tenant :: "tenant \<Rightarrow> database \<Rightarrow> database option" where
  "seed_tenant t d =
     (if token_taken d (tn_ID t) (tn_TokenHash t) then None
      else Some (d\<lparr>db_tenants := upsert_row tn_ID t
             (\<lambda>x. x\<lparr>tn_Name := tn_Name t, tn_TokenHash := tn_TokenHash t\<rparr>) (db_tenants d)\<rparr>))"

definition seed_quota :: "tenant_quota \<Rightarrow> database \<Rightarrow> database option" where
  "seed_quota q d =
     (if \<not> has_tenant d (q_TenantID q) then None
      else Some (d\<lparr>db_quotas := upsert_row q_TenantID q (\<lambda>x. q) (db_quotas d)\<rparr>))"

definition seed_stmts ::
  "(string \<Rightarrow> string) \<Rightarrow> tenant_quota \<Rightarrow> time \<Rightarrow> tenant_config \<Rightarrow> (database \<Rightarrow> database option) list" where
  "seed_stmts HashToken quota now t =
     [seed_tenant \<lparr>tn_ID = tc_ID t, tn_Name = tc_Name t, tn_TokenHash = HashToken (tc_Token t),
        tn_CreatedAt = now\<rparr>,
      seed_quota (quota\<lparr>q_TenantID := tc_ID t\<rparr>)]"

fun readings :: "'x list \<Rightarrow> (goerr, 'r world, (time \<times> 'x) list) eop" where
  "readings [] = okE []"
| "readings (x # xs) = bindE now_utc (\<lambda>t. bindE (readings xs) (\<lambda>ts. okE ((t, x) # ts)))"

definition Store_SeedTenants ::
  "(string \<Rightarrow> string) \<Rightarrow> tenant_config list \<Rightarrow> tenant_quota \<Rightarrow> (goerr, 'r world, unit) eop" where
  "Store_SeedTenants HashToken tenants quota =
     bindE (readings tenants) (\<lambda>ts.
       WithTx (concat (map (\<lambda>(now, t). seed_stmts HashToken quota now t) ts)))"

definition ensure_tenant :: "tenant \<Rightarrow> database \<Rightarrow> database option" where
  "ensure_tenant t d =
     (if \<not> has_tenant d (tn_ID t) \<and> token_taken d (tn_ID t) (tn_TokenHash t) then None
      else Some (d\<lparr>db_tenants := upsert_row tn_ID t (\<lambda>x. x\<lparr>tn_Name := tn_Name t\<rparr>) (db_tenants d)\<rparr>))"

definition ensure_quota :: "tenant_quota \<Rightarrow> database \<Rightarrow> database option" where
  "ensure_quota q d =
     (if \<not> has_tenant d (q_TenantID q) then None
      else Some (d\<lparr>db_quotas := upsert_row q_TenantID q (\<lambda>x. x) (db_quotas d)\<rparr>))"

definition Store_EnsureTenantQuota ::
  "(string \<Rightarrow> string) \<Rightarrow> tenant \<Rightarrow> tenant_quota \<Rightarrow> string \<Rightarrow> (goerr, 'r world, unit) eop" where
  "Store_EnsureTenantQuota HashToken tenant quota tokenHash =
     (let name = (if tn_Name tenant = [] then tn_ID tenant else tn_Name tenant);
          tokenHash' = (if tokenHash = [] then HashToken (''jwt:'' @ tn_ID tenant) else tokenHash) in
      bindE now_utc (\<lambda>now.
        WithTx [ensure_tenant \<lparr>tn_ID = tn_ID tenant, tn_Name = name, tn_TokenHash = tokenHash',
                  tn_CreatedAt = now\<rparr>,
                ensure_quota (quota\<lparr>q_TenantID := tn_ID tenant\<rparr>)]))"

definition quota_of :: "database \<Rightarrow> string \<Rightarrow> tenant_quota option" where
  "quota_of d tenantID = find_row (\<lambda>q. q_TenantID q = tenantID) (db_quotas d)"

definition Store_AuthenticateTenant :: "string \<Rightarrow> (goerr, 'r world, tenant \<times> tenant_quota) eop" where
  "Store_AuthenticateTenant tokenHash = sql_query (\<lambda>d.
     case find_row (\<lambda>t. tn_TokenHash t = tokenHash \<and> quota_of d (tn_ID t) \<noteq> None) (db_tenants d) of
       None \<Rightarrow> Inl ErrNotFound
     | Some t \<Rightarrow> (case quota_of d (tn_ID t) of None \<Rightarrow> Inl ErrNotFound | Some q \<Rightarrow> Inr (t, q)))"

definition Store_GetQuota :: "string \<Rightarrow> (goerr, 'r world, tenant_quota) eop" where
  "Store_GetQuota tenantID = sql_query (\<lambda>d.
     case quota_of d tenantID of None \<Rightarrow> Inl ErrNotFound | Some q \<Rightarrow> Inr q)"

section \<open>Sandboxes\<close>

definition joinStringList :: "string list \<Rightarrow> string" where
  "joinStringList values = join_with '','' values"

definition splitStringList :: "string \<Rightarrow> string list" where
  "splitStringList value =
     (if TrimSpace value = [] then []
      else filter (\<lambda>p. p \<noteq> []) (map TrimSpace (split_on (CHR '','') value)))"

definition zero_usage :: storage_usage where
  "zero_usage = \<lparr>su_RootfsBytes = 0, su_WorkspaceBytes = 0, su_CacheBytes = 0, su_SnapshotBytes = 0,
     su_RootfsEntries = 0, su_WorkspaceEntries = 0, su_CacheEntries = 0, su_SnapshotEntries = 0\<rparr>"

definition sandbox_to_row :: "sandbox \<Rightarrow> sandbox_row" where
  "sandbox_to_row s =
     \<lparr>c_sandbox_id = sb_ID s, c_tenant_id = sb_TenantID s, c_status = sb_Status s,
      c_runtime_selection = selection_string (sb_RuntimeSelection s),
      c_runtime_backend = sb_RuntimeBackend s, c_runtime_class = sb_RuntimeClass s,
      c_base_image_ref = sb_BaseImageRef s, c_profile = sb_Profile s,
      c_feature_set = joinStringList (sb_Features s),
      c_capability_set = joinStringList (sb_Capabilities s), c_control_mode = sb_ControlMode s,
      c_control_protocol_version = sb_ControlProtocolVersion s,
      c_workspace_contract_version = sb_WorkspaceContractVersion s,
      c_image_contract_version = sb_ImageContractVersion s,
      c_cpu_limit_millis = MilliValue (sb_CPULimit s), c_memory_limit_mb = sb_MemoryLimitMB s,
      c_pids_limit = sb_PIDsLimit s, c_disk_limit_mb = sb_DiskLimitMB s,
      c_network_mode = sb_NetworkMode s, c_allow_tunnels = sb_AllowTunnels s,
      c_storage_root = sb_StorageRoot s, c_workspace_root = sb_WorkspaceRoot s,
      c_cache_root = sb_CacheRoot s, c_created_at = sb_CreatedAt s, c_updated_at = sb_UpdatedAt s,
      c_last_active_at = sb_LastActiveAt s, c_deleted_at = None\<rparr>"

definition insert_sandbox :: "sandbox \<Rightarrow> database \<Rightarrow> database option" where
  "insert_sandbox s d =
     (if \<not> has_tenant d (sb_TenantID s) then None
      else (case insert_row c_sandbox_id (sandbox_to_row s) (db_sandboxes d) of
              None \<Rightarrow> None | Some rows \<Rightarrow> Some (d\<lparr>db_sandboxes := rows\<rparr>)))"

definition insert_runtime_state :: "sandbox \<Rightarrow> database \<Rightarrow> database option" where
  "insert_runtime_state s d =
     (if \<not> has_sandbox d (sb_ID s) then None
      else (case insert_row rr_sandbox_id
                   \<lparr>rr_sandbox_id = sb_ID s, rr_runtime_id = sb_RuntimeID s,
                    rr_runtime_status = sb_RuntimeStatus s, rr_last_runtime_error = [],
                    rr_ip_address = [], rr_pid = 0, rr_started_at = None\<rparr> (db_runtime d) of
              None \<Rightarrow> None | Some rows \<Rightarrow> Some (d\<lparr>db_runtime := rows\<rparr>)))"

definition insert_storage :: "sandbox \<Rightarrow> database \<Rightarrow> database option" where
  "insert_storage s d =
     (if \<not> has_sandbox d (sb_ID s) then None
      else (case insert_row sr_sandbox_id
                   \<lparr>sr_sandbox_id = sb_ID s, sr_usage = zero_usage, sr_updated_at = sb_CreatedAt s\<rparr>
                   (db_storage d) of
              None \<Rightarrow> None | Some rows \<Rightarrow> Some (d\<lparr>db_storage := rows\<rparr>)))"

definition Store_CreateSandbox :: "sandbox \<Rightarrow> (goerr, 'r world, unit) eop" where
  "Store_CreateSandbox s = WithTx [insert_sandbox s, insert_runtime_state s, insert_storage s]"

definition sandbox_columns :: "sandbox \<Rightarrow> sandbox_row \<Rightarrow> sandbox_row" where
  "sandbox_columns s r =
     r\<lparr>c_status := sb_Status s, c_base_image_ref := sb_BaseImageRef s, c_profile := sb_Profile s,
       c_feature_set := joinStringList (sb_Features s),
       c_capability_set := joinStringList (sb_Capabilities s), c_control_mode := sb_ControlMode s,
       c_control_protocol_version := sb_ControlProtocolVersion s,
       c_workspace_contract_version := sb_WorkspaceContractVersion s,
       c_image_contract_version := sb_ImageContractVersion s,
       c_cpu_limit_millis := MilliValue (sb_CPULimit s), c_memory_limit_mb := sb_MemoryLimitMB s,
       c_pids_limit := sb_PIDsLimit s, c_disk_limit_mb := sb_DiskLimitMB s,
       c_network_mode := sb_NetworkMode s, c_allow_tunnels := sb_AllowTunnels s,
       c_updated_at := sb_UpdatedAt s, c_last_active_at := sb_LastActiveAt s,
       c_deleted_at := sb_DeletedAt s\<rparr>"

definition update_sandbox :: "sandbox \<Rightarrow> database \<Rightarrow> database option" where
  "update_sandbox s d =
     Some (d\<lparr>db_sandboxes := update_rows
        (\<lambda>r. c_sandbox_id r = sb_ID s \<and> c_tenant_id r = sb_TenantID s) (sandbox_columns s)
        (db_sandboxes d)\<rparr>)"

definition update_runtime_columns :: "sandbox \<Rightarrow> database \<Rightarrow> database option" where
  "update_runtime_columns s d =
     Some (d\<lparr>db_runtime := update_rows (\<lambda>r. rr_sandbox_id r = sb_ID s)
        (\<lambda>r. r\<lparr>rr_runtime_id := sb_RuntimeID s, rr_runtime_status := sb_RuntimeStatus s,
                rr_last_runtime_error := sb_LastRuntimeError s\<rparr>) (db_runtime d)\<rparr>)"

definition Store_UpdateSandboxState :: "sandbox \<Rightarrow> (goerr, 'r world, unit) eop" where
  "Store_UpdateSandboxState s = WithTx [update_sandbox s, update_runtime_columns s]"

definition update_runtime_state :: "string \<Rightarrow> runtime_state \<Rightarrow> database \<Rightarrow> database option" where
  "update_runtime_state sandboxID st d =
     Some (d\<lparr>db_runtime := update_rows (\<lambda>r. rr_sandbox_id r = sandboxID)
        (\<lambda>r. r\<lparr>rr_runtime_id := rs_RuntimeID st, rr_runtime_status := status_string (rs_Status st),
                rr_last_runtime_error := rs_Error st, rr_ip_address := rs_IPAddress st,
                rr_pid := rs_Pid st, rr_started_at := rs_StartedAt st\<rparr>) (db_runtime d)\<rparr>)"

definition Store_UpdateRuntimeState :: "string \<Rightarrow> runtime_state \<Rightarrow> (goerr, 'r world, unit) eop" where
  "Store_UpdateRuntimeState sandboxID st = sql_exec (update_runtime_state sandboxID st)"

definition scanSandbox :: "sandbox_row \<Rightarrow> runtime_row \<Rightarrow> sandbox" where
  "scanSandbox r rr =
     (let selection = ResolveRuntimeSelection (ParseRuntimeSelection (c_runtime_selection r))
                        (c_runtime_backend r) in
      \<lparr>sb_ID = c_sandbox_id r, sb_TenantID = c_tenant_id r, sb_Status = c_status r,
       sb_RuntimeSelection = selection, sb_RuntimeBackend = c_runtime_backend r,
       sb_RuntimeClass = (if c_runtime_class r = no_class then RuntimeClass selection
                          else c_runtime_class r),
       sb_BaseImageRef = c_base_image_ref r, sb_Profile = c_profile r,
       sb_Features = splitStringList (c_feature_set r),
       sb_Capabilities = splitStringList (c_capability_set r), sb_ControlMode = c_control_mode r,
       sb_ControlProtocolVersion = c_control_protocol_version r,
       sb_WorkspaceContractVersion = c_workspace_contract_version r,
       sb_ImageContractVersion = c_image_contract_version r, sb_CPULimit = c_cpu_limit_millis r,
       sb_MemoryLimitMB = c_memory_limit_mb r, sb_PIDsLimit = c_pids_limit r,
       sb_DiskLimitMB = c_disk_limit_mb r, sb_NetworkMode = c_network_mode r,
       sb_AllowTunnels = c_allow_tunnels r, sb_StorageRoot = c_storage_root r,
       sb_WorkspaceRoot = c_workspace_root r, sb_CacheRoot = c_cache_root r,
       sb_RuntimeID = rr_runtime_id rr, sb_RuntimeStatus = rr_runtime_status rr,
       sb_LastRuntimeError = rr_last_runtime_error rr, sb_CreatedAt = c_created_at r,
       sb_UpdatedAt = c_updated_at r, sb_LastActiveAt = c_last_active_at r,
       sb_DeletedAt = c_deleted_at r\<rparr>)"

definition runtime_row_of :: "database \<Rightarrow> string \<Rightarrow> runtime_row option" where
  "runtime_row_of d sandboxID = find_row (\<lambda>rr. rr_sandbox_id rr = sandboxID) (db_runtime d)"

text \<open>The join of \<open>sandboxes\<close> with \<open>sandbox_runtime_state\<close> under a condition, in row order.\<close>

definition joined_sandboxes :: "(sandbox_row \<Rightarrow> bool) \<Rightarrow> database \<Rightarrow> sandbox list" where
  "joined_sandboxes p d = List.map_filter
     (\<lambda>r. map_option (scanSandbox r) (runtime_row_of d (c_sandbox_id r))) (filter p (db_sandboxes d))"

definition find_sandbox :: "database \<Rightarrow> string \<Rightarrow> string \<Rightarrow> sandbox option" where
  "find_sandbox d tenantID sandboxID =
     (case joined_sandboxes (\<lambda>r. c_sandbox_id r = sandboxID \<and> c_tenant_id r = tenantID) d of
        [] \<Rightarrow> None | s # _ \<Rightarrow> Some s)"

definition Store_GetSandbox :: "string \<Rightarrow> string \<Rightarrow> (goerr, 'r world, sandbox) eop" where
  "Store_GetSandbox tenantID sandboxID = sql_query (\<lambda>d.
     case find_sandbox d tenantID sandboxID of None \<Rightarrow> Inl ErrNotFound | Some s \<Rightarrow> Inr s)"

definition Store_ListSandboxes :: "string \<Rightarrow> (goerr, 'r world, sandbox list) eop" where
  "Store_ListSandboxes tenantID = sql_query (\<lambda>d.
     Inr (sort_key (\<lambda>s. order_key (sb_CreatedAt s))
            (joined_sandboxes (\<lambda>r. c_tenant_id r = tenantID) d)))"

definition Store_listNonDeletedSandboxes :: "string \<Rightarrow> (goerr, 'r world, sandbox list) eop" where
  "Store_listNonDeletedSandboxes tenantID = sql_query (\<lambda>d.
     Inr (joined_sandboxes (\<lambda>r. c_status r \<noteq> StatusDeleted \<and>
            (tenantID = [] \<or> c_tenant_id r = tenantID)) d))"

definition Store_ListNonDeletedSandboxes :: "(goerr, 'r world, sandbox list) eop" where
  "Store_ListNonDeletedSandboxes = Store_listNonDeletedSandboxes []"

definition Store_ListNonDeletedSandboxesByTenant :: "string \<Rightarrow> (goerr, 'r world, sandbox list) eop" where
  "Store_ListNonDeletedSandboxesByTenant tenantID = Store_listNonDeletedSandboxes tenantID"

section \<open>Storage accounting and usage\<close>

definition storage_row_of :: "database \<Rightarrow> string \<Rightarrow> storage_row option" where
  "storage_row_of d sandboxID = find_row (\<lambda>r. sr_sandbox_id r = sandboxID) (db_storage d)"

definition Store_StorageUsageUpdatedAt :: "string \<Rightarrow> (goerr, 'r world, time) eop" where
  "Store_StorageUsageUpdatedAt sandboxID = sql_query (\<lambda>d.
     case storage_row_of d sandboxID of None \<Rightarrow> Inl ErrNotFound | Some r \<Rightarrow> Inr (sr_updated_at r))"

definition update_storage :: "string \<Rightarrow> storage_usage \<Rightarrow> time \<Rightarrow> database \<Rightarrow> database option" where
  "update_storage sandboxID u now d =
     Some (d\<lparr>db_storage := update_rows (\<lambda>r. sr_sandbox_id r = sandboxID)
        (\<lambda>r. r\<lparr>sr_usage := u, sr_updated_at := now\<rparr>) (db_storage d)\<rparr>)"

definition Store_UpdateStorageUsage :: "string \<Rightarrow> storage_usage \<Rightarrow> (goerr, 'r world, unit) eop" where
  "Store_UpdateStorageUsage sandboxID u =
     bindE now_utc (\<lambda>now. sql_exec (update_storage sandboxID u now))"

record tenant_usage =
  tu_Sandboxes :: int
  tu_RunningSandboxes :: int
  tu_ConcurrentExecs :: int
  tu_ActiveTunnels :: int
  tu_RequestedCPU :: cpu_quantity
  tu_RequestedMemory :: int
  tu_RequestedStorage :: int
  tu_ActualStorageBytes :: int
  tu_ActualStorageEntries :: int

definition usage_bytes :: "storage_usage \<Rightarrow> int" where
  "usage_bytes u = su_RootfsBytes u + su_WorkspaceBytes u + su_CacheBytes u + su_SnapshotBytes u"

definition usage_entries :: "storage_usage \<Rightarrow> int" where
  "usage_entries u = su_RootfsEntries u + su_WorkspaceEntries u + su_CacheEntries u + su_SnapshotEntries u"

definition stored_usage :: "database \<Rightarrow> string \<Rightarrow> storage_usage" where
  "stored_usage d sandboxID = (case storage_row_of d sandboxID of None \<Rightarrow> zero_usage | Some r \<Rightarrow> sr_usage r)"

text \<open>
  The aggregate query. \<open>SUM\<close> over integers is exact and raises an error when it leaves the 64-bit
  range; over no rows it is \<open>NULL\<close>, which the program reads as 0.
\<close>

definition tenant_usage_of :: "database \<Rightarrow> string \<Rightarrow> tenant_usage" where
  "tenant_usage_of d tenantID =
     (let rows = filter (\<lambda>r. c_tenant_id r = tenantID \<and> c_status r \<noteq> StatusDeleted) (db_sandboxes d) in
      \<lparr>tu_Sandboxes = int (length rows),
       tu_RunningSandboxes = int (length (filter (\<lambda>r. c_status r = StatusRunning) rows)),
       tu_ConcurrentExecs = int (length (filter (\<lambda>e. ex_TenantID e = tenantID \<and> ex_Status e = ExecRunning)
          (db_executions d))),
       tu_ActiveTunnels = int (length (filter (\<lambda>t. tun_TenantID t = tenantID \<and> tun_RevokedAt t = None)
          (db_tunnels d))),
       tu_RequestedCPU = sum_list (map c_cpu_limit_millis rows),
       tu_RequestedMemory = sum_list (map c_memory_limit_mb rows),
       tu_RequestedStorage = sum_list (map c_disk_limit_mb rows),
       tu_ActualStorageBytes = sum_list (map (\<lambda>r. usage_bytes (stored_usage d (c_sandbox_id r))) rows),
       tu_ActualStorageEntries = sum_list (map (\<lambda>r. usage_entries (stored_usage d (c_sandbox_id r))) rows)\<rparr>)"

definition usage_representable :: "tenant_usage \<Rightarrow> bool" where
  "usage_representable u \<longleftrightarrow> in_int64 (tu_RequestedCPU u) \<and> in_int64 (tu_RequestedMemory u) \<and>
     in_int64 (tu_RequestedStorage u) \<and> in_int64 (tu_ActualStorageBytes u) \<and>
     in_int64 (tu_ActualStorageEntries u)"

definition Store_TenantUsage :: "string \<Rightarrow> (goerr, 'r world, tenant_usage) eop" where
  "Store_TenantUsage tenantID = sql_query (\<lambda>d.
     let u = tenant_usage_of d tenantID in if usage_representable u then Inr u else Inl DriverError)"

section \<open>Executions and terminal sessions\<close>

text \<open>
  Rows of the tables below are the model records themselves, with the fields that have no column or
  that the statement sets to a constant cleared.
\<close>

definition owned :: "database \<Rightarrow> string \<Rightarrow> string \<Rightarrow> bool" where
  "owned d sandboxID tenantID \<longleftrightarrow> has_sandbox d sandboxID \<and> has_tenant d tenantID"

definition insert_execution :: "execution \<Rightarrow> database \<Rightarrow> database option" where
  "insert_execution e d =
     (if \<not> owned d (ex_SandboxID e) (ex_TenantID e) then None
      else (case insert_row ex_ID
                   (e\<lparr>ex_ExitCode := None, ex_StdoutPreview := [], ex_StderrPreview := [],
                      ex_StdoutTruncated := False, ex_StderrTruncated := False,
                      ex_CompletedAt := None, ex_DurationMS := None\<rparr>) (db_executions d) of
              None \<Rightarrow> None | Some rows \<Rightarrow> Some (d\<lparr>db_executions := rows\<rparr>)))"

definition Store_CreateExecution :: "execution \<Rightarrow> (goerr, 'r world, unit) eop" where
  "Store_CreateExecution e = sql_exec (insert_execution e)"

definition update_execution :: "execution \<Rightarrow> database \<Rightarrow> database option" where
  "update_execution e d =
     Some (d\<lparr>db_executions := update_rows (\<lambda>r. ex_ID r = ex_ID e \<and> ex_TenantID r = ex_TenantID e)
        (\<lambda>r. r\<lparr>ex_Status := ex_Status e, ex_ExitCode := ex_ExitCode e,
                ex_StdoutPreview := ex_StdoutPreview e, ex_StderrPreview := ex_StderrPreview e,
                ex_StdoutTruncated := ex_StdoutTruncated e, ex_StderrTruncated := ex_StderrTruncated e,
                ex_CompletedAt := ex_CompletedAt e, ex_DurationMS := ex_DurationMS e\<rparr>)
        (db_executions d)\<rparr>)"

definition Store_UpdateExecution :: "execution \<Rightarrow> (goerr, 'r world, unit) eop" where
  "Store_UpdateExecution e = sql_exec (update_execution e)"

definition insert_tty :: "tty_session \<Rightarrow> database \<Rightarrow> database option" where
  "insert_tty t d =
     (if \<not> owned d (tty_SandboxID t) (tty_TenantID t) then None
      else (case insert_row tty_ID (t\<lparr>tty_ClosedAt := None\<rparr>) (db_tty d) of
              None \<Rightarrow> None | Some rows \<Rightarrow> Some (d\<lparr>db_tty := rows\<rparr>)))"

definition Store_CreateTTYSession :: "tty_session \<Rightarrow> (goerr, 'r world, unit) eop" where
  "Store_CreateTTYSession t = sql_exec (insert_tty t)"

definition close_tty :: "string \<Rightarrow> string \<Rightarrow> time \<Rightarrow> database \<Rightarrow> database option" where
  "close_tty tenantID sessionID now d =
     Some (d\<lparr>db_tty := update_rows (\<lambda>r. tty_ID r = sessionID \<and> tty_TenantID r = tenantID)
        (\<lambda>r. r\<lparr>tty_Connected := False, tty_ClosedAt := Some now\<rparr>) (db_tty d)\<rparr>)"

definition Store_CloseTTYSession :: "string \<Rightarrow> string \<Rightarrow> (goerr, 'r world, unit) eop" where
  "Store_CloseTTYSession tenantID sessionID =
     bindE now_utc (\<lambda>now. sql_exec (close_tty tenantID sessionID now))"

definition resize_tty :: "string \<Rightarrow> string \<Rightarrow> string \<Rightarrow> database \<Rightarrow> database option" where
  "resize_tty tenantID sessionID resize d =
     Some (d\<lparr>db_tty := update_rows (\<lambda>r. tty_ID r = sessionID \<and> tty_TenantID r = tenantID)
        (\<lambda>r. r\<lparr>tty_LastResize := resize\<rparr>) (db_tty d)\<rparr>)"

definition Store_UpdateTTYResize :: "string \<Rightarrow> string \<Rightarrow> string \<Rightarrow> (goerr, 'r world, unit) eop" where
  "Store_UpdateTTYResize tenantID sessionID resize = sql_exec (resize_tty tenantID sessionID resize)"

section \<open>Tunnels and capabilities\<close>

definition no_access :: tunnel_access where
  "no_access = \<lparr>ta_RequiresTenantToken = False, ta_TunnelTokenHeader = [], ta_TunnelTokenQuery = [],
     ta_ExampleCurl = []\<rparr>"

definition insert_tunnel :: "tunnel \<Rightarrow> database \<Rightarrow> database option" where
  "insert_tunnel t d =
     (if \<not> owned d (tun_SandboxID t) (tun_TenantID t) then None
      else (case insert_row tun_ID
                   (t\<lparr>tun_AccessToken := [], tun_Access := no_access, tun_RevokedAt := None\<rparr>)
                   (db_tunnels d) of
              None \<Rightarrow> None | Some rows \<Rightarrow> Some (d\<lparr>db_tunnels := rows\<rparr>)))"

definition Store_CreateTunnel :: "tunnel \<Rightarrow> (goerr, 'r world, unit) eop" where
  "Store_CreateTunnel t = sql_exec (insert_tunnel t)"

definition Store_ListTunnels :: "string \<Rightarrow> string \<Rightarrow> (goerr, 'r world, tunnel list) eop" where
  "Store_ListTunnels tenantID sandboxID = sql_query (\<lambda>d.
     Inr (sort_key (\<lambda>t. order_key (tun_CreatedAt t))
       (filter (\<lambda>t. tun_TenantID t = tenantID \<and> tun_SandboxID t = sandboxID) (db_tunnels d))))"

definition not_found_or :: "'a option \<Rightarrow> goerr + 'a" where
  "not_found_or x = (case x of None \<Rightarrow> Inl ErrNotFound | Some a \<Rightarrow> Inr a)"

definition Store_GetTunnel :: "string \<Rightarrow> string \<Rightarrow> (goerr, 'r world, tunnel) eop" where
  "Store_GetTunnel tenantID tunnelID = sql_query (\<lambda>d.
     not_found_or (find_row (\<lambda>t. tun_TenantID t = tenantID \<and> tun_ID t = tunnelID) (db_tunnels d)))"

definition Store_GetTunnelByID :: "string \<Rightarrow> (goerr, 'r world, tunnel) eop" where
  "Store_GetTunnelByID tunnelID = sql_query (\<lambda>d.
     not_found_or (find_row (\<lambda>t. tun_ID t = tunnelID) (db_tunnels d)))"

definition revoke_tunnel :: "string \<Rightarrow> string \<Rightarrow> time \<Rightarrow> database \<Rightarrow> database option" where
  "revoke_tunnel tenantID tunnelID now d =
     Some (d\<lparr>db_tunnels := update_rows
        (\<lambda>t. tun_TenantID t = tenantID \<and> tun_ID t = tunnelID \<and> tun_RevokedAt t = None)
        (\<lambda>t. t\<lparr>tun_RevokedAt := Some now\<rparr>) (db_tunnels d)\<rparr>)"

definition Store_RevokeTunnel :: "string \<Rightarrow> string \<Rightarrow> (goerr, 'r world, unit) eop" where
  "Store_RevokeTunnel tenantID tunnelID =
     bindE now_utc (\<lambda>now. sql_exec (revoke_tunnel tenantID tunnelID now))"

definition insert_capability :: "tunnel_capability \<Rightarrow> database \<Rightarrow> database option" where
  "insert_capability c d =
     (if \<not> has_tunnel d (cap_TunnelID c) then None
      else (case insert_row cap_ID (c\<lparr>cap_ConsumedAt := None, cap_RevokedAt := None\<rparr>)
                   (db_capabilities d) of
              None \<Rightarrow> None | Some rows \<Rightarrow> Some (d\<lparr>db_capabilities := rows\<rparr>)))"

definition Store_CreateTunnelCapability :: "tunnel_capability \<Rightarrow> (goerr, 'r world, unit) eop" where
  "Store_CreateTunnelCapability c = sql_exec (insert_capability c)"

definition Store_GetTunnelCapability :: "string \<Rightarrow> (goerr, 'r world, tunnel_capability) eop" where
  "Store_GetTunnelCapability capabilityID = sql_query (\<lambda>d.
     not_found_or (find_row (\<lambda>c. cap_ID c = capabilityID) (db_capabilities d)))"

definition consume_capability :: "string \<Rightarrow> time \<Rightarrow> database \<Rightarrow> database option" where
  "consume_capability capabilityID now d =
     Some (d\<lparr>db_capabilities := update_rows
        (\<lambda>c. cap_ID c = capabilityID \<and> cap_ConsumedAt c = None \<and> cap_RevokedAt c = None)
        (\<lambda>c. c\<lparr>cap_ConsumedAt := Some now\<rparr>) (db_capabilities d)\<rparr>)"

definition Store_ConsumeTunnelCapability :: "string \<Rightarrow> (goerr, 'r world, unit) eop" where
  "Store_ConsumeTunnelCapability capabilityID =
     bindE now_utc (\<lambda>now. sql_exec (consume_capability capabilityID now))"

definition revoke_capabilities :: "string \<Rightarrow> time \<Rightarrow> database \<Rightarrow> database option" where
  "revoke_capabilities tunnelID now d =
     Some (d\<lparr>db_capabilities := update_rows
        (\<lambda>c. cap_TunnelID c = tunnelID \<and> cap_RevokedAt c = None)
        (\<lambda>c. c\<lparr>cap_RevokedAt := Some now\<rparr>) (db_capabilities d)\<rparr>)"

definition Store_RevokeTunnelCapabilities :: "string \<Rightarrow> (goerr, 'r world, unit) eop" where
  "Store_RevokeTunnelCapabilities tunnelID =
     bindE now_utc (\<lambda>now. sql_exec (revoke_capabilities tunnelID now))"

section \<open>Snapshots\<close>

definition insert_snapshot :: "snapshot \<Rightarrow> database \<Rightarrow> database option" where
  "insert_snapshot s d =
     (if \<not> owned d (sn_SandboxID s) (sn_TenantID s) then None
      else (case insert_row sn_ID s (db_snapshots d) of
              None \<Rightarrow> None | Some rows \<Rightarrow> Some (d\<lparr>db_snapshots := rows\<rparr>)))"

definition Store_CreateSnapshot :: "snapshot \<Rightarrow> (goerr, 'r world, unit) eop" where
  "Store_CreateSnapshot s = sql_exec (insert_snapshot s)"

definition update_snapshot :: "snapshot \<Rightarrow> database \<Rightarrow> database option" where
  "update_snapshot s d =
     Some (d\<lparr>db_snapshots := update_rows (\<lambda>r. sn_ID r = sn_ID s \<and> sn_TenantID r = sn_TenantID s)
        (\<lambda>r. s\<lparr>sn_ID := sn_ID r, sn_SandboxID := sn_SandboxID r, sn_TenantID := sn_TenantID r,
                sn_Name := sn_Name r, sn_CreatedAt := sn_CreatedAt r\<rparr>) (db_snapshots d)\<rparr>)"

definition Store_UpdateSnapshot :: "snapshot \<Rightarrow> (goerr, 'r world, unit) eop" where
  "Store_UpdateSnapshot s = sql_exec (update_snapshot s)"

definition scanSnapshot :: "snapshot \<Rightarrow> snapshot" where
  "scanSnapshot r = r\<lparr>sn_RuntimeSelection :=
     ResolveRuntimeSelection (ParseRuntimeSelection (selection_string (sn_RuntimeSelection r)))
       (sn_RuntimeBackend r)\<rparr>"

definition Store_GetSnapshot :: "string \<Rightarrow> string \<Rightarrow> (goerr, 'r world, snapshot) eop" where
  "Store_GetSnapshot tenantID snapshotID = sql_query (\<lambda>d.
     not_found_or (map_option scanSnapshot
       (find_row (\<lambda>s. sn_TenantID s = tenantID \<and> sn_ID s = snapshotID) (db_snapshots d))))"

text \<open>\<open>ORDER BY created_at DESC\<close>: the reversal of the ascending order of the reversed rows is stable.\<close>

definition Store_ListSnapshots :: "string \<Rightarrow> string \<Rightarrow> (goerr, 'r world, snapshot list) eop" where
  "Store_ListSnapshots tenantID sandboxID = sql_query (\<lambda>d.
     Inr (map scanSnapshot (rev (sort_key (\<lambda>s. order_key (sn_CreatedAt s))
       (rev (filter (\<lambda>s. sn_TenantID s = tenantID \<and> sn_SandboxID s = sandboxID) (db_snapshots d)))))))"

definition Store_ListSnapshotsByStatus :: "snapshot_status \<Rightarrow> (goerr, 'r world, snapshot list) eop" where
  "Store_ListSnapshotsByStatus status = sql_query (\<lambda>d.
     Inr (map scanSnapshot (sort_key (\<lambda>s. order_key (sn_CreatedAt s))
       (filter (\<lambda>s. sn_Status s = status) (db_snapshots d)))))"

section \<open>Audit events\<close>

definition insert_audit :: "audit_event \<Rightarrow> database \<Rightarrow> database option" where
  "insert_audit e d =
     (if \<not> has_tenant d (au_TenantID e) then None
      else (case insert_row au_ID e (db_audit d) of
              None \<Rightarrow> None | Some rows \<Rightarrow> Some (d\<lparr>db_audit := rows\<rparr>)))"

definition count_key :: "count_row \<Rightarrow> string \<times> string \<times> string" where
  "count_key r = (ac_tenant_id r, ac_action r, ac_outcome r)"

definition bump_count :: "audit_event \<Rightarrow> database \<Rightarrow> database option" where
  "bump_count e d =
     (if \<not> has_tenant d (au_TenantID e) then None
      else Some (d\<lparr>db_audit_counts := upsert_row count_key
             \<lparr>ac_tenant_id = au_TenantID e, ac_action = au_Action e, ac_outcome = au_Outcome e, ac_total = 1\<rparr>
             (\<lambda>r. r\<lparr>ac_total := ac_total r + 1\<rparr>) (db_audit_counts d)\<rparr>))"

definition Store_AddAuditEvent :: "audit_event \<Rightarrow> (goerr, 'r world, unit) eop" where
  "Store_AddAuditEvent e = WithTx [insert_audit e, bump_count e]"

definition Store_ListAuditEvents :: "string \<Rightarrow> (goerr, 'r world, audit_event list) eop" where
  "Store_ListAuditEvents tenantID = sql_query (\<lambda>d.
     Inr (sort_key (\<lambda>e. order_key (au_CreatedAt e))
       (filter (\<lambda>e. au_TenantID e = tenantID) (db_audit d))))"

text \<open>
  A map of counts is an association list with distinct keys. The nested map of audit counts is keyed by
  the pair of action and outcome, which is unique among the rows of a tenant.
\<close>

type_synonym 'k counts = "('k \<times> int) list"

definition Store_AuditEventCounts :: "string \<Rightarrow> (goerr, 'r world, (string \<times> string) counts) eop" where
  "Store_AuditEventCounts tenantID = sql_query (\<lambda>d.
     Inr (map (\<lambda>r. ((ac_action r, ac_outcome r), ac_total r))
       (filter (\<lambda>r. ac_tenant_id r = tenantID) (db_audit_counts d))))"

section \<open>Lists and counts for reconciliation and metrics\<close>

definition Store_ListRunningExecutions :: "(goerr, 'r world, execution list) eop" where
  "Store_ListRunningExecutions = sql_query (\<lambda>d.
     Inr (map (\<lambda>e. e\<lparr>ex_ExitCode := None, ex_StdoutPreview := [], ex_StderrPreview := [],
                      ex_StdoutTruncated := False, ex_StderrTruncated := False,
                      ex_CompletedAt := None, ex_DurationMS := None\<rparr>)
       (sort_key (\<lambda>e. order_key (ex_StartedAt e))
         (filter (\<lambda>e. ex_Status e = ExecRunning) (db_executions d)))))"

definition count_by :: "('row \<Rightarrow> 'k) \<Rightarrow> 'row list \<Rightarrow> 'k counts" where
  "count_by key rows =
     map (\<lambda>k. (k, int (length (filter (\<lambda>r. key r = k) rows)))) (remdups (map key rows))"

definition count_at :: "'k counts \<Rightarrow> 'k \<Rightarrow> int" where
  "count_at counts k = (case map_of counts k of None \<Rightarrow> 0 | Some n \<Rightarrow> n)"

definition Store_ExecutionCounts :: "string \<Rightarrow> (goerr, 'r world, execution_status counts) eop" where
  "Store_ExecutionCounts tenantID = sql_query (\<lambda>d.
     Inr (count_by ex_Status (filter (\<lambda>e. tenantID = [] \<or> ex_TenantID e = tenantID) (db_executions d))))"

definition Store_SnapshotCounts :: "string \<Rightarrow> (goerr, 'r world, snapshot_status counts) eop" where
  "Store_SnapshotCounts tenantID = sql_query (\<lambda>d.
     Inr (count_by sn_Status (filter (\<lambda>s. tenantID = [] \<or> sn_TenantID s = tenantID) (db_snapshots d))))"

section \<open>Service accounts, promoted images and release evidence\<close>

definition upsert_service_account :: "service_account \<Rightarrow> database \<Rightarrow> database option" where
  "upsert_service_account a d =
     (if \<not> has_tenant d (sa_TenantID a) then None
      else Some (d\<lparr>db_service_accounts := upsert_row sa_ID a
             (\<lambda>x. a\<lparr>sa_CreatedAt := sa_CreatedAt x\<rparr>) (db_service_accounts d)\<rparr>))"

definition Store_UpsertServiceAccount :: "service_account \<Rightarrow> (goerr, 'r world, unit) eop" where
  "Store_UpsertServiceAccount a = sql_exec (upsert_service_account a)"

definition Store_GetServiceAccount :: "string \<Rightarrow> (goerr, 'r world, service_account) eop" where
  "Store_GetServiceAccount accountID = sql_query (\<lambda>d.
     not_found_or (find_row (\<lambda>a. sa_ID a = accountID) (db_service_accounts d)))"

definition upsert_promoted :: "promoted_image \<Rightarrow> database \<Rightarrow> database option" where
  "upsert_promoted i d =
     Some (d\<lparr>db_promoted := upsert_row pi_ImageRef i (\<lambda>x. i) (db_promoted d)\<rparr>)"

definition Store_UpsertPromotedGuestImage :: "promoted_image \<Rightarrow> (goerr, 'r world, unit) eop" where
  "Store_UpsertPromotedGuestImage i = sql_exec (upsert_promoted i)"

definition Store_GetPromotedGuestImage :: "string \<Rightarrow> (goerr, 'r world, promoted_image) eop" where
  "Store_GetPromotedGuestImage imageRef = sql_query (\<lambda>d.
     not_found_or (find_row (\<lambda>i. pi_ImageRef i = imageRef) (db_promoted d)))"

definition Store_ListPromotedGuestImages :: "(goerr, 'r world, promoted_image list) eop" where
  "Store_ListPromotedGuestImages = sql_query (\<lambda>d. Inr (sort_key pi_ImageRef (db_promoted d)))"

definition insert_evidence :: "release_evidence \<Rightarrow> database \<Rightarrow> database option" where
  "insert_evidence e d =
     (case insert_row re_ID e (db_evidence d) of
        None \<Rightarrow> None | Some rows \<Rightarrow> Some (d\<lparr>db_evidence := rows\<rparr>))"

definition Store_CreateReleaseEvidence :: "release_evidence \<Rightarrow> (goerr, 'r world, unit) eop" where
  "Store_CreateReleaseEvidence e = sql_exec (insert_evidence e)"

definition scanReleaseEvidence :: "release_evidence \<Rightarrow> release_evidence" where
  "scanReleaseEvidence r =
     r\<lparr>re_RuntimeSelection := ParseRuntimeSelection (selection_string (re_RuntimeSelection r))\<rparr>"

definition Store_ListReleaseEvidence :: "string \<Rightarrow> (goerr, 'r world, release_evidence list) eop" where
  "Store_ListReleaseEvidence gateName = sql_query (\<lambda>d.
     Inr (map scanReleaseEvidence (rev (sort_key (\<lambda>e. order_key (re_StartedAt e))
       (rev (filter (\<lambda>e. TrimSpace gateName = [] \<or> re_GateName e = gateName) (db_evidence d)))))))"

end
