(* ===== verification/StoreFacts.thy ===== *)
theory StoreFacts
  imports Store
begin

text \<open>
  Facts about the store: what every statement keeps. The locale \<open>db_relation\<close> is the interface the
  service layer relies on: a relation between databases that is a preorder and that every statement
  respects; \<open>T\<close> says for which tenants rows are written and \<open>U\<close> which sandbox states are written back.
  Whatever holds of all statements then holds of every service operation, on every error path. It is
  interpreted here on three relations: integrity (keys, references and audit totals), history (nothing
  is forgotten or rewritten) and the frame of a tenant (other tenants' rows stay the same).
\<close>

section \<open>The interface\<close>

definition create_sandbox_tx :: "sandbox \<Rightarrow> database \<Rightarrow> database option" where
  "create_sandbox_tx s = in_tx [insert_sandbox s, insert_runtime_state s, insert_storage s]"

definition update_sandbox_tx :: "sandbox \<Rightarrow> database \<Rightarrow> database option" where
  "update_sandbox_tx s = in_tx [update_sandbox s, update_runtime_columns s]"

definition audit_tx :: "audit_event \<Rightarrow> database \<Rightarrow> database option" where
  "audit_tx e = in_tx [insert_audit e, bump_count e]"

definition on_db :: "(database \<Rightarrow> database \<Rightarrow> bool) \<Rightarrow> 'r world \<Rightarrow> 'r world \<Rightarrow> bool" where
  "on_db R w w' = R (w_db w) (w_db w')"

locale db_relation =
  fixes R :: "database \<Rightarrow> database \<Rightarrow> bool" and T :: "string \<Rightarrow> bool" and U :: "sandbox \<Rightarrow> bool"
    and C :: "string \<Rightarrow> string \<Rightarrow> bool"
  assumes db_refl: "R d d"
    and db_trans: "R d1 d2 \<Longrightarrow> R d2 d3 \<Longrightarrow> R d1 d3"
    and r_create_sandbox: "T (sb_TenantID s) \<Longrightarrow> create_sandbox_tx s d = Some d' \<Longrightarrow> R d d'"
    and r_update_sandbox: "U s \<Longrightarrow> update_sandbox_tx s d = Some d' \<Longrightarrow> R d d'"
    and r_runtime_state: "update_runtime_state i st d = Some d' \<Longrightarrow> R d d'"
    and r_storage: "update_storage i u now d = Some d' \<Longrightarrow> R d d'"
    and r_insert_execution: "T (ex_TenantID e) \<Longrightarrow> C (ex_TenantID e) (ex_SandboxID e) \<Longrightarrow>
      insert_execution e d = Some d' \<Longrightarrow> R d d'"
    and r_update_execution: "T (ex_TenantID e) \<Longrightarrow> update_execution e d = Some d' \<Longrightarrow> R d d'"
    and r_insert_tty: "T (tty_TenantID ty) \<Longrightarrow> C (tty_TenantID ty) (tty_SandboxID ty) \<Longrightarrow>
      insert_tty ty d = Some d' \<Longrightarrow> R d d'"
    and r_close_tty: "T tenant \<Longrightarrow> close_tty tenant i now d = Some d' \<Longrightarrow> R d d'"
    and r_resize_tty: "T tenant \<Longrightarrow> resize_tty tenant i x d = Some d' \<Longrightarrow> R d d'"
    and r_insert_tunnel: "T (tun_TenantID t) \<Longrightarrow> C (tun_TenantID t) (tun_SandboxID t) \<Longrightarrow>
      insert_tunnel t d = Some d' \<Longrightarrow> R d d'"
    and r_revoke_tunnel: "T tenant \<Longrightarrow> revoke_tunnel tenant i now d = Some d' \<Longrightarrow> R d d'"
    and r_insert_capability: "insert_capability c d = Some d' \<Longrightarrow> R d d'"
    and r_consume_capability: "consume_capability i now d = Some d' \<Longrightarrow> R d d'"
    and r_revoke_capabilities: "revoke_capabilities i now d = Some d' \<Longrightarrow> R d d'"
    and r_insert_snapshot: "T (sn_TenantID sn) \<Longrightarrow> C (sn_TenantID sn) (sn_SandboxID sn) \<Longrightarrow>
      insert_snapshot sn d = Some d' \<Longrightarrow> R d d'"
    and r_update_snapshot: "T (sn_TenantID sn) \<Longrightarrow> update_snapshot sn d = Some d' \<Longrightarrow> R d d'"
    and r_audit: "T (au_TenantID a) \<Longrightarrow> audit_tx a d = Some d' \<Longrightarrow> R d d'"
    and r_service_account: "upsert_service_account sa d = Some d' \<Longrightarrow> R d d'"
    and r_promoted: "upsert_promoted im d = Some d' \<Longrightarrow> R d d'"
    and r_evidence: "insert_evidence ev d = Some d' \<Longrightarrow> R d d'"
begin

lemma db_preorder: "step_preorder (on_db R)"
  by unfold_locales (auto simp: on_db_def intro: db_refl db_trans)

end

sublocale db_relation \<subseteq> db: step_preorder "on_db R"
  by (rule db_preorder)

context db_relation begin

lemma preserves_exec:
  "(\<And>d d'. stmt d = Some d' \<Longrightarrow> R d d') \<Longrightarrow> preserves (on_db R) (sql_exec stmt)"
  by (auto simp: preserves_def on_db_def sql_exec_def Let_def db_refl split: option.split)

lemma preserves_query: "preserves (on_db R) (sql_query q)"
  by (auto simp: preserves_def on_db_def sql_query_def Let_def db_refl)

lemma preserves_now: "preserves (on_db R) now_utc"
  by (simp add: preserves_def on_db_def now_utc_def db_refl)

lemma preserves_newID: "preserves (on_db R) (newID p)"
  by (simp add: preserves_def on_db_def newID_def db_refl)

lemma preserves_os: "preserves (on_db R) (os_call oper)"
  by (auto simp: preserves_def on_db_def os_call_def Let_def db_refl split: option.split)

text \<open>A bind whose continuation may rely on what the first step returned.\<close>

lemma preserves_bind_result:
  assumes "preserves (on_db R) m" and "\<And>w a w'. m w = (Inr a, w') \<Longrightarrow> preserves (on_db R) (k a)"
  shows "preserves (on_db R) (bindE m k)"
proof -
  have "on_db R w (snd (bindE m k w))" for w
  proof (cases "m w")
    case (Pair r v)
    with assms(1) have "on_db R w v" by (metis preserves_def snd_conv)
    with assms(2) Pair show ?thesis
      by (cases r) (auto simp: preserves_def bindE_def intro: db.R_trans)
  qed
  then show ?thesis by (simp add: preserves_def)
qed

lemma store_CreateSandbox: "T (sb_TenantID s) \<Longrightarrow> preserves (on_db R) (Store_CreateSandbox s)"
  unfolding Store_CreateSandbox_def WithTx_def
  by (rule preserves_exec) (auto simp flip: create_sandbox_tx_def intro: r_create_sandbox)

lemma store_UpdateSandboxState:
  "U s \<Longrightarrow> preserves (on_db R) (Store_UpdateSandboxState s)"
  unfolding Store_UpdateSandboxState_def WithTx_def
  by (rule preserves_exec) (auto simp flip: update_sandbox_tx_def intro: r_update_sandbox)

lemma store_AddAuditEvent: "T (au_TenantID a) \<Longrightarrow> preserves (on_db R) (Store_AddAuditEvent a)"
  unfolding Store_AddAuditEvent_def WithTx_def
  by (rule preserves_exec) (auto simp flip: audit_tx_def intro: r_audit)

lemma store_queries:
  "preserves (on_db R) (Store_GetQuota t)"
  "preserves (on_db R) (Store_AuthenticateTenant h)"
  "preserves (on_db R) (Store_GetSandbox t i)"
  "preserves (on_db R) (Store_ListSandboxes t)"
  "preserves (on_db R) Store_ListNonDeletedSandboxes"
  "preserves (on_db R) (Store_ListNonDeletedSandboxesByTenant t)"
  "preserves (on_db R) (Store_StorageUsageUpdatedAt i)"
  "preserves (on_db R) (Store_TenantUsage t)"
  "preserves (on_db R) (Store_ListTunnels t i)"
  "preserves (on_db R) (Store_GetTunnel t i)"
  "preserves (on_db R) (Store_GetTunnelByID i)"
  "preserves (on_db R) (Store_GetTunnelCapability i)"
  "preserves (on_db R) (Store_GetSnapshot t i)"
  "preserves (on_db R) (Store_ListSnapshots t i)"
  "preserves (on_db R) (Store_ListSnapshotsByStatus st)"
  "preserves (on_db R) (Store_ListAuditEvents t)"
  "preserves (on_db R) (Store_AuditEventCounts t)"
  "preserves (on_db R) Store_ListRunningExecutions"
  "preserves (on_db R) (Store_ExecutionCounts t)"
  "preserves (on_db R) (Store_SnapshotCounts t)"
  "preserves (on_db R) (Store_GetServiceAccount i)"
  "preserves (on_db R) (Store_GetPromotedGuestImage r)"
  "preserves (on_db R) Store_ListPromotedGuestImages"
  "preserves (on_db R) (Store_ListReleaseEvidence g)"
  unfolding Store_GetQuota_def Store_AuthenticateTenant_def Store_GetSandbox_def Store_ListSandboxes_def
    Store_ListNonDeletedSandboxes_def Store_ListNonDeletedSandboxesByTenant_def
    Store_listNonDeletedSandboxes_def Store_StorageUsageUpdatedAt_def Store_TenantUsage_def
    Store_ListTunnels_def Store_GetTunnel_def Store_GetTunnelByID_def Store_GetTunnelCapability_def
    Store_GetSnapshot_def Store_ListSnapshots_def Store_ListSnapshotsByStatus_def
    Store_ListAuditEvents_def Store_AuditEventCounts_def Store_ListRunningExecutions_def
    Store_ExecutionCounts_def Store_SnapshotCounts_def Store_GetServiceAccount_def
    Store_GetPromotedGuestImage_def Store_ListPromotedGuestImages_def Store_ListReleaseEvidence_def
  by (rule preserves_query)+

lemma store_unscoped:
  "preserves (on_db R) (Store_UpdateRuntimeState i st)"
  "preserves (on_db R) (Store_UpdateStorageUsage i u)"
  "preserves (on_db R) (Store_CreateTunnelCapability c)"
  "preserves (on_db R) (Store_ConsumeTunnelCapability i)"
  "preserves (on_db R) (Store_RevokeTunnelCapabilities i)"
  "preserves (on_db R) (Store_UpsertServiceAccount sa)"
  "preserves (on_db R) (Store_UpsertPromotedGuestImage im)"
  "preserves (on_db R) (Store_CreateReleaseEvidence ev)"
  unfolding Store_UpdateRuntimeState_def Store_UpdateStorageUsage_def Store_CreateTunnelCapability_def
    Store_ConsumeTunnelCapability_def Store_RevokeTunnelCapabilities_def Store_UpsertServiceAccount_def
    Store_UpsertPromotedGuestImage_def Store_CreateReleaseEvidence_def
  by (intro db.preserves_bind preserves_now preserves_exec; (rule r_runtime_state r_storage
      r_insert_capability r_consume_capability r_revoke_capabilities r_service_account r_promoted
      r_evidence; assumption))+

lemma store_scoped:
  "T (ex_TenantID e) \<Longrightarrow> C (ex_TenantID e) (ex_SandboxID e) \<Longrightarrow> preserves (on_db R) (Store_CreateExecution e)"
  "T (ex_TenantID e) \<Longrightarrow> preserves (on_db R) (Store_UpdateExecution e)"
  "T (tty_TenantID tt) \<Longrightarrow> C (tty_TenantID tt) (tty_SandboxID tt) \<Longrightarrow> preserves (on_db R) (Store_CreateTTYSession tt)"
  "T tenant \<Longrightarrow> preserves (on_db R) (Store_CloseTTYSession tenant i)"
  "T tenant \<Longrightarrow> preserves (on_db R) (Store_UpdateTTYResize tenant i x)"
  "T (tun_TenantID t) \<Longrightarrow> C (tun_TenantID t) (tun_SandboxID t) \<Longrightarrow> preserves (on_db R) (Store_CreateTunnel t)"
  "T tenant \<Longrightarrow> preserves (on_db R) (Store_RevokeTunnel tenant i)"
  "T (sn_TenantID sn) \<Longrightarrow> C (sn_TenantID sn) (sn_SandboxID sn) \<Longrightarrow> preserves (on_db R) (Store_CreateSnapshot sn)"
  "T (sn_TenantID sn) \<Longrightarrow> preserves (on_db R) (Store_UpdateSnapshot sn)"
  unfolding Store_CreateExecution_def Store_UpdateExecution_def Store_CreateTTYSession_def
    Store_CloseTTYSession_def Store_UpdateTTYResize_def Store_CreateTunnel_def Store_RevokeTunnel_def
    Store_CreateSnapshot_def Store_UpdateSnapshot_def
  by (intro db.preserves_bind preserves_now preserves_exec; (rule r_insert_execution r_update_execution
      r_insert_tty r_close_tty r_resize_tty r_insert_tunnel r_revoke_tunnel r_insert_snapshot
      r_update_snapshot; assumption))+

lemmas store_preserves =
  store_CreateSandbox store_UpdateSandboxState store_AddAuditEvent store_queries store_unscoped
  store_scoped preserves_now preserves_newID preserves_os

end

section \<open>Rows under the statements\<close>

lemma insert_row_Some:
  "insert_row key r rows = Some rows' \<longleftrightarrow> key r \<notin> set (map key rows) \<and> rows' = rows @ [r]"
  by (auto simp: insert_row_def)

lemma map_key_upsert:
  "(\<And>x. key x = key r \<Longrightarrow> key (f x) = key r) \<Longrightarrow>
   map key (upsert_row key r f rows) = (if key r \<in> set (map key rows) then map key rows else map key rows @ [key r])"
  by (simp add: upsert_row_def map_key_update_rows [of "\<lambda>x. key x = key r" key f])

lemma distinct_upsert:
  "(\<And>x. key x = key r \<Longrightarrow> key (f x) = key r) \<Longrightarrow> distinct (map key rows) \<Longrightarrow>
   distinct (map key (upsert_row key r f rows))"
  by (simp add: map_key_upsert)

lemma distinct_bump:
  "distinct (map count_key rows) \<Longrightarrow>
   distinct (map count_key (upsert_row count_key r (\<lambda>x. x\<lparr>ac_total := ac_total x + 1\<rparr>) rows))"
  by (rule distinct_upsert) (simp_all add: count_key_def)

lemma distinct_update:
  "(\<And>r. p r \<Longrightarrow> key (f r) = key r) \<Longrightarrow> distinct (map key (update_rows p f rows)) = distinct (map key rows)"
  by (simp add: map_key_update_rows)

lemma image_update_rows:
  "(\<And>r. p r \<Longrightarrow> k (f r) = k r) \<Longrightarrow> k ` set (update_rows p f rows) = k ` set rows"
  using map_key_update_rows [of p k f rows] by (metis list.set_map)

lemma ball_update_rows:
  "(\<And>r. p r \<Longrightarrow> q (f r) = q r) \<Longrightarrow> (\<forall>r \<in> set (update_rows p f rows). q r) = (\<forall>r \<in> set rows. q r)"
  by (induction rows) auto

lemma filter_update_other:
  "(\<And>r. p r \<Longrightarrow> \<not> q r \<and> \<not> q (f r)) \<Longrightarrow> filter q (update_rows p f rows) = filter q rows"
  by (induction rows) auto

lemmas stmt_defs =
  create_sandbox_tx_def update_sandbox_tx_def audit_tx_def insert_sandbox_def insert_runtime_state_def
  insert_storage_def update_sandbox_def update_runtime_columns_def update_runtime_state_def
  update_storage_def insert_execution_def update_execution_def insert_tty_def close_tty_def
  resize_tty_def insert_tunnel_def revoke_tunnel_def insert_capability_def consume_capability_def
  revoke_capabilities_def insert_snapshot_def update_snapshot_def insert_audit_def bump_count_def
  upsert_service_account_def upsert_promoted_def insert_evidence_def

section \<open>Integrity\<close>

definition keys_ok :: "database \<Rightarrow> bool" where
  "keys_ok d \<longleftrightarrow>
     distinct (map c_sandbox_id (db_sandboxes d)) \<and>
     map rr_sandbox_id (db_runtime d) = map c_sandbox_id (db_sandboxes d) \<and>
     map sr_sandbox_id (db_storage d) = map c_sandbox_id (db_sandboxes d) \<and>
     distinct (map tun_ID (db_tunnels d)) \<and> distinct (map cap_ID (db_capabilities d)) \<and>
     distinct (map sn_ID (db_snapshots d)) \<and> distinct (map ex_ID (db_executions d)) \<and>
     distinct (map tty_ID (db_tty d)) \<and> distinct (map au_ID (db_audit d)) \<and>
     distinct (map count_key (db_audit_counts d)) \<and> distinct (map sa_ID (db_service_accounts d)) \<and>
     distinct (map pi_ImageRef (db_promoted d)) \<and> distinct (map re_ID (db_evidence d))"

definition refs_ok :: "database \<Rightarrow> bool" where
  "refs_ok d \<longleftrightarrow>
     (\<forall>r \<in> set (db_sandboxes d). has_tenant d (c_tenant_id r)) \<and>
     (\<forall>t \<in> set (db_tunnels d). owned d (tun_SandboxID t) (tun_TenantID t)) \<and>
     (\<forall>c \<in> set (db_capabilities d). has_tunnel d (cap_TunnelID c)) \<and>
     (\<forall>s \<in> set (db_snapshots d). owned d (sn_SandboxID s) (sn_TenantID s)) \<and>
     (\<forall>e \<in> set (db_executions d). owned d (ex_SandboxID e) (ex_TenantID e)) \<and>
     (\<forall>t \<in> set (db_tty d). owned d (tty_SandboxID t) (tty_TenantID t)) \<and>
     (\<forall>e \<in> set (db_audit d). has_tenant d (au_TenantID e))"

definition event_key :: "audit_event \<Rightarrow> string \<times> string \<times> string" where
  "event_key e = (au_TenantID e, au_Action e, au_Outcome e)"

definition count_of :: "count_row list \<Rightarrow> string \<times> string \<times> string \<Rightarrow> int" where
  "count_of rows k = (case find_row (\<lambda>r. count_key r = k) rows of None \<Rightarrow> 0 | Some r \<Rightarrow> ac_total r)"

definition counts_ok :: "database \<Rightarrow> bool" where
  "counts_ok d \<longleftrightarrow>
     (\<forall>k. count_of (db_audit_counts d) k = int (length (filter (\<lambda>e. event_key e = k) (db_audit d))))"

definition db_ok :: "database \<Rightarrow> bool" where
  "db_ok d \<longleftrightarrow> keys_ok d \<and> refs_ok d \<and> counts_ok d"

lemma empty_db_ok: "db_ok empty_db"
  by (simp add: db_ok_def keys_ok_def refs_ok_def counts_ok_def count_of_def empty_db_def)

definition keeps_integrity :: "database \<Rightarrow> database \<Rightarrow> bool" where
  "keeps_integrity d d' \<longleftrightarrow> (db_ok d \<longrightarrow> db_ok d')"

lemma count_of_bump:
  "count_of (upsert_row count_key \<lparr>ac_tenant_id = t, ac_action = a, ac_outcome = x, ac_total = 1\<rparr>
      (\<lambda>r. r\<lparr>ac_total := ac_total r + 1\<rparr>) rows) k
   = count_of rows k + (if k = (t, a, x) then 1 else 0)"
proof (cases "(t, a, x) \<in> set (map count_key rows)")
  case True
  then obtain r0 where "find_row (\<lambda>r. count_key r = (t, a, x)) rows = Some r0"
    by (cases "find_row (\<lambda>r. count_key r = (t, a, x)) rows") (auto simp: find_row_None)
  moreover have "find_row (\<lambda>r. count_key r = k) (update_rows (\<lambda>r. count_key r = (t, a, x))
        (\<lambda>r. r\<lparr>ac_total := ac_total r + 1\<rparr>) rows)
      = map_option (\<lambda>r. if count_key r = (t, a, x) then r\<lparr>ac_total := ac_total r + 1\<rparr> else r)
          (find_row (\<lambda>r. count_key r = k) rows)"
    by (rule find_row_update_keep) (simp add: count_key_def)
  moreover have "count_key r1 = k" if "find_row (\<lambda>r. count_key r = k) rows = Some r1" for r1
    using find_row_Some_set [OF that] by simp
  ultimately show ?thesis using True
    by (cases "find_row (\<lambda>r. count_key r = k) rows")
      (auto simp: upsert_row_def count_of_def count_key_def)
next
  case False
  have "count_key r \<noteq> (t, a, x)" if "r \<in> set rows" for r
  proof
    assume "count_key r = (t, a, x)"
    then have "(t, a, x) \<in> count_key ` set rows" using that by (rule image_eqI [OF sym])
    with False show False by simp
  qed
  then have n: "find_row (\<lambda>r. count_key r = (t, a, x)) rows = None" by (simp add: find_row_None)
  with False show ?thesis
    by (cases "find_row (\<lambda>r. count_key r = k) rows")
      (auto simp: upsert_row_def count_of_def count_key_def find_row_append)
qed

lemma audit_tx_counts: "audit_tx e d = Some d' \<Longrightarrow> counts_ok d \<Longrightarrow> counts_ok d'"
  by (auto simp: counts_ok_def audit_tx_def insert_audit_def bump_count_def insert_row_Some
      count_of_bump event_key_def split: option.splits if_splits)

lemmas integrity_simps =
  insert_row_Some map_key_update_rows distinct_update ball_update_rows
  image_update_rows has_tenant_def has_sandbox_def
  has_tunnel_def owned_def sandbox_columns_def sandbox_to_row_def

lemma keys_ok_stmts:
  "create_sandbox_tx s d = Some d' \<Longrightarrow> keys_ok d \<Longrightarrow> keys_ok d'"
  "update_sandbox_tx s d = Some d' \<Longrightarrow> keys_ok d \<Longrightarrow> keys_ok d'"
  "update_runtime_state i st d = Some d' \<Longrightarrow> keys_ok d \<Longrightarrow> keys_ok d'"
  "update_storage i u now d = Some d' \<Longrightarrow> keys_ok d \<Longrightarrow> keys_ok d'"
  "insert_execution e d = Some d' \<Longrightarrow> keys_ok d \<Longrightarrow> keys_ok d'"
  "update_execution e d = Some d' \<Longrightarrow> keys_ok d \<Longrightarrow> keys_ok d'"
  "insert_tty ty d = Some d' \<Longrightarrow> keys_ok d \<Longrightarrow> keys_ok d'"
  "close_tty tenant i now d = Some d' \<Longrightarrow> keys_ok d \<Longrightarrow> keys_ok d'"
  "resize_tty tenant i x d = Some d' \<Longrightarrow> keys_ok d \<Longrightarrow> keys_ok d'"
  "insert_tunnel t d = Some d' \<Longrightarrow> keys_ok d \<Longrightarrow> keys_ok d'"
  "revoke_tunnel tenant i now d = Some d' \<Longrightarrow> keys_ok d \<Longrightarrow> keys_ok d'"
  "insert_capability c d = Some d' \<Longrightarrow> keys_ok d \<Longrightarrow> keys_ok d'"
  "consume_capability i now d = Some d' \<Longrightarrow> keys_ok d \<Longrightarrow> keys_ok d'"
  "revoke_capabilities i now d = Some d' \<Longrightarrow> keys_ok d \<Longrightarrow> keys_ok d'"
  "insert_snapshot sn d = Some d' \<Longrightarrow> keys_ok d \<Longrightarrow> keys_ok d'"
  "update_snapshot sn d = Some d' \<Longrightarrow> keys_ok d \<Longrightarrow> keys_ok d'"
  "audit_tx a d = Some d' \<Longrightarrow> keys_ok d \<Longrightarrow> keys_ok d'"
  "upsert_service_account sa d = Some d' \<Longrightarrow> keys_ok d \<Longrightarrow> keys_ok d'"
  "upsert_promoted im d = Some d' \<Longrightarrow> keys_ok d \<Longrightarrow> keys_ok d'"
  "insert_evidence ev d = Some d' \<Longrightarrow> keys_ok d \<Longrightarrow> keys_ok d'"
  by (clarsimp simp: keys_ok_def stmt_defs integrity_simps distinct_upsert distinct_bump split: option.splits if_splits)+

lemma refs_ok_stmts:
  "create_sandbox_tx s d = Some d' \<Longrightarrow> refs_ok d \<Longrightarrow> refs_ok d'"
  "update_sandbox_tx s d = Some d' \<Longrightarrow> refs_ok d \<Longrightarrow> refs_ok d'"
  "update_runtime_state i st d = Some d' \<Longrightarrow> refs_ok d \<Longrightarrow> refs_ok d'"
  "update_storage i u now d = Some d' \<Longrightarrow> refs_ok d \<Longrightarrow> refs_ok d'"
  "insert_execution e d = Some d' \<Longrightarrow> refs_ok d \<Longrightarrow> refs_ok d'"
  "update_execution e d = Some d' \<Longrightarrow> refs_ok d \<Longrightarrow> refs_ok d'"
  "insert_tty ty d = Some d' \<Longrightarrow> refs_ok d \<Longrightarrow> refs_ok d'"
  "close_tty tenant i now d = Some d' \<Longrightarrow> refs_ok d \<Longrightarrow> refs_ok d'"
  "resize_tty tenant i x d = Some d' \<Longrightarrow> refs_ok d \<Longrightarrow> refs_ok d'"
  "insert_tunnel t d = Some d' \<Longrightarrow> refs_ok d \<Longrightarrow> refs_ok d'"
  "revoke_tunnel tenant i now d = Some d' \<Longrightarrow> refs_ok d \<Longrightarrow> refs_ok d'"
  "insert_capability c d = Some d' \<Longrightarrow> refs_ok d \<Longrightarrow> refs_ok d'"
  "consume_capability i now d = Some d' \<Longrightarrow> refs_ok d \<Longrightarrow> refs_ok d'"
  "revoke_capabilities i now d = Some d' \<Longrightarrow> refs_ok d \<Longrightarrow> refs_ok d'"
  "insert_snapshot sn d = Some d' \<Longrightarrow> refs_ok d \<Longrightarrow> refs_ok d'"
  "update_snapshot sn d = Some d' \<Longrightarrow> refs_ok d \<Longrightarrow> refs_ok d'"
  "audit_tx a d = Some d' \<Longrightarrow> refs_ok d \<Longrightarrow> refs_ok d'"
  "upsert_service_account sa d = Some d' \<Longrightarrow> refs_ok d \<Longrightarrow> refs_ok d'"
  "upsert_promoted im d = Some d' \<Longrightarrow> refs_ok d \<Longrightarrow> refs_ok d'"
  "insert_evidence ev d = Some d' \<Longrightarrow> refs_ok d \<Longrightarrow> refs_ok d'"
  by (clarsimp simp: refs_ok_def stmt_defs integrity_simps split: option.splits if_splits)+

lemma counts_ok_stmts:
  "create_sandbox_tx s d = Some d' \<Longrightarrow> counts_ok d \<Longrightarrow> counts_ok d'"
  "update_sandbox_tx s d = Some d' \<Longrightarrow> counts_ok d \<Longrightarrow> counts_ok d'"
  "update_runtime_state i st d = Some d' \<Longrightarrow> counts_ok d \<Longrightarrow> counts_ok d'"
  "update_storage i u now d = Some d' \<Longrightarrow> counts_ok d \<Longrightarrow> counts_ok d'"
  "insert_execution e d = Some d' \<Longrightarrow> counts_ok d \<Longrightarrow> counts_ok d'"
  "update_execution e d = Some d' \<Longrightarrow> counts_ok d \<Longrightarrow> counts_ok d'"
  "insert_tty ty d = Some d' \<Longrightarrow> counts_ok d \<Longrightarrow> counts_ok d'"
  "close_tty tenant i now d = Some d' \<Longrightarrow> counts_ok d \<Longrightarrow> counts_ok d'"
  "resize_tty tenant i x d = Some d' \<Longrightarrow> counts_ok d \<Longrightarrow> counts_ok d'"
  "insert_tunnel t d = Some d' \<Longrightarrow> counts_ok d \<Longrightarrow> counts_ok d'"
  "revoke_tunnel tenant i now d = Some d' \<Longrightarrow> counts_ok d \<Longrightarrow> counts_ok d'"
  "insert_capability c d = Some d' \<Longrightarrow> counts_ok d \<Longrightarrow> counts_ok d'"
  "consume_capability i now d = Some d' \<Longrightarrow> counts_ok d \<Longrightarrow> counts_ok d'"
  "revoke_capabilities i now d = Some d' \<Longrightarrow> counts_ok d \<Longrightarrow> counts_ok d'"
  "insert_snapshot sn d = Some d' \<Longrightarrow> counts_ok d \<Longrightarrow> counts_ok d'"
  "update_snapshot sn d = Some d' \<Longrightarrow> counts_ok d \<Longrightarrow> counts_ok d'"
  "upsert_service_account sa d = Some d' \<Longrightarrow> counts_ok d \<Longrightarrow> counts_ok d'"
  "upsert_promoted im d = Some d' \<Longrightarrow> counts_ok d \<Longrightarrow> counts_ok d'"
  "insert_evidence ev d = Some d' \<Longrightarrow> counts_ok d \<Longrightarrow> counts_ok d'"
  by (clarsimp simp: counts_ok_def stmt_defs integrity_simps split: option.splits if_splits)+

lemmas integrity_stmts = keys_ok_stmts refs_ok_stmts counts_ok_stmts audit_tx_counts

lemma keeps_integrityI:
  "(keys_ok d \<Longrightarrow> keys_ok d') \<Longrightarrow> (refs_ok d \<Longrightarrow> refs_ok d') \<Longrightarrow> (counts_ok d \<Longrightarrow> counts_ok d') \<Longrightarrow>
   keeps_integrity d d'"
  by (simp add: keeps_integrity_def db_ok_def)

interpretation integrity: db_relation keeps_integrity "\<lambda>_. True" "\<lambda>_. True" "\<lambda>_ _. True"
  by unfold_locales
    (simp add: keeps_integrity_def, simp add: keeps_integrity_def,
     (rule keeps_integrityI; erule (1) integrity_stmts)+)

section \<open>Ownership\<close>

text \<open>
  The foreign keys only ask that sandbox and tenant of a row exist. That the sandbox belongs to the tenant is the
  work of the handlers, which read the sandbox of the caller before they insert anything for it: \<open>keeps_children C\<close>
  holds between two databases when the pairs of \<open>C\<close> that rows are inserted for are sandboxes with their tenants.
\<close>

definition owns :: "database \<Rightarrow> string \<Rightarrow> string \<Rightarrow> bool" where
  "owns d tenantID sandboxID \<longleftrightarrow> (\<exists>r \<in> set (db_sandboxes d). c_tenant_id r = tenantID \<and> c_sandbox_id r = sandboxID)"

definition children_owned :: "database \<Rightarrow> bool" where
  "children_owned d \<longleftrightarrow>
     (\<forall>t \<in> set (db_tunnels d). owns d (tun_TenantID t) (tun_SandboxID t)) \<and>
     (\<forall>s \<in> set (db_snapshots d). owns d (sn_TenantID s) (sn_SandboxID s)) \<and>
     (\<forall>e \<in> set (db_executions d). owns d (ex_TenantID e) (ex_SandboxID e)) \<and>
     (\<forall>t \<in> set (db_tty d). owns d (tty_TenantID t) (tty_SandboxID t))"

definition keeps_children :: "(string \<Rightarrow> string \<Rightarrow> bool) \<Rightarrow> database \<Rightarrow> database \<Rightarrow> bool" where
  "keeps_children C d d' \<longleftrightarrow> (\<forall>t i. owns d t i \<longrightarrow> owns d' t i) \<and>
     (children_owned d \<and> (\<forall>t i. C t i \<longrightarrow> owns d t i) \<longrightarrow> children_owned d')"

lemma updated_row:
  "r \<in> set rows \<Longrightarrow> \<exists>r' \<in> set (update_rows p (sandbox_columns s) rows). c_tenant_id r' = c_tenant_id r \<and> c_sandbox_id r' = c_sandbox_id r"
  by (induction rows) (auto simp: sandbox_columns_def)

lemma owns_stmts:
  "create_sandbox_tx s d = Some d' \<Longrightarrow> owns d t i \<Longrightarrow> owns d' t i"
  "update_sandbox_tx s d = Some d' \<Longrightarrow> owns d t i \<Longrightarrow> owns d' t i"
  by (auto simp: stmt_defs insert_row_Some owns_def intro: updated_row split: option.splits if_splits)

lemma sandbox_stmts_children:
  "create_sandbox_tx s d = Some d' \<or> update_sandbox_tx s d = Some d' \<Longrightarrow>
   db_tunnels d' = db_tunnels d \<and> db_snapshots d' = db_snapshots d \<and> db_executions d' = db_executions d \<and> db_tty d' = db_tty d"
  by (auto simp: stmt_defs split: option.splits if_splits)

lemma keeps_childrenI:
  assumes "\<And>t i. owns d t i \<Longrightarrow> owns d' t i" and "db_tunnels d' = db_tunnels d \<and> db_snapshots d' = db_snapshots d \<and>
    db_executions d' = db_executions d \<and> db_tty d' = db_tty d"
  shows "keeps_children C d d'"
  using assms by (auto simp: keeps_children_def children_owned_def)

lemma owns_tables [simp]:
  "owns (d\<lparr>db_runtime := x1\<rparr>) = owns d" "owns (d\<lparr>db_storage := x2\<rparr>) = owns d" "owns (d\<lparr>db_executions := x3\<rparr>) = owns d"
  "owns (d\<lparr>db_tty := x4\<rparr>) = owns d" "owns (d\<lparr>db_tunnels := x5\<rparr>) = owns d" "owns (d\<lparr>db_capabilities := x6\<rparr>) = owns d"
  "owns (d\<lparr>db_snapshots := x7\<rparr>) = owns d" "owns (d\<lparr>db_audit := x8\<rparr>) = owns d" "owns (d\<lparr>db_audit_counts := x9\<rparr>) = owns d"
  "owns (d\<lparr>db_service_accounts := y1\<rparr>) = owns d" "owns (d\<lparr>db_promoted := y2\<rparr>) = owns d" "owns (d\<lparr>db_evidence := y3\<rparr>) = owns d"
  by (intro ext, simp add: owns_def)+

interpretation children: db_relation "keeps_children C" "\<lambda>_. True" "\<lambda>_. True" C for C
proof unfold_locales
  show "create_sandbox_tx s d = Some d' \<Longrightarrow> keeps_children C d d'" for s d d'
    by (rule keeps_childrenI) (auto dest: owns_stmts(1) sandbox_stmts_children [OF disjI1])
  show "update_sandbox_tx s d = Some d' \<Longrightarrow> keeps_children C d d'" for s d d'
    by (rule keeps_childrenI) (auto dest: owns_stmts(2) sandbox_stmts_children [OF disjI2])
qed (auto simp: keeps_children_def children_owned_def stmt_defs insert_row_Some ball_update_rows
    split: option.splits if_splits)

section \<open>History\<close>

text \<open>
  \<open>grows ok xs ys\<close>: the rows of \<open>xs\<close> are still the first rows of \<open>ys\<close>, each changed only as \<open>ok\<close>
  allows. A tunnel changes at most once, from active to revoked; a capability is consumed at most once
  and revoked at most once; an audit event never changes; of the other rows the identity, the owner and
  what was fixed at creation never change.
\<close>

definition grows :: "('row \<Rightarrow> 'row \<Rightarrow> bool) \<Rightarrow> 'row list \<Rightarrow> 'row list \<Rightarrow> bool" where
  "grows ok xs ys \<longleftrightarrow> length xs \<le> length ys \<and> list_all2 ok xs (take (length xs) ys)"

definition sandbox_kept :: "sandbox_row \<Rightarrow> sandbox_row \<Rightarrow> bool" where
  "sandbox_kept r r' \<longleftrightarrow> c_sandbox_id r' = c_sandbox_id r \<and> c_tenant_id r' = c_tenant_id r \<and>
     c_runtime_selection r' = c_runtime_selection r \<and> c_runtime_backend r' = c_runtime_backend r \<and>
     c_runtime_class r' = c_runtime_class r \<and> c_storage_root r' = c_storage_root r \<and>
     c_workspace_root r' = c_workspace_root r \<and> c_cache_root r' = c_cache_root r \<and>
     c_created_at r' = c_created_at r"

definition tunnel_kept :: "tunnel \<Rightarrow> tunnel \<Rightarrow> bool" where
  "tunnel_kept t t' \<longleftrightarrow> t'\<lparr>tun_RevokedAt := None\<rparr> = t\<lparr>tun_RevokedAt := None\<rparr> \<and>
     (tun_RevokedAt t = None \<or> tun_RevokedAt t' = tun_RevokedAt t)"

definition capability_kept :: "tunnel_capability \<Rightarrow> tunnel_capability \<Rightarrow> bool" where
  "capability_kept c c' \<longleftrightarrow>
     c'\<lparr>cap_ConsumedAt := None, cap_RevokedAt := None\<rparr> = c\<lparr>cap_ConsumedAt := None, cap_RevokedAt := None\<rparr> \<and>
     (cap_ConsumedAt c = None \<or> cap_ConsumedAt c' = cap_ConsumedAt c) \<and>
     (cap_RevokedAt c = None \<or> cap_RevokedAt c' = cap_RevokedAt c)"

definition snapshot_kept :: "snapshot \<Rightarrow> snapshot \<Rightarrow> bool" where
  "snapshot_kept s s' \<longleftrightarrow> sn_ID s' = sn_ID s \<and> sn_SandboxID s' = sn_SandboxID s \<and>
     sn_TenantID s' = sn_TenantID s \<and> sn_Name s' = sn_Name s \<and> sn_CreatedAt s' = sn_CreatedAt s"

definition execution_kept :: "execution \<Rightarrow> execution \<Rightarrow> bool" where
  "execution_kept e e' \<longleftrightarrow> ex_ID e' = ex_ID e \<and> ex_SandboxID e' = ex_SandboxID e \<and>
     ex_TenantID e' = ex_TenantID e \<and> ex_Command e' = ex_Command e \<and> ex_Cwd e' = ex_Cwd e \<and>
     ex_StartedAt e' = ex_StartedAt e"

definition keeps_history :: "database \<Rightarrow> database \<Rightarrow> bool" where
  "keeps_history d d' \<longleftrightarrow>
     grows sandbox_kept (db_sandboxes d) (db_sandboxes d') \<and>
     grows tunnel_kept (db_tunnels d) (db_tunnels d') \<and>
     grows capability_kept (db_capabilities d) (db_capabilities d') \<and>
     grows snapshot_kept (db_snapshots d) (db_snapshots d') \<and>
     grows execution_kept (db_executions d) (db_executions d') \<and>
     grows (=) (db_audit d) (db_audit d')"

lemma grows_refl: "(\<And>r. ok r r) \<Longrightarrow> grows ok xs xs"
  by (simp add: grows_def list_all2_same)

lemma grows_append: "(\<And>r. ok r r) \<Longrightarrow> grows ok xs (xs @ ys)"
  by (simp add: grows_def list_all2_same)

lemma grows_update:
  assumes "\<And>r. ok r r" and "\<And>r. p r \<Longrightarrow> ok r (f r)"
  shows "grows ok xs (update_rows p f xs)"
  by (simp add: grows_def) (induction xs; simp add: assms)

lemma grows_trans:
  assumes "\<And>x y z. ok x y \<Longrightarrow> ok y z \<Longrightarrow> ok x z" and "grows ok xs ys" and "grows ok ys zs"
  shows "grows ok xs zs"
proof -
  have "list_all2 ok (take (length xs) ys) (take (length xs) (take (length ys) zs))"
    using assms(3) by (metis grows_def list_all2_takeI)
  moreover have "take (length xs) (take (length ys) zs) = take (length xs) zs"
    using assms(2) by (simp add: grows_def min_def)
  ultimately have tail: "list_all2 ok (take (length xs) ys) (take (length xs) zs)" by simp
  have head: "list_all2 ok xs (take (length xs) ys)" using assms(2) by (simp add: grows_def)
  have "list_all2 ok xs (take (length xs) zs)"
    by (rule list_all2_trans [OF _ head tail]) (rule assms(1))
  then show ?thesis using assms(2,3) by (simp add: grows_def)
qed

lemma kept_refl:
  "sandbox_kept r r" "tunnel_kept t t" "capability_kept c c" "snapshot_kept sn sn" "execution_kept e e"
  by (simp_all add: sandbox_kept_def tunnel_kept_def capability_kept_def snapshot_kept_def execution_kept_def)

lemma kept_trans:
  "sandbox_kept r1 r2 \<Longrightarrow> sandbox_kept r2 r3 \<Longrightarrow> sandbox_kept r1 r3"
  "tunnel_kept t1 t2 \<Longrightarrow> tunnel_kept t2 t3 \<Longrightarrow> tunnel_kept t1 t3"
  "capability_kept c1 c2 \<Longrightarrow> capability_kept c2 c3 \<Longrightarrow> capability_kept c1 c3"
  "snapshot_kept s1 s2 \<Longrightarrow> snapshot_kept s2 s3 \<Longrightarrow> snapshot_kept s1 s3"
  "execution_kept e1 e2 \<Longrightarrow> execution_kept e2 e3 \<Longrightarrow> execution_kept e1 e3"
  unfolding sandbox_kept_def tunnel_kept_def capability_kept_def snapshot_kept_def execution_kept_def
  by (simp, metis, metis, simp, simp)

lemma grows_tables [intro]:
  "grows sandbox_kept a1 a1" "grows sandbox_kept a1 (a1 @ b1)"
  "grows tunnel_kept a2 a2" "grows tunnel_kept a2 (a2 @ b2)"
  "grows capability_kept a3 a3" "grows capability_kept a3 (a3 @ b3)"
  "grows snapshot_kept a4 a4" "grows snapshot_kept a4 (a4 @ b4)"
  "grows execution_kept a5 a5" "grows execution_kept a5 (a5 @ b5)"
  "grows (=) a6 a6" "grows (=) a6 (a6 @ b6)"
  by (simp_all add: grows_refl grows_append kept_refl)

lemma grows_rows [intro]:
  "grows sandbox_kept a1 (update_rows p1 (sandbox_columns s) a1)"
  "grows tunnel_kept a2 (update_rows (\<lambda>t. q t \<and> q2 t \<and> tun_RevokedAt t = None) (\<lambda>t. t\<lparr>tun_RevokedAt := Some now\<rparr>) a2)"
  "grows capability_kept a3 (update_rows (\<lambda>c. p3 c \<and> cap_ConsumedAt c = None \<and> q3 c)
     (\<lambda>c. c\<lparr>cap_ConsumedAt := Some now\<rparr>) a3)"
  "grows capability_kept a3 (update_rows (\<lambda>c. p3 c \<and> cap_RevokedAt c = None)
     (\<lambda>c. c\<lparr>cap_RevokedAt := Some now\<rparr>) a3)"
  by (rule grows_update; simp add: kept_refl sandbox_kept_def sandbox_columns_def tunnel_kept_def
      capability_kept_def)+

lemma grows_rows_snapshots [intro]:
  "grows snapshot_kept a4 (update_rows p4 (\<lambda>r. sn\<lparr>sn_ID := sn_ID r, sn_SandboxID := sn_SandboxID r,
     sn_TenantID := sn_TenantID r, sn_Name := sn_Name r, sn_CreatedAt := sn_CreatedAt r\<rparr>) a4)"
  by (rule grows_update) (simp_all add: kept_refl snapshot_kept_def)

lemma grows_rows_executions [intro]:
  "grows execution_kept a5 (update_rows p5 (\<lambda>r. r\<lparr>ex_Status := x1, ex_ExitCode := x2,
     ex_StdoutPreview := x3, ex_StderrPreview := x4, ex_StdoutTruncated := x5, ex_StderrTruncated := x6,
     ex_CompletedAt := x7, ex_DurationMS := x8\<rparr>) a5)"
  by (rule grows_update) (simp_all add: kept_refl execution_kept_def)

lemma keeps_history_trans: "keeps_history d1 d2 \<Longrightarrow> keeps_history d2 d3 \<Longrightarrow> keeps_history d1 d3"
  unfolding keeps_history_def
  by (elim conjE, intro conjI; erule (1) grows_trans [rotated]; blast intro: kept_trans)

interpretation history: db_relation keeps_history "\<lambda>_. True" "\<lambda>_. True" "\<lambda>_ _. True"
proof unfold_locales
  show "keeps_history d1 d2 \<Longrightarrow> keeps_history d2 d3 \<Longrightarrow> keeps_history d1 d3" for d1 d2 d3
    by (rule keeps_history_trans)
qed (auto simp: keeps_history_def stmt_defs insert_row_Some split: option.splits if_splits)

section \<open>The frame of a tenant\<close>

text \<open>
  The rows that belong neither to the tenant nor to the empty name. A handler whose ignored re-read
  fails goes on with the zero sandbox, whose tenant is the empty name.
\<close>

definition others :: "('row \<Rightarrow> string) \<Rightarrow> string \<Rightarrow> 'row list \<Rightarrow> 'row list" where
  "others tenant t rows = filter (\<lambda>r. tenant r \<noteq> t \<and> tenant r \<noteq> []) rows"

definition frame :: "string \<Rightarrow> database \<Rightarrow> database \<Rightarrow> bool" where
  "frame t d d' \<longleftrightarrow>
     others c_tenant_id t (db_sandboxes d') = others c_tenant_id t (db_sandboxes d) \<and>
     others tun_TenantID t (db_tunnels d') = others tun_TenantID t (db_tunnels d) \<and>
     others sn_TenantID t (db_snapshots d') = others sn_TenantID t (db_snapshots d) \<and>
     others ex_TenantID t (db_executions d') = others ex_TenantID t (db_executions d) \<and>
     others tty_TenantID t (db_tty d') = others tty_TenantID t (db_tty d) \<and>
     others au_TenantID t (db_audit d') = others au_TenantID t (db_audit d)"

lemma others_append_same [simp]: "tenant r = t \<or> tenant r = [] \<Longrightarrow> others tenant t (rows @ [r]) = others tenant t rows"
  by (simp add: others_def)

lemma others_update_same:
  "(\<And>r. p r \<Longrightarrow> tenant r \<in> {t, []} \<and> tenant (f r) \<in> {t, []}) \<Longrightarrow> others tenant t (update_rows p f rows) = others tenant t rows"
  unfolding others_def by (rule filter_update_other) auto

interpretation frame: db_relation "frame t" "\<lambda>x. x = t \<or> x = []" "\<lambda>s. sb_TenantID s = t \<or> sb_TenantID s = []"
  "\<lambda>_ _. True" for t
  by unfold_locales (auto simp: frame_def stmt_defs insert_row_Some
      sandbox_to_row_def sandbox_columns_def intro!: others_update_same split: option.splits if_splits)

end
