(* ===== verification/StoreLookup.thy ===== *)
theory StoreLookup
  imports StoreFacts
begin

text \<open>
  What the store returns after what was written: list columns, sandboxes after creation and update,
  one-time marks on tunnels and capabilities, audit totals, and the order of listings.
\<close>

section \<open>List columns\<close>

definition list_item :: "string \<Rightarrow> bool" where
  "list_item p \<longleftrightarrow> p \<noteq> [] \<and> TrimSpace p = p \<and> CHR '','' \<notin> set p"

lemma all_dropWhile: "(\<forall>x \<in> set (dropWhile p s). p x) \<longleftrightarrow> (\<forall>x \<in> set s. p x)"
  by (induction s) auto

lemma TrimSpace_Nil_iff: "TrimSpace s = [] \<longleftrightarrow> (\<forall>c \<in> set s. is_space c)"
  by (simp add: TrimSpace_def trim_left_by_def trim_right_by_def all_dropWhile)

lemma splitStringList_items: "p \<in> set (splitStringList v) \<Longrightarrow> list_item p"
  using split_on_parts_no_sep set_TrimSpace
  by (fastforce simp: splitStringList_def list_item_def split: if_splits)

lemma split_join_items:
  assumes "list_all list_item ps"
  shows "splitStringList (joinStringList ps) = ps"
proof (cases "ps = []")
  case True
  then show ?thesis by (simp add: splitStringList_def joinStringList_def)
next
  case False
  have s: "split_on (CHR '','') (joinStringList ps) = ps"
    using assms False split_join_with [of ps "CHR '',''"]
    by (simp add: joinStringList_def list_all_iff list_item_def)
  have "TrimSpace (joinStringList ps) \<noteq> []"
  proof
    assume "TrimSpace (joinStringList ps) = []"
    then have sp: "\<forall>c \<in> set (joinStringList ps). is_space c" by (simp add: TrimSpace_Nil_iff)
    have "\<not> is_space (CHR '','')" by code_simp
    with sp have "CHR '','' \<notin> set (joinStringList ps)" by blast
    from split_on_no_sep [OF this] have ps: "[joinStringList ps] = ps" by (simp only: s)
    have "list_all list_item [joinStringList ps]" by (simp only: ps assms)
    then have "list_item (joinStringList ps)" by simp
    then show False using sp by (metis list_item_def TrimSpace_Nil_iff)
  qed
  moreover have "map TrimSpace ps = ps" "filter (\<lambda>p. p \<noteq> []) ps = ps"
    using assms by (auto simp: list_all_iff list_item_def intro: map_idI filter_True)
  ultimately show ?thesis by (simp add: splitStringList_def s)
qed

lemma split_join_split: "splitStringList (joinStringList (splitStringList v)) = splitStringList v"
  by (rule split_join_items) (simp add: list_all_iff splitStringList_items)

section \<open>Sandboxes\<close>

lemma find_sandbox_eq:
  "find_sandbox d t i =
     (case find_row (\<lambda>r. c_sandbox_id r = i \<and> c_tenant_id r = t) (db_sandboxes d) of
        None \<Rightarrow> None | Some r \<Rightarrow> map_option (scanSandbox r) (runtime_row_of d i))"
proof -
  have "(case List.map_filter (\<lambda>r. map_option (scanSandbox r) (runtime_row_of d (c_sandbox_id r)))
            (filter (\<lambda>r. c_sandbox_id r = i \<and> c_tenant_id r = t) rows) of [] \<Rightarrow> None | s # x \<Rightarrow> Some s) =
     (case find_row (\<lambda>r. c_sandbox_id r = i \<and> c_tenant_id r = t) rows of
        None \<Rightarrow> None | Some r \<Rightarrow> map_option (scanSandbox r) (runtime_row_of d i))" for rows
    by (induction rows) (auto simp: List.map_filter_simps split: option.split)
  then show ?thesis by (simp add: find_sandbox_def joined_sandboxes_def)
qed

lemma find_sandbox_ids: "find_sandbox d t i = Some s \<Longrightarrow> sb_ID s = i \<and> sb_TenantID s = t"
  by (auto simp: find_sandbox_eq scanSandbox_def Let_def split: option.splits dest!: find_row_Some_set)

lemma find_row_fresh: "k \<notin> set (map key rows) \<Longrightarrow> find_row (\<lambda>r. key r = k \<and> q r) rows = None"
  by (auto simp: find_row_None)

lemma find_key_fresh: "k \<notin> set (map key rows) \<Longrightarrow> find_row (\<lambda>r. key r = k) rows = None"
  by (auto simp: find_row_None)

text \<open>What a freshly created sandbox reads back as.\<close>

definition as_created :: "sandbox \<Rightarrow> sandbox" where
  "as_created s = scanSandbox (sandbox_to_row s)
     \<lparr>rr_sandbox_id = sb_ID s, rr_runtime_id = sb_RuntimeID s, rr_runtime_status = sb_RuntimeStatus s,
      rr_last_runtime_error = [], rr_ip_address = [], rr_pid = 0, rr_started_at = None\<rparr>"

lemma create_sandbox_find:
  assumes "create_sandbox_tx s d = Some d'" and "keys_ok d"
  shows "find_sandbox d' t i =
     (if i = sb_ID s \<and> t = sb_TenantID s then Some (as_created s) else find_sandbox d t i)"
proof -
  from assms(1) have fresh: "sb_ID s \<notin> set (map c_sandbox_id (db_sandboxes d))"
    and rows: "db_sandboxes d' = db_sandboxes d @ [sandbox_to_row s]"
      "db_runtime d' = db_runtime d @ [\<lparr>rr_sandbox_id = sb_ID s, rr_runtime_id = sb_RuntimeID s,
         rr_runtime_status = sb_RuntimeStatus s, rr_last_runtime_error = [], rr_ip_address = [],
         rr_pid = 0, rr_started_at = None\<rparr>]"
    by (auto simp: create_sandbox_tx_def insert_sandbox_def insert_runtime_state_def insert_storage_def
        insert_row_Some sandbox_to_row_def split: option.splits if_splits)
  have "sb_ID s \<notin> set (map rr_sandbox_id (db_runtime d))"
    using fresh assms(2) by (simp add: keys_ok_def del: list.set_map)
  then have "runtime_row_of d (sb_ID s) = None" by (simp add: runtime_row_of_def find_key_fresh del: list.set_map)
  moreover have "find_row (\<lambda>r. c_sandbox_id r = sb_ID s \<and> c_tenant_id r = t) (db_sandboxes d) = None"
    using fresh by (rule find_row_fresh)
  moreover have "c_sandbox_id (sandbox_to_row s) = sb_ID s" "c_tenant_id (sandbox_to_row s) = sb_TenantID s"
    by (simp_all add: sandbox_to_row_def)
  ultimately show ?thesis
    by (auto simp: find_sandbox_eq rows runtime_row_of_def find_row_append as_created_def split: option.split)
qed

text \<open>What a sandbox reads back as after its state was updated over an existing row.\<close>

definition as_updated :: "sandbox \<Rightarrow> sandbox \<Rightarrow> sandbox" where
  "as_updated s s0 =
     s\<lparr>sb_RuntimeSelection := sb_RuntimeSelection s0, sb_RuntimeBackend := sb_RuntimeBackend s0,
       sb_RuntimeClass := sb_RuntimeClass s0, sb_StorageRoot := sb_StorageRoot s0,
       sb_WorkspaceRoot := sb_WorkspaceRoot s0, sb_CacheRoot := sb_CacheRoot s0,
       sb_CreatedAt := sb_CreatedAt s0,
       sb_Features := splitStringList (joinStringList (sb_Features s)),
       sb_Capabilities := splitStringList (joinStringList (sb_Capabilities s))\<rparr>"

lemma same_key_row:
  "distinct (map key rows) \<Longrightarrow> r \<in> set rows \<Longrightarrow> r' \<in> set rows \<Longrightarrow> key r = key r' \<Longrightarrow> r = r'"
  by (auto simp: distinct_map dest: inj_onD)

lemma scan_updated:
  "c_sandbox_id r = sb_ID s \<Longrightarrow> c_tenant_id r = sb_TenantID s \<Longrightarrow>
   scanSandbox (sandbox_columns s r) (rr\<lparr>rr_runtime_id := sb_RuntimeID s,
     rr_runtime_status := sb_RuntimeStatus s, rr_last_runtime_error := sb_LastRuntimeError s\<rparr>) =
   as_updated s (scanSandbox r rr)"
  by (simp add: scanSandbox_def sandbox_columns_def as_updated_def Let_def MilliValue_def)

lemma update_sandbox_find:
  assumes "update_sandbox_tx s d = Some d'" and "keys_ok d"
    and "find_sandbox d (sb_TenantID s) (sb_ID s) = Some s0"
  shows "find_sandbox d' t i =
     (if i = sb_ID s \<and> t = sb_TenantID s then Some (as_updated s s0) else find_sandbox d t i)"
proof -
  let ?p = "\<lambda>t i r. c_sandbox_id r = i \<and> c_tenant_id r = t"
  let ?f = "\<lambda>r. r\<lparr>rr_runtime_id := sb_RuntimeID s, rr_runtime_status := sb_RuntimeStatus s,
                 rr_last_runtime_error := sb_LastRuntimeError s\<rparr>"
  have rows: "db_sandboxes d' = update_rows (?p (sb_TenantID s) (sb_ID s)) (sandbox_columns s) (db_sandboxes d)"
    "db_runtime d' = update_rows (\<lambda>r. rr_sandbox_id r = sb_ID s) ?f (db_runtime d)"
    using assms(1) by (auto simp: update_sandbox_tx_def update_sandbox_def update_runtime_columns_def)
  obtain r rr where r: "find_row (?p (sb_TenantID s) (sb_ID s)) (db_sandboxes d) = Some r"
    and rr: "runtime_row_of d (sb_ID s) = Some rr" and s0: "s0 = scanSandbox r rr"
    using assms(3) by (auto simp: find_sandbox_eq split: option.splits)
  have find: "find_row (?p t i) (db_sandboxes d') =
      map_option (\<lambda>r. if ?p (sb_TenantID s) (sb_ID s) r then sandbox_columns s r else r)
        (find_row (?p t i) (db_sandboxes d))" for t i
    unfolding rows by (rule find_row_update_keep) (auto simp: sandbox_columns_def)
  have rt: "runtime_row_of d' i = map_option (\<lambda>r. if rr_sandbox_id r = sb_ID s then ?f r else r) (runtime_row_of d i)" for i
    unfolding rows runtime_row_of_def by (rule find_row_update_keep) auto
  have rts: "rr_sandbox_id x = i" if "runtime_row_of d i = Some x" for x i
    using find_row_Some_set [OF that [unfolded runtime_row_of_def]] by simp
  note rin = find_row_Some_set [OF r]
  show ?thesis
  proof (cases "i = sb_ID s")
    case False
    then have "runtime_row_of d' i = runtime_row_of d i"
      using rt [of i] rts [of i] by (cases "runtime_row_of d i") auto
    then show ?thesis using False
      by (auto simp: find_sandbox_eq find dest!: find_row_Some_set split: option.split)
  next
    case True
    show ?thesis
    proof (cases "t = sb_TenantID s")
      case True
      then show ?thesis
        using \<open>i = sb_ID s\<close> r rr rin rts [OF rr] s0 by (simp add: find_sandbox_eq find rt scan_updated)
    next
      case False
      then have "find_row (?p t i) (db_sandboxes d) = None"
        using same_key_row [of c_sandbox_id "db_sandboxes d" _ r] assms(2) rin \<open>i = sb_ID s\<close>
        by (auto simp: find_row_None keys_ok_def)
      then show ?thesis using False by (simp add: find_sandbox_eq find)
    qed
  qed
qed

section \<open>Properties\<close>

text \<open>
  A sandbox the row format can represent: list entries without commas or outer blanks, a valid
  runtime, a runtime class, and the fields creation leaves at their initial values.
\<close>

definition storable :: "sandbox \<Rightarrow> bool" where
  "storable s \<longleftrightarrow> list_all list_item (sb_Features s) \<and> list_all list_item (sb_Capabilities s) \<and>
     selection_IsValid (sb_RuntimeSelection s) \<and> sb_RuntimeClass s \<noteq> no_class \<and>
     sb_LastRuntimeError s = [] \<and> sb_DeletedAt s = None"

lemma Parse_selection_string: "selection_IsValid x \<Longrightarrow> ParseRuntimeSelection (selection_string x) = x"
proof (cases x)
  case DockerDev
  then show ?thesis by simp code_simp
next
  case ContainerdKataProfessional
  then show ?thesis by simp code_simp
next
  case QEMUProfessional
  then show ?thesis by simp code_simp
qed simp

lemma as_created_storable: "storable s \<Longrightarrow> as_created s = s"
  by (simp add: as_created_def storable_def scanSandbox_def sandbox_to_row_def Let_def
      Parse_selection_string ResolveRuntimeSelection_def split_join_items MilliValue_def)

lemma sql_exec_Inr:
  "sql_exec stmt w = (Inr (), w') \<longleftrightarrow>
     \<not> w_dbfault w 0 \<and> (\<exists>d'. stmt (w_db w) = Some d' \<and>
        w' = w\<lparr>w_dbfault := (\<lambda>n. w_dbfault w (Suc n)), w_db := d'\<rparr>)"
  by (auto simp: sql_exec_def Let_def split: option.splits)

lemma sql_query_result: "fst (sql_query q w) = (if w_dbfault w 0 then Inl DriverError else q (w_db w))"
  by (simp add: sql_query_def Let_def)


definition sample_tenant :: tenant where
  "sample_tenant = \<lparr>tn_ID = ''acme'', tn_Name = ''Acme'', tn_TokenHash = ''h1'', tn_CreatedAt = 0\<rparr>"

definition sample_quota :: tenant_quota where
  "sample_quota = \<lparr>q_TenantID = ''acme'', q_MaxSandboxes = 2, q_MaxRunningSandboxes = 1,
     q_MaxConcurrentExecs = 2, q_MaxTunnels = 1, q_MaxCPUCores = 4000, q_MaxMemoryMB = 4096,
     q_MaxStorageMB = 10240, q_AllowTunnels = True, q_DefaultTunnelAuthMode = ''token'',
     q_DefaultTunnelVisibility = ''private''\<rparr>"

definition sample_db :: database where
  "sample_db = empty_db\<lparr>db_tenants := [sample_tenant], db_quotas := [sample_quota]\<rparr>"

definition sample_world :: "unit world" where
  "sample_world = \<lparr>w_db = sample_db, w_rt = (), w_fs = [], w_clock = (\<lambda>n. int n * 1000000000),
     w_rand = (\<lambda>n. fmt_nat n), w_dbfault = (\<lambda>_. False), w_osfault = (\<lambda>_. None)\<rparr>"

definition sample_sandbox :: sandbox where
  "sample_sandbox = \<lparr>sb_ID = ''sbx-1'', sb_TenantID = ''acme'', sb_Status = StatusCreating,
     sb_RuntimeSelection = DockerDev, sb_RuntimeBackend = ''docker'', sb_RuntimeClass = ClassTrustedDocker,
     sb_BaseImageRef = ''alpine'', sb_Profile = ProfileCore, sb_Features = [''git'', ''node''],
     sb_Capabilities = [], sb_ControlMode = no_control_mode, sb_ControlProtocolVersion = [],
     sb_WorkspaceContractVersion = [], sb_ImageContractVersion = [], sb_CPULimit = 1000,
     sb_MemoryLimitMB = 512, sb_PIDsLimit = 128, sb_DiskLimitMB = 1024, sb_NetworkMode = InternetDisabled,
     sb_AllowTunnels = True, sb_StorageRoot = ''/s/rootfs'', sb_WorkspaceRoot = ''/s/workspace'',
     sb_CacheRoot = ''/s/cache'', sb_RuntimeID = ''or3-sandbox-1'', sb_RuntimeStatus = ''creating'',
     sb_LastRuntimeError = [], sb_CreatedAt = 5, sb_UpdatedAt = 5, sb_LastActiveAt = 5,
     sb_DeletedAt = None\<rparr>"

lemma sample_db_ok: "db_ok sample_db"
  by (simp add: db_ok_def keys_ok_def refs_ok_def counts_ok_def count_of_def sample_db_def empty_db_def)


definition event_at :: "string \<Rightarrow> time \<Rightarrow> audit_event" where
  "event_at i t = \<lparr>au_ID = i, au_TenantID = ''acme'', au_SandboxID = [], au_Action = ''sandbox.create'',
     au_ResourceID = [], au_Outcome = ''ok'', au_Message = [], au_CreatedAt = t\<rparr>"

text \<open>
  Listings are not in time order. Events half a second apart are listed in reverse when the first
  one fell on a whole second, because the statement orders by the text of the instants, and the text
  with a fractional part is smaller than the text without.
\<close>

theorem ListAuditEvents_not_chronological:
  "fst (Store_ListAuditEvents ''acme'' (sample_world\<lparr>w_db := sample_db\<lparr>db_audit :=
      [event_at ''a'' (1000000000 * k), event_at ''b'' (1000000000 * k + 500000000)]\<rparr>\<rparr>))
   = Inr [event_at ''b'' (1000000000 * k + 500000000), event_at ''a'' (1000000000 * k)]"
proof -
  have n: "nano_text 0 = ''Z''" by (simp add: nano_text_def)
  have m: "nano_text 500000000 = ''.5Z''"
    by (simp add: nano_text_def pad9_def fmt_nat.simps digit_char_def trim_right_by_def)
  have z: "''.5Z'' < ''Z''" "\<not> ''Z'' \<le> ''.5Z''" by code_simp+
  have k: "order_key (1000000000 * k) = (k, ''Z'')" "order_key (1000000000 * k + 500000000) = (k, ''.5Z'')"
    by (simp_all add: order_key_def n m)
  show ?thesis
    by (simp add: Store_ListAuditEvents_def sql_query_result sample_world_def event_at_def k z n)
qed

text \<open>
  Revocation is final and immediate: after a successful \<open>RevokeTunnel\<close> the tunnel reads back
  revoked, at the time of the first revocation if it was revoked already, and otherwise unchanged.
\<close>

theorem store_revoke_tunnel:
  assumes "find_row (\<lambda>x. tun_TenantID x = t \<and> tun_ID x = i) (db_tunnels (w_db w)) = Some tun"
    and "Store_RevokeTunnel t i w = (Inr (), w')" and "\<not> w_dbfault w' 0"
  shows "fst (Store_GetTunnel t i w') =
     Inr (case tun_RevokedAt tun of None \<Rightarrow> tun\<lparr>tun_RevokedAt := Some (w_clock w 0)\<rparr> | Some x \<Rightarrow> tun)"
proof -
  let ?p = "\<lambda>x. tun_TenantID x = t \<and> tun_ID x = i \<and> tun_RevokedAt x = None"
  have d: "db_tunnels (w_db w') =
      update_rows ?p (\<lambda>x. x\<lparr>tun_RevokedAt := Some (w_clock w 0)\<rparr>) (db_tunnels (w_db w))"
    using assms(2) by (auto simp: Store_RevokeTunnel_def bindE_def now_utc_def sql_exec_Inr revoke_tunnel_def)
  have "find_row (\<lambda>x. tun_TenantID x = t \<and> tun_ID x = i) (db_tunnels (w_db w')) =
      map_option (\<lambda>x. if ?p x then x\<lparr>tun_RevokedAt := Some (w_clock w 0)\<rparr> else x) (Some tun)"
    unfolding d assms(1) [symmetric] by (rule find_row_update_keep) simp
  then show ?thesis
    using assms(3) find_row_Some_set [OF assms(1)]
    by (auto simp: Store_GetTunnel_def sql_query_result not_found_or_def split: option.split)
qed

definition sample_tunnel :: tunnel where
  "sample_tunnel = \<lparr>tun_ID = ''tun-1'', tun_SandboxID = ''sbx-1'', tun_TenantID = ''acme'',
     tun_TargetPort = 80, tun_Protocol = TunnelHTTP, tun_AuthMode = ''token'', tun_Visibility = ''private'',
     tun_Endpoint = [], tun_AccessToken = [], tun_Access = no_access, tun_AuthSecretHash = ''h'',
     tun_CreatedAt = 3, tun_RevokedAt = None\<rparr>"

text \<open>
  C11: a one-time capability can be consumed twice. Two requests that both read the capability before
  either consumes it both see it unconsumed and both get a success from \<open>ConsumeTunnelCapability\<close>,
  since the statement that changes no row the second time reports no error.
\<close>

theorem consume_capability_race:
  assumes "find_row (\<lambda>x. cap_ID x = i) (db_capabilities (w_db w)) = Some c"
    and "cap_ConsumedAt c = None" and "w_dbfault w = (\<lambda>_. False)"
  shows "fst (bindE (Store_GetTunnelCapability i) (\<lambda>a. bindE (Store_GetTunnelCapability i) (\<lambda>b.
       thenE (Store_ConsumeTunnelCapability i) (thenE (Store_ConsumeTunnelCapability i) (okE (a, b))))) w)
     = Inr (c, c)"
  using assms
  by (simp add: Store_GetTunnelCapability_def Store_ConsumeTunnelCapability_def thenE_def bindE_def
      sql_query_def sql_exec_def now_utc_def Let_def not_found_or_def consume_capability_def)

definition sample_capability :: tunnel_capability where
  "sample_capability = \<lparr>cap_ID = ''cap-1'', cap_TunnelID = ''tun-1'', cap_NonceHash = ''n'',
     cap_Path = ''/'', cap_ExpiresAt = 100, cap_ConsumedAt = None, cap_RevokedAt = None, cap_CreatedAt = 3\<rparr>"

theorem consume_capability_race_witness:
  "fst (bindE (Store_GetTunnelCapability ''cap-1'') (\<lambda>a. bindE (Store_GetTunnelCapability ''cap-1'') (\<lambda>b.
       thenE (Store_ConsumeTunnelCapability ''cap-1'')
         (thenE (Store_ConsumeTunnelCapability ''cap-1'') (okE (a, b)))))
     (sample_world\<lparr>w_db := sample_db\<lparr>db_capabilities := [sample_capability]\<rparr>\<rparr>))
   = Inr (sample_capability, sample_capability)"
  by (rule consume_capability_race) (simp_all add: sample_capability_def sample_world_def)

end
