(* ===== verification/GoPath.thy ===== *)
theory GoPath
  imports ModelFacts "HOL-Library.Sublist"
begin

text \<open>
  The lexical path functions of \<open>path/filepath\<close> (on Unix) that the program's path checks rest on, and
  their algebra on paths given by component lists.
\<close>

section \<open>Definitions\<close>

definition slash :: char where "slash = CHR ''/''"

definition IsAbs :: "string \<Rightarrow> bool" where "IsAbs p \<longleftrightarrow> HasPrefix p ''/''"

text \<open>
  \<open>Clean\<close> scans the components with a stack: empty components and dots disappear, a double dot
  removes the last component if there is one to remove, is dropped at the root of a rooted path and is
  kept otherwise.
\<close>

definition clean_step :: "bool \<Rightarrow> string list \<Rightarrow> string \<Rightarrow> string list" where
  "clean_step rooted stack c =
     (if c = [] \<or> c = ''.'' then stack
      else if c = ''..'' then
        (case stack of
           [] \<Rightarrow> (if rooted then [] else [''..''])
         | t # rest \<Rightarrow> (if t = ''..'' then ''..'' # stack else rest))
      else c # stack)"

definition clean_comps :: "bool \<Rightarrow> string list \<Rightarrow> string list" where
  "clean_comps rooted cs = rev (foldl (clean_step rooted) [] cs)"

definition render :: "bool \<Rightarrow> string list \<Rightarrow> string" where
  "render rooted cs =
     (if rooted then ''/'' @ join_with ''/'' cs
      else if cs = [] then ''.'' else join_with ''/'' cs)"

definition Clean :: "string \<Rightarrow> string" where
  "Clean p = render (IsAbs p) (clean_comps (IsAbs p) (split_on slash p))"

definition Join :: "string list \<Rightarrow> string" where
  "Join es =
     (let ne = filter (\<lambda>e. e \<noteq> []) es in if ne = [] then [] else Clean (join_with ''/'' ne))"

text \<open>\<open>Dir\<close> and \<open>Base\<close>.\<close>

definition Dir :: "string \<Rightarrow> string" where
  "Dir p = Clean (trim_right_by (\<lambda>c. c \<noteq> slash) p)"

definition Base :: "string \<Rightarrow> string" where
  "Base p =
     (if p = [] then ''.''
      else (let q = trim_right_by (\<lambda>c. c = slash) p in
            if q = [] then ''/'' else last (split_on slash q)))"

text \<open>
  \<open>Rel\<close> on cleaned paths: the common leading components disappear, what is left of the base becomes
  double dots. A base whose first differing component is a double dot is an error, as are an absolute
  and a relative path.
\<close>

fun strip_common :: "string list \<Rightarrow> string list \<Rightarrow> string list \<times> string list" where
  "strip_common (b # bs) (t # ts) = (if b = t then strip_common bs ts else (b # bs, t # ts))"
| "strip_common bs ts = (bs, ts)"

definition path_comps :: "string \<Rightarrow> string list" where
  "path_comps p = filter (\<lambda>c. c \<noteq> [] \<and> c \<noteq> ''.'') (split_on slash p)"

definition Rel :: "string \<Rightarrow> string \<Rightarrow> string option" where
  "Rel base targ =
     (let b = Clean base; t = Clean targ in
      if IsAbs b \<noteq> IsAbs t then None
      else (case strip_common (path_comps b) (path_comps t) of
              (bs, ts) \<Rightarrow>
                (if bs \<noteq> [] \<and> hd bs = ''..'' then None
                 else Some (render False (replicate (length bs) ''..'' @ ts)))))"

section \<open>Paths given by plain components\<close>

definition plain :: "string \<Rightarrow> bool" where
  "plain c \<longleftrightarrow> c \<noteq> [] \<and> c \<noteq> ''.'' \<and> c \<noteq> ''..'' \<and> slash \<notin> set c"

definition abs_path :: "string list \<Rightarrow> string" where "abs_path cs = render True cs"
definition rel_path :: "string list \<Rightarrow> string" where "rel_path cs = join_with ''/'' cs"

definition abs_clean :: "string \<Rightarrow> bool" where
  "abs_clean p \<longleftrightarrow> (\<exists>cs. list_all plain cs \<and> p = abs_path cs)"

lemma slash_str: "''/'' = [slash]" by (simp add: slash_def)

lemma plain_simps: "plain c \<Longrightarrow> c \<noteq> [] \<and> c \<noteq> ''.'' \<and> c \<noteq> ''..'' \<and> slash \<notin> set c"
  by (simp add: plain_def)

lemma foldl_clean_plain:
  "list_all plain cs \<Longrightarrow> foldl (clean_step r) st cs = rev cs @ st"
  by (induction cs arbitrary: st) (auto simp: clean_step_def plain_def)

lemma clean_comps_plain [simp]: "list_all plain cs \<Longrightarrow> clean_comps r cs = cs"
  by (simp add: clean_comps_def foldl_clean_plain)

lemma clean_comps_Nil_skip [simp]: "clean_comps r ([] # cs) = clean_comps r cs"
  by (simp add: clean_comps_def clean_step_def)

lemma clean_comps_Nil [simp]: "clean_comps r [] = []"
  by (simp add: clean_comps_def)

text \<open>The stack of the scan: plain components above, double dots at the bottom of a relative path.\<close>

definition clean_form :: "bool \<Rightarrow> string list \<Rightarrow> bool" where
  "clean_form rooted cs \<longleftrightarrow>
     (\<exists>n ps. cs = replicate n ''..'' @ ps \<and> list_all plain ps \<and> (rooted \<longrightarrow> n = 0))"

lemma clean_step_form:
  assumes "clean_form r (rev st)" and "slash \<notin> set c"
  shows "clean_form r (rev (clean_step r st c))"
proof -
  obtain n ps where st: "rev st = replicate n ''..'' @ ps" "list_all plain ps" "r \<longrightarrow> n = 0"
    using assms(1) by (auto simp: clean_form_def)
  have rst: "st = rev ps @ replicate n ''..''" using st(1) by (metis rev_append rev_replicate rev_rev_ident)
  consider "c = [] \<or> c = ''.''" | "c = ''..''" | "plain c"
    using assms(2) by (auto simp: plain_def)
  then show ?thesis
  proof cases
    case 1
    then show ?thesis using assms(1) by (auto simp: clean_step_def)
  next
    case 2
    show ?thesis
    proof (cases ps rule: rev_exhaust)
      case Nil
      then have e: "rev (clean_step r st c) = (if n = 0 \<and> r then [] else replicate (Suc n) ''..'')"
        using 2 rst by (cases n) (auto simp: clean_step_def replicate_append_same)
      show ?thesis
        by (cases "n = 0 \<and> r")
          (use e st(3) in \<open>auto simp: clean_form_def intro: exI [of _ 0] exI [of _ "Suc n"]\<close>)
    next
      case (snoc qs q)
      then have "plain q" and qs: "list_all plain qs" using st(2) by auto
      then have "rev (clean_step r st c) = replicate n ''..'' @ qs"
        using 2 rst snoc by (simp add: clean_step_def plain_def)
      then show ?thesis using qs st(3) by (auto simp: clean_form_def)
    qed
  next
    case 3
    then have "rev (clean_step r st c) = replicate n ''..'' @ (ps @ [c])"
      using rst by (simp add: clean_step_def plain_def)
    then show ?thesis using 3 st(2,3) unfolding clean_form_def
      by (intro exI [of _ n] exI [of _ "ps @ [c]"]) simp
  qed
qed

lemma foldl_clean_form:
  "clean_form r (rev st) \<Longrightarrow> \<forall>c \<in> set cs. slash \<notin> set c \<Longrightarrow>
   clean_form r (rev (foldl (clean_step r) st cs))"
  by (induction cs arbitrary: st) (auto intro: clean_step_form)

lemma clean_comps_form: "\<forall>c \<in> set cs. slash \<notin> set c \<Longrightarrow> clean_form r (clean_comps r cs)"
  unfolding clean_comps_def
  by (rule foldl_clean_form) (auto simp: clean_form_def intro: exI [of _ 0])

lemma clean_form_split: "clean_form r (clean_comps r (split_on slash p))"
  using clean_comps_form split_on_parts_no_sep by blast

lemma clean_form_rooted: "clean_form True cs \<Longrightarrow> list_all plain cs"
  by (auto simp: clean_form_def)

section \<open>Algebra\<close>

lemma join_plain_hd:
  assumes "list_all plain cs"
  shows "\<not> IsAbs (join_with ''/'' cs)"
  using assms
  by (cases cs; cases "tl cs")
    (auto simp: IsAbs_def HasPrefix_def plain_def slash_def neq_Nil_conv)

lemma split_join_plain:
  assumes "list_all plain cs" "cs \<noteq> []"
  shows "split_on slash (join_with ''/'' cs) = cs"
  unfolding slash_str using assms by (intro split_join_with) (auto simp: list_all_iff plain_def)

lemma split_abs_path:
  "list_all plain cs \<Longrightarrow> split_on slash (abs_path cs) = [] # (if cs = [] then [[]] else cs)"
  using split_join_plain [of cs] by (auto simp: abs_path_def render_def slash_def)

lemma IsAbs_abs_path [simp]: "IsAbs (abs_path cs)"
  by (simp add: IsAbs_def abs_path_def render_def HasPrefix_def)

lemma Clean_abs_path [simp]: "list_all plain cs \<Longrightarrow> Clean (abs_path cs) = abs_path cs"
  by (simp add: Clean_def split_abs_path) (auto simp: abs_path_def)

lemma Clean_rel_path: "list_all plain cs \<Longrightarrow> cs \<noteq> [] \<Longrightarrow> Clean (rel_path cs) = rel_path cs"
  by (simp add: Clean_def rel_path_def join_plain_hd split_join_plain) (simp add: render_def)

lemma Clean_abs: "IsAbs p \<Longrightarrow> abs_clean (Clean p)"
  unfolding abs_clean_def abs_path_def Clean_def
  using clean_form_rooted clean_form_split by (metis (full_types))

lemma path_comps_abs_path [simp]: "list_all plain cs \<Longrightarrow> path_comps (abs_path cs) = cs"
  by (auto simp: path_comps_def split_abs_path list_all_iff plain_def filter_id_conv)

lemma abs_path_inj:
  "list_all plain cs \<Longrightarrow> list_all plain ds \<Longrightarrow> abs_path cs = abs_path ds \<longleftrightarrow> cs = ds"
  by (metis path_comps_abs_path)

lemma join_with_append_rel:
  "cs \<noteq> [] \<Longrightarrow> ds \<noteq> [] \<Longrightarrow> join_with s (cs @ ds) = join_with s cs @ s @ join_with s ds"
  by (induction s cs rule: join_with.induct) (auto simp: neq_Nil_conv)

lemma clean_comps_append_plain:
  "list_all plain cs \<Longrightarrow> clean_comps r (cs @ ds) = rev (foldl (clean_step r) (rev cs) ds)"
  by (simp add: clean_comps_def foldl_clean_plain)

text \<open>Joining a rooted plain path with a relative plain path appends the components.\<close>

lemma Join_abs_rel:
  assumes "list_all plain cs" "list_all plain ds" "ds \<noteq> []"
  shows "Join [abs_path cs, rel_path ds] = abs_path (cs @ ds)"
proof -
  have ne: "abs_path cs \<noteq> []" "rel_path ds \<noteq> []"
    using assms(2,3) split_join_plain [of ds] by (auto simp: abs_path_def render_def rel_path_def plain_def)
  have j: "Join [abs_path cs, rel_path ds] = Clean (abs_path cs @ ''/'' @ rel_path ds)"
    using ne by (simp add: Join_def)
  show ?thesis
  proof (cases "cs = []")
    case True
    have a: "abs_path [] @ ''/'' @ rel_path ds = slash # slash # rel_path ds"
      by (simp add: abs_path_def render_def slash_def)
    have "split_on slash (slash # slash # rel_path ds) = [] # [] # ds"
      using assms(2,3) by (simp add: split_join_plain rel_path_def)
    moreover have "IsAbs (slash # slash # rel_path ds)" by (simp add: IsAbs_def HasPrefix_def slash_def)
    ultimately show ?thesis using True j a assms(2) by (simp add: Clean_def) (simp add: abs_path_def)
  next
    case False
    have "abs_path cs @ ''/'' @ rel_path ds = abs_path (cs @ ds)"
      using False assms(3) by (simp add: abs_path_def render_def rel_path_def join_with_append_rel)
    then show ?thesis using j assms by simp
  qed
qed

lemma rel_path_single [simp]: "rel_path [c] = c" by (simp add: rel_path_def)

lemma Join_abs_comp: "list_all plain cs \<Longrightarrow> plain c \<Longrightarrow> Join [abs_path cs, c] = abs_path (cs @ [c])"
  using Join_abs_rel [of cs "[c]"] by simp

section \<open>Containment\<close>

definition under :: "string \<Rightarrow> string \<Rightarrow> bool" where
  "under root p \<longleftrightarrow> (\<exists>cs ds. list_all plain (cs @ ds) \<and> root = abs_path cs \<and> p = abs_path (cs @ ds))"

lemma under_refl: "abs_clean p \<Longrightarrow> under p p"
  unfolding abs_clean_def under_def by (metis append_Nil2)

lemma under_abs_path:
  "list_all plain cs \<Longrightarrow> list_all plain ds \<Longrightarrow> under (abs_path cs) (abs_path ds) \<longleftrightarrow> prefix cs ds"
  unfolding under_def prefix_def
  by (metis abs_path_inj list_all_append)

lemma under_abs_clean: "under r p \<Longrightarrow> abs_clean p"
  by (auto simp: under_def abs_clean_def simp flip: list_all_append)

lemma strip_common_prefix: "strip_common bs (bs @ ts) = ([], ts)"
  by (induction bs) (cases ts, auto)

lemma strip_common_decomp:
  "strip_common bs ts = (xs, ys) \<Longrightarrow> \<exists>c. bs = c @ xs \<and> ts = c @ ys"
proof (induction bs ts arbitrary: xs ys rule: strip_common.induct)
  case (1 b bs t ts)
  show ?case
  proof (cases "b = t")
    case True
    with 1 obtain c where "bs = c @ xs" "ts = c @ ys" by auto
    then show ?thesis using True by (intro exI [of _ "b # c"]) simp
  qed (use 1 in auto)
qed auto

lemma render_dots_prefix:
  "list_all plain ts \<Longrightarrow> render False (replicate n ''..'' @ ts) = ''..'' \<or>
     HasPrefix (render False (replicate n ''..'' @ ts)) ''../'' \<longleftrightarrow> n \<noteq> 0"
proof (cases n)
  case 0
  assume p: "list_all plain ts"
  then show ?thesis using 0
  proof (cases ts)
    case (Cons t us)
    have s: "split_on slash (join_with ''/'' ts) = ts" using split_join_plain p Cons by simp
    have t: "t \<noteq> ''..''" using p Cons by (simp add: plain_def)
    have d: "split_on slash ''..'' = [''..'']" by (simp add: slash_def)
    have "hd (split_on slash x) = ''..''" if "HasPrefix x ''../''" for x
      using that by (auto simp: HasPrefix_iff slash_def)
    then have "\<not> HasPrefix (join_with ''/'' ts) ''../''" using s Cons t by (metis list.sel(1))
    moreover have "join_with ''/'' ts \<noteq> ''..''" using s Cons t d by (metis list.sel(1))
    ultimately show ?thesis using 0 Cons by (simp add: render_def)
  qed (simp add: render_def HasPrefix_def)
next
  case (Suc m)
  assume p: "list_all plain ts"
  show ?thesis
  proof (cases "replicate m ''..'' @ ts")
    case (Cons a as)
    then show ?thesis using Suc by (simp add: render_def HasPrefix_def)
  qed (use Suc in \<open>simp add: render_def\<close>)
qed

end
