(* ===== verification/Config.thy ===== *)
theory Config
  imports GoPath Store
begin

text \<open>
  \<open>internal/config/config.go\<close>: the resolved configuration, the normalisation that deployment profiles
  and legacy settings imply, its validation, and the predicates the policies ask it. Reading flags and
  environment variables is not modelled; the checks of the host (readable files, commands, KVM) are
  answers of a probe, as they are for the program's own tests.
\<close>

record config =
  cfg_DeploymentMode :: string
  cfg_DeploymentProfile :: string
  cfg_ProductionTransportMode :: string
  cfg_ProductionAllowDockerBreakglass :: bool
  cfg_ListenAddress :: string
  cfg_DatabasePath :: string
  cfg_StorageRoot :: string
  cfg_SnapshotRoot :: string
  cfg_BaseImageRef :: string
  cfg_RuntimeBackend :: string
  cfg_EnabledRuntimeSelections :: "runtime_selection list"
  cfg_DefaultRuntimeSelection :: runtime_selection
  cfg_AuthMode :: string
  cfg_AuthJWTIssuer :: string
  cfg_AuthJWTAudience :: string
  cfg_AuthJWTSecretPaths :: "string list"
  cfg_TLSCertPath :: string
  cfg_TLSKeyPath :: string
  cfg_TrustedProxyHeaders :: bool
  cfg_TrustedDockerRuntime :: bool
  cfg_PolicyAllowedImages :: "string list"
  cfg_PolicyAllowPublicTunnels :: bool
  cfg_PolicyMaxSandboxLifetime :: int
  cfg_PolicyMaxIdleTimeout :: int
  cfg_AdmissionMaxNodeSandboxes :: int
  cfg_AdmissionMaxNodeRunning :: int
  cfg_AdmissionMaxNodeCPU :: cpu_quantity
  cfg_AdmissionMaxNodeMemoryMB :: int
  cfg_AdmissionMinNodeFreeStorageMB :: int
  cfg_AdmissionMaxTenantStarts :: int
  cfg_AdmissionMaxTenantHeavyOps :: int
  cfg_StorageWarningFileCount :: int
  cfg_WorkspaceFileTransferMaxBytes :: int
  cfg_workspaceFileTransferMaxSet :: bool
  cfg_SnapshotMaxBytes :: int
  cfg_SnapshotMaxFiles :: int
  cfg_SnapshotMaxExpansionRatio :: int
  cfg_AllowedGuestProfiles :: "guest_profile list"
  cfg_DangerousGuestProfiles :: "guest_profile list"
  cfg_AllowDangerousProfiles :: bool
  cfg_DockerTmpfsSizeMB :: int
  cfg_DockerSeccompProfile :: string
  cfg_DockerAllowDangerousOverrides :: bool
  cfg_DefaultCPULimit :: cpu_quantity
  cfg_DefaultMemoryLimitMB :: int
  cfg_DefaultPIDsLimit :: int
  cfg_DefaultDiskLimitMB :: int
  cfg_DefaultNetworkMode :: network_mode
  cfg_DefaultAllowTunnels :: bool
  cfg_DefaultQuota :: tenant_quota
  cfg_CleanupInterval :: int
  cfg_OperatorHost :: string
  cfg_TunnelSigningKey :: string
  cfg_TunnelSigningKeyPath :: string
  cfg_Tenants :: "tenant_config list"
  cfg_OptionalSnapshotExport :: string
  cfg_QEMUBinary :: string
  cfg_QEMUAccel :: string
  cfg_QEMUBaseImagePath :: string
  cfg_QEMUAllowedBaseImagePaths :: "string list"
  cfg_QEMUControlMode :: control_mode
  cfg_QEMUAllowedProfiles :: "guest_profile list"
  cfg_QEMUDangerousProfiles :: "guest_profile list"
  cfg_QEMUAllowDangerousProfiles :: bool
  cfg_QEMUAllowSSHCompat :: bool
  cfg_QEMUSSHUser :: string
  cfg_QEMUSSHPrivateKeyPath :: string
  cfg_QEMUSSHHostKeyPath :: string
  cfg_QEMUBootTimeout :: int
  cfg_KataBinary :: string
  cfg_KataRuntimeClass :: string
  cfg_KataContainerdSocket :: string

fun class_string :: "runtime_class \<Rightarrow> string" where
  "class_string ClassTrustedDocker = ''trusted-docker''"
| "class_string ClassVM = ''vm''"
| "class_string (OtherClass s) = s"

section \<open>Predicates\<close>

definition IsRuntimeSelectionEnabled :: "config \<Rightarrow> runtime_selection \<Rightarrow> bool" where
  "IsRuntimeSelectionEnabled c selection \<longleftrightarrow> selection \<in> set (cfg_EnabledRuntimeSelections c)"

definition effectiveAllowedGuestProfiles :: "config \<Rightarrow> string \<Rightarrow> guest_profile list" where
  "effectiveAllowedGuestProfiles c runtimeBackend =
     (if cfg_AllowedGuestProfiles c \<noteq> [] then cfg_AllowedGuestProfiles c
      else if runtimeBackend = ''qemu'' \<and> cfg_QEMUAllowedProfiles c \<noteq> [] then cfg_QEMUAllowedProfiles c
      else [ProfileCore, ProfileRuntime, ProfileBrowser, ProfileContainer, ProfileDebug])"

definition effectiveDangerousGuestProfiles :: "config \<Rightarrow> string \<Rightarrow> guest_profile list" where
  "effectiveDangerousGuestProfiles c runtimeBackend =
     (if cfg_DangerousGuestProfiles c \<noteq> [] then cfg_DangerousGuestProfiles c
      else if runtimeBackend = ''qemu'' \<and> cfg_QEMUDangerousProfiles c \<noteq> [] then cfg_QEMUDangerousProfiles c
      else [ProfileContainer, ProfileDebug])"

definition IsAllowedGuestProfile :: "config \<Rightarrow> string \<Rightarrow> guest_profile \<Rightarrow> bool" where
  "IsAllowedGuestProfile c runtimeBackend profile \<longleftrightarrow>
     profile \<in> set (effectiveAllowedGuestProfiles c runtimeBackend)"

definition IsDangerousGuestProfile :: "config \<Rightarrow> string \<Rightarrow> guest_profile \<Rightarrow> bool" where
  "IsDangerousGuestProfile c runtimeBackend profile \<longleftrightarrow>
     profile \<in> set (effectiveDangerousGuestProfiles c runtimeBackend)"

definition AllowsDangerousGuestProfiles :: "config \<Rightarrow> string \<Rightarrow> bool" where
  "AllowsDangerousGuestProfiles c runtimeBackend \<longleftrightarrow>
     cfg_AllowDangerousProfiles c \<or> (runtimeBackend = ''qemu'' \<and> cfg_QEMUAllowDangerousProfiles c)"

definition NormalizeQEMUBaseImagePath :: "string \<Rightarrow> string" where
  "NormalizeQEMUBaseImagePath path =
     (let trimmed = TrimSpace path in if trimmed = [] then [] else Clean trimmed)"

fun append_normalized :: "string list \<Rightarrow> string list \<Rightarrow> string list" where
  "append_normalized seen [] = []"
| "append_normalized seen (raw # rest) =
     (let normalized = NormalizeQEMUBaseImagePath raw in
      if normalized = [] then append_normalized seen rest
      else if normalized \<in> set seen then append_normalized seen rest
      else normalized # append_normalized (normalized # seen) rest)"

definition appendDefaultQEMUBaseImagePath :: "string list \<Rightarrow> string \<Rightarrow> string list" where
  "appendDefaultQEMUBaseImagePath paths defaultPath = append_normalized [] (paths @ [defaultPath])"

definition EffectiveQEMUAllowedBaseImagePaths :: "config \<Rightarrow> string list" where
  "EffectiveQEMUAllowedBaseImagePaths c =
     appendDefaultQEMUBaseImagePath (cfg_QEMUAllowedBaseImagePaths c) (cfg_QEMUBaseImagePath c)"

section \<open>Normalisation\<close>

definition applyDeploymentProfile :: "config \<Rightarrow> config" where
  "applyDeploymentProfile c =
     (let p = TrimSpace (cfg_DeploymentProfile c) in
      if p = [] then
        (if cfg_DeploymentMode c = ''production'' then
           (let c1 = (if cfg_RuntimeBackend c = [] then c\<lparr>cfg_RuntimeBackend := ''qemu''\<rparr> else c);
                c2 = (if cfg_EnabledRuntimeSelections c1 = [] \<and> cfg_RuntimeBackend c1 = ''qemu''
                      then c1\<lparr>cfg_EnabledRuntimeSelections := [QEMUProfessional]\<rparr> else c1);
                c3 = (if \<not> selection_IsValid (cfg_DefaultRuntimeSelection c2) \<and> cfg_RuntimeBackend c2 = ''qemu''
                      then c2\<lparr>cfg_DefaultRuntimeSelection := QEMUProfessional\<rparr> else c2)
            in if cfg_QEMUAllowedProfiles c3 = []
               then c3\<lparr>cfg_QEMUAllowedProfiles := [ProfileCore, ProfileRuntime]\<rparr> else c3)
         else c)
      else if p = ''dev-trusted-docker'' then
        c\<lparr>cfg_DeploymentMode := ''development'', cfg_RuntimeBackend := ''docker'',
          cfg_TrustedDockerRuntime := True, cfg_EnabledRuntimeSelections := [DockerDev],
          cfg_DefaultRuntimeSelection := DockerDev\<rparr>
      else if p = ''production-qemu-core'' then
        c\<lparr>cfg_DeploymentMode := ''production'', cfg_RuntimeBackend := ''qemu'',
          cfg_EnabledRuntimeSelections := [QEMUProfessional],
          cfg_DefaultRuntimeSelection := QEMUProfessional,
          cfg_QEMUAllowedProfiles := [ProfileCore, ProfileRuntime]\<rparr>
      else if p = ''production-qemu-browser'' then
        c\<lparr>cfg_DeploymentMode := ''production'', cfg_RuntimeBackend := ''qemu'',
          cfg_EnabledRuntimeSelections := [QEMUProfessional],
          cfg_DefaultRuntimeSelection := QEMUProfessional,
          cfg_QEMUAllowedProfiles := [ProfileCore, ProfileRuntime, ProfileBrowser]\<rparr>
      else if p = ''exception-container'' then
        c\<lparr>cfg_DeploymentMode := ''production'', cfg_RuntimeBackend := ''qemu'',
          cfg_EnabledRuntimeSelections := [QEMUProfessional],
          cfg_DefaultRuntimeSelection := QEMUProfessional,
          cfg_QEMUAllowedProfiles := [ProfileCore, ProfileRuntime, ProfileContainer],
          cfg_QEMUAllowDangerousProfiles := True\<rparr>
      else c)"

definition applyRuntimeSelectionCompatibility :: "config \<Rightarrow> config" where
  "applyRuntimeSelectionCompatibility c =
     (let legacy = RuntimeSelectionFromBackend (cfg_RuntimeBackend c);
          c1 = (if cfg_EnabledRuntimeSelections c = [] \<and> selection_IsValid legacy
                then c\<lparr>cfg_EnabledRuntimeSelections := [legacy]\<rparr> else c);
          c2 = (if \<not> selection_IsValid (cfg_DefaultRuntimeSelection c1)
                then c1\<lparr>cfg_DefaultRuntimeSelection :=
                       ResolveRuntimeSelection (cfg_DefaultRuntimeSelection c1) (cfg_RuntimeBackend c1)\<rparr>
                else c1);
          c3 = (if selection_IsValid (cfg_DefaultRuntimeSelection c2)
                then c2\<lparr>cfg_RuntimeBackend := Backend (cfg_DefaultRuntimeSelection c2)\<rparr> else c2)
      in if cfg_DeploymentMode c3 = ''production'' \<and> \<not> selection_IsValid (cfg_DefaultRuntimeSelection c3) \<and>
            cfg_RuntimeBackend c3 = []
         then c3\<lparr>cfg_DefaultRuntimeSelection := QEMUProfessional, cfg_RuntimeBackend := Backend QEMUProfessional\<rparr>
         else c3)"

definition config_RuntimeClass :: "config \<Rightarrow> runtime_class" where
  "config_RuntimeClass c = RuntimeClass (cfg_DefaultRuntimeSelection (applyRuntimeSelectionCompatibility c))"

definition normalizeProductionTransportMode :: "string \<Rightarrow> string" where
  "normalizeProductionTransportMode value =
     (let trimmed = ToLower (TrimSpace value) in if trimmed = [] then ''auto'' else trimmed)"

section \<open>Validation\<close>

record validation_probe =
  vp_goos :: string
  vp_commandExists :: "string \<Rightarrow> goerr option"
  vp_fileReadable :: "string \<Rightarrow> goerr option"
  vp_kvmAvailable :: "goerr option"
  vp_hvfAvailable :: "goerr option"
  vp_MkdirAll :: "string \<Rightarrow> goerr option"

text \<open>
  A validator that collects problems returns them in order; joining them into one message is left to
  the printer. One that stops at the first problem returns it as an option.
\<close>

definition problem_if :: "bool \<Rightarrow> string \<Rightarrow> string list" where
  "problem_if b m = (if b then [m] else [])"

definition unreadable :: "string \<Rightarrow> goerr option \<Rightarrow> string list" where
  "unreadable what r = (case r of None \<Rightarrow> [] | Some e \<Rightarrow> [what @ '': '' @ err_text e])"

definition validateAuthConfig :: "config \<Rightarrow> (string \<Rightarrow> goerr option) \<Rightarrow> string list" where
  "validateAuthConfig c fileReadable =
     (if cfg_AuthMode c = ''static'' then []
      else if cfg_AuthMode c = ''jwt-hs256'' then
        problem_if (TrimSpace (cfg_AuthJWTIssuer c) = []) ''jwt auth requires SANDBOX_AUTH_JWT_ISSUER'' @
        problem_if (TrimSpace (cfg_AuthJWTAudience c) = []) ''jwt auth requires SANDBOX_AUTH_JWT_AUDIENCE'' @
        problem_if (cfg_AuthJWTSecretPaths c = []) ''jwt auth requires SANDBOX_AUTH_JWT_SECRET_PATHS'' @
        concat (map (\<lambda>p. unreadable ''jwt auth secret path is not readable'' (fileReadable p))
          (cfg_AuthJWTSecretPaths c))
      else [''unsupported auth mode '' @ quote (cfg_AuthMode c)])"

definition validateTransportConfig :: "config \<Rightarrow> (string \<Rightarrow> goerr option) \<Rightarrow> string list" where
  "validateTransportConfig c fileReadable =
     (let hasCert = TrimSpace (cfg_TLSCertPath c) \<noteq> []; hasKey = TrimSpace (cfg_TLSKeyPath c) \<noteq> [] in
      if hasCert \<noteq> hasKey then
        [''tls requires both SANDBOX_TLS_CERT_PATH and SANDBOX_TLS_KEY_PATH'']
      else
        problem_if (TrimSpace (cfg_TunnelSigningKey c) \<noteq> [] \<and> TrimSpace (cfg_TunnelSigningKeyPath c) \<noteq> [])
          ''set only one of SANDBOX_TUNNEL_SIGNING_KEY or SANDBOX_TUNNEL_SIGNING_KEY_PATH'' @
        (if TrimSpace (cfg_TunnelSigningKeyPath c) \<noteq> [] then
           unreadable ''tunnel signing key path is not readable'' (fileReadable (cfg_TunnelSigningKeyPath c))
         else []) @
        (if hasCert then
           unreadable ''tls certificate path is not readable'' (fileReadable (cfg_TLSCertPath c)) @
           unreadable ''tls key path is not readable'' (fileReadable (cfg_TLSKeyPath c))
         else []) @
        problem_if (cfg_TrustedProxyHeaders c \<and>
            \<not> HasPrefix (ToLower (TrimSpace (cfg_OperatorHost c))) ''https://'')
          ''trusted proxy mode requires SANDBOX_OPERATOR_HOST to use https://'')"

definition resolveQEMUAccel :: "string \<Rightarrow> string \<Rightarrow> goerr + string" where
  "resolveQEMUAccel value goos =
     (let v = ToLower (TrimSpace value) in
      if v = [] \<or> v = ''auto'' then
        (if goos = ''linux'' then Inr ''kvm''
         else if goos = ''darwin'' then Inr ''hvf''
         else Inl (Err (''qemu runtime is unsupported on host OS '' @ quote goos)))
      else if v = ''kvm'' then
        (if goos \<noteq> ''linux'' then
           Inl (Err (''qemu accel '' @ quote value @ '' is unsupported on host OS '' @ quote goos))
         else Inr ''kvm'')
      else if v = ''hvf'' then
        (if goos \<noteq> ''darwin'' then
           Inl (Err (''qemu accel '' @ quote value @ '' is unsupported on host OS '' @ quote goos))
         else Inr ''hvf'')
      else if v = ''tcg'' then Inr ''tcg''
      else Inl (Err (''unsupported qemu accelerator '' @ quote value)))"

fun first_problem :: "goerr option list \<Rightarrow> goerr option" where
  "first_problem [] = None"
| "first_problem (Some e # rest) = Some e"
| "first_problem (None # rest) = first_problem rest"

definition fail_if :: "bool \<Rightarrow> string \<Rightarrow> goerr option" where
  "fail_if b m = (if b then Some (Err m) else None)"

definition wrap_err :: "string \<Rightarrow> goerr option \<Rightarrow> goerr option" where
  "wrap_err m r = map_option (\<lambda>e. Err (m @ '': '' @ err_text e)) r"

definition validateDockerConfig :: "config \<Rightarrow> validation_probe \<Rightarrow> goerr option" where
  "validateDockerConfig c probe = first_problem
     [fail_if (\<not> cfg_TrustedDockerRuntime c) ''docker runtime requires SANDBOX_TRUSTED_DOCKER_RUNTIME=true because it is shared-kernel and not a production multi-tenant boundary'',
      fail_if (cfg_DockerTmpfsSizeMB c < 0) ''docker runtime requires SANDBOX_DOCKER_TMPFS_MB to be positive'',
      (if TrimSpace (cfg_DockerSeccompProfile c) \<noteq> [] then
         wrap_err ''docker seccomp profile is not readable'' (vp_fileReadable probe (cfg_DockerSeccompProfile c))
       else None)]"

definition validateKataConfig :: "config \<Rightarrow> validation_probe \<Rightarrow> goerr option" where
  "validateKataConfig c probe = first_problem
     [fail_if (vp_goos probe \<noteq> ''linux'')
        (''kata runtime requires linux (host OS is '' @ quote (vp_goos probe) @ '')''),
      wrap_err ''kata runtime requires a working client binary'' (vp_commandExists probe (cfg_KataBinary c)),
      fail_if (TrimSpace (cfg_KataRuntimeClass c) = []) ''kata runtime requires SANDBOX_KATA_RUNTIME_CLASS'',
      fail_if (TrimSpace (cfg_KataContainerdSocket c) = [])
        ''kata runtime requires SANDBOX_KATA_CONTAINERD_SOCKET'']"

definition validateQEMUConfig :: "config \<Rightarrow> validation_probe \<Rightarrow> goerr option" where
  "validateQEMUConfig c probe =
     (case resolveQEMUAccel (cfg_QEMUAccel c) (vp_goos probe) of
        Inl e \<Rightarrow> Some e
      | Inr accel \<Rightarrow>
          (let ssh = cfg_QEMUControlMode c = ControlSSHCompat;
               profiles = effectiveAllowedGuestProfiles c ''qemu'' in
           first_problem
             ([fail_if (cfg_QEMUBootTimeout c \<le> 0)
                 ''qemu runtime requires SANDBOX_QEMU_BOOT_TIMEOUT to be a positive duration'',
               fail_if (TrimSpace (cfg_QEMUBaseImagePath c) = [])
                 ''qemu runtime requires SANDBOX_QEMU_BASE_IMAGE_PATH'',
               fail_if (\<not> control_mode_IsValid (cfg_QEMUControlMode c))
                 (''qemu runtime requires SANDBOX_QEMU_CONTROL_MODE to be one of '' @ quote ''agent''
                   @ '' or '' @ quote ''ssh-compat''),
               fail_if (profiles = []) ''qemu runtime requires at least one allowed guest profile''] @
              (if ssh then map (\<lambda>p. fail_if (p \<noteq> ProfileDebug)
                 (''qemu ssh-compat mode only supports debug guest profiles; remove unsupported profile ''
                   @ quote (profile_string p) @ '' or switch SANDBOX_QEMU_CONTROL_MODE=agent'')) profiles
               else []) @
              (if ssh then
                 [fail_if (TrimSpace (cfg_QEMUSSHUser c) = [])
                    ''qemu ssh-compat mode requires SANDBOX_QEMU_SSH_USER'',
                  fail_if (TrimSpace (cfg_QEMUSSHPrivateKeyPath c) = [])
                    ''qemu ssh-compat mode requires SANDBOX_QEMU_SSH_PRIVATE_KEY_PATH'',
                  fail_if (TrimSpace (cfg_QEMUSSHHostKeyPath c) = [])
                    ''qemu ssh-compat mode requires SANDBOX_QEMU_SSH_HOST_KEY_PATH'']
               else []) @
              [wrap_err ''qemu runtime requires a working QEMU binary''
                 (vp_commandExists probe (cfg_QEMUBinary c)),
               wrap_err ''qemu runtime base image path is not readable''
                 (vp_fileReadable probe (cfg_QEMUBaseImagePath c))] @
              (if ssh then
                 [wrap_err ''qemu runtime ssh private key is not readable''
                    (vp_fileReadable probe (cfg_QEMUSSHPrivateKeyPath c)),
                  wrap_err ''qemu runtime ssh host public key is not readable''
                    (vp_fileReadable probe (cfg_QEMUSSHHostKeyPath c))]
               else []) @
              map (\<lambda>p. wrap_err ''qemu allowed base image path is not readable'' (vp_fileReadable probe p))
                (EffectiveQEMUAllowedBaseImagePaths c) @
              [(if accel = ''kvm'' then
                  wrap_err ''qemu runtime requires KVM support on Linux hosts'' (vp_kvmAvailable probe)
                else if accel = ''hvf'' then
                  wrap_err ''qemu runtime requires HVF support on macOS hosts'' (vp_hvfAvailable probe)
                else None),
               fail_if (cfg_DeploymentMode c = ''production'' \<and> ssh \<and> \<not> cfg_QEMUAllowSSHCompat c)
                 ''production qemu mode rejects ssh-compat images unless SANDBOX_QEMU_ALLOW_SSH_COMPAT=true''])))"

fun validate_selection :: "config \<Rightarrow> validation_probe \<Rightarrow> runtime_selection \<Rightarrow> goerr option" where
  "validate_selection c probe DockerDev = validateDockerConfig c probe"
| "validate_selection c probe QEMUProfessional = validateQEMUConfig c probe"
| "validate_selection c probe ContainerdKataProfessional = validateKataConfig c probe"
| "validate_selection c probe (OtherSelection s) =
     Some (Err (''unsupported runtime selection '' @ quote s))"

definition validateRuntimeConfig :: "config \<Rightarrow> validation_probe \<Rightarrow> goerr option" where
  "validateRuntimeConfig c0 probe =
     (let c = applyRuntimeSelectionCompatibility c0 in
      first_problem
        ([fail_if (cfg_EnabledRuntimeSelections c = []) ''at least one runtime selection must be enabled'',
          fail_if (\<not> selection_IsValid (cfg_DefaultRuntimeSelection c))
            (''unsupported default runtime selection '' @ quote (selection_string (cfg_DefaultRuntimeSelection c))),
          fail_if (\<not> IsRuntimeSelectionEnabled c (cfg_DefaultRuntimeSelection c))
            (''default runtime selection '' @ quote (selection_string (cfg_DefaultRuntimeSelection c))
              @ '' must also be enabled'')] @
         map (validate_selection c probe) (cfg_EnabledRuntimeSelections c)))"

definition MaxWorkspaceFileTransferCeilingBytes :: int where
  "MaxWorkspaceFileTransferCeilingBytes = 1024 * 1024 * 1024"

text \<open>The checks of the production mode.\<close>

definition production_problems :: "config \<Rightarrow> string list" where
  "production_problems c =
     problem_if (cfg_DefaultRuntimeSelection c = DockerDev \<and> \<not> cfg_ProductionAllowDockerBreakglass c)
       ''production mode rejects docker-dev as the default runtime selection unless SANDBOX_PRODUCTION_ALLOW_DOCKER_BREAKGLASS=true'' @
     problem_if (\<not> IsVMBacked (cfg_DefaultRuntimeSelection c))
       (''production mode requires a VM-backed runtime class; ''
         @ quote (selection_string (cfg_DefaultRuntimeSelection c)) @ '' resolves to class ''
         @ quote (class_string (RuntimeClass (cfg_DefaultRuntimeSelection c)))
         @ '' which is not VM-backed'') @
     problem_if (cfg_AuthMode c = ''static'') ''production mode requires SANDBOX_AUTH_MODE=jwt-hs256'' @
     (let m = normalizeProductionTransportMode (cfg_ProductionTransportMode c) in
      if m = ''auto'' then
        problem_if (cfg_TLSCertPath c = [] \<and> \<not> cfg_TrustedProxyHeaders c)
          ''production mode requires TLS certificate paths or SANDBOX_TRUST_PROXY_HEADERS=true''
      else if m = ''direct-tls'' then
        problem_if (cfg_TLSCertPath c = [] \<or> cfg_TLSKeyPath c = [])
          ''production direct-tls mode requires SANDBOX_TLS_CERT_PATH and SANDBOX_TLS_KEY_PATH''
      else if m = ''terminated-proxy'' then
        problem_if (\<not> cfg_TrustedProxyHeaders c)
          ''production terminated-proxy mode requires SANDBOX_TRUST_PROXY_HEADERS=true''
      else [''unsupported production transport mode '' @ quote (cfg_ProductionTransportMode c)]) @
     concat (map (\<lambda>p. problem_if (cfg_DeploymentProfile c \<noteq> ''exception-container'' \<and>
           (p = ProfileContainer \<or> p = ProfileDebug))
         (''production mode rejects dangerous default qemu profile '' @ quote (profile_string p)))
       (effectiveAllowedGuestProfiles c ''qemu''))"

definition with_validation_defaults :: "config \<Rightarrow> config" where
  "with_validation_defaults c =
     c\<lparr>cfg_StorageWarningFileCount := (if cfg_StorageWarningFileCount c = 0 then 10000
                                       else cfg_StorageWarningFileCount c),
       cfg_WorkspaceFileTransferMaxBytes :=
         (if cfg_WorkspaceFileTransferMaxBytes c = 0 \<and> \<not> cfg_workspaceFileTransferMaxSet c
          then DefaultWorkspaceFileTransferMaxBytes else cfg_WorkspaceFileTransferMaxBytes c),
       cfg_SnapshotMaxBytes := (if cfg_SnapshotMaxBytes c = 0 then 1024 * 1024 * 1024 else cfg_SnapshotMaxBytes c),
       cfg_SnapshotMaxFiles := (if cfg_SnapshotMaxFiles c = 0 then 8192 else cfg_SnapshotMaxFiles c),
       cfg_SnapshotMaxExpansionRatio := (if cfg_SnapshotMaxExpansionRatio c = 0 then 32
                                         else cfg_SnapshotMaxExpansionRatio c)\<rparr>"

definition range_problems :: "config \<Rightarrow> string list" where
  "range_problems c =
     problem_if (cfg_DeploymentMode c \<noteq> ''development'' \<and> cfg_DeploymentMode c \<noteq> ''production'')
       (''unsupported deployment mode '' @ quote (cfg_DeploymentMode c)) @
     problem_if (cfg_ListenAddress c = []) ''listen address is required'' @
     problem_if (cfg_DatabasePath c = []) ''database path is required'' @
     problem_if (cfg_StorageRoot c = []) ''storage root is required'' @
     problem_if (cfg_SnapshotRoot c = []) ''snapshot root is required'' @
     problem_if (cfg_BaseImageRef c = []) ''base image reference is required'' @
     problem_if (cfg_PolicyMaxSandboxLifetime c < 0) ''policy max sandbox lifetime must be zero or positive'' @
     problem_if (cfg_PolicyMaxIdleTimeout c < 0) ''policy max idle timeout must be zero or positive'' @
     problem_if (cfg_AdmissionMaxNodeSandboxes c < 0) ''admission max node sandboxes must be zero or positive'' @
     problem_if (cfg_AdmissionMaxNodeRunning c < 0) ''admission max node running must be zero or positive'' @
     problem_if (cfg_AdmissionMaxNodeCPU c < 0) ''admission max node cpu must be zero or positive'' @
     problem_if (cfg_AdmissionMaxNodeMemoryMB c < 0) ''admission max node memory must be zero or positive'' @
     problem_if (cfg_AdmissionMinNodeFreeStorageMB c < 0) ''admission min node free storage must be zero or positive'' @
     problem_if (cfg_AdmissionMaxTenantStarts c < 0) ''admission max tenant starts must be zero or positive'' @
     problem_if (cfg_AdmissionMaxTenantHeavyOps c < 0) ''admission max tenant heavy ops must be zero or positive'' @
     problem_if (cfg_StorageWarningFileCount c < 0) ''storage warning file count must be zero or positive'' @
     problem_if (cfg_WorkspaceFileTransferMaxBytes c < 0) ''workspace file transfer max bytes must be positive'' @
     problem_if (MaxWorkspaceFileTransferCeilingBytes < cfg_WorkspaceFileTransferMaxBytes c)
       (''workspace file transfer max bytes must not exceed '' @ fmt_int MaxWorkspaceFileTransferCeilingBytes) @
     problem_if (cfg_SnapshotMaxBytes c \<le> 0) ''snapshot max bytes must be positive'' @
     problem_if (cfg_SnapshotMaxFiles c \<le> 0) ''snapshot max files must be positive'' @
     problem_if (cfg_SnapshotMaxExpansionRatio c \<le> 0) ''snapshot max expansion ratio must be positive''"

definition default_problems :: "config \<Rightarrow> string list" where
  "default_problems c =
     problem_if (cfg_DefaultCPULimit c \<le> 0) ''default cpu limit must be positive'' @
     problem_if (q_MaxCPUCores (cfg_DefaultQuota c) \<le> 0) ''default quota max cpu must be positive'' @
     problem_if (Backend (cfg_DefaultRuntimeSelection c) = ''qemu'' \<and>
         go_mod (MilliValue (cfg_DefaultCPULimit c)) 1000 \<noteq> 0)
       ''qemu runtime requires a whole-core default cpu limit'' @
     problem_if (cfg_DefaultNetworkMode c \<noteq> InternetEnabled \<and> cfg_DefaultNetworkMode c \<noteq> InternetDisabled)
       (''unsupported default network mode '' @ quote (network_mode_string (cfg_DefaultNetworkMode c))) @
     problem_if (cfg_AuthMode c = ''static'' \<and> cfg_Tenants c = []) ''at least one tenant token is required''"

definition Validate :: "config \<Rightarrow> validation_probe \<Rightarrow> string list" where
  "Validate c0 probe =
     (let c1 = applyRuntimeSelectionCompatibility (applyDeploymentProfile c0);
          c = with_validation_defaults c1 in
      problem_if (cfg_WorkspaceFileTransferMaxBytes c1 = 0 \<and> cfg_workspaceFileTransferMaxSet c1)
        ''workspace file transfer max bytes must be positive'' @
      range_problems c @
      validateAuthConfig c (vp_fileReadable probe) @
      validateTransportConfig c (vp_fileReadable probe) @
      (case validateRuntimeConfig c probe of None \<Rightarrow> [] | Some e \<Rightarrow> [err_text e]) @
      default_problems c @
      (if cfg_DeploymentMode c = ''production'' then production_problems c else []) @
      concat (map (\<lambda>dir. if dir = [] then [] else
          unreadable (''create '' @ dir) (vp_MkdirAll probe dir))
        [Dir (cfg_DatabasePath c), cfg_StorageRoot c, cfg_SnapshotRoot c]))"

section \<open>Lists from the environment\<close>

definition parseCommaSeparated :: "string \<Rightarrow> string list" where
  "parseCommaSeparated raw = filter (\<lambda>e. e \<noteq> []) (map TrimSpace (split_on (CHR '','') raw))"

fun parse_selections_loop :: "runtime_selection list \<Rightarrow> string list \<Rightarrow> runtime_selection list" where
  "parse_selections_loop seen [] = []"
| "parse_selections_loop seen (entry # rest) =
     (let selection = ParseRuntimeSelection entry in
      if \<not> selection_IsValid selection then parse_selections_loop seen rest
      else if selection \<in> set seen then parse_selections_loop seen rest
      else selection # parse_selections_loop (selection # seen) rest)"

definition parseRuntimeSelections :: "string \<Rightarrow> runtime_selection list" where
  "parseRuntimeSelections raw = parse_selections_loop [] (parseCommaSeparated raw)"

definition parse_tenant :: "string \<Rightarrow> tenant_config option" where
  "parse_tenant entry =
     (case split_on (CHR ''='') entry of
        [a, b] \<Rightarrow>
          (let token = TrimSpace a; tenantID = TrimSpace b in
           if token = [] \<or> tenantID = [] then None
           else Some \<lparr>tc_ID = tenantID, tc_Name = tenantID, tc_Token = token\<rparr>)
      | _ \<Rightarrow> None)"

definition parseTenants :: "string \<Rightarrow> tenant_config list" where
  "parseTenants raw = List.map_filter parse_tenant (parseCommaSeparated raw)"

section \<open>Properties\<close>

definition effective_config :: "config \<Rightarrow> config" where
  "effective_config c = with_validation_defaults (applyRuntimeSelectionCompatibility (applyDeploymentProfile c))"

lemma problem_if_Nil [simp]: "problem_if b m = [] \<longleftrightarrow> \<not> b"
  by (simp add: problem_if_def)

lemma Validate_Nil:
  assumes "Validate c probe = []"
  shows "range_problems (effective_config c) = []"
    and "validateAuthConfig (effective_config c) (vp_fileReadable probe) = []"
    and "validateRuntimeConfig (effective_config c) probe = None"
    and "cfg_DeploymentMode (effective_config c) = ''production'' \<Longrightarrow> production_problems (effective_config c) = []"
  using assms by (auto simp: Validate_def effective_config_def Let_def split: option.splits if_splits)

lemma first_problem_None: "first_problem xs = None \<longleftrightarrow> (\<forall>x \<in> set xs. x = None)"
  by (induction xs rule: first_problem.induct) auto

lemma compatibility_default_valid:
  "selection_IsValid (cfg_DefaultRuntimeSelection c) \<Longrightarrow> cfg_EnabledRuntimeSelections c \<noteq> [] \<Longrightarrow>
   cfg_DefaultRuntimeSelection (applyRuntimeSelectionCompatibility c) = cfg_DefaultRuntimeSelection c \<and>
   cfg_EnabledRuntimeSelections (applyRuntimeSelectionCompatibility c) = cfg_EnabledRuntimeSelections c"
  by (simp add: applyRuntimeSelectionCompatibility_def Let_def)

lemma compatibility_enabled_kept:
  "cfg_EnabledRuntimeSelections c \<noteq> [] \<Longrightarrow>
   cfg_EnabledRuntimeSelections (applyRuntimeSelectionCompatibility c) = cfg_EnabledRuntimeSelections c"
  by (simp add: applyRuntimeSelectionCompatibility_def Let_def)

text \<open>
  C12: what the validation lets into production. A production configuration that validates has a VM-backed default
  runtime, uses signed tokens with at least one secret for bearer authentication and protects its transport by TLS or a
  trusted proxy; and, unless its deployment profile is \<open>exception-container\<close>, the default QEMU profiles include neither
  the container nor the debug profile. With \<open>docker-dev\<close> as the default runtime it never validates, whatever the value
  of the break-glass flag: the override that \<open>docs/configuration.md\<close> and the error text of the first check announce is
  void, because the check of the VM-backed class that follows rejects the configuration in any case.
\<close>

theorem production_config_hardened:
  assumes "cfg_DeploymentMode (effective_config c) = ''production''"
  shows "(Validate c probe = [] \<longrightarrow>
      IsVMBacked (cfg_DefaultRuntimeSelection (effective_config c)) \<and>
      cfg_AuthMode (effective_config c) = ''jwt-hs256'' \<and> cfg_AuthJWTSecretPaths (effective_config c) \<noteq> [] \<and>
      (cfg_TLSCertPath (effective_config c) \<noteq> [] \<or> cfg_TrustedProxyHeaders (effective_config c)) \<and>
      (cfg_DeploymentProfile (effective_config c) = ''exception-container'' \<or>
       set (effectiveAllowedGuestProfiles (effective_config c) ''qemu'') \<inter> {ProfileContainer, ProfileDebug} = {})) \<and>
    (cfg_DefaultRuntimeSelection (effective_config c) = DockerDev \<longrightarrow> Validate c probe \<noteq> [])"
proof -
  have "IsVMBacked (cfg_DefaultRuntimeSelection (effective_config c)) \<and>
      cfg_AuthMode (effective_config c) = ''jwt-hs256'' \<and> cfg_AuthJWTSecretPaths (effective_config c) \<noteq> [] \<and>
      (cfg_TLSCertPath (effective_config c) \<noteq> [] \<or> cfg_TrustedProxyHeaders (effective_config c)) \<and>
      (cfg_DeploymentProfile (effective_config c) = ''exception-container'' \<or>
       set (effectiveAllowedGuestProfiles (effective_config c) ''qemu'') \<inter> {ProfileContainer, ProfileDebug} = {})"
    if "Validate c probe = []"
    using Validate_Nil(2) [OF that] Validate_Nil(4) [OF that assms]
    by (auto simp: production_problems_def validateAuthConfig_def Let_def split: if_splits)
  moreover have "\<not> IsVMBacked DockerDev" by (simp add: IsVMBacked_iff)
  ultimately show ?thesis by auto
qed

definition quiet_probe :: validation_probe where
  "quiet_probe = \<lparr>vp_goos = ''linux'', vp_commandExists = (\<lambda>_. None), vp_fileReadable = (\<lambda>_. None),
     vp_kvmAvailable = None, vp_hvfAvailable = None, vp_MkdirAll = (\<lambda>_. None)\<rparr>"

definition prod_config :: config where
  "prod_config =
     \<lparr>cfg_DeploymentMode = ''production'', cfg_DeploymentProfile = [], cfg_ProductionTransportMode = [],
      cfg_ProductionAllowDockerBreakglass = False, cfg_ListenAddress = '':8080'', cfg_DatabasePath = ''/d/db'',
      cfg_StorageRoot = ''/d/s'', cfg_SnapshotRoot = ''/d/n'', cfg_BaseImageRef = ''alpine'',
      cfg_RuntimeBackend = [], cfg_EnabledRuntimeSelections = [], cfg_DefaultRuntimeSelection = no_selection,
      cfg_AuthMode = ''jwt-hs256'', cfg_AuthJWTIssuer = ''i'', cfg_AuthJWTAudience = ''a'',
      cfg_AuthJWTSecretPaths = [''/k''], cfg_TLSCertPath = ''/c'', cfg_TLSKeyPath = ''/t'',
      cfg_TrustedProxyHeaders = False, cfg_TrustedDockerRuntime = False, cfg_PolicyAllowedImages = [],
      cfg_PolicyAllowPublicTunnels = False, cfg_PolicyMaxSandboxLifetime = 0, cfg_PolicyMaxIdleTimeout = 0,
      cfg_AdmissionMaxNodeSandboxes = 10, cfg_AdmissionMaxNodeRunning = 5, cfg_AdmissionMaxNodeCPU = 16000,
      cfg_AdmissionMaxNodeMemoryMB = 32768, cfg_AdmissionMinNodeFreeStorageMB = 0,
      cfg_AdmissionMaxTenantStarts = 2, cfg_AdmissionMaxTenantHeavyOps = 2, cfg_StorageWarningFileCount = 0,
      cfg_WorkspaceFileTransferMaxBytes = 0, cfg_workspaceFileTransferMaxSet = False,
      cfg_SnapshotMaxBytes = 0, cfg_SnapshotMaxFiles = 0, cfg_SnapshotMaxExpansionRatio = 0,
      cfg_AllowedGuestProfiles = [], cfg_DangerousGuestProfiles = [], cfg_AllowDangerousProfiles = False,
      cfg_DockerTmpfsSizeMB = 64, cfg_DockerSeccompProfile = [], cfg_DockerAllowDangerousOverrides = False,
      cfg_DefaultCPULimit = 1000, cfg_DefaultMemoryLimitMB = 512, cfg_DefaultPIDsLimit = 128,
      cfg_DefaultDiskLimitMB = 1024, cfg_DefaultNetworkMode = InternetDisabled, cfg_DefaultAllowTunnels = False,
      cfg_DefaultQuota = \<lparr>q_TenantID = [], q_MaxSandboxes = 2, q_MaxRunningSandboxes = 1,
        q_MaxConcurrentExecs = 2, q_MaxTunnels = 1, q_MaxCPUCores = 4000, q_MaxMemoryMB = 4096,
        q_MaxStorageMB = 10240, q_AllowTunnels = True, q_DefaultTunnelAuthMode = ''token'',
        q_DefaultTunnelVisibility = ''private''\<rparr>,
      cfg_CleanupInterval = 0, cfg_OperatorHost = [], cfg_TunnelSigningKey = [], cfg_TunnelSigningKeyPath = [],
      cfg_Tenants = [], cfg_OptionalSnapshotExport = [], cfg_QEMUBinary = ''qemu'', cfg_QEMUAccel = ''auto'',
      cfg_QEMUBaseImagePath = ''/i/base.qcow2'', cfg_QEMUAllowedBaseImagePaths = [],
      cfg_QEMUControlMode = ControlAgent, cfg_QEMUAllowedProfiles = [], cfg_QEMUDangerousProfiles = [],
      cfg_QEMUAllowDangerousProfiles = False, cfg_QEMUAllowSSHCompat = False, cfg_QEMUSSHUser = [],
      cfg_QEMUSSHPrivateKeyPath = [], cfg_QEMUSSHHostKeyPath = [], cfg_QEMUBootTimeout = 60,
      cfg_KataBinary = [], cfg_KataRuntimeClass = [], cfg_KataContainerdSocket = []\<rparr>"

lemma prod_config_effective:
  "effective_config prod_config =
     prod_config\<lparr>cfg_RuntimeBackend := ''qemu'', cfg_EnabledRuntimeSelections := [QEMUProfessional],
       cfg_DefaultRuntimeSelection := QEMUProfessional, cfg_QEMUAllowedProfiles := [ProfileCore, ProfileRuntime],
       cfg_StorageWarningFileCount := 10000,
       cfg_WorkspaceFileTransferMaxBytes := DefaultWorkspaceFileTransferMaxBytes,
       cfg_SnapshotMaxBytes := 1024 * 1024 * 1024, cfg_SnapshotMaxFiles := 8192,
       cfg_SnapshotMaxExpansionRatio := 32\<rparr>"
  by (simp add: effective_config_def prod_config_def applyDeploymentProfile_def
      applyRuntimeSelectionCompatibility_def with_validation_defaults_def)

lemma prod_trims:
  "TrimSpace ''i'' = ''i''" "TrimSpace ''a'' = ''a''" "TrimSpace ''/c'' = ''/c''" "TrimSpace ''/t'' = ''/t''"
  "TrimSpace ''auto'' = ''auto''" "ToLower ''auto'' = ''auto''" "TrimSpace ''/i/base.qcow2'' = ''/i/base.qcow2''"
  "Clean ''/i/base.qcow2'' = ''/i/base.qcow2''" "Dir ''/d/db'' = ''/d''"
  by code_simp+

lemma prod_config_valid: "Validate prod_config quiet_probe = []"
proof -
  let ?c = "effective_config prod_config"
  have "range_problems ?c = []" unfolding prod_config_effective
    by (simp add: range_problems_def prod_config_def DefaultWorkspaceFileTransferMaxBytes_def
        MaxWorkspaceFileTransferCeilingBytes_def)
  moreover have "validateAuthConfig ?c (vp_fileReadable quiet_probe) = []" unfolding prod_config_effective
    by (simp add: validateAuthConfig_def prod_config_def quiet_probe_def unreadable_def prod_trims)
  moreover have "validateTransportConfig ?c (vp_fileReadable quiet_probe) = []" unfolding prod_config_effective
    by (simp add: validateTransportConfig_def prod_config_def quiet_probe_def unreadable_def prod_trims)
  moreover have "validateRuntimeConfig ?c quiet_probe = None" unfolding prod_config_effective
    by (simp add: validateRuntimeConfig_def prod_config_def quiet_probe_def fail_if_def wrap_err_def prod_trims
        applyRuntimeSelectionCompatibility_def validateQEMUConfig_def resolveQEMUAccel_def
        effectiveAllowedGuestProfiles_def IsRuntimeSelectionEnabled_def EffectiveQEMUAllowedBaseImagePaths_def
        appendDefaultQEMUBaseImagePath_def NormalizeQEMUBaseImagePath_def)
  moreover have "default_problems ?c = []" unfolding prod_config_effective
    by (simp add: default_problems_def prod_config_def MilliValue_def go_mod_def)
  moreover have "production_problems ?c = []" unfolding prod_config_effective
    by (simp add: production_problems_def prod_config_def IsVMBacked_iff normalizeProductionTransportMode_def
        effectiveAllowedGuestProfiles_def)
  moreover have "cfg_workspaceFileTransferMaxSet (applyRuntimeSelectionCompatibility (applyDeploymentProfile prod_config)) = False"
    by (simp add: prod_config_def applyDeploymentProfile_def applyRuntimeSelectionCompatibility_def)
  moreover have "concat (map (\<lambda>dir. if dir = [] then [] else unreadable (''create '' @ dir) (vp_MkdirAll quiet_probe dir))
      [Dir (cfg_DatabasePath ?c), cfg_StorageRoot ?c, cfg_SnapshotRoot ?c]) = []"
    by (simp add: quiet_probe_def unreadable_def)
  ultimately show ?thesis
    unfolding Validate_def Let_def effective_config_def [symmetric] by simp
qed

theorem production_config_hardened_witness:
  "Validate prod_config quiet_probe = [] \<and>
   cfg_DefaultRuntimeSelection (effective_config prod_config) = QEMUProfessional \<and>
   IsVMBacked (cfg_DefaultRuntimeSelection (effective_config prod_config))"
proof -
  have "cfg_DeploymentMode (effective_config prod_config) = ''production''"
    unfolding prod_config_effective by (simp add: prod_config_def)
  from production_config_hardened [OF this, of quiet_probe] prod_config_valid
  have "IsVMBacked (cfg_DefaultRuntimeSelection (effective_config prod_config))" by blast
  then show ?thesis using prod_config_valid by (simp add: prod_config_effective)
qed

end
