(* ===== verification/Runtime.thy ===== *)
theory Runtime
  imports StoreLookup Config
begin

text \<open>
  The interface every runtime backend implements (\<open>internal/model/runtime.go\<close>) and the registry that
  dispatches on a sandbox's runtime selection (\<open>internal/runtime/registry/registry.go\<close>). A backend is
  a record of operations on a backend state of its own; the operations that Go finds by a type
  assertion are optional fields. What the backends do is not modelled here: they are parameters.
\<close>

section \<open>Runtime managers\<close>

type_synonym ('r, 'a) rt_op = "'r \<Rightarrow> (goerr + 'a) \<times> 'r"

text \<open>An execution handle: the chunks the command writes to its two streams, and what \<open>Wait\<close> returns.\<close>

record exec_handle =
  eh_Stdout :: "string list"
  eh_Stderr :: "string list"
  eh_Wait :: exec_result

record 'r runtime_manager =
  rm_Create :: "sandbox_spec \<Rightarrow> ('r, runtime_state) rt_op"
  rm_Start :: "sandbox \<Rightarrow> ('r, runtime_state) rt_op"
  rm_Stop :: "sandbox \<Rightarrow> bool \<Rightarrow> ('r, runtime_state) rt_op"
  rm_Suspend :: "sandbox \<Rightarrow> ('r, runtime_state) rt_op"
  rm_Resume :: "sandbox \<Rightarrow> ('r, runtime_state) rt_op"
  rm_Destroy :: "sandbox \<Rightarrow> ('r, unit) rt_op"
  rm_Inspect :: "sandbox \<Rightarrow> ('r, runtime_state) rt_op"
  rm_Exec :: "sandbox \<Rightarrow> exec_request \<Rightarrow> ('r, exec_handle) rt_op"
  rm_AttachTTY :: "sandbox \<Rightarrow> tty_request \<Rightarrow> ('r, string) rt_op"
  rm_CreateSnapshot :: "sandbox \<Rightarrow> string \<Rightarrow> ('r, snapshot_info) rt_op"
  rm_RestoreSnapshot :: "sandbox \<Rightarrow> snapshot \<Rightarrow> ('r, runtime_state) rt_op"
  rm_ReadWorkspaceFile :: "(sandbox \<Rightarrow> string \<Rightarrow> ('r, file_read_response) rt_op) option"
  rm_WriteWorkspaceFile :: "(sandbox \<Rightarrow> string \<Rightarrow> string \<Rightarrow> ('r, unit) rt_op) option"
  rm_DeleteWorkspacePath :: "(sandbox \<Rightarrow> string \<Rightarrow> ('r, unit) rt_op) option"
  rm_MkdirWorkspace :: "(sandbox \<Rightarrow> string \<Rightarrow> ('r, unit) rt_op) option"
  rm_ReadWorkspaceFileBytes :: "(sandbox \<Rightarrow> string \<Rightarrow> ('r, string) rt_op) option"
  rm_WriteWorkspaceFileBytes :: "(sandbox \<Rightarrow> string \<Rightarrow> string \<Rightarrow> ('r, unit) rt_op) option"
  rm_MeasureStorage :: "(sandbox \<Rightarrow> ('r, storage_usage) rt_op) option"
  rm_ExportWorkspaceArchive :: "(sandbox \<Rightarrow> string list \<Rightarrow> int \<Rightarrow> ('r, string) rt_op) option"
  rm_OpenSandboxLocalConn :: "(sandbox \<Rightarrow> int \<Rightarrow> ('r, string) rt_op) option"
  rm_AgentSessionMetrics :: "('r \<Rightarrow> agent_sessions) option"
  rm_AgentSessionMetricsForSandboxes :: "(sandbox list \<Rightarrow> 'r \<Rightarrow> agent_sessions option) option"

definition rt_call :: "('r, 'a) rt_op \<Rightarrow> (goerr, 'r world, 'a) eop" where
  "rt_call m = (\<lambda>w. case m (w_rt w) of (res, r') \<Rightarrow> (res, w\<lparr>w_rt := r'\<rparr>))"

section \<open>The registry\<close>

type_synonym 'r runtimes = "runtime_selection \<Rightarrow> 'r runtime_manager option"

definition runtimeForSelection ::
  "'r runtimes \<Rightarrow> runtime_selection \<Rightarrow> string \<Rightarrow> goerr + 'r runtime_manager" where
  "runtimeForSelection rts selection operation =
     (case rts selection of
        None \<Rightarrow> Inl (RuntimeUnavailableError selection operation)
      | Some m \<Rightarrow> Inr m)"

definition runtimeForSandbox ::
  "'r runtimes \<Rightarrow> sandbox \<Rightarrow> string \<Rightarrow> goerr + 'r runtime_manager" where
  "runtimeForSandbox rts s operation =
     runtimeForSelection rts (ResolveRuntimeSelection (sb_RuntimeSelection s) (sb_RuntimeBackend s)) operation"

definition with_runtime ::
  "goerr + 'r runtime_manager \<Rightarrow> ('r runtime_manager \<Rightarrow> ('r, 'a) rt_op) \<Rightarrow> ('r, 'a) rt_op" where
  "with_runtime found f = (\<lambda>r. case found of Inl e \<Rightarrow> (Inl e, r) | Inr m \<Rightarrow> f m r)"

definition unsupported :: "sandbox \<Rightarrow> string \<Rightarrow> ('r, 'a) rt_op" where
  "unsupported s name = (\<lambda>r.
     (Inl (Err (''runtime '' @ quote (selection_string (sb_RuntimeSelection s)) @ '' does not support '' @ name)), r))"

definition Registry_Create :: "'r runtimes \<Rightarrow> sandbox_spec \<Rightarrow> ('r, runtime_state) rt_op" where
  "Registry_Create rts spec =
     with_runtime (runtimeForSelection rts
         (ResolveRuntimeSelection (sp_RuntimeSelection spec) (sp_RuntimeBackend spec)) ''create'')
       (\<lambda>m. rm_Create m spec)"

definition Registry_Start :: "'r runtimes \<Rightarrow> sandbox \<Rightarrow> ('r, runtime_state) rt_op" where
  "Registry_Start rts s = with_runtime (runtimeForSandbox rts s ''start'') (\<lambda>m. rm_Start m s)"

definition Registry_Stop :: "'r runtimes \<Rightarrow> sandbox \<Rightarrow> bool \<Rightarrow> ('r, runtime_state) rt_op" where
  "Registry_Stop rts s force = with_runtime (runtimeForSandbox rts s ''stop'') (\<lambda>m. rm_Stop m s force)"

definition Registry_Suspend :: "'r runtimes \<Rightarrow> sandbox \<Rightarrow> ('r, runtime_state) rt_op" where
  "Registry_Suspend rts s = with_runtime (runtimeForSandbox rts s ''suspend'') (\<lambda>m. rm_Suspend m s)"

definition Registry_Resume :: "'r runtimes \<Rightarrow> sandbox \<Rightarrow> ('r, runtime_state) rt_op" where
  "Registry_Resume rts s = with_runtime (runtimeForSandbox rts s ''resume'') (\<lambda>m. rm_Resume m s)"

definition Registry_Destroy :: "'r runtimes \<Rightarrow> sandbox \<Rightarrow> ('r, unit) rt_op" where
  "Registry_Destroy rts s = with_runtime (runtimeForSandbox rts s ''destroy'') (\<lambda>m. rm_Destroy m s)"

definition Registry_Inspect :: "'r runtimes \<Rightarrow> sandbox \<Rightarrow> ('r, runtime_state) rt_op" where
  "Registry_Inspect rts s = with_runtime (runtimeForSandbox rts s ''inspect'') (\<lambda>m. rm_Inspect m s)"

definition Registry_Exec :: "'r runtimes \<Rightarrow> sandbox \<Rightarrow> exec_request \<Rightarrow> ('r, exec_handle) rt_op" where
  "Registry_Exec rts s req = with_runtime (runtimeForSandbox rts s ''exec'') (\<lambda>m. rm_Exec m s req)"

definition Registry_AttachTTY :: "'r runtimes \<Rightarrow> sandbox \<Rightarrow> tty_request \<Rightarrow> ('r, string) rt_op" where
  "Registry_AttachTTY rts s req =
     with_runtime (runtimeForSandbox rts s ''attach-tty'') (\<lambda>m. rm_AttachTTY m s req)"

definition Registry_CreateSnapshot :: "'r runtimes \<Rightarrow> sandbox \<Rightarrow> string \<Rightarrow> ('r, snapshot_info) rt_op" where
  "Registry_CreateSnapshot rts s snapshotID =
     with_runtime (runtimeForSandbox rts s ''create-snapshot'') (\<lambda>m. rm_CreateSnapshot m s snapshotID)"

definition Registry_RestoreSnapshot :: "'r runtimes \<Rightarrow> sandbox \<Rightarrow> snapshot \<Rightarrow> ('r, runtime_state) rt_op" where
  "Registry_RestoreSnapshot rts s sn =
     with_runtime (runtimeForSandbox rts s ''restore-snapshot'') (\<lambda>m. rm_RestoreSnapshot m s sn)"

definition Registry_ReadWorkspaceFile ::
  "'r runtimes \<Rightarrow> sandbox \<Rightarrow> string \<Rightarrow> ('r, file_read_response) rt_op" where
  "Registry_ReadWorkspaceFile rts s path =
     with_runtime (runtimeForSandbox rts s ''read-workspace-file'') (\<lambda>m.
       case rm_ReadWorkspaceFile m of
         Some f \<Rightarrow> f s path | None \<Rightarrow> unsupported s ''ReadWorkspaceFile'')"

definition Registry_WriteWorkspaceFile ::
  "'r runtimes \<Rightarrow> sandbox \<Rightarrow> string \<Rightarrow> string \<Rightarrow> ('r, unit) rt_op" where
  "Registry_WriteWorkspaceFile rts s path content =
     with_runtime (runtimeForSandbox rts s ''write-workspace-file'') (\<lambda>m.
       case rm_WriteWorkspaceFile m of
         Some f \<Rightarrow> f s path content | None \<Rightarrow> unsupported s ''WriteWorkspaceFile'')"

definition Registry_DeleteWorkspacePath :: "'r runtimes \<Rightarrow> sandbox \<Rightarrow> string \<Rightarrow> ('r, unit) rt_op" where
  "Registry_DeleteWorkspacePath rts s path =
     with_runtime (runtimeForSandbox rts s ''delete-workspace-path'') (\<lambda>m.
       case rm_DeleteWorkspacePath m of
         Some f \<Rightarrow> f s path | None \<Rightarrow> unsupported s ''DeleteWorkspacePath'')"

definition Registry_MkdirWorkspace :: "'r runtimes \<Rightarrow> sandbox \<Rightarrow> string \<Rightarrow> ('r, unit) rt_op" where
  "Registry_MkdirWorkspace rts s path =
     with_runtime (runtimeForSandbox rts s ''mkdir-workspace'') (\<lambda>m.
       case rm_MkdirWorkspace m of
         Some f \<Rightarrow> f s path | None \<Rightarrow> unsupported s ''MkdirWorkspace'')"

definition Registry_ReadWorkspaceFileBytes :: "'r runtimes \<Rightarrow> sandbox \<Rightarrow> string \<Rightarrow> ('r, string) rt_op" where
  "Registry_ReadWorkspaceFileBytes rts s path =
     with_runtime (runtimeForSandbox rts s ''read-workspace-file-bytes'') (\<lambda>m.
       case rm_ReadWorkspaceFileBytes m of
         Some f \<Rightarrow> f s path | None \<Rightarrow> unsupported s ''ReadWorkspaceFileBytes'')"

definition Registry_WriteWorkspaceFileBytes ::
  "'r runtimes \<Rightarrow> sandbox \<Rightarrow> string \<Rightarrow> string \<Rightarrow> ('r, unit) rt_op" where
  "Registry_WriteWorkspaceFileBytes rts s path content =
     with_runtime (runtimeForSandbox rts s ''write-workspace-file-bytes'') (\<lambda>m.
       case rm_WriteWorkspaceFileBytes m of
         Some f \<Rightarrow> f s path content | None \<Rightarrow> unsupported s ''WriteWorkspaceFileBytes'')"

definition Registry_MeasureStorage :: "'r runtimes \<Rightarrow> sandbox \<Rightarrow> ('r, storage_usage) rt_op" where
  "Registry_MeasureStorage rts s =
     with_runtime (runtimeForSandbox rts s ''measure-storage'') (\<lambda>m.
       case rm_MeasureStorage m of Some f \<Rightarrow> f s | None \<Rightarrow> unsupported s ''MeasureStorage'')"

definition Registry_ExportWorkspaceArchive ::
  "'r runtimes \<Rightarrow> sandbox \<Rightarrow> string list \<Rightarrow> int \<Rightarrow> ('r, string) rt_op" where
  "Registry_ExportWorkspaceArchive rts s paths maxBytes =
     with_runtime (runtimeForSandbox rts s ''export-workspace-archive'') (\<lambda>m.
       case rm_ExportWorkspaceArchive m of
         Some f \<Rightarrow> f s paths maxBytes
       | None \<Rightarrow> (\<lambda>r. (Inl (UnsupportedRuntimeOperationError (sb_RuntimeSelection s) ''ExportWorkspaceArchive''), r)))"

definition Registry_OpenSandboxLocalConn :: "'r runtimes \<Rightarrow> sandbox \<Rightarrow> int \<Rightarrow> ('r, string) rt_op" where
  "Registry_OpenSandboxLocalConn rts s port =
     with_runtime (runtimeForSandbox rts s ''open-sandbox-local-conn'') (\<lambda>m.
       case rm_OpenSandboxLocalConn m of
         Some f \<Rightarrow> f s port | None \<Rightarrow> unsupported s ''OpenSandboxLocalConn'')"

text \<open>
  The agent counters of several backends are added up field by field, in the \<open>uint64\<close> they are kept in.
  The daemon registers managers under the three declared selections only. The scoped counters group the
  sandboxes by their resolved selection; the order in which Go visits the groups does not matter to the sum.
\<close>

definition add_sessions :: "agent_sessions \<Rightarrow> agent_sessions \<Rightarrow> agent_sessions" where
  "add_sessions a b =
     \<lparr>as_SessionsOpened = as_SessionsOpened a + as_SessionsOpened b,
      as_SessionsReused = as_SessionsReused a + as_SessionsReused b,
      as_SessionsInvalidated = as_SessionsInvalidated a + as_SessionsInvalidated b,
      as_SessionsClosed = as_SessionsClosed a + as_SessionsClosed b,
      as_BufferedExecEvents = as_BufferedExecEvents a + as_BufferedExecEvents b,
      as_BufferedFileEvents = as_BufferedFileEvents a + as_BufferedFileEvents b,
      as_DroppedExecEvents = as_DroppedExecEvents a + as_DroppedExecEvents b,
      as_DroppedFileEvents = as_DroppedFileEvents a + as_DroppedFileEvents b\<rparr>"

definition no_sessions :: agent_sessions where
  "no_sessions =
     \<lparr>as_SessionsOpened = 0, as_SessionsReused = 0, as_SessionsInvalidated = 0, as_SessionsClosed = 0,
      as_BufferedExecEvents = 0, as_BufferedFileEvents = 0, as_DroppedExecEvents = 0, as_DroppedFileEvents = 0\<rparr>"

definition Registry_AgentSessionMetrics :: "'r runtimes \<Rightarrow> 'r \<Rightarrow> agent_sessions" where
  "Registry_AgentSessionMetrics rts r =
     foldl (\<lambda>acc sel. case Option.bind (rts sel) rm_AgentSessionMetrics of
              None \<Rightarrow> acc | Some f \<Rightarrow> add_sessions acc (f r))
       no_sessions [DockerDev, ContainerdKataProfessional, QEMUProfessional]"

definition resolved_selection :: "sandbox \<Rightarrow> runtime_selection" where
  "resolved_selection s = ResolveRuntimeSelection (sb_RuntimeSelection s) (sb_RuntimeBackend s)"

definition Registry_AgentSessionMetricsForSandboxes ::
  "'r runtimes \<Rightarrow> sandbox list \<Rightarrow> 'r \<Rightarrow> agent_sessions option" where
  "Registry_AgentSessionMetricsForSandboxes rts sandboxes r =
     foldl (\<lambda>acc sel.
         case Option.bind (rts sel) rm_AgentSessionMetricsForSandboxes of
           None \<Rightarrow> acc
         | Some f \<Rightarrow>
             (case f (filter (\<lambda>s. resolved_selection s = sel) sandboxes) r of
                None \<Rightarrow> acc
              | Some m \<Rightarrow> Some (add_sessions (case acc of None \<Rightarrow> no_sessions | Some a \<Rightarrow> a) m)))
       None (remdups (map resolved_selection sandboxes))"

text \<open>The registry is itself a runtime manager, with every optional operation present.\<close>

definition Registry :: "'r runtimes \<Rightarrow> 'r runtime_manager" where
  "Registry rts =
     \<lparr>rm_Create = Registry_Create rts, rm_Start = Registry_Start rts, rm_Stop = Registry_Stop rts,
      rm_Suspend = Registry_Suspend rts, rm_Resume = Registry_Resume rts, rm_Destroy = Registry_Destroy rts,
      rm_Inspect = Registry_Inspect rts, rm_Exec = Registry_Exec rts, rm_AttachTTY = Registry_AttachTTY rts,
      rm_CreateSnapshot = Registry_CreateSnapshot rts, rm_RestoreSnapshot = Registry_RestoreSnapshot rts,
      rm_ReadWorkspaceFile = Some (Registry_ReadWorkspaceFile rts),
      rm_WriteWorkspaceFile = Some (Registry_WriteWorkspaceFile rts),
      rm_DeleteWorkspacePath = Some (Registry_DeleteWorkspacePath rts),
      rm_MkdirWorkspace = Some (Registry_MkdirWorkspace rts),
      rm_ReadWorkspaceFileBytes = Some (Registry_ReadWorkspaceFileBytes rts),
      rm_WriteWorkspaceFileBytes = Some (Registry_WriteWorkspaceFileBytes rts),
      rm_MeasureStorage = Some (Registry_MeasureStorage rts),
      rm_ExportWorkspaceArchive = Some (Registry_ExportWorkspaceArchive rts),
      rm_OpenSandboxLocalConn = Some (Registry_OpenSandboxLocalConn rts),
      rm_AgentSessionMetrics = Some (Registry_AgentSessionMetrics rts),
      rm_AgentSessionMetricsForSandboxes = Some (Registry_AgentSessionMetricsForSandboxes rts)\<rparr>"

lemmas registry_defs =
  Registry_def Registry_Create_def Registry_Start_def Registry_Stop_def Registry_Suspend_def
  Registry_Resume_def Registry_Destroy_def Registry_Inspect_def Registry_Exec_def Registry_AttachTTY_def
  Registry_CreateSnapshot_def Registry_RestoreSnapshot_def Registry_ReadWorkspaceFile_def
  Registry_WriteWorkspaceFile_def Registry_DeleteWorkspacePath_def Registry_MkdirWorkspace_def
  Registry_ReadWorkspaceFileBytes_def Registry_WriteWorkspaceFileBytes_def Registry_MeasureStorage_def
  Registry_ExportWorkspaceArchive_def Registry_OpenSandboxLocalConn_def

section \<open>Properties\<close>

text \<open>
  The registry routes a sandbox to the backend of its own selection. Every lifecycle operation,
  execution and snapshot of a sandbox whose selection resolves to \<open>sel\<close> is exactly the operation of
  the manager registered for \<open>sel\<close>; with no manager there it fails with an unavailability error and
  leaves the backend state untouched.
\<close>

theorem registry_routes:
  assumes "ResolveRuntimeSelection (sb_RuntimeSelection s) (sb_RuntimeBackend s) = sel"
  shows "rm_Start (Registry rts) s r =
       (case rts sel of None \<Rightarrow> (Inl (RuntimeUnavailableError sel ''start''), r) | Some m \<Rightarrow> rm_Start m s r) \<and>
     rm_Stop (Registry rts) s force r =
       (case rts sel of None \<Rightarrow> (Inl (RuntimeUnavailableError sel ''stop''), r) | Some m \<Rightarrow> rm_Stop m s force r) \<and>
     rm_Destroy (Registry rts) s r =
       (case rts sel of None \<Rightarrow> (Inl (RuntimeUnavailableError sel ''destroy''), r) | Some m \<Rightarrow> rm_Destroy m s r) \<and>
     rm_Exec (Registry rts) s req r =
       (case rts sel of None \<Rightarrow> (Inl (RuntimeUnavailableError sel ''exec''), r) | Some m \<Rightarrow> rm_Exec m s req r) \<and>
     rm_RestoreSnapshot (Registry rts) s sn r =
       (case rts sel of None \<Rightarrow> (Inl (RuntimeUnavailableError sel ''restore-snapshot''), r)
        | Some m \<Rightarrow> rm_RestoreSnapshot m s sn r)"
  using assms
  by (auto simp: registry_defs with_runtime_def runtimeForSandbox_def runtimeForSelection_def
      split: option.split)

text \<open>
  Behind the registry a backend without storage measurement makes measuring fail. The registry
  always offers \<open>MeasureStorage\<close>, so the service never falls back to walking the directories; for a
  sandbox whose backend does not measure, the call is an error.
\<close>

lemma registry_measure_unsupported:
  assumes "rts (ResolveRuntimeSelection (sb_RuntimeSelection s) (sb_RuntimeBackend s)) = Some m"
    and "rm_MeasureStorage m = None"
  shows "\<exists>f. rm_MeasureStorage (Registry rts) = Some f \<and>
     f s r = (Inl (Err (''runtime '' @ quote (selection_string (sb_RuntimeSelection s)) @ '' does not support MeasureStorage'')), r)"
  using assms
  by (simp add: registry_defs with_runtime_def runtimeForSandbox_def runtimeForSelection_def unsupported_def)

end
