(* ===== verification/Images.thy ===== *)
theory Images
  imports Runtime
begin

text \<open>
  Guest images: the contract sidecar of a QEMU image (\<open>internal/guestimage/contract.go\<close>) and the
  profile metadata of a Docker image (\<open>internal/dockerimage/metadata.go\<close>). What the host answers (the
  parsed sidecar, a digest, readability, Docker labels, free space, directory sizes) is the record
  \<open>host\<close>; the fields of the contract that nothing reads (inventory, provenance) are left out.
\<close>

section \<open>The host\<close>

record contract =
  gc_ContractVersion :: string
  gc_ImagePath :: string
  gc_ImageSHA256 :: string
  gc_BuildVersion :: string
  gc_GitSHA :: string
  gc_Profile :: guest_profile
  gc_Capabilities :: "string list"
  gc_AllowedFeatures :: "string list"
  gc_ControlMode :: control_mode
  gc_ProtocolVersion :: string
  gc_SupportedTransports :: "string list"
  gc_WorkspaceContractVersion :: string
  gc_SSHPresent :: bool
  gc_Dangerous :: bool
  gc_Debug :: bool

definition no_contract :: contract where
  "no_contract = \<lparr>gc_ContractVersion = [], gc_ImagePath = [], gc_ImageSHA256 = [], gc_BuildVersion = [],
     gc_GitSHA = [], gc_Profile = no_profile, gc_Capabilities = [], gc_AllowedFeatures = [],
     gc_ControlMode = no_control_mode, gc_ProtocolVersion = [], gc_SupportedTransports = [], gc_WorkspaceContractVersion = [],
     gc_SSHPresent = False, gc_Dangerous = False, gc_Debug = False\<rparr>"

record host =
  h_Sidecar :: "string \<Rightarrow> goerr + contract"
  h_SHA256 :: "string \<Rightarrow> goerr + string"
  h_Readable :: "string \<Rightarrow> bool"
  h_Exists :: "string \<Rightarrow> bool"
  h_DockerLabels :: "string \<Rightarrow> goerr + (string \<times> string) list"
  h_Available :: "string \<Rightarrow> goerr + int"
  h_DirUsage :: "string \<Rightarrow> int \<times> int"

section \<open>Guest image contracts\<close>

definition SidecarSuffix :: string where "SidecarSuffix = ''.or3.json''"

definition SidecarPath :: "string \<Rightarrow> string" where
  "SidecarPath imagePath =
     (let trimmed = TrimSpace imagePath in if trimmed = [] then [] else trimmed @ SidecarSuffix)"

definition Load :: "host \<Rightarrow> string \<Rightarrow> goerr + contract" where
  "Load h imagePath =
     (let sidecarPath = SidecarPath imagePath in
      if sidecarPath = [] then Inl (Err ''guest image path is required'')
      else
        (case h_Sidecar h sidecarPath of
           Inl e \<Rightarrow> Inl e
         | Inr c \<Rightarrow>
             Inr (c\<lparr>gc_ImagePath := (if gc_ImagePath c = [] then Clean imagePath else gc_ImagePath c),
                    gc_Capabilities := NormalizeFeatures (gc_Capabilities c),
                    gc_AllowedFeatures := NormalizeFeatures (gc_AllowedFeatures c)\<rparr>)))"

definition Validate_contract :: "host \<Rightarrow> string \<Rightarrow> contract \<Rightarrow> goerr + unit" where
  "Validate_contract h imagePath c =
     (if TrimSpace (gc_ContractVersion c) = [] then Inl (Err ''image contract is missing contract_version'')
      else if \<not> profile_IsValid (gc_Profile c) then
        Inl (Err (''image contract profile '' @ quote (profile_string (gc_Profile c)) @ '' is invalid''))
      else if \<not> control_mode_IsValid (gc_ControlMode c) then
        Inl (Err (''image contract control mode '' @ quote (control_mode_string (gc_ControlMode c)) @ '' is invalid''))
      else if TrimSpace (gc_ProtocolVersion c) = [] then
        Inl (Err ''image contract is missing control.protocol_version'')
      else if TrimSpace (gc_WorkspaceContractVersion c) = [] then
        Inl (Err ''image contract is missing workspace_contract_version'')
      else if TrimSpace (gc_ImageSHA256 c) = [] then Inl (Err ''image contract is missing image_sha256'')
      else if gc_ControlMode c = ControlSSHCompat \<and> gc_Profile c \<noteq> ProfileDebug then
        Inl (Err (''ssh-compat image contract for '' @ quote imagePath @ '' must use debug profile''))
      else
        (case h_SHA256 h imagePath of
           Inl e \<Rightarrow> Inl e
         | Inr actualSHA \<Rightarrow>
             (if \<not> EqualFold actualSHA (TrimSpace (gc_ImageSHA256 c)) then
                Inl (Err (''image contract checksum mismatch for '' @ quote imagePath))
              else if gc_ControlMode c = ControlAgent \<and> gc_SSHPresent c \<and> \<not> gc_Debug c then
                Inl (Err (''agent-default image contract for '' @ quote imagePath
                  @ '' must not advertise ssh unless debug=true''))
              else Inr ())))"

fun first_disallowed :: "string list \<Rightarrow> string list \<Rightarrow> string option" where
  "first_disallowed allowed [] = None"
| "first_disallowed allowed (v # vs) = (if v \<in> set allowed then first_disallowed allowed vs else Some v)"

definition RequestedFeaturesAllowed :: "contract \<Rightarrow> string list \<Rightarrow> goerr + unit" where
  "RequestedFeaturesAllowed c requested =
     (case first_disallowed (gc_AllowedFeatures c) (NormalizeFeatures requested) of
        None \<Rightarrow> Inr ()
      | Some value \<Rightarrow> Inl (Err (''feature '' @ quote value @ '' is not allowed by image profile ''
          @ quote (profile_string (gc_Profile c)))))"

section \<open>Docker image metadata\<close>

record docker_metadata =
  dm_Ref :: string
  dm_Profile :: guest_profile
  dm_Capabilities :: "string list"
  dm_Dangerous :: bool

record docker_rule =
  dr_repository :: string
  dr_profile :: guest_profile
  dr_capabilities :: "string list"
  dr_dangerous :: bool

definition curatedRules :: "docker_rule list" where
  "curatedRules =
     [\<lparr>dr_repository = ''alpine'', dr_profile = ProfileCore, dr_capabilities = [], dr_dangerous = False\<rparr>,
      \<lparr>dr_repository = ''busybox'', dr_profile = ProfileCore, dr_capabilities = [], dr_dangerous = False\<rparr>,
      \<lparr>dr_repository = ''debian'', dr_profile = ProfileRuntime, dr_capabilities = [], dr_dangerous = False\<rparr>,
      \<lparr>dr_repository = ''ubuntu'', dr_profile = ProfileRuntime, dr_capabilities = [], dr_dangerous = False\<rparr>,
      \<lparr>dr_repository = ''node'', dr_profile = ProfileRuntime, dr_capabilities = [], dr_dangerous = False\<rparr>,
      \<lparr>dr_repository = ''python'', dr_profile = ProfileRuntime, dr_capabilities = [], dr_dangerous = False\<rparr>,
      \<lparr>dr_repository = ''ghcr.io/openclaw/openclaw'', dr_profile = ProfileRuntime, dr_capabilities = [], dr_dangerous = False\<rparr>,
      \<lparr>dr_repository = ''or3-sandbox/base'', dr_profile = ProfileRuntime, dr_capabilities = [], dr_dangerous = False\<rparr>,
      \<lparr>dr_repository = ''ghcr.io/or3-sandbox/base'', dr_profile = ProfileRuntime, dr_capabilities = [], dr_dangerous = False\<rparr>,
      \<lparr>dr_repository = ''or3-sandbox/base-browser'', dr_profile = ProfileBrowser, dr_capabilities = [''browser''], dr_dangerous = False\<rparr>,
      \<lparr>dr_repository = ''ghcr.io/or3-sandbox/base-browser'', dr_profile = ProfileBrowser, dr_capabilities = [''browser''], dr_dangerous = False\<rparr>,
      \<lparr>dr_repository = ''or3-sandbox/base-container'', dr_profile = ProfileContainer, dr_capabilities = [''inner-docker''], dr_dangerous = True\<rparr>,
      \<lparr>dr_repository = ''ghcr.io/or3-sandbox/base-container'', dr_profile = ProfileContainer, dr_capabilities = [''inner-docker''], dr_dangerous = True\<rparr>,
      \<lparr>dr_repository = ''or3-sandbox/base-debug'', dr_profile = ProfileDebug, dr_capabilities = [], dr_dangerous = True\<rparr>,
      \<lparr>dr_repository = ''ghcr.io/or3-sandbox/base-debug'', dr_profile = ProfileDebug, dr_capabilities = [], dr_dangerous = True\<rparr>,
      \<lparr>dr_repository = ''mcr.microsoft.com/playwright'', dr_profile = ProfileBrowser, dr_capabilities = [''browser''], dr_dangerous = False\<rparr>]"

definition LastIndex :: "string \<Rightarrow> char \<Rightarrow> int" where
  "LastIndex s c = (case filter (\<lambda>i. s ! i = c) [0..<length s] of [] \<Rightarrow> - 1 | is \<Rightarrow> int (last is))"

definition trimImageReference :: "string \<Rightarrow> string" where
  "trimImageReference ref0 =
     (let ref1 = TrimSpace ref0 in
      if ref1 = [] then []
      else
        (let ref = fst (split_first (CHR ''@'') ref1);
             lastSlash = LastIndex ref (CHR ''/'');
             lastColon = LastIndex ref (CHR '':'') in
         if lastSlash < lastColon then take (nat lastColon) ref else ref))"

fun unique_loop :: "string list \<Rightarrow> string list \<Rightarrow> string list" where
  "unique_loop seen [] = []"
| "unique_loop seen (value # rest) =
     (let v = TrimSpace value in
      if v = [] \<or> v \<in> set seen then unique_loop seen rest else v # unique_loop (v # seen) rest)"

definition uniqueStrings :: "string list \<Rightarrow> string list" where
  "uniqueStrings values = unique_loop [] values"

definition repositoryVariants :: "string \<Rightarrow> string list" where
  "repositoryVariants ref =
     (let repository = trimImageReference ref in
      if repository = [] then []
      else uniqueStrings (repository # map (TrimPrefix repository) (filter (HasPrefix repository)
             [''docker.io/library/'', ''index.docker.io/library/'', ''library/'', ''docker.io/''])))"

definition matchesRepository :: "string \<Rightarrow> string \<Rightarrow> bool" where
  "matchesRepository ref repository0 =
     (let repository = TrimSpace repository0 in
      repository \<noteq> [] \<and> repository \<in> set (repositoryVariants ref))"

definition resolveCurated :: "string \<Rightarrow> docker_metadata option" where
  "resolveCurated ref =
     map_option (\<lambda>r. \<lparr>dm_Ref = TrimSpace ref, dm_Profile = dr_profile r,
                      dm_Capabilities = dr_capabilities r, dm_Dangerous = dr_dangerous r\<rparr>)
       (find (\<lambda>r. matchesRepository ref (dr_repository r)) curatedRules)"

definition profile_of :: "string \<Rightarrow> guest_profile" where
  "profile_of s =
     (if s = ''core'' then ProfileCore else if s = ''runtime'' then ProfileRuntime
      else if s = ''browser'' then ProfileBrowser else if s = ''container'' then ProfileContainer
      else if s = ''debug'' then ProfileDebug else OtherProfile s)"

definition ParseBool :: "string \<Rightarrow> bool option" where
  "ParseBool s =
     (if s \<in> {''1'', ''t'', ''T'', ''TRUE'', ''true'', ''True''} then Some True
      else if s \<in> {''0'', ''f'', ''F'', ''FALSE'', ''false'', ''False''} then Some False
      else None)"

definition label :: "(string \<times> string) list \<Rightarrow> string \<Rightarrow> string" where
  "label labels k = (case map_of labels k of None \<Rightarrow> [] | Some v \<Rightarrow> v)"

definition parseCapabilities :: "string \<Rightarrow> string list" where
  "parseCapabilities raw = NormalizeFeatures (split_on (CHR '','') raw)"

definition ParseLabels :: "string \<Rightarrow> (string \<times> string) list \<Rightarrow> goerr + docker_metadata" where
  "ParseLabels ref labels =
     (let profile = profile_of (ToLower (TrimSpace (label labels ''org.or3.profile''))) in
      if \<not> profile_IsValid profile then
        Inl (Err (''docker image '' @ quote ref @ '' label org.or3.profile must be one of the curated guest profiles''))
      else
        (let raw = TrimSpace (label labels ''org.or3.dangerous'');
             result = (\<lambda>d. Inr \<lparr>dm_Ref = TrimSpace ref, dm_Profile = profile,
                dm_Capabilities = parseCapabilities (label labels ''org.or3.capabilities''), dm_Dangerous = d\<rparr>) in
         if raw = [] then result False
         else (case ParseBool raw of
                 None \<Rightarrow> Inl (Err (''docker image '' @ quote ref @ '' label org.or3.dangerous must be a boolean''))
               | Some d \<Rightarrow> result d)))"

definition ResolveWithLabelProvider ::
  "string \<Rightarrow> (string \<Rightarrow> goerr + (string \<times> string) list) \<Rightarrow> goerr + docker_metadata" where
  "ResolveWithLabelProvider ref0 provider =
     (let ref = TrimSpace ref0 in
      if ref = [] then Inl (Err ''docker image reference is required'')
      else
        (case resolveCurated ref of
           Some m \<Rightarrow> Inr m
         | None \<Rightarrow>
             (case provider ref of
                Inl e \<Rightarrow> Inl e
              | Inr labels \<Rightarrow> (if labels \<noteq> [] then ParseLabels ref labels else Inl ErrMetadataUnavailable))))"

definition ResolveWithDockerLabels :: "host \<Rightarrow> string \<Rightarrow> goerr + docker_metadata" where
  "ResolveWithDockerLabels h ref = ResolveWithLabelProvider ref (h_DockerLabels h)"

section \<open>Facts\<close>

lemma first_disallowed_None: "first_disallowed allowed vs = None \<longleftrightarrow> set vs \<subseteq> set allowed"
  by (induction vs) auto

lemma find_curated: "find p curatedRules = Some r \<Longrightarrow> dr_dangerous r \<longleftrightarrow> dr_profile r \<in> {ProfileContainer, ProfileDebug}"
proof -
  assume "find p curatedRules = Some r"
  then have "r \<in> set curatedRules" by (auto simp: find_Some_iff)
  moreover have "list_all (\<lambda>r. dr_dangerous r \<longleftrightarrow> dr_profile r \<in> {ProfileContainer, ProfileDebug}) curatedRules"
    by (simp add: curatedRules_def)
  ultimately show ?thesis by (simp add: list_all_iff)
qed

end
