(* ===== verification/Workspace.thy ===== *)
theory Workspace
  imports GoPath
begin

text \<open>
  \<open>internal/service/util.go\<close>: cleaning and resolving workspace paths against symbolic links, the
  bounded capture buffer of command output, transfer-size checks and the per-sandbox directory names.
  The operating system's view of the file tree is the argument \<open>fs\<close>.
\<close>

section \<open>The operating system's path queries\<close>

datatype lstat_result = LstatSymlink | LstatPlain | LstatNotExist | LstatFailed goerr

record os_fs =
  os_Abs :: "string \<Rightarrow> goerr + string"
  os_EvalSymlinks :: "string \<Rightarrow> goerr + string"
  os_StatIsDir :: "string \<Rightarrow> goerr + bool"
  os_Lstat :: "string \<Rightarrow> lstat_result"

text \<open>
  What the Go documentation promises of \<open>filepath.Abs\<close> and \<open>filepath.EvalSymlinks\<close>: the result is
  cleaned, and absolute when the argument is.
\<close>

definition os_documented :: "os_fs \<Rightarrow> bool" where
  "os_documented fs \<longleftrightarrow>
     (\<forall>p q. os_Abs fs p = Inr q \<longrightarrow> abs_clean q) \<and>
     (\<forall>p q. abs_clean p \<longrightarrow> os_EvalSymlinks fs p = Inr q \<longrightarrow> abs_clean q)"

section \<open>Workspace paths\<close>

definition cleanWorkspaceRelativePath :: "string \<Rightarrow> goerr + string" where
  "cleanWorkspaceRelativePath requested =
     (let trimmed = trim_left_by (\<lambda>c. c = slash) requested in
      if trimmed = [] then Inr []
      else
        (let cleaned = Clean trimmed in
         if cleaned = ''.'' then Inr []
         else if cleaned = ''..'' \<or> HasPrefix cleaned ''../'' then Inl (Err ''path escapes workspace'')
         else Inr cleaned))"

definition pathWithinRoot :: "string \<Rightarrow> string \<Rightarrow> bool" where
  "pathWithinRoot root target =
     (case Rel root target of
        None \<Rightarrow> False
      | Some rel \<Rightarrow> rel = ''.'' \<or> (rel \<noteq> ''..'' \<and> \<not> HasPrefix rel ''../''))"

fun resolve_parts :: "os_fs \<Rightarrow> string \<Rightarrow> string \<Rightarrow> string list \<Rightarrow> goerr + string" where
  "resolve_parts fs resolvedRoot current [] = Inr current"
| "resolve_parts fs resolvedRoot current (part # parts) =
     (let nxt = Join [current, part] in
      case os_Lstat fs nxt of
        LstatSymlink \<Rightarrow>
          (case os_EvalSymlinks fs nxt of
             Inl e \<Rightarrow> Inl e
           | Inr resolvedNext \<Rightarrow>
               (if \<not> pathWithinRoot resolvedRoot resolvedNext
                then Inl (Err ''path escapes workspace through symlink'')
                else resolve_parts fs resolvedRoot resolvedNext parts))
      | LstatPlain \<Rightarrow> resolve_parts fs resolvedRoot nxt parts
      | LstatNotExist \<Rightarrow> Inr (Join [current, Join (part # parts)])
      | LstatFailed e \<Rightarrow> Inl e)"

definition resolveWorkspacePath :: "os_fs \<Rightarrow> string \<Rightarrow> string \<Rightarrow> goerr + string" where
  "resolveWorkspacePath fs root requested =
     (case cleanWorkspaceRelativePath requested of
        Inl e \<Rightarrow> Inl e
      | Inr relativePath \<Rightarrow>
          (case os_Abs fs (Clean root) of
             Inl e \<Rightarrow> Inl e
           | Inr cleanRoot \<Rightarrow>
               (if cleanRoot = ''.'' \<or> cleanRoot = [] then Inl (Err ''workspace root is empty'')
                else
                  (case os_EvalSymlinks fs cleanRoot of
                     Inl e \<Rightarrow> Inl e
                   | Inr resolvedRoot \<Rightarrow>
                       (case os_StatIsDir fs resolvedRoot of
                          Inl e \<Rightarrow> Inl e
                        | Inr isdir \<Rightarrow>
                            (if \<not> isdir then Inl (Err ''workspace root is not a directory'')
                             else if relativePath = [] then Inr resolvedRoot
                             else resolve_parts fs resolvedRoot resolvedRoot
                                    (split_on slash relativePath)))))))"

section \<open>Output capture and transfer limits\<close>

record bounded_buffer =
  bb_limit :: int
  bb_buf :: string
  bb_truncated :: bool

definition bb_Write :: "bounded_buffer \<Rightarrow> string \<Rightarrow> bounded_buffer" where
  "bb_Write b p =
     (if bb_limit b \<le> 0 then b\<lparr>bb_truncated := True\<rparr>
      else
        (let remaining = bb_limit b - int (length (bb_buf b)) in
         if remaining \<le> 0 then b\<lparr>bb_truncated := True\<rparr>
         else if remaining < int (length p) then
           b\<lparr>bb_buf := bb_buf b @ take (nat remaining) p, bb_truncated := True\<rparr>
         else b\<lparr>bb_buf := bb_buf b @ p\<rparr>))"

definition bb_String :: "bounded_buffer \<Rightarrow> string" where "bb_String b = bb_buf b"

definition previewLimit :: int where "previewLimit = 64 * 1024"

definition new_buffer :: "int \<Rightarrow> bounded_buffer" where
  "new_buffer limit = \<lparr>bb_limit = limit, bb_buf = [], bb_truncated = False\<rparr>"

definition capture :: "int \<Rightarrow> string list \<Rightarrow> bounded_buffer" where
  "capture limit writes = foldl bb_Write (new_buffer limit) writes"

definition ensureWorkspaceTransferSize :: "int \<Rightarrow> int \<Rightarrow> goerr + unit" where
  "ensureWorkspaceTransferSize sizeBytes maxBytes =
     (let limit = (if maxBytes \<le> 0 then DefaultWorkspaceFileTransferMaxBytes else maxBytes) in
      if limit < sizeBytes then Inl (ErrFileTransferTooLarge limit) else Inr ())"

text \<open>
  \<open>readWorkspaceFileBytes\<close> over what opening, stating and reading the file give: the size \<open>Stat\<close>
  reports and the bytes read by then may differ, since the file can grow in between.
\<close>

record open_file =
  of_IsDir :: bool
  of_Size :: int
  of_Bytes :: string

definition readWorkspaceFileBytes :: "goerr + open_file \<Rightarrow> int \<Rightarrow> goerr + string" where
  "readWorkspaceFileBytes opened maxBytes =
     (let limit = (if maxBytes \<le> 0 then DefaultWorkspaceFileTransferMaxBytes else maxBytes) in
      case opened of
        Inl e \<Rightarrow> Inl e
      | Inr f \<Rightarrow>
          (if of_IsDir f then Inl (Err ''path is a directory'')
           else if limit < of_Size f then Inl (ErrFileTransferTooLarge limit)
           else
             (let data = take (nat (limit + 1)) (of_Bytes f) in
              if limit < int (length data) then Inl (ErrFileTransferTooLarge limit)
              else Inr data)))"

definition workspaceFileResponseSize :: "file_read_response \<Rightarrow> int" where
  "workspaceFileResponseSize file =
     (let size1 = max (fr_Size file) (int (length (fr_Content file)));
          trimmed = TrimSpace (fr_ContentBase64 file) in
      if trimmed \<noteq> [] then max size1 (int (length trimmed div 4 * 3)) else size1)"

definition looksLikeFilesystemPath :: "string \<Rightarrow> bool" where
  "looksLikeFilesystemPath path =
     (let trimmed = TrimSpace path in
      if trimmed = [] then False
      else IsAbs trimmed \<or> slash \<in> set trimmed \<or> HasPrefix trimmed ''.'')"

section \<open>Directory names\<close>

definition sandboxBaseDir :: "string \<Rightarrow> string" where
  "sandboxBaseDir storageRoot =
     (if TrimSpace storageRoot = [] then [] else Clean (Dir storageRoot))"

definition storageClassRoot :: "string \<Rightarrow> storage_class \<Rightarrow> string" where
  "storageClassRoot baseDir class =
     (if TrimSpace baseDir = [] then [] else Join [baseDir, storage_class_string class])"

definition scratchRootFromStorageRoot :: "string \<Rightarrow> string" where
  "scratchRootFromStorageRoot storageRoot = storageClassRoot (sandboxBaseDir storageRoot) StorageScratch"

definition secretsRootFromStorageRoot :: "string \<Rightarrow> string" where
  "secretsRootFromStorageRoot storageRoot = storageClassRoot (sandboxBaseDir storageRoot) StorageSecrets"

definition buildNetworkPolicy :: "network_mode \<Rightarrow> bool \<Rightarrow> network_policy" where
  "buildNetworkPolicy mode allowTunnels = ResolveNetworkPolicy mode allowTunnels"

text \<open>The paths of a workspace export, cleaned and without repetition.\<close>

fun normalize_export_loop :: "string list \<Rightarrow> string list \<Rightarrow> goerr + string list" where
  "normalize_export_loop seen [] = Inr []"
| "normalize_export_loop seen (requested # paths) =
     (case cleanWorkspaceRelativePath requested of
        Inl e \<Rightarrow> Inl e
      | Inr cleaned \<Rightarrow>
          (if cleaned \<in> set seen then normalize_export_loop seen paths
           else (case normalize_export_loop (cleaned # seen) paths of
                   Inl e \<Rightarrow> Inl e | Inr rest \<Rightarrow> Inr (cleaned # rest))))"

definition normalizeWorkspaceExportPaths :: "string list \<Rightarrow> goerr + string list" where
  "normalizeWorkspaceExportPaths paths =
     (if paths = [] then Inr [[]]
      else (case normalize_export_loop [] paths of
              Inl e \<Rightarrow> Inl e
            | Inr normalized \<Rightarrow> (if normalized = [] then Inr [[]] else Inr normalized)))"

section \<open>Facts\<close>

lemma trim_left_not_abs: "\<not> IsAbs (trim_left_by (\<lambda>c. c = slash) s)"
  by (induction s) (auto simp: trim_left_by_def IsAbs_def HasPrefix_def slash_def)

lemma render_relative_plain:
  assumes "clean_form False cs" and "render False cs \<noteq> ''.''"
    and "render False cs \<noteq> ''..''" and "\<not> HasPrefix (render False cs) ''../''"
  shows "list_all plain cs \<and> cs \<noteq> []"
proof -
  obtain n ps where cs: "cs = replicate n ''..'' @ ps" "list_all plain ps"
    using assms(1) by (auto simp: clean_form_def)
  have "n = 0" using render_dots_prefix [OF cs(2), of n] assms(3,4) cs(1) by auto
  then show ?thesis using cs assms(2) by (auto simp: render_def)
qed

lemma clean_relative_plain:
  assumes "cleanWorkspaceRelativePath requested = Inr p"
  shows "p = [] \<or> (\<exists>cs. cs \<noteq> [] \<and> list_all plain cs \<and> p = rel_path cs)"
proof (cases "p = []")
  case False
  let ?t = "trim_left_by (\<lambda>c. c = slash) requested"
  let ?cs = "clean_comps False (split_on slash ?t)"
  from False have p: "p = Clean ?t" and r: "Clean ?t \<noteq> ''.''" "Clean ?t \<noteq> ''..''" "\<not> HasPrefix (Clean ?t) ''../''"
    using assms by (auto simp: cleanWorkspaceRelativePath_def Let_def split: if_splits)
  have c: "Clean ?t = render False ?cs" by (simp add: Clean_def trim_left_not_abs)
  have "list_all plain ?cs \<and> ?cs \<noteq> []"
    using render_relative_plain [OF clean_form_split] r c by metis
  then show ?thesis using p c by (metis rel_path_def render_def)
qed simp

lemma clean_relative_of_plain:
  assumes "list_all plain cs" and "cs \<noteq> []"
  shows "cleanWorkspaceRelativePath (rel_path cs) = Inr (rel_path cs)"
proof -
  let ?p = "rel_path cs"
  have "\<not> IsAbs ?p" using assms join_plain_hd by (simp add: rel_path_def)
  then have t: "trim_left_by (\<lambda>c. c = slash) ?p = ?p"
    by (cases ?p) (auto simp: trim_left_by_def IsAbs_def HasPrefix_def slash_def)
  have s: "split_on slash ?p = cs" using assms split_join_plain by (simp add: rel_path_def)
  have "?p \<noteq> []" "?p \<noteq> ''.''" using s assms by (auto simp: plain_def slash_def)
  moreover have "?p \<noteq> ''..'' \<and> \<not> HasPrefix ?p ''../''"
    using render_dots_prefix [OF assms(1), of 0] assms(2) by (simp add: render_def rel_path_def)
  ultimately show ?thesis using t Clean_rel_path [OF assms] by (simp add: cleanWorkspaceRelativePath_def)
qed

lemma clean_relative_idem:
  "cleanWorkspaceRelativePath requested = Inr p \<Longrightarrow> cleanWorkspaceRelativePath p = Inr p"
proof (drule clean_relative_plain, elim disjE exE conjE)
  assume "p = []"
  then show ?thesis by (simp add: cleanWorkspaceRelativePath_def trim_left_by_def)
qed (simp add: clean_relative_of_plain)

lemma pathWithinRoot_under:
  assumes "abs_clean root" and "abs_clean target" and "pathWithinRoot root target"
  shows "under root target"
proof -
  obtain bs ts where b: "list_all plain bs" "root = abs_path bs"
    and t: "list_all plain ts" "target = abs_path ts"
    using assms(1,2) by (auto simp: abs_clean_def)
  obtain xs ys where s: "strip_common bs ts = (xs, ys)" by (cases "strip_common bs ts")
  then obtain c where c: "bs = c @ xs" "ts = c @ ys" using strip_common_decomp by blast
  have ys: "list_all plain ys" using t(1) c(2) by simp
  have "xs = []"
  proof (rule ccontr)
    assume xs: "xs \<noteq> []"
    have rel: "Rel root target = (if hd xs = ''..'' then None
        else Some (render False (replicate (length xs) ''..'' @ ys)))"
      using b t s xs by (simp add: Rel_def Let_def)
    have "render False (replicate (length xs) ''..'' @ ys) = ''..'' \<or>
        HasPrefix (render False (replicate (length xs) ''..'' @ ys)) ''../''"
      using render_dots_prefix [OF ys, of "length xs"] xs by simp
    moreover have "replicate (length xs) ''..'' @ ys \<noteq> [] \<and>
        render False (replicate (length xs) ''..'' @ ys) \<noteq> ''.''"
      using calculation xs by (auto simp: HasPrefix_def)
    ultimately show False using assms(3) rel by (auto simp: pathWithinRoot_def split: if_splits)
  qed
  then show ?thesis using b t c under_abs_path by auto
qed

lemma Join_plain_parts:
  "list_all plain cs \<Longrightarrow> cs \<noteq> [] \<Longrightarrow> Join cs = rel_path cs"
proof -
  assume cs: "list_all plain cs" "cs \<noteq> []"
  then have "filter (\<lambda>e. e \<noteq> []) cs = cs" by (auto simp: filter_id_conv list_all_iff plain_def)
  then show ?thesis using cs Clean_rel_path [OF cs] by (simp add: Join_def rel_path_def)
qed

lemma under_Join_parts:
  assumes "under root cur" and "list_all plain ps" and "ps \<noteq> []"
  shows "under root (Join [cur, rel_path ps])"
  using assms Join_abs_rel unfolding under_def
  by (metis append.assoc list_all_append)

lemma resolve_parts_under:
  assumes "os_documented fs" and "abs_clean root" and "under root cur" and "list_all plain parts"
    and "resolve_parts fs root cur parts = Inr p"
  shows "under root p"
  using assms(3-5)
proof (induction parts arbitrary: cur)
  case (Cons part parts)
  have nxt: "under root (Join [cur, part])"
    using under_Join_parts [OF Cons.prems(1), of "[part]"] Cons.prems(2) by simp
  show ?case
  proof (cases "os_Lstat fs (Join [cur, part])")
    case LstatSymlink
    then obtain q where q: "os_EvalSymlinks fs (Join [cur, part]) = Inr q" "pathWithinRoot root q"
      "resolve_parts fs root q parts = Inr p"
      using Cons.prems(3) by (auto simp: Let_def split: sum.splits if_splits)
    have "abs_clean q"
      using assms(1) q(1) under_abs_clean [OF nxt] by (auto simp: os_documented_def)
    then have "under root q" using pathWithinRoot_under assms(2) q(2) by blast
    then show ?thesis using Cons.IH q(3) Cons.prems(2) by simp
  next
    case LstatPlain
    then show ?thesis using Cons.IH [OF nxt] Cons.prems by (simp add: Let_def)
  next
    case LstatNotExist
    then have "p = Join [cur, Join (part # parts)]" using Cons.prems(3) by (simp add: Let_def)
    then show ?thesis using under_Join_parts [OF Cons.prems(1,2)] Join_plain_parts [OF Cons.prems(2)]
      by simp
  next
    case (LstatFailed e)
    then show ?thesis using Cons.prems(3) by (simp add: Let_def)
  qed
qed simp

lemma split_rel_path: "list_all plain cs \<Longrightarrow> cs \<noteq> [] \<Longrightarrow> split_on slash (rel_path cs) = cs"
  by (simp add: rel_path_def split_join_plain)

lemma resolve_contained:
  assumes "os_documented fs" and "resolveWorkspacePath fs root requested = Inr p"
  shows "\<exists>cleanRoot resolvedRoot. os_Abs fs (Clean root) = Inr cleanRoot \<and>
     os_EvalSymlinks fs cleanRoot = Inr resolvedRoot \<and> under resolvedRoot p"
proof -
  obtain rel cr rr where r: "cleanWorkspaceRelativePath requested = Inr rel"
    "os_Abs fs (Clean root) = Inr cr" "os_EvalSymlinks fs cr = Inr rr"
    "rel = [] \<and> p = rr \<or> rel \<noteq> [] \<and> resolve_parts fs rr rr (split_on slash rel) = Inr p"
    using assms(2) by (auto simp: resolveWorkspacePath_def split: sum.splits if_splits)
  have rr: "abs_clean rr" using assms(1) r(2,3) by (auto simp: os_documented_def)
  have "under rr p"
  proof (cases "rel = []")
    case True
    then show ?thesis using r(4) under_refl [OF rr] by simp
  next
    case False
    then obtain cs where "cs \<noteq> []" "list_all plain cs" "rel = rel_path cs"
      using clean_relative_plain [OF r(1)] by blast
    then show ?thesis
      using resolve_parts_under [OF assms(1) rr under_refl [OF rr]] r(4) False split_rel_path by metis
  qed
  then show ?thesis using r by blast
qed

section \<open>The capture buffer keeps exactly the first bytes\<close>

definition bb_after :: "int \<Rightarrow> string \<Rightarrow> bounded_buffer \<Rightarrow> bool" where
  "bb_after limit sent b \<longleftrightarrow> bb_limit b = limit \<and> bb_buf b = take (nat limit) sent \<and>
     (int (length sent) > limit \<longrightarrow> bb_truncated b)"

lemma bb_Write_after:
  assumes "bb_after limit sent b" and "0 \<le> limit"
  shows "bb_after limit (sent @ p) (bb_Write b p)"
  using assms by (auto simp: bb_after_def bb_Write_def Let_def min_def nat_diff_distrib' not_less)

lemma foldl_bb_Write:
  "bb_after limit sent b \<Longrightarrow> 0 \<le> limit \<Longrightarrow> bb_after limit (sent @ concat ws) (foldl bb_Write b ws)"
proof (induction ws arbitrary: sent b)
  case (Cons w ws)
  then show ?case using Cons.IH [OF bb_Write_after] by simp
qed simp

lemma capture_prefix:
  assumes "0 \<le> limit"
  shows "bb_String (capture limit ws) = take (nat limit) (concat ws)"
    and "limit < int (length (concat ws)) \<longrightarrow> bb_truncated (capture limit ws)"
proof -
  have "bb_after limit [] (new_buffer limit)" using assms by (simp add: bb_after_def new_buffer_def)
  from foldl_bb_Write [OF this assms, of ws]
  show "bb_String (capture limit ws) = take (nat limit) (concat ws)"
    and "limit < int (length (concat ws)) \<longrightarrow> bb_truncated (capture limit ws)"
    by (simp_all add: bb_after_def capture_def bb_String_def)
qed

lemma readWorkspaceFileBytes_bound:
  assumes "readWorkspaceFileBytes opened maxBytes = Inr data"
  shows "int (length data) \<le> (if maxBytes \<le> 0 then DefaultWorkspaceFileTransferMaxBytes else maxBytes)
     \<and> (\<exists>f. opened = Inr f \<and> data = of_Bytes f)"
  using assms by (auto simp: readWorkspaceFileBytes_def Let_def min_def not_less split: sum.splits if_splits)

section \<open>Properties\<close>

text \<open>
  C6: a workspace path never leaves its root. When \<open>resolveWorkspacePath\<close> accepts a request, the
  path it returns lies under the symlink-resolved root, whatever dots, separators and symbolic links
  the request goes through.
\<close>

theorem resolveWorkspacePath_contained:
  assumes "os_documented fs" and "resolveWorkspacePath fs root requested = Inr p"
  shows "\<exists>cleanRoot resolvedRoot. os_Abs fs (Clean root) = Inr cleanRoot \<and>
     os_EvalSymlinks fs cleanRoot = Inr resolvedRoot \<and> under resolvedRoot p"
  using resolve_contained [OF assms] .

text \<open>A file system whose workspace \<open>/w\<close> holds a link \<open>l\<close> to \<open>/w/t\<close> and a link \<open>x\<close> to \<open>/etc\<close>.\<close>

definition link_fs :: os_fs where
  "link_fs = \<lparr>os_Abs = (\<lambda>p. if IsAbs p then Inr (Clean p) else Inr (Clean (''/'' @ p))),
     os_EvalSymlinks = (\<lambda>p. if p = ''/w/l'' then Inr ''/w/t'' else if p = ''/w/x'' then Inr ''/etc'' else Inr p),
     os_StatIsDir = (\<lambda>p. Inr True),
     os_Lstat = (\<lambda>p. if p = ''/w/l'' \<or> p = ''/w/x'' then LstatSymlink
       else if p = ''/w/t'' then LstatPlain else LstatNotExist)\<rparr>"

lemma link_fs_documented: "os_documented link_fs"
proof -
  have "abs_clean ''/w/t''" unfolding abs_clean_def
    by (rule exI [of _ "[''w'', ''t'']"]) code_simp
  moreover have "abs_clean ''/etc''" unfolding abs_clean_def by (rule exI [of _ "[''etc'']"]) code_simp
  moreover have "IsAbs (''/'' @ p)" for p by (simp add: IsAbs_def HasPrefix_def)
  ultimately show ?thesis using Clean_abs by (auto simp: os_documented_def link_fs_def split: if_splits)
qed

lemma link_fs_runs:
  "resolveWorkspacePath link_fs ''/w'' ''/a/../l/f'' = Inr ''/w/t/f''"
  "resolveWorkspacePath link_fs ''/w'' ''x/passwd'' = Inl (Err ''path escapes workspace through symlink'')"
  by code_simp+

theorem resolveWorkspacePath_contained_witness:
  "\<exists>cleanRoot resolvedRoot. os_Abs link_fs (Clean ''/w'') = Inr cleanRoot \<and>
     os_EvalSymlinks link_fs cleanRoot = Inr resolvedRoot \<and> under resolvedRoot ''/w/t/f''"
  using resolveWorkspacePath_contained [OF link_fs_documented link_fs_runs(1)] .

text \<open>
  \<open>cleanWorkspaceRelativePath\<close> accepts only the workspace itself or a sequence of ordinary
  components (no dots, no empty parts, no leading separator), and its result is a fixed point of it.
\<close>

theorem cleanWorkspaceRelativePath_safe:
  assumes "cleanWorkspaceRelativePath requested = Inr p"
  shows "(p = [] \<or> list_all plain (split_on slash p)) \<and> cleanWorkspaceRelativePath p = Inr p"
  using clean_relative_plain [OF assms] clean_relative_idem [OF assms] split_rel_path by metis

text \<open>
  The preview of a command's output is exactly its first bytes. However the output is cut into
  writes, the bounded buffer holds the longest prefix that fits the limit, and reports truncation
  whenever something was dropped.
\<close>

theorem boundedBuffer_prefix:
  assumes "0 \<le> limit"
  shows "bb_String (capture limit ws) = take (nat limit) (concat ws) \<and>
     (int (length (concat ws)) \<le> limit \<or> bb_truncated (capture limit ws))"
  using capture_prefix [OF assms, of ws] by auto

end
