(* ===== verification/Policy.thy ===== *)
theory Policy
  imports Images Workspace
begin

text \<open>
  The gatekeepers of the service layer: audit records (\<open>internal/service/audit.go\<close>), policies
  (\<open>policy.go\<close>) and admission control (\<open>admission.go\<close>). Every denial leaves an audit record and
  returns an error; writing the record may itself fail, which the program ignores. Log output is not
  modelled.
\<close>

section \<open>The service\<close>

record 'r service =
  svc_cfg :: config
  svc_runtime :: "'r runtime_manager"
  svc_maxTransfer :: int
  svc_HashToken :: "string \<Rightarrow> string"
  svc_host :: host

definition New :: "config \<Rightarrow> 'r runtime_manager \<Rightarrow> (string \<Rightarrow> string) \<Rightarrow> host \<Rightarrow> 'r service" where
  "New cfg rt HashToken h =
     \<lparr>svc_cfg = cfg, svc_runtime = rt,
      svc_maxTransfer = (if cfg_WorkspaceFileTransferMaxBytes cfg \<le> 0
                         then DefaultWorkspaceFileTransferMaxBytes
                         else cfg_WorkspaceFileTransferMaxBytes cfg),
      svc_HashToken = HashToken, svc_host = h\<rparr>"

section \<open>Audit records\<close>

text \<open>
  The values \<open>auditValue\<close> distinguishes: a plain string is cleaned and quoted when needed, a value of a
  named string type is printed as it is.
\<close>

datatype audit_value = AStr string | ABool bool | AInt int | ARaw string

definition newline_to_space :: "char \<Rightarrow> char" where
  "newline_to_space c = (if c = CHR 0x0A \<or> c = CHR 0x0D then CHR '' '' else c)"

fun auditValue :: "audit_value \<Rightarrow> string" where
  "auditValue (AStr s) =
     (let trimmed = map newline_to_space (TrimSpace s) in
      if trimmed = [] then [CHR 0x22, CHR 0x22]
      else if CHR '' '' \<in> set trimmed \<or> CHR 0x09 \<in> set trimmed then quote trimmed
      else trimmed)"
| "auditValue (ABool b) = (if b then ''true'' else ''false'')"
| "auditValue (AInt n) = fmt_int n"
| "auditValue (ARaw s) = s"

definition auditKV :: "string \<Rightarrow> audit_value \<Rightarrow> string" where
  "auditKV key v = key @ ''='' @ auditValue v"

definition auditDetail :: "string list \<Rightarrow> string" where
  "auditDetail parts = join_with '' '' (filter (\<lambda>p. p \<noteq> []) (map TrimSpace parts))"

definition recordAudit ::
  "string \<Rightarrow> string \<Rightarrow> string \<Rightarrow> string \<Rightarrow> string \<Rightarrow> string \<Rightarrow> (goerr, 'r world, unit) eop" where
  "recordAudit tenantID sandboxID action resourceID outcome detail =
     bindE (newID ''audit-'') (\<lambda>i. bindE now_utc (\<lambda>now.
       ignoreE (Store_AddAuditEvent
           \<lparr>au_ID = i, au_TenantID = tenantID, au_SandboxID = sandboxID, au_Action = action,
            au_ResourceID = resourceID, au_Outcome = outcome, au_Message = detail, au_CreatedAt = now\<rparr>)
         (okE ())))"

definition execAuditDetail :: "exec_request \<Rightarrow> string" where
  "execAuditDetail req = auditDetail
     [auditKV ''entrypoint'' (AStr (case xr_Command req of [] \<Rightarrow> [] | c # _ \<Rightarrow> c)),
      auditKV ''argc'' (AInt (int (length (xr_Command req)))),
      auditKV ''cwd'' (AStr (xr_Cwd req)), auditKV ''detached'' (ABool (xr_Detached req)),
      auditKV ''timeout_seconds'' (AInt (go_div (xr_Timeout req) 1000000000))]"

definition first_field :: "string \<Rightarrow> string" where
  "first_field s = takeWhile (\<lambda>c. \<not> is_space c) (trim_left_by is_space s)"

definition executionAuditDetail :: "execution \<Rightarrow> string" where
  "executionAuditDetail e = auditDetail
     [auditKV ''entrypoint'' (AStr (first_field (ex_Command e))), auditKV ''cwd'' (AStr (ex_Cwd e)),
      auditKV ''timeout_seconds'' (AInt (ex_TimeoutSeconds e))]"

definition tunnelAuditDetail :: "tunnel \<Rightarrow> string" where
  "tunnelAuditDetail t = auditDetail
     [auditKV ''target_port'' (AInt (tun_TargetPort t)),
      auditKV ''protocol'' (ARaw (tunnel_protocol_string (tun_Protocol t))),
      auditKV ''auth_mode'' (AStr (tun_AuthMode t)), auditKV ''visibility'' (AStr (tun_Visibility t))]"

definition snapshotAuditDetail :: "snapshot \<Rightarrow> string" where
  "snapshotAuditDetail s = auditDetail
     [auditKV ''name'' (AStr (sn_Name s)), auditKV ''status'' (ARaw (snapshot_status_string (sn_Status s))),
      auditKV ''runtime'' (AStr (sn_RuntimeBackend s)),
      auditKV ''runtime_selection'' (ARaw (selection_string
        (ResolveRuntimeSelection (sn_RuntimeSelection s) (sn_RuntimeBackend s)))),
      auditKV ''profile'' (ARaw (profile_string (sn_Profile s))),
      auditKV ''exported'' (ABool (sn_ExportLocation s \<noteq> []))]"

definition networkPolicyAuditDetail :: "network_policy \<Rightarrow> string" where
  "networkPolicyAuditDetail p = auditDetail
     [auditKV ''internet'' (ABool (np_Internet p)), auditKV ''loopback_only'' (ABool (np_LoopbackOnly p)),
      auditKV ''allow_tunnels'' (ABool (np_AllowTunnels p))]"

definition dockerOverrideAuditDetail :: "string list \<Rightarrow> string list \<Rightarrow> string" where
  "dockerOverrideAuditDetail features capabilities = auditDetail
     [auditKV ''docker_features'' (AStr (join_with '','' features)),
      auditKV ''docker_capabilities'' (AStr (join_with '','' capabilities))]"

section \<open>Durations in messages\<close>

text \<open>\<open>time.Duration.Round(time.Second)\<close> and \<open>time.Duration.String\<close>.\<close>

definition round_seconds :: "int \<Rightarrow> int" where
  "round_seconds d =
     (let r = go_mod d 1000000000 in
      if 2 * \<bar>r\<bar> < 1000000000 then d - r
      else max min_int64 (min max_int64 (if d < 0 then d - r - 1000000000 else d - r + 1000000000)))"

definition pad_digits :: "nat \<Rightarrow> nat \<Rightarrow> string" where
  "pad_digits k n = replicate (k - length (fmt_nat n)) (CHR ''0'') @ fmt_nat n"

definition with_fraction :: "nat \<Rightarrow> nat \<Rightarrow> string" where
  "with_fraction k n =
     (let f = trim_right_by (\<lambda>c. c = CHR ''0'') (pad_digits k (n mod 10 ^ k)) in
      fmt_nat (n div 10 ^ k) @ (if f = [] then [] else ''.'' @ f))"

definition Duration_String :: "int \<Rightarrow> string" where
  "Duration_String d =
     (let u = nat \<bar>d\<bar>; secs = u div 1000000000;
          body =
            (if u = 0 then ''0s''
             else if u < 1000 then fmt_nat u @ ''ns''
             else if u < 1000000 then with_fraction 3 u @ [CHR 0xC2, CHR 0xB5, CHR ''s'']
             else if u < 1000000000 then with_fraction 6 u @ ''ms''
             else
               (if 3600 \<le> secs then fmt_nat (secs div 3600) @ ''h'' else []) @
               (if 60 \<le> secs then fmt_nat (secs div 60 mod 60) @ ''m'' else []) @
               with_fraction 9 (u mod 60000000000) @ ''s'')
      in (if d < 0 then ''-'' else []) @ body)"

section \<open>Policies\<close>

definition resolveRuntimeSelection :: "'r service \<Rightarrow> create_request \<Rightarrow> runtime_selection" where
  "resolveRuntimeSelection svc req =
     (let selection = ResolveRuntimeSelection (cr_RuntimeSelection req) (cfg_RuntimeBackend (svc_cfg svc)) in
      if selection_IsValid selection then selection else cfg_DefaultRuntimeSelection (svc_cfg svc))"

definition resolvedSandboxRuntimeSelection :: "sandbox \<Rightarrow> runtime_selection" where
  "resolvedSandboxRuntimeSelection s = ResolveRuntimeSelection (sb_RuntimeSelection s) (sb_RuntimeBackend s)"

definition resolvedSnapshotRuntimeSelection :: "snapshot \<Rightarrow> runtime_selection" where
  "resolvedSnapshotRuntimeSelection s = ResolveRuntimeSelection (sn_RuntimeSelection s) (sn_RuntimeBackend s)"

definition normalizeQEMUBaseImageRef :: "'r service \<Rightarrow> string \<Rightarrow> string" where
  "normalizeQEMUBaseImageRef svc value =
     (let normalized = NormalizeQEMUBaseImagePath value in
      if normalized = [] then []
      else if normalized = NormalizeQEMUBaseImagePath (cfg_BaseImageRef (svc_cfg svc))
      then NormalizeQEMUBaseImagePath (cfg_QEMUBaseImagePath (svc_cfg svc))
      else normalized)"

fun image_matches :: "string \<Rightarrow> string list \<Rightarrow> bool" where
  "image_matches imageRef [] = False"
| "image_matches imageRef (entry # rest) =
     (let allowed = TrimSpace entry in
      if allowed = [] then image_matches imageRef rest
      else if HasSuffix allowed ''*'' then
        (if HasPrefix imageRef (TrimSuffix allowed ''*'') then True else image_matches imageRef rest)
      else if imageRef = allowed then True
      else image_matches imageRef rest)"

definition imageAllowed :: "'r service \<Rightarrow> string \<Rightarrow> bool" where
  "imageAllowed svc imageRef \<longleftrightarrow>
     cfg_PolicyAllowedImages (svc_cfg svc) = [] \<or> image_matches imageRef (cfg_PolicyAllowedImages (svc_cfg svc))"

definition runtimeImageAllowed :: "'r service \<Rightarrow> string \<Rightarrow> string \<Rightarrow> bool" where
  "runtimeImageAllowed svc runtimeBackend imageRef =
     (if runtimeBackend = ''qemu'' then
        normalizeQEMUBaseImageRef svc imageRef \<in> set (EffectiveQEMUAllowedBaseImagePaths (svc_cfg svc))
      else imageAllowed svc imageRef)"

definition denied ::
  "string \<Rightarrow> string \<Rightarrow> string \<Rightarrow> string \<Rightarrow> string \<Rightarrow> string \<Rightarrow> (goerr, 'r world, 'a) eop" where
  "denied tenantID sandboxID action resourceID detail message =
     thenE (recordAudit tenantID sandboxID action resourceID ''denied'' detail)
       (failE (ErrForbidden message))"

definition enforceGuestProfilePolicy ::
  "'r service \<Rightarrow> string \<Rightarrow> string \<Rightarrow> string \<Rightarrow> guest_profile \<Rightarrow> string \<Rightarrow> string
     \<Rightarrow> (goerr, 'r world, unit) eop" where
  "enforceGuestProfilePolicy svc tenantID sandboxID runtimeBackend profile reason action =
     (let cfg = svc_cfg svc; p = quote (profile_string profile);
          runtime = auditKV ''runtime'' (AStr runtimeBackend);
          dangerous = IsDangerousGuestProfile cfg runtimeBackend profile;
          deny = (\<lambda>message. denied tenantID sandboxID action sandboxID (auditDetail [message, runtime]) message) in
      if profile = no_profile then okE ()
      else if \<not> IsAllowedGuestProfile cfg runtimeBackend profile then
        deny (''sandbox profile '' @ p @ '' is not allowed by policy'')
      else if dangerous \<and> \<not> AllowsDangerousGuestProfiles cfg runtimeBackend then
        deny (''sandbox profile '' @ p @ '' is blocked by dangerous-profile policy until SANDBOX_ALLOW_DANGEROUS_PROFILES=true'')
      else if cfg_DeploymentMode cfg = ''production'' \<and> dangerous \<and> TrimSpace reason = [] \<and> action = ''policy.create'' then
        deny (''sandbox profile '' @ p @ '' requires dangerous_profile_reason for audited exception use'')
      else if dangerous \<and> AllowsDangerousGuestProfiles cfg runtimeBackend \<and> action = ''policy.create'' then
        recordAudit tenantID sandboxID ''policy.profile.override'' sandboxID ''ok''
          (auditDetail [runtime, auditKV ''profile'' (ARaw (profile_string profile)),
             auditKV ''reason'' (AStr (if TrimSpace reason = [] then ''dangerous_profile_explicitly_allowed''
                                       else TrimSpace reason))])
      else okE ())"

definition requiresPromotedImageContractValidation :: "string \<Rightarrow> bool" where
  "requiresPromotedImageContractValidation action \<longleftrightarrow>
     action \<in> {''policy.create'', ''policy.start'', ''policy.resume'', ''policy.snapshot.restore''}"

definition promotedImageContractMatchesRecord :: "contract \<Rightarrow> promoted_image \<Rightarrow> goerr option" where
  "promotedImageContractMatchesRecord c r =
     (if \<not> EqualFold (TrimSpace (gc_ImageSHA256 c)) (TrimSpace (pi_ImageSHA256 r)) then Some (Err ''checksum mismatch'')
      else if gc_Profile c \<noteq> pi_Profile r then Some (Err ''profile mismatch'')
      else if gc_ControlMode c \<noteq> pi_ControlMode r then Some (Err ''control mode mismatch'')
      else if gc_ProtocolVersion c \<noteq> pi_ControlProtocolVersion r then Some (Err ''control protocol version mismatch'')
      else if gc_ContractVersion c \<noteq> pi_ContractVersion r then Some (Err ''contract version mismatch'')
      else None)"

definition loaded_contract :: "'r service \<Rightarrow> string \<Rightarrow> contract \<Rightarrow> goerr + contract" where
  "loaded_contract svc imageRef given =
     (if gc_ImageSHA256 given \<noteq> [] then Inr given
      else (case Load (svc_host svc) imageRef of
              Inl e \<Rightarrow> Inl e
            | Inr c \<Rightarrow> (case Validate_contract (svc_host svc) imageRef c of Inl e \<Rightarrow> Inl e | Inr _ \<Rightarrow> Inr c)))"

definition enforcePromotedImagePolicy ::
  "'r service \<Rightarrow> string \<Rightarrow> string \<Rightarrow> runtime_selection \<Rightarrow> string \<Rightarrow> string \<Rightarrow> contract
     \<Rightarrow> (goerr, 'r world, unit) eop" where
  "enforcePromotedImagePolicy svc tenantID sandboxID selection imageRef action given =
     (let deny = (\<lambda>message. denied tenantID sandboxID action imageRef message message) in
      if cfg_DeploymentMode (svc_cfg svc) \<noteq> ''production'' \<or> Backend selection \<noteq> ''qemu'' then okE ()
      else tryE (Store_GetPromotedGuestImage imageRef) (\<lambda>found.
        case found of
          Inl e \<Rightarrow>
            (if e \<noteq> ErrNotFound then failE e
             else deny (''production qemu workloads require a promoted guest image; '' @ quote imageRef
                     @ '' is not promoted''))
        | Inr record \<Rightarrow>
            (if \<not> EqualFold (pi_VerificationStatus record) ''verified'' \<or>
                \<not> EqualFold (pi_PromotionStatus record) ''promoted'' then
               deny (''guest image '' @ quote imageRef @ '' is not production-ready (verification=''
                 @ pi_VerificationStatus record @ '' promotion='' @ pi_PromotionStatus record @ '')'')
             else if \<not> requiresPromotedImageContractValidation action then okE ()
             else bindE (liftE (loaded_contract svc imageRef given)) (\<lambda>contract.
               case promotedImageContractMatchesRecord contract record of
                 Some e \<Rightarrow> deny (''guest image '' @ quote imageRef @ '' no longer matches promoted record: '' @ err_text e)
               | None \<Rightarrow> okE ()))))"

definition deniedDockerFeatures :: "string \<Rightarrow> string option" where
  "deniedDockerFeatures = map_of
     [(''docker.host-ipc'', ''host IPC sharing is blocked by policy''),
      (''docker.host-network'', ''host network sharing is blocked by policy''),
      (''docker.host-pid'', ''host PID namespace sharing is blocked by policy''),
      (''docker.mount-docker-socket'', ''mounting the Docker socket is blocked by policy''),
      (''docker.privileged'', ''privileged Docker mode is blocked by policy'')]"

fun first_denied_feature :: "string list \<Rightarrow> string option" where
  "first_denied_feature [] = None"
| "first_denied_feature (f # fs) =
     (case deniedDockerFeatures f of Some m \<Rightarrow> Some m | None \<Rightarrow> first_denied_feature fs)"

definition dangerous_capability :: "string \<Rightarrow> bool" where
  "dangerous_capability c \<longleftrightarrow> c = ''docker.elevated-user'' \<or> HasPrefix c ''docker.extra-cap:''"

fun first_unsupported_capability :: "string list \<Rightarrow> string option" where
  "first_unsupported_capability [] = None"
| "first_unsupported_capability (c # cs) =
     (if dangerous_capability c then first_unsupported_capability cs else Some c)"

definition enforceDockerCreatePolicy ::
  "'r service \<Rightarrow> string \<Rightarrow> string \<Rightarrow> guest_profile \<Rightarrow> string list \<Rightarrow> string list \<Rightarrow> string
     \<Rightarrow> (goerr, 'r world, unit) eop" where
  "enforceDockerCreatePolicy svc tenantID sandboxID profile features0 capabilities0 action =
     (let cfg = svc_cfg svc; features = NormalizeFeatures features0;
          capabilities = NormalizeCapabilities capabilities0;
          detail = dockerOverrideAuditDetail features capabilities;
          deny = (\<lambda>message. denied tenantID sandboxID action sandboxID (auditDetail [message, detail]) message);
          dangerous = capabilities \<noteq> [] in
      if profile \<noteq> no_profile \<and> IsDangerousGuestProfile cfg ''docker'' profile \<and>
         \<not> AllowsDangerousGuestProfiles cfg ''docker'' then
        deny (''docker profile '' @ quote (profile_string profile) @ '' is blocked by dangerous-profile policy'')
      else
        (case first_denied_feature features of
           Some message \<Rightarrow> deny message
         | None \<Rightarrow>
             (case first_unsupported_capability capabilities of
                Some c \<Rightarrow> deny (''docker capability '' @ quote c @ '' is not supported'')
              | None \<Rightarrow>
                  (if dangerous \<and> \<not> cfg_DockerAllowDangerousOverrides cfg then
                     deny ''dangerous Docker capability overrides are blocked until SANDBOX_DOCKER_ALLOW_DANGEROUS_OVERRIDES=true''
                   else if dangerous \<and> action = ''policy.create'' then
                     recordAudit tenantID sandboxID ''policy.create.override'' sandboxID ''ok''
                       (auditDetail [''dangerous Docker override explicitly allowed'', detail])
                   else okE ()))))"

definition enforceCreatePolicy ::
  "'r service \<Rightarrow> string \<Rightarrow> create_request \<Rightarrow> contract \<Rightarrow> (goerr, 'r world, unit) eop" where
  "enforceCreatePolicy svc tenantID req given =
     (let selection = resolveRuntimeSelection svc req; backend = Backend selection in
      if \<not> IsRuntimeSelectionEnabled (svc_cfg svc) selection then
        (let message = ''runtime selection '' @ quote (selection_string selection) @ '' is not enabled'' in
         denied tenantID [] ''policy.create'' (selection_string selection) message message)
      else if \<not> runtimeImageAllowed svc backend (cr_BaseImageRef req) then
        (let message = ''image '' @ quote (cr_BaseImageRef req) @ '' is not allowed by policy'' in
         denied tenantID [] ''policy.create'' (cr_BaseImageRef req) message message)
      else
        thenE (enforceGuestProfilePolicy svc tenantID [] backend (cr_Profile req)
                 (cr_DangerousProfileReason req) ''policy.create'')
       (thenE (enforcePromotedImagePolicy svc tenantID [] selection (cr_BaseImageRef req) ''policy.create'' given)
         (if backend = ''docker'' then
            enforceDockerCreatePolicy svc tenantID [] (cr_Profile req) (cr_Features req) (cr_Capabilities req) ''policy.create''
          else okE ())))"

definition enforceLifecyclePolicy :: "'r service \<Rightarrow> sandbox \<Rightarrow> string \<Rightarrow> (goerr, 'r world, unit) eop" where
  "enforceLifecyclePolicy svc s action =
     (let cfg = svc_cfg svc; selection = resolvedSandboxRuntimeSelection s; backend = Backend selection;
          act = ''policy.'' @ action;
          deny = (\<lambda>resource message. denied (sb_TenantID s) (sb_ID s) act resource message message) in
      if \<not> IsRuntimeSelectionEnabled cfg selection then
        (let message = ''runtime selection '' @ quote (selection_string selection) @ '' is not enabled'' in
         denied (sb_TenantID s) (sb_ID s) act (sb_ID s)
           (auditDetail [message, auditKV ''runtime_selection'' (ARaw (selection_string selection))]) message)
      else bindE now_utc (\<lambda>now.
        (let age = time_Sub now (sb_CreatedAt s); idle = time_Sub now (sb_LastActiveAt s) in
         if 0 < cfg_PolicyMaxSandboxLifetime cfg \<and> cfg_PolicyMaxSandboxLifetime cfg < age then
           deny (sb_ID s) (''sandbox lifetime '' @ Duration_String (round_seconds age)
             @ '' exceeds policy limit '' @ Duration_String (cfg_PolicyMaxSandboxLifetime cfg))
         else if 0 < cfg_PolicyMaxIdleTimeout cfg \<and> \<not> IsZero (sb_LastActiveAt s) \<and>
                 cfg_PolicyMaxIdleTimeout cfg < idle then
           deny (sb_ID s) (''sandbox idle time '' @ Duration_String (round_seconds idle)
             @ '' exceeds policy limit '' @ Duration_String (cfg_PolicyMaxIdleTimeout cfg))
         else if \<not> runtimeImageAllowed svc backend (sb_BaseImageRef s) then
           deny (sb_BaseImageRef s) (''sandbox image '' @ quote (sb_BaseImageRef s) @ '' is no longer allowed by policy'')
         else
           thenE (if backend = ''docker'' then
                    enforceDockerCreatePolicy svc (sb_TenantID s) (sb_ID s) (sb_Profile s) (sb_Features s)
                      (sb_Capabilities s) act
                  else okE ())
          (thenE (enforceGuestProfilePolicy svc (sb_TenantID s) (sb_ID s) backend (sb_Profile s) [] act)
             (enforcePromotedImagePolicy svc (sb_TenantID s) (sb_ID s) selection (sb_BaseImageRef s) act no_contract)))))"

definition enforceTunnelPolicy :: "'r service \<Rightarrow> sandbox \<Rightarrow> tunnel_request \<Rightarrow> (goerr, 'r world, unit) eop" where
  "enforceTunnelPolicy svc s req =
     (if EqualFold (tq_Visibility req) ''public'' \<and> \<not> cfg_PolicyAllowPublicTunnels (svc_cfg svc) then
        denied (sb_TenantID s) (sb_ID s) ''policy.tunnel'' (sb_ID s) ''public tunnels are disabled by policy''
          ''public tunnels are disabled by policy''
      else okE ())"

definition enforceAdminInspectionPolicy :: "'r service \<Rightarrow> string \<Rightarrow> string \<Rightarrow> (goerr, 'r world, unit) eop" where
  "enforceAdminInspectionPolicy svc tenantID action =
     (if cfg_DeploymentMode (svc_cfg svc) = ''production'' \<and>
         \<not> IsVMBacked (cfg_DefaultRuntimeSelection (svc_cfg svc)) then
        denied tenantID [] (''policy.'' @ action) action
          ''admin inspection requires a VM-backed runtime class in production mode''
          ''admin inspection requires a VM-backed runtime class in production mode''
      else okE ())"

section \<open>Admission\<close>

record admission_delta =
  ad_nodeSandboxes :: int
  ad_nodeRunning :: int
  ad_runningCPU :: cpu_quantity
  ad_runningMemory :: int
  ad_tenantStarts :: int
  ad_tenantHeavy :: int

record admission_snapshot =
  asn_nodeSandboxes :: int
  asn_nodeRunning :: int
  asn_runningCPU :: cpu_quantity
  asn_runningMemory :: int
  asn_freeStorage :: int
  asn_tenantStarts :: int
  asn_tenantHeavy :: int

definition consumesNodeRuntimeCapacity :: "sandbox_status \<Rightarrow> bool" where
  "consumesNodeRuntimeCapacity st \<longleftrightarrow>
     st \<in> {StatusBooting, StatusStarting, StatusRunning, StatusSuspending, StatusSuspended}"

definition isConcurrentStartStatus :: "sandbox_status \<Rightarrow> bool" where
  "isConcurrentStartStatus st \<longleftrightarrow> st \<in> {StatusCreating, StatusBooting, StatusStarting}"

definition isHeavyOperationStatus :: "sandbox_status \<Rightarrow> bool" where
  "isHeavyOperationStatus st \<longleftrightarrow>
     st \<in> {StatusCreating, StatusStarting, StatusStopping, StatusDeleting, StatusSuspending}"

definition admissionEnabled :: "config \<Rightarrow> bool" where
  "admissionEnabled c \<longleftrightarrow>
     0 < cfg_AdmissionMaxNodeSandboxes c \<or> 0 < cfg_AdmissionMaxNodeRunning c \<or> 0 < cfg_AdmissionMaxNodeCPU c \<or>
     0 < cfg_AdmissionMaxNodeMemoryMB c \<or> 0 < cfg_AdmissionMinNodeFreeStorageMB c \<or>
     0 < cfg_AdmissionMaxTenantStarts c \<or> 0 < cfg_AdmissionMaxTenantHeavyOps c"

definition count_sandbox :: "string \<Rightarrow> admission_snapshot \<Rightarrow> sandbox \<Rightarrow> admission_snapshot" where
  "count_sandbox tenantID a s =
     (let a1 = a\<lparr>asn_nodeSandboxes := asn_nodeSandboxes a + 1\<rparr>;
          a2 = (if consumesNodeRuntimeCapacity (sb_Status s)
                then a1\<lparr>asn_nodeRunning := asn_nodeRunning a1 + 1,
                        asn_runningCPU := add64 (asn_runningCPU a1) (sb_CPULimit s),
                        asn_runningMemory := add64 (asn_runningMemory a1) (sb_MemoryLimitMB s)\<rparr> else a1) in
      if sb_TenantID s \<noteq> tenantID then a2
      else
        (let a3 = (if isConcurrentStartStatus (sb_Status s)
                   then a2\<lparr>asn_tenantStarts := asn_tenantStarts a2 + 1\<rparr> else a2) in
         if isHeavyOperationStatus (sb_Status s) then a3\<lparr>asn_tenantHeavy := asn_tenantHeavy a3 + 1\<rparr> else a3))"

fun min_available :: "host \<Rightarrow> int \<Rightarrow> string list \<Rightarrow> goerr + int" where
  "min_available h result [] = Inr (if result < 0 then 0 else result)"
| "min_available h result (path # paths) =
     (if path = [] then min_available h result paths
      else (case h_Available h path of
              Inl e \<Rightarrow> Inl e
            | Inr available \<Rightarrow>
                min_available h (if result < 0 \<or> available < result then available else result) paths))"

definition minAvailableBytes :: "host \<Rightarrow> string list \<Rightarrow> goerr + int" where
  "minAvailableBytes h paths = min_available h (- 1) paths"

definition admissionSnapshot :: "'r service \<Rightarrow> string \<Rightarrow> (goerr, 'r world, admission_snapshot) eop" where
  "admissionSnapshot svc tenantID =
     bindE Store_ListNonDeletedSandboxes (\<lambda>sandboxes.
     bindE (Store_SnapshotCounts tenantID) (\<lambda>counts.
       (let a0 = \<lparr>asn_nodeSandboxes = 0, asn_nodeRunning = 0, asn_runningCPU = 0, asn_runningMemory = 0,
                  asn_freeStorage = - 1, asn_tenantStarts = 0, asn_tenantHeavy = 0\<rparr>;
            a1 = foldl (count_sandbox tenantID) a0 sandboxes;
            a2 = a1\<lparr>asn_tenantHeavy := asn_tenantHeavy a1 + count_at counts SnapshotCreating\<rparr> in
        if 0 < cfg_AdmissionMinNodeFreeStorageMB (svc_cfg svc) then
          bindE (liftE (minAvailableBytes (svc_host svc) [cfg_StorageRoot (svc_cfg svc), cfg_SnapshotRoot (svc_cfg svc)]))
            (\<lambda>free. okE (a2\<lparr>asn_freeStorage := free\<rparr>))
        else okE a2)))"

definition limit_text :: "string \<Rightarrow> int \<Rightarrow> int \<Rightarrow> string \<Rightarrow> string" where
  "limit_text what have limit unit = what @ '' ('' @ fmt_int have @ ''/'' @ fmt_int limit @ unit @ '')''"

definition evaluateAdmission :: "config \<Rightarrow> admission_snapshot \<Rightarrow> admission_delta \<Rightarrow> goerr option" where
  "evaluateAdmission c a dl =
     (let sandboxes = add64 (asn_nodeSandboxes a) (ad_nodeSandboxes dl);
          running = add64 (asn_nodeRunning a) (ad_nodeRunning dl);
          cpu = add64 (MilliValue (asn_runningCPU a)) (MilliValue (ad_runningCPU dl));
          memory = add64 (asn_runningMemory a) (ad_runningMemory dl);
          minFree = mul64 (mul64 (cfg_AdmissionMinNodeFreeStorageMB c) 1024) 1024;
          starts = add64 (asn_tenantStarts a) (ad_tenantStarts dl);
          heavy = add64 (asn_tenantHeavy a) (ad_tenantHeavy dl) in
      if 0 < cfg_AdmissionMaxNodeSandboxes c \<and> cfg_AdmissionMaxNodeSandboxes c < sandboxes then
        Some (AdmissionError (limit_text ''node sandbox admission limit reached'' sandboxes (cfg_AdmissionMaxNodeSandboxes c) []) True)
      else if 0 < cfg_AdmissionMaxNodeRunning c \<and> cfg_AdmissionMaxNodeRunning c < running then
        Some (AdmissionError (limit_text ''node running admission limit reached'' running (cfg_AdmissionMaxNodeRunning c) []) True)
      else if 0 < cfg_AdmissionMaxNodeCPU c \<and> MilliValue (cfg_AdmissionMaxNodeCPU c) < cpu then
        Some (AdmissionError (''node cpu admission limit reached ('' @ CPU_String cpu @ ''/''
          @ CPU_String (cfg_AdmissionMaxNodeCPU c) @ '')'') True)
      else if 0 < cfg_AdmissionMaxNodeMemoryMB c \<and> cfg_AdmissionMaxNodeMemoryMB c < memory then
        Some (AdmissionError (limit_text ''node memory admission limit reached'' memory (cfg_AdmissionMaxNodeMemoryMB c) '' MB'') True)
      else if 0 < cfg_AdmissionMinNodeFreeStorageMB c \<and> 0 \<le> asn_freeStorage a \<and> asn_freeStorage a < minFree then
        Some (AdmissionError (limit_text ''node free storage below admission floor'' (asn_freeStorage a) minFree '' bytes'') True)
      else if 0 < cfg_AdmissionMaxTenantStarts c \<and> cfg_AdmissionMaxTenantStarts c < starts then
        Some (AdmissionError (limit_text ''tenant concurrent start limit reached'' starts (cfg_AdmissionMaxTenantStarts c) []) True)
      else if 0 < cfg_AdmissionMaxTenantHeavyOps c \<and> cfg_AdmissionMaxTenantHeavyOps c < heavy then
        Some (AdmissionError (limit_text ''tenant heavy-operation limit reached'' heavy (cfg_AdmissionMaxTenantHeavyOps c) []) True)
      else None)"

definition is_retryable :: "goerr \<Rightarrow> bool" where
  "is_retryable e = (case e of AdmissionError m r \<Rightarrow> r | _ \<Rightarrow> False)"

definition enforceAdmission ::
  "'r service \<Rightarrow> string \<Rightarrow> string \<Rightarrow> string \<Rightarrow> admission_delta \<Rightarrow> (goerr, 'r world, unit) eop" where
  "enforceAdmission svc tenantID sandboxID action dl =
     (if \<not> admissionEnabled (svc_cfg svc) then okE ()
      else bindE (admissionSnapshot svc tenantID) (\<lambda>a.
        case evaluateAdmission (svc_cfg svc) a dl of
          None \<Rightarrow> okE ()
        | Some e \<Rightarrow>
            thenE (recordAudit tenantID sandboxID (''admission.'' @ action) sandboxID ''denied'' (auditDetail
                [auditKV ''reason'' (AStr (err_text e)), auditKV ''retryable'' (ABool (is_retryable e)),
                 auditKV ''node_sandboxes'' (AInt (asn_nodeSandboxes a)),
                 auditKV ''node_running'' (AInt (asn_nodeRunning a)),
                 auditKV ''tenant_starts'' (AInt (asn_tenantStarts a)),
                 auditKV ''tenant_heavy_ops'' (AInt (asn_tenantHeavy a))]))
              (failE e)))"

end
