(* ===== verification/Sandboxes.thy ===== *)
theory Sandboxes
  imports Policy
begin

text \<open>
  The sandbox lifecycle of \<open>internal/service/service.go\<close>: creation with its reservation and rollback,
  start, stop, suspend, resume and delete, with quotas, storage accounting and tunnel revocation. Each
  operation is the whole handler: every store call, runtime call, directory operation and audit record
  in the order of the code, with its early returns.
\<close>

section \<open>Storage accounting\<close>

definition auditStoragePressure :: "'r service \<Rightarrow> sandbox \<Rightarrow> storage_usage \<Rightarrow> (goerr, 'r world, unit) eop" where
  "auditStoragePressure svc s u =
     (let threshold = cfg_StorageWarningFileCount (svc_cfg svc);
          entries = add64 (add64 (add64 (su_RootfsEntries u) (su_WorkspaceEntries u)) (su_CacheEntries u))
                      (su_SnapshotEntries u) in
      if threshold \<le> 0 then okE ()
      else if entries \<le> threshold then okE ()
      else recordAudit (sb_TenantID s) (sb_ID s) ''sandbox.storage_pressure'' (sb_ID s) ''ok'' (auditDetail
        [auditKV ''entries'' (AInt entries), auditKV ''warning_threshold'' (AInt threshold),
         auditKV ''workspace_entries'' (AInt (su_WorkspaceEntries u)),
         auditKV ''cache_entries'' (AInt (su_CacheEntries u)),
         auditKV ''snapshot_entries'' (AInt (su_SnapshotEntries u))]))"

definition refreshStorage :: "'r service \<Rightarrow> sandbox \<Rightarrow> (goerr, 'r world, unit) eop" where
  "refreshStorage svc s =
     (let du = h_DirUsage (svc_host svc);
          snap = du (Join [cfg_SnapshotRoot (svc_cfg svc), sb_ID s]) in
      case rm_MeasureStorage (svc_runtime svc) of
        Some meas \<Rightarrow>
          bindE (rt_call (meas s)) (\<lambda>u.
            (let usage = u\<lparr>su_SnapshotBytes := add64 (su_SnapshotBytes u) (fst snap),
                           su_SnapshotEntries := add64 (su_SnapshotEntries u) (snd snap)\<rparr> in
             thenE (auditStoragePressure svc s usage) (Store_UpdateStorageUsage (sb_ID s) usage)))
      | None \<Rightarrow>
          (let rootfs = du (sb_StorageRoot s); workspace = du (sb_WorkspaceRoot s); cache = du (sb_CacheRoot s);
               scratch = du (scratchRootFromStorageRoot (sb_StorageRoot s));
               usage = \<lparr>su_RootfsBytes = fst rootfs, su_WorkspaceBytes = fst workspace,
                        su_CacheBytes = add64 (fst cache) (fst scratch), su_SnapshotBytes = fst snap,
                        su_RootfsEntries = snd rootfs, su_WorkspaceEntries = snd workspace,
                        su_CacheEntries = add64 (snd cache) (snd scratch), su_SnapshotEntries = snd snap\<rparr> in
           thenE (auditStoragePressure svc s usage) (Store_UpdateStorageUsage (sb_ID s) usage)))"

definition touchSandboxActivity :: "sandbox \<Rightarrow> (goerr, 'r world, unit) eop" where
  "touchSandboxActivity s =
     bindE now_utc (\<lambda>now. Store_UpdateSandboxState (s\<lparr>sb_LastActiveAt := now, sb_UpdatedAt := now\<rparr>))"

section \<open>Tunnel revocation\<close>

definition revoke_one :: "string \<Rightarrow> sandbox \<Rightarrow> string \<Rightarrow> tunnel \<Rightarrow> (goerr, 'r world, unit) eop" where
  "revoke_one tenantID s reason t =
     (if tun_RevokedAt t \<noteq> None then okE ()
      else thenE (Store_RevokeTunnel tenantID (tun_ID t))
          (thenE (Store_RevokeTunnelCapabilities (tun_ID t))
            (recordAudit tenantID (sb_ID s) ''tunnel.revoke'' (tun_ID t) ''ok''
              (auditDetail [auditKV ''reason'' (AStr reason), tunnelAuditDetail t]))))"

definition revokeActiveTunnels :: "string \<Rightarrow> sandbox \<Rightarrow> string \<Rightarrow> (goerr, 'r world, unit) eop" where
  "revokeActiveTunnels tenantID s reason =
     bindE (Store_ListTunnels tenantID (sb_ID s)) (\<lambda>tunnels. forE tunnels (revoke_one tenantID s reason))"

section \<open>Creation\<close>

definition applyCreateDefaults :: "'r service \<Rightarrow> create_request \<Rightarrow> create_request" where
  "applyCreateDefaults svc req =
     (let cfg = svc_cfg svc; backend = Backend (resolveRuntimeSelection svc req) in
      req\<lparr>cr_BaseImageRef := (if cr_BaseImageRef req = []
             then (if backend = ''qemu'' then cfg_QEMUBaseImagePath cfg else cfg_BaseImageRef cfg)
             else cr_BaseImageRef req),
          cr_Profile := (if cr_Profile req = no_profile \<and> backend = ''qemu'' then ProfileCore else cr_Profile req),
          cr_Features := NormalizeFeatures (cr_Features req),
          cr_Capabilities := NormalizeCapabilities (cr_Capabilities req),
          cr_CPULimit := (if cr_CPULimit req = 0 then cfg_DefaultCPULimit cfg else cr_CPULimit req),
          cr_MemoryLimitMB := (if cr_MemoryLimitMB req = 0 then cfg_DefaultMemoryLimitMB cfg else cr_MemoryLimitMB req),
          cr_PIDsLimit := (if cr_PIDsLimit req = 0 then cfg_DefaultPIDsLimit cfg else cr_PIDsLimit req),
          cr_DiskLimitMB := (if cr_DiskLimitMB req = 0 then cfg_DefaultDiskLimitMB cfg else cr_DiskLimitMB req),
          cr_NetworkMode := (if cr_NetworkMode req = OtherNetworkMode [] then cfg_DefaultNetworkMode cfg
                             else cr_NetworkMode req),
          cr_AllowTunnels := (if cr_AllowTunnels req = None then Some (cfg_DefaultAllowTunnels cfg)
                              else cr_AllowTunnels req)\<rparr>)"

definition validateCreate :: "create_request \<Rightarrow> goerr + unit" where
  "validateCreate req =
     (if cr_BaseImageRef req = [] then Inl (Err ''base_image_ref is required'')
      else if cr_Profile req \<noteq> no_profile \<and> \<not> profile_IsValid (cr_Profile req) then
        Inl (Err (''invalid guest profile '' @ quote (profile_string (cr_Profile req))))
      else if cr_CPULimit req \<le> 0 \<or> cr_MemoryLimitMB req \<le> 0 \<or> cr_PIDsLimit req \<le> 0 \<or> cr_DiskLimitMB req \<le> 0 then
        Inl (Err ''cpu, memory, pids, and disk limits must be positive'')
      else if cr_NetworkMode req \<noteq> InternetEnabled \<and> cr_NetworkMode req \<noteq> InternetDisabled then
        Inl (Err (''invalid network mode '' @ quote (network_mode_string (cr_NetworkMode req))))
      else Inr ())"

definition resolveQEMUBaseImageRef :: "'r service \<Rightarrow> string \<Rightarrow> goerr + string" where
  "resolveQEMUBaseImageRef svc value =
     (let normalized = normalizeQEMUBaseImageRef svc value in
      if normalized = [] then Inl (Err ''qemu runtime requires a guest image path'')
      else if \<not> h_Readable (svc_host svc) normalized then
        Inl (Err (''qemu guest image path '' @ quote normalized @ '' is not readable''))
      else if normalized \<in> set (EffectiveQEMUAllowedBaseImagePaths (svc_cfg svc)) then Inr normalized
      else Inl (Err (''qemu guest image path '' @ quote normalized @ '' is not allowed'')))"

definition validate_docker_create :: "'r service \<Rightarrow> create_request \<Rightarrow> goerr + create_request \<times> contract" where
  "validate_docker_create svc req =
     (let finish = (\<lambda>profile.
            if \<not> profile_IsValid profile then Inl (Err ''docker runtime requires a valid guest profile'')
            else Inr (req\<lparr>cr_Profile := profile, cr_Features := NormalizeFeatures (cr_Features req)\<rparr>, no_contract)) in
      case ResolveWithDockerLabels (svc_host svc) (cr_BaseImageRef req) of
        Inr metadata \<Rightarrow>
          (if cr_Profile req = no_profile then finish (dm_Profile metadata)
           else if cr_Profile req \<noteq> dm_Profile metadata then
             Inl (Err (''docker image profile '' @ quote (profile_string (dm_Profile metadata))
               @ '' does not match requested profile '' @ quote (profile_string (cr_Profile req))))
           else finish (cr_Profile req))
      | Inl e \<Rightarrow>
          (if e \<noteq> ErrMetadataUnavailable then Inl e
           else if cr_Profile req = no_profile then Inl e
           else finish (cr_Profile req)))"

definition validate_qemu_create :: "'r service \<Rightarrow> create_request \<Rightarrow> goerr + create_request \<times> contract" where
  "validate_qemu_create svc req =
     (if cr_Capabilities req \<noteq> [] then Inl (Err ''qemu runtime does not accept requested capability overrides'')
      else
        (case resolveQEMUBaseImageRef svc (cr_BaseImageRef req) of
           Inl e \<Rightarrow> Inl e
         | Inr resolved \<Rightarrow>
             (case Load (svc_host svc) resolved of
                Inl e \<Rightarrow> Inl e
              | Inr c \<Rightarrow>
                  (case Validate_contract (svc_host svc) resolved c of
                     Inl e \<Rightarrow> Inl e
                   | Inr _ \<Rightarrow>
                       (let profile = (if cr_Profile req = no_profile then gc_Profile c else cr_Profile req) in
                        if \<not> profile_IsValid profile then Inl (Err ''qemu runtime requires a valid guest profile'')
                        else if profile \<noteq> gc_Profile c then
                          Inl (Err (''guest image profile '' @ quote (profile_string (gc_Profile c))
                            @ '' does not match requested profile '' @ quote (profile_string profile)))
                        else if gc_ControlMode c = ControlSSHCompat \<and> \<not> cfg_QEMUAllowSSHCompat (svc_cfg svc) then
                          Inl (Err ''ssh-compat guest images are blocked by policy until SANDBOX_QEMU_ALLOW_SSH_COMPAT=true'')
                        else
                          (case RequestedFeaturesAllowed c (cr_Features req) of
                             Inl e \<Rightarrow> Inl e
                           | Inr _ \<Rightarrow>
                               Inr (req\<lparr>cr_BaseImageRef := resolved, cr_Profile := profile,
                                        cr_Features := NormalizeFeatures (cr_Features req)\<rparr>, c)))))))"

definition validateRuntimeCreate :: "'r service \<Rightarrow> create_request \<Rightarrow> goerr + create_request \<times> contract" where
  "validateRuntimeCreate svc req0 =
     (let req = req0\<lparr>cr_Capabilities := NormalizeCapabilities (cr_Capabilities req0)\<rparr>;
          backend = Backend (resolveRuntimeSelection svc req) in
      if backend = ''qemu'' \<and> go_mod (MilliValue (cr_CPULimit req)) 1000 \<noteq> 0 then
        Inl (Err ''qemu runtime requires whole CPU cores until fractional throttling is implemented'')
      else if backend = ''docker'' then validate_docker_create svc req
      else if backend \<noteq> ''qemu'' then Inr (req, no_contract)
      else validate_qemu_create svc req)"

definition resolvedCapabilities :: "'r service \<Rightarrow> create_request \<Rightarrow> contract \<Rightarrow> string list" where
  "resolvedCapabilities svc req c =
     (if Backend (resolveRuntimeSelection svc req) = ''qemu'' then gc_Capabilities c
      else NormalizeCapabilities (cr_Capabilities req))"

definition checkQuota :: "string \<Rightarrow> tenant_quota \<Rightarrow> create_request \<Rightarrow> (goerr, 'r world, unit) eop" where
  "checkQuota tenantID quota req =
     bindE (Store_TenantUsage tenantID) (\<lambda>usage.
       if q_MaxSandboxes quota \<le> tu_Sandboxes usage then failE (Err ''sandbox quota exceeded'')
       else if q_MaxCPUCores quota < add64 (tu_RequestedCPU usage) (cr_CPULimit req) then
         failE (Err ''cpu quota exceeded'')
       else if q_MaxMemoryMB quota < add64 (tu_RequestedMemory usage) (cr_MemoryLimitMB req) then
         failE (Err ''memory quota exceeded'')
       else if q_MaxStorageMB quota < add64 (tu_RequestedStorage usage) (cr_DiskLimitMB req) then
         failE (Err ''storage quota exceeded'')
       else if cr_AllowTunnels req = Some True \<and> \<not> q_AllowTunnels quota then
         failE (Err ''tenant tunnel policy denied'')
       else okE ())"

definition checkRunningQuota :: "string \<Rightarrow> tenant_quota \<Rightarrow> (goerr, 'r world, unit) eop" where
  "checkRunningQuota tenantID quota =
     bindE (Store_TenantUsage tenantID) (\<lambda>usage.
       if q_MaxRunningSandboxes quota \<le> tu_RunningSandboxes usage
       then failE (Err ''running sandbox quota exceeded'') else okE ())"

definition create_delta :: "create_request \<Rightarrow> admission_delta" where
  "create_delta req =
     (if cr_Start req then
        \<lparr>ad_nodeSandboxes = 1, ad_nodeRunning = 1, ad_runningCPU = cr_CPULimit req,
         ad_runningMemory = cr_MemoryLimitMB req, ad_tenantStarts = 1, ad_tenantHeavy = 1\<rparr>
      else \<lparr>ad_nodeSandboxes = 1, ad_nodeRunning = 0, ad_runningCPU = 0, ad_runningMemory = 0,
            ad_tenantStarts = 0, ad_tenantHeavy = 1\<rparr>)"

definition reserveSandboxCreate ::
  "'r service \<Rightarrow> string \<Rightarrow> tenant_quota \<Rightarrow> sandbox \<Rightarrow> create_request \<Rightarrow> (goerr, 'r world, unit) eop" where
  "reserveSandboxCreate svc tenantID quota s req =
     thenE (checkQuota tenantID quota req)
    (thenE (if cr_Start req then checkRunningQuota tenantID quota else okE ())
    (thenE (enforceAdmission svc tenantID (sb_ID s) ''create'' (create_delta req))
       (Store_CreateSandbox s)))"

definition new_sandbox ::
  "'r service \<Rightarrow> string \<Rightarrow> string \<Rightarrow> create_request \<Rightarrow> runtime_selection \<Rightarrow> contract \<Rightarrow> time \<Rightarrow> sandbox" where
  "new_sandbox svc tenantID sid req selection c now =
     (let baseDir = Join [cfg_StorageRoot (svc_cfg svc), sid];
          initialStatus = (if cr_Start req then StatusStarting else StatusCreating) in
      \<lparr>sb_ID = sid, sb_TenantID = tenantID, sb_Status = initialStatus, sb_RuntimeSelection = selection,
       sb_RuntimeBackend = Backend selection, sb_RuntimeClass = RuntimeClass selection,
       sb_BaseImageRef = cr_BaseImageRef req, sb_Profile = cr_Profile req,
       sb_Features = NormalizeFeatures (cr_Features req), sb_Capabilities = resolvedCapabilities svc req c,
       sb_ControlMode = gc_ControlMode c, sb_ControlProtocolVersion = gc_ProtocolVersion c,
       sb_WorkspaceContractVersion = gc_WorkspaceContractVersion c,
       sb_ImageContractVersion = gc_ContractVersion c, sb_CPULimit = cr_CPULimit req,
       sb_MemoryLimitMB = cr_MemoryLimitMB req, sb_PIDsLimit = cr_PIDsLimit req,
       sb_DiskLimitMB = cr_DiskLimitMB req, sb_NetworkMode = cr_NetworkMode req,
       sb_AllowTunnels = (cr_AllowTunnels req = Some True), sb_StorageRoot = Join [baseDir, ''rootfs''],
       sb_WorkspaceRoot = storageClassRoot baseDir StorageWorkspace,
       sb_CacheRoot = storageClassRoot baseDir StorageCache, sb_RuntimeID = sid,
       sb_RuntimeStatus = status_string initialStatus, sb_LastRuntimeError = [], sb_CreatedAt = now,
       sb_UpdatedAt = now, sb_LastActiveAt = now, sb_DeletedAt = None\<rparr>)"

definition spec_of :: "'r service \<Rightarrow> sandbox \<Rightarrow> sandbox_spec" where
  "spec_of svc s =
     (let baseDir = Join [cfg_StorageRoot (svc_cfg svc), sb_ID s] in
      \<lparr>sp_SandboxID = sb_ID s, sp_TenantID = sb_TenantID s, sp_RuntimeSelection = sb_RuntimeSelection s,
       sp_RuntimeBackend = sb_RuntimeBackend s, sp_RuntimeClass = sb_RuntimeClass s,
       sp_BaseImageRef = sb_BaseImageRef s, sp_Profile = sb_Profile s, sp_Features = sb_Features s,
       sp_Capabilities = sb_Capabilities s, sp_ControlMode = sb_ControlMode s,
       sp_ControlProtocolVersion = sb_ControlProtocolVersion s,
       sp_WorkspaceContractVersion = sb_WorkspaceContractVersion s,
       sp_ImageContractVersion = sb_ImageContractVersion s, sp_CPULimit = sb_CPULimit s,
       sp_MemoryLimitMB = sb_MemoryLimitMB s, sp_PIDsLimit = sb_PIDsLimit s,
       sp_DiskLimitMB = sb_DiskLimitMB s, sp_NetworkMode = sb_NetworkMode s,
       sp_AllowTunnels = sb_AllowTunnels s, sp_StorageRoot = sb_StorageRoot s,
       sp_WorkspaceRoot = sb_WorkspaceRoot s, sp_CacheRoot = sb_CacheRoot s,
       sp_ScratchRoot = storageClassRoot baseDir StorageScratch,
       sp_SecretsRoot = storageClassRoot baseDir StorageSecrets,
       sp_NetworkPolicy = buildNetworkPolicy (sb_NetworkMode s) (sb_AllowTunnels s)\<rparr>)"

definition rollbackFailedCreate ::
  "'r service \<Rightarrow> string \<Rightarrow> sandbox \<Rightarrow> string \<Rightarrow> bool \<Rightarrow> goerr \<Rightarrow> (goerr, 'r world, 'a) eop" where
  "rollbackFailedCreate svc tenantID s stage startRequested cause =
     tryE (thenE (rt_call (rm_Destroy (svc_runtime svc) s))
             (os_call (RemoveAll (Join [cfg_StorageRoot (svc_cfg svc), sb_ID s])))) (\<lambda>cleanup.
     bindE now_utc (\<lambda>now.
       (let clean = (case cleanup of Inl _ \<Rightarrow> False | Inr _ \<Rightarrow> True);
            s1 = s\<lparr>sb_LastRuntimeError := err_text cause, sb_UpdatedAt := now, sb_LastActiveAt := now\<rparr>;
            s2 = (if clean then s1\<lparr>sb_Status := StatusDeleted, sb_RuntimeStatus := status_string StatusDeleted,
                                   sb_DeletedAt := Some now\<rparr>
                  else s1\<lparr>sb_Status := StatusError, sb_RuntimeStatus := status_string StatusError\<rparr>) in
        ignoreE (Store_UpdateSandboxState s2)
       (thenE (recordAudit tenantID (sb_ID s) ''sandbox.create'' (sb_ID s) ''error'' (auditDetail
            [auditKV ''stage'' (AStr stage), auditKV ''start_requested'' (ABool startRequested),
             auditKV ''rollback'' (ABool clean)]))
         (failE cause)))))"

definition create_dirs :: "string \<Rightarrow> string list" where
  "create_dirs baseDir = [Join [baseDir, ''rootfs''], storageClassRoot baseDir StorageWorkspace,
     storageClassRoot baseDir StorageCache, storageClassRoot baseDir StorageScratch,
     storageClassRoot baseDir StorageSecrets]"

text \<open>The part of \<open>CreateSandbox\<close> after the reservation.\<close>

definition provision :: "'r service \<Rightarrow> string \<Rightarrow> create_request \<Rightarrow> sandbox \<Rightarrow> (goerr, 'r world, sandbox) eop" where
  "provision svc tenantID req s =
     tryE (rt_call (rm_Create (svc_runtime svc) (spec_of svc s))) (\<lambda>created.
     case created of
       Inl e \<Rightarrow> rollbackFailedCreate svc tenantID s ''runtime_create'' (cr_Start req) e
     | Inr state0 \<Rightarrow>
         tryE (if cr_Start req then rt_call (rm_Start (svc_runtime svc) s) else okE state0) (\<lambda>started.
         case started of
           Inl e \<Rightarrow> rollbackFailedCreate svc tenantID s ''runtime_start'' True e
         | Inr state \<Rightarrow>
             bindE now_utc (\<lambda>now.
             (let s' = s\<lparr>sb_Status := (if cr_Start req then StatusRunning else StatusStopped),
                         sb_RuntimeStatus := status_string (rs_Status state),
                         sb_UpdatedAt := now, sb_LastActiveAt := now\<rparr> in
              tryE (Store_UpdateSandboxState s') (\<lambda>r1.
              case r1 of
                Inl e \<Rightarrow> rollbackFailedCreate svc tenantID s' ''persist_sandbox_state'' (cr_Start req) e
              | Inr _ \<Rightarrow>
                  tryE (Store_UpdateRuntimeState (sb_ID s') state) (\<lambda>r2.
                  case r2 of
                    Inl e \<Rightarrow> rollbackFailedCreate svc tenantID s' ''persist_runtime_state'' (cr_Start req) e
                  | Inr _ \<Rightarrow>
                      thenE (refreshStorage svc s')
                     (thenE (recordAudit tenantID (sb_ID s') ''sandbox.create'' (sb_ID s') ''ok'' (auditDetail
                         [auditKV ''runtime'' (AStr (sb_RuntimeBackend s')),
                          auditKV ''runtime_selection'' (ARaw (selection_string (sb_RuntimeSelection s'))),
                          auditKV ''base_image_ref'' (AStr (sb_BaseImageRef s')),
                          auditKV ''start_requested'' (ABool (cr_Start req)),
                          auditKV ''allow_tunnels'' (ABool (sb_AllowTunnels s')),
                          networkPolicyAuditDetail (buildNetworkPolicy (sb_NetworkMode s') (sb_AllowTunnels s'))]))
                       (Store_GetSandbox tenantID (sb_ID s')))))))))"

definition CreateSandbox ::
  "'r service \<Rightarrow> tenant \<Rightarrow> tenant_quota \<Rightarrow> create_request \<Rightarrow> (goerr, 'r world, sandbox) eop" where
  "CreateSandbox svc tenant quota req0 =
     (let req1 = applyCreateDefaults svc req0; selection = resolveRuntimeSelection svc req1;
          t = tn_ID tenant in
      if \<not> IsRuntimeSelectionEnabled (svc_cfg svc) selection then
        (let message = ''runtime selection '' @ quote (selection_string selection) @ '' is not enabled'' in
         denied t [] ''policy.create'' (selection_string selection) message message)
      else
        thenE (liftE (validateCreate req1))
       (bindE (liftE (validateRuntimeCreate svc req1)) (\<lambda>(req, c).
        thenE (enforceCreatePolicy svc t req c)
       (bindE (newID ''sbx-'') (\<lambda>sid.
        (let baseDir = Join [cfg_StorageRoot (svc_cfg svc), sid] in
         thenE (forE (create_dirs baseDir) (\<lambda>dir. os_call (MkdirAll dir)))
        (bindE now_utc (\<lambda>now.
         (let s = new_sandbox svc t sid req selection c now in
          tryE (reserveSandboxCreate svc t quota s req) (\<lambda>reserved.
          case reserved of
            Inl e \<Rightarrow> ignoreE (os_call (RemoveAll baseDir)) (failE e)
          | Inr _ \<Rightarrow> provision svc t req s))))))))))"

section \<open>Lifecycle transitions\<close>

definition start_delta :: "sandbox \<Rightarrow> admission_delta" where
  "start_delta s = \<lparr>ad_nodeSandboxes = 0, ad_nodeRunning = 1, ad_runningCPU = sb_CPULimit s,
     ad_runningMemory = sb_MemoryLimitMB s, ad_tenantStarts = 1, ad_tenantHeavy = 1\<rparr>"

definition reserveLifecycleTransition ::
  "'r service \<Rightarrow> string \<Rightarrow> string \<Rightarrow> string \<Rightarrow> tenant_quota option \<Rightarrow> sandbox_status
     \<Rightarrow> (sandbox \<Rightarrow> admission_delta) \<Rightarrow> (goerr, 'r world, sandbox) eop" where
  "reserveLifecycleTransition svc tenantID sandboxID action quota transitional dl =
     bindE (Store_GetSandbox tenantID sandboxID) (\<lambda>s.
     thenE (enforceLifecyclePolicy svc s action)
    (thenE (case quota of None \<Rightarrow> okE () | Some q \<Rightarrow> checkRunningQuota tenantID q)
    (thenE (enforceAdmission svc tenantID (sb_ID s) action (dl s))
    (bindE now_utc (\<lambda>now.
     (let s' = s\<lparr>sb_Status := transitional, sb_RuntimeStatus := status_string transitional, sb_UpdatedAt := now\<rparr> in
      thenE (Store_UpdateSandboxState s') (okE s')))))))"

definition fail_transition ::
  "string \<Rightarrow> sandbox \<Rightarrow> string \<Rightarrow> string list \<Rightarrow> goerr \<Rightarrow> (goerr, 'r world, 'a) eop" where
  "fail_transition tenantID s auditAction details e =
     bindE now_utc (\<lambda>now.
     ignoreE (Store_UpdateSandboxState (s\<lparr>sb_Status := StatusError, sb_RuntimeStatus := status_string StatusError,
         sb_LastRuntimeError := err_text e, sb_UpdatedAt := now\<rparr>))
    (thenE (recordAudit tenantID (sb_ID s) auditAction (sb_ID s) ''error'' (auditDetail details))
       (failE e)))"

definition finish_transition ::
  "'r service \<Rightarrow> string \<Rightarrow> sandbox \<Rightarrow> string \<Rightarrow> string list \<Rightarrow> sandbox_status \<Rightarrow> runtime_state
     \<Rightarrow> (goerr, 'r world, sandbox) eop" where
  "finish_transition svc tenantID s auditAction details finalStatus state =
     bindE now_utc (\<lambda>now.
     (let s' = s\<lparr>sb_Status := finalStatus, sb_RuntimeStatus := status_string (rs_Status state),
                 sb_UpdatedAt := now, sb_LastActiveAt := now\<rparr> in
      thenE (Store_UpdateSandboxState s')
     (thenE (Store_UpdateRuntimeState (sb_ID s') state)
     (thenE (refreshStorage svc s')
     (thenE (recordAudit tenantID (sb_ID s') auditAction (sb_ID s') ''ok'' (auditDetail details))
       (okE s'))))))"

definition transition_details :: "sandbox_status \<Rightarrow> string \<Rightarrow> sandbox_status \<Rightarrow> string list" where
  "transition_details transitional key finalStatus =
     [auditKV ''transitional_status'' (ARaw (status_string transitional)),
      auditKV key (ARaw (status_string finalStatus))]"

definition executeReservedTransition ::
  "'r service \<Rightarrow> string \<Rightarrow> sandbox \<Rightarrow> string \<Rightarrow> sandbox_status \<Rightarrow> sandbox_status
     \<Rightarrow> (sandbox \<Rightarrow> ('r, runtime_state) rt_op) \<Rightarrow> (goerr, 'r world, sandbox) eop" where
  "executeReservedTransition svc tenantID s auditAction transitional finalStatus action =
     tryE (rt_call (action s)) (\<lambda>result.
     case result of
       Inl e \<Rightarrow> fail_transition tenantID s auditAction (transition_details transitional ''requested_status'' finalStatus) e
     | Inr state \<Rightarrow>
         thenE (finish_transition svc tenantID s auditAction
                  (transition_details transitional ''result_status'' finalStatus) finalStatus state)
           (Store_GetSandbox tenantID (sb_ID s)))"

definition StartSandbox ::
  "'r service \<Rightarrow> string \<Rightarrow> string \<Rightarrow> tenant_quota \<Rightarrow> (goerr, 'r world, sandbox) eop" where
  "StartSandbox svc tenantID sandboxID quota =
     bindE (reserveLifecycleTransition svc tenantID sandboxID ''start'' (Some quota) StatusStarting start_delta) (\<lambda>s.
       executeReservedTransition svc tenantID s ''sandbox.start'' StatusStarting StatusRunning
         (rm_Start (svc_runtime svc)))"

definition ResumeSandbox ::
  "'r service \<Rightarrow> string \<Rightarrow> string \<Rightarrow> tenant_quota \<Rightarrow> (goerr, 'r world, sandbox) eop" where
  "ResumeSandbox svc tenantID sandboxID quota =
     bindE (reserveLifecycleTransition svc tenantID sandboxID ''resume'' (Some quota) StatusStarting start_delta) (\<lambda>s.
       executeReservedTransition svc tenantID s ''sandbox.resume'' StatusStarting StatusRunning
         (rm_Resume (svc_runtime svc)))"

definition enter_transition :: "sandbox \<Rightarrow> sandbox_status \<Rightarrow> (goerr, 'r world, sandbox) eop" where
  "enter_transition s transitional =
     bindE now_utc (\<lambda>now.
     (let s' = s\<lparr>sb_Status := transitional, sb_RuntimeStatus := status_string transitional, sb_UpdatedAt := now\<rparr> in
      thenE (Store_UpdateSandboxState s') (okE s')))"

definition transitionSandbox ::
  "'r service \<Rightarrow> string \<Rightarrow> string \<Rightarrow> string \<Rightarrow> sandbox_status
     \<Rightarrow> (sandbox \<Rightarrow> ('r, runtime_state) rt_op) \<Rightarrow> sandbox_status \<Rightarrow> (goerr, 'r world, sandbox) eop" where
  "transitionSandbox svc tenantID sandboxID auditAction transitional action finalStatus =
     bindE (Store_GetSandbox tenantID sandboxID) (\<lambda>s0.
     bindE (enter_transition s0 transitional) (\<lambda>s.
     tryE (rt_call (action s)) (\<lambda>result.
     case result of
       Inl e \<Rightarrow> fail_transition tenantID s auditAction (transition_details transitional ''requested_status'' finalStatus) e
     | Inr state \<Rightarrow>
         bindE (finish_transition svc tenantID s auditAction
                  (transition_details transitional ''result_status'' finalStatus) finalStatus state) (\<lambda>s'.
         thenE (if finalStatus = StatusSuspended then revokeActiveTunnels tenantID s' ''sandbox_suspend'' else okE ())
           (Store_GetSandbox tenantID (sb_ID s'))))))"

definition SuspendSandbox :: "'r service \<Rightarrow> string \<Rightarrow> string \<Rightarrow> (goerr, 'r world, sandbox) eop" where
  "SuspendSandbox svc tenantID sandboxID =
     transitionSandbox svc tenantID sandboxID ''sandbox.suspend'' StatusSuspending
       (rm_Suspend (svc_runtime svc)) StatusSuspended"

definition StopSandbox :: "'r service \<Rightarrow> string \<Rightarrow> string \<Rightarrow> bool \<Rightarrow> (goerr, 'r world, sandbox) eop" where
  "StopSandbox svc tenantID sandboxID force =
     bindE (Store_GetSandbox tenantID sandboxID) (\<lambda>s0.
     bindE (enter_transition s0 StatusStopping) (\<lambda>s.
     tryE (rt_call (rm_Stop (svc_runtime svc) s force)) (\<lambda>result.
     case result of
       Inl e \<Rightarrow> fail_transition tenantID s ''sandbox.stop''
           [auditKV ''force'' (ABool force), auditKV ''requested_status'' (ARaw (status_string StatusStopped))] e
     | Inr state \<Rightarrow>
         bindE (finish_transition svc tenantID s ''sandbox.stop''
                  [auditKV ''force'' (ABool force), auditKV ''result_status'' (ARaw (status_string StatusStopped))]
                  StatusStopped state) (\<lambda>s'.
         thenE (revokeActiveTunnels tenantID s' ''sandbox_stop'')
           (Store_GetSandbox tenantID (sb_ID s'))))))"

section \<open>Deletion\<close>

text \<open>
  After a stop the row is read again and the error of that read is ignored, so that \<open>sandbox\<close> is the
  zero value when the read fails.
\<close>

definition zero_sandbox :: sandbox where
  "zero_sandbox = \<lparr>sb_ID = [], sb_TenantID = [], sb_Status = StatusOther [], sb_RuntimeSelection = no_selection,
     sb_RuntimeBackend = [], sb_RuntimeClass = no_class, sb_BaseImageRef = [], sb_Profile = no_profile,
     sb_Features = [], sb_Capabilities = [], sb_ControlMode = no_control_mode, sb_ControlProtocolVersion = [],
     sb_WorkspaceContractVersion = [], sb_ImageContractVersion = [], sb_CPULimit = 0, sb_MemoryLimitMB = 0,
     sb_PIDsLimit = 0, sb_DiskLimitMB = 0, sb_NetworkMode = OtherNetworkMode [], sb_AllowTunnels = False,
     sb_StorageRoot = [], sb_WorkspaceRoot = [], sb_CacheRoot = [], sb_RuntimeID = [], sb_RuntimeStatus = [],
     sb_LastRuntimeError = [], sb_CreatedAt = zero_time, sb_UpdatedAt = zero_time, sb_LastActiveAt = zero_time,
     sb_DeletedAt = None\<rparr>"

definition stop_before_delete ::
  "'r service \<Rightarrow> string \<Rightarrow> string \<Rightarrow> sandbox \<Rightarrow> (goerr, 'r world, sandbox) eop" where
  "stop_before_delete svc tenantID sandboxID s =
     (if sb_Status s = StatusRunning \<or> sb_Status s = StatusSuspended then
        thenE (StopSandbox svc tenantID sandboxID True)
          (tryE (Store_GetSandbox tenantID sandboxID) (\<lambda>r.
             okE (case r of Inl _ \<Rightarrow> zero_sandbox | Inr s' \<Rightarrow> s')))
      else okE s)"

definition delete_details :: "sandbox \<Rightarrow> bool \<Rightarrow> string list" where
  "delete_details s preserveSnapshots =
     [auditKV ''preserve_snapshots'' (ABool preserveSnapshots),
      auditKV ''runtime_selection'' (ARaw (selection_string (resolvedSandboxRuntimeSelection s)))]"

definition finish_delete :: "'r service \<Rightarrow> string \<Rightarrow> bool \<Rightarrow> sandbox \<Rightarrow> (goerr, 'r world, unit) eop" where
  "finish_delete svc tenantID preserveSnapshots s1 =
     bindE (enter_transition s1 StatusDeleting) (\<lambda>s.
     tryE (rt_call (rm_Destroy (svc_runtime svc) s)) (\<lambda>destroyed.
     case destroyed of
       Inl e \<Rightarrow> fail_transition tenantID s ''sandbox.delete'' (delete_details s preserveSnapshots) e
     | Inr _ \<Rightarrow>
         thenE (os_call (RemoveAll (Join [cfg_StorageRoot (svc_cfg svc), sb_ID s])))
        (ignoreE (if preserveSnapshots then okE ()
                  else os_call (RemoveAll (Join [cfg_SnapshotRoot (svc_cfg svc), sb_ID s])))
        (bindE now_utc (\<lambda>now.
         thenE (Store_UpdateSandboxState (s\<lparr>sb_Status := StatusDeleted, sb_RuntimeStatus := status_string StatusDeleted,
                  sb_UpdatedAt := now, sb_LastActiveAt := now, sb_DeletedAt := Some now\<rparr>))
          (recordAudit tenantID (sb_ID s) ''sandbox.delete'' (sb_ID s) ''ok''
            (auditDetail (delete_details s preserveSnapshots))))))))"

definition DeleteSandbox :: "'r service \<Rightarrow> string \<Rightarrow> string \<Rightarrow> bool \<Rightarrow> (goerr, 'r world, unit) eop" where
  "DeleteSandbox svc tenantID sandboxID preserveSnapshots =
     bindE (Store_GetSandbox tenantID sandboxID) (\<lambda>s0.
     thenE (revokeActiveTunnels tenantID s0 ''sandbox_delete'')
    (bindE (stop_before_delete svc tenantID sandboxID s0) (finish_delete svc tenantID preserveSnapshots)))"

section \<open>Reads\<close>

definition GetSandbox :: "string \<Rightarrow> string \<Rightarrow> (goerr, 'r world, sandbox) eop" where
  "GetSandbox tenantID sandboxID = Store_GetSandbox tenantID sandboxID"

definition ListSandboxes :: "string \<Rightarrow> (goerr, 'r world, sandbox list) eop" where
  "ListSandboxes tenantID = Store_ListSandboxes tenantID"

end
