(* ===== verification/Encoding.thy ===== *)
theory Encoding
  imports Model
begin

text \<open>
  The two byte encodings of the Go standard library that the workspace file operations call:
  \<open>base64.StdEncoding\<close> (encoder and the strict-padding decoder with its error positions) and
  \<open>utf8.Valid\<close>. The decoder reads one character at a time and keeps the values of the current
  quantum, as \<open>decodeQuantum\<close> does; line breaks are skipped.
\<close>

section \<open>Base64\<close>

definition b64_char :: "nat \<Rightarrow> char" where
  "b64_char k = char_of (if k < 26 then k + 65 else if k < 52 then k + 71 else if k < 62 then k - 4
                         else if k = 62 then 43 else 47)"

definition b64_value :: "char \<Rightarrow> nat option" where
  "b64_value c = (let n = (of_char c :: nat) in
     if 65 \<le> n \<and> n \<le> 90 then Some (n - 65) else if 97 \<le> n \<and> n \<le> 122 then Some (n - 71)
     else if 48 \<le> n \<and> n \<le> 57 then Some (n + 4) else if n = 43 then Some 62
     else if n = 47 then Some 63 else None)"

fun b64_encode :: "nat list \<Rightarrow> string" where
  "b64_encode [] = []"
| "b64_encode [a] = [b64_char (a div 4), b64_char (a mod 4 * 16), CHR ''='', CHR ''='']"
| "b64_encode [a, b] =
     [b64_char (a div 4), b64_char (a mod 4 * 16 + b div 16), b64_char (b mod 16 * 4), CHR ''='']"
| "b64_encode (a # b # c # rest) =
     [b64_char (a div 4), b64_char (a mod 4 * 16 + b div 16), b64_char (b mod 16 * 4 + c div 64),
      b64_char (c mod 64)] @ b64_encode rest"

definition EncodeToString :: "string \<Rightarrow> string" where
  "EncodeToString s = b64_encode (map of_char s)"

definition corrupt :: "nat \<Rightarrow> goerr" where
  "corrupt si = Err (''illegal base64 data at input byte '' @ fmt_nat si)"

definition is_newline :: "char \<Rightarrow> bool" where "is_newline c \<longleftrightarrow> c = CHR 0x0A \<or> c = CHR 0x0D"

fun skip_newlines :: "nat \<Rightarrow> string \<Rightarrow> nat \<times> string" where
  "skip_newlines si [] = (si, [])"
| "skip_newlines si (c # r) = (if is_newline c then skip_newlines (Suc si) r else (si, c # r))"

fun quantum_bytes :: "nat list \<Rightarrow> nat list" where
  "quantum_bytes [a, b] = [a * 4 + b div 16]"
| "quantum_bytes [a, b, c] = [a * 4 + b div 16, b mod 16 * 16 + c div 4]"
| "quantum_bytes [a, b, c, d] = [a * 4 + b div 16, b mod 16 * 16 + c div 4, c mod 4 * 64 + d]"
| "quantum_bytes _ = []"

text \<open>What follows the first padding character: a second one after two values, then nothing.\<close>

definition finish_padding :: "nat list \<Rightarrow> nat \<Rightarrow> string \<Rightarrow> goerr + nat list" where
  "finish_padding vals si r =
     (let final = (\<lambda>(si2, r2). if r2 = [] then Inr (quantum_bytes vals) else Inl (corrupt si2)) in
      if length vals < 2 then Inl (corrupt si)
      else if length vals = 2 then
        (case skip_newlines (Suc si) r of
           (si1, []) \<Rightarrow> Inl (corrupt si1)
         | (si1, c # r1) \<Rightarrow>
             if c \<noteq> CHR ''='' then Inl (corrupt (si1 - 1)) else final (skip_newlines (Suc si1) r1))
      else final (skip_newlines (Suc si) r))"

fun b64_decode :: "nat list \<Rightarrow> nat \<Rightarrow> string \<Rightarrow> goerr + nat list" where
  "b64_decode vals si [] = (if vals = [] then Inr [] else Inl (corrupt (si - length vals)))"
| "b64_decode vals si (c # r) =
     (case b64_value c of
        Some v \<Rightarrow>
          (if length vals = 3
           then (case b64_decode [] (Suc si) r of
                   Inl e \<Rightarrow> Inl e
                 | Inr bytes \<Rightarrow> Inr (quantum_bytes (vals @ [v]) @ bytes))
           else b64_decode (vals @ [v]) (Suc si) r)
      | None \<Rightarrow>
          (if is_newline c then b64_decode vals (Suc si) r
           else if c \<noteq> CHR ''='' then Inl (corrupt si)
           else finish_padding vals si r))"

definition DecodeString :: "string \<Rightarrow> goerr + string" where
  "DecodeString s = (case b64_decode [] 0 s of Inl e \<Rightarrow> Inl e | Inr ns \<Rightarrow> Inr (map char_of ns))"

section \<open>UTF-8\<close>

definition cont :: "nat \<Rightarrow> bool" where "cont b \<longleftrightarrow> 128 \<le> b \<and> b \<le> 191"

fun utf8_bytes :: "nat list \<Rightarrow> bool" where
  "utf8_bytes [] = True"
| "utf8_bytes (a # rest) =
     (if a < 128 then utf8_bytes rest
      else if 194 \<le> a \<and> a \<le> 223 then
        (case rest of b # r \<Rightarrow> cont b \<and> utf8_bytes r | _ \<Rightarrow> False)
      else if 224 \<le> a \<and> a \<le> 239 then
        (case rest of
           b # c # r \<Rightarrow> cont b \<and> (a = 224 \<longrightarrow> 160 \<le> b) \<and> (a = 237 \<longrightarrow> b \<le> 159) \<and> cont c \<and> utf8_bytes r
         | _ \<Rightarrow> False)
      else if 240 \<le> a \<and> a \<le> 244 then
        (case rest of
           b # c # d # r \<Rightarrow>
             cont b \<and> (a = 240 \<longrightarrow> 144 \<le> b) \<and> (a = 244 \<longrightarrow> b \<le> 143) \<and> cont c \<and> cont d \<and> utf8_bytes r
         | _ \<Rightarrow> False)
      else False)"

definition utf8_Valid :: "string \<Rightarrow> bool" where
  "utf8_Valid s = utf8_bytes (map of_char s)"

section \<open>Facts\<close>

lemma b64_value_char [simp]: "k < 64 \<Longrightarrow> b64_value (b64_char k) = Some k"
  by (auto simp: b64_value_def b64_char_def Let_def)

lemma b64_value_pad [simp]: "b64_value (CHR ''='') = None"
  by (simp add: b64_value_def)

lemma is_newline_pad [simp]: "\<not> is_newline (CHR ''='')"
  by (simp add: is_newline_def)

lemma sextets:
  assumes "a < 256" "b < 256" "c < (256 :: nat)"
  shows "a div 4 < 64" "a mod 4 * 16 < 64" "a mod 4 * 16 + b div 16 < 64" "b mod 16 * 4 < 64"
    "b mod 16 * 4 + c div 64 < 64"
proof -
  have d: "a div 4 < 64" "b div 16 < 16" "c div 64 < 4"
    using assms by (simp_all add: div_less_iff_less_mult)
  moreover have "a mod 4 < 4" "b mod 16 < 16" by simp_all
  ultimately show "a div 4 < 64" "a mod 4 * 16 < 64" "a mod 4 * 16 + b div 16 < 64" "b mod 16 * 4 < 64"
    "b mod 16 * 4 + c div 64 < 64" by linarith+
qed

lemma triple_bytes:
  assumes "a < 256" "b < 256" "c < (256 :: nat)"
  shows "quantum_bytes [a div 4, a mod 4 * 16 + b div 16, b mod 16 * 4 + c div 64, c mod 64] = [a, b, c]"
proof -
  have "b div 16 < 16" "c div 64 < 4" using assms by (simp_all add: div_less_iff_less_mult)
  then have "(a mod 4 * 16 + b div 16) div 16 = a mod 4" "(a mod 4 * 16 + b div 16) mod 16 = b div 16"
    "(b mod 16 * 4 + c div 64) div 4 = b mod 16" "(b mod 16 * 4 + c div 64) mod 4 = c div 64"
    by simp_all
  then show ?thesis by simp
qed

lemma decode_encode_bytes: "\<forall>n \<in> set ns. n < 256 \<Longrightarrow> b64_decode [] si (b64_encode ns) = Inr ns"
proof (induction ns arbitrary: si rule: b64_encode.induct)
  case (2 a)
  then show ?case using sextets [of a 0 0] by (simp add: finish_padding_def)
next
  case (3 a b)
  then have l: "a div 4 < 64" "a mod 4 * 16 + b div 16 < 64" "b mod 16 * 4 < 64"
    using sextets [of a b 0] by simp_all
  have "b div 16 < 16" using 3 by (simp add: div_less_iff_less_mult)
  then have "(a mod 4 * 16 + b div 16) div 16 = a mod 4" "(a mod 4 * 16 + b div 16) mod 16 = b div 16"
    by simp_all
  with l show ?case by (simp add: finish_padding_def)
next
  case (4 a b c rest)
  then have l: "a div 4 < 64" "a mod 4 * 16 + b div 16 < 64" "b mod 16 * 4 + c div 64 < 64" "c mod 64 < 64"
    using sextets [of a b c] by simp_all
  have "quantum_bytes [a div 4, a mod 4 * 16 + b div 16, b mod 16 * 4 + c div 64, c mod 64] = [a, b, c]"
    using "4.prems" by (intro triple_bytes) simp_all
  with l "4.IH" "4.prems" show ?case by simp
qed simp

lemma DecodeString_EncodeToString [simp]: "DecodeString (EncodeToString s) = Inr s"
  using decode_encode_bytes [of "map of_char s" 0]
  by (simp add: DecodeString_def EncodeToString_def o_def)

lemma b64_length: "length (b64_encode ns) = 4 * ((length ns + 2) div 3)"
proof (induction ns rule: b64_encode.induct)
  case (4 a b c rest)
  have "(length rest + 5) div 3 = (length rest + 2) div 3 + 1" by presburger
  with 4 show ?case by (simp add: add.commute)
qed simp_all

lemma EncodeToString_Nil [simp]: "EncodeToString s = [] \<longleftrightarrow> s = []"
  using b64_length [of "map of_char s"] by (cases s) (auto simp: EncodeToString_def)

lemma utf8_ascii: "\<forall>c \<in> set s. (of_char c :: nat) < 128 \<Longrightarrow> utf8_Valid s"
  unfolding utf8_Valid_def by (induction s) simp_all

section \<open>The URL alphabet without padding\<close>

text \<open>
  \<open>base64.RawURLEncoding\<close>: the last two digits are a hyphen and an underscore, and a short final group is
  written without padding. A padding character is not a digit, so it is an error like any other.
\<close>

definition url64_char :: "nat \<Rightarrow> char" where
  "url64_char k = (if k = 62 then CHR ''-'' else if k = 63 then CHR ''_'' else b64_char k)"

definition url64_value :: "char \<Rightarrow> nat option" where
  "url64_value c = (if c = CHR ''-'' then Some 62 else if c = CHR ''_'' then Some 63
     else if c = CHR ''+'' \<or> c = CHR ''/'' then None else b64_value c)"

fun raw64_encode :: "nat list \<Rightarrow> string" where
  "raw64_encode [] = []"
| "raw64_encode [a] = [url64_char (a div 4), url64_char (a mod 4 * 16)]"
| "raw64_encode [a, b] = [url64_char (a div 4), url64_char (a mod 4 * 16 + b div 16), url64_char (b mod 16 * 4)]"
| "raw64_encode (a # b # c # rest) =
     [url64_char (a div 4), url64_char (a mod 4 * 16 + b div 16), url64_char (b mod 16 * 4 + c div 64),
      url64_char (c mod 64)] @ raw64_encode rest"

fun raw64_decode :: "nat list \<Rightarrow> nat \<Rightarrow> string \<Rightarrow> goerr + nat list" where
  "raw64_decode vals si [] =
     (if length vals = 1 then Inl (corrupt (si - 1)) else Inr (quantum_bytes vals))"
| "raw64_decode vals si (c # r) =
     (case url64_value c of
        Some v \<Rightarrow>
          (if length vals = 3
           then (case raw64_decode [] (Suc si) r of
                   Inl e \<Rightarrow> Inl e | Inr bytes \<Rightarrow> Inr (quantum_bytes (vals @ [v]) @ bytes))
           else raw64_decode (vals @ [v]) (Suc si) r)
      | None \<Rightarrow> if is_newline c then raw64_decode vals (Suc si) r else Inl (corrupt si))"

definition RawURL_EncodeToString :: "string \<Rightarrow> string" where
  "RawURL_EncodeToString s = raw64_encode (map of_char s)"

definition RawURL_DecodeString :: "string \<Rightarrow> goerr + string" where
  "RawURL_DecodeString s = (case raw64_decode [] 0 s of Inl e \<Rightarrow> Inl e | Inr ns \<Rightarrow> Inr (map char_of ns))"

lemma url64_digits: "\<forall>k \<in> set [0 ..< 64]. url64_value (url64_char k) = Some k \<and> url64_char k \<noteq> CHR ''.'' \<and> \<not> is_space (url64_char k)"
  by code_simp

lemma url64_value_char [simp]: "k < 64 \<Longrightarrow> url64_value (url64_char k) = Some k"
  using url64_digits by simp

lemma raw_decode_encode_bytes: "\<forall>n \<in> set ns. n < 256 \<Longrightarrow> raw64_decode [] si (raw64_encode ns) = Inr ns"
proof (induction ns arbitrary: si rule: raw64_encode.induct)
  case (2 a)
  then show ?case using sextets [of a 0 0] by simp
next
  case (3 a b)
  then have l: "a div 4 < 64" "a mod 4 * 16 + b div 16 < 64" "b mod 16 * 4 < 64"
    using sextets [of a b 0] by simp_all
  have "b div 16 < 16" using 3 by (simp add: div_less_iff_less_mult)
  then have "(a mod 4 * 16 + b div 16) div 16 = a mod 4" "(a mod 4 * 16 + b div 16) mod 16 = b div 16"
    by simp_all
  with l show ?case by simp
next
  case (4 a b c rest)
  then have l: "a div 4 < 64" "a mod 4 * 16 + b div 16 < 64" "b mod 16 * 4 + c div 64 < 64" "c mod 64 < 64"
    using sextets [of a b c] by simp_all
  have "quantum_bytes [a div 4, a mod 4 * 16 + b div 16, b mod 16 * 4 + c div 64, c mod 64] = [a, b, c]"
    using "4.prems" by (intro triple_bytes) simp_all
  with l "4.IH" "4.prems" show ?case by simp
qed simp

lemma RawURL_roundtrip [simp]: "RawURL_DecodeString (RawURL_EncodeToString s) = Inr s"
  using raw_decode_encode_bytes [of "map of_char s" 0]
  by (simp add: RawURL_DecodeString_def RawURL_EncodeToString_def o_def)

lemma raw64_encode_chars:
  "\<forall>n \<in> set ns. n < 256 \<Longrightarrow> c \<in> set (raw64_encode ns) \<Longrightarrow> \<exists>k < 64. c = url64_char k"
proof (induction ns rule: raw64_encode.induct)
  case (2 a)
  then have "a div 4 < 64" "a mod 4 * 16 < 64" using sextets [of a 0 0] by simp_all
  with 2 show ?case unfolding raw64_encode.simps by (simp only: list.set insert_iff empty_iff) blast
next
  case (3 a b)
  then have "a div 4 < 64" "a mod 4 * 16 + b div 16 < 64" "b mod 16 * 4 < 64" using sextets [of a b 0] by simp_all
  with 3 show ?case unfolding raw64_encode.simps by (simp only: list.set insert_iff empty_iff) blast
next
  case (4 a b d rest)
  then have "a div 4 < 64" "a mod 4 * 16 + b div 16 < 64" "b mod 16 * 4 + d div 64 < 64" "d mod 64 < 64"
    using sextets [of a b d] by simp_all
  with 4 show ?case unfolding raw64_encode.simps set_append by (simp only: list.set insert_iff empty_iff Un_iff ball_simps) blast
qed simp

lemma RawURL_chars: "c \<in> set (RawURL_EncodeToString s) \<Longrightarrow> c \<noteq> CHR ''.'' \<and> \<not> is_space c"
  using raw64_encode_chars [of "map of_char s" c] url64_digits by (auto simp: RawURL_EncodeToString_def)

lemma RawURL_Nil [simp]: "RawURL_EncodeToString s = [] \<longleftrightarrow> s = []"
  by (cases "map of_char s :: nat list" rule: raw64_encode.cases) (auto simp: RawURL_EncodeToString_def)

end
