(* ===== verification/Work.thy ===== *)
theory Work
  imports Sandboxes Encoding
begin

text \<open>
  Work inside a sandbox (\<open>internal/service/service.go\<close>): command execution, terminal sessions,
  workspace files and tunnels. The client's output streams are not modelled beyond the chunks the
  command writes; the file system that path resolution and reads look at is an argument.
\<close>

section \<open>Executions\<close>

definition reserveExecutionSlot :: "string \<Rightarrow> tenant_quota \<Rightarrow> execution \<Rightarrow> (goerr, 'r world, unit) eop" where
  "reserveExecutionSlot tenantID quota x =
     bindE (Store_TenantUsage tenantID) (\<lambda>usage.
       if q_MaxConcurrentExecs quota \<le> tu_ConcurrentExecs usage
       then failE (Err ''tenant exec quota exceeded'') else Store_CreateExecution x)"

text \<open>
  \<open>Duration\<close> is in nanoseconds. The number of seconds is a floating point number in the code, exact
  for every duration below 97 days.
\<close>

definition timeout_seconds :: "int \<Rightarrow> int" where
  "timeout_seconds d = (let n = go_div d 1000000000 in if n = 0 \<and> 0 < d then 1 else n)"

definition milliseconds :: "int \<Rightarrow> int" where "milliseconds d = go_div d 1000000"

definition new_execution :: "string \<Rightarrow> string \<Rightarrow> string \<Rightarrow> exec_request \<Rightarrow> time \<Rightarrow> execution" where
  "new_execution i sandboxID tenantID req started =
     \<lparr>ex_ID = i, ex_SandboxID = sandboxID, ex_TenantID = tenantID,
      ex_Command = join_with '' '' (xr_Command req), ex_Cwd = xr_Cwd req,
      ex_TimeoutSeconds = timeout_seconds (xr_Timeout req), ex_Status = ExecRunning, ex_ExitCode = None,
      ex_StdoutPreview = [], ex_StderrPreview = [], ex_StdoutTruncated = False, ex_StderrTruncated = False,
      ex_StartedAt = started, ex_CompletedAt = None, ex_DurationMS = None\<rparr>"

definition fail_exec :: "string \<Rightarrow> string \<Rightarrow> execution \<Rightarrow> exec_request \<Rightarrow> goerr \<Rightarrow> (goerr, 'r world, 'a) eop" where
  "fail_exec tenantID sandboxID x req e =
     bindE now_utc (\<lambda>now.
     ignoreE (Store_UpdateExecution (x\<lparr>ex_Status := ExecFailed, ex_ExitCode := Some 1,
         ex_StderrPreview := err_text e, ex_CompletedAt := Some now,
         ex_DurationMS := Some (milliseconds (time_Sub now (ex_StartedAt x)))\<rparr>))
    (thenE (recordAudit tenantID sandboxID ''sandbox.exec'' (ex_ID x) ''error'' (execAuditDetail req))
       (failE e)))"

definition detach_exec :: "string \<Rightarrow> string \<Rightarrow> execution \<Rightarrow> exec_request \<Rightarrow> (goerr, 'r world, execution) eop" where
  "detach_exec tenantID sandboxID x req =
     bindE now_utc (\<lambda>now.
     (let x' = x\<lparr>ex_Status := ExecDetached, ex_CompletedAt := Some now,
                 ex_DurationMS := Some (milliseconds (time_Sub now (ex_StartedAt x)))\<rparr> in
      thenE (Store_UpdateExecution x')
     (thenE (recordAudit tenantID sandboxID ''sandbox.exec.detached'' (ex_ID x') ''ok'' (execAuditDetail req))
        (okE x'))))"

definition exec_outcome :: "execution \<Rightarrow> exec_handle \<Rightarrow> execution" where
  "exec_outcome x h =
     (let out = capture previewLimit (eh_Stdout h); err = capture previewLimit (eh_Stderr h); result = eh_Wait h in
      x\<lparr>ex_Status := er_Status result, ex_ExitCode := Some (er_ExitCode result),
        ex_StdoutPreview := bb_String out, ex_StderrPreview := bb_String err,
        ex_StdoutTruncated := (bb_truncated out \<or> er_StdoutTruncated result),
        ex_StderrTruncated := (bb_truncated err \<or> er_StderrTruncated result),
        ex_CompletedAt := Some (er_CompletedAt result),
        ex_DurationMS := Some (milliseconds (er_Duration result))\<rparr>)"

definition not_running :: "sandbox \<Rightarrow> goerr" where
  "not_running s = Err (''sandbox '' @ sb_ID s @ '' is not running'')"

definition ExecSandbox ::
  "'r service \<Rightarrow> tenant \<Rightarrow> tenant_quota \<Rightarrow> string \<Rightarrow> exec_request \<Rightarrow> (goerr, 'r world, execution) eop" where
  "ExecSandbox svc tenant quota sandboxID req =
     (let t = tn_ID tenant in
      bindE (Store_GetSandbox t sandboxID) (\<lambda>s.
      if sb_Status s \<noteq> StatusRunning then failE (not_running s)
      else
        thenE (enforceLifecyclePolicy svc s ''exec'')
       (bindE (newID ''exec-'') (\<lambda>i.
        bindE now_utc (\<lambda>started.
        (let x = new_execution i (sb_ID s) t req started in
         thenE (reserveExecutionSlot t quota x)
        (tryE (rt_call (rm_Exec (svc_runtime svc) s req)) (\<lambda>handle.
         case handle of
           Inl e \<Rightarrow> fail_exec t (sb_ID s) x req e
         | Inr h \<Rightarrow>
             (if xr_Detached req then detach_exec t (sb_ID s) x req
              else
                (let x' = exec_outcome x h in
                 thenE (Store_UpdateExecution x')
                (ignoreE (touchSandboxActivity s)
                (thenE (recordAudit t (sb_ID s) ''sandbox.exec'' (ex_ID x') (execution_status_string (ex_Status x'))
                          (execAuditDetail req))
                  (okE x')))))))))))))"

section \<open>Terminal sessions\<close>

definition resize_text :: "int \<Rightarrow> int \<Rightarrow> string" where
  "resize_text cols rows = fmt_int cols @ ''x'' @ fmt_int rows"

definition CreateTTYSession ::
  "'r service \<Rightarrow> string \<Rightarrow> string \<Rightarrow> tty_request \<Rightarrow> (goerr, 'r world, sandbox \<times> tty_session \<times> string) eop" where
  "CreateTTYSession svc tenantID sandboxID req =
     bindE (Store_GetSandbox tenantID sandboxID) (\<lambda>s.
     if sb_Status s \<noteq> StatusRunning then failE (not_running s)
     else
       thenE (enforceLifecyclePolicy svc s ''tty'')
      (bindE (rt_call (rm_AttachTTY (svc_runtime svc) s req)) (\<lambda>handle.
       bindE (newID ''tty-'') (\<lambda>i.
       bindE now_utc (\<lambda>now.
       (let session = \<lparr>tty_ID = i, tty_SandboxID = sb_ID s, tty_TenantID = tenantID,
                       tty_Command = join_with '' '' (tr_Command req), tty_Connected = True,
                       tty_CreatedAt = now, tty_ClosedAt = None,
                       tty_LastResize = resize_text (tr_Cols req) (tr_Rows req)\<rparr> in
        thenE (Store_CreateTTYSession session)
       (ignoreE (touchSandboxActivity s)
       (thenE (recordAudit tenantID (sb_ID s) ''sandbox.tty.attach'' (tty_ID session) ''ok'' (auditDetail
            [auditKV ''command'' (AStr (tty_Command session)), auditKV ''connected'' (ABool (tty_Connected session)),
             auditKV ''last_resize'' (AStr (tty_LastResize session))]))
         (okE (s, session, handle))))))))))"

definition CloseTTYSession :: "string \<Rightarrow> string \<Rightarrow> (goerr, 'r world, unit) eop" where
  "CloseTTYSession tenantID sessionID =
     thenE (Store_CloseTTYSession tenantID sessionID)
       (recordAudit tenantID [] ''sandbox.tty.detach'' sessionID ''ok'' (auditKV ''session_id'' (AStr sessionID)))"

definition UpdateTTYResize :: "string \<Rightarrow> string \<Rightarrow> int \<Rightarrow> int \<Rightarrow> (goerr, 'r world, unit) eop" where
  "UpdateTTYResize tenantID sessionID rows cols =
     Store_UpdateTTYResize tenantID sessionID (resize_text cols rows)"

section \<open>Workspace files\<close>

text \<open>
  The view of the host's files an operation works with: path resolution, opening a file for reading.
  A runtime that implements the workspace file interface takes the operation over; the interface is
  found by a type assertion, so it is there only with all four of its methods.
\<close>

record file_view =
  fv_fs :: os_fs
  fv_Open :: "string \<Rightarrow> goerr + open_file"

definition workspaceFileRuntime :: "'r runtime_manager \<Rightarrow>
    ((sandbox \<Rightarrow> string \<Rightarrow> ('r, file_read_response) rt_op) \<times> (sandbox \<Rightarrow> string \<Rightarrow> string \<Rightarrow> ('r, unit) rt_op) \<times>
     (sandbox \<Rightarrow> string \<Rightarrow> ('r, unit) rt_op) \<times> (sandbox \<Rightarrow> string \<Rightarrow> ('r, unit) rt_op)) option" where
  "workspaceFileRuntime m =
     (case (rm_ReadWorkspaceFile m, rm_WriteWorkspaceFile m, rm_DeleteWorkspacePath m, rm_MkdirWorkspace m) of
        (Some rd, Some wr, Some dl, Some mk) \<Rightarrow> Some (rd, wr, dl, mk) | _ \<Rightarrow> None)"

definition workspaceBinaryFileRuntime :: "'r runtime_manager \<Rightarrow>
    ((sandbox \<Rightarrow> string \<Rightarrow> ('r, string) rt_op) \<times> (sandbox \<Rightarrow> string \<Rightarrow> string \<Rightarrow> ('r, unit) rt_op)) option" where
  "workspaceBinaryFileRuntime m =
     (case (rm_ReadWorkspaceFileBytes m, rm_WriteWorkspaceFileBytes m) of
        (Some rd, Some wr) \<Rightarrow> Some (rd, wr) | _ \<Rightarrow> None)"

definition read_host_file :: "'r service \<Rightarrow> file_view \<Rightarrow> sandbox \<Rightarrow> string \<Rightarrow> goerr + string" where
  "read_host_file svc view s relativePath =
     (case resolveWorkspacePath (fv_fs view) (sb_WorkspaceRoot s) relativePath of
        Inl e \<Rightarrow> Inl e
      | Inr target \<Rightarrow> readWorkspaceFileBytes (fv_Open view target) (svc_maxTransfer svc))"

definition readWorkspaceBytes ::
  "'r service \<Rightarrow> file_view \<Rightarrow> sandbox \<Rightarrow> string \<Rightarrow> (goerr, 'r world, string) eop" where
  "readWorkspaceBytes svc view s relativePath =
     (case workspaceBinaryFileRuntime (svc_runtime svc) of
        Some (rd, _) \<Rightarrow>
          bindE (rt_call (rd s relativePath)) (\<lambda>bytes.
          thenE (liftE (ensureWorkspaceTransferSize (int (length bytes)) (svc_maxTransfer svc))) (okE bytes))
      | None \<Rightarrow>
          (case workspaceFileRuntime (svc_runtime svc) of
             Some (rd, _) \<Rightarrow>
               bindE (rt_call (rd s relativePath)) (\<lambda>file.
               thenE (liftE (ensureWorkspaceTransferSize (workspaceFileResponseSize file) (svc_maxTransfer svc)))
                 (if EqualFold (fr_Encoding file) ''base64'' \<and> TrimSpace (fr_ContentBase64 file) \<noteq> []
                  then liftE (DecodeString (fr_ContentBase64 file)) else okE (fr_Content file)))
           | None \<Rightarrow> liftE (read_host_file svc view s relativePath)))"

definition ReadFile ::
  "'r service \<Rightarrow> file_view \<Rightarrow> string \<Rightarrow> string \<Rightarrow> string \<Rightarrow> string \<Rightarrow> (goerr, 'r world, file_read_response) eop" where
  "ReadFile svc view tenantID sandboxID path encoding =
     bindE (Store_GetSandbox tenantID sandboxID) (\<lambda>s.
     bindE (liftE (cleanWorkspaceRelativePath path)) (\<lambda>relativePath.
     if EqualFold (TrimSpace encoding) ''base64'' then
       bindE (readWorkspaceBytes svc view s relativePath) (\<lambda>bytes.
       ignoreE (touchSandboxActivity s)
         (okE \<lparr>fr_Path = relativePath, fr_Content = [], fr_ContentBase64 = EncodeToString bytes,
               fr_Size = int (length bytes), fr_Encoding = ''base64''\<rparr>))
     else
       (case workspaceFileRuntime (svc_runtime svc) of
          Some (rd, _) \<Rightarrow>
            bindE (rt_call (rd s relativePath)) (\<lambda>file.
            thenE (liftE (ensureWorkspaceTransferSize (workspaceFileResponseSize file) (svc_maxTransfer svc)))
           (ignoreE (touchSandboxActivity s) (okE file)))
        | None \<Rightarrow>
            bindE (liftE (read_host_file svc view s relativePath)) (\<lambda>bytes.
            ignoreE (touchSandboxActivity s)
              (okE \<lparr>fr_Path = relativePath, fr_Content = bytes, fr_ContentBase64 = [],
                    fr_Size = int (length bytes), fr_Encoding = ''utf-8''\<rparr>)))))"

text \<open>What the three changing operations do after the change.\<close>

definition after_change ::
  "'r service \<Rightarrow> string \<Rightarrow> string \<Rightarrow> sandbox \<Rightarrow> string \<Rightarrow> string \<Rightarrow> string \<Rightarrow> (goerr, 'r world, unit) eop" where
  "after_change svc tenantID sandboxID s action relativePath message =
     thenE (recordAudit tenantID sandboxID action relativePath ''ok'' message)
    (ignoreE (touchSandboxActivity s) (refreshStorage svc s))"

definition write_host_file :: "file_view \<Rightarrow> sandbox \<Rightarrow> string \<Rightarrow> string \<Rightarrow> (goerr, 'r world, unit) eop" where
  "write_host_file view s relativePath content =
     bindE (liftE (resolveWorkspacePath (fv_fs view) (sb_WorkspaceRoot s) relativePath)) (\<lambda>target.
       thenE (os_call (MkdirAll (Dir target))) (os_call (WriteFile target content)))"

definition WriteFileBytes ::
  "'r service \<Rightarrow> file_view \<Rightarrow> string \<Rightarrow> string \<Rightarrow> string \<Rightarrow> string \<Rightarrow> (goerr, 'r world, unit) eop" where
  "WriteFileBytes svc view tenantID sandboxID path content =
     bindE (Store_GetSandbox tenantID sandboxID) (\<lambda>s.
     thenE (liftE (ensureWorkspaceTransferSize (int (length content)) (svc_maxTransfer svc)))
    (bindE (liftE (cleanWorkspaceRelativePath path)) (\<lambda>relativePath.
     thenE (case workspaceBinaryFileRuntime (svc_runtime svc) of
              Some (_, wr) \<Rightarrow> rt_call (wr s relativePath content)
            | None \<Rightarrow>
                (case workspaceFileRuntime (svc_runtime svc) of
                   Some (_, wr, _, _) \<Rightarrow>
                     (if \<not> utf8_Valid content then
                        failE (Err (''binary file write is unsupported for runtime '' @ quote (sb_RuntimeBackend s)))
                      else rt_call (wr s relativePath content))
                 | None \<Rightarrow> write_host_file view s relativePath content))
       (after_change svc tenantID sandboxID s ''file.write'' relativePath ''file written''))))"

definition WriteFile_service ::
  "'r service \<Rightarrow> file_view \<Rightarrow> string \<Rightarrow> string \<Rightarrow> string \<Rightarrow> string \<Rightarrow> (goerr, 'r world, unit) eop" where
  "WriteFile_service svc view tenantID sandboxID path content =
     WriteFileBytes svc view tenantID sandboxID path content"

definition DeleteFile ::
  "'r service \<Rightarrow> file_view \<Rightarrow> string \<Rightarrow> string \<Rightarrow> string \<Rightarrow> (goerr, 'r world, unit) eop" where
  "DeleteFile svc view tenantID sandboxID path =
     bindE (Store_GetSandbox tenantID sandboxID) (\<lambda>s.
     bindE (liftE (cleanWorkspaceRelativePath path)) (\<lambda>relativePath.
     thenE (case workspaceFileRuntime (svc_runtime svc) of
              Some (_, _, dl, _) \<Rightarrow> rt_call (dl s relativePath)
            | None \<Rightarrow>
                bindE (liftE (resolveWorkspacePath (fv_fs view) (sb_WorkspaceRoot s) relativePath)) (\<lambda>target.
                  os_call (RemoveAll target)))
       (after_change svc tenantID sandboxID s ''file.delete'' relativePath ''path deleted'')))"

definition Mkdir ::
  "'r service \<Rightarrow> file_view \<Rightarrow> string \<Rightarrow> string \<Rightarrow> string \<Rightarrow> (goerr, 'r world, unit) eop" where
  "Mkdir svc view tenantID sandboxID path =
     bindE (Store_GetSandbox tenantID sandboxID) (\<lambda>s.
     bindE (liftE (cleanWorkspaceRelativePath path)) (\<lambda>relativePath.
     thenE (case workspaceFileRuntime (svc_runtime svc) of
              Some (_, _, _, mk) \<Rightarrow> rt_call (mk s relativePath)
            | None \<Rightarrow>
                bindE (liftE (resolveWorkspacePath (fv_fs view) (sb_WorkspaceRoot s) relativePath)) (\<lambda>target.
                  os_call (MkdirAll target)))
       (after_change svc tenantID sandboxID s ''file.mkdir'' relativePath ''directory created'')))"

section \<open>Tunnels\<close>

fun apply_tunnel_defaults :: "tunnel_request \<Rightarrow> goerr + tenant_quota \<Rightarrow> goerr + tunnel_request" where
  "apply_tunnel_defaults req quota =
     (let auth1 = (case quota of Inr q \<Rightarrow> (if tq_AuthMode req = [] then q_DefaultTunnelAuthMode q else tq_AuthMode req)
                               | Inl _ \<Rightarrow> tq_AuthMode req);
          auth = (if auth1 = [] then ''token'' else auth1);
          vis1 = (case quota of Inr q \<Rightarrow> (if tq_Visibility req = [] then q_DefaultTunnelVisibility q else tq_Visibility req)
                              | Inl _ \<Rightarrow> tq_Visibility req);
          vis = (if vis1 = [] then ''private'' else vis1) in
      if auth \<noteq> ''token'' \<and> auth \<noteq> ''none'' then Inl (Err (''unsupported auth_mode '' @ quote auth))
      else if vis \<noteq> ''private'' \<and> vis \<noteq> ''public'' then Inl (Err (''unsupported visibility '' @ quote vis))
      else Inr (req\<lparr>tq_AuthMode := auth, tq_Visibility := vis\<rparr>))"

declare apply_tunnel_defaults.simps [simp del]

definition applyTunnelRequestDefaults :: "string \<Rightarrow> tunnel_request \<Rightarrow> (goerr, 'r world, tunnel_request) eop" where
  "applyTunnelRequestDefaults tenantID req =
     tryE (Store_GetQuota tenantID) (\<lambda>quota. liftE (apply_tunnel_defaults req quota))"

definition decorateTunnelAccess :: "tunnel \<Rightarrow> tunnel" where
  "decorateTunnelAccess t =
     (let tenantToken = tun_Visibility t \<noteq> ''public''; tok = tun_AuthMode t = ''token'';
          q = [CHR 0x27];
          curl = (if TrimSpace (tun_Endpoint t) = [] then []
                  else join_with '' '' ([''curl''] @
                    (if tenantToken then [''-H'', q @ ''Authorization: Bearer <tenant-token>'' @ q] else []) @
                    (if tok \<and> TrimSpace (tun_AccessToken t) \<noteq> []
                     then [''-H'', q @ ''X-Tunnel-Token: '' @ tun_AccessToken t @ q] else []) @
                    [q @ tun_Endpoint t @ q])) in
      t\<lparr>tun_Access := \<lparr>ta_RequiresTenantToken = tenantToken,
            ta_TunnelTokenHeader = (if tok then ''X-Tunnel-Token'' else []),
            ta_TunnelTokenQuery = (if tok then ''token'' else []), ta_ExampleCurl = curl\<rparr>\<rparr>)"

definition deny_tunnel :: "string \<Rightarrow> string \<Rightarrow> string \<Rightarrow> goerr \<Rightarrow> (goerr, 'r world, 'a) eop" where
  "deny_tunnel tenantID sandboxID reason e =
     thenE (recordAudit tenantID sandboxID ''tunnel.create'' sandboxID ''denied'' (auditKV ''reason'' (AStr reason)))
       (failE e)"

definition reserveTunnelCreate ::
  "'r service \<Rightarrow> string \<Rightarrow> sandbox \<Rightarrow> tunnel \<Rightarrow> tunnel_request \<Rightarrow> (goerr, 'r world, tunnel) eop" where
  "reserveTunnelCreate svc tenantID s tun req =
     bindE (Store_TenantUsage tenantID) (\<lambda>usage.
     tryE (Store_GetQuota tenantID) (\<lambda>quota.
     (let store = bindE (liftE (apply_tunnel_defaults req quota)) (\<lambda>req'.
            thenE (enforceTunnelPolicy svc s req')
             (let tun' = tun\<lparr>tun_AuthMode := tq_AuthMode req', tun_Visibility := tq_Visibility req'\<rparr> in
              thenE (Store_CreateTunnel tun') (okE tun'))) in
      case quota of
        Inr q \<Rightarrow>
          (if \<not> q_AllowTunnels q then
             deny_tunnel tenantID (sb_ID s) ''tenant_tunnel_policy_denied'' (Err ''tenant tunnel policy denied'')
           else if q_MaxTunnels q \<le> tu_ActiveTunnels usage then
             deny_tunnel tenantID (sb_ID s) ''tunnel_quota_exceeded'' (Err ''tunnel quota exceeded'')
           else store)
      | Inl _ \<Rightarrow> store)))"

text \<open>The tunnel before its access fields: with the token mode a fresh token and its hash.\<close>

definition tunnel_with_secret ::
  "'r service \<Rightarrow> tunnel \<Rightarrow> (goerr, 'r world, tunnel) eop" where
  "tunnel_with_secret svc tun =
     (if tun_AuthMode tun = ''token'' then
        bindE (newID ''ttok-'') (\<lambda>accessToken.
          okE (tun\<lparr>tun_AccessToken := accessToken, tun_AuthSecretHash := svc_HashToken svc accessToken\<rparr>))
      else okE tun)"

definition CreateTunnel ::
  "'r service \<Rightarrow> string \<Rightarrow> string \<Rightarrow> tunnel_request \<Rightarrow> (goerr, 'r world, tunnel) eop" where
  "CreateTunnel svc tenantID sandboxID req0 =
     bindE (Store_GetSandbox tenantID sandboxID) (\<lambda>s.
     if \<not> sb_AllowTunnels s then
       deny_tunnel tenantID sandboxID ''sandbox_tunnel_policy_denied'' (Err ''sandbox does not allow tunnels'')
     else
       bindE (newID ''tun-'') (\<lambda>i.
       if tq_TargetPort req0 < 1 \<or> 65535 < tq_TargetPort req0 then
         failE (Err ''target_port must be between 1 and 65535'')
       else
         (let req1 = req0\<lparr>tq_Protocol := (if tq_Protocol req0 = OtherProtocol [] then TunnelHTTP else tq_Protocol req0)\<rparr> in
          if tq_Protocol req1 \<noteq> TunnelHTTP then
            failE (Err (''unsupported tunnel protocol '' @ quote (tunnel_protocol_string (tq_Protocol req1))))
          else
            bindE (applyTunnelRequestDefaults tenantID req1) (\<lambda>req.
            bindE now_utc (\<lambda>now.
            bindE (tunnel_with_secret svc
                \<lparr>tun_ID = i, tun_SandboxID = sb_ID s, tun_TenantID = tenantID, tun_TargetPort = tq_TargetPort req,
                 tun_Protocol = tq_Protocol req, tun_AuthMode = tq_AuthMode req, tun_Visibility = tq_Visibility req,
                 tun_Endpoint = trim_right_by (\<lambda>c. c = slash) (cfg_OperatorHost (svc_cfg svc)) @ ''/v1/tunnels/''
                                @ i @ ''/proxy'',
                 tun_AccessToken = [], tun_Access = no_access, tun_AuthSecretHash = [], tun_CreatedAt = now,
                 tun_RevokedAt = None\<rparr>) (\<lambda>tun0.
            bindE (reserveTunnelCreate svc tenantID s (decorateTunnelAccess tun0) req) (\<lambda>tun.
            ignoreE (touchSandboxActivity s)
           (thenE (recordAudit tenantID sandboxID ''tunnel.create'' (tun_ID tun) ''ok'' (auditDetail
                [tunnelAuditDetail tun,
                 networkPolicyAuditDetail (buildNetworkPolicy (sb_NetworkMode s) (sb_AllowTunnels s)),
                 auditKV ''runtime_selection'' (ARaw (selection_string (resolvedSandboxRuntimeSelection s)))]))
             (okE tun)))))))))"

definition ListTunnels :: "string \<Rightarrow> string \<Rightarrow> (goerr, 'r world, tunnel list) eop" where
  "ListTunnels tenantID sandboxID =
     bindE (Store_ListTunnels tenantID sandboxID) (\<lambda>tunnels. okE (map decorateTunnelAccess tunnels))"

definition RevokeTunnel :: "string \<Rightarrow> string \<Rightarrow> (goerr, 'r world, unit) eop" where
  "RevokeTunnel tenantID tunnelID =
     bindE (Store_GetTunnel tenantID tunnelID) (\<lambda>t.
     thenE (Store_RevokeTunnel tenantID tunnelID)
    (thenE (Store_RevokeTunnelCapabilities tunnelID)
       (recordAudit tenantID (tun_SandboxID t) ''tunnel.revoke'' tunnelID ''ok'' (tunnelAuditDetail t))))"

definition CreateTunnelCapability :: "tunnel_capability \<Rightarrow> (goerr, 'r world, unit) eop" where
  "CreateTunnelCapability capability = Store_CreateTunnelCapability capability"

definition GetTunnelCapability :: "string \<Rightarrow> (goerr, 'r world, tunnel_capability) eop" where
  "GetTunnelCapability capabilityID = Store_GetTunnelCapability capabilityID"

definition ConsumeTunnelCapability :: "string \<Rightarrow> (goerr, 'r world, unit) eop" where
  "ConsumeTunnelCapability capabilityID = Store_ConsumeTunnelCapability capabilityID"

definition GetTunnel :: "string \<Rightarrow> string \<Rightarrow> (goerr, 'r world, tunnel \<times> sandbox) eop" where
  "GetTunnel tenantID tunnelID =
     bindE (Store_GetTunnel tenantID tunnelID) (\<lambda>t.
     bindE (Store_GetSandbox tenantID (tun_SandboxID t)) (\<lambda>s. okE (t, s)))"

definition GetTunnelForProxy :: "string \<Rightarrow> (goerr, 'r world, tunnel \<times> sandbox) eop" where
  "GetTunnelForProxy tunnelID =
     bindE (Store_GetTunnelByID tunnelID) (\<lambda>t.
     bindE (Store_GetSandbox (tun_TenantID t) (tun_SandboxID t)) (\<lambda>s. okE (t, s)))"

end
