(* ===== verification/Archive.thy ===== *)
theory Archive
  imports Workspace
begin

text \<open>
  \<open>internal/archiveutil/targz.go\<close>: extraction of a tar.gz archive under limits. The archive is what
  the tar reader delivers: a list of headers or read errors, each header with the number of content
  bytes the compressed stream really holds for it. The file system is seen through the outcomes of its
  calls; what the extraction does to it is recorded as a list of effects.
\<close>

section \<open>Definitions\<close>

datatype tar_type = TarDir | TarReg | TarUnsupported

record tar_entry =
  te_Name :: string
  te_Type :: tar_type
  te_Size :: int
  te_Executable :: bool
  te_Available :: int

record limits =
  lim_MaxBytes :: int
  lim_MaxFiles :: int
  lim_MaxExpansionRatio :: int

record stats =
  st_Files :: int
  st_Bytes :: int

datatype fs_effect = MadeDir string | WroteFile string bool int

record archive_os =
  ao_MkdirAll :: "string \<Rightarrow> goerr option"
  ao_OpenFile :: "string \<Rightarrow> goerr option"
  ao_Close :: "string \<Rightarrow> goerr option"
  ao_Chmod :: "string \<Rightarrow> goerr option"

definition entry_clean_name :: "tar_entry \<Rightarrow> string" where
  "entry_clean_name h = Clean (TrimPrefix (te_Name h) ''/'')"

definition escapes :: "string \<Rightarrow> bool" where
  "escapes name \<longleftrightarrow> name = ''..'' \<or> HasPrefix name ''../''"

definition limit_error :: "int \<Rightarrow> limits \<Rightarrow> stats \<Rightarrow> goerr option" where
  "limit_error compressedSize lim s =
     (if 0 < lim_MaxFiles lim \<and> lim_MaxFiles lim < st_Files s then
        Some (Err (''snapshot archive exceeds maximum file count '' @ fmt_int (lim_MaxFiles lim)))
      else if 0 < lim_MaxBytes lim \<and> lim_MaxBytes lim < st_Bytes s then
        Some (Err (''snapshot archive exceeds maximum extracted bytes '' @ fmt_int (lim_MaxBytes lim)))
      else if 0 < lim_MaxExpansionRatio lim \<and> 0 < compressedSize \<and>
              mul64 compressedSize (lim_MaxExpansionRatio lim) < st_Bytes s then
        Some (Err (''snapshot archive exceeds maximum expansion ratio ''
          @ fmt_int (lim_MaxExpansionRatio lim)))
      else None)"

text \<open>
  Writing one regular file: \<open>io.Copy\<close> moves at most \<open>Size\<close> bytes; when the stream holds fewer it
  fails after writing those.
\<close>

definition copied_bytes :: "tar_entry \<Rightarrow> int" where
  "copied_bytes h = min (te_Size h) (te_Available h)"

definition write_entry ::
  "archive_os \<Rightarrow> string \<Rightarrow> tar_entry \<Rightarrow> (goerr + unit) \<times> fs_effect list" where
  "write_entry os target h =
     (case ao_MkdirAll os (Dir target) of
        Some e \<Rightarrow> (Inl e, [])
      | None \<Rightarrow>
          (case ao_OpenFile os target of
             Some e \<Rightarrow> (Inl e, [MadeDir (Dir target)])
           | None \<Rightarrow>
               (let effects = [MadeDir (Dir target), WroteFile target (te_Executable h) (copied_bytes h)] in
                if te_Available h < te_Size h then (Inl (Err ''unexpected EOF''), effects)
                else
                  (case ao_Close os target of
                     Some e \<Rightarrow> (Inl e, effects)
                   | None \<Rightarrow>
                       (case ao_Chmod os target of
                          Some e \<Rightarrow> (Inl e, effects)
                        | None \<Rightarrow> (Inr (), effects))))))"

fun extract_loop ::
  "archive_os \<Rightarrow> string \<Rightarrow> int \<Rightarrow> limits \<Rightarrow> stats \<Rightarrow> (goerr + tar_entry) list
     \<Rightarrow> (goerr + stats) \<times> fs_effect list" where
  "extract_loop os dest csize lim s [] = (Inr s, [])"
| "extract_loop os dest csize lim s (Inl e # rest) = (Inl e, [])"
| "extract_loop os dest csize lim s (Inr h # rest) =
     (let cleanName = entry_clean_name h in
      if cleanName = ''.'' \<or> cleanName = [] then extract_loop os dest csize lim s rest
      else if escapes cleanName then
        (Inl (Err (''tar entry escapes destination: '' @ te_Name h)), [])
      else
        (let target = Join [dest, cleanName] in
         if target \<noteq> dest \<and> \<not> HasPrefix target (dest @ ''/'') then
           (Inl (Err (''tar entry escapes destination: '' @ te_Name h)), [])
         else
           (case te_Type h of
              TarDir \<Rightarrow>
                (case ao_MkdirAll os target of
                   Some e \<Rightarrow> (Inl e, [])
                 | None \<Rightarrow>
                     (case extract_loop os dest csize lim s rest of
                        (r, effects) \<Rightarrow> (r, MadeDir target # effects)))
            | TarUnsupported \<Rightarrow>
                (Inl (Err (''unsupported tar entry type for '' @ te_Name h)), [])
            | TarReg \<Rightarrow>
                (if te_Size h < 0 then (Inl (Err (''invalid tar entry size for '' @ te_Name h)), [])
                 else
                   (let s' = \<lparr>st_Files = st_Files s + 1, st_Bytes = add64 (st_Bytes s) (te_Size h)\<rparr> in
                    case limit_error csize lim s' of
                      Some e \<Rightarrow> (Inl e, [])
                    | None \<Rightarrow>
                        (case write_entry os target h of
                           (Inl e, effects) \<Rightarrow> (Inl e, effects)
                         | (Inr _, effects) \<Rightarrow>
                             (case extract_loop os dest csize lim s' rest of
                                (r, later) \<Rightarrow> (r, effects @ later))))))))"

text \<open>
  \<open>opened\<close> is what opening the source, its \<open>Stat\<close> and the gzip header give: an error, or the
  compressed size with the stream of entries.
\<close>

definition ExtractTarGz ::
  "archive_os \<Rightarrow> goerr + int \<times> (goerr + tar_entry) list \<Rightarrow> string \<Rightarrow> limits
     \<Rightarrow> (goerr + stats) \<times> fs_effect list" where
  "ExtractTarGz os opened destination lim =
     (case opened of
        Inl e \<Rightarrow> (Inl e, [])
      | Inr (compressedSize, stream) \<Rightarrow>
          extract_loop os (Clean destination) compressedSize lim \<lparr>st_Files = 0, st_Bytes = 0\<rparr> stream)"

section \<open>Containment\<close>

fun effect_path :: "fs_effect \<Rightarrow> string" where
  "effect_path (MadeDir p) = p"
| "effect_path (WroteFile p x n) = p"

fun effect_bytes :: "fs_effect \<Rightarrow> int" where
  "effect_bytes (MadeDir p) = 0"
| "effect_bytes (WroteFile p x n) = n"

definition written_bytes :: "fs_effect list \<Rightarrow> int" where
  "written_bytes effects = sum_list (map effect_bytes effects)"

lemma split_on_append_slash: "split_on c (s @ c # t) = split_on c s @ split_on c t"
  by (induction s) (auto split: list.split)

text \<open>
  A name may stay rooted after one leading separator is removed; the join with the destination then
  appends its components all the same.
\<close>

lemma clean_name_comps:
  assumes "Clean n \<noteq> ''.''" and "\<not> escapes (Clean n)" and "list_all plain ds"
  shows "\<exists>cs. list_all plain cs \<and> Join [abs_path ds, Clean n] = abs_path (ds @ cs)"
proof (cases "IsAbs n")
  case False
  let ?cs = "clean_comps False (split_on slash n)"
  have c: "Clean n = render False ?cs" using False by (simp add: Clean_def)
  have "list_all plain ?cs \<and> ?cs \<noteq> []"
    using render_relative_plain [OF clean_form_split] assms(1,2) c by (metis escapes_def)
  moreover then have "Clean n = rel_path ?cs" using c by (simp add: rel_path_def render_def)
  ultimately show ?thesis using Join_abs_rel [OF assms(3)] by metis
next
  case True
  then obtain cs where cs: "list_all plain cs" "Clean n = abs_path cs"
    using Clean_abs by (auto simp: abs_clean_def)
  have ne: "abs_path ds \<noteq> []" "abs_path cs \<noteq> []" by (simp_all add: abs_path_def render_def)
  have j: "Join [abs_path ds, abs_path cs] = Clean (abs_path ds @ ''/'' @ abs_path cs)"
    using ne by (simp add: Join_def)
  have abs: "IsAbs (abs_path ds @ ''/'' @ abs_path cs)"
    by (simp add: IsAbs_def HasPrefix_def abs_path_def render_def)
  have "split_on slash (abs_path ds @ ''/'' @ abs_path cs)
      = split_on slash (abs_path ds) @ split_on slash (abs_path cs)"
    unfolding slash_str using split_on_append_slash [of slash "abs_path ds" "abs_path cs"] by simp
  moreover have "clean_comps True (([] # (if ds = [] then [[]] else ds)) @ [] # (if cs = [] then [[]] else cs))
      = ds @ cs"
    using assms(3) cs(1) by (auto simp: clean_comps_def clean_step_def foldl_clean_plain)
  ultimately have "Join [abs_path ds, abs_path cs] = abs_path (ds @ cs)"
    using abs assms(3) cs(1) j by (simp add: Clean_def split_abs_path) (simp add: abs_path_def)
  then show ?thesis using cs by metis
qed

lemma Clean_abs_path_slash: "list_all plain cs \<Longrightarrow> Clean (abs_path cs @ ''/'') = abs_path cs"
proof -
  assume cs: "list_all plain cs"
  have "split_on slash (abs_path cs @ ''/'') = split_on slash (abs_path cs) @ [[]]"
    unfolding slash_str using split_on_append_slash [of slash "abs_path cs" "[]"] by simp
  moreover have "IsAbs (abs_path cs @ ''/'')" by (simp add: IsAbs_def HasPrefix_def abs_path_def render_def)
  moreover have "clean_comps True (([] # (if cs = [] then [[]] else cs)) @ [[]]) = cs"
    using cs by (auto simp: clean_comps_def clean_step_def foldl_clean_plain)
  ultimately show ?thesis using cs by (simp add: Clean_def split_abs_path) (simp add: abs_path_def)
qed

lemma trim_right_to_slash:
  "slash \<notin> set c \<Longrightarrow> trim_right_by (\<lambda>x. x \<noteq> slash) (s @ slash # c) = s @ [slash]"
proof -
  assume "slash \<notin> set c"
  then have "dropWhile (\<lambda>x. x \<noteq> slash) (rev c @ slash # rev s) = slash # rev s"
    by (subst dropWhile_append2) auto
  then show ?thesis by (simp add: trim_right_by_def)
qed

lemma Dir_abs_path:
  assumes "list_all plain (cs @ [c])"
  shows "Dir (abs_path (cs @ [c])) = abs_path cs"
proof (cases "cs = []")
  case True
  have "abs_path [c] = [] @ slash # c" by (simp add: abs_path_def render_def slash_def)
  then have "Dir (abs_path [c]) = Clean [slash]"
    using assms trim_right_to_slash [of c "[]"] by (simp add: Dir_def plain_def)
  then show ?thesis using True Clean_abs_path [of "[]"] by (simp add: abs_path_def render_def slash_def)
next
  case False
  have "abs_path (cs @ [c]) = abs_path cs @ slash # c"
    using False by (simp add: abs_path_def render_def join_with_append_rel slash_def)
  then have "Dir (abs_path (cs @ [c])) = Clean (abs_path cs @ [slash])"
    using assms trim_right_to_slash [of c "abs_path cs"] by (simp add: Dir_def plain_def)
  then show ?thesis using assms Clean_abs_path_slash [of cs] by (simp add: slash_def)
qed

text \<open>
  An effect is contained when its path lies under the destination. The one exception is the request
  to create the parent of a file that is the destination itself (an entry named \<open>//\<close>): the parent is
  an existing directory.
\<close>

definition contained :: "string \<Rightarrow> fs_effect \<Rightarrow> bool" where
  "contained dest e \<longleftrightarrow> under dest (effect_path e) \<or> e = MadeDir (Dir dest)"

lemma Dir_contained:
  assumes "list_all plain (ds @ cs)"
  shows "contained (abs_path ds) (MadeDir (Dir (abs_path (ds @ cs))))"
proof (cases cs rule: rev_exhaust)
  case (snoc bs b)
  then have "Dir (abs_path (ds @ cs)) = abs_path (ds @ bs)"
    using Dir_abs_path [of "ds @ bs" b] assms by simp
  then show ?thesis using snoc assms unfolding contained_def under_def
    by (intro disjI1 exI [of _ ds] exI [of _ bs]) simp
qed (simp add: contained_def)

lemma write_entry_contained:
  assumes "list_all plain (ds @ cs)" and "write_entry os (abs_path (ds @ cs)) h = (r, effects)"
  shows "\<forall>e \<in> set effects. contained (abs_path ds) e"
proof -
  have "contained (abs_path ds) (WroteFile (abs_path (ds @ cs)) x n)" for x n
    using assms(1) by (auto simp: contained_def under_def)
  then show ?thesis using assms(2) Dir_contained [OF assms(1)]
    by (auto simp: write_entry_def Let_def split: option.splits if_splits)
qed

lemma extract_loop_contained:
  assumes "list_all plain ds"
  shows "\<forall>e \<in> set (snd (extract_loop os (abs_path ds) csize lim s stream)). contained (abs_path ds) e"
proof (induction os "abs_path ds" csize lim s stream rule: extract_loop.induct)
  case (3 os csize lim s h rest)
  let ?n = "entry_clean_name h"
  show ?case
  proof (cases "?n = ''.'' \<or> ?n = [] \<or> escapes ?n")
    case True
    then show ?thesis using "3.hyps"(1) by (auto simp: Let_def)
  next
    case False
    then obtain cs where cs: "list_all plain (ds @ cs)" "Join [abs_path ds, ?n] = abs_path (ds @ cs)"
      using clean_name_comps [of "TrimPrefix (te_Name h) ''/''" ds] assms
      by (auto simp: entry_clean_name_def)
    have d: "contained (abs_path ds) (MadeDir (abs_path (ds @ cs)))"
      using cs(1) by (auto simp: contained_def under_def)
    show ?thesis
      using False "3.hyps"(2,3) cs d write_entry_contained [OF cs(1)]
      by (fastforce simp: Let_def cs(2) split: prod.splits option.splits tar_type.splits sum.splits if_splits)
  qed
qed simp_all

section \<open>Bounds\<close>

text \<open>Sizes as honest archives and operators give them: far from the end of the integer range.\<close>

definition size_ok :: "goerr + tar_entry \<Rightarrow> bool" where
  "size_ok x = (case x of Inl e \<Rightarrow> True | Inr h \<Rightarrow> te_Size h < 2 ^ 62 \<and> 0 \<le> te_Available h)"

lemma written_bytes_simps [simp]:
  "written_bytes [] = 0" "written_bytes (e # es) = effect_bytes e + written_bytes es"
  "written_bytes (es @ fs) = written_bytes es + written_bytes fs"
  by (simp_all add: written_bytes_def)

lemma write_entry_bytes:
  assumes "write_entry os target h = (r, effects)" and "0 \<le> te_Size h" and "0 \<le> te_Available h"
  shows "0 \<le> written_bytes effects \<and> written_bytes effects \<le> te_Size h"
    and "r = Inr () \<longrightarrow> written_bytes effects = te_Size h"
  using assms by (auto simp: write_entry_def copied_bytes_def Let_def split: option.splits if_splits)

lemma limit_ok_bytes:
  "limit_error csize lim s = None \<Longrightarrow> 0 < lim_MaxBytes lim \<Longrightarrow> st_Bytes s \<le> lim_MaxBytes lim"
  by (auto simp: limit_error_def split: if_splits)

lemma add64_small: "0 \<le> a \<Longrightarrow> a \<le> 2 ^ 62 \<Longrightarrow> 0 \<le> b \<Longrightarrow> b < 2 ^ 62 \<Longrightarrow> add64 a b = a + b"
  by (intro add64_id) (simp add: in_int64_def min_int64_def max_int64_def)

definition accounted :: "limits \<Rightarrow> stats \<Rightarrow> (goerr + stats) \<times> fs_effect list \<Rightarrow> bool" where
  "accounted lim s out \<longleftrightarrow>
     written_bytes (snd out) \<le> lim_MaxBytes lim - st_Bytes s \<and>
     (\<forall>s'. fst out = Inr s' \<longrightarrow> st_Bytes s' = st_Bytes s + written_bytes (snd out))"

lemma accounted_stop: "st_Bytes s \<le> lim_MaxBytes lim \<Longrightarrow> accounted lim s (Inl e, [])"
  by (simp add: accounted_def)

lemma accounted_dir: "accounted lim s (r, es) \<Longrightarrow> accounted lim s (r, MadeDir p # es)"
  by (simp add: accounted_def)

lemma accounted_file:
  assumes "accounted lim (s\<lparr>st_Files := f, st_Bytes := st_Bytes s + n\<rparr>) (r, es)"
    and "written_bytes we = n"
  shows "accounted lim s (r, we @ es)"
  using assms by (simp add: accounted_def)

lemma extract_loop_accounted:
  assumes "0 < lim_MaxBytes lim" and "lim_MaxBytes lim \<le> 2 ^ 62" and "list_all size_ok stream"
    and "0 \<le> st_Bytes s" and "st_Bytes s \<le> lim_MaxBytes lim"
  shows "accounted lim s (extract_loop os dest csize lim s stream)"
  using assms(3-5)
proof (induction stream arbitrary: s)
  case Nil
  then show ?case by (simp add: accounted_def)
next
  case (Cons x rest)
  note stop = accounted_stop [OF Cons.prems(3)]
  have IH: "accounted lim t (extract_loop os dest csize lim t rest)"
    if "0 \<le> st_Bytes t" "st_Bytes t \<le> lim_MaxBytes lim" for t
    using Cons.IH Cons.prems(1) that by simp
  show ?case
  proof (cases x)
    case (Inr h)
    have h: "te_Size h < 2 ^ 62" "0 \<le> te_Available h"
      using Cons.prems(1) Inr by (simp_all add: size_ok_def)
    let ?s' = "\<lparr>st_Files = st_Files s + 1, st_Bytes = add64 (st_Bytes s) (te_Size h)\<rparr>"
    let ?w = "write_entry os (Join [dest, entry_clean_name h]) h"
    have reg: "accounted lim s (case ?w of (Inl e, effects) \<Rightarrow> (Inl e, effects)
        | (Inr _, effects) \<Rightarrow> (case extract_loop os dest csize lim ?s' rest of
             (r, later) \<Rightarrow> (r, effects @ later)))"
      if "0 \<le> te_Size h" "limit_error csize lim ?s' = None"
    proof -
      have e: "add64 (st_Bytes s) (te_Size h) = st_Bytes s + te_Size h"
        using Cons.prems(2,3) h that(1) assms(2) by (intro add64_small) auto
      have le: "st_Bytes s + te_Size h \<le> lim_MaxBytes lim"
        using limit_ok_bytes [OF that(2) assms(1)] e by simp
      obtain wr we where w: "?w = (wr, we)" by fastforce
      note wb = write_entry_bytes [OF w that(1) h(2)]
      show ?thesis
      proof (cases wr)
        case (Inl e')
        then show ?thesis using w wb le by (simp add: accounted_def)
      next
        case (Inr u)
        obtain r es where x: "extract_loop os dest csize lim ?s' rest = (r, es)" by fastforce
        have "accounted lim ?s' (r, es)" using IH [of ?s'] e le Cons.prems(2) that(1) x by simp
        then show ?thesis using Inr w wb e x by (simp add: accounted_def)
      qed
    qed
    obtain r0 es0 where x0: "extract_loop os dest csize lim s rest = (r0, es0)" by fastforce
    have dir: "accounted lim s (r0, es0)" using IH [of s] Cons.prems(2,3) x0 by simp
    show ?thesis
      unfolding Inr extract_loop.simps Let_def
      using stop reg dir accounted_dir x0 not_less
      by (auto split: option.split tar_type.split)
  qed (simp add: stop)
qed

text \<open>
  Outside that range the running total wraps: after one byte, an entry that claims the largest size
  makes the total negative, and the limit no longer stops what the stream holds for it.
\<close>

definition bomb :: "int \<Rightarrow> (goerr + tar_entry) list" where
  "bomb n =
     [Inr \<lparr>te_Name = ''a'', te_Type = TarReg, te_Size = 1, te_Executable = False, te_Available = 1\<rparr>,
      Inr \<lparr>te_Name = ''b'', te_Type = TarReg, te_Size = max_int64, te_Executable = False,
           te_Available = n\<rparr>]"

definition quiet_os :: archive_os where
  "quiet_os = \<lparr>ao_MkdirAll = (\<lambda>_. None), ao_OpenFile = (\<lambda>_. None), ao_Close = (\<lambda>_. None),
     ao_Chmod = (\<lambda>_. None)\<rparr>"

definition sample_limits :: limits where
  "sample_limits = \<lparr>lim_MaxBytes = 64 * 1024 * 1024, lim_MaxFiles = 100, lim_MaxExpansionRatio = 0\<rparr>"

section \<open>Properties\<close>

text \<open>
  C7: extraction never leaves the destination. Whatever the archive contains and whatever the file
  system answers, every directory made and every file written lies under the cleaned destination
  (apart from the request to create the destination's own parent), also when the extraction stops
  with an error half way.
\<close>

theorem ExtractTarGz_contained:
  assumes "IsAbs destination"
  shows "list_all (contained (Clean destination)) (snd (ExtractTarGz os opened destination lim))"
proof -
  obtain ds where "list_all plain ds" "Clean destination = abs_path ds"
    using Clean_abs [OF assms] by (auto simp: abs_clean_def)
  then show ?thesis using extract_loop_contained by (auto simp: ExtractTarGz_def list_all_iff split: sum.split)
qed

definition escape_archive :: "(goerr + tar_entry) list" where
  "escape_archive =
     [Inr \<lparr>te_Name = ''/a/../b'', te_Type = TarReg, te_Size = 3, te_Executable = True, te_Available = 3\<rparr>,
      Inr \<lparr>te_Name = ''x/../../etc'', te_Type = TarReg, te_Size = 1, te_Executable = False,
           te_Available = 1\<rparr>]"

lemma escape_archive_run:
  "ExtractTarGz quiet_os (Inr (10, escape_archive)) ''/d'' sample_limits =
     (Inl (Err ''tar entry escapes destination: x/../../etc''),
      [MadeDir ''/d'', WroteFile ''/d/b'' True 3])"
  by code_simp

theorem ExtractTarGz_contained_witness:
  "IsAbs ''/d'' \<and> contained ''/d'' (WroteFile ''/d/b'' True 3)"
proof -
  have "Clean ''/d'' = ''/d''" "IsAbs ''/d''" by code_simp+
  then show ?thesis
    using ExtractTarGz_contained [of "''/d''" quiet_os "Inr (10, escape_archive)" sample_limits]
    by (simp add: escape_archive_run)
qed

text \<open>
  C8: the byte limit holds. With a positive limit and entry sizes away from the end of the integer
  range, the bytes written to disk never exceed the limit, and after a successful extraction the
  reported total is exactly what was written.
\<close>

theorem ExtractTarGz_bytes_bound:
  assumes "0 < lim_MaxBytes lim" and "lim_MaxBytes lim \<le> 2 ^ 62" and "list_all size_ok stream"
    and "ExtractTarGz os (Inr (csize, stream)) destination lim = (r, effects)"
  shows "written_bytes effects \<le> lim_MaxBytes lim \<and>
     (case r of Inl e \<Rightarrow> True | Inr s \<Rightarrow> st_Bytes s = written_bytes effects)"
  using extract_loop_accounted [OF assms(1-3), of "\<lparr>st_Files = 0, st_Bytes = 0\<rparr>" os "Clean destination" csize]
    assms(1,4)
  by (auto simp: accounted_def ExtractTarGz_def split: sum.split)

definition small_archive :: "(goerr + tar_entry) list" where
  "small_archive =
     [Inr \<lparr>te_Name = ''src'', te_Type = TarDir, te_Size = 0, te_Executable = True, te_Available = 0\<rparr>,
      Inr \<lparr>te_Name = ''src/m'', te_Type = TarReg, te_Size = 7, te_Executable = False, te_Available = 7\<rparr>]"

lemma small_archive_run:
  "ExtractTarGz quiet_os (Inr (10, small_archive)) ''/d'' sample_limits =
     (Inr \<lparr>st_Files = 1, st_Bytes = 7\<rparr>,
      [MadeDir ''/d/src'', MadeDir ''/d/src'', WroteFile ''/d/src/m'' False 7])"
  by code_simp

theorem ExtractTarGz_bytes_bound_witness:
  "list_all size_ok small_archive \<and>
   written_bytes (snd (ExtractTarGz quiet_os (Inr (10, small_archive)) ''/d'' sample_limits)) = 7 \<and>
   7 \<le> lim_MaxBytes sample_limits"
proof -
  have "list_all size_ok small_archive" by (simp add: small_archive_def size_ok_def)
  moreover have "0 < lim_MaxBytes sample_limits" "lim_MaxBytes sample_limits \<le> 2 ^ 62"
    by (simp_all add: sample_limits_def)
  ultimately show ?thesis
    using ExtractTarGz_bytes_bound [OF _ _ _ small_archive_run] by (simp add: small_archive_run)
qed

text \<open>
  C9: outside that range the limit is void. A two-entry archive whose second header claims the largest
  64-bit size makes the running total negative, so that with a limit of 64 MiB any number of bytes
  that fits a 64-bit size is written before the extraction ends with an unexpected end of file.
\<close>

theorem ExtractTarGz_limit_bypass:
  assumes "0 \<le> n" and "n < max_int64"
  shows "written_bytes (snd (ExtractTarGz quiet_os (Inr (csize, bomb n)) ''/d'' sample_limits)) = 1 + n"
proof -
  have d: "Clean ''/d'' = ''/d''" by code_simp
  have a: "entry_clean_name \<lparr>te_Name = ''a'', te_Type = TarReg, te_Size = 1, te_Executable = False, te_Available = 1\<rparr> = ''a''"
    "entry_clean_name \<lparr>te_Name = ''b'', te_Type = TarReg, te_Size = max_int64, te_Executable = False,
       te_Available = n\<rparr> = ''b''"
    unfolding entry_clean_name_def by (simp_all) (code_simp+)
  have j: "Join [''/d'', ''a''] = ''/d/a''" "Join [''/d'', ''b''] = ''/d/b''" by code_simp+
  have w: "add64 0 1 = 1" "add64 1 max_int64 = min_int64" by code_simp+
  have l: "limit_error csize sample_limits \<lparr>st_Files = 1, st_Bytes = 1\<rparr> = None"
    "limit_error csize sample_limits \<lparr>st_Files = 2, st_Bytes = min_int64\<rparr> = None"
    by (simp_all add: limit_error_def sample_limits_def min_int64_def)
  have m: "0 \<le> max_int64" by (simp add: max_int64_def)
  show ?thesis
    using assms m
    by (simp add: ExtractTarGz_def bomb_def d a j w l escapes_def HasPrefix_def Let_def write_entry_def
        quiet_os_def copied_bytes_def)
qed

theorem ExtractTarGz_limit_bypass_witness:
  "written_bytes (snd (ExtractTarGz quiet_os (Inr (0, bomb (2 ^ 40))) ''/d'' sample_limits)) = 1 + 2 ^ 40 \<and>
   lim_MaxBytes sample_limits < 1 + 2 ^ 40"
  using ExtractTarGz_limit_bypass [of "2 ^ 40" 0] by (simp add: max_int64_def sample_limits_def)

end
