(* ===== verification/Snapshots.thy ===== *)
theory Snapshots
  imports Work Archive
begin

text \<open>
  Snapshots and the reconciliation loop of \<open>internal/service/service.go\<close>: creation with its staged
  clean-up, the compatibility check, fetching and verifying the artifacts, restore, and what
  \<open>Reconcile\<close> does with orphaned executions, incomplete snapshots and the state the runtime reports.
\<close>

section \<open>Creation\<close>

definition heavy_delta :: admission_delta where
  "heavy_delta = \<lparr>ad_nodeSandboxes = 0, ad_nodeRunning = 0, ad_runningCPU = 0, ad_runningMemory = 0,
     ad_tenantStarts = 0, ad_tenantHeavy = 1\<rparr>"

definition snapshot_dir :: "'r service \<Rightarrow> string \<Rightarrow> string \<Rightarrow> string" where
  "snapshot_dir svc sandboxID snapshotID = Join [cfg_SnapshotRoot (svc_cfg svc), sandboxID, snapshotID]"

definition new_snapshot :: "string \<Rightarrow> string \<Rightarrow> sandbox \<Rightarrow> string \<Rightarrow> time \<Rightarrow> snapshot" where
  "new_snapshot tenantID i s name now =
     (let selection = resolvedSandboxRuntimeSelection s in
      \<lparr>sn_ID = i, sn_SandboxID = sb_ID s, sn_TenantID = tenantID, sn_Name = (if name = [] then i else name),
       sn_Status = SnapshotCreating, sn_ImageRef = [], sn_RuntimeSelection = selection,
       sn_RuntimeBackend = Backend selection, sn_Profile = sb_Profile s,
       sn_ImageContractVersion = sb_ImageContractVersion s,
       sn_ControlProtocolVersion = sb_ControlProtocolVersion s,
       sn_WorkspaceContractVersion = sb_WorkspaceContractVersion s, sn_WorkspaceTar = [],
       sn_BundleSHA256 = [], sn_ExportLocation = [], sn_CreatedAt = now, sn_CompletedAt = None\<rparr>)"

text \<open>
  \<open>failSnapshot\<close> closes over the snapshot and the stage as they are when it is called; here both are
  arguments. \<open>or_fail\<close> runs a step and calls it on an error.
\<close>

definition failSnapshot ::
  "string \<Rightarrow> string \<Rightarrow> string \<Rightarrow> string \<Rightarrow> snapshot \<Rightarrow> goerr \<Rightarrow> (goerr, 'r world, 'a) eop" where
  "failSnapshot tenantID sandboxID dir stage sn cause =
     ignoreE (os_call (RemoveAll dir))
    (ignoreE (Store_UpdateSnapshot (sn\<lparr>sn_Status := SnapshotError\<rparr>))
    (thenE (recordAudit tenantID sandboxID ''snapshot.create'' (sn_ID sn) ''error'' (auditDetail
          [auditKV ''stage'' (AStr stage), auditKV ''name'' (AStr (sn_Name sn))]))
      (failE cause)))"

definition or_fail ::
  "(goerr \<Rightarrow> (goerr, 'w, 'b) eop) \<Rightarrow> (goerr, 'w, 'a) eop \<Rightarrow> ('a \<Rightarrow> (goerr, 'w, 'b) eop) \<Rightarrow> (goerr, 'w, 'b) eop" where
  "or_fail bad m k = tryE m (\<lambda>r. case r of Inl e \<Rightarrow> bad e | Inr a \<Rightarrow> k a)"

definition CreateTemp :: "string \<Rightarrow> string \<Rightarrow> string \<Rightarrow> (goerr, 'r world, string) eop" where
  "CreateTemp dir before after =
     bindE (newID before) (\<lambda>name. thenE (os_call (CreateFile (Join [dir, name @ after]))) (okE (Join [dir, name @ after])))"

definition command_failed :: "string \<Rightarrow> (goerr, 'w, 'a) eop \<Rightarrow> (goerr, 'w, 'a) eop" where
  "command_failed message m =
     tryE m (\<lambda>r. case r of Inl e \<Rightarrow> failE (Err (message @ '': '' @ err_text e)) | Inr a \<Rightarrow> okE a)"

definition putSnapshotBundle ::
  "string \<Rightarrow> string \<Rightarrow> string \<Rightarrow> string \<Rightarrow> (goerr, 'r world, string) eop" where
  "putSnapshotBundle exportRoot sandboxID snapshotID localBundle =
     (if HasPrefix exportRoot ''s3://'' then
        (let target = trim_right_by (\<lambda>c. c = slash) exportRoot @ ''/'' @ sandboxID @ ''/'' @ snapshotID @ ''.tar.gz'' in
         thenE (command_failed ''export snapshot bundle''
                  (os_call (RunCommand [''aws'', ''s3'', ''cp'', localBundle, target])))
           (okE target))
      else
        (let root = TrimPrefix exportRoot ''file://'';
             target = Join [root, sandboxID, snapshotID @ ''.tar.gz''] in
         thenE (os_call (MkdirAll (Dir target)))
        (thenE (os_call (CopyFile target localBundle)) (okE target))))"

definition fetchSnapshotBundle :: "string \<Rightarrow> string \<Rightarrow> (goerr, 'r world, unit) eop" where
  "fetchSnapshotBundle exportLocation localPath =
     (if HasPrefix exportLocation ''s3://'' then
        command_failed ''restore snapshot bundle''
          (os_call (RunCommand [''aws'', ''s3'', ''cp'', exportLocation, localPath]))
      else os_call (CopyFile localPath (TrimPrefix exportLocation ''file://'')))"

definition exportSnapshotBundle :: "'r service \<Rightarrow> sandbox \<Rightarrow> snapshot \<Rightarrow> (goerr, 'r world, string) eop" where
  "exportSnapshotBundle svc s sn =
     (let dir = snapshot_dir svc (sb_ID s) (sn_ID sn) in
      bindE (CreateTemp (Dir dir) (sn_ID sn @ ''-'') ''.tar.gz'') (\<lambda>bundlePath.
      tryE (thenE (os_call (TarGz bundlePath dir))
             (putSnapshotBundle (cfg_OptionalSnapshotExport (svc_cfg svc)) (sb_ID s) (sn_ID sn) bundlePath)) (\<lambda>r.
      ignoreE (os_call (RemovePath bundlePath)) (liftE r))))"

text \<open>The two artifacts are moved into the snapshot's directory unless they are there already.\<close>

definition keep_image ::
  "'r service \<Rightarrow> (string \<Rightarrow> snapshot \<Rightarrow> goerr \<Rightarrow> (goerr, 'r world, 'a) eop) \<Rightarrow> string \<Rightarrow> snapshot_info \<Rightarrow> snapshot
     \<Rightarrow> (string \<Rightarrow> snapshot \<Rightarrow> (goerr, 'r world, 'a) eop) \<Rightarrow> (goerr, 'r world, 'a) eop" where
  "keep_image svc bad dir info sn k =
     (let ref = si_ImageRef info; target = Join [dir, ''rootfs.img''] in
      if ref = [] \<or> \<not> looksLikeFilesystemPath ref then k ''mkdir_snapshot_dir'' (sn\<lparr>sn_ImageRef := ref\<rparr>)
      else if \<not> h_Readable (svc_host svc) ref then
        bad ''validate_rootfs_artifact'' sn (Err (''snapshot image artifact is not readable: '' @ ref))
      else if ref = target then k ''validate_rootfs_artifact'' (sn\<lparr>sn_ImageRef := target\<rparr>)
      else or_fail (bad ''copy_rootfs_artifact'' sn) (os_call (CopyFile target ref)) (\<lambda>_.
        ignoreE (os_call (RemovePath ref)) (k ''copy_rootfs_artifact'' (sn\<lparr>sn_ImageRef := target\<rparr>))))"

definition keep_workspace ::
  "(string \<Rightarrow> snapshot \<Rightarrow> goerr \<Rightarrow> (goerr, 'r world, 'a) eop) \<Rightarrow> string \<Rightarrow> snapshot_info \<Rightarrow> string \<Rightarrow> snapshot
     \<Rightarrow> (string \<Rightarrow> snapshot \<Rightarrow> (goerr, 'r world, 'a) eop) \<Rightarrow> (goerr, 'r world, 'a) eop" where
  "keep_workspace bad dir info stage sn k =
     (let tar = si_WorkspaceTar info; target = Join [dir, ''workspace.tar.gz''] in
      if tar = [] then k stage (sn\<lparr>sn_WorkspaceTar := tar\<rparr>)
      else if tar = target then k stage (sn\<lparr>sn_WorkspaceTar := target\<rparr>)
      else or_fail (bad ''copy_workspace_artifact'' sn) (os_call (CopyFile target tar)) (\<lambda>_.
        ignoreE (os_call (RemovePath tar)) (k ''copy_workspace_artifact'' (sn\<lparr>sn_WorkspaceTar := target\<rparr>))))"

definition finish_snapshot ::
  "'r service \<Rightarrow> string \<Rightarrow> string \<Rightarrow> sandbox \<Rightarrow> (string \<Rightarrow> snapshot \<Rightarrow> goerr \<Rightarrow> (goerr, 'r world, snapshot) eop)
     \<Rightarrow> string \<Rightarrow> snapshot \<Rightarrow> (goerr, 'r world, snapshot) eop" where
  "finish_snapshot svc tenantID sandboxID s bad stage sn0 =
     bindE now_utc (\<lambda>completed.
     (let sn1 = sn0\<lparr>sn_Status := SnapshotReady, sn_CompletedAt := Some completed\<rparr> in
      or_fail (bad stage sn1)
        (if sn_WorkspaceTar sn1 \<noteq> [] \<and> looksLikeFilesystemPath (sn_WorkspaceTar sn1)
         then liftE (h_SHA256 (svc_host svc) (sn_WorkspaceTar sn1)) else okE (sn_BundleSHA256 sn1)) (\<lambda>digest.
     (let sn2 = sn1\<lparr>sn_BundleSHA256 := digest\<rparr> in
      or_fail (bad ''export_bundle'' sn2)
        (if cfg_OptionalSnapshotExport (svc_cfg svc) \<noteq> [] then exportSnapshotBundle svc s sn2
         else okE (sn_ExportLocation sn2)) (\<lambda>exportLocation.
     (let sn = sn2\<lparr>sn_ExportLocation := exportLocation\<rparr> in
      or_fail (bad ''persist_ready'' sn) (Store_UpdateSnapshot sn) (\<lambda>_.
      or_fail (bad ''refresh_storage'' sn) (refreshStorage svc s) (\<lambda>_.
      thenE (recordAudit tenantID sandboxID ''snapshot.create'' (sn_ID sn) ''ok'' (snapshotAuditDetail sn))
        (okE sn)))))))))"

definition CreateSnapshot ::
  "'r service \<Rightarrow> string \<Rightarrow> string \<Rightarrow> string \<Rightarrow> (goerr, 'r world, snapshot) eop" where
  "CreateSnapshot svc tenantID sandboxID name =
     bindE (Store_GetSandbox tenantID sandboxID) (\<lambda>s.
     thenE (enforceAdmission svc tenantID (sb_ID s) ''snapshot_create'' heavy_delta)
      (if Backend (resolvedSandboxRuntimeSelection s) = ''qemu'' \<and> sb_Status s \<noteq> StatusStopped then
         failE (Err ''qemu snapshots require the sandbox to be stopped'')
       else
         bindE (newID ''snap-'') (\<lambda>i.
         bindE now_utc (\<lambda>now.
         (let sn = new_snapshot tenantID i s name now; dir = snapshot_dir svc (sb_ID s) i;
              bad = failSnapshot tenantID sandboxID dir in
          thenE (Store_CreateSnapshot sn)
         (or_fail (bad ''runtime_create'' sn) (rt_call (rm_CreateSnapshot (svc_runtime svc) s i)) (\<lambda>info.
          or_fail (bad ''mkdir_snapshot_dir'' sn) (os_call (MkdirAll dir)) (\<lambda>_.
          keep_image svc bad dir info sn (\<lambda>stage1 sn1.
          keep_workspace bad dir info stage1 sn1 (\<lambda>stage2 sn2.
            finish_snapshot svc tenantID sandboxID s bad stage2 sn2))))))))))"

definition ListSnapshots :: "string \<Rightarrow> string \<Rightarrow> (goerr, 'r world, snapshot list) eop" where
  "ListSnapshots tenantID sandboxID =
     thenE (Store_GetSandbox tenantID sandboxID) (Store_ListSnapshots tenantID sandboxID)"

definition GetSnapshot :: "string \<Rightarrow> string \<Rightarrow> (goerr, 'r world, snapshot) eop" where
  "GetSnapshot tenantID snapshotID = Store_GetSnapshot tenantID snapshotID"

section \<open>Restore\<close>

definition validateSnapshotCompatibility ::
  "'r service \<Rightarrow> snapshot \<Rightarrow> sandbox \<Rightarrow> (goerr, 'r world, unit) eop" where
  "validateSnapshotCompatibility svc sn s =
     (let snapshotSelection = resolvedSnapshotRuntimeSelection sn;
          sandboxSelection = resolvedSandboxRuntimeSelection s;
          mismatch = (\<lambda>what a b. failE (Err (''snapshot '' @ what @ '' '' @ quote a @ '' does not match target sandbox ''
                                    @ what @ '' '' @ quote b))) in
      if snapshotSelection \<noteq> no_selection \<and> sandboxSelection \<noteq> no_selection \<and> snapshotSelection \<noteq> sandboxSelection then
        mismatch ''runtime selection'' (selection_string snapshotSelection) (selection_string sandboxSelection)
      else if snapshotSelection = no_selection \<and> sn_RuntimeBackend sn \<noteq> [] \<and> sn_RuntimeBackend sn \<noteq> Backend sandboxSelection then
        mismatch ''runtime'' (sn_RuntimeBackend sn) (Backend sandboxSelection)
      else if sn_Profile sn \<noteq> no_profile \<and> sb_Profile s \<noteq> no_profile \<and> sn_Profile sn \<noteq> sb_Profile s then
        mismatch ''profile'' (profile_string (sn_Profile sn)) (profile_string (sb_Profile s))
      else if sn_WorkspaceContractVersion sn \<noteq> [] \<and> sb_WorkspaceContractVersion s \<noteq> [] \<and>
              sn_WorkspaceContractVersion sn \<noteq> sb_WorkspaceContractVersion s then
        mismatch ''workspace contract version'' (sn_WorkspaceContractVersion sn) (sb_WorkspaceContractVersion s)
      else
        (let restoreImageRef = (if Backend sandboxSelection = ''qemu'' then sb_BaseImageRef s else sn_ImageRef sn) in
         enforcePromotedImagePolicy svc (sb_TenantID s) (sb_ID s) (resolvedSandboxRuntimeSelection s)
           restoreImageRef ''policy.snapshot.restore'' no_contract))"

definition snapshotExtractLimits :: "'r service \<Rightarrow> limits" where
  "snapshotExtractLimits svc = \<lparr>lim_MaxBytes = cfg_SnapshotMaxBytes (svc_cfg svc),
     lim_MaxFiles = cfg_SnapshotMaxFiles (svc_cfg svc),
     lim_MaxExpansionRatio = cfg_SnapshotMaxExpansionRatio (svc_cfg svc)\<rparr>"

definition rebindSnapshotArtifactPath :: "string \<Rightarrow> string \<Rightarrow> string" where
  "rebindSnapshotArtifactPath targetDir original =
     (if \<not> looksLikeFilesystemPath original then original else Join [targetDir, Base original])"

text \<open>The archive files an extraction reads: the outcomes of the calls, and what opening a path gives.\<close>

record archive_view =
  av_os :: archive_os
  av_Open :: "string \<Rightarrow> goerr + int \<times> (goerr + tar_entry) list"

fun effect_op :: "fs_effect \<Rightarrow> fs_op" where
  "effect_op (MadeDir p) = MkdirAll p"
| "effect_op (WroteFile p x n) = ExtractFile p n"

definition extract_archive :: "archive_view \<Rightarrow> string \<Rightarrow> string \<Rightarrow> limits \<Rightarrow> (goerr, 'r world, stats) eop" where
  "extract_archive view source destination lim = (\<lambda>w.
     case ExtractTarGz (av_os view) (av_Open view source) destination lim of
       (r, effects) \<Rightarrow> (r, w\<lparr>w_fs := w_fs w @ map effect_op effects\<rparr>))"

definition local_missing :: "'r service \<Rightarrow> string \<Rightarrow> bool" where
  "local_missing svc path \<longleftrightarrow>
     path \<noteq> [] \<and> looksLikeFilesystemPath path \<and> \<not> h_Exists (svc_host svc) path"

definition verify_bundle :: "'r service \<Rightarrow> snapshot \<Rightarrow> goerr + snapshot" where
  "verify_bundle svc sn =
     (if sn_BundleSHA256 sn \<noteq> [] \<and> sn_WorkspaceTar sn \<noteq> [] \<and> looksLikeFilesystemPath (sn_WorkspaceTar sn) then
        (case h_SHA256 (svc_host svc) (sn_WorkspaceTar sn) of
           Inl e \<Rightarrow> Inl e
         | Inr digest \<Rightarrow>
             if \<not> EqualFold digest (sn_BundleSHA256 sn) then Inl (Err ''snapshot bundle checksum mismatch'')
             else Inr sn)
      else Inr sn)"

definition ensureSnapshotArtifacts ::
  "'r service \<Rightarrow> archive_view \<Rightarrow> sandbox \<Rightarrow> snapshot \<Rightarrow> (goerr, 'r world, snapshot) eop" where
  "ensureSnapshotArtifacts svc view s sn =
     (if \<not> local_missing svc (sn_ImageRef sn) \<and> \<not> local_missing svc (sn_WorkspaceTar sn) then
        liftE (verify_bundle svc sn)
      else if sn_ExportLocation sn = [] then okE sn
      else
        (let targetDir = snapshot_dir svc (sb_ID s) (sn_ID sn);
             tempBundle = Join [targetDir, ''snapshot.restore.tar.gz''] in
         thenE (os_call (MkdirAll targetDir))
        (thenE (fetchSnapshotBundle (sn_ExportLocation sn) tempBundle)
        (tryE (thenE (extract_archive view tempBundle targetDir (snapshotExtractLimits svc))
                (liftE (verify_bundle svc (sn\<lparr>sn_ImageRef := rebindSnapshotArtifactPath targetDir (sn_ImageRef sn),
                   sn_WorkspaceTar := rebindSnapshotArtifactPath targetDir (sn_WorkspaceTar sn)\<rparr>)))) (\<lambda>r.
         ignoreE (os_call (RemovePath tempBundle)) (liftE r))))))"

definition restore_details :: "string \<Rightarrow> string \<Rightarrow> bool \<Rightarrow> string" where
  "restore_details stage sandboxID forcedStop = auditDetail
     [auditKV ''stage'' (AStr stage), auditKV ''target_sandbox_id'' (AStr sandboxID),
      auditKV ''forced_stop'' (ABool forcedStop)]"

definition restored_sandbox :: "sandbox \<Rightarrow> snapshot \<Rightarrow> runtime_state \<Rightarrow> time \<Rightarrow> sandbox" where
  "restored_sandbox s sn state now =
     (let selection = resolvedSandboxRuntimeSelection s;
          s1 = s\<lparr>sb_Status := StatusStopped, sb_RuntimeSelection := selection,
                 sb_RuntimeClass := RuntimeClass selection, sb_RuntimeStatus := status_string (rs_Status state),
                 sb_Profile := sn_Profile sn, sb_ImageContractVersion := sn_ImageContractVersion sn,
                 sb_ControlProtocolVersion := sn_ControlProtocolVersion sn,
                 sb_WorkspaceContractVersion := sn_WorkspaceContractVersion sn\<rparr> in
      s1\<lparr>sb_BaseImageRef := (if Backend (resolvedSandboxRuntimeSelection s1) \<noteq> ''qemu'' then sn_ImageRef sn
                             else sb_BaseImageRef s1),
         sb_UpdatedAt := now\<rparr>)"

definition stop_target ::
  "'r service \<Rightarrow> string \<Rightarrow> sandbox \<Rightarrow> snapshot \<Rightarrow> (goerr, 'r world, sandbox \<times> bool) eop" where
  "stop_target svc tenantID s sn =
     (if sb_Status s = StatusRunning \<or> sb_Status s = StatusSuspended then
        tryE (StopSandbox svc tenantID (sb_ID s) True) (\<lambda>r.
        case r of
          Inl e \<Rightarrow> thenE (recordAudit tenantID (sb_ID s) ''snapshot.restore'' (sn_ID sn) ''error''
                        (restore_details ''stop_target'' (sb_ID s) True)) (failE e)
        | Inr _ \<Rightarrow> tryE (Store_GetSandbox tenantID (sb_ID s)) (\<lambda>again.
            okE (case again of Inl _ \<Rightarrow> zero_sandbox | Inr s' \<Rightarrow> s', True)))
      else okE (s, False))"

text \<open>
  When the artifacts cannot be provided the code has already overwritten its snapshot with the zero
  value, so the audit record names no snapshot.
\<close>

definition RestoreSnapshot ::
  "'r service \<Rightarrow> archive_view \<Rightarrow> string \<Rightarrow> string \<Rightarrow> string \<Rightarrow> (goerr, 'r world, sandbox) eop" where
  "RestoreSnapshot svc view tenantID snapshotID targetSandboxID =
     bindE (Store_GetSnapshot tenantID snapshotID) (\<lambda>sn0.
     bindE (Store_GetSandbox tenantID targetSandboxID) (\<lambda>s0.
     thenE (enforceAdmission svc tenantID (sb_ID s0) ''snapshot_restore'' heavy_delta)
    (tryE (validateSnapshotCompatibility svc sn0 s0) (\<lambda>compatible.
     case compatible of
       Inl e \<Rightarrow> thenE (recordAudit tenantID (sb_ID s0) ''snapshot.restore'' (sn_ID sn0) ''denied''
                     (restore_details ''compatibility_check'' (sb_ID s0) False)) (failE e)
     | Inr _ \<Rightarrow>
    (tryE (ensureSnapshotArtifacts svc view s0 sn0) (\<lambda>ensured.
     case ensured of
       Inl e \<Rightarrow> thenE (recordAudit tenantID (sb_ID s0) ''snapshot.restore'' [] ''error''
                     (restore_details ''ensure_artifacts'' (sb_ID s0) False)) (failE e)
     | Inr sn \<Rightarrow>
    (bindE (stop_target svc tenantID s0 sn) (\<lambda>(s1, forcedStop).
     tryE (rt_call (rm_RestoreSnapshot (svc_runtime svc) s1 sn)) (\<lambda>restored.
     case restored of
       Inl e \<Rightarrow> thenE (recordAudit tenantID (sb_ID s1) ''snapshot.restore'' (sn_ID sn) ''error''
                     (restore_details ''runtime_restore'' (sb_ID s1) forcedStop)) (failE e)
     | Inr state \<Rightarrow>
         bindE now_utc (\<lambda>now.
         (let s = restored_sandbox s1 sn state now in
          thenE (Store_UpdateSandboxState s)
         (thenE (Store_UpdateRuntimeState (sb_ID s) state)
         (thenE (refreshStorage svc s)
         (thenE (recordAudit tenantID (sb_ID s) ''snapshot.restore'' (sn_ID sn) ''ok'' (auditDetail
              [auditKV ''target_sandbox_id'' (AStr (sb_ID s)), auditKV ''forced_stop'' (ABool forcedStop),
               auditKV ''runtime_selection'' (ARaw (selection_string (resolvedSandboxRuntimeSelection s))),
               snapshotAuditDetail sn]))
         (thenE (revokeActiveTunnels tenantID s ''snapshot_restore'')
           (Store_GetSandbox tenantID (sb_ID s)))))))))))))))))"

section \<open>Reconciliation\<close>

definition reconcileStorageRefreshInterval :: "config \<Rightarrow> int" where
  "reconcileStorageRefreshInterval cfg =
     (if 0 < cfg_CleanupInterval cfg then cfg_CleanupInterval cfg else 5 * 60 * 1000000000)"

definition refreshStorageIfStale :: "'r service \<Rightarrow> sandbox \<Rightarrow> bool \<Rightarrow> (goerr, 'r world, unit) eop" where
  "refreshStorageIfStale svc s force =
     (if force then refreshStorage svc s
      else tryE (Store_StorageUsageUpdatedAt (sb_ID s)) (\<lambda>r.
        case r of
          Inr updatedAt \<Rightarrow>
            bindE now_utc (\<lambda>now.
              if time_Sub now updatedAt < reconcileStorageRefreshInterval (svc_cfg svc) then okE ()
              else refreshStorage svc s)
        | Inl e \<Rightarrow> if e \<noteq> ErrNotFound then failE e else refreshStorage svc s))"

definition cancel_execution :: "execution \<Rightarrow> (goerr, 'r world, unit) eop" where
  "cancel_execution x =
     bindE now_utc (\<lambda>now.
     (let x' = x\<lparr>ex_Status := ExecCanceled, ex_ExitCode := Some 1,
                 ex_StderrPreview := ''control plane restarted during execution'', ex_CompletedAt := Some now,
                 ex_DurationMS := Some (milliseconds (time_Sub now (ex_StartedAt x)))\<rparr> in
      thenE (Store_UpdateExecution x')
        (recordAudit (ex_TenantID x') (ex_SandboxID x') ''sandbox.exec.reconcile'' (ex_ID x') ''canceled''
          (executionAuditDetail x'))))"

definition reconcileOrphanedExecutions :: "(goerr, 'r world, unit) eop" where
  "reconcileOrphanedExecutions = bindE Store_ListRunningExecutions (\<lambda>xs. forE xs cancel_execution)"

definition fail_incomplete :: "snapshot \<Rightarrow> (goerr, 'r world, unit) eop" where
  "fail_incomplete sn =
     thenE (Store_UpdateSnapshot (sn\<lparr>sn_Status := SnapshotError\<rparr>))
       (recordAudit (sn_TenantID sn) (sn_SandboxID sn) ''snapshot.reconcile'' (sn_ID sn) ''error''
         ''control plane restarted during snapshot creation'')"

definition reconcileIncompleteSnapshots :: "(goerr, 'r world, unit) eop" where
  "reconcileIncompleteSnapshots =
     bindE (Store_ListSnapshotsByStatus SnapshotCreating) (\<lambda>sns. forE sns fail_incomplete)"

text \<open>
  One round of the loop over the sandboxes. A failed update does not end the loop: its error joins
  the others, so a round returns the list of its errors and never fails.
\<close>

definition err_list :: "goerr + 'a \<Rightarrow> goerr list" where
  "err_list r = (case r of Inl e \<Rightarrow> [e] | Inr _ \<Rightarrow> [])"

definition inspect_failed :: "sandbox \<Rightarrow> goerr \<Rightarrow> (goerr, 'r world, goerr list) eop" where
  "inspect_failed s0 e =
     bindE now_utc (\<lambda>now.
     (let s = s0\<lparr>sb_Status := StatusDegraded, sb_RuntimeStatus := status_string StatusDegraded,
                 sb_LastRuntimeError := err_text e, sb_UpdatedAt := now\<rparr> in
      tryE (Store_UpdateSandboxState s) (\<lambda>r.
      thenE (recordAudit (sb_TenantID s) (sb_ID s) ''sandbox.reconcile'' (sb_ID s) ''error'' (auditDetail
           [auditKV ''previous_status'' (ARaw (status_string (sb_Status s0))),
            auditKV ''result_status'' (ARaw (status_string (sb_Status s))),
            auditKV ''reason'' (AStr ''inspect_failed'')]))
        (okE (err_list r)))))"

definition reconcile_one :: "'r service \<Rightarrow> sandbox \<Rightarrow> (goerr, 'r world, goerr list) eop" where
  "reconcile_one svc s0 =
     tryE (rt_call (rm_Inspect (svc_runtime svc) s0)) (\<lambda>inspected.
     case inspected of
       Inl e \<Rightarrow> inspect_failed s0 e
     | Inr state \<Rightarrow>
         bindE now_utc (\<lambda>now.
         (let s = s0\<lparr>sb_Status := rs_Status state, sb_RuntimeStatus := status_string (rs_Status state),
                     sb_RuntimeID := rs_RuntimeID state, sb_LastRuntimeError := rs_Error state,
                     sb_UpdatedAt := now\<rparr>;
              changed = (sb_Status s \<noteq> sb_Status s0 \<or> sb_RuntimeStatus s \<noteq> sb_RuntimeStatus s0 \<or>
                         sb_RuntimeID s \<noteq> sb_RuntimeID s0 \<or> sb_LastRuntimeError s \<noteq> sb_LastRuntimeError s0) in
          tryE (Store_UpdateSandboxState s) (\<lambda>r1.
          tryE (Store_UpdateRuntimeState (sb_ID s) state) (\<lambda>r2.
          thenE (if changed then recordAudit (sb_TenantID s) (sb_ID s) ''sandbox.reconcile'' (sb_ID s) ''ok'' (auditDetail
               [auditKV ''previous_status'' (ARaw (status_string (sb_Status s0))),
                auditKV ''result_status'' (ARaw (status_string (sb_Status s))),
                auditKV ''runtime_status'' (AStr (sb_RuntimeStatus s))]) else okE ())
         (tryE (refreshStorageIfStale svc s changed) (\<lambda>r3.
            okE (err_list r1 @ err_list r2 @ err_list r3))))))))"

fun reconcile_all :: "'r service \<Rightarrow> sandbox list \<Rightarrow> (goerr, 'r world, goerr list) eop" where
  "reconcile_all svc [] = okE []"
| "reconcile_all svc (s # rest) =
     bindE (reconcile_one svc s) (\<lambda>errs. bindE (reconcile_all svc rest) (\<lambda>more. okE (errs @ more)))"

definition Reconcile :: "'r service \<Rightarrow> (goerr, 'r world, unit) eop" where
  "Reconcile svc =
     thenE reconcileOrphanedExecutions
    (thenE reconcileIncompleteSnapshots
    (bindE Store_ListNonDeletedSandboxes (\<lambda>sandboxes.
     bindE (reconcile_all svc sandboxes) (\<lambda>errs.
       if errs = [] then okE () else failE (Err (join_with [CHR 0x0A] (map err_text errs)))))))"

end
