(* ===== verification/Transfers.thy ===== *)
theory Transfers
  imports Snapshots Work
begin

text \<open>
  Whole workspaces as archives: \<open>ImportWorkspaceArchive\<close>, \<open>ExportWorkspaceArchive\<close> and their helpers in
  \<open>internal/service/service.go\<close>. A directory walk is the list of what its callback is given: an error of the
  walk, or an entry with everything the callback can see of it at that moment. The tar writer is modelled by
  the entries it holds and the bytes the current one still lacks.
\<close>

section \<open>Walks\<close>

record file_info =
  fi_Symlink :: bool
  fi_Executable :: bool
  fi_Size :: int
  fi_Header :: "goerr option"

record walk_entry =
  we_Rel :: string
  we_IsDir :: bool
  we_Info :: "goerr + file_info"
  we_Content :: "goerr + string"
  we_fs :: os_fs

record tree_view =
  tv_file :: file_view
  tv_archive :: archive_view
  tv_Walk :: "string \<Rightarrow> (goerr + walk_entry) list"
  tv_Stat :: "string \<Rightarrow> goerr option"

definition we_path :: "string \<Rightarrow> walk_entry \<Rightarrow> string" where
  "we_path root e = (if we_Rel e = ''.'' then root else Join [root, we_Rel e])"

definition is_walk_root :: "walk_entry \<Rightarrow> bool" where
  "is_walk_root e \<longleftrightarrow> we_Rel e = ''.''"

section \<open>Export\<close>

fun export_parts :: "os_fs \<Rightarrow> string \<Rightarrow> string \<Rightarrow> string list \<Rightarrow> goerr + string" where
  "export_parts fs cleaned current [] = Inr current"
| "export_parts fs cleaned current (part # parts) =
     (let nxt = Join [current, part] in
      case os_Lstat fs nxt of
        LstatSymlink \<Rightarrow> Inl (Err (''workspace path contains unsupported symlink: '' @ cleaned))
      | LstatPlain \<Rightarrow> export_parts fs cleaned nxt parts
      | LstatNotExist \<Rightarrow> Inl (OSError (''lstat '' @ nxt @ '': no such file or directory''))
      | LstatFailed e \<Rightarrow> Inl e)"

definition resolveWorkspaceArchiveExportTarget ::
  "tree_view \<Rightarrow> string \<Rightarrow> string \<Rightarrow> goerr + string \<times> string" where
  "resolveWorkspaceArchiveExportTarget view workspaceRoot requested =
     (case cleanWorkspaceRelativePath requested of
        Inl e \<Rightarrow> Inl e
      | Inr cleaned \<Rightarrow>
          (case resolveWorkspacePath (fv_fs (tv_file view)) workspaceRoot [] of
             Inl e \<Rightarrow> Inl e
           | Inr root \<Rightarrow>
               (case (if cleaned = [] then Inr root
                      else export_parts (fv_fs (tv_file view)) cleaned root (split_on slash cleaned)) of
                  Inl e \<Rightarrow> Inl e
                | Inr target \<Rightarrow>
                    (case tv_Stat view target of
                       Some e \<Rightarrow> Inl e
                     | None \<Rightarrow> Inr (cleaned, target)))))"

record tar_writer =
  tw_Entries :: "(string \<times> string option) list"
  tw_Missing :: int
  tw_Seen :: "string list"
  tw_Total :: int

definition new_writer :: tar_writer where
  "new_writer = \<lparr>tw_Entries = [], tw_Missing = 0, tw_Seen = [], tw_Total = 0\<rparr>"

definition archive_name :: "string \<Rightarrow> string \<Rightarrow> walk_entry \<Rightarrow> string" where
  "archive_name cleaned target e =
     (let archiveRoot = (if cleaned = [] then ''.'' else cleaned);
          name = (if is_walk_root e then archiveRoot else Join [cleaned, we_Rel e]) in
      if name = ''.'' then Base target else name)"

text \<open>
  Copying a file into its entry: the writer takes at most the size the header announced, and refuses more.
\<close>

definition copy_content :: "tar_writer \<Rightarrow> string \<Rightarrow> int \<Rightarrow> string \<Rightarrow> (goerr + unit) \<times> tar_writer" where
  "copy_content tw name limit content =
     (let taken = take (nat limit) content;
          tw' = tw\<lparr>tw_Entries := tw_Entries tw @ [(name, Some taken)], tw_Missing := limit - int (length taken)\<rparr> in
      if limit < int (length content) then (Inl (Err ''archive/tar: write too long''), tw') else (Inr (), tw'))"

definition export_entry ::
  "int \<Rightarrow> string \<Rightarrow> string \<Rightarrow> tar_writer \<Rightarrow> walk_entry \<Rightarrow> (goerr + unit) \<times> tar_writer" where
  "export_entry maxBytes cleaned target tw e =
     (let name = archive_name cleaned target e in
      if is_walk_root e \<and> cleaned = [] \<and> we_IsDir e then (Inr (), tw)
      else if name \<in> set (tw_Seen tw) then (Inr (), tw)
      else
        (case we_Info e of
           Inl err \<Rightarrow> (Inl err, tw)
         | Inr info \<Rightarrow>
             if fi_Symlink info then (Inl (Err (''workspace path contains unsupported symlink: '' @ name)), tw)
             else
               (case fi_Header info of
                  Some err \<Rightarrow> (Inl err, tw)
                | None \<Rightarrow>
                    if tw_Missing tw \<noteq> 0 then
                      (Inl (Err (''archive/tar: missed writing '' @ fmt_int (tw_Missing tw) @ '' bytes'')), tw)
                    else if we_IsDir e then
                      (Inr (), tw\<lparr>tw_Seen := name # tw_Seen tw,
                         tw_Entries := tw_Entries tw @ [(if HasSuffix name ''/'' then name else name @ ''/'', None)]\<rparr>)
                    else
                      (let tw1 = tw\<lparr>tw_Seen := name # tw_Seen tw, tw_Total := add64 (tw_Total tw) (fi_Size info)\<rparr> in
                       case ensureWorkspaceTransferSize (tw_Total tw1) maxBytes of
                         Inl err \<Rightarrow> (Inl err, tw1\<lparr>tw_Entries := tw_Entries tw1 @ [(name, Some [])],
                                               tw_Missing := fi_Size info\<rparr>)
                       | Inr u \<Rightarrow>
                           (case we_Content e of
                              Inl err \<Rightarrow> (Inl err, tw1\<lparr>tw_Entries := tw_Entries tw1 @ [(name, Some [])],
                                                    tw_Missing := fi_Size info\<rparr>)
                            | Inr content \<Rightarrow> copy_content tw1 name (fi_Size info) content)))))"

fun export_walk ::
  "int \<Rightarrow> string \<Rightarrow> string \<Rightarrow> tar_writer \<Rightarrow> (goerr + walk_entry) list \<Rightarrow> (goerr + unit) \<times> tar_writer" where
  "export_walk maxBytes cleaned target tw [] = (Inr (), tw)"
| "export_walk maxBytes cleaned target tw (Inl e # rest) = (Inl e, tw)"
| "export_walk maxBytes cleaned target tw (Inr e # rest) =
     (case export_entry maxBytes cleaned target tw e of
        (Inl err, tw') \<Rightarrow> (Inl err, tw')
      | (Inr u, tw') \<Rightarrow> export_walk maxBytes cleaned target tw' rest)"

text \<open>
  The deferred \<open>Close\<close> of the two writers drops its error, so an entry that is still short of bytes at the
  end is not reported.
\<close>

fun writeWorkspaceTarGz ::
  "tree_view \<Rightarrow> string \<Rightarrow> tar_writer \<Rightarrow> string list \<Rightarrow> int \<Rightarrow> (goerr + unit) \<times> tar_writer" where
  "writeWorkspaceTarGz view workspaceRoot tw [] maxBytes = (Inr (), tw)"
| "writeWorkspaceTarGz view workspaceRoot tw (requested # rest) maxBytes =
     (case resolveWorkspaceArchiveExportTarget view workspaceRoot requested of
        Inl e \<Rightarrow> (Inl e, tw)
      | Inr (cleaned, target) \<Rightarrow>
          (case export_walk maxBytes cleaned target tw (tv_Walk view target) of
             (Inl e, tw') \<Rightarrow> (Inl e, tw')
           | (Inr u, tw') \<Rightarrow> writeWorkspaceTarGz view workspaceRoot tw' rest maxBytes))"

text \<open>
  The deferred removal of the temporary archive looks at an error variable that the failing statements
  shadow, so it never removes anything.
\<close>

definition write_export ::
  "'r service \<Rightarrow> tree_view \<Rightarrow> string \<Rightarrow> string \<Rightarrow> string list \<Rightarrow> (goerr, 'r world, unit) eop" where
  "write_export svc view workspaceRoot archivePath exportPaths =
     (case writeWorkspaceTarGz view workspaceRoot new_writer exportPaths (svc_maxTransfer svc) of
        (r, tw) \<Rightarrow>
          tryE (os_call (WriteTar archivePath (tw_Entries tw))) (\<lambda>written.
          case (written, r) of
            (Inl e, _) \<Rightarrow> ignoreE (os_call (CloseFile archivePath)) (failE e)
          | (_, Inl e) \<Rightarrow> ignoreE (os_call (CloseFile archivePath)) (failE e)
          | _ \<Rightarrow> os_call (CloseFile archivePath)))"

definition exported ::
  "'r service \<Rightarrow> string \<Rightarrow> string \<Rightarrow> sandbox \<Rightarrow> string \<Rightarrow> (goerr, 'r world, string) eop" where
  "exported svc tenantID sandboxID s archivePath =
     thenE (recordAudit tenantID sandboxID ''workspace.export'' sandboxID ''ok'' ''workspace archive exported'')
    (ignoreE (touchSandboxActivity s) (okE archivePath))"

definition export_from_host ::
  "'r service \<Rightarrow> tree_view \<Rightarrow> string \<Rightarrow> string \<Rightarrow> sandbox \<Rightarrow> string list \<Rightarrow> (goerr, 'r world, string) eop" where
  "export_from_host svc view tenantID sandboxID s exportPaths =
     guardE (Backend (resolvedSandboxRuntimeSelection s) = ''qemu'')
       (Err ''runtime-backed workspace export is unsupported for the active runtime'') (
     bindE (liftE (resolveWorkspacePath (fv_fs (tv_file view)) (sb_WorkspaceRoot s) [])) (\<lambda>workspaceRoot.
     bindE (CreateTemp (Dir workspaceRoot) ''workspace-export-'' ''.tar.gz'') (\<lambda>archivePath.
     thenE (write_export svc view workspaceRoot archivePath exportPaths)
       (exported svc tenantID sandboxID s archivePath))))"

definition is_unsupported :: "goerr \<Rightarrow> bool" where
  "is_unsupported e = (case e of UnsupportedRuntimeOperationError sel oper \<Rightarrow> True | _ \<Rightarrow> False)"

definition ExportWorkspaceArchive ::
  "'r service \<Rightarrow> tree_view \<Rightarrow> string \<Rightarrow> string \<Rightarrow> string list \<Rightarrow> (goerr, 'r world, string) eop" where
  "ExportWorkspaceArchive svc view tenantID sandboxID paths =
     bindE (Store_GetSandbox tenantID sandboxID) (\<lambda>s.
     bindE (liftE (normalizeWorkspaceExportPaths paths)) (\<lambda>exportPaths.
     case rm_ExportWorkspaceArchive (svc_runtime svc) of
       None \<Rightarrow> export_from_host svc view tenantID sandboxID s exportPaths
     | Some f \<Rightarrow>
         tryE (rt_call (f s exportPaths (svc_maxTransfer svc))) (\<lambda>r.
         case r of
           Inr archivePath \<Rightarrow> exported svc tenantID sandboxID s archivePath
         | Inl e \<Rightarrow>
             if is_unsupported e then export_from_host svc view tenantID sandboxID s exportPaths else failE e)))"

section \<open>Import\<close>

definition symlink_refused :: "string \<Rightarrow> goerr" where
  "symlink_refused rel = Err (''workspace archive contains unsupported symlink: '' @ rel)"

definition copy_entry :: "string \<Rightarrow> string \<Rightarrow> walk_entry \<Rightarrow> (goerr, 'r world, unit) eop" where
  "copy_entry sourceRoot destinationRoot e =
     (if is_walk_root e then okE ()
      else
        bindE (liftE (resolveWorkspacePath (we_fs e) destinationRoot (we_Rel e))) (\<lambda>target.
        bindE (liftE (we_Info e)) (\<lambda>info.
        if fi_Symlink info then failE (symlink_refused (we_Rel e))
        else if we_IsDir e then os_call (MkdirAll target)
        else
          thenE (os_call (MkdirAll (Dir target)))
         (bindE (liftE (we_Content e)) (\<lambda>content. os_call (CopyFile (we_path sourceRoot e) target))))))"

definition walkDir :: "(goerr + walk_entry) list \<Rightarrow> (walk_entry \<Rightarrow> (goerr, 'r world, unit) eop) \<Rightarrow> (goerr, 'r world, unit) eop" where
  "walkDir entries callback = forE entries (\<lambda>x. case x of Inl e \<Rightarrow> failE e | Inr e \<Rightarrow> callback e)"

definition copyWorkspaceTree :: "tree_view \<Rightarrow> string \<Rightarrow> string \<Rightarrow> (goerr, 'r world, unit) eop" where
  "copyWorkspaceTree view sourceRoot destinationRoot =
     walkDir (tv_Walk view sourceRoot) (copy_entry sourceRoot destinationRoot)"

definition push_entry :: "'r service \<Rightarrow> sandbox \<Rightarrow> walk_entry \<Rightarrow> (goerr, 'r world, unit) eop" where
  "push_entry svc s e =
     (if is_walk_root e then okE ()
      else
        bindE (liftE (we_Info e)) (\<lambda>info.
        if fi_Symlink info then failE (symlink_refused (we_Rel e))
        else if we_IsDir e then
          (case workspaceFileRuntime (svc_runtime svc) of
             None \<Rightarrow> failE (Err ''runtime-backed workspace import requires directory creation support'')
           | Some (_, _, _, mk) \<Rightarrow> rt_call (mk s (we_Rel e)))
        else
          (case workspaceBinaryFileRuntime (svc_runtime svc) of
             Some (_, wr) \<Rightarrow> bindE (liftE (we_Content e)) (\<lambda>data. rt_call (wr s (we_Rel e) data))
           | None \<Rightarrow>
               (case workspaceFileRuntime (svc_runtime svc) of
                  None \<Rightarrow> failE (Err ''runtime-backed workspace import requires file write support'')
                | Some (_, wr, _, _) \<Rightarrow>
                    bindE (liftE (we_Content e)) (\<lambda>data.
                    if \<not> utf8_Valid data then
                      failE (Err (''binary file write is unsupported for runtime '' @ quote (sb_RuntimeBackend s)))
                    else rt_call (wr s (we_Rel e) data))))))"

definition applyWorkspaceArchiveTree ::
  "'r service \<Rightarrow> tree_view \<Rightarrow> sandbox \<Rightarrow> string \<Rightarrow> string \<Rightarrow> (goerr, 'r world, unit) eop" where
  "applyWorkspaceArchiveTree svc view s sourceRoot destinationRoot =
     (if workspaceFileRuntime (svc_runtime svc) = None \<and> workspaceBinaryFileRuntime (svc_runtime svc) = None
      then copyWorkspaceTree view sourceRoot destinationRoot
      else walkDir (tv_Walk view sourceRoot) (push_entry svc s))"

definition MkdirTemp :: "string \<Rightarrow> string \<Rightarrow> (goerr, 'r world, string) eop" where
  "MkdirTemp dir before =
     bindE (newID before) (\<lambda>name. thenE (os_call (MkdirAll (Join [dir, name]))) (okE (Join [dir, name])))"

definition import_limits :: "'r service \<Rightarrow> limits" where
  "import_limits svc = \<lparr>lim_MaxBytes = svc_maxTransfer svc, lim_MaxFiles = 10000, lim_MaxExpansionRatio = 20\<rparr>"

text \<open>The request body: the bytes that arrive and the error the stream ends with, if any.\<close>

type_synonym upload = "string \<times> goerr option"

definition unpack_import ::
  "'r service \<Rightarrow> tree_view \<Rightarrow> sandbox \<Rightarrow> string \<Rightarrow> string \<Rightarrow> string \<Rightarrow> (goerr, 'r world, unit) eop" where
  "unpack_import svc view s workspaceRoot tempArchivePath stagingRoot =
     tryE (extract_archive (tv_archive view) tempArchivePath stagingRoot (import_limits svc)) (\<lambda>r.
     case r of
       Inl e \<Rightarrow> failE (if Contains (err_text e) ''maximum extracted bytes''
                       then ErrFileTransferTooLarge (svc_maxTransfer svc) else e)
     | Inr st \<Rightarrow> applyWorkspaceArchiveTree svc view s stagingRoot workspaceRoot)"

text \<open>A deferred cleanup runs when the method returns, on every path, and its own error is dropped.\<close>

definition deferred :: "(goerr, 'r world, unit) eop \<Rightarrow> (goerr, 'r world, 'a) eop \<Rightarrow> (goerr, 'r world, 'a) eop" where
  "deferred cleanup m = tryE m (\<lambda>r. ignoreE cleanup (liftE r))"

definition ImportWorkspaceArchive ::
  "'r service \<Rightarrow> tree_view \<Rightarrow> string \<Rightarrow> string \<Rightarrow> upload \<Rightarrow> (goerr, 'r world, unit) eop" where
  "ImportWorkspaceArchive svc view tenantID sandboxID archive =
     bindE (Store_GetSandbox tenantID sandboxID) (\<lambda>s.
     bindE (liftE (resolveWorkspacePath (fv_fs (tv_file view)) (sb_WorkspaceRoot s) [])) (\<lambda>workspaceRoot.
     bindE (CreateTemp (Dir workspaceRoot) ''workspace-import-'' ''.tar.gz'') (\<lambda>tempArchivePath.
     deferred (os_call (RemovePath tempArchivePath)) (
     thenE (os_call (WriteFile tempArchivePath (fst archive)))
    (case snd archive of
       Some e \<Rightarrow> ignoreE (os_call (CloseFile tempArchivePath)) (failE e)
     | None \<Rightarrow>
         thenE (os_call (CloseFile tempArchivePath))
        (bindE (MkdirTemp (Dir workspaceRoot) ''workspace-import-staging-'') (\<lambda>stagingRoot.
         deferred (os_call (RemoveAll stagingRoot)) (
         thenE (unpack_import svc view s workspaceRoot tempArchivePath stagingRoot)
           (after_change svc tenantID sandboxID s ''workspace.import'' sandboxID ''workspace archive imported'')))))))))"

end
