(* ===== verification/Requests.thy ===== *)
theory Requests
  imports Snapshots Transfers
begin

text \<open>
  What every operation of the service keeps. Inside \<open>db_relation\<close> each handler is shown to respect the
  relation, on success and on every error path, from the same fact about the statements it issues; the
  three interpretations of the locale then give integrity, history and isolation for all of them.
\<close>

section \<open>Shared steps\<close>

lemma get_sandbox_result:
  "Store_GetSandbox t i w = (Inr s, w') \<Longrightarrow> sb_TenantID s = t \<and> sb_ID s = i"
  by (auto simp: Store_GetSandbox_def sql_query_def Let_def not_found_or_def dest: find_sandbox_ids
      split: if_splits option.splits)

text \<open>The statuses each transition can leave behind.\<close>

abbreviation provision_statuses :: "sandbox_status set" where
  "provision_statuses \<equiv> {StatusRunning, StatusStopped, StatusDeleted, StatusError}"

abbreviation starting_statuses :: "sandbox_status set" where
  "starting_statuses \<equiv> {StatusStarting, StatusRunning, StatusError}"

abbreviation stopping_statuses :: "sandbox_status set" where
  "stopping_statuses \<equiv> {StatusStopping, StatusStopped, StatusError}"

abbreviation suspending_statuses :: "sandbox_status set" where
  "suspending_statuses \<equiv> {StatusSuspending, StatusSuspended, StatusError}"

abbreviation deleting_statuses :: "sandbox_status set" where
  "deleting_statuses \<equiv> {StatusDeleting, StatusDeleted, StatusError}"

text \<open>\<open>writes U t i X\<close>: every state of sandbox \<open>i\<close> of tenant \<open>t\<close> with a status in \<open>X\<close> may be written back.\<close>

definition writes :: "(sandbox \<Rightarrow> bool) \<Rightarrow> string \<Rightarrow> string \<Rightarrow> sandbox_status set \<Rightarrow> bool" where
  "writes U t i X \<longleftrightarrow> (\<forall>s. sb_TenantID s = t \<longrightarrow> sb_ID s = i \<longrightarrow> sb_Status s \<in> X \<longrightarrow> U s)"

lemma writesD: "writes U t i X \<Longrightarrow> sb_TenantID s = t \<Longrightarrow> sb_ID s = i \<Longrightarrow> sb_Status s \<in> X \<Longrightarrow> U s"
  by (simp add: writes_def)

lemma writes_mono: "writes U t i X \<Longrightarrow> Y \<subseteq> X \<Longrightarrow> writes U t i Y"
  by (auto simp: writes_def)

context db_relation begin

lemma preserves_rt: "preserves (on_db R) (rt_call m)"
  by (auto simp: preserves_def on_db_def rt_call_def db_refl split: prod.split)

lemma get_sandbox_then:
  assumes "\<And>s. sb_TenantID s = t \<Longrightarrow> sb_ID s = i \<Longrightarrow> preserves (on_db R) (k s)"
  shows "preserves (on_db R) (bindE (Store_GetSandbox t i) k)"
  by (rule preserves_bind_result) (auto intro: store_queries assms dest!: get_sandbox_result)

lemma get_sandbox_try:
  assumes "\<And>e. preserves (on_db R) (k (Inl e))"
    and "\<And>s. sb_TenantID s = t \<Longrightarrow> sb_ID s = i \<Longrightarrow> preserves (on_db R) (k (Inr s))"
  shows "preserves (on_db R) (tryE (Store_GetSandbox t i) k)"
proof -
  have "on_db R w (snd (tryE (Store_GetSandbox t i) k w))" for w
  proof (cases "Store_GetSandbox t i w")
    case (Pair r v)
    moreover have "on_db R w v" using store_queries(3) [of t i] Pair by (metis preserves_def snd_conv)
    moreover have "preserves (on_db R) (k r)"
      using assms get_sandbox_result [of t i w] Pair by (cases r) auto
    ultimately show ?thesis by (auto simp: tryE_def preserves_def intro: db.R_trans)
  qed
  then show ?thesis by (simp add: preserves_def)
qed

text \<open>A handler that starts with the row as it is in the given world.\<close>

lemma get_sandbox_at:
  assumes "\<And>s. find_sandbox (w_db w) t i = Some s \<Longrightarrow> preserves (on_db R) (k s)"
  shows "on_db R w (snd (bindE (Store_GetSandbox t i) k w))"
proof (cases "Store_GetSandbox t i w")
  case (Pair r v)
  then have v: "w_db v = w_db w"
    by (auto simp: Store_GetSandbox_def sql_query_def Let_def split: if_splits option.splits)
  show ?thesis
  proof (cases r)
    case (Inr s)
    with Pair have "find_sandbox (w_db w) t i = Some s"
      by (auto simp: Store_GetSandbox_def sql_query_def Let_def split: if_splits option.splits)
    from assms [OF this] have "on_db R v (snd (k s v))" by (simp add: preserves_def)
    with Pair Inr v show ?thesis by (simp add: bindE_def on_db_def)
  qed (use Pair v in \<open>simp add: bindE_def on_db_def db_refl\<close>)
qed

lemmas steps = get_sandbox_then get_sandbox_try db.preserves_rules store_preserves preserves_rt

section \<open>Audit, policy and admission\<close>

lemma recordAudit_keeps: "T t \<Longrightarrow> preserves (on_db R) (recordAudit t i act res out detail)"
  unfolding recordAudit_def by (intro steps) simp

lemma denied_keeps: "T t \<Longrightarrow> preserves (on_db R) (denied t i act res detail message)"
  unfolding denied_def by (intro steps recordAudit_keeps)

lemma enforceGuestProfilePolicy_keeps:
  "T t \<Longrightarrow> preserves (on_db R) (enforceGuestProfilePolicy svc t i backend profile reason act)"
  unfolding enforceGuestProfilePolicy_def Let_def by (intro steps denied_keeps recordAudit_keeps)

lemma enforcePromotedImagePolicy_keeps:
  "T t \<Longrightarrow> preserves (on_db R) (enforcePromotedImagePolicy svc t i selection ref act c)"
  unfolding enforcePromotedImagePolicy_def Let_def by (intro steps denied_keeps recordAudit_keeps)

lemma enforceDockerCreatePolicy_keeps:
  "T t \<Longrightarrow> preserves (on_db R) (enforceDockerCreatePolicy svc t i profile fs cs act)"
  unfolding enforceDockerCreatePolicy_def Let_def by (intro steps denied_keeps recordAudit_keeps)

lemma enforceCreatePolicy_keeps:
  "T t \<Longrightarrow> preserves (on_db R) (enforceCreatePolicy svc t req c)"
  unfolding enforceCreatePolicy_def Let_def
  by (intro steps denied_keeps recordAudit_keeps enforceGuestProfilePolicy_keeps
      enforcePromotedImagePolicy_keeps enforceDockerCreatePolicy_keeps)

lemma enforceLifecyclePolicy_keeps:
  "T (sb_TenantID s) \<Longrightarrow> preserves (on_db R) (enforceLifecyclePolicy svc s act)"
  unfolding enforceLifecyclePolicy_def Let_def
  by (intro steps denied_keeps recordAudit_keeps enforceGuestProfilePolicy_keeps
      enforcePromotedImagePolicy_keeps enforceDockerCreatePolicy_keeps)

lemma enforceTunnelPolicy_keeps:
  "T (sb_TenantID s) \<Longrightarrow> preserves (on_db R) (enforceTunnelPolicy svc s req)"
  unfolding enforceTunnelPolicy_def Let_def by (intro steps denied_keeps recordAudit_keeps)

lemma enforceAdmission_keeps: "T t \<Longrightarrow> preserves (on_db R) (enforceAdmission svc t i act dl)"
  unfolding enforceAdmission_def admissionSnapshot_def Let_def by (intro steps recordAudit_keeps)

lemmas policy_keeps = recordAudit_keeps denied_keeps enforceCreatePolicy_keeps
  enforceLifecyclePolicy_keeps enforceTunnelPolicy_keeps enforcePromotedImagePolicy_keeps
  enforceAdmission_keeps

section \<open>Lifecycle\<close>

lemma refreshStorage_keeps: "T (sb_TenantID s) \<Longrightarrow> preserves (on_db R) (refreshStorage svc s)"
  unfolding refreshStorage_def auditStoragePressure_def Let_def by (intro steps policy_keeps)

lemma touchSandboxActivity_keeps:
  "writes U (sb_TenantID s) (sb_ID s) {sb_Status s} \<Longrightarrow> preserves (on_db R) (touchSandboxActivity s)"
  unfolding touchSandboxActivity_def by (intro steps) (auto elim!: writesD)

lemma revokeActiveTunnels_keeps: "T t \<Longrightarrow> preserves (on_db R) (revokeActiveTunnels t s reason)"
  unfolding revokeActiveTunnels_def revoke_one_def by (intro steps policy_keeps)

lemma reserveSandboxCreate_keeps:
  "T t \<Longrightarrow> T (sb_TenantID s) \<Longrightarrow> preserves (on_db R) (reserveSandboxCreate svc t quota s req)"
  unfolding reserveSandboxCreate_def checkQuota_def checkRunningQuota_def by (intro steps policy_keeps)

lemma rollbackFailedCreate_keeps:
  assumes "T t" and "writes U (sb_TenantID s) (sb_ID s) provision_statuses"
  shows "preserves (on_db R) (rollbackFailedCreate svc t s stage b e)"
  unfolding rollbackFailedCreate_def Let_def
  using assms by (intro steps policy_keeps) (auto intro: writesD [OF assms(2)] split: sum.split)

lemma provision_keeps:
  assumes "T t" and "T (sb_TenantID s)" and "writes U (sb_TenantID s) (sb_ID s) provision_statuses"
  shows "preserves (on_db R) (provision svc t req s)"
  unfolding provision_def Let_def
  using assms
  by (intro steps policy_keeps rollbackFailedCreate_keeps refreshStorage_keeps)
    (auto intro: writesD [OF assms(3)])

lemma CreateSandbox_keeps:
  assumes "T (tn_ID tn)" and "\<And>i. writes U (tn_ID tn) i provision_statuses"
  shows "preserves (on_db R) (CreateSandbox svc tn quota req)"
  unfolding CreateSandbox_def Let_def
  using assms by (intro steps policy_keeps provision_keeps reserveSandboxCreate_keeps)
    (simp_all add: new_sandbox_def Let_def)

lemma reserveLifecycleTransition_then:
  assumes "T t" and "writes U t i {st}"
    and "\<And>s. sb_TenantID s = t \<Longrightarrow> sb_ID s = i \<Longrightarrow> preserves (on_db R) (k s)"
  shows "preserves (on_db R) (bindE (reserveLifecycleTransition svc t i act quota st dl) k)"
  unfolding reserveLifecycleTransition_def checkRunningQuota_def Let_def thenE_def bindE_assoc bindE_okE
  using assms by (intro steps policy_keeps) (auto intro: writesD [OF assms(2)])

lemma fail_transition_keeps:
  assumes "T t" and "writes U (sb_TenantID s) (sb_ID s) {StatusError}"
  shows "preserves (on_db R) (fail_transition t s act details e)"
  unfolding fail_transition_def
  using assms by (intro steps policy_keeps) (auto intro: writesD [OF assms(2)])

lemma finish_transition_then:
  assumes "T t" and "T (sb_TenantID s)" and "writes U (sb_TenantID s) (sb_ID s) {st}"
    and "\<And>s'. sb_TenantID s' = sb_TenantID s \<Longrightarrow> sb_ID s' = sb_ID s \<Longrightarrow> preserves (on_db R) (k s')"
  shows "preserves (on_db R) (bindE (finish_transition svc t s act details st state) k)"
  unfolding finish_transition_def Let_def thenE_def bindE_assoc bindE_okE
  using assms by (intro steps policy_keeps refreshStorage_keeps) (auto intro: writesD [OF assms(3)])

lemma enter_transition_then:
  assumes "writes U (sb_TenantID s) (sb_ID s) {st}"
    and "\<And>s'. sb_TenantID s' = sb_TenantID s \<Longrightarrow> sb_ID s' = sb_ID s \<Longrightarrow> preserves (on_db R) (k s')"
  shows "preserves (on_db R) (bindE (enter_transition s st) k)"
  unfolding enter_transition_def Let_def thenE_def bindE_assoc bindE_okE
  using assms by (intro steps) (auto intro: writesD [OF assms(1)])

lemma executeReservedTransition_keeps:
  assumes "T t" and "T (sb_TenantID s)" and "writes U (sb_TenantID s) (sb_ID s) {fin, StatusError}"
  shows "preserves (on_db R) (executeReservedTransition svc t s act st fin action)"
  unfolding executeReservedTransition_def thenE_def
  using assms by (intro finish_transition_then steps fail_transition_keeps) (auto elim: writes_mono)

lemma StartSandbox_keeps:
  assumes "T t" and "writes U t i starting_statuses"
  shows "preserves (on_db R) (StartSandbox svc t i quota)" "preserves (on_db R) (ResumeSandbox svc t i quota)"
  unfolding StartSandbox_def ResumeSandbox_def
  by (intro reserveLifecycleTransition_then executeReservedTransition_keeps;
      use assms in \<open>auto elim: writes_mono\<close>)+

lemma SuspendSandbox_keeps:
  assumes "T t" and "writes U t i suspending_statuses"
  shows "preserves (on_db R) (SuspendSandbox svc t i)"
  unfolding SuspendSandbox_def transitionSandbox_def thenE_def
  by (intro enter_transition_then finish_transition_then steps fail_transition_keeps
      revokeActiveTunnels_keeps) (use assms in \<open>auto elim: writes_mono\<close>)

lemma StopSandbox_keeps:
  assumes "T t" and "writes U t i stopping_statuses"
  shows "preserves (on_db R) (StopSandbox svc t i force)"
  unfolding StopSandbox_def thenE_def
  by (intro enter_transition_then finish_transition_then steps fail_transition_keeps
      revokeActiveTunnels_keeps) (use assms in \<open>auto elim: writes_mono\<close>)

text \<open>After the forced stop the row is read again; a failed read leaves the zero sandbox.\<close>

lemma try_assoc: "bindE (tryE m f) g = tryE m (\<lambda>r. bindE (f r) g)"
  by (rule ext) (simp add: bindE_def tryE_def split: prod.split)

lemma reread_keeps:
  assumes "preserves (on_db R) (k zero_sandbox)"
    and "\<And>s. sb_TenantID s = t \<Longrightarrow> sb_ID s = i \<Longrightarrow> preserves (on_db R) (k s)"
  shows "preserves (on_db R) (tryE (Store_GetSandbox t i)
      (\<lambda>r. k (case r of Inl _ \<Rightarrow> zero_sandbox | Inr s \<Rightarrow> s)))"
  using assms by (intro get_sandbox_try) simp_all

lemma stop_before_delete_then:
  assumes "T t" and "writes U t i stopping_statuses" and "sb_TenantID s = t" and "sb_ID s = i"
    and "preserves (on_db R) (k zero_sandbox)"
    and "\<And>s'. sb_TenantID s' = t \<Longrightarrow> sb_ID s' = i \<Longrightarrow> preserves (on_db R) (k s')"
  shows "preserves (on_db R) (bindE (stop_before_delete svc t i s) k)"
  unfolding stop_before_delete_def thenE_def
  using assms reread_keeps [of k t i]
  by (auto simp: bindE_assoc try_assoc intro!: db.preserves_bind StopSandbox_keeps)

lemma finish_delete_keeps:
  assumes "T t" and "T (sb_TenantID s)" and "writes U (sb_TenantID s) (sb_ID s) deleting_statuses"
  shows "preserves (on_db R) (finish_delete svc t b s)"
  unfolding finish_delete_def
  by (intro enter_transition_then steps policy_keeps fail_transition_keeps)
    (use assms in \<open>auto elim: writes_mono intro: writesD [OF assms(3)]\<close>)

lemma DeleteSandbox_keeps:
  assumes "T t" and "T []" and "writes U t i (stopping_statuses \<union> deleting_statuses)"
    and "writes U [] [] deleting_statuses"
  shows "preserves (on_db R) (DeleteSandbox svc t i b)"
  unfolding DeleteSandbox_def
  by (intro get_sandbox_then db.preserves_then revokeActiveTunnels_keeps stop_before_delete_then
      finish_delete_keeps)
    (use assms in \<open>auto simp: zero_sandbox_def elim: writes_mono\<close>)

section \<open>Work inside a sandbox\<close>

text \<open>These write the status back that they read.\<close>

lemma ExecSandbox_keeps:
  assumes "T (tn_ID tn)"
    and "\<And>s. find_sandbox (w_db w) (tn_ID tn) i = Some s \<Longrightarrow> writes U (tn_ID tn) i {sb_Status s}"
    and "\<And>s. find_sandbox (w_db w) (tn_ID tn) i = Some s \<Longrightarrow> C (tn_ID tn) i"
  shows "on_db R w (snd (ExecSandbox svc tn quota i req w))"
  unfolding ExecSandbox_def reserveExecutionSlot_def fail_exec_def detach_exec_def exec_outcome_def Let_def
  by (rule get_sandbox_at, frule find_sandbox_ids, intro steps policy_keeps touchSandboxActivity_keeps)
    (use assms in \<open>auto simp: new_execution_def\<close>)

lemma CreateTTYSession_keeps:
  assumes "T t" and "\<And>s. find_sandbox (w_db w) t i = Some s \<Longrightarrow> writes U t i {sb_Status s}"
    and "\<And>s. find_sandbox (w_db w) t i = Some s \<Longrightarrow> C t i"
  shows "on_db R w (snd (CreateTTYSession svc t i req w))"
  unfolding CreateTTYSession_def Let_def
  by (rule get_sandbox_at, frule find_sandbox_ids, intro steps policy_keeps touchSandboxActivity_keeps)
    (use assms in auto)

lemma tty_keeps:
  "T t \<Longrightarrow> preserves (on_db R) (CloseTTYSession t sid)"
  "T t \<Longrightarrow> preserves (on_db R) (UpdateTTYResize t sid rows cols)"
  unfolding CloseTTYSession_def UpdateTTYResize_def by (intro steps policy_keeps; assumption)+

lemma file_keeps:
  assumes "T t" and "\<And>s. find_sandbox (w_db w) t i = Some s \<Longrightarrow> writes U t i {sb_Status s}"
  shows "on_db R w (snd (ReadFile svc view t i path encoding w))"
    and "on_db R w (snd (WriteFileBytes svc view t i path content w))"
    and "on_db R w (snd (DeleteFile svc view t i path w))"
    and "on_db R w (snd (Mkdir svc view t i path w))"
  unfolding ReadFile_def readWorkspaceBytes_def WriteFileBytes_def write_host_file_def DeleteFile_def
    Mkdir_def after_change_def
  by (rule get_sandbox_at, frule find_sandbox_ids,
      intro steps policy_keeps touchSandboxActivity_keeps refreshStorage_keeps; use assms in auto)+

lemma walkDir_keeps: "(\<And>e. preserves (on_db R) (f e)) \<Longrightarrow> preserves (on_db R) (walkDir es f)"
  unfolding walkDir_def by (intro steps)

lemma extract_archive_keeps: "preserves (on_db R) (extract_archive view src dst lim)"
  by (simp add: preserves_def on_db_def extract_archive_def db_refl split: prod.split)

lemma unpack_import_keeps: "preserves (on_db R) (unpack_import svc view s root temp staging)"
  unfolding unpack_import_def applyWorkspaceArchiveTree_def copyWorkspaceTree_def copy_entry_def push_entry_def
  by (intro steps walkDir_keeps extract_archive_keeps)

lemma export_steps_keep:
  assumes "T t" and "writes U (sb_TenantID s) (sb_ID s) {sb_Status s}"
  shows "preserves (on_db R) (exported svc t i s path)"
    and "preserves (on_db R) (export_from_host svc view t i s paths)"
  unfolding export_from_host_def exported_def write_export_def CreateTemp_def
  using assms by (intro steps policy_keeps touchSandboxActivity_keeps; simp)+

lemma transfer_keeps:
  assumes "T t" and "\<And>s. find_sandbox (w_db w) t i = Some s \<Longrightarrow> writes U t i {sb_Status s}"
  shows "on_db R w (snd (ImportWorkspaceArchive svc tview t i upload w))"
    and "on_db R w (snd (ExportWorkspaceArchive svc tview t i paths w))"
  unfolding ImportWorkspaceArchive_def ExportWorkspaceArchive_def deferred_def CreateTemp_def MkdirTemp_def
    after_change_def
  by (rule get_sandbox_at, frule find_sandbox_ids,
      intro steps policy_keeps touchSandboxActivity_keeps refreshStorage_keeps unpack_import_keeps export_steps_keep;
      use assms in auto)+

lemma tunnel_with_secret_then:
  assumes "\<And>tun'. tun_TenantID tun' = tun_TenantID tun \<Longrightarrow> tun_SandboxID tun' = tun_SandboxID tun \<Longrightarrow> preserves (on_db R) (k tun')"
  shows "preserves (on_db R) (bindE (tunnel_with_secret svc tun) k)"
proof (cases "tun_AuthMode tun = ''token''")
  case True
  with assms show ?thesis unfolding tunnel_with_secret_def by (simp add: bindE_assoc) (intro steps; simp)
qed (use assms in \<open>simp add: tunnel_with_secret_def\<close>)

lemma deny_tunnel_keeps: "T t \<Longrightarrow> preserves (on_db R) (deny_tunnel t i reason e)"
  unfolding deny_tunnel_def by (intro steps policy_keeps)

lemma reserveTunnelCreate_keeps:
  "T t \<Longrightarrow> T (sb_TenantID s) \<Longrightarrow> T (tun_TenantID tun) \<Longrightarrow> C (tun_TenantID tun) (tun_SandboxID tun) \<Longrightarrow>
   preserves (on_db R) (reserveTunnelCreate svc t s tun req)"
  unfolding reserveTunnelCreate_def Let_def
  by (intro steps policy_keeps deny_tunnel_keeps) simp_all

lemma decorate_owner [simp]:
  "tun_TenantID (decorateTunnelAccess tun) = tun_TenantID tun" "tun_SandboxID (decorateTunnelAccess tun) = tun_SandboxID tun"
  by (simp_all add: decorateTunnelAccess_def Let_def)

lemma CreateTunnel_keeps:
  assumes "T t" and "\<And>s. find_sandbox (w_db w) t i = Some s \<Longrightarrow> writes U t i {sb_Status s}"
    and "\<And>s. find_sandbox (w_db w) t i = Some s \<Longrightarrow> C t i"
  shows "on_db R w (snd (CreateTunnel svc t i req w))"
  unfolding CreateTunnel_def applyTunnelRequestDefaults_def Let_def
  by (rule get_sandbox_at, frule find_sandbox_ids, intro tunnel_with_secret_then steps policy_keeps
      deny_tunnel_keeps reserveTunnelCreate_keeps touchSandboxActivity_keeps)
    (use assms in auto)

lemma tunnel_keeps:
  "T t \<Longrightarrow> preserves (on_db R) (RevokeTunnel t j)"
  "preserves (on_db R) (ListTunnels t i)"
  "preserves (on_db R) (GetTunnel t j)"
  "preserves (on_db R) (GetTunnelForProxy j)"
  "preserves (on_db R) (CreateTunnelCapability c)"
  "preserves (on_db R) (ConsumeTunnelCapability j)"
  unfolding RevokeTunnel_def ListTunnels_def GetTunnel_def GetTunnelForProxy_def
    CreateTunnelCapability_def ConsumeTunnelCapability_def
  by (intro steps policy_keeps; assumption?)+

section \<open>Snapshots and reconciliation\<close>

lemma or_fail_keeps:
  "(\<And>e. preserves (on_db R) (bad e)) \<Longrightarrow> preserves (on_db R) m \<Longrightarrow> (\<And>a. preserves (on_db R) (k a)) \<Longrightarrow>
   preserves (on_db R) (or_fail bad m k)"
  unfolding or_fail_def by (intro steps)

lemma failSnapshot_keeps:
  "T t \<Longrightarrow> T (sn_TenantID sn) \<Longrightarrow> preserves (on_db R) (failSnapshot t i dir stage sn e)"
  unfolding failSnapshot_def by (intro steps policy_keeps) simp_all

lemma bundle_keeps:
  "preserves (on_db R) (exportSnapshotBundle svc s sn)"
  "preserves (on_db R) (fetchSnapshotBundle loc path)"
  unfolding exportSnapshotBundle_def CreateTemp_def putSnapshotBundle_def fetchSnapshotBundle_def
    command_failed_def Let_def
  by (intro steps)+

lemma finish_snapshot_keeps:
  assumes "T t" and "T (sb_TenantID s)" and "T (sn_TenantID sn)"
    and "\<And>stage sn' e. T (sn_TenantID sn') \<Longrightarrow> preserves (on_db R) (bad stage sn' e)"
  shows "preserves (on_db R) (finish_snapshot svc t i s bad stage sn)"
  unfolding finish_snapshot_def Let_def
  using assms by (intro or_fail_keeps steps policy_keeps bundle_keeps refreshStorage_keeps) simp_all

lemma keep_keeps:
  assumes "T (sn_TenantID sn)" and "\<And>stage sn' e. T (sn_TenantID sn') \<Longrightarrow> preserves (on_db R) (bad stage sn' e)"
    and "\<And>stage sn'. T (sn_TenantID sn') \<Longrightarrow> preserves (on_db R) (k stage sn')"
  shows "preserves (on_db R) (keep_image svc bad dir info sn k)"
    and "preserves (on_db R) (keep_workspace bad dir info stage0 sn k)"
  unfolding keep_image_def keep_workspace_def Let_def
  using assms by (intro or_fail_keeps steps; simp)+

lemma CreateSnapshot_keeps:
  assumes "T t" and "\<And>s. find_sandbox (w_db w) t i = Some s \<Longrightarrow> C t i"
  shows "on_db R w (snd (CreateSnapshot svc t i name w))"
  unfolding CreateSnapshot_def Let_def
  by (rule get_sandbox_at, frule find_sandbox_ids,
      intro keep_keeps finish_snapshot_keeps failSnapshot_keeps or_fail_keeps steps policy_keeps)
    (use assms in \<open>auto simp: new_snapshot_def Let_def\<close>)

lemma restore_steps_keep:
  "T (sb_TenantID s) \<Longrightarrow> preserves (on_db R) (validateSnapshotCompatibility svc sn s)"
  "preserves (on_db R) (ensureSnapshotArtifacts svc view s sn)"
  unfolding validateSnapshotCompatibility_def ensureSnapshotArtifacts_def Let_def
  by (intro steps policy_keeps bundle_keeps extract_archive_keeps; assumption?)+

lemma stop_target_then:
  assumes "T t" and "writes U t (sb_ID s) stopping_statuses" and "sb_TenantID s = t"
    and "\<And>b. preserves (on_db R) (k zero_sandbox b)"
    and "\<And>s' b. sb_TenantID s' = t \<Longrightarrow> sb_ID s' = sb_ID s \<Longrightarrow> preserves (on_db R) (k s' b)"
  shows "preserves (on_db R) (bindE (stop_target svc t s sn) (\<lambda>(s', b). k s' b))"
proof -
  have sum_assoc: "bindE (case r of Inl e \<Rightarrow> f e | Inr a \<Rightarrow> g a) h
      = (case r of Inl e \<Rightarrow> bindE (f e) h | Inr a \<Rightarrow> bindE (g a) h)" for r f g h
    by (simp split: sum.split)
  show ?thesis
    unfolding stop_target_def thenE_def
    using assms reread_keeps [of "\<lambda>s'. k s' True" t "sb_ID s"]
    by (auto simp: bindE_assoc try_assoc sum_assoc intro!: steps policy_keeps StopSandbox_keeps)
qed

lemma restored_fields [simp]:
  "sb_TenantID (restored_sandbox s sn state now) = sb_TenantID s"
  "sb_ID (restored_sandbox s sn state now) = sb_ID s"
  "sb_Status (restored_sandbox s sn state now) = StatusStopped"
  by (simp_all add: restored_sandbox_def Let_def)

lemma RestoreSnapshot_keeps:
  assumes "T t" and "T []" and "writes U t i stopping_statuses" and "writes U [] [] {StatusStopped}"
  shows "preserves (on_db R) (RestoreSnapshot svc view t j i)"
  unfolding RestoreSnapshot_def Let_def
  by (intro stop_target_then restore_steps_keep steps policy_keeps refreshStorage_keeps
      revokeActiveTunnels_keeps)
    (use assms in \<open>auto simp: zero_sandbox_def intro: writesD [OF assms(3)] writesD [OF assms(4)]\<close>)

lemma reconcile_keeps:
  assumes "\<And>t. T t" and "\<And>s. U s"
  shows "preserves (on_db R) (Reconcile svc)"
proof -
  have one: "preserves (on_db R) (reconcile_one svc s)" for s
    unfolding reconcile_one_def inspect_failed_def refreshStorageIfStale_def Let_def
    by (intro steps policy_keeps refreshStorage_keeps assms)
  have all: "preserves (on_db R) (reconcile_all svc ss)" for ss
    by (induction ss) (simp_all only: reconcile_all.simps, (intro steps one; assumption?)+)
  show ?thesis
    unfolding Reconcile_def reconcileOrphanedExecutions_def cancel_execution_def
      reconcileIncompleteSnapshots_def fail_incomplete_def Let_def
    by (intro steps policy_keeps all assms)
qed

end

section \<open>The service as a transition system\<close>

text \<open>
  The operations the service offers to an authenticated tenant, and the effect of one on the world. A
  run of the system interleaves complete requests of any tenants with reconciliation rounds; between
  them the environment may change everything but the database (backends, clocks, host files, the
  schedules of failures).
\<close>

datatype request =
    ReqCreate tenant tenant_quota create_request
  | ReqStart string string tenant_quota
  | ReqStop string string bool
  | ReqSuspend string string
  | ReqResume string string tenant_quota
  | ReqDelete string string bool
  | ReqExec tenant tenant_quota string exec_request
  | ReqAttachTTY string string tty_request
  | ReqCloseTTY string string
  | ReqResizeTTY string string int int
  | ReqReadFile string string string string
  | ReqWriteFile string string string string
  | ReqDeleteFile string string string
  | ReqMkdir string string string
  | ReqImport tree_view string string upload
  | ReqExport tree_view string string "string list"
  | ReqCreateTunnel string string tunnel_request
  | ReqRevokeTunnel string string
  | ReqCreateCapability string tunnel_capability
  | ReqConsumeCapability string string
  | ReqCreateSnapshot string string string
  | ReqRestoreSnapshot string string string

fun request_tenant :: "request \<Rightarrow> string" where
  "request_tenant (ReqCreate tn q r) = tn_ID tn"
| "request_tenant (ReqStart t i q) = t"
| "request_tenant (ReqStop t i b) = t"
| "request_tenant (ReqSuspend t i) = t"
| "request_tenant (ReqResume t i q) = t"
| "request_tenant (ReqDelete t i b) = t"
| "request_tenant (ReqExec tn q i r) = tn_ID tn"
| "request_tenant (ReqAttachTTY t i r) = t"
| "request_tenant (ReqCloseTTY t i) = t"
| "request_tenant (ReqResizeTTY t i r c) = t"
| "request_tenant (ReqReadFile t i p e) = t"
| "request_tenant (ReqWriteFile t i p c) = t"
| "request_tenant (ReqDeleteFile t i p) = t"
| "request_tenant (ReqMkdir t i p) = t"
| "request_tenant (ReqImport tv t i a) = t"
| "request_tenant (ReqExport tv t i ps) = t"
| "request_tenant (ReqCreateTunnel t i r) = t"
| "request_tenant (ReqRevokeTunnel t j) = t"
| "request_tenant (ReqCreateCapability t c) = t"
| "request_tenant (ReqConsumeCapability t j) = t"
| "request_tenant (ReqCreateSnapshot t i n) = t"
| "request_tenant (ReqRestoreSnapshot t j i) = t"

fun perform :: "'r service \<Rightarrow> file_view \<Rightarrow> archive_view \<Rightarrow> request \<Rightarrow> (goerr, 'r world, unit) eop" where
  "perform svc fv av (ReqCreate tn q r) = thenE (CreateSandbox svc tn q r) (okE ())"
| "perform svc fv av (ReqStart t i q) = thenE (StartSandbox svc t i q) (okE ())"
| "perform svc fv av (ReqStop t i b) = thenE (StopSandbox svc t i b) (okE ())"
| "perform svc fv av (ReqSuspend t i) = thenE (SuspendSandbox svc t i) (okE ())"
| "perform svc fv av (ReqResume t i q) = thenE (ResumeSandbox svc t i q) (okE ())"
| "perform svc fv av (ReqDelete t i b) = DeleteSandbox svc t i b"
| "perform svc fv av (ReqExec tn q i r) = thenE (ExecSandbox svc tn q i r) (okE ())"
| "perform svc fv av (ReqAttachTTY t i r) = thenE (CreateTTYSession svc t i r) (okE ())"
| "perform svc fv av (ReqCloseTTY t i) = CloseTTYSession t i"
| "perform svc fv av (ReqResizeTTY t i r c) = UpdateTTYResize t i r c"
| "perform svc fv av (ReqReadFile t i p e) = thenE (ReadFile svc fv t i p e) (okE ())"
| "perform svc fv av (ReqWriteFile t i p c) = WriteFileBytes svc fv t i p c"
| "perform svc fv av (ReqDeleteFile t i p) = DeleteFile svc fv t i p"
| "perform svc fv av (ReqMkdir t i p) = Mkdir svc fv t i p"
| "perform svc fv av (ReqImport tv t i a) = ImportWorkspaceArchive svc tv t i a"
| "perform svc fv av (ReqExport tv t i ps) = thenE (ExportWorkspaceArchive svc tv t i ps) (okE ())"
| "perform svc fv av (ReqCreateTunnel t i r) = thenE (CreateTunnel svc t i r) (okE ())"
| "perform svc fv av (ReqRevokeTunnel t j) = RevokeTunnel t j"
| "perform svc fv av (ReqCreateCapability t c) = CreateTunnelCapability c"
| "perform svc fv av (ReqConsumeCapability t j) = ConsumeTunnelCapability j"
| "perform svc fv av (ReqCreateSnapshot t i n) = thenE (CreateSnapshot svc t i n) (okE ())"
| "perform svc fv av (ReqRestoreSnapshot t j i) = thenE (RestoreSnapshot svc av t j i) (okE ())"

text \<open>The sandbox states a request may write back, from the database it starts on.\<close>

fun permits :: "(sandbox \<Rightarrow> bool) \<Rightarrow> database \<Rightarrow> request \<Rightarrow> bool" where
  "permits U d (ReqCreate tn q r) = (\<forall>i. writes U (tn_ID tn) i provision_statuses)"
| "permits U d (ReqStart t i q) = writes U t i starting_statuses"
| "permits U d (ReqResume t i q) = writes U t i starting_statuses"
| "permits U d (ReqStop t i b) = writes U t i stopping_statuses"
| "permits U d (ReqSuspend t i) = writes U t i suspending_statuses"
| "permits U d (ReqDelete t i b) =
     (writes U t i (stopping_statuses \<union> deleting_statuses) \<and> writes U [] [] deleting_statuses)"
| "permits U d (ReqRestoreSnapshot t j i) = (writes U t i stopping_statuses \<and> writes U [] [] {StatusStopped})"
| "permits U d (ReqExec tn q i r) =
     (\<forall>s. find_sandbox d (tn_ID tn) i = Some s \<longrightarrow> writes U (tn_ID tn) i {sb_Status s})"
| "permits U d (ReqAttachTTY t i r) = (\<forall>s. find_sandbox d t i = Some s \<longrightarrow> writes U t i {sb_Status s})"
| "permits U d (ReqReadFile t i p e) = (\<forall>s. find_sandbox d t i = Some s \<longrightarrow> writes U t i {sb_Status s})"
| "permits U d (ReqWriteFile t i p c) = (\<forall>s. find_sandbox d t i = Some s \<longrightarrow> writes U t i {sb_Status s})"
| "permits U d (ReqDeleteFile t i p) = (\<forall>s. find_sandbox d t i = Some s \<longrightarrow> writes U t i {sb_Status s})"
| "permits U d (ReqMkdir t i p) = (\<forall>s. find_sandbox d t i = Some s \<longrightarrow> writes U t i {sb_Status s})"
| "permits U d (ReqImport tv t i a) = (\<forall>s. find_sandbox d t i = Some s \<longrightarrow> writes U t i {sb_Status s})"
| "permits U d (ReqExport tv t i ps) = (\<forall>s. find_sandbox d t i = Some s \<longrightarrow> writes U t i {sb_Status s})"
| "permits U d (ReqCreateTunnel t i r) = (\<forall>s. find_sandbox d t i = Some s \<longrightarrow> writes U t i {sb_Status s})"
| "permits U d _ = True"

lemma permits_all: "(\<And>s. sb_TenantID s \<in> {request_tenant req, []} \<Longrightarrow> U s) \<Longrightarrow> permits U d req"
  by (cases req) (auto simp: writes_def)

text \<open>The requests that insert a row for a sandbox do so for one that the tenant has.\<close>

fun enters :: "(string \<Rightarrow> string \<Rightarrow> bool) \<Rightarrow> database \<Rightarrow> request \<Rightarrow> bool" where
  "enters C d (ReqExec tn q i r) = ((\<exists>s. find_sandbox d (tn_ID tn) i = Some s) \<longrightarrow> C (tn_ID tn) i)"
| "enters C d (ReqAttachTTY t i r) = ((\<exists>s. find_sandbox d t i = Some s) \<longrightarrow> C t i)"
| "enters C d (ReqCreateTunnel t i r) = ((\<exists>s. find_sandbox d t i = Some s) \<longrightarrow> C t i)"
| "enters C d (ReqCreateSnapshot t i n) = ((\<exists>s. find_sandbox d t i = Some s) \<longrightarrow> C t i)"
| "enters C d _ = True"

lemma enters_found: "(\<And>t i s. find_sandbox d t i = Some s \<Longrightarrow> C t i) \<Longrightarrow> enters C d req"
  by (cases req) auto

lemma enters_True [simp]: "enters (\<lambda>_ _. True) d req"
  by (simp add: enters_found)

lemma preserves_at: "preserves Q m \<Longrightarrow> Q w (snd (m w))"
  by (simp add: preserves_def)

lemma snd_then_ok: "snd (thenE m (okE ()) w) = snd (m w)"
  by (simp add: thenE_def bindE_def split: prod.split sum.split)

context db_relation begin

lemma perform_keeps:
  assumes "T (request_tenant req)" and "T []" and "permits U (w_db w) req" and "enters C (w_db w) req"
  shows "on_db R w (snd (perform svc fv av req w))"
  using assms
  by (cases req) (auto simp: snd_then_ok intro!: ExecSandbox_keeps CreateTTYSession_keeps file_keeps transfer_keeps
      CreateTunnel_keeps CreateSandbox_keeps [THEN preserves_at] StartSandbox_keeps [THEN preserves_at]
      StopSandbox_keeps [THEN preserves_at] SuspendSandbox_keeps [THEN preserves_at]
      DeleteSandbox_keeps [THEN preserves_at] tty_keeps [THEN preserves_at] tunnel_keeps [THEN preserves_at]
      CreateSnapshot_keeps RestoreSnapshot_keeps [THEN preserves_at])

end

inductive system_step :: "'r world \<Rightarrow> 'r world \<Rightarrow> bool" where
  request_step: "perform svc fv av req w = (result, w') \<Longrightarrow> system_step w w'"
| reconcile_step: "Reconcile svc w = (result, w') \<Longrightarrow> system_step w w'"
| environment_step: "w_db w' = w_db w \<Longrightarrow> system_step w w'"

inductive_cases system_stepE: "system_step w w'"

abbreviation reaches :: "'r world \<Rightarrow> 'r world \<Rightarrow> bool" where
  "reaches \<equiv> system_step\<^sup>*\<^sup>*"

text \<open>A relation that every statement respects, whatever the tenant, holds between the ends of a run.\<close>

locale system_relation = db_relation R "\<lambda>_. True" "\<lambda>_. True" "\<lambda>_ _. True" for R
begin

lemma step_related: "system_step w w' \<Longrightarrow> R (w_db w) (w_db w')"
proof (induction rule: system_step.induct)
  case (request_step svc fv av req w result w')
  then show ?case
    using perform_keeps [where req = req and w = w and svc = svc and fv = fv and av = av] permits_all [of req "\<lambda>_. True"] by (simp add: on_db_def)
next
  case (reconcile_step svc w result w')
  then show ?case using preservesD [OF reconcile_keeps] by (simp add: on_db_def)
qed (simp add: db_refl)

lemma run_related: "reaches w w' \<Longrightarrow> R (w_db w) (w_db w')"
  by (induction rule: rtranclp_induct) (auto intro: db_refl db_trans step_related)

end

interpretation integrity_run: system_relation keeps_integrity
  by unfold_locales

interpretation history_run: system_relation keeps_history
  by unfold_locales

lemma found_owns: "find_sandbox d t i = Some s \<Longrightarrow> owns d t i"
  by (auto simp: find_sandbox_def joined_sandboxes_def owns_def List.map_filter_def filter_eq_Cons_iff split: list.splits option.splits)

lemma step_children: "system_step w w' \<Longrightarrow> children_owned (w_db w) \<Longrightarrow> children_owned (w_db w')"
proof (induction rule: system_step.induct)
  case (request_step svc fv av req w result w')
  let ?C = "owns (w_db w)"
  have "keeps_children ?C (w_db w) (w_db w')"
    using children.perform_keeps [where req = req and w = w and svc = svc and fv = fv and av = av and C = ?C]
      permits_all [of req "\<lambda>_. True"] enters_found [OF found_owns] request_step(1) by (simp add: on_db_def)
  with request_step(2) show ?case by (simp add: keeps_children_def)
next
  case (reconcile_step svc w result w')
  have "keeps_children (\<lambda>_ _. False) (w_db w) (w_db w')"
    using preservesD [OF children.reconcile_keeps reconcile_step(1)] by (simp add: on_db_def)
  with reconcile_step(2) show ?case by (simp add: keeps_children_def)
qed simp

lemma run_children: "reaches w w' \<Longrightarrow> children_owned (w_db w) \<Longrightarrow> children_owned (w_db w')"
  by (induction rule: rtranclp_induct) (auto intro: step_children)

end
