(* ===== verification/Example.thy ===== *)
theory Example
  imports Requests
begin

text \<open>
  A small concrete instance of the system, on which the properties are applied: a backend that always
  succeeds, a development configuration with the Docker selection, one tenant and requests of it.
\<close>

definition ok_state :: "sandbox_status \<Rightarrow> string \<Rightarrow> runtime_state" where
  "ok_state st i = \<lparr>rs_RuntimeID = i, rs_Status = st, rs_Running = (st = StatusRunning), rs_Pid = 7,
     rs_IPAddress = [], rs_ControlMode = no_control_mode, rs_ControlProtocolVersion = [],
     rs_StartedAt = None, rs_Error = []\<rparr>"

definition ok_result :: exec_result where
  "ok_result = \<lparr>er_ExitCode = 0, er_Status = ExecSucceeded, er_CompletedAt = 99, er_Duration = 5000000,
     er_StdoutTruncated = False, er_StderrTruncated = False\<rparr>"

definition ok_usage :: storage_usage where
  "ok_usage = \<lparr>su_RootfsBytes = 10, su_WorkspaceBytes = 20, su_CacheBytes = 0, su_SnapshotBytes = 0,
     su_RootfsEntries = 1, su_WorkspaceEntries = 2, su_CacheEntries = 0, su_SnapshotEntries = 0\<rparr>"

definition ok_runtime :: "unit runtime_manager" where
  "ok_runtime =
     \<lparr>rm_Create = (\<lambda>sp r. (Inr (ok_state StatusStopped (sp_SandboxID sp)), r)),
      rm_Start = (\<lambda>s r. (Inr (ok_state StatusRunning (sb_ID s)), r)),
      rm_Stop = (\<lambda>s b r. (Inr (ok_state StatusStopped (sb_ID s)), r)),
      rm_Suspend = (\<lambda>s r. (Inr (ok_state StatusSuspended (sb_ID s)), r)),
      rm_Resume = (\<lambda>s r. (Inr (ok_state StatusRunning (sb_ID s)), r)),
      rm_Destroy = (\<lambda>s r. (Inr (), r)),
      rm_Inspect = (\<lambda>s r. (Inr (ok_state StatusRunning (sb_ID s)), r)),
      rm_Exec = (\<lambda>s req r. (Inr \<lparr>eh_Stdout = [''hi''], eh_Stderr = [], eh_Wait = ok_result\<rparr>, r)),
      rm_AttachTTY = (\<lambda>s req r. (Inr ''tty'', r)),
      rm_CreateSnapshot = (\<lambda>s i r. (Inr \<lparr>si_ImageRef = ''snap'', si_WorkspaceTar = []\<rparr>, r)),
      rm_RestoreSnapshot = (\<lambda>s sn r. (Inr (ok_state StatusStopped (sb_ID s)), r)),
      rm_ReadWorkspaceFile = None, rm_WriteWorkspaceFile = None, rm_DeleteWorkspacePath = None,
      rm_MkdirWorkspace = None, rm_ReadWorkspaceFileBytes = None, rm_WriteWorkspaceFileBytes = None,
      rm_MeasureStorage = None, rm_ExportWorkspaceArchive = None, rm_OpenSandboxLocalConn = None,
      rm_AgentSessionMetrics = None, rm_AgentSessionMetricsForSandboxes = None\<rparr>"

definition quiet_host :: host where
  "quiet_host = \<lparr>h_Sidecar = (\<lambda>_. Inl (Err ''none'')), h_SHA256 = (\<lambda>_. Inr ''00''), h_Readable = (\<lambda>_. True),
     h_Exists = (\<lambda>_. True), h_DockerLabels = (\<lambda>_. Inl ErrMetadataUnavailable), h_Available = (\<lambda>_. Inr 1000000),
     h_DirUsage = (\<lambda>_. (0, 0))\<rparr>"

definition dev_config :: config where
  "dev_config = prod_config\<lparr>cfg_DeploymentMode := ''development'', cfg_EnabledRuntimeSelections := [DockerDev],
     cfg_DefaultRuntimeSelection := DockerDev, cfg_AdmissionMaxNodeSandboxes := 0,
     cfg_AdmissionMaxNodeRunning := 0, cfg_AdmissionMaxNodeCPU := 0, cfg_AdmissionMaxNodeMemoryMB := 0,
     cfg_AdmissionMaxTenantStarts := 0, cfg_AdmissionMaxTenantHeavyOps := 0\<rparr>"

definition dev_service :: "unit service" where
  "dev_service = New dev_config ok_runtime (\<lambda>s. ''#'' @ s) quiet_host"

definition dev_request :: create_request where
  "dev_request = \<lparr>cr_RuntimeSelection = no_selection, cr_BaseImageRef = ''alpine'', cr_Profile = ProfileCore,
     cr_Features = [], cr_Capabilities = [], cr_DangerousProfileReason = [], cr_CPULimit = 0,
     cr_MemoryLimitMB = 0, cr_PIDsLimit = 0, cr_DiskLimitMB = 0, cr_NetworkMode = OtherNetworkMode [],
     cr_AllowTunnels = None, cr_Start = True\<rparr>"

definition running_sandbox :: sandbox where
  "running_sandbox = sample_sandbox\<lparr>sb_Status := StatusRunning, sb_RuntimeStatus := ''running''\<rparr>"

definition running_db :: database where
  "running_db = sample_db\<lparr>db_sandboxes := [sandbox_to_row running_sandbox],
     db_runtime := [\<lparr>rr_sandbox_id = ''sbx-1'', rr_runtime_id = ''or3-sandbox-1'', rr_runtime_status = ''running'',
       rr_last_runtime_error = [], rr_ip_address = [], rr_pid = 7, rr_started_at = None\<rparr>],
     db_storage := [\<lparr>sr_sandbox_id = ''sbx-1'', sr_usage = ok_usage, sr_updated_at = 5\<rparr>]\<rparr>"

definition running_world :: "unit world" where
  "running_world = sample_world\<lparr>w_db := running_db\<rparr>"

text \<open>A host with a plain directory tree in which no file can be opened, for the requests that need none.\<close>

definition plain_view :: file_view where
  "plain_view = \<lparr>fv_fs = \<lparr>os_Abs = (\<lambda>p. Inr (Clean p)), os_EvalSymlinks = (\<lambda>p. Inr (Clean p)),
       os_StatIsDir = (\<lambda>_. Inr True), os_Lstat = (\<lambda>_. LstatNotExist)\<rparr>,
     fv_Open = (\<lambda>_. Inl (Err ''no such file''))\<rparr>"

definition no_archives :: archive_view where
  "no_archives = \<lparr>av_os = \<lparr>ao_MkdirAll = (\<lambda>_. None), ao_OpenFile = (\<lambda>_. None), ao_Close = (\<lambda>_. None),
       ao_Chmod = (\<lambda>_. None)\<rparr>, av_Open = (\<lambda>_. Inl (Err ''no such file''))\<rparr>"

text \<open>A full world after a request, for runs of the system.\<close>

definition after :: "request \<Rightarrow> unit world \<Rightarrow> unit world" where
  "after req w = snd (perform dev_service plain_view no_archives req w)"

lemma after_perform:
  "perform dev_service plain_view no_archives req w = (fst (perform dev_service plain_view no_archives req w), after req w)"
  by (simp add: after_def)

lemma after_reaches: "reaches w (after req w)"
  by (rule r_into_rtranclp, rule request_step, rule after_perform)

lemma running_db_ok: "db_ok (w_db running_world)"
  by (simp add: db_ok_def keys_ok_def refs_ok_def counts_ok_def count_of_def running_world_def running_db_def
      sample_db_def empty_db_def running_sandbox_def sample_sandbox_def sandbox_to_row_def has_tenant_def
      sample_tenant_def)

lemma running_children_owned: "children_owned (w_db running_world)"
  by (simp add: children_owned_def running_world_def running_db_def sample_db_def empty_db_def)

end
