(* ===== verification/Lifecycle.thy ===== *)
theory Lifecycle
  imports Example
begin

text \<open>
  The status machine behind the service. The abstract specification knows only the status of each
  sandbox and which statuses a request may bring its own sandbox to; the refinement theorem says that
  every request, on every path through its handler, is a step of that machine.
\<close>

section \<open>Statuses in the database\<close>

definition status_at :: "database \<Rightarrow> string \<Rightarrow> string \<Rightarrow> sandbox_status option" where
  "status_at d t i = map_option c_status
     (find_row (\<lambda>r. c_sandbox_id r = i \<and> c_tenant_id r = t) (db_sandboxes d))"

lemma find_sandbox_status: "find_sandbox d t i = Some s \<Longrightarrow> status_at d t i = Some (sb_Status s)"
  by (auto simp: find_sandbox_eq status_at_def scanSandbox_def Let_def split: option.splits)

lemma status_at_update:
  assumes "update_sandbox_tx s d = Some d'"
  shows "status_at d' t i =
     (if t = sb_TenantID s \<and> i = sb_ID s then map_option (\<lambda>_. sb_Status s) (status_at d t i) else status_at d t i)"
proof -
  let ?p = "\<lambda>t i r. c_sandbox_id r = i \<and> c_tenant_id r = t"
  have "db_sandboxes d' = update_rows (?p (sb_TenantID s) (sb_ID s)) (sandbox_columns s) (db_sandboxes d)"
    using assms by (auto simp: update_sandbox_tx_def update_sandbox_def update_runtime_columns_def)
  moreover have "find_row (?p t i) (update_rows (?p (sb_TenantID s) (sb_ID s)) (sandbox_columns s) (db_sandboxes d)) =
      map_option (\<lambda>r. if ?p (sb_TenantID s) (sb_ID s) r then sandbox_columns s r else r)
        (find_row (?p t i) (db_sandboxes d))"
    by (rule find_row_update_keep) (auto simp: sandbox_columns_def)
  ultimately show ?thesis
    by (auto simp: status_at_def sandbox_columns_def option.map_comp o_def dest!: find_row_Some_set
        intro!: option.map_cong0 split: option.split)
qed

lemma status_at_create:
  "create_sandbox_tx s d = Some d' \<Longrightarrow> status_at d t i \<noteq> None \<Longrightarrow> status_at d' t i = status_at d t i"
  by (auto simp: status_at_def create_sandbox_tx_def insert_sandbox_def insert_runtime_state_def
      insert_storage_def insert_row_Some find_row_append split: option.splits if_splits)

lemma create_fresh:
  assumes "create_sandbox_tx s d = Some d'"
  shows "status_at d t (sb_ID s) = None"
proof -
  have "sb_ID s \<notin> set (map c_sandbox_id (db_sandboxes d))"
    using assms by (auto simp: create_sandbox_tx_def insert_sandbox_def insert_row_def sandbox_to_row_def
        split: option.splits if_splits)
  then show ?thesis by (simp add: status_at_def find_row_fresh)
qed

lemma sandboxes_untouched:
  "update_runtime_state i st d = Some d' \<Longrightarrow> db_sandboxes d' = db_sandboxes d"
  "update_storage i u now d = Some d' \<Longrightarrow> db_sandboxes d' = db_sandboxes d"
  "insert_execution e d = Some d' \<Longrightarrow> db_sandboxes d' = db_sandboxes d"
  "update_execution e d = Some d' \<Longrightarrow> db_sandboxes d' = db_sandboxes d"
  "insert_tty ty d = Some d' \<Longrightarrow> db_sandboxes d' = db_sandboxes d"
  "close_tty tenant i now d = Some d' \<Longrightarrow> db_sandboxes d' = db_sandboxes d"
  "resize_tty tenant i x d = Some d' \<Longrightarrow> db_sandboxes d' = db_sandboxes d"
  "insert_tunnel tu d = Some d' \<Longrightarrow> db_sandboxes d' = db_sandboxes d"
  "revoke_tunnel tenant i now d = Some d' \<Longrightarrow> db_sandboxes d' = db_sandboxes d"
  "insert_capability c d = Some d' \<Longrightarrow> db_sandboxes d' = db_sandboxes d"
  "consume_capability i now d = Some d' \<Longrightarrow> db_sandboxes d' = db_sandboxes d"
  "revoke_capabilities i now d = Some d' \<Longrightarrow> db_sandboxes d' = db_sandboxes d"
  "insert_snapshot sn d = Some d' \<Longrightarrow> db_sandboxes d' = db_sandboxes d"
  "update_snapshot sn d = Some d' \<Longrightarrow> db_sandboxes d' = db_sandboxes d"
  "audit_tx a d = Some d' \<Longrightarrow> db_sandboxes d' = db_sandboxes d"
  "upsert_service_account sa d = Some d' \<Longrightarrow> db_sandboxes d' = db_sandboxes d"
  "upsert_promoted im d = Some d' \<Longrightarrow> db_sandboxes d' = db_sandboxes d"
  "insert_evidence ev d = Some d' \<Longrightarrow> db_sandboxes d' = db_sandboxes d"
  by (auto simp: stmt_defs split: option.splits if_splits)

section \<open>Moves of one sandbox\<close>

text \<open>
  \<open>only_moves t i X d d'\<close>: of the sandboxes in \<open>d\<close> only \<open>i\<close> of tenant \<open>t\<close> has another status in \<open>d'\<close>,
  and then one in \<open>X\<close>. The empty identifier stands for the zero sandbox and is left out.
\<close>

definition only_moves :: "string \<Rightarrow> string \<Rightarrow> sandbox_status set \<Rightarrow> database \<Rightarrow> database \<Rightarrow> bool" where
  "only_moves t i X d d' \<longleftrightarrow> (\<forall>t' i' st. i' \<noteq> [] \<longrightarrow> status_at d t' i' = Some st \<longrightarrow>
     status_at d' t' i' = Some st \<or> t' = t \<and> i' = i \<and> (\<exists>st' \<in> X. status_at d' t' i' = Some st'))"

interpretation moves: db_relation "only_moves t i X" "\<lambda>_. True"
  "\<lambda>s. sb_ID s = [] \<or> sb_TenantID s = t \<and> sb_ID s = i \<and> sb_Status s \<in> X" "\<lambda>_ _. True" for t i X
proof unfold_locales
  show "only_moves t i X d1 d2 \<Longrightarrow> only_moves t i X d2 d3 \<Longrightarrow> only_moves t i X d1 d3" for d1 d2 d3
    unfolding only_moves_def by metis
  show "create_sandbox_tx s d = Some d' \<Longrightarrow> only_moves t i X d d'" for s d d'
    by (auto simp: only_moves_def dest: status_at_create)
  show "sb_ID s = [] \<or> sb_TenantID s = t \<and> sb_ID s = i \<and> sb_Status s \<in> X \<Longrightarrow>
      update_sandbox_tx s d = Some d' \<Longrightarrow> only_moves t i X d d'" for s d d'
    by (auto simp: only_moves_def status_at_update)
qed (auto simp: only_moves_def status_at_def dest!: sandboxes_untouched)

text \<open>\<open>protects t i d d'\<close>: sandbox \<open>i\<close> of tenant \<open>t\<close>, if it exists, keeps its status.\<close>

definition protects :: "string \<Rightarrow> string \<Rightarrow> database \<Rightarrow> database \<Rightarrow> bool" where
  "protects t i d d' \<longleftrightarrow> (\<forall>st. status_at d t i = Some st \<longrightarrow> status_at d' t i = Some st)"

interpretation protect: db_relation "protects t i" "\<lambda>_. True"
  "\<lambda>s. \<not> (sb_TenantID s = t \<and> sb_ID s = i)" "\<lambda>_ _. True" for t i
proof unfold_locales
  show "create_sandbox_tx s d = Some d' \<Longrightarrow> protects t i d d'" for s d d'
    by (auto simp: protects_def dest: status_at_create)
  show "\<not> (sb_TenantID s = t \<and> sb_ID s = i) \<Longrightarrow> update_sandbox_tx s d = Some d' \<Longrightarrow> protects t i d d'" for s d d'
    by (auto simp: protects_def status_at_update)
qed (auto simp: protects_def status_at_def dest!: sandboxes_untouched)

section \<open>Creation\<close>

text \<open>
  A creation whose fresh identifier collides with an existing sandbox is refused by the insert, so that
  the rollback and the final update never reach a sandbox that was there before.
\<close>

lemma reserve_success_fresh:
  assumes "reserveSandboxCreate svc t q s req w = (Inr u, w')"
  shows "status_at (w_db w) (sb_TenantID s) (sb_ID s) = None"
proof -
  let ?checks = "thenE (checkQuota t q req)
    (thenE (if cr_Start req then checkRunningQuota t q else okE ())
       (enforceAdmission svc t (sb_ID s) ''create'' (create_delta req)))"
  have "reserveSandboxCreate svc t q s req = thenE ?checks (Store_CreateSandbox s)"
    by (simp add: reserveSandboxCreate_def thenE_def bindE_assoc)
  with assms obtain a w1 where c: "?checks w = (Inr a, w1)" and i: "Store_CreateSandbox s w1 = (Inr u, w')"
    by (metis thenE_InrD)
  have "preserves (on_db (protects (sb_TenantID s) (sb_ID s))) ?checks"
    unfolding checkQuota_def checkRunningQuota_def
    by (intro protect.steps protect.policy_keeps) simp_all
  with c have "protects (sb_TenantID s) (sb_ID s) (w_db w) (w_db w1)"
    by (auto dest: preservesD simp: on_db_def)
  moreover have "status_at (w_db w1) (sb_TenantID s) (sb_ID s) = None"
    using i create_fresh by (auto simp: Store_CreateSandbox_def WithTx_def sql_exec_Inr create_sandbox_tx_def)
  ultimately show ?thesis by (auto simp: protects_def)
qed

lemma reserve_then_provision:
  assumes "\<And>e. preserves (on_db (protects t i)) (bad e)"
  shows "preserves (on_db (protects t i)) (tryE (reserveSandboxCreate svc tn q s req) (\<lambda>r.
     case r of Inl e \<Rightarrow> bad e | Inr u \<Rightarrow> provision svc (sb_TenantID s) req s))"
proof (cases "sb_TenantID s = t \<and> sb_ID s = i")
  case False
  then show ?thesis
    using assms by (intro protect.steps protect.reserveSandboxCreate_keeps protect.provision_keeps)
      (auto simp: writes_def)
next
  case True
  have r: "preserves (on_db (protects t i)) (reserveSandboxCreate svc tn q s req)"
    by (intro protect.reserveSandboxCreate_keeps) simp_all
  have "on_db (protects t i) w (snd (tryE (reserveSandboxCreate svc tn q s req) (\<lambda>r.
     case r of Inl e \<Rightarrow> bad e | Inr u \<Rightarrow> provision svc (sb_TenantID s) req s) w))" for w
  proof (cases "reserveSandboxCreate svc tn q s req w")
    case (Pair res v)
    then have v: "on_db (protects t i) w v" using r by (auto dest: preservesD)
    show ?thesis
    proof (cases res)
      case (Inl e)
      have "on_db (protects t i) v (snd (bad e v))" using assms by (simp add: preserves_def)
      with v Pair Inl show ?thesis by (auto simp: tryE_def intro: protect.db.R_trans)
    next
      case (Inr u)
      with Pair have "status_at (w_db w) t i = None" using reserve_success_fresh True by metis
      then show ?thesis by (simp add: on_db_def protects_def)
    qed
  qed
  then show ?thesis by (simp add: preserves_def)
qed

lemma CreateSandbox_protects: "preserves (on_db (protects t i)) (CreateSandbox svc tn quota req)"
proof -
  have s: "sb_TenantID (new_sandbox svc (tn_ID tn) sid r sel c now) = tn_ID tn" for sid r sel c now
    by (simp add: new_sandbox_def Let_def)
  note then_provision = reserve_then_provision [where s = "new_sandbox svc (tn_ID tn) sid r sel c now"
      for sid r sel c now, unfolded s]
  show ?thesis
    unfolding CreateSandbox_def Let_def
    by (intro then_provision protect.steps protect.policy_keeps) simp_all
qed

section \<open>The abstract machine\<close>

type_synonym statuses = "string \<times> string \<Rightarrow> sandbox_status option"

definition abs_status :: "database \<Rightarrow> statuses" where
  "abs_status d = (\<lambda>(t, i). if i = [] then None else status_at d t i)"

fun request_sandbox :: "request \<Rightarrow> (string \<times> string) option" where
  "request_sandbox (ReqStart t i q) = Some (t, i)"
| "request_sandbox (ReqStop t i b) = Some (t, i)"
| "request_sandbox (ReqSuspend t i) = Some (t, i)"
| "request_sandbox (ReqResume t i q) = Some (t, i)"
| "request_sandbox (ReqDelete t i b) = Some (t, i)"
| "request_sandbox (ReqRestoreSnapshot t j i) = Some (t, i)"
| "request_sandbox (ReqExec tn q i r) = Some (tn_ID tn, i)"
| "request_sandbox (ReqAttachTTY t i r) = Some (t, i)"
| "request_sandbox (ReqReadFile t i p e) = Some (t, i)"
| "request_sandbox (ReqWriteFile t i p c) = Some (t, i)"
| "request_sandbox (ReqDeleteFile t i p) = Some (t, i)"
| "request_sandbox (ReqMkdir t i p) = Some (t, i)"
| "request_sandbox (ReqImport tv t i a) = Some (t, i)"
| "request_sandbox (ReqExport tv t i ps) = Some (t, i)"
| "request_sandbox (ReqCreateTunnel t i r) = Some (t, i)"
| "request_sandbox _ = None"

fun entered :: "request \<Rightarrow> sandbox_status set" where
  "entered (ReqStart t i q) = starting_statuses"
| "entered (ReqResume t i q) = starting_statuses"
| "entered (ReqStop t i b) = stopping_statuses"
| "entered (ReqSuspend t i) = suspending_statuses"
| "entered (ReqDelete t i b) = stopping_statuses \<union> deleting_statuses"
| "entered (ReqRestoreSnapshot t j i) = stopping_statuses"
| "entered _ = {}"

definition lifecycle_spec :: "request \<Rightarrow> statuses \<Rightarrow> statuses \<Rightarrow> bool" where
  "lifecycle_spec req m m' \<longleftrightarrow> (\<forall>k st. m k = Some st \<longrightarrow>
     m' k = Some st \<or> request_sandbox req = Some k \<and> (\<exists>st' \<in> entered req. m' k = Some st'))"

lemma permits_moves:
  assumes "request_sandbox req = Some (t, i)"
  shows "permits (\<lambda>s. sb_ID s = [] \<or> sb_TenantID s = t \<and> sb_ID s = i \<and>
     sb_Status s \<in> entered req \<union> {st. status_at d t i = Some st}) d req"
  using assms by (cases req) (auto simp: writes_def dest: find_sandbox_status)

lemma permits_none: "request_sandbox req = None \<Longrightarrow> (\<forall>tn q r. req \<noteq> ReqCreate tn q r) \<Longrightarrow> permits U d req"
  by (cases req) auto

lemma only_moves_spec:
  assumes "only_moves t i X d d'" and "request_sandbox req = Some (t, i)"
    and "X = entered req \<union> {st. status_at d t i = Some st}"
  shows "lifecycle_spec req (abs_status d) (abs_status d')"
  using assms unfolding lifecycle_spec_def abs_status_def only_moves_def by (fastforce split: prod.splits if_splits)

lemma protects_spec: "(\<And>t i. protects t i d d') \<Longrightarrow> lifecycle_spec req (abs_status d) (abs_status d')"
  unfolding lifecycle_spec_def abs_status_def protects_def by (auto split: prod.splits if_splits)

text \<open>
  C3: the service refines the status machine. Whatever a request returns, at most the status of its own
  sandbox has changed, and then to one of the statuses its transition passes through; every other
  sandbox, of any tenant, has the status it had before. Creation changes the status of no sandbox that
  exists already, and the operations inside a sandbox change none at all.
\<close>

theorem lifecycle_refinement:
  assumes "perform svc fv av req w = (result, w')"
  shows "lifecycle_spec req (abs_status (w_db w)) (abs_status (w_db w'))"
proof (cases "request_sandbox req")
  case (Some k)
  obtain t i where k: "k = (t, i)" by force
  let ?X = "entered req \<union> {st. status_at (w_db w) t i = Some st}"
  have "only_moves t i ?X (w_db w) (w_db w')"
    using moves.perform_keeps [OF TrueI TrueI permits_moves enters_True] Some k assms
    by (metis on_db_def snd_conv)
  with Some k show ?thesis by (auto intro: only_moves_spec)
next
  case None
  have "protects t i (w_db w) (w_db w')" for t i
  proof (cases "\<exists>tn q r. req = ReqCreate tn q r")
    case True
    then obtain tn q r where "w' = snd (CreateSandbox svc tn q r w)"
      using assms by (metis perform.simps(1) snd_conv snd_then_ok)
    then show ?thesis using preserves_at [OF CreateSandbox_protects] by (simp add: on_db_def)
  next
    case False
    with None have "permits (\<lambda>s. \<not> (sb_TenantID s = t \<and> sb_ID s = i)) (w_db w) req" by (simp add: permits_none)
    with assms protect.perform_keeps [where req = req and w = w and t = t and i = i and svc = svc and fv = fv and av = av] show ?thesis by (simp add: on_db_def)
  qed
  then show ?thesis by (rule protects_spec)
qed

theorem lifecycle_refinement_witness:
  "lifecycle_spec (ReqStop ''acme'' ''sbx-1'' True) (abs_status (w_db running_world))
     (abs_status (w_db (after (ReqStop ''acme'' ''sbx-1'' True) running_world))) \<and>
   abs_status (w_db running_world) (''acme'', ''sbx-1'') = Some StatusRunning"
proof
  show "abs_status (w_db running_world) (''acme'', ''sbx-1'') = Some StatusRunning"
    by (simp add: abs_status_def status_at_def running_world_def running_db_def running_sandbox_def
        sample_sandbox_def sandbox_to_row_def)
qed (rule lifecycle_refinement [OF after_perform])

end
