(* ===== verification/Outcomes.thy ===== *)
theory Outcomes
  imports Lifecycle
begin

text \<open>
  What the lifecycle operations achieve when they report success: the status the sandbox is left in,
  the tunnels that are closed, the directories that are removed, and what reconciliation cleans up.
\<close>

section \<open>Tables an operation leaves alone\<close>

locale side_table =
  fixes f :: "database \<Rightarrow> 'x"
  assumes f_audit: "audit_tx a d = Some d' \<Longrightarrow> f d' = f d"
    and f_storage: "update_storage i u now d = Some d' \<Longrightarrow> f d' = f d"
    and f_runtime: "update_runtime_state i st d = Some d' \<Longrightarrow> f d' = f d"
    and f_capabilities: "revoke_capabilities i now d = Some d' \<Longrightarrow> f d' = f d"
begin

abbreviation leaves :: "('e, 'r world, 'a) eop \<Rightarrow> bool" where
  "leaves m \<equiv> preserves (on_db (\<lambda>d d'. f d' = f d)) m"

lemma leaves_exec: "(\<And>d d'. stmt d = Some d' \<Longrightarrow> f d' = f d) \<Longrightarrow> leaves (sql_exec stmt)"
  by (auto simp: preserves_def on_db_def sql_exec_def Let_def split: option.split)

lemma leaves_query: "leaves (sql_query q)"
  by (auto simp: preserves_def on_db_def sql_query_def Let_def)

lemma leaves_env: "leaves now_utc" "leaves (newID p)" "leaves (os_call oper)" "leaves (rt_call m)"
  by (auto simp: preserves_def on_db_def now_utc_def newID_def os_call_def rt_call_def Let_def
      split: option.split prod.split)

end

sublocale side_table \<subseteq> same: step_preorder "on_db (\<lambda>d d'. f d' = f d)"
  by unfold_locales (auto simp: on_db_def)

context side_table begin

lemma leaves_store:
  "leaves (Store_UpdateRuntimeState i st)" "leaves (Store_UpdateStorageUsage i u)"
  "leaves (Store_RevokeTunnelCapabilities i)" "leaves (Store_GetSandbox t i)"
  "leaves (Store_ListTunnels t i)" "leaves (Store_AddAuditEvent e)"
  unfolding Store_UpdateRuntimeState_def Store_UpdateStorageUsage_def Store_RevokeTunnelCapabilities_def
    Store_GetSandbox_def Store_ListTunnels_def Store_AddAuditEvent_def WithTx_def
  by (intro same.preserves_bind leaves_env leaves_query leaves_exec;
      erule f_runtime f_storage f_capabilities f_audit [unfolded audit_tx_def])+

lemma leaves_recordAudit: "leaves (recordAudit t i act res out detail)"
  unfolding recordAudit_def by (intro same.preserves_rules leaves_env leaves_store)

lemma leaves_refreshStorage: "leaves (refreshStorage svc s)"
  unfolding refreshStorage_def auditStoragePressure_def Let_def
  by (intro same.preserves_rules leaves_env leaves_store leaves_recordAudit)

lemmas leaves_rules = same.preserves_rules leaves_env leaves_store leaves_recordAudit leaves_refreshStorage

lemma leavesD: "leaves m \<Longrightarrow> m w = (r, w') \<Longrightarrow> f (w_db w') = f (w_db w)"
  by (auto dest: preservesD simp: on_db_def)

text \<open>The same per step, as destruction rules for a decomposed run.\<close>

lemmas leaves_steps =
  leaves_store [THEN leavesD] leaves_env [THEN leavesD] leaves_recordAudit [THEN leavesD]
  leaves_refreshStorage [THEN leavesD]

end

interpretation sandboxes: side_table db_sandboxes
  by unfold_locales (auto dest: sandboxes_untouched)

interpretation tunnels: side_table db_tunnels
  by unfold_locales (auto simp: stmt_defs split: option.splits if_splits)

section \<open>Revoking the tunnels of a sandbox\<close>

definition active_tunnels :: "string \<Rightarrow> string \<Rightarrow> database \<Rightarrow> tunnel list" where
  "active_tunnels t i d =
     filter (\<lambda>x. tun_TenantID x = t \<and> tun_SandboxID x = i \<and> tun_RevokedAt x = None) (db_tunnels d)"

lemma revoke_one_active:
  assumes "revoke_one t s reason tun w = (Inr (), w')" and "x \<in> set (active_tunnels t i (w_db w'))"
  shows "x \<in> set (active_tunnels t i (w_db w)) \<and> (tun_RevokedAt tun = None \<longrightarrow> tun_ID x \<noteq> tun_ID tun)"
proof (cases "tun_RevokedAt tun = None")
  case False
  with assms show ?thesis by (auto simp: revoke_one_def)
next
  case True
  with assms(1) obtain w1 where r: "Store_RevokeTunnel t (tun_ID tun) w = (Inr (), w1)"
    and e: "db_tunnels (w_db w') = db_tunnels (w_db w1)"
    by (auto simp: revoke_one_def elim!: thenE_InrE dest!: tunnels.leaves_steps)
  let ?p = "\<lambda>x. tun_TenantID x = t \<and> tun_ID x = tun_ID tun \<and> tun_RevokedAt x = None"
  obtain now where u: "db_tunnels (w_db w1) = update_rows ?p (\<lambda>x. x\<lparr>tun_RevokedAt := Some now\<rparr>) (db_tunnels (w_db w))"
    using r by (auto simp: Store_RevokeTunnel_def bindE_def now_utc_def sql_exec_Inr revoke_tunnel_def)
  have x: "x \<in> set (db_tunnels (w_db w'))" "tun_RevokedAt x = None" "tun_TenantID x = t" "tun_SandboxID x = i"
    using assms(2) by (auto simp: active_tunnels_def)
  have "x \<in> (\<lambda>y. if ?p y then y\<lparr>tun_RevokedAt := Some now\<rparr> else y) ` set (db_tunnels (w_db w))"
    using x(1) by (simp only: e u update_rows_def set_map)
  then obtain y where "x = (if ?p y then y\<lparr>tun_RevokedAt := Some now\<rparr> else y)" "y \<in> set (db_tunnels (w_db w))"
    by (rule imageE)
  with x have "x \<in> set (db_tunnels (w_db w)) \<and> \<not> ?p x" by (cases "?p y") auto
  with x show ?thesis by (auto simp: active_tunnels_def)
qed

lemma revoke_all_active:
  assumes "forE tuns (revoke_one t s reason) w = (Inr (), w')" and "x \<in> set (active_tunnels t i (w_db w'))"
  shows "x \<in> set (active_tunnels t i (w_db w)) \<and> (\<forall>tun \<in> set tuns. tun_RevokedAt tun = None \<longrightarrow> tun_ID x \<noteq> tun_ID tun)"
  using assms
proof (induction tuns arbitrary: w)
  case (Cons tun tuns)
  from Cons.prems(1) obtain w1 where "revoke_one t s reason tun w = (Inr (), w1)"
    and "forE tuns (revoke_one t s reason) w1 = (Inr (), w')" by (auto elim!: thenE_InrE)
  with Cons.IH Cons.prems(2) revoke_one_active show ?case by fastforce
qed simp

lemma revokeActiveTunnels_none:
  assumes "revokeActiveTunnels t s reason w = (Inr (), w')"
  shows "active_tunnels t (sb_ID s) (w_db w') = []"
proof -
  from assms obtain tuns w1 where l: "Store_ListTunnels t (sb_ID s) w = (Inr tuns, w1)"
    and r: "forE tuns (revoke_one t s reason) w1 = (Inr (), w')"
    by (auto simp: revokeActiveTunnels_def elim!: bindE_InrE)
  have d: "db_tunnels (w_db w1) = db_tunnels (w_db w)" 
    by (rule tunnels.leavesD [where m = "Store_ListTunnels t (sb_ID s)"], intro tunnels.leaves_rules, rule l)
  have "set tuns = {x \<in> set (db_tunnels (w_db w)). tun_TenantID x = t \<and> tun_SandboxID x = sb_ID s}"
    using l by (auto simp: Store_ListTunnels_def sql_query_def Let_def split: if_splits)
  then have "x \<in> set tuns \<and> tun_RevokedAt x = None" if "x \<in> set (active_tunnels t (sb_ID s) (w_db w1))" for x
    using that d by (simp add: active_tunnels_def)
  with revoke_all_active [OF r, of _ "sb_ID s"] have "x \<notin> set (active_tunnels t (sb_ID s) (w_db w'))" for x by blast
  then show ?thesis by (metis list.set_intros(1) neq_Nil_conv)
qed

lemma revokeActiveTunnels_sandboxes: "sandboxes.leaves (revokeActiveTunnels t s reason)"
proof -
  have "sandboxes.leaves (Store_RevokeTunnel t i)" for i
    unfolding Store_RevokeTunnel_def
    by (intro sandboxes.same.preserves_bind sandboxes.leaves_env sandboxes.leaves_exec) (auto dest: sandboxes_untouched)
  then show ?thesis unfolding revokeActiveTunnels_def revoke_one_def by (intro sandboxes.leaves_rules)
qed

section \<open>Successful transitions\<close>

lemma update_state_status:
  assumes "Store_UpdateSandboxState s w = (Inr (), w')"
  shows "status_at (w_db w') (sb_TenantID s) (sb_ID s) \<in> {None, Some (sb_Status s)}"
proof -
  have "update_sandbox_tx s (w_db w) = Some (w_db w')"
    using assms by (auto simp: Store_UpdateSandboxState_def WithTx_def sql_exec_Inr update_sandbox_tx_def)
  from status_at_update [OF this] show ?thesis by (cases "status_at (w_db w) (sb_TenantID s) (sb_ID s)") simp_all
qed

lemma finish_transition_status:
  fixes w :: "'r world"
  assumes "finish_transition svc t s act details st state w = (Inr s', w')"
  shows "status_at (w_db w') (sb_TenantID s) (sb_ID s) \<in> {None, Some st} \<and>
    sb_TenantID s' = sb_TenantID s \<and> sb_ID s' = sb_ID s"
proof -
  from assms obtain now and w1 w2 :: "'r world" where u: "Store_UpdateSandboxState (s\<lparr>sb_Status := st,
        sb_RuntimeStatus := status_string (rs_Status state), sb_UpdatedAt := now, sb_LastActiveAt := now\<rparr>) w1 = (Inr (), w2)"
    and "db_sandboxes (w_db w') = db_sandboxes (w_db w2)"
    and "sb_TenantID s' = sb_TenantID s \<and> sb_ID s' = sb_ID s"
    by (auto simp: finish_transition_def Let_def elim!: bindE_InrE thenE_InrE dest!: sandboxes.leaves_steps)
  then show ?thesis using update_state_status [OF u] by (simp add: status_at_def)
qed

text \<open>The row read at the end shows the status the transition wrote.\<close>

lemma read_back:
  assumes "status_at (w_db w) t i \<in> {None, Some st}" and "Store_GetSandbox t i w = (Inr s, w')"
  shows "sb_Status s = st \<and> sb_TenantID s = t \<and> sb_ID s = i \<and> w_db w' = w_db w"
proof -
  from assms(2) have "find_sandbox (w_db w) t i = Some s" "w_db w' = w_db w"
    by (auto simp: Store_GetSandbox_def sql_query_def Let_def split: if_splits option.splits)
  with assms(1) find_sandbox_status find_sandbox_ids show ?thesis by fastforce
qed

lemma fail_transition_Inl: "fail_transition t s act details e w \<noteq> (Inr x, w')"
  by (auto simp: fail_transition_def ignoreE_def tryE_def thenE_def bindE_def now_utc_def
      split: prod.splits sum.splits)

lemma enter_transition_Inr:
  "enter_transition s st w = (Inr s', w') \<Longrightarrow> sb_TenantID s' = sb_TenantID s \<and> sb_ID s' = sb_ID s"
  by (auto simp: enter_transition_def Let_def elim!: bindE_InrE thenE_InrE)

lemma tryE_case_Inr:
  assumes "tryE m (\<lambda>r. case r of Inl e \<Rightarrow> bad e | Inr a \<Rightarrow> k a) w = (Inr x, w')"
    and "\<And>e v. bad e v \<noteq> (Inr x, w')"
  obtains a w1 where "m w = (Inr a, w1)" and "k a w1 = (Inr x, w')"
  using assms by (auto simp: tryE_def split: prod.splits sum.splits)

text \<open>
  The common shape of the transitions: a sandbox of the tenant, the final status written, then steps
  that leave the sandboxes alone, then the row read back.
\<close>

lemma transition_outcome:
  assumes "finish_transition svc t s act details st state w1 = (Inr s', w2)"
    and "sb_TenantID s = t" and "db_sandboxes (w_db w3) = db_sandboxes (w_db w2)"
    and "Store_GetSandbox t (sb_ID s) w3 = (Inr r, w')"
  shows "sb_Status r = st \<and> sb_ID r = sb_ID s \<and> status_at (w_db w') t (sb_ID s) = Some st \<and> w_db w' = w_db w3"
proof -
  have "status_at (w_db w3) t (sb_ID s) \<in> {None, Some st}"
    using finish_transition_status [OF assms(1)] assms(2,3) by (simp add: status_at_def)
  from read_back [OF this assms(4)] assms(4) show ?thesis
    by (auto simp: Store_GetSandbox_def sql_query_def Let_def dest!: find_sandbox_status
        split: if_splits option.splits)
qed

lemma executeReservedTransition_Inr:
  assumes "executeReservedTransition svc t s act st fin action w = (Inr r, w')" and "sb_TenantID s = t"
  shows "sb_Status r = fin \<and> sb_ID r = sb_ID s \<and> status_at (w_db w') t (sb_ID s) = Some fin"
proof -
  from assms(1) obtain state w1 where "thenE (finish_transition svc t s act
      (transition_details st ''result_status'' fin) fin state) (Store_GetSandbox t (sb_ID s)) w1 = (Inr r, w')"
    unfolding executeReservedTransition_def by (rule tryE_case_Inr) (simp_all add: fail_transition_Inl)
  then obtain s' w2 where "finish_transition svc t s act
      (transition_details st ''result_status'' fin) fin state w1 = (Inr s', w2)"
    and "Store_GetSandbox t (sb_ID s) w2 = (Inr r, w')" by (rule thenE_InrE)
  from transition_outcome [OF this(1) assms(2) refl this(2)] show ?thesis by blast
qed

lemma reserve_Inr:
  "reserveLifecycleTransition svc t i act q st dl w = (Inr s, w') \<Longrightarrow> sb_TenantID s = t \<and> sb_ID s = i"
  by (auto simp: reserveLifecycleTransition_def Let_def elim!: bindE_InrE thenE_InrE dest!: get_sandbox_result)

text \<open>
  A start or resume that reports success leaves the sandbox running: the returned row is that
  sandbox with status running, and so is the row in the database.
\<close>

theorem start_outcome:
  assumes "StartSandbox svc t i q w = (Inr s, w') \<or> ResumeSandbox svc t i q w = (Inr s, w')"
  shows "sb_ID s = i \<and> sb_Status s = StatusRunning \<and> status_at (w_db w') t i = Some StatusRunning"
  using assms
proof
  assume "StartSandbox svc t i q w = (Inr s, w')"
  then show ?thesis
    unfolding StartSandbox_def by (auto elim!: bindE_InrE dest!: reserve_Inr executeReservedTransition_Inr)
next
  assume "ResumeSandbox svc t i q w = (Inr s, w')"
  then show ?thesis
    unfolding ResumeSandbox_def by (auto elim!: bindE_InrE dest!: reserve_Inr executeReservedTransition_Inr)
qed

lemma enter_then_Inr:
  assumes "bindE (Store_GetSandbox t i) (\<lambda>s0. bindE (enter_transition s0 st) k) w = (Inr x, w')"
  obtains s w1 where "sb_TenantID s = t" and "sb_ID s = i" and "k s w1 = (Inr x, w')"
  using assms by (auto elim!: bindE_InrE dest!: get_sandbox_result enter_transition_Inr)

lemma finish_and_revoke:
  assumes "bindE (finish_transition svc t s act details st state)
      (\<lambda>s'. thenE (revokeActiveTunnels t s' reason) (Store_GetSandbox t (sb_ID s'))) w = (Inr r, w')"
    and "sb_TenantID s = t" and "sb_ID s = i"
  shows "sb_ID r = i \<and> sb_Status r = st \<and> status_at (w_db w') t i = Some st \<and> active_tunnels t i (w_db w') = []"
proof -
  from assms(1) obtain s' w1 where f: "finish_transition svc t s act details st state w = (Inr s', w1)"
    and "thenE (revokeActiveTunnels t s' reason) (Store_GetSandbox t (sb_ID s')) w1 = (Inr r, w')"
    by (rule bindE_InrE)
  from this(2) obtain u w2 where v: "revokeActiveTunnels t s' reason w1 = (Inr u, w2)"
    and g: "Store_GetSandbox t (sb_ID s') w2 = (Inr r, w')" by (rule thenE_InrE)
  have s': "sb_ID s' = i" using finish_transition_status [OF f] assms(3) by simp
  have "db_sandboxes (w_db w2) = db_sandboxes (w_db w1)"
    by (rule sandboxes.leavesD [OF revokeActiveTunnels_sandboxes v])
  from transition_outcome [OF f assms(2) this, of r w'] g s' assms(3)
  have "sb_ID r = i \<and> sb_Status r = st \<and> status_at (w_db w') t i = Some st \<and> w_db w' = w_db w2" by auto
  moreover have "active_tunnels t i (w_db w2) = []" using revokeActiveTunnels_none [of t s' reason w1 w2] v s' by simp
  ultimately show ?thesis by metis
qed

lemma stop_or_suspend:
  assumes "bindE (Store_GetSandbox t i) (\<lambda>s0. bindE (enter_transition s0 mid) (\<lambda>s. tryE (rt_call (act s))
      (\<lambda>r. case r of Inl e \<Rightarrow> fail_transition t s kind details e
        | Inr state \<Rightarrow> bindE (finish_transition svc t s kind details' st state)
            (\<lambda>s'. thenE (revokeActiveTunnels t s' reason) (Store_GetSandbox t (sb_ID s')))))) w = (Inr r, w')"
  shows "sb_ID r = i \<and> sb_Status r = st \<and> status_at (w_db w') t i = Some st \<and> active_tunnels t i (w_db w') = []"
  using assms
  by - (erule enter_then_Inr, erule tryE_case_Inr, rule fail_transition_Inl, erule (2) finish_and_revoke)

text \<open>
  A stop that reports success leaves the sandbox stopped and none of its tunnels active.
\<close>

theorem stop_outcome:
  assumes "StopSandbox svc t i force w = (Inr s, w')"
  shows "sb_ID s = i \<and> sb_Status s = StatusStopped \<and> status_at (w_db w') t i = Some StatusStopped \<and>
    active_tunnels t i (w_db w') = []"
  using assms unfolding StopSandbox_def transitionSandbox_def simp_thms if_True by (rule stop_or_suspend)

text \<open>
  A suspend that reports success leaves the sandbox suspended and none of its tunnels active.
\<close>

theorem suspend_outcome:
  assumes "SuspendSandbox svc t i w = (Inr s, w')"
  shows "sb_ID s = i \<and> sb_Status s = StatusSuspended \<and> status_at (w_db w') t i = Some StatusSuspended \<and>
    active_tunnels t i (w_db w') = []"
  using assms unfolding SuspendSandbox_def transitionSandbox_def simp_thms if_True by (rule stop_or_suspend)

end
