(* ===== verification/Auth.thy ===== *)
theory Auth
  imports Sandboxes
begin

text \<open>
  \<open>internal/auth\<close>: identities and their permissions, the static and the JWT authenticator, and the
  middleware that authenticates a request and applies the per-tenant rate limit. The JWT library and
  the token bucket are third-party packages and enter as parameters.
\<close>

section \<open>Identities and permissions\<close>

record identity =
  id_Subject :: string
  id_TenantID :: string
  id_Roles :: "string list"
  id_Scopes :: "string list"
  id_ServiceAccountID :: string
  id_IsService :: bool
  id_AuthMethod :: string

record tenant_context =
  tc_Tenant :: tenant
  tc_Quota :: tenant_quota
  tc_Identity :: identity

abbreviation PermissionSandboxRead :: string where "PermissionSandboxRead \<equiv> ''sandbox.read''"
abbreviation PermissionSandboxLifecycle :: string where "PermissionSandboxLifecycle \<equiv> ''sandbox.lifecycle''"
abbreviation PermissionExecRun :: string where "PermissionExecRun \<equiv> ''exec.run''"
abbreviation PermissionTTYAttach :: string where "PermissionTTYAttach \<equiv> ''tty.attach''"
abbreviation PermissionFilesRead :: string where "PermissionFilesRead \<equiv> ''files.read''"
abbreviation PermissionFilesWrite :: string where "PermissionFilesWrite \<equiv> ''files.write''"
abbreviation PermissionSnapshotsRead :: string where "PermissionSnapshotsRead \<equiv> ''snapshots.read''"
abbreviation PermissionSnapshotsWrite :: string where "PermissionSnapshotsWrite \<equiv> ''snapshots.write''"
abbreviation PermissionTunnelsRead :: string where "PermissionTunnelsRead \<equiv> ''tunnels.read''"
abbreviation PermissionTunnelsWrite :: string where "PermissionTunnelsWrite \<equiv> ''tunnels.write''"
abbreviation PermissionAdminInspect :: string where "PermissionAdminInspect \<equiv> ''admin.inspect''"

definition AllPermissions :: "string list" where
  "AllPermissions =
     [PermissionSandboxRead, PermissionSandboxLifecycle, PermissionExecRun, PermissionTTYAttach,
      PermissionFilesRead, PermissionFilesWrite, PermissionSnapshotsRead, PermissionSnapshotsWrite,
      PermissionTunnelsRead, PermissionTunnelsWrite, PermissionAdminInspect]"

definition tenant_permissions :: "string list" where
  "tenant_permissions =
     [PermissionSandboxRead, PermissionSandboxLifecycle, PermissionExecRun, PermissionTTYAttach,
      PermissionFilesRead, PermissionFilesWrite, PermissionSnapshotsRead, PermissionSnapshotsWrite,
      PermissionTunnelsRead, PermissionTunnelsWrite]"

definition rolePermissions :: "string \<Rightarrow> string list" where
  "rolePermissions role =
     (if role = ''operator'' then AllPermissions
      else if role \<in> {''tenant-admin'', ''admin''} then tenant_permissions
      else if role \<in> {''tenant-developer'', ''developer''} then tenant_permissions
      else if role \<in> {''tenant-viewer'', ''viewer''} then
        [PermissionSandboxRead, PermissionFilesRead, PermissionSnapshotsRead, PermissionTunnelsRead]
      else if role \<in> {''service-account'', ''service''} then
        [PermissionSandboxRead, PermissionSandboxLifecycle, PermissionExecRun, PermissionTTYAttach,
         PermissionFilesRead, PermissionFilesWrite, PermissionSnapshotsRead, PermissionSnapshotsWrite,
         PermissionTunnelsRead, PermissionTunnelsWrite, PermissionAdminInspect]
      else [])"

definition containsPermission :: "string list \<Rightarrow> string \<Rightarrow> bool" where
  "containsPermission granted permission \<longleftrightarrow> (\<exists>v \<in> set granted. EqualFold (TrimSpace v) permission)"

definition HasPermission :: "tenant_context \<Rightarrow> string \<Rightarrow> bool" where
  "HasPermission t permission \<longleftrightarrow>
     (let i = tc_Identity t in
      \<not> (id_IsService i \<and> id_Scopes i \<noteq> [] \<and> \<not> containsPermission (id_Scopes i) permission) \<and>
      (\<exists>role \<in> set (id_Roles i). permission \<in> set (rolePermissions (ToLower (TrimSpace role)))))"

definition Require :: "tenant_context option \<Rightarrow> string list \<Rightarrow> goerr + unit" where
  "Require ctx permissions =
     (case ctx of
        None \<Rightarrow> Inl (Err ''unauthorized'')
      | Some t \<Rightarrow> if \<exists>p \<in> set permissions. HasPermission t p then Inr () else Inl (ErrForbidden []))"

section \<open>Authenticators\<close>

record jwt_claims =
  jc_TenantID :: string
  jc_Roles :: "string list"
  jc_ServiceAccountID :: string
  jc_Scope :: "string list"
  jc_Service :: bool
  jc_Subject :: string

text \<open>
  \<open>jwt.ParseWithClaims\<close> with an expected issuer and audience: it asks the key function for the key of
  the algorithm the token names and returns the claims when everything checks. What the library
  documents of a parse that succeeds: the key function accepted the token's algorithm, the token
  carries a valid signature under the key it returned, and issuer and audience are the expected ones.
\<close>

type_synonym jwt_parse = "string \<Rightarrow> string \<Rightarrow> (string \<Rightarrow> goerr + string) \<Rightarrow> string \<Rightarrow> goerr + jwt_claims"

definition jwt_documented ::
  "(string \<Rightarrow> string) \<Rightarrow> (string \<Rightarrow> string \<Rightarrow> string \<Rightarrow> bool) \<Rightarrow> (string \<Rightarrow> string \<Rightarrow> string \<Rightarrow> bool) \<Rightarrow> jwt_parse \<Rightarrow> bool" where
  "jwt_documented token_alg signed_under addressed parse \<longleftrightarrow>
     (\<forall>iss aud keyfunc token claims. parse iss aud keyfunc token = Inr claims \<longrightarrow>
        (\<exists>key. keyfunc (token_alg token) = Inr key \<and> signed_under (token_alg token) key token) \<and>
        addressed iss aud token)"

definition hs256_key :: "string \<Rightarrow> string \<Rightarrow> goerr + string" where
  "hs256_key secret alg =
     (if alg \<noteq> ''HS256'' then Inl (Err (''unexpected signing method '' @ alg)) else Inr secret)"

fun parse_with_secrets :: "jwt_parse \<Rightarrow> string \<Rightarrow> string \<Rightarrow> string list \<Rightarrow> string \<Rightarrow> goerr + jwt_claims" where
  "parse_with_secrets parse iss aud [] token = Inl (Err ''no jwt secrets loaded'')"
| "parse_with_secrets parse iss aud [secret] token = parse iss aud (hs256_key secret) token"
| "parse_with_secrets parse iss aud (secret # s # ss) token =
     (case parse iss aud (hs256_key secret) token of
        Inr claims \<Rightarrow> Inr claims | Inl e \<Rightarrow> parse_with_secrets parse iss aud (s # ss) token)"

fun load_secret_loop :: "(string \<Rightarrow> goerr + string) \<Rightarrow> string list \<Rightarrow> goerr + string list" where
  "load_secret_loop ReadFile [] = Inr []"
| "load_secret_loop ReadFile (path # paths) =
     (case ReadFile path of
        Inl e \<Rightarrow> Inl e
      | Inr data \<Rightarrow>
          (let secret = TrimSpace data in
           if secret = [] then Inl (Err (''secret file '' @ path @ '' is empty''))
           else case load_secret_loop ReadFile paths of Inl e \<Rightarrow> Inl e | Inr values \<Rightarrow> Inr (secret # values)))"

definition loadSecretValues :: "(string \<Rightarrow> goerr + string) \<Rightarrow> string list \<Rightarrow> goerr + string list" where
  "loadSecretValues ReadFile paths =
     (case load_secret_loop ReadFile paths of
        Inl e \<Rightarrow> Inl e
      | Inr values \<Rightarrow> if values = [] then Inl (Err ''no jwt secrets loaded'') else Inr values)"

definition scopesSubset :: "string list \<Rightarrow> string list \<Rightarrow> bool" where
  "scopesSubset requested allowed \<longleftrightarrow> (\<forall>v \<in> set requested. TrimSpace v \<in> TrimSpace ` set allowed)"

record jwt_authenticator =
  ja_issuer :: string
  ja_audience :: string
  ja_secrets :: "goerr + string list"
  ja_defaultQuota :: tenant_quota

datatype authenticator = StaticAuthenticator | JWTAuthenticator jwt_authenticator

definition newAuthenticator :: "(string \<Rightarrow> goerr + string) \<Rightarrow> config \<Rightarrow> authenticator" where
  "newAuthenticator ReadFile cfg =
     (if cfg_AuthMode cfg = ''jwt-hs256'' then
        JWTAuthenticator \<lparr>ja_issuer = cfg_AuthJWTIssuer cfg, ja_audience = cfg_AuthJWTAudience cfg,
          ja_secrets = loadSecretValues ReadFile (cfg_AuthJWTSecretPaths cfg),
          ja_defaultQuota = cfg_DefaultQuota cfg\<rparr>
      else StaticAuthenticator)"

type_synonym authenticated = "identity \<times> tenant \<times> tenant_quota"

definition static_Authenticate :: "(string \<Rightarrow> string) \<Rightarrow> string \<Rightarrow> (goerr, 'r world, authenticated) eop" where
  "static_Authenticate HashToken token =
     bindE (Store_AuthenticateTenant (HashToken token)) (\<lambda>(tenant, quota).
     okE (\<lparr>id_Subject = tn_ID tenant, id_TenantID = tn_ID tenant, id_Roles = [''operator''], id_Scopes = [],
           id_ServiceAccountID = [], id_IsService = False, id_AuthMethod = ''static''\<rparr>, tenant, quota))"

definition provisioned_quota ::
  "(string \<Rightarrow> string) \<Rightarrow> tenant_quota \<Rightarrow> tenant \<Rightarrow> (goerr, 'r world, tenant_quota) eop" where
  "provisioned_quota HashToken defaultQuota tenant =
     tryE (Store_GetQuota (tn_ID tenant)) (\<lambda>result.
     case result of
       Inr quota \<Rightarrow> okE quota
     | Inl e \<Rightarrow>
         if e = ErrNotFound then
           thenE (Store_EnsureTenantQuota HashToken tenant defaultQuota (HashToken (''jwt:'' @ tn_ID tenant)))
             (Store_GetQuota (tn_ID tenant))
         else failE e)"

definition account_scope ::
  "string \<Rightarrow> string \<Rightarrow> string list \<Rightarrow> (goerr, 'r world, string list) eop" where
  "account_scope tenantID accountID scope =
     (if accountID = [] then okE scope
      else
        bindE (Store_GetServiceAccount accountID) (\<lambda>account.
        guardE (sa_TenantID account \<noteq> tenantID) (Err ''service account tenant mismatch'') (
        guardE (sa_Disabled account \<or> sa_RevokedAt account \<noteq> None) (Err ''service account revoked'') (
        bindE (case sa_ExpiresAt account of
                 None \<Rightarrow> okE False | Some t \<Rightarrow> bindE now_utc (\<lambda>now. okE (t < now))) (\<lambda>expired.
        guardE expired (Err ''service account expired'') (
        if scope = [] then okE (sa_Scopes account)
        else guardE (\<not> scopesSubset scope (sa_Scopes account))
               (Err ''service account scope exceeds registered scope'') (okE scope)))))))"

definition jwt_roles :: "jwt_claims \<Rightarrow> string list" where
  "jwt_roles claims =
     (if (jc_Service claims \<or> jc_ServiceAccountID claims \<noteq> []) \<and> jc_Roles claims = []
      then [''service-account''] else jc_Roles claims)"

definition jwt_Authenticate ::
  "(string \<Rightarrow> string) \<Rightarrow> jwt_parse \<Rightarrow> jwt_authenticator \<Rightarrow> string \<Rightarrow> (goerr, 'r world, authenticated) eop" where
  "jwt_Authenticate HashToken parse a token =
     bindE (liftE (ja_secrets a)) (\<lambda>secrets.
     bindE (liftE (parse_with_secrets parse (ja_issuer a) (ja_audience a) secrets token)) (\<lambda>claims.
     guardE (TrimSpace (jc_TenantID claims) = []) (Err ''jwt claim tenant_id is required'') (
     (let subject = (if jc_Subject claims = [] then jc_TenantID claims else jc_Subject claims);
          tenant = \<lparr>tn_ID = jc_TenantID claims, tn_Name = jc_TenantID claims, tn_TokenHash = [],
                    tn_CreatedAt = zero_time\<rparr>;
          serviceAccountID = TrimSpace (jc_ServiceAccountID claims) in
      bindE (provisioned_quota HashToken (ja_defaultQuota a) tenant) (\<lambda>quota.
      bindE (account_scope (jc_TenantID claims) serviceAccountID (jc_Scope claims)) (\<lambda>scope.
      okE (\<lparr>id_Subject = subject, id_TenantID = jc_TenantID claims, id_Roles = jwt_roles claims,
            id_Scopes = scope, id_ServiceAccountID = serviceAccountID,
            id_IsService = (jc_Service claims \<or> serviceAccountID \<noteq> []), id_AuthMethod = ''jwt-hs256''\<rparr>,
           tenant, quota)))))))"

definition Authenticate ::
  "(string \<Rightarrow> string) \<Rightarrow> jwt_parse \<Rightarrow> authenticator \<Rightarrow> string \<Rightarrow> (goerr, 'r world, authenticated) eop" where
  "Authenticate HashToken parse a token =
     (case a of
        StaticAuthenticator \<Rightarrow> static_Authenticate HashToken token
      | JWTAuthenticator j \<Rightarrow> jwt_Authenticate HashToken parse j token)"

section \<open>The middleware\<close>

definition isTunnelProxyPath :: "string \<Rightarrow> bool" where
  "isTunnelProxyPath path \<longleftrightarrow> HasPrefix path ''/v1/tunnels/'' \<and> Contains path ''/proxy''"

definition bearerToken :: "string \<Rightarrow> goerr + string" where
  "bearerToken header =
     (if header = [] then Inl (Err ''missing authorization header'')
      else case split_first (CHR '' '') header of
        (scheme, None) \<Rightarrow> Inl (Err ''invalid authorization header'')
      | (scheme, Some rest) \<Rightarrow>
          if \<not> EqualFold scheme ''Bearer'' \<or> TrimSpace rest = [] then Inl (Err ''invalid authorization header'')
          else Inr (TrimSpace rest))"

text \<open>
  The limiters by tenant, each with the instant it was last used. \<open>fresh\<close> is a new token bucket of the
  configured rate and burst, \<open>Allow\<close> takes a token at an instant when there is one.
\<close>

record 'l limiter_entry =
  le_limiter :: 'l
  le_lastSeen :: int

record 'l middleware =
  mw_limiters :: "string \<Rightarrow> 'l limiter_entry option"
  mw_lastPrune :: int

definition Prune :: "int \<Rightarrow> int \<Rightarrow> (string \<Rightarrow> 'l limiter_entry option) \<Rightarrow> (string \<Rightarrow> 'l limiter_entry option)" where
  "Prune now olderThan limiters =
     (if olderThan \<le> 0 then limiters
      else (\<lambda>key. case limiters key of
              None \<Rightarrow> None
            | Some entry \<Rightarrow> if le_lastSeen entry < now - olderThan then None else Some entry))"

definition maybePrune :: "int \<Rightarrow> int \<Rightarrow> 'l middleware \<Rightarrow> 'l middleware" where
  "maybePrune nowUnixNano later m =
     (if mw_lastPrune m \<noteq> 0 \<and> nowUnixNano - mw_lastPrune m < 300000000000 then m
      else m\<lparr>mw_lastPrune := nowUnixNano, mw_limiters := Prune later 900000000000 (mw_limiters m)\<rparr>)"

definition limiterFor :: "'l \<Rightarrow> int \<Rightarrow> int \<Rightarrow> string \<Rightarrow> 'l middleware \<Rightarrow> 'l \<times> 'l middleware" where
  "limiterFor fresh now later tenantID m =
     (let limiter = (case mw_limiters m tenantID of Some entry \<Rightarrow> le_limiter entry | None \<Rightarrow> fresh) in
      (limiter, maybePrune now later (m\<lparr>mw_limiters := (mw_limiters m)(tenantID \<mapsto>
         \<lparr>le_limiter = limiter, le_lastSeen = now\<rparr>)\<rparr>)))"

definition store_limiter :: "string \<Rightarrow> 'l \<Rightarrow> 'l middleware \<Rightarrow> 'l middleware" where
  "store_limiter tenantID l m =
     m\<lparr>mw_limiters := (mw_limiters m)(tenantID := map_option (\<lambda>e. e\<lparr>le_limiter := l\<rparr>) (mw_limiters m tenantID))\<rparr>"

datatype admitted = Rejected int | Admitted "tenant_context option"

definition Wrap ::
  "(string \<Rightarrow> (goerr, 'r world, authenticated) eop) \<Rightarrow> 'l \<Rightarrow> (int \<Rightarrow> 'l \<Rightarrow> bool \<times> 'l) \<Rightarrow> string \<Rightarrow> string \<Rightarrow>
   'l middleware \<times> 'r world \<Rightarrow> admitted \<times> 'l middleware \<times> 'r world" where
  "Wrap authenticate fresh Allow path header = (\<lambda>(m, w).
     if path = ''/healthz'' then (Admitted None, m, w)
     else case bearerToken header of
       Inl e \<Rightarrow> if isTunnelProxyPath path then (Admitted None, m, w) else (Rejected 401, m, w)
     | Inr token \<Rightarrow>
         (case authenticate token w of
            (Inl e, w1) \<Rightarrow> (Rejected 401, m, w1)
          | (Inr (who, tenant, quota), w1) \<Rightarrow>
              (let now = w_clock w1 0; later = w_clock w1 1; w2 = w1\<lparr>w_clock := (\<lambda>n. w_clock w1 (n + 3))\<rparr>;
                   (limiter, m1) = limiterFor fresh now later (tn_ID tenant) m;
                   (allowed, limiter') = Allow (w_clock w1 2) limiter;
                   m2 = store_limiter (tn_ID tenant) limiter' m1 in
               if \<not> allowed then (Rejected 429, m2, w2)
               else (Admitted (Some \<lparr>tc_Tenant = tenant, tc_Quota = quota, tc_Identity = who\<rparr>), m2, w2))))"

section \<open>What an identity may do\<close>

lemma rolePermissions_known: "set (rolePermissions role) \<subseteq> set AllPermissions"
  by (auto simp: rolePermissions_def AllPermissions_def tenant_permissions_def split: if_splits)

lemma rolePermissions_admin:
  "PermissionAdminInspect \<in> set (rolePermissions role) \<Longrightarrow> role \<in> {''operator'', ''service-account'', ''service''}"
  by (simp add: rolePermissions_def tenant_permissions_def split: if_splits)

lemma rolePermissions_viewer:
  "role \<in> {''tenant-viewer'', ''viewer''} \<Longrightarrow> set (rolePermissions role) =
     {PermissionSandboxRead, PermissionFilesRead, PermissionSnapshotsRead, PermissionTunnelsRead}"
  by (auto simp: rolePermissions_def)

text \<open>
  Permissions never exceed roles and scopes. A permission an identity has is one of the known ones and
  granted by one of its roles; a service identity with scopes has it only when a scope names it; the
  administrative permission needs an operator or service role; and an identity whose roles are all
  viewer roles has nothing but the four read permissions.
\<close>

theorem HasPermission_bounded:
  assumes "HasPermission t p"
  shows "p \<in> set AllPermissions \<and>
    (id_IsService (tc_Identity t) \<and> id_Scopes (tc_Identity t) \<noteq> [] \<longrightarrow>
       (\<exists>scope \<in> set (id_Scopes (tc_Identity t)). EqualFold (TrimSpace scope) p)) \<and>
    (p = PermissionAdminInspect \<longrightarrow> (\<exists>r \<in> set (id_Roles (tc_Identity t)).
       ToLower (TrimSpace r) \<in> {''operator'', ''service-account'', ''service''})) \<and>
    ((\<forall>r \<in> set (id_Roles (tc_Identity t)). ToLower (TrimSpace r) \<in> {''tenant-viewer'', ''viewer''}) \<longrightarrow>
       p \<in> {PermissionSandboxRead, PermissionFilesRead, PermissionSnapshotsRead, PermissionTunnelsRead})"
proof -
  from assms obtain r where r: "r \<in> set (id_Roles (tc_Identity t))" "p \<in> set (rolePermissions (ToLower (TrimSpace r)))"
    by (auto simp: HasPermission_def Let_def)
  have "p \<in> set AllPermissions" using r(2) rolePermissions_known by blast
  moreover have "p = PermissionAdminInspect \<longrightarrow> (\<exists>r \<in> set (id_Roles (tc_Identity t)).
       ToLower (TrimSpace r) \<in> {''operator'', ''service-account'', ''service''})"
    using r rolePermissions_admin by blast
  moreover have "p \<in> {PermissionSandboxRead, PermissionFilesRead, PermissionSnapshotsRead, PermissionTunnelsRead}"
    if "\<forall>r \<in> set (id_Roles (tc_Identity t)). ToLower (TrimSpace r) \<in> {''tenant-viewer'', ''viewer''}"
    using that r rolePermissions_viewer by blast
  ultimately show ?thesis
    using assms by (auto simp: HasPermission_def Let_def containsPermission_def)
qed

definition scoped_context :: tenant_context where
  "scoped_context = \<lparr>tc_Tenant = \<lparr>tn_ID = ''acme'', tn_Name = ''Acme'', tn_TokenHash = [], tn_CreatedAt = 0\<rparr>,
     tc_Quota = \<lparr>q_TenantID = ''acme'', q_MaxSandboxes = 2, q_MaxRunningSandboxes = 1,
       q_MaxConcurrentExecs = 2, q_MaxTunnels = 1, q_MaxCPUCores = 4000, q_MaxMemoryMB = 4096,
       q_MaxStorageMB = 10240, q_AllowTunnels = True, q_DefaultTunnelAuthMode = ''token'',
       q_DefaultTunnelVisibility = ''private''\<rparr>,
     tc_Identity = \<lparr>id_Subject = ''ci'', id_TenantID = ''acme'', id_Roles = ['' Viewer''], id_Scopes = [''Sandbox.Read ''],
       id_ServiceAccountID = ''ci'', id_IsService = True, id_AuthMethod = ''jwt-hs256''\<rparr>\<rparr>"

section \<open>What an authentication establishes\<close>

lemma parse_with_secrets_Inr:
  assumes "parse_with_secrets parse iss aud secrets token = Inr claims"
  obtains secret where "secret \<in> set secrets" and "parse iss aud (hs256_key secret) token = Inr claims"
  using assms by (induction parse iss aud secrets token rule: parse_with_secrets.induct)
    (auto split: sum.splits)

lemma GetQuota_Inr: "Store_GetQuota t w = (Inr q, w') \<Longrightarrow> q_TenantID q = t"
  by (auto simp: Store_GetQuota_def sql_query_def quota_of_def Let_def dest!: find_row_Some_set
      split: if_splits option.splits)

lemma provisioned_quota_Inr:
  assumes "provisioned_quota hash def tenant w = (Inr q, w')"
  shows "q_TenantID q = tn_ID tenant"
  using assms
  by (auto simp: provisioned_quota_def tryE_def thenE_def bindE_def dest: GetQuota_Inr
      split: prod.splits sum.splits if_splits)

lemma provisioned_accounts:
  "provisioned_quota hash def tenant w = (r, w') \<Longrightarrow> db_service_accounts (w_db w') = db_service_accounts (w_db w)"
  by (auto simp: provisioned_quota_def tryE_def thenE_def bindE_def Store_GetQuota_def sql_query_def Let_def
      Store_EnsureTenantQuota_def now_utc_def WithTx_def sql_exec_def ensure_tenant_def ensure_quota_def insert_row_def
      split: prod.splits sum.splits if_splits option.splits)

definition account_valid :: "string \<Rightarrow> string list \<Rightarrow> service_account \<Rightarrow> bool" where
  "account_valid tenantID scope a \<longleftrightarrow> sa_TenantID a = tenantID \<and> \<not> sa_Disabled a \<and> sa_RevokedAt a = None \<and>
     scopesSubset scope (sa_Scopes a)"

lemma account_scope_Inr:
  assumes "account_scope t acc scope w = (Inr scope', w')" and "acc \<noteq> []"
  shows "\<exists>a \<in> set (db_service_accounts (w_db w)). sa_ID a = acc \<and> account_valid t scope' a"
proof -
  from assms obtain a w1 where "Store_GetServiceAccount acc w = (Inr a, w1)"
    and v: "sa_TenantID a = t \<and> \<not> sa_Disabled a \<and> sa_RevokedAt a = None \<and> scopesSubset scope' (sa_Scopes a)"
    by (auto simp: account_scope_def scopesSubset_def elim!: bindE_InrE dest!: guardE_InrD split: if_splits)
  then have "a \<in> set (db_service_accounts (w_db w)) \<and> sa_ID a = acc"
    by (auto simp: Store_GetServiceAccount_def sql_query_def Let_def not_found_or_def dest!: find_row_Some_set
        split: if_splits option.splits)
  with v show ?thesis by (auto simp: account_valid_def)
qed

text \<open>
  C13: a JWT is accepted only when it is signed with HS256 under one of the loaded secrets and addressed to
  the configured issuer and audience; the caller then acts for the tenant its claims name, never for the
  empty one, with that tenant's quota, and a caller that presents a service account does so only when the
  account is registered for the same tenant, neither disabled nor revoked, and covers every scope the
  caller ends up with.
\<close>

theorem jwt_authenticate_sound:
  assumes "jwt_documented token_alg signed_under addressed parse"
    and "jwt_Authenticate hash parse a token w = (Inr (who, tenant, quota), w')"
  shows "token_alg token = ''HS256'' \<and>
    (\<exists>secrets. ja_secrets a = Inr secrets \<and> (\<exists>secret \<in> set secrets. signed_under ''HS256'' secret token)) \<and>
    addressed (ja_issuer a) (ja_audience a) token \<and>
    tn_ID tenant = id_TenantID who \<and> q_TenantID quota = id_TenantID who \<and> TrimSpace (id_TenantID who) \<noteq> [] \<and>
    (id_ServiceAccountID who \<noteq> [] \<longrightarrow> (\<exists>acc \<in> set (db_service_accounts (w_db w)).
       sa_ID acc = id_ServiceAccountID who \<and> account_valid (id_TenantID who) (id_Scopes who) acc))"
proof -
  from assms(2) obtain secrets claims w2 where s: "ja_secrets a = Inr secrets"
    and p: "parse_with_secrets parse (ja_issuer a) (ja_audience a) secrets token = Inr claims"
    and t: "TrimSpace (jc_TenantID claims) \<noteq> []" "tn_ID tenant = jc_TenantID claims" "id_TenantID who = jc_TenantID claims"
    and q: "provisioned_quota hash (ja_defaultQuota a) tenant w = (Inr quota, w2)"
    and ac: "account_scope (jc_TenantID claims) (id_ServiceAccountID who) (jc_Scope claims) w2 = (Inr (id_Scopes who), w')"
    unfolding jwt_Authenticate_def Let_def
    by (elim bindE_InrE) (clarsimp dest!: guardE_InrD elim!: bindE_InrE)
  obtain secret where sec: "secret \<in> set secrets" and k: "parse (ja_issuer a) (ja_audience a) (hs256_key secret) token = Inr claims"
    using p by (rule parse_with_secrets_Inr)
  from assms(1) k obtain key where "hs256_key secret (token_alg token) = Inr key"
    "signed_under (token_alg token) key token" and ad: "addressed (ja_issuer a) (ja_audience a) token"
    unfolding jwt_documented_def by blast
  then have hs: "token_alg token = ''HS256''" "signed_under ''HS256'' secret token"
    by (auto simp: hs256_key_def split: if_splits)
  have "q_TenantID quota = id_TenantID who" using provisioned_quota_Inr [OF q] t by simp
  moreover have "\<exists>acc \<in> set (db_service_accounts (w_db w)). sa_ID acc = id_ServiceAccountID who \<and>
      account_valid (id_TenantID who) (id_Scopes who) acc" if "id_ServiceAccountID who \<noteq> []"
    using account_scope_Inr [OF ac that] t(3) provisioned_accounts [OF q] by simp
  ultimately show ?thesis using s sec hs ad t by auto
qed

text \<open>A toy token format: the key followed by a mark, accepted for one issuer and audience.\<close>

definition toy_claims :: jwt_claims where
  "toy_claims = \<lparr>jc_TenantID = ''acme'', jc_Roles = [], jc_ServiceAccountID = ''ci'', jc_Scope = [],
     jc_Service = True, jc_Subject = []\<rparr>"

definition toy_parse :: jwt_parse where
  "toy_parse iss aud keyfunc token =
     (case keyfunc ''HS256'' of
        Inl e \<Rightarrow> Inl e
      | Inr key \<Rightarrow> if token = key @ ''.sig'' \<and> iss = ''or3'' \<and> aud = ''api'' then Inr toy_claims else Inl (Err ''invalid''))"

lemma toy_parse_documented:
  "jwt_documented (\<lambda>_. ''HS256'') (\<lambda>alg key token. token = key @ ''.sig'') (\<lambda>iss aud token. iss = ''or3'' \<and> aud = ''api'') toy_parse"
  by (auto simp: jwt_documented_def toy_parse_def split: sum.splits if_splits)

definition toy_authenticator :: jwt_authenticator where
  "toy_authenticator = \<lparr>ja_issuer = ''or3'', ja_audience = ''api'', ja_secrets = Inr [''old'', ''new''],
     ja_defaultQuota = tc_Quota scoped_context\<rparr>"

definition account_world :: "unit world" where
  "account_world = \<lparr>w_db = empty_db\<lparr>db_service_accounts := [\<lparr>sa_ID = ''ci'', sa_TenantID = ''acme'', sa_Name = ''CI'',
       sa_Scopes = [''exec.run''], sa_Disabled = False, sa_ExpiresAt = Some 9, sa_CreatedAt = 1, sa_RevokedAt = None\<rparr>]\<rparr>,
     w_rt = (), w_fs = [], w_clock = (\<lambda>n. int n), w_rand = (\<lambda>n. fmt_nat n), w_dbfault = (\<lambda>_. False), w_osfault = (\<lambda>_. None)\<rparr>"

theorem jwt_authenticate_sound_witness:
  "\<exists>who tenant quota w'. jwt_Authenticate (\<lambda>x. x) toy_parse toy_authenticator ''new.sig'' account_world = (Inr (who, tenant, quota), w') \<and>
     (\<exists>secret \<in> {''old'', ''new''}. ''new.sig'' = secret @ ''.sig'') \<and> q_TenantID quota = id_TenantID who \<and>
     (\<exists>acc \<in> set (db_service_accounts (w_db account_world)). account_valid (id_TenantID who) (id_Scopes who) acc)"
proof -
  let ?run = "jwt_Authenticate (\<lambda>x. x) toy_parse toy_authenticator ''new.sig'' account_world"
  have "case fst ?run of Inl e \<Rightarrow> False | Inr (who, tenant, quota) \<Rightarrow> id_ServiceAccountID who \<noteq> []" by code_simp
  then obtain who tenant quota where run: "?run = (Inr (who, tenant, quota), snd ?run)" and "id_ServiceAccountID who \<noteq> []"
    by (cases ?run) (auto split: sum.splits)
  moreover have "ja_secrets toy_authenticator = Inr [''old'', ''new'']" by (simp add: toy_authenticator_def)
  ultimately show ?thesis
    using jwt_authenticate_sound [OF toy_parse_documented run] by (intro exI conjI) (assumption | auto)+
qed

section \<open>What the middleware lets through\<close>

text \<open>
  C14: the middleware admits a request without an identity only for the health check and for paths of the
  tunnel proxy, and then changes nothing; every other request it admits carries the identity, tenant and
  quota that its own bearer token authenticated.
\<close>

theorem Wrap_authenticates:
  assumes "Wrap authenticate fresh Allow path header (m, w) = (Admitted ctx, m', w')"
  shows "(ctx = None \<longrightarrow> (path = ''/healthz'' \<or> isTunnelProxyPath path) \<and> m' = m \<and> w' = w) \<and>
    (\<forall>c. ctx = Some c \<longrightarrow> (\<exists>token w1. bearerToken header = Inr token \<and>
       authenticate token w = (Inr (tc_Identity c, tc_Tenant c, tc_Quota c), w1) \<and> w_db w' = w_db w1))"
  using assms by (auto simp: Wrap_def Let_def split: if_splits sum.splits prod.splits)

theorem Wrap_authenticates_witness:
  "\<exists>c w' m'. Wrap (static_Authenticate (\<lambda>x. x)) (3::nat) (\<lambda>_ n. (0 < n, n - 1)) ''/v1/sandboxes'' ''bearer  h1''
     (\<lparr>mw_limiters = Map.empty, mw_lastPrune = 0\<rparr>, account_world\<lparr>w_db := empty_db\<lparr>db_tenants :=
        [\<lparr>tn_ID = ''acme'', tn_Name = ''Acme'', tn_TokenHash = ''h1'', tn_CreatedAt = 0\<rparr>],
        db_quotas := [tc_Quota scoped_context]\<rparr>\<rparr>) = (Admitted (Some c), m', w') \<and>
     bearerToken ''bearer  h1'' = Inr ''h1'' \<and> tn_ID (tc_Tenant c) = ''acme''"
proof -
  let ?w = "account_world\<lparr>w_db := empty_db\<lparr>db_tenants :=
        [\<lparr>tn_ID = ''acme'', tn_Name = ''Acme'', tn_TokenHash = ''h1'', tn_CreatedAt = 0\<rparr>],
        db_quotas := [tc_Quota scoped_context]\<rparr>\<rparr>"
  let ?m = "\<lparr>mw_limiters = Map.empty, mw_lastPrune = 0\<rparr> :: nat middleware"
  let ?run = "Wrap (static_Authenticate (\<lambda>x. x)) (3::nat) (\<lambda>_ n. (0 < n, n - 1)) ''/v1/sandboxes'' ''bearer  h1'' (?m, ?w)"
  have b: "bearerToken ''bearer  h1'' = Inr ''h1''" by code_simp
  have "case fst ?run of Rejected s \<Rightarrow> False | Admitted None \<Rightarrow> False | Admitted (Some c) \<Rightarrow> tn_ID (tc_Tenant c) = ''acme''" by code_simp
  then obtain c where c: "?run = (Admitted (Some c), snd ?run)" "tn_ID (tc_Tenant c) = ''acme''"
    by (cases ?run) (auto split: admitted.splits option.splits)
  obtain m' w' where "snd ?run = (m', w')" by force
  with c have "?run = (Admitted (Some c), m', w')" by simp
  from Wrap_authenticates [OF this] this b c(2) show ?thesis by blast
qed

lemma limiterFor_others:
  assumes "limiterFor fresh now later t m = (l, m')" and "u \<noteq> t"
  shows "mw_limiters m' u = mw_limiters m u \<or>
    mw_limiters m' u = None \<and> (\<exists>e. mw_limiters m u = Some e \<and> le_lastSeen e < later - 900000000000)"
  using assms by (auto simp: limiterFor_def Let_def maybePrune_def Prune_def split: if_splits option.splits)

text \<open>
  The rate limit is per tenant. An authenticated request is turned away exactly when its own tenant's
  bucket has no token at that instant; the bucket of every other tenant is left alone, or dropped when
  that tenant has been idle for more than fifteen minutes.
\<close>

theorem rate_limit_per_tenant:
  assumes "path \<noteq> ''/healthz''" and "bearerToken header = Inr token"
    and "authenticate token w = (Inr (who, tenant, quota), w1)"
    and "Wrap authenticate fresh Allow path header (m, w) = (outcome, m', w')"
  shows "(outcome = Rejected 429 \<longleftrightarrow> \<not> fst (Allow (w_clock w1 2)
       (case mw_limiters m (tn_ID tenant) of Some e \<Rightarrow> le_limiter e | None \<Rightarrow> fresh))) \<and>
    (u \<noteq> tn_ID tenant \<longrightarrow> mw_limiters m' u = mw_limiters m u \<or> mw_limiters m' u = None \<and>
       (\<exists>e. mw_limiters m u = Some e \<and> le_lastSeen e < w_clock w1 1 - 900000000000))"
proof -
  let ?t = "tn_ID tenant"
  obtain l m1 where l: "limiterFor fresh (w_clock w1 0) (w_clock w1 1) ?t m = (l, m1)" by force
  obtain ok l' where a: "Allow (w_clock w1 2) l = (ok, l')" by force
  have b: "l = (case mw_limiters m ?t of Some e \<Rightarrow> le_limiter e | None \<Rightarrow> fresh)"
    using l by (simp add: limiterFor_def Let_def)
  have o: "(outcome = Rejected 429 \<longleftrightarrow> \<not> ok) \<and> m' = store_limiter ?t l' m1"
    using assms l a by (auto simp: Wrap_def Let_def split: if_splits)
  have "mw_limiters m' u = mw_limiters m1 u" if "u \<noteq> ?t" using o that by (simp add: store_limiter_def)
  with o a b limiterFor_others [OF l, of u] show ?thesis by auto
qed

end
