(* ===== verification/GoUrl.thy ===== *)
theory GoUrl
  imports GoStrings
begin

text \<open>
  What the program uses of Go's \<open>net/url\<close> on request targets: percent-decoding and encoding in the path
  and query modes, \<open>ParseRequestURI\<close> of an absolute path, \<open>EscapedPath\<close>, \<open>Query\<close> and \<open>Values.Encode\<close>. A
  \<open>url.Values\<close> is kept as the list of its pairs in order of appearance: the program only looks values
  up by key, removes keys and encodes, and \<open>Encode\<close> sorts by key and keeps the order below a key. The
  library's cap of ten thousand parameters per query is not modelled.
\<close>

section \<open>Percent encoding\<close>

datatype encoding = EncodePath | EncodeQueryComponent

definition is_alnum :: "char \<Rightarrow> bool" where
  "is_alnum c \<longleftrightarrow> (let n = (of_char c :: nat) in
     48 \<le> n \<and> n \<le> 57 \<or> 65 \<le> n \<and> n \<le> 90 \<or> 97 \<le> n \<and> n \<le> 122)"

definition shouldEscape :: "encoding \<Rightarrow> char \<Rightarrow> bool" where
  "shouldEscape mode c =
     (if is_alnum c \<or> c \<in> set ''-_.~'' then False
      else if c \<in> set ''$&+,/:;=?@'' then (case mode of EncodePath \<Rightarrow> c = CHR ''?'' | EncodeQueryComponent \<Rightarrow> True)
      else True)"

definition hex_char :: "nat \<Rightarrow> char" where "hex_char n = ''0123456789ABCDEF'' ! n"

definition unhex :: "char \<Rightarrow> nat option" where
  "unhex c = map_of (zip ''0123456789abcdefABCDEF'' ([0 ..< 16] @ [10 ..< 16])) c"

definition escape_byte :: "encoding \<Rightarrow> char \<Rightarrow> string" where
  "escape_byte mode c =
     (if \<not> shouldEscape mode c then [c]
      else if c = CHR '' '' \<and> mode = EncodeQueryComponent then ''+''
      else [CHR ''%'', hex_char (of_char c div 16), hex_char (of_char c mod 16)])"

definition url_escape :: "encoding \<Rightarrow> string \<Rightarrow> string" where
  "url_escape mode s = concat (map (escape_byte mode) s)"

fun url_unescape :: "encoding \<Rightarrow> string \<Rightarrow> string option" where
  "url_unescape mode [] = Some []"
| "url_unescape mode (c # cs) =
     (if c = CHR ''%'' then
        (case cs of
           x # y # rest \<Rightarrow>
             (case (unhex x, unhex y) of
                (Some a, Some b) \<Rightarrow> map_option ((#) (char_of (16 * a + b))) (url_unescape mode rest)
              | _ \<Rightarrow> None)
         | _ \<Rightarrow> None)
      else map_option ((#) (if c = CHR ''+'' \<and> mode = EncodeQueryComponent then CHR '' '' else c))
             (url_unescape mode cs))"

section \<open>Paths\<close>

record url_path =
  up_Path :: string
  up_RawPath :: string

definition setPath :: "string \<Rightarrow> url_path option" where
  "setPath p =
     map_option (\<lambda>path. \<lparr>up_Path = path, up_RawPath = (if p = url_escape EncodePath path then [] else p)\<rparr>)
       (url_unescape EncodePath p)"

definition validEncoded :: "string \<Rightarrow> bool" where
  "validEncoded s \<longleftrightarrow> (\<forall>c \<in> set s. c \<in> set (CHR 0x27 # ''!$&()*+,;=:@[]%'') \<or> \<not> shouldEscape EncodePath c)"

definition EscapedPath :: "url_path \<Rightarrow> string" where
  "EscapedPath u =
     (if up_RawPath u \<noteq> [] \<and> validEncoded (up_RawPath u) \<and> url_unescape EncodePath (up_RawPath u) = Some (up_Path u)
      then up_RawPath u
      else if up_Path u = ''*'' then ''*''
      else url_escape EncodePath (up_Path u))"

section \<open>Queries\<close>

type_synonym url_values = "(string \<times> string) list"

definition query_pair :: "string \<Rightarrow> (string \<times> string) option" where
  "query_pair s =
     (if CHR '';'' \<in> set s \<or> s = [] then None
      else (let (key, rest) = split_first (CHR ''='') s in
            case (url_unescape EncodeQueryComponent key,
                  url_unescape EncodeQueryComponent (case rest of None \<Rightarrow> [] | Some v \<Rightarrow> v)) of
              (Some k, Some v) \<Rightarrow> Some (k, v)
            | _ \<Rightarrow> None))"

definition parseQuery :: "string \<Rightarrow> url_values" where
  "parseQuery q = List.map_filter query_pair (split_on (CHR ''&'') q)"

definition pair_text :: "string \<times> string \<Rightarrow> string" where
  "pair_text kv = url_escape EncodeQueryComponent (fst kv) @ ''='' @ url_escape EncodeQueryComponent (snd kv)"

definition Values_Encode :: "url_values \<Rightarrow> string" where
  "Values_Encode vs = join_with ''&'' (map pair_text (sort_key fst vs))"

definition Values_Get :: "url_values \<Rightarrow> string \<Rightarrow> string" where
  "Values_Get vs key = (case find_row (\<lambda>kv. fst kv = key) vs of None \<Rightarrow> [] | Some kv \<Rightarrow> snd kv)"

section \<open>Request targets\<close>

record url =
  url_path :: url_path
  url_RawQuery :: string

definition is_control :: "char \<Rightarrow> bool" where
  "is_control c \<longleftrightarrow> (of_char c :: nat) < 32 \<or> c = CHR 0x7F"

text \<open>
  \<open>ParseRequestURI\<close> of a text that starts with a slash. Any other text either fails to parse or has a
  scheme, a host or a path that does not start with a slash, and the program treats all of these alike.
\<close>

definition ParseRequestURI :: "string \<Rightarrow> url option" where
  "ParseRequestURI s =
     (if \<not> HasPrefix s ''/'' \<or> (\<exists>c \<in> set s. is_control c) then None
      else (let (path, query) = split_first (CHR ''?'') s in
            map_option (\<lambda>u. \<lparr>url_path = u, url_RawQuery = (case query of None \<Rightarrow> [] | Some q \<Rightarrow> q)\<rparr>)
              (setPath path)))"

definition url_Query :: "url \<Rightarrow> url_values" where
  "url_Query u = parseQuery (url_RawQuery u)"

section \<open>Decoding what was encoded\<close>

lemma unhex_hex_char [simp]: "n < 16 \<Longrightarrow> unhex (hex_char n) = Some n"
proof -
  have "\<forall>n \<in> set [0 ..< 16]. unhex (hex_char n) = Some n" by code_simp
  then show "n < 16 \<Longrightarrow> unhex (hex_char n) = Some n" by simp
qed

lemma hex_char_alnum: "n < 16 \<Longrightarrow> is_alnum (hex_char n)"
proof -
  have "\<forall>n \<in> set [0 ..< 16]. is_alnum (hex_char n)" by code_simp
  then show "n < 16 \<Longrightarrow> is_alnum (hex_char n)" by simp
qed

lemma byte_lt [simp]: "(of_char c :: nat) < 256"
  by simp

lemma unescape_escape_byte:
  "url_unescape mode (escape_byte mode c @ t) = map_option ((#) c) (url_unescape mode t)"
proof (cases "shouldEscape mode c")
  case False
  then have "c \<noteq> CHR ''%''" and "c = CHR ''+'' \<longrightarrow> mode = EncodePath"
    by (auto simp: shouldEscape_def is_alnum_def split: encoding.splits if_splits)
  with False show ?thesis by (auto simp: escape_byte_def)
next
  case True
  have "char_of (16 * (of_char c div 16) + of_char c mod 16 :: nat) = c" by simp
  moreover have "(of_char c :: nat) div 16 < 16" using byte_lt [of c] by (simp add: less_mult_imp_div_less)
  ultimately show ?thesis using True by (auto simp: escape_byte_def)
qed

lemma unescape_escape [simp]: "url_unescape mode (url_escape mode s) = Some s"
  by (induction s) (simp_all add: url_escape_def unescape_escape_byte)

lemma escape_chars_of:
  assumes "x \<in> set (url_escape mode s)"
  shows "x = CHR ''%'' \<or> x = CHR ''+'' \<or> \<not> shouldEscape mode x"
proof -
  from assms obtain c where "x \<in> set (escape_byte mode c)" by (auto simp: url_escape_def)
  moreover have "\<not> shouldEscape mode (hex_char n)" if "n < 16" for n
    using hex_char_alnum [OF that] by (simp add: shouldEscape_def)
  moreover have "(of_char c :: nat) div 16 < 16" using byte_lt [of c] by (simp add: less_mult_imp_div_less)
  ultimately show ?thesis by (auto simp: escape_byte_def split: if_splits)
qed

lemma escape_path_slash [simp]: "url_escape EncodePath (CHR ''/'' # s) = CHR ''/'' # url_escape EncodePath s"
  by (simp add: url_escape_def escape_byte_def shouldEscape_def is_alnum_def)

text \<open>An escaped path has no question mark, no white space and no control character.\<close>

definition path_char :: "char \<Rightarrow> bool" where
  "path_char c \<longleftrightarrow> c \<noteq> CHR ''?'' \<and> \<not> is_space c \<and> \<not> is_control c"

lemma shouldEscape_special:
  "shouldEscape mode (CHR '' '')" "shouldEscape EncodePath (CHR ''?'')"
  "shouldEscape EncodeQueryComponent (CHR ''&'')" "shouldEscape EncodeQueryComponent (CHR ''='')"
  "shouldEscape EncodeQueryComponent (CHR '';'')" "shouldEscape EncodeQueryComponent (CHR ''?'')"
  by (simp_all add: shouldEscape_def is_alnum_def)

lemma control_escaped: "is_control c \<or> is_space c \<Longrightarrow> shouldEscape mode c"
proof -
  assume c: "is_control c \<or> is_space c"
  have "list_all (\<lambda>c. \<not> is_control c \<and> \<not> is_space c) (''-_.~'' @ ''$&+,/:;=?@'')" by code_simp
  then have "c \<notin> set (''-_.~'' @ ''$&+,/:;=?@'')" using c unfolding list_all_iff by blast
  moreover have "\<not> is_alnum c" using c by (auto simp: is_control_def is_space_def is_alnum_def Let_def)
  ultimately show ?thesis unfolding shouldEscape_def set_append by simp
qed

lemma path_charI: "\<not> shouldEscape EncodePath c \<or> c \<in> set (CHR 0x27 # ''!$&()*+,;=:@[]%'') \<Longrightarrow> path_char c"
proof -
  have "list_all path_char (CHR 0x27 # ''!$&()*+,;=:@[]%'')" by code_simp
  then have "path_char c" if "c \<in> set (CHR 0x27 # ''!$&()*+,;=:@[]%'')" using that unfolding list_all_iff by blast
  moreover have "path_char c" if "\<not> shouldEscape EncodePath c"
    using that control_escaped shouldEscape_special(2) unfolding path_char_def by metis
  ultimately show "\<not> shouldEscape EncodePath c \<or> c \<in> set (CHR 0x27 # ''!$&()*+,;=:@[]%'') \<Longrightarrow> path_char c" by blast
qed

lemma EscapedPath_chars: "c \<in> set (EscapedPath u) \<Longrightarrow> path_char c"
proof (cases "up_RawPath u \<noteq> [] \<and> validEncoded (up_RawPath u) \<and> url_unescape EncodePath (up_RawPath u) = Some (up_Path u)")
  case True
  assume "c \<in> set (EscapedPath u)"
  then have "c \<in> set (up_RawPath u)" unfolding EscapedPath_def if_P [OF True] .
  with True show "path_char c" unfolding validEncoded_def by (intro path_charI) blast
next
  case False
  assume "c \<in> set (EscapedPath u)"
  with False have "c = CHR ''*'' \<or> c \<in> set (url_escape EncodePath (up_Path u))"
    by (auto simp: EscapedPath_def split: if_splits)
  then have "c \<in> set ''*%+'' \<or> \<not> shouldEscape EncodePath c" using escape_chars_of [of c EncodePath] by auto
  moreover have "list_all path_char ''*%+''" by code_simp
  ultimately show "path_char c" unfolding list_all_iff using path_charI [of c] by blast
qed

lemma setPath_EscapedPath:
  assumes "setPath p = Some u" and "up_Path u \<noteq> ''*''"
  shows "\<exists>u'. setPath (EscapedPath u) = Some u' \<and> EscapedPath u' = EscapedPath u"
proof -
  have e: "url_unescape EncodePath (EscapedPath u) = Some (up_Path u)"
    using assms by (auto simp: EscapedPath_def)
  let ?u = "\<lparr>up_Path = up_Path u, up_RawPath = (if EscapedPath u = url_escape EncodePath (up_Path u) then [] else EscapedPath u)\<rparr>"
  have "setPath (EscapedPath u) = Some ?u" by (simp add: setPath_def e)
  moreover have "EscapedPath ?u = EscapedPath u"
  proof (cases "EscapedPath u = url_escape EncodePath (up_Path u)")
    case True
    moreover have "EscapedPath \<lparr>up_Path = up_Path u, up_RawPath = []\<rparr> = url_escape EncodePath (up_Path u)"
      using assms(2) by (simp add: EscapedPath_def)
    ultimately show ?thesis by simp
  next
    case False
    then have "up_RawPath u \<noteq> [] \<and> validEncoded (up_RawPath u) \<and> url_unescape EncodePath (up_RawPath u) = Some (up_Path u)"
      "EscapedPath u = up_RawPath u"
      using assms(2) by (auto simp: EscapedPath_def split: if_splits)
    moreover from this have "EscapedPath \<lparr>up_Path = up_Path u, up_RawPath = up_RawPath u\<rparr> = up_RawPath u"
      by (simp add: EscapedPath_def)
    ultimately show ?thesis using False by simp
  qed
  ultimately show ?thesis by blast
qed

lemma setPath_slash:
  assumes "setPath p = Some u" and "HasPrefix p ''/''"
  shows "HasPrefix (EscapedPath u) ''/''" "up_Path u \<noteq> ''*''"
proof -
  from assms(2) obtain r where p: "p = CHR ''/'' # r" by (auto simp: HasPrefix_iff)
  with assms(1) obtain q where q: "up_Path u = CHR ''/'' # q" by (auto simp: setPath_def)
  then show "up_Path u \<noteq> ''*''" by simp
  have "up_RawPath u = [] \<or> up_RawPath u = p" using assms(1) by (auto simp: setPath_def)
  with p q show "HasPrefix (EscapedPath u) ''/''" by (auto simp: EscapedPath_def HasPrefix_def)
qed

section \<open>Queries read back\<close>

lemma escape_query_chars:
  "x \<in> set (url_escape EncodeQueryComponent s) \<Longrightarrow> x \<notin> set ''&=;? '' \<and> \<not> is_control x \<and> \<not> is_space x"
  using escape_chars_of [of x EncodeQueryComponent s] shouldEscape_special control_escaped [of x EncodeQueryComponent]
  by (auto simp: is_control_def is_space_def)

lemma split_first_append: "c \<notin> set a \<Longrightarrow> split_first c (a @ c # b) = (a, Some b)"
  by (induction a) (auto simp: split_first_def split: list.splits)

lemma split_first_absent: "c \<notin> set a \<Longrightarrow> split_first c a = (a, None)"
proof -
  assume "c \<notin> set a"
  then have "dropWhile (\<lambda>x. x \<noteq> c) a = []" by (auto simp: dropWhile_eq_Nil_conv)
  then show ?thesis by (simp only: split_first_def list.case)
qed

lemma query_pair_text [simp]: "query_pair (pair_text kv) = Some kv"
proof -
  have "CHR ''='' \<notin> set (url_escape EncodeQueryComponent (fst kv))"
    and "CHR '';'' \<notin> set (pair_text kv)"
    using escape_query_chars by (fastforce simp: pair_text_def)+
  then show ?thesis
    by (simp add: query_pair_def pair_text_def split_first_append)
qed

lemma parseQuery_Encode: "parseQuery (Values_Encode vs) = sort_key fst vs"
proof (cases "vs = []")
  case False
  have "CHR ''&'' \<notin> set (pair_text kv)" for kv
    using escape_query_chars by (fastforce simp: pair_text_def)
  then have "split_on (CHR ''&'') (Values_Encode vs) = map pair_text (sort_key fst vs)"
    unfolding Values_Encode_def using False by (subst split_join_with) (auto simp flip: set_empty)
  then show ?thesis by (simp add: parseQuery_def List.map_filter_def o_def)
qed (simp add: parseQuery_def Values_Encode_def List.map_filter_def query_pair_def)

lemma Encode_parse_Encode: "Values_Encode (parseQuery (Values_Encode vs)) = Values_Encode vs"
  unfolding parseQuery_Encode by (simp add: Values_Encode_def sort_key_id_if_sorted)

end
