(* ===== verification/TunnelAccess.thy ===== *)
theory TunnelAccess
  imports Work Auth GoUrl GoPath
begin

text \<open>
  Access to tunnels, from \<open>internal/api/router.go\<close> and \<open>internal/service/tunnel_tcp.go\<close>: signed launch URLs,
  the capability paths they are bound to, one-time capabilities, the bootstrap cookie, the decision of
  the tunnel proxy, what is removed from a request before it is forwarded, and the connection into the
  sandbox. HMAC-SHA256 is a parameter of the router, as are the operator's base URL once parsed and the
  bytes of request bodies, which enter as what they decode to.
\<close>

section \<open>Requests and the router\<close>

record http_request =
  hr_Method :: string
  hr_URL :: url
  hr_Header :: "(string \<times> string) list"
  hr_TLS :: bool
  hr_Host :: string

definition Header_Get :: "http_request \<Rightarrow> string \<Rightarrow> string" where
  "Header_Get r name = Values_Get (hr_Header r) name"

definition Header_Values :: "(string \<times> string) list \<Rightarrow> string \<Rightarrow> string list" where
  "Header_Values h name = map snd (filter (\<lambda>kv. fst kv = name) h)"

definition Header_Del :: "string \<Rightarrow> (string \<times> string) list \<Rightarrow> (string \<times> string) list" where
  "Header_Del name h = filter (\<lambda>kv. fst kv \<noteq> name) h"

text \<open>\<open>http.Request.Cookie\<close>: the first cookie of that name among the well-formed ones.\<close>

definition trim_blanks :: "string \<Rightarrow> string" where
  "trim_blanks s = trim_right_by (\<lambda>c. c \<in> {CHR '' '', CHR 0x09}) (trim_left_by (\<lambda>c. c \<in> {CHR '' '', CHR 0x09}) s)"

definition token_char :: "char \<Rightarrow> bool" where
  "token_char c \<longleftrightarrow> is_alnum c \<or> c \<in> set (CHR 0x27 # CHR 0x60 # ''!#$%&*+-.^_|~'')"

definition cookie_value_char :: "char \<Rightarrow> bool" where
  "cookie_value_char c \<longleftrightarrow> 32 \<le> (of_char c :: nat) \<and> (of_char c :: nat) < 127 \<and> c \<notin> {CHR 0x22, CHR '';'', CHR 0x5C}"

definition parseCookieValue :: "string \<Rightarrow> string option" where
  "parseCookieValue raw =
     (let v = (if 1 < length raw \<and> hd raw = CHR 0x22 \<and> last raw = CHR 0x22 then butlast (tl raw) else raw) in
      if list_all cookie_value_char v then Some v else None)"

definition read_cookie :: "string \<Rightarrow> (string \<times> string) option" where
  "read_cookie part =
     (let p = trim_blanks part; (name, rest) = split_first (CHR ''='') p; n = trim_blanks name in
      if p = [] \<or> n = [] \<or> \<not> list_all token_char n then None
      else map_option (Pair n) (parseCookieValue (case rest of None \<Rightarrow> [] | Some v \<Rightarrow> v)))"

definition Cookie :: "http_request \<Rightarrow> string \<Rightarrow> string option" where
  "Cookie r name =
     map_option snd (find_row (\<lambda>kv. fst kv = name)
       (concat (map (\<lambda>line. List.map_filter read_cookie (split_on (CHR '';'') line)) (Header_Values (hr_Header r) ''Cookie''))))"

record base_url =
  bu_prefix :: string
  bu_path :: url_path

record router =
  ro_operatorHost :: string
  ro_tunnelSigningKey :: string
  ro_deploymentMode :: string
  ro_HMAC :: "string \<Rightarrow> string \<Rightarrow> string"
  ro_ParseBase :: "string \<Rightarrow> goerr + base_url"
  ro_AuthorityOK :: "string \<Rightarrow> bool"

abbreviation tunnelSignedURLDefaultTTL :: int where "tunnelSignedURLDefaultTTL \<equiv> 300000000000"
abbreviation tunnelSignedURLProductionTTL :: int where "tunnelSignedURLProductionTTL \<equiv> 120000000000"
abbreviation tunnelSignedURLMaxTTL :: int where "tunnelSignedURLMaxTTL \<equiv> 900000000000"
abbreviation tunnelSignedURLExpiryKey :: string where "tunnelSignedURLExpiryKey \<equiv> ''or3_exp''"
abbreviation tunnelSignedURLSigKey :: string where "tunnelSignedURLSigKey \<equiv> ''or3_sig''"
abbreviation tunnelSignedURLCapabilityKey :: string where "tunnelSignedURLCapabilityKey \<equiv> ''or3_cap''"
abbreviation tunnelAuthCookieName :: string where "tunnelAuthCookieName \<equiv> ''or3_tunnel_auth''"

definition signed_key :: "string \<Rightarrow> bool" where
  "signed_key k \<longleftrightarrow> k \<in> {tunnelSignedURLExpiryKey, tunnelSignedURLSigKey, tunnelSignedURLCapabilityKey}"

section \<open>Capability paths\<close>

definition bad_capability_path :: goerr where
  "bad_capability_path = Err (''signed tunnel path must start with '' @ [CHR 0x27] @ ''/'' @ [CHR 0x27])"

definition normalizeTunnelCapabilityPath :: "string \<Rightarrow> goerr + string" where
  "normalizeTunnelCapabilityPath raw =
     (let value = (if TrimSpace raw = [] then ''/'' else TrimSpace raw) in
      case ParseRequestURI value of
        None \<Rightarrow> Inl bad_capability_path
      | Some u \<Rightarrow>
          if \<not> HasPrefix (up_Path (url_path u)) ''/'' then Inl bad_capability_path
          else (let path = EscapedPath (url_path u);
                    normalizedPath = (if path = [] then ''/'' else path);
                    encodedQuery = Values_Encode (url_Query u) in
                if encodedQuery = [] then Inr normalizedPath else Inr (normalizedPath @ ''?'' @ encodedQuery)))"

definition proxy_prefix :: "string \<Rightarrow> string" where
  "proxy_prefix tunnelID = ''/v1/tunnels/'' @ tunnelID @ ''/proxy''"

definition tunnelCapabilityFromProxyRequest :: "http_request \<Rightarrow> string \<Rightarrow> goerr + string" where
  "tunnelCapabilityFromProxyRequest r tunnelID =
     (let u = url_path (hr_URL r);
          raw = (if up_RawPath u = [] then up_Path u else up_RawPath u);
          requestPath = (if raw = [] then EscapedPath u else raw) in
      if \<not> HasPrefix requestPath (proxy_prefix tunnelID) then
        Inl (Err (''tunnel proxy path '' @ quote requestPath @ '' does not match tunnel '' @ tunnelID))
      else (let rest = TrimPrefix requestPath (proxy_prefix tunnelID);
                relativePath = (if rest = [] then ''/'' else rest);
                encoded = Values_Encode (filter (\<lambda>kv. \<not> signed_key (fst kv)) (url_Query (hr_URL r))) in
            if encoded \<noteq> [] then normalizeTunnelCapabilityPath (relativePath @ ''?'' @ encoded)
            else normalizeTunnelCapabilityPath relativePath))"

definition parseTunnelCapabilityParts :: "string \<Rightarrow> (string \<times> string) option" where
  "parseTunnelCapabilityParts capabilityPath =
     map_option (\<lambda>u. (let path = EscapedPath (url_path u) in
        (if path = [] then ''/'' else path, Values_Encode (url_Query u)))) (ParseRequestURI capabilityPath)"

definition tunnelCapabilityCookiePath :: "string \<Rightarrow> string" where
  "tunnelCapabilityCookiePath capabilityPath =
     (case parseTunnelCapabilityParts capabilityPath of
        None \<Rightarrow> ''/'' | Some (path, query) \<Rightarrow> if path = ''/'' then [] else path)"

definition trim_slashes :: "string \<Rightarrow> string" where
  "trim_slashes s = trim_right_by (\<lambda>c. c = CHR ''/'') s"

definition tunnelCapabilityAllowsRequest :: "string \<Rightarrow> string \<Rightarrow> bool" where
  "tunnelCapabilityAllowsRequest capabilityPath requestCapability =
     (case (parseTunnelCapabilityParts capabilityPath, parseTunnelCapabilityParts requestCapability) of
        (Some (allowedPath, allowedQuery), Some (requestPath, requestQuery)) \<Rightarrow>
          if requestPath = allowedPath then allowedQuery = [] \<or> requestQuery = allowedQuery
          else HasPrefix requestPath (trim_slashes allowedPath @ ''/'')
      | _ \<Rightarrow> False)"

section \<open>Signatures and cookies\<close>

definition signed_message :: "string \<Rightarrow> string \<Rightarrow> string \<Rightarrow> string" where
  "signed_message tunnelID capabilityPath expiry = tunnelID @ '':'' @ capabilityPath @ '':'' @ expiry"

definition signTunnelCapability :: "router \<Rightarrow> string \<Rightarrow> string \<Rightarrow> string \<Rightarrow> string" where
  "signTunnelCapability rt tunnelID capabilityPath expiry =
     RawURL_EncodeToString (ro_HMAC rt (ro_tunnelSigningKey rt) (signed_message tunnelID capabilityPath expiry))"

text \<open>\<open>time.Unix(sec, 0)\<close>: the seconds since year one are an \<open>int64\<close>.\<close>

definition Unix_time :: "int \<Rightarrow> time" where
  "Unix_time sec = (wrap64 (sec + 62135596800) - 62135596800) * 1000000000"

definition capability_live :: "string \<Rightarrow> string \<Rightarrow> tunnel_capability \<Rightarrow> (goerr, 'r world, bool) eop" where
  "capability_live tunnelID capabilityPath c =
     (if cap_TunnelID c \<noteq> tunnelID \<or> cap_RevokedAt c \<noteq> None \<or> cap_ConsumedAt c \<noteq> None then okE False
      else bindE now_utc (\<lambda>now. okE (\<not> (cap_ExpiresAt c < now \<or> cap_Path c \<noteq> capabilityPath))))"

definition validateTunnelCapability ::
  "router \<Rightarrow> string \<Rightarrow> string \<Rightarrow> string \<Rightarrow> string \<Rightarrow> string \<Rightarrow> (goerr, 'r world, bool) eop" where
  "validateTunnelCapability rt tunnelID capabilityPath expiry signature capabilityID =
     (if TrimSpace expiry = [] \<or> TrimSpace signature = [] then okE False
      else case ParseInt expiry of
        None \<Rightarrow> okE False
      | Some expiresAt \<Rightarrow>
          bindE now_utc (\<lambda>now.
          if Unix_time expiresAt < now then okE False
          else if signTunnelCapability rt tunnelID capabilityPath expiry \<noteq> signature then okE False
          else if TrimSpace capabilityID = [] then okE True
          else tryE (GetTunnelCapability capabilityID) (\<lambda>result.
            case result of
              Inl e \<Rightarrow> okE False
            | Inr c \<Rightarrow>
                bindE (capability_live tunnelID capabilityPath c) (\<lambda>live.
                if \<not> live then okE False
                else tryE (ConsumeTunnelCapability capabilityID) (\<lambda>consumed.
                  case consumed of Inl e \<Rightarrow> okE False | Inr u \<Rightarrow> okE True)))))"

definition tunnelAuthCookieValue :: "string \<Rightarrow> string \<Rightarrow> string \<Rightarrow> string \<Rightarrow> string" where
  "tunnelAuthCookieValue capabilityPath expiry sig capabilityID =
     (let value = RawURL_EncodeToString capabilityPath @ ''.'' @ expiry @ ''.'' @ sig in
      if TrimSpace capabilityID = [] then value else value @ ''.'' @ RawURL_EncodeToString capabilityID)"

text \<open>\<open>strings.SplitN(value, ".", 4)\<close>.\<close>

fun splitN :: "nat \<Rightarrow> char \<Rightarrow> string \<Rightarrow> string list" where
  "splitN 0 c s = []"
| "splitN (Suc 0) c s = [s]"
| "splitN (Suc (Suc n)) c s =
     (case split_first c s of (a, None) \<Rightarrow> [a] | (a, Some b) \<Rightarrow> a # splitN (Suc n) c b)"

definition parseTunnelAuthCookie :: "string \<Rightarrow> (string \<times> string \<times> string \<times> string) option" where
  "parseTunnelAuthCookie value =
     (case splitN 4 (CHR ''.'') value of
        path # expiry # sig # rest \<Rightarrow>
          if TrimSpace path = [] \<or> TrimSpace expiry = [] \<or> TrimSpace sig = [] then None
          else (case RawURL_DecodeString path of
            Inl e \<Rightarrow> None
          | Inr decoded \<Rightarrow>
              (case rest of
                 [] \<Rightarrow> Some (decoded, expiry, sig, [])
               | cap # _ \<Rightarrow>
                   if TrimSpace cap = [] then Some (decoded, expiry, sig, [])
                   else (case RawURL_DecodeString cap of
                           Inl e \<Rightarrow> None | Inr capabilityID \<Rightarrow> Some (decoded, expiry, sig, capabilityID))))
      | _ \<Rightarrow> None)"

section \<open>The signing key\<close>

definition stableTunnelSigningSeed :: "(string \<Rightarrow> goerr + string) \<Rightarrow> config \<Rightarrow> string" where
  "stableTunnelSigningSeed readFile cfg =
     (let nl = [CHR 0x0A] in
      ''or3-sandbox-tunnel-signing-key'' @ nl @ ''auth_mode='' @ cfg_AuthMode cfg @ nl @
      (if cfg_AuthMode cfg = ''jwt-hs256'' then
         ''issuer='' @ cfg_AuthJWTIssuer cfg @ nl @ ''audience='' @ cfg_AuthJWTAudience cfg @ nl @
         concat (map (\<lambda>path. ''jwt_secret='' @ (case readFile path of Inl e \<Rightarrow> [] | Inr data \<Rightarrow> data) @ nl)
           (sort (cfg_AuthJWTSecretPaths cfg)))
       else
         concat (map (\<lambda>t. ''tenant='' @ tc_ID t @ '':'' @ tc_Token t @ nl)
           (sort_key (\<lambda>t. (tc_ID t, tc_Token t)) (cfg_Tenants cfg)))))"

definition newTunnelSigningKey :: "(string \<Rightarrow> string) \<Rightarrow> (string \<Rightarrow> goerr + string) \<Rightarrow> config \<Rightarrow> string" where
  "newTunnelSigningKey Sum256 readFile cfg =
     (let key = TrimSpace (cfg_TunnelSigningKey cfg); path = TrimSpace (cfg_TunnelSigningKeyPath cfg);
          file = (if path = [] then [] else case readFile path of Inl e \<Rightarrow> [] | Inr data \<Rightarrow> TrimSpace data) in
      if key \<noteq> [] then Sum256 key
      else if file \<noteq> [] then Sum256 file
      else Sum256 (stableTunnelSigningSeed readFile cfg))"

section \<open>Replies\<close>

datatype 'a reply = Failed int string string | Replied int 'a

definition errorCodeForStatus :: "int \<Rightarrow> string" where
  "errorCodeForStatus status =
     (if status = 401 then ''unauthorized'' else if status = 403 then ''forbidden''
      else if status = 404 then ''not_found'' else if status = 405 then ''method_not_allowed''
      else if status = 409 then ''conflict'' else if status = 413 then ''payload_too_large''
      else if status = 429 then ''rate_limited'' else if status = 502 then ''bad_gateway''
      else if status = 500 then ''internal_error'' else ''invalid_request'')"

fun classifyError :: "goerr \<Rightarrow> int \<times> string \<times> string" where
  "classifyError (AdmissionError m retryable) =
     (let status = (if retryable then 429 else 409) in (status, errorCodeForStatus status, m))"
| "classifyError (ErrFileTransferTooLarge n) = (413, errorCodeForStatus 413, err_text (ErrFileTransferTooLarge n))"
| "classifyError (ErrForbidden m) = (403, ''forbidden'', ''forbidden'')"
| "classifyError ErrNotFound = (404, ''not_found'', ''not found'')"
| "classifyError e = (400, ''invalid_request'', err_text e)"

definition handleError :: "goerr \<Rightarrow> 'a reply" where
  "handleError e = (case classifyError e of (status, code, message) \<Rightarrow> Failed status code message)"

abbreviation unauthorized_reply :: "'a reply" where "unauthorized_reply \<equiv> Failed 401 ''unauthorized'' ''unauthorized''"
abbreviation writeNotFound :: "'a reply" where "writeNotFound \<equiv> Failed 404 ''not_found'' ''not found''"
abbreviation writeMethodNotAllowed :: "'a reply" where
  "writeMethodNotAllowed \<equiv> Failed 405 ''method_not_allowed'' ''method not allowed''"
abbreviation bad_request :: "string \<Rightarrow> 'a reply" where "bad_request m \<equiv> Failed 400 ''invalid_request'' m"

text \<open>A handler that answers an error of the service and goes on with a result.\<close>

definition or_reply :: "(goerr, 'w, 'a) eop \<Rightarrow> ('a \<Rightarrow> (goerr, 'w, 'b reply) eop) \<Rightarrow> (goerr, 'w, 'b reply) eop" where
  "or_reply m k = tryE m (\<lambda>r. case r of Inl e \<Rightarrow> okE (handleError e) | Inr a \<Rightarrow> k a)"

definition requirePermission ::
  "tenant_context option \<Rightarrow> string \<Rightarrow> (goerr, 'w, 'b reply) eop \<Rightarrow> (goerr, 'w, 'b reply) eop" where
  "requirePermission ctx permission k =
     (case Require ctx [permission] of Inl e \<Rightarrow> okE (handleError e) | Inr u \<Rightarrow> k)"

definition RecordAuditEvent ::
  "string \<Rightarrow> string \<Rightarrow> string \<Rightarrow> string \<Rightarrow> string \<Rightarrow> string \<Rightarrow> (goerr, 'r world, unit) eop" where
  "RecordAuditEvent tenantID sandboxID action resourceID outcome detail =
     recordAudit tenantID sandboxID action resourceID outcome detail"

definition recordTunnelDenial :: "string \<Rightarrow> tunnel \<Rightarrow> string \<Rightarrow> string \<Rightarrow> (goerr, 'r world, unit) eop" where
  "recordTunnelDenial requesterTenantID t action detail =
     (if requesterTenantID = tun_TenantID t
      then RecordAuditEvent (tun_TenantID t) (tun_SandboxID t) action (tun_ID t) ''denied'' detail else okE ())"

section \<open>Signed launch URLs\<close>

record signed_url_request =
  su_Path :: string
  su_TTLSeconds :: int
  su_OneTime :: bool

record signed_url =
  sd_URL :: string
  sd_ExpiresAt :: time
  sd_CapabilityID :: string

text \<open>\<open>url.Parse\<close> of a text that starts with a slash: after exactly two slashes comes an authority.\<close>

definition parse_reference :: "router \<Rightarrow> string \<Rightarrow> url option" where
  "parse_reference rt s =
     (let (rest, query) = split_first (CHR ''?'') s;
          q = (case query of None \<Rightarrow> [] | Some x \<Rightarrow> x) in
      if HasPrefix rest ''//'' \<and> \<not> HasPrefix rest ''///'' then
        (let authority = takeWhile (\<lambda>c. c \<noteq> CHR ''/'') (drop 2 rest);
             path = dropWhile (\<lambda>c. c \<noteq> CHR ''/'') (drop 2 rest) in
         if \<not> ro_AuthorityOK rt authority then None
         else map_option (\<lambda>u. \<lparr>url_path = u, url_RawQuery = q\<rparr>) (setPath path))
      else map_option (\<lambda>u. \<lparr>url_path = u, url_RawQuery = q\<rparr>) (setPath rest))"

definition base_of :: "router \<Rightarrow> http_request \<Rightarrow> string" where
  "base_of rt r =
     (if ro_operatorHost rt = [] then (if hr_TLS r then ''https'' else ''http'') @ ''://'' @ hr_Host r
      else ro_operatorHost rt)"

definition buildTunnelProxyURL :: "router \<Rightarrow> string \<Rightarrow> string \<Rightarrow> url_values \<Rightarrow> http_request \<Rightarrow> goerr + string" where
  "buildTunnelProxyURL rt tunnelID path query r =
     (case ro_ParseBase rt (base_of rt r) of
        Inl e \<Rightarrow> Inl (Err (''invalid operator host: '' @ err_text e))
      | Inr base \<Rightarrow>
          (case parse_reference rt path of
             None \<Rightarrow> Inl (Err ''invalid tunnel proxy path'')
           | Some c \<Rightarrow>
               (let full = trim_slashes (up_Path (bu_path base)) @ proxy_prefix tunnelID @ EscapedPath (url_path c) in
                Inr (bu_prefix base @ EscapedPath \<lparr>up_Path = full, up_RawPath = up_RawPath (bu_path base)\<rparr>
                     @ ''?'' @ Values_Encode (url_Query c @ query)))))"

definition sanitizeTunnelAuditPath :: "router \<Rightarrow> string \<Rightarrow> string" where
  "sanitizeTunnelAuditPath rt path =
     (case parse_reference rt path of
        None \<Rightarrow> path
      | Some u \<Rightarrow>
          if EscapedPath (url_path u) \<noteq> [] then EscapedPath (url_path u)
          else if up_Path (url_path u) \<noteq> [] then up_Path (url_path u) else ''/'')"

text \<open>The date of a day counted from the first of January 1970, and the text of an instant.\<close>

definition civil :: "int \<Rightarrow> int \<times> int \<times> int" where
  "civil days =
     (let z = days + 719468; era = z div 146097; doe = z mod 146097;
          yoe = (doe - doe div 1460 + doe div 36524 - doe div 146096) div 365;
          doy = doe - (365 * yoe + yoe div 4 - yoe div 100);
          mp = (5 * doy + 2) div 153;
          m = (if mp < 10 then mp + 3 else mp - 9) in
      (yoe + era * 400 + (if m \<le> 2 then 1 else 0), m, doy - (153 * mp + 2) div 5 + 1))"

definition RFC3339 :: "time \<Rightarrow> string" where
  "RFC3339 t =
     (let secs = t div 1000000000; (y, m, d) = civil (secs div 86400); s = secs mod 86400;
          two = (\<lambda>n. pad_digits 2 (nat n)) in
      pad_digits 4 (nat y) @ ''-'' @ two m @ ''-'' @ two d @ ''T'' @
      two (s div 3600) @ '':'' @ two (s mod 3600 div 60) @ '':'' @ two (s mod 60) @ ''Z'')"

definition signed_url_ttl :: "router \<Rightarrow> signed_url_request \<Rightarrow> int" where
  "signed_url_ttl rt req =
     (if 0 < su_TTLSeconds req then mul64 (su_TTLSeconds req) 1000000000
      else if ro_deploymentMode rt = ''production'' then tunnelSignedURLProductionTTL else tunnelSignedURLDefaultTTL)"

definition issue_capability ::
  "'r service \<Rightarrow> bool \<Rightarrow> tunnel \<Rightarrow> string \<Rightarrow> time \<Rightarrow> (goerr, 'r world, string) eop" where
  "issue_capability svc oneTime t capabilityPath expiresAt =
     (if \<not> oneTime then okE []
      else bindE now_utc (\<lambda>n. bindE now_utc (\<lambda>created.
        (let capabilityID = ''cap-'' @ fmt_int n in
         thenE (CreateTunnelCapability \<lparr>cap_ID = capabilityID, cap_TunnelID = tun_ID t,
                  cap_NonceHash = svc_HashToken svc capabilityID, cap_Path = capabilityPath,
                  cap_ExpiresAt = expiresAt, cap_ConsumedAt = None, cap_RevokedAt = None, cap_CreatedAt = created\<rparr>)
           (okE capabilityID)))))"

definition issue_signed_url ::
  "router \<Rightarrow> 'r service \<Rightarrow> http_request \<Rightarrow> tunnel \<Rightarrow> signed_url_request \<Rightarrow> (goerr, 'r world, signed_url reply) eop" where
  "issue_signed_url rt svc r t req =
     (case normalizeTunnelCapabilityPath (su_Path req) of
        Inl e \<Rightarrow> okE (bad_request (err_text e))
      | Inr capabilityPath \<Rightarrow>
          (let ttl = signed_url_ttl rt req in
           if ttl \<le> 0 then okE (bad_request ''signed tunnel ttl must be positive'')
           else if tunnelSignedURLMaxTTL < ttl then okE (bad_request (''signed tunnel ttl must be <= '' @ ''15m0s''))
           else bindE now_utc (\<lambda>now.
             (let expiresAt = now + ttl; expiry = fmt_int (expiresAt div 1000000000) in
              or_reply (issue_capability svc (su_OneTime req) t capabilityPath expiresAt) (\<lambda>capabilityID.
              (let query = [(tunnelSignedURLExpiryKey, expiry),
                            (tunnelSignedURLSigKey, signTunnelCapability rt (tun_ID t) capabilityPath expiry)]
                     @ (if su_OneTime req then [(tunnelSignedURLCapabilityKey, capabilityID)] else []) in
               case buildTunnelProxyURL rt (tun_ID t) capabilityPath query r of
                 Inl e \<Rightarrow> okE (bad_request (err_text e))
               | Inr signedURL \<Rightarrow>
                   thenE (RecordAuditEvent (tun_TenantID t) (tun_SandboxID t) ''tunnel.signed_url'' (tun_ID t) ''ok''
                       (''path='' @ quote (sanitizeTunnelAuditPath rt capabilityPath) @ '' expires_at='' @ RFC3339 expiresAt
                        @ '' ttl_seconds='' @ fmt_int (ttl div 1000000000)))
                     (okE (Replied 200 \<lparr>sd_URL = signedURL, sd_ExpiresAt = expiresAt, sd_CapabilityID = capabilityID\<rparr>))))))))"

definition handleTunnelSignedURL ::
  "router \<Rightarrow> 'r service \<Rightarrow> tenant_context option \<Rightarrow> http_request \<Rightarrow> goerr + signed_url_request \<Rightarrow> string \<Rightarrow>
   (goerr, 'r world, signed_url reply) eop" where
  "handleTunnelSignedURL rt svc ctx r body tunnelID =
     (case ctx of
        None \<Rightarrow> okE unauthorized_reply
      | Some c \<Rightarrow>
          if hr_Method r \<noteq> ''POST'' then okE writeMethodNotAllowed
          else requirePermission ctx PermissionTunnelsRead (
            or_reply (GetTunnelForProxy tunnelID) (\<lambda>(t, s).
            (let requester = tn_ID (tc_Tenant c) in
             if tun_RevokedAt t \<noteq> None then
               thenE (recordTunnelDenial requester t ''tunnel.signed_url'' ''reason=revoked'')
                 (okE (Failed 410 ''tunnel_revoked'' ''tunnel revoked''))
             else if requester \<noteq> tun_TenantID t then
               thenE (recordTunnelDenial requester t ''tunnel.signed_url'' ''reason=tenant_mismatch'') (okE writeNotFound)
             else (case body of
                     Inl e \<Rightarrow> okE (bad_request (err_text e))
                   | Inr req \<Rightarrow> issue_signed_url rt svc r t req)))))"

section \<open>The browser session\<close>

record set_cookie =
  ck_Value :: string
  ck_Path :: string
  ck_Expires :: time
  ck_Secure :: bool

datatype browser_session = NotAuthorized | CookieAuthorized | Bootstrapped set_cookie string

definition cookie_session ::
  "router \<Rightarrow> http_request \<Rightarrow> tunnel \<Rightarrow> string \<Rightarrow> (goerr, 'r world, bool) eop" where
  "cookie_session rt r t requestCapability =
     (case Option.bind (Cookie r tunnelAuthCookieName) parseTunnelAuthCookie of
        None \<Rightarrow> okE False
      | Some (capabilityPath, expiry, sig, capabilityID) \<Rightarrow>
          bindE (validateTunnelCapability rt (tun_ID t) capabilityPath expiry sig capabilityID) (\<lambda>valid.
            okE (valid \<and> tunnelCapabilityAllowsRequest capabilityPath requestCapability)))"

definition bootstrap_cookie :: "router \<Rightarrow> http_request \<Rightarrow> tunnel \<Rightarrow> string \<Rightarrow> string \<Rightarrow> string \<Rightarrow> set_cookie" where
  "bootstrap_cookie rt r t requestCapability expiry sig =
     \<lparr>ck_Value = tunnelAuthCookieValue requestCapability expiry sig [],
      ck_Path = proxy_prefix (tun_ID t) @ tunnelCapabilityCookiePath requestCapability,
      ck_Expires = Unix_time (case ParseInt expiry of None \<Rightarrow> 0 | Some n \<Rightarrow> n),
      ck_Secure = (HasPrefix (ToLower (ro_operatorHost rt)) ''https://'' \<or> hr_TLS r)\<rparr>"

definition redirect_target :: "url \<Rightarrow> string" where
  "redirect_target u =
     (let q = Values_Encode (filter (\<lambda>kv. \<not> signed_key (fst kv)) (url_Query u)) in
      EscapedPath (url_path u) @ (if q = [] then [] else ''?'' @ q))"

definition authorizeTunnelBrowserSession ::
  "router \<Rightarrow> http_request \<Rightarrow> tunnel \<Rightarrow> (goerr, 'r world, browser_session) eop" where
  "authorizeTunnelBrowserSession rt r t =
     (case tunnelCapabilityFromProxyRequest r (tun_ID t) of
        Inl e \<Rightarrow> okE NotAuthorized
      | Inr requestCapability \<Rightarrow>
          bindE (cookie_session rt r t requestCapability) (\<lambda>cookie.
          if cookie then okE CookieAuthorized
          else if hr_Method r \<noteq> ''GET'' \<and> hr_Method r \<noteq> ''HEAD'' then okE NotAuthorized
          else (let query = url_Query (hr_URL r);
                    expiry = Values_Get query tunnelSignedURLExpiryKey;
                    sig = Values_Get query tunnelSignedURLSigKey;
                    capabilityID = Values_Get query tunnelSignedURLCapabilityKey in
                bindE (validateTunnelCapability rt (tun_ID t) requestCapability expiry sig capabilityID) (\<lambda>valid.
                okE (if valid then Bootstrapped (bootstrap_cookie rt r t requestCapability expiry sig)
                                     (redirect_target (hr_URL r))
                     else NotAuthorized)))))"

section \<open>The proxy\<close>

datatype proxy_reply =
    ProxyFailed int string string
  | ProxyBootstrap set_cookie string
  | ProxyForward tunnel sandbox string string

definition own_tenant :: "tenant_context option \<Rightarrow> tunnel \<Rightarrow> bool" where
  "own_tenant ctx t = (case ctx of None \<Rightarrow> False | Some c \<Rightarrow> tn_ID (tc_Tenant c) = tun_TenantID t)"

definition presented_token :: "http_request \<Rightarrow> string \<times> string" where
  "presented_token r =
     (let h = Header_Get r ''X-Tunnel-Token''; q = Values_Get (url_Query (hr_URL r)) ''token'' in
      if h = [] then (q, q) else (h, []))"

definition token_source :: "http_request \<Rightarrow> bool \<Rightarrow> string" where
  "token_source r browser =
     (if Header_Get r ''X-Tunnel-Token'' \<noteq> [] then ''header''
      else if Values_Get (url_Query (hr_URL r)) ''token'' \<noteq> [] then ''query''
      else if browser then ''signed_cookie'' else ''none'')"

definition open_source :: "tenant_context option \<Rightarrow> tunnel \<Rightarrow> bool \<Rightarrow> string" where
  "open_source ctx t browser =
     (if browser then ''signed_cookie'' else if own_tenant ctx t then ''tenant_bearer''
      else if tun_Visibility t = ''public'' then ''public'' else ''none'')"

definition deny_proxy ::
  "string \<Rightarrow> tunnel \<Rightarrow> string \<Rightarrow> proxy_reply \<Rightarrow> (goerr, 'r world, proxy_reply) eop" where
  "deny_proxy requester t detail answer = thenE (recordTunnelDenial requester t ''tunnel.proxy'' detail) (okE answer)"

definition authorize_proxy ::
  "'r service \<Rightarrow> tenant_context option \<Rightarrow> http_request \<Rightarrow> tunnel \<Rightarrow> sandbox \<Rightarrow> string \<Rightarrow> bool \<Rightarrow>
   (goerr, 'r world, proxy_reply) eop" where
  "authorize_proxy svc ctx r t s requester browser =
     (if tun_Visibility t \<noteq> ''public'' \<and> \<not> own_tenant ctx t \<and> \<not> browser then
        deny_proxy requester t (''reason=tenant_mismatch visibility='' @ tun_Visibility t)
          (ProxyFailed 404 ''not_found'' ''not found'')
      else if tun_AuthMode t = ''token'' then
        (let (presented, queryAccessToken) = presented_token r in
         if browser \<or> presented \<noteq> [] \<and> svc_HashToken svc presented = tun_AuthSecretHash t then
           okE (ProxyForward t s queryAccessToken (token_source r browser))
         else deny_proxy requester t (''reason=token_auth_failed visibility='' @ tun_Visibility t)
                (ProxyFailed 403 ''forbidden'' ''forbidden''))
      else okE (ProxyForward t s [] (open_source ctx t browser)))"

definition handleTunnelProxy ::
  "router \<Rightarrow> 'r service \<Rightarrow> tenant_context option \<Rightarrow> http_request \<Rightarrow> string \<Rightarrow> (goerr, 'r world, proxy_reply) eop" where
  "handleTunnelProxy rt svc ctx r tunnelID =
     tryE (GetTunnelForProxy tunnelID) (\<lambda>result.
     case result of
       Inl e \<Rightarrow> okE (case classifyError e of (status, code, message) \<Rightarrow> ProxyFailed status code message)
     | Inr (t, s) \<Rightarrow>
         (let requester = (case ctx of None \<Rightarrow> [] | Some c \<Rightarrow> tn_ID (tc_Tenant c)) in
          if tun_RevokedAt t \<noteq> None then
            deny_proxy requester t ''reason=revoked'' (ProxyFailed 410 ''tunnel_revoked'' ''tunnel revoked'')
          else bindE (authorizeTunnelBrowserSession rt r t) (\<lambda>session.
            case session of
              Bootstrapped cookie target \<Rightarrow> okE (ProxyBootstrap cookie target)
            | CookieAuthorized \<Rightarrow> authorize_proxy svc ctx r t s requester True
            | NotAuthorized \<Rightarrow> authorize_proxy svc ctx r t s requester False)))"

section \<open>Forwarding\<close>

definition tunnelUpstreamQuery :: "url_values \<Rightarrow> string \<Rightarrow> url_values" where
  "tunnelUpstreamQuery query queryAccessToken =
     filter (\<lambda>kv. \<not> signed_key (fst kv) \<and>
       \<not> (fst kv = ''token'' \<and> queryAccessToken \<noteq> [] \<and> snd kv = queryAccessToken)) query"

definition filter_cookies :: "string \<Rightarrow> string" where
  "filter_cookies line =
     join_with ''; '' (filter (\<lambda>p. p \<noteq> [] \<and> \<not> HasPrefix p (tunnelAuthCookieName @ ''=''))
       (map TrimSpace (split_on (CHR '';'') line)))"

definition sanitizeTunnelProxyRequest :: "(string \<times> string) list \<Rightarrow> (string \<times> string) list" where
  "sanitizeTunnelProxyRequest header =
     (let h = Header_Del ''X-Tunnel-Token'' (Header_Del ''Authorization'' header) in
      Header_Del ''Cookie'' h @ map (Pair ''Cookie'') (filter (\<lambda>l. l \<noteq> []) (map filter_cookies (Header_Values h ''Cookie''))))"

text \<open>
  \<open>httputil.ReverseProxy\<close> with a \<open>Rewrite\<close> function: before it runs, the headers that concern one connection and the
  forwarding headers of the client are dropped; \<open>SetXForwarded\<close> sets the latter anew. \<open>client\<close> is the host part of the
  remote address, when there is one.
\<close>

definition connection_headers :: "string list" where
  "connection_headers = [''Connection'', ''Proxy-Connection'', ''Keep-Alive'', ''Proxy-Authenticate'', ''Proxy-Authorization'', ''Te'',
     ''Trailer'', ''Transfer-Encoding'', ''Upgrade'', ''Forwarded'', ''X-Forwarded-For'', ''X-Forwarded-Host'', ''X-Forwarded-Proto'']"

definition header_tokens :: "(string \<times> string) list \<Rightarrow> string \<Rightarrow> string list" where
  "header_tokens h name = map (\<lambda>x. ToLower (trim_blanks x)) (concat (map (split_on (CHR '','')) (Header_Values h name)))"

definition SetXForwarded :: "string option \<Rightarrow> http_request \<Rightarrow> (string \<times> string) list" where
  "SetXForwarded client r =
     (case client of None \<Rightarrow> [] | Some ip \<Rightarrow> [(''X-Forwarded-For'', ip)]) @
     [(''X-Forwarded-Host'', hr_Host r), (''X-Forwarded-Proto'', if hr_TLS r then ''https'' else ''http'')]"

definition proxied_header :: "string option \<Rightarrow> http_request \<Rightarrow> (string \<times> string) list" where
  "proxied_header client r =
     (let h = hr_Header r;
          upgrade = (if ''upgrade'' \<in> set (header_tokens h ''Connection'') then Header_Get r ''Upgrade'' else []) in
      filter (\<lambda>kv. fst kv \<notin> set connection_headers \<and> ToLower (fst kv) \<notin> set (header_tokens h ''Connection'')) h @
      (if ''trailers'' \<in> set (header_tokens h ''Te'') then [(''Te'', ''trailers'')] else []) @
      (if upgrade = [] then [] else [(''Connection'', ''Upgrade''), (''Upgrade'', upgrade)]) @
      SetXForwarded client r)"

record upstream =
  ups_Path :: string
  ups_RawPath :: string
  ups_Query :: url_values
  ups_Header :: "(string \<times> string) list"

definition upstream_request :: "string option \<Rightarrow> http_request \<Rightarrow> tunnel \<Rightarrow> string \<Rightarrow> upstream" where
  "upstream_request client r t queryAccessToken =
     \<lparr>ups_Path = TrimPrefix (up_Path (url_path (hr_URL r))) (proxy_prefix (tun_ID t)),
      ups_RawPath = up_RawPath (url_path (hr_URL r)),
      ups_Query = tunnelUpstreamQuery (url_Query (hr_URL r)) queryAccessToken,
      ups_Header = sanitizeTunnelProxyRequest (proxied_header client r)\<rparr>"

text \<open>A WebSocket is dialled with the origin and the user agent only.\<close>

definition websocket_request :: "http_request \<Rightarrow> tunnel \<Rightarrow> string \<Rightarrow> upstream" where
  "websocket_request r t queryAccessToken =
     \<lparr>ups_Path = TrimPrefix (up_Path (url_path (hr_URL r))) (proxy_prefix (tun_ID t)),
      ups_RawPath = [],
      ups_Query = tunnelUpstreamQuery (url_Query (hr_URL r)) queryAccessToken,
      ups_Header = filter (\<lambda>kv. snd kv \<noteq> []) [(''Origin'', Header_Get r ''Origin''), (''User-Agent'', Header_Get r ''User-Agent'')]\<rparr>"

abbreviation sandboxLocalBridgeReady :: string where "sandboxLocalBridgeReady \<equiv> ''__OR3_TUNNEL_BRIDGE_READY__''"

text \<open>The first line of the bridge, or nothing when reading fails or takes longer than five seconds.\<close>

definition awaitSandboxLocalBridgeReady :: "string option \<Rightarrow> goerr + unit" where
  "awaitSandboxLocalBridgeReady firstLine =
     (case firstLine of
        None \<Rightarrow> Inl (Err ''timed out opening sandbox-local tunnel bridge'')
      | Some text \<Rightarrow>
          (let line = TrimSpace text in
           if line = sandboxLocalBridgeReady then Inr ()
           else if line = [] then Inl (Err ''sandbox-local tunnel bridge did not become ready'')
           else Inl (Err (''sandbox-local tunnel bridge failed: '' @ line))))"

definition OpenSandboxLocalConn ::
  "'r service \<Rightarrow> string \<Rightarrow> (string \<Rightarrow> string option) \<Rightarrow> sandbox \<Rightarrow> int \<Rightarrow> (goerr, 'r world, string) eop" where
  "OpenSandboxLocalConn svc bridgeScript firstLine s targetPort =
     guardE (sb_Status s \<noteq> StatusRunning) (Err (''sandbox '' @ sb_ID s @ '' is not running'')) (
     guardE (targetPort < 1 \<or> 65535 < targetPort) (Err ''target port must be between 1 and 65535'') (
     case rm_OpenSandboxLocalConn (svc_runtime svc) of
       Some f \<Rightarrow>
         bindE (rt_call (f s targetPort)) (\<lambda>conn. ignoreE (touchSandboxActivity s) (okE conn))
     | None \<Rightarrow>
         bindE (rt_call (rm_AttachTTY (svc_runtime svc) s
             \<lparr>tr_Command = [''sh'', ''-lc'', bridgeScript], tr_Env = [(''OR3_TUNNEL_TARGET_PORT'', fmt_int targetPort)],
              tr_Cwd = ''/workspace'', tr_Cols = 1, tr_Rows = 1\<rparr>)) (\<lambda>handle.
         bindE (liftE (awaitSandboxLocalBridgeReady (firstLine handle))) (\<lambda>u.
         ignoreE (touchSandboxActivity s) (okE handle)))))"

end
