(* ===== verification/TunnelSafety.thy ===== *)
theory TunnelSafety
  imports TunnelAccess Example "HOL-Library.Multiset"
begin

text \<open>
  What holds of tunnel access: capability paths have one normal form, a signed URL leads back to exactly
  the path it was signed for and is accepted until it expires, a signature authorises nothing else, the
  proxy forwards only authorised requests and never the credentials they carried; and where the code
  falls short: a one-time URL can be used again, and a path can be confused with a query.
\<close>

section \<open>The normal form of a capability path\<close>

lemma Values_Encode_chars:
  assumes "c \<in> set (Values_Encode vs)"
  shows "c \<noteq> CHR ''?'' \<and> \<not> is_space c \<and> \<not> is_control c"
proof -
  have "c = CHR ''&'' \<or> (\<exists>x \<in> set xs. c \<in> set x)" if "c \<in> set (join_with ''&'' xs)" for xs
    using that by (induction "''&''" xs rule: join_with.induct) auto
  from this [OF assms [unfolded Values_Encode_def]] obtain kv where "c = CHR ''&'' \<or> c \<in> set (pair_text kv)"
    by (metis (no_types, lifting) image_iff list.set_map)
  then have "c = CHR ''&'' \<or> c = CHR ''='' \<or> c \<in> set (url_escape EncodeQueryComponent (fst kv))
      \<or> c \<in> set (url_escape EncodeQueryComponent (snd kv))" by (auto simp: pair_text_def)
  moreover have "\<not> is_space (CHR ''&'')" "\<not> is_control (CHR ''&'')" "\<not> is_space (CHR ''='')" "\<not> is_control (CHR ''='')"
    by code_simp+
  ultimately show ?thesis using escape_query_chars [of c] by auto
qed

definition canonical :: "string \<Rightarrow> bool" where
  "canonical e \<longleftrightarrow> HasPrefix e ''/'' \<and> (\<exists>u. setPath e = Some u \<and> EscapedPath u = e)"

definition capability_text :: "string \<Rightarrow> url_values \<Rightarrow> string" where
  "capability_text e vs = e @ (if Values_Encode vs = [] then [] else ''?'' @ Values_Encode vs)"

lemma canonicalD:
  assumes "canonical e"
  shows "\<forall>c \<in> set e. path_char c" and "\<exists>s. e = CHR ''/'' # s"
    and "\<exists>u. setPath e = Some u \<and> EscapedPath u = e \<and> HasPrefix (up_Path u) ''/''"
proof -
  from assms obtain u where u: "setPath e = Some u" "EscapedPath u = e" and p: "HasPrefix e ''/''"
    by (auto simp: canonical_def)
  then show "\<forall>c \<in> set e. path_char c" using EscapedPath_chars by metis
  from p show s: "\<exists>s. e = CHR ''/'' # s" by (auto simp: HasPrefix_iff)
  then obtain r where "e = CHR ''/'' # r" by blast
  with u(1) obtain q where "up_Path u = CHR ''/'' # q" by (auto simp: setPath_def)
  then have "HasPrefix (up_Path u) ''/''" by (simp add: HasPrefix_def)
  with u show "\<exists>u. setPath e = Some u \<and> EscapedPath u = e \<and> HasPrefix (up_Path u) ''/''" by blast
qed

lemma split_capability_text:
  assumes "\<forall>c \<in> set e. path_char c"
  shows "split_first (CHR ''?'') (capability_text e vs)
    = (e, if Values_Encode vs = [] then None else Some (Values_Encode vs))"
proof -
  have "CHR ''?'' \<notin> set e" using assms by (auto simp: path_char_def)
  then show ?thesis by (simp add: capability_text_def split_first_append split_first_none)
qed

lemma parse_capability_text:
  assumes "canonical e"
  obtains u where "ParseRequestURI (capability_text e vs) = Some \<lparr>url_path = u, url_RawQuery = Values_Encode vs\<rparr>"
    and "EscapedPath u = e" and "HasPrefix (up_Path u) ''/''" and "setPath e = Some u"
proof -
  note e = canonicalD [OF assms]
  from e(3) obtain u where u: "setPath e = Some u" "EscapedPath u = e" "HasPrefix (up_Path u) ''/''" by blast
  have "\<forall>c \<in> set (capability_text e vs). \<not> is_control c"
    using e(1) Values_Encode_chars [of _ vs] by (auto simp: capability_text_def path_char_def is_control_def)
  moreover have "HasPrefix (capability_text e vs) ''/''" using e(2) by (auto simp: capability_text_def HasPrefix_def)
  ultimately have "ParseRequestURI (capability_text e vs) = Some \<lparr>url_path = u, url_RawQuery = Values_Encode vs\<rparr>"
    using u(1) by (simp add: ParseRequestURI_def split_capability_text [OF e(1)])
  with u that show thesis by blast
qed

lemma normalize_text:
  assumes "canonical e"
  shows "normalizeTunnelCapabilityPath (capability_text e vs) = Inr (capability_text e vs)"
proof -
  note e = canonicalD [OF assms]
  have "\<forall>c \<in> set (capability_text e vs). \<not> is_space c"
    using e(1) Values_Encode_chars [of _ vs] by (auto simp: capability_text_def path_char_def is_space_def)
  then have t: "TrimSpace (capability_text e vs) = capability_text e vs" by (rule TrimSpace_no_space)
  obtain u where "ParseRequestURI (capability_text e vs) = Some \<lparr>url_path = u, url_RawQuery = Values_Encode vs\<rparr>"
    and "EscapedPath u = e" and "HasPrefix (up_Path u) ''/''" by (rule parse_capability_text [OF assms])
  moreover have "e \<noteq> []" "capability_text e vs \<noteq> []" using e(2) by (auto simp: capability_text_def)
  ultimately show ?thesis
    by (simp add: normalizeTunnelCapabilityPath_def t Let_def url_Query_def Encode_parse_Encode) (simp add: capability_text_def)
qed

lemma normalize_form:
  assumes "normalizeTunnelCapabilityPath raw = Inr p"
  obtains e vs where "canonical e" and "p = capability_text e vs"
proof -
  define v where "v = (if TrimSpace raw = [] then ''/'' else TrimSpace raw)"
  from assms obtain u where u: "ParseRequestURI v = Some u" and h: "HasPrefix (up_Path (url_path u)) ''/''"
    and p: "p = capability_text (if EscapedPath (url_path u) = [] then ''/'' else EscapedPath (url_path u)) (url_Query u)"
    unfolding normalizeTunnelCapabilityPath_def v_def [symmetric]
    by (auto simp: Let_def capability_text_def split: option.splits if_splits)
  from u obtain path where s: "setPath path = Some (url_path u)" and sl: "HasPrefix path ''/''"
  proof -
    from u have "HasPrefix v ''/''" by (simp add: ParseRequestURI_def split: if_splits)
    then have "HasPrefix (fst (split_first (CHR ''?'') v)) ''/''"
      by (auto simp: HasPrefix_iff split_first_def split: list.splits)
    moreover have "setPath (fst (split_first (CHR ''?'') v)) = Some (url_path u)"
      using u by (auto simp: ParseRequestURI_def split: if_splits prod.splits)
    ultimately show thesis using that by blast
  qed
  note sp = setPath_slash [OF s sl]
  from setPath_EscapedPath [OF s sp(2)] sp(1) have "canonical (EscapedPath (url_path u))" by (auto simp: canonical_def)
  moreover have "EscapedPath (url_path u) \<noteq> []" using sp(1) by (auto simp: HasPrefix_def)
  ultimately show thesis using that p by simp
qed

text \<open>
  Every accepted capability path starts with a slash and is its own normal form, so that what is
  signed and what is checked are compared in one form only.
\<close>

theorem capability_path_canonical:
  assumes "normalizeTunnelCapabilityPath raw = Inr p"
  shows "normalizeTunnelCapabilityPath p = Inr p \<and> HasPrefix p ''/''"
proof -
  obtain e vs where e: "canonical e" and p: "p = capability_text e vs" using assms by (rule normalize_form)
  from canonicalD(2) [OF e] have "HasPrefix p ''/''" by (auto simp: p capability_text_def HasPrefix_def)
  with normalize_text [OF e] p show ?thesis by blast
qed

section \<open>From the signed URL back to the path\<close>

text \<open>The request a client makes for a URL: its target as the server parses it, and nothing else.\<close>

definition visit :: "url \<Rightarrow> http_request" where
  "visit u = \<lparr>hr_Method = ''GET'', hr_URL = u, hr_Header = [], hr_TLS = True, hr_Host = ''sandbox.example''\<rparr>"

definition root_base :: "router \<Rightarrow> http_request \<Rightarrow> string \<Rightarrow> bool" where
  "root_base rt r origin \<longleftrightarrow> ro_ParseBase rt (base_of rt r) =
     Inr \<lparr>bu_prefix = origin, bu_path = \<lparr>up_Path = [], up_RawPath = []\<rparr>\<rparr>"

definition plain_capability :: "string \<Rightarrow> bool" where
  "plain_capability p \<longleftrightarrow> \<not> HasPrefix p ''//'' \<and>
     (case ParseRequestURI p of None \<Rightarrow> False | Some u \<Rightarrow> \<forall>kv \<in> set (url_Query u). \<not> signed_key (fst kv))"

lemma escape_proxy_target:
  assumes "HasPrefix full ''/''"
  shows "ParseRequestURI (url_escape EncodePath full @ ''?'' @ Values_Encode vs)
    = Some \<lparr>url_path = \<lparr>up_Path = full, up_RawPath = []\<rparr>, url_RawQuery = Values_Encode vs\<rparr>"
proof -
  let ?e = "url_escape EncodePath full"
  have "\<forall>c \<in> set ?e. path_char c"
  proof
    fix c assume "c \<in> set ?e"
    then have "\<not> shouldEscape EncodePath c \<or> c \<in> set ''%+''" using escape_chars_of by fastforce
    moreover have "list_all path_char ''%+''" by code_simp
    ultimately show "path_char c" unfolding list_all_iff using path_charI [of c] by blast
  qed
  then have "CHR ''?'' \<notin> set ?e" and nc: "\<forall>c \<in> set ?e. \<not> is_control c" by (auto simp: path_char_def)
  then have sp: "split_first (CHR ''?'') (?e @ ''?'' @ Values_Encode vs) = (?e, Some (Values_Encode vs))"
    by (simp add: split_first_append)
  have "setPath ?e = Some \<lparr>up_Path = full, up_RawPath = []\<rparr>" by (simp add: setPath_def)
  moreover have "HasPrefix (?e @ ''?'' @ Values_Encode vs) ''/''" using assms by (auto simp: HasPrefix_iff)
  moreover have "\<forall>c \<in> set (?e @ ''?'' @ Values_Encode vs). \<not> is_control c"
    using nc Values_Encode_chars [of _ vs] by (auto simp: is_control_def)
  ultimately show ?thesis by (simp only: ParseRequestURI_def sp) (simp add: Let_def)
qed

lemma proxy_prefix_slash: "HasPrefix (proxy_prefix t @ e) ''/''"
  by (simp add: proxy_prefix_def HasPrefix_def)

lemma filter_signed_sort:
  assumes "\<forall>kv \<in> set vs. \<not> signed_key (fst kv)" and "\<forall>kv \<in> set qs. signed_key (fst kv)"
  shows "filter (\<lambda>kv. \<not> signed_key (fst kv)) (sort_key fst (vs @ qs)) = sort_key fst vs"
proof -
  have "filter (\<lambda>kv. \<not> signed_key (fst kv)) (vs @ qs) = vs" using assms by (auto simp: filter_id_conv filter_empty_conv)
  then show ?thesis by (simp add: filter_sort)
qed

lemma Values_Encode_sort: "Values_Encode (sort_key fst vs) = Values_Encode vs"
  by (simp add: Values_Encode_def sort_key_id_if_sorted)

lemma plain_capability_query:
  assumes "canonical e" and "plain_capability (capability_text e vs)"
  shows "\<not> HasPrefix e ''//''" and "\<forall>kv \<in> set vs. \<not> signed_key (fst kv)"
proof -
  from assms(2) have n: "\<not> HasPrefix (capability_text e vs) ''//''" by (simp add: plain_capability_def)
  then show "\<not> HasPrefix e ''//''" by (auto simp: capability_text_def HasPrefix_iff)
  obtain u where "ParseRequestURI (capability_text e vs) = Some \<lparr>url_path = u, url_RawQuery = Values_Encode vs\<rparr>"
    by (rule parse_capability_text [OF assms(1)])
  with assms(2) show "\<forall>kv \<in> set vs. \<not> signed_key (fst kv)"
    by (simp add: plain_capability_def url_Query_def parseQuery_Encode)
qed

text \<open>The URL that is built, in parts, and the request it leads to.\<close>

lemma build_url:
  assumes "root_base rt r origin" and "canonical e" and "plain_capability (capability_text e vs)"
  shows "buildTunnelProxyURL rt t (capability_text e vs) qs r =
    Inr (origin @ url_escape EncodePath (proxy_prefix t @ e) @ ''?'' @ Values_Encode (sort_key fst vs @ qs))"
proof -
  note e = canonicalD [OF assms(2)] and v = plain_capability_query [OF assms(2,3)]
  from e(3) obtain u where u: "setPath e = Some u" "EscapedPath u = e" by blast
  have q: "(case if Values_Encode vs = [] then None else Some (Values_Encode vs) of None \<Rightarrow> [] | Some x \<Rightarrow> x)
      = Values_Encode vs" by simp
  have "parse_reference rt (capability_text e vs) = Some \<lparr>url_path = u, url_RawQuery = Values_Encode vs\<rparr>"
    using u(1) v(1) by (simp add: parse_reference_def split_capability_text [OF e(1)] q)
  moreover have "EscapedPath \<lparr>up_Path = proxy_prefix t @ e, up_RawPath = []\<rparr> = url_escape EncodePath (proxy_prefix t @ e)"
    by (simp add: EscapedPath_def proxy_prefix_def)
  ultimately show ?thesis
    using assms(1) u(2)
    by (simp add: buildTunnelProxyURL_def root_base_def trim_slashes_def trim_right_by_def url_Query_def parseQuery_Encode)
qed

lemma build_succeeds:
  assumes "normalizeTunnelCapabilityPath raw = Inr p" and "plain_capability p" and "root_base rt r origin"
  shows "\<exists>u. buildTunnelProxyURL rt t p qs r = Inr u"
proof -
  obtain e vs where "canonical e" and "p = capability_text e vs" using assms(1) by (rule normalize_form)
  with build_url [OF assms(3)] assms(2) show ?thesis by blast
qed

lemma visit_capability:
  assumes "canonical e" and "plain_capability (capability_text e vs)" and "\<forall>kv \<in> set qs. signed_key (fst kv)"
  shows "tunnelCapabilityFromProxyRequest (visit \<lparr>url_path = \<lparr>up_Path = proxy_prefix t @ e, up_RawPath = []\<rparr>,
      url_RawQuery = Values_Encode (sort_key fst vs @ qs)\<rparr>) t = Inr (capability_text e vs)"
proof -
  note e = canonicalD [OF assms(1)] and v = plain_capability_query [OF assms(1,2)]
  let ?q = "filter (\<lambda>kv. \<not> signed_key (fst kv)) (sort_key fst (sort_key fst vs @ qs))"
  have q: "Values_Encode ?q = Values_Encode vs"
    using v(2) assms(3) by (subst filter_signed_sort) (simp_all add: Values_Encode_sort)
  have pe: "proxy_prefix t @ e \<noteq> []" "e \<noteq> []" using e(2) by (auto simp: proxy_prefix_def)
  have tp: "TrimPrefix (proxy_prefix t @ e) (proxy_prefix t) = e" by (simp add: TrimPrefix_def)
  have "tunnelCapabilityFromProxyRequest (visit \<lparr>url_path = \<lparr>up_Path = proxy_prefix t @ e, up_RawPath = []\<rparr>,
      url_RawQuery = Values_Encode (sort_key fst vs @ qs)\<rparr>) t = normalizeTunnelCapabilityPath (capability_text e vs)"
    using pe by (simp add: tunnelCapabilityFromProxyRequest_def visit_def Let_def url_Query_def parseQuery_Encode q tp
        capability_text_def)
  then show ?thesis using normalize_text [OF assms(1)] by simp
qed

section \<open>A signed URL is accepted\<close>

lemma Values_Get_sort: "Values_Get (sort_key fst vs) k = Values_Get vs k"
proof -
  have f: "find_row p xs = (case filter p xs of [] \<Rightarrow> None | x # _ \<Rightarrow> Some x)" for p and xs :: url_values
    by (induction xs) auto
  show ?thesis unfolding Values_Get_def f by (simp add: sort_key_stable [where f = fst])
qed

lemma Values_Get_append: "\<forall>kv \<in> set vs. fst kv \<noteq> k \<Longrightarrow> Values_Get (vs @ qs) k = Values_Get qs k"
  by (induction vs) (simp_all add: Values_Get_def)

lemma Values_Get_signed:
  assumes "\<forall>kv \<in> set vs. \<not> signed_key (fst kv)" and "signed_key k"
  shows "Values_Get (sort_key fst (sort_key fst vs @ qs)) k = Values_Get qs k"
  using assms by (simp add: Values_Get_sort) (rule Values_Get_append, auto)

lemma trimmed_signature: "\<forall>k m. ro_HMAC rt k m \<noteq> [] \<Longrightarrow> TrimSpace (signTunnelCapability rt t p x) \<noteq> []"
  using RawURL_chars by (simp add: signTunnelCapability_def TrimSpace_no_space)

lemma trimmed_number: "0 \<le> n \<Longrightarrow> TrimSpace (fmt_int n) \<noteq> []"
  using fmt_nat_clean by (simp add: fmt_int_def TrimSpace_no_space)

lemma validate_signed:
  assumes "0 \<le> n" and "n < 2 ^ 40" and "\<forall>k m. ro_HMAC rt k m \<noteq> []" and "w_clock v 0 \<le> n * 1000000000"
  shows "fst (validateTunnelCapability rt t p (fmt_int n) (signTunnelCapability rt t p (fmt_int n)) [] v) = Inr True"
proof -
  have "in_int64 n" "in_int64 (n + 62135596800)"
    using assms(1,2) by (simp_all add: in_int64_def min_int64_def max_int64_def)
  then have "ParseInt (fmt_int n) = Some n" "Unix_time n = n * 1000000000"
    by (simp_all add: ParseInt_fmt_int Unix_time_def)
  with assms trimmed_number [of n] trimmed_signature [of rt t p "fmt_int n"] show ?thesis
    by (simp add: validateTunnelCapability_def bindE_def now_utc_def not_less)
qed

lemma issue_signed_url_Inr:
  assumes "issue_signed_url rt svc r t req w = (Inr (Replied code su), w')" and "\<not> su_OneTime req"
    and "normalizeTunnelCapabilityPath (su_Path req) = Inr p"
  shows "0 < signed_url_ttl rt req \<and> signed_url_ttl rt req \<le> tunnelSignedURLMaxTTL \<and>
    sd_ExpiresAt su = w_clock w 0 + signed_url_ttl rt req \<and>
    (let x = fmt_int (sd_ExpiresAt su div 1000000000) in
     buildTunnelProxyURL rt (tun_ID t) p [(tunnelSignedURLExpiryKey, x),
       (tunnelSignedURLSigKey, signTunnelCapability rt (tun_ID t) p x)] r = Inr (sd_URL su))"
  using assms
  by (auto simp: issue_signed_url_def issue_capability_def or_reply_def tryE_def Let_def now_utc_def
      elim!: bindE_InrE thenE_InrE split: if_splits sum.splits)

lemma audit_then:
  "thenE (RecordAuditEvent a b c d e f) (okE x) v = (Inr x, snd (RecordAuditEvent a b c d e f v))"
  by (simp add: RecordAuditEvent_def recordAudit_def newID_def now_utc_def thenE_def bindE_def ignoreE_def tryE_def
      split: prod.split)

lemma issue_signed_url_succeeds:
  assumes "normalizeTunnelCapabilityPath (su_Path req) = Inr p" and "\<not> su_OneTime req"
    and "0 < signed_url_ttl rt req" and "signed_url_ttl rt req \<le> tunnelSignedURLMaxTTL"
    and "x = w_clock w 0 + signed_url_ttl rt req"
    and "buildTunnelProxyURL rt (tun_ID t) p [(tunnelSignedURLExpiryKey, fmt_int (x div 1000000000)),
       (tunnelSignedURLSigKey, signTunnelCapability rt (tun_ID t) p (fmt_int (x div 1000000000)))] r = Inr u"
  shows "\<exists>w'. issue_signed_url rt svc r t req w =
    (Inr (Replied 200 \<lparr>sd_URL = u, sd_ExpiresAt = x, sd_CapabilityID = []\<rparr>), w')"
  using assms
  by (simp add: issue_signed_url_def issue_capability_def or_reply_def tryE_def Let_def now_utc_def audit_then
      bindE_def [of "\<lambda>w. (Inr (w_clock w 0), w\<lparr>w_clock := \<lambda>n. w_clock w (Suc n)\<rparr>)"])


text \<open>A router whose keyed hash is the message itself, and a launch request.\<close>

definition demo_router :: router where
  "demo_router = \<lparr>ro_operatorHost = ''https://sandbox.example'', ro_tunnelSigningKey = ''k'',
     ro_deploymentMode = ''production'', ro_HMAC = (\<lambda>k m. ''#'' @ k @ m),
     ro_ParseBase = (\<lambda>s. Inr \<lparr>bu_prefix = s, bu_path = \<lparr>up_Path = [], up_RawPath = []\<rparr>\<rparr>), ro_AuthorityOK = (\<lambda>_. True)\<rparr>"

definition demo_post :: http_request where
  "demo_post = \<lparr>hr_Method = ''POST'', hr_URL = \<lparr>url_path = \<lparr>up_Path = ''/'', up_RawPath = []\<rparr>, url_RawQuery = []\<rparr>,
     hr_Header = [], hr_TLS = True, hr_Host = ''sandbox.example''\<rparr>"

definition demo_launch :: "string \<Rightarrow> bool \<Rightarrow> signed_url_request" where
  "demo_launch p once = \<lparr>su_Path = p, su_TTLSeconds = 60, su_OneTime = once\<rparr>"

lemma demo_clock: "w_clock running_world 0 = 0"
  by (simp add: running_world_def sample_world_def)

lemma demo_root: "root_base demo_router demo_post ''https://sandbox.example''"
  by (simp add: root_base_def demo_router_def base_of_def)

lemma demo_path:
  "normalizeTunnelCapabilityPath (su_Path (demo_launch ''/app?z=1&a=b'' False)) = Inr ''/app?a=b&z=1''"
  "plain_capability ''/app?a=b&z=1''" by code_simp+

lemma demo_plain: "\<not> su_OneTime (demo_launch p False)"
  by (simp add: demo_launch_def)

lemma demo_issue:
  obtains u w' where "issue_signed_url demo_router dev_service demo_post sample_tunnel (demo_launch ''/app?z=1&a=b'' False) running_world
    = (Inr (Replied 200 \<lparr>sd_URL = u, sd_ExpiresAt = 60000000000, sd_CapabilityID = []\<rparr>), w')"
proof -
  let ?req = "demo_launch ''/app?z=1&a=b'' False" and ?p = "''/app?a=b&z=1''"
  have ttl: "signed_url_ttl demo_router ?req = 60000000000" by code_simp
  have "\<exists>u. buildTunnelProxyURL demo_router (tun_ID sample_tunnel) ?p
      [(tunnelSignedURLExpiryKey, fmt_int (60000000000 div 1000000000)),
       (tunnelSignedURLSigKey, signTunnelCapability demo_router (tun_ID sample_tunnel) ?p (fmt_int (60000000000 div 1000000000)))]
      demo_post = Inr u"
    by (rule build_succeeds [OF demo_path demo_root])
  then obtain u where u: "buildTunnelProxyURL demo_router (tun_ID sample_tunnel) ?p
      [(tunnelSignedURLExpiryKey, fmt_int (60000000000 div 1000000000)),
       (tunnelSignedURLSigKey, signTunnelCapability demo_router (tun_ID sample_tunnel) ?p (fmt_int (60000000000 div 1000000000)))]
      demo_post = Inr u" by blast
  have t: "0 < signed_url_ttl demo_router ?req" "signed_url_ttl demo_router ?req \<le> tunnelSignedURLMaxTTL"
    "60000000000 = w_clock running_world 0 + signed_url_ttl demo_router ?req" by (simp_all add: ttl demo_clock)
  from issue_signed_url_succeeds [OF demo_path(1) demo_plain t u, of dev_service] that show thesis by (elim exE)
qed


text \<open>
  The conditions on the path are needed: for a path with an authority, or with a parameter of signed URLs of its own, the
  router issues a URL that it then refuses.
\<close>

definition opened :: "string \<Rightarrow> (goerr + browser_session) option" where
  "opened p =
     (case fst (issue_signed_url demo_router dev_service demo_post sample_tunnel (demo_launch p False) running_world) of
        Inr (Replied code su) \<Rightarrow>
          map_option (\<lambda>u. fst (authorizeTunnelBrowserSession demo_router (visit u) sample_tunnel running_world))
            (ParseRequestURI (drop (length ''https://sandbox.example'') (sd_URL su)))
      | _ \<Rightarrow> None)"

lemma unplain_urls_refused:
  "opened ''//x/y'' = Some (Inr NotAuthorized)" "opened ''/app?or3_exp=1'' = Some (Inr NotAuthorized)"
  by code_simp+

section \<open>What a signature authorises\<close>

lemma message_injective:
  assumes "signed_message t p x = signed_message t' p' x'"
    and "CHR '':'' \<notin> set t" and "CHR '':'' \<notin> set t'" and "CHR '':'' \<notin> set x" and "CHR '':'' \<notin> set x'"
  shows "t = t' \<and> p = p' \<and> x = x'"
proof -
  from assms(1) have "t @ CHR '':'' # (p @ CHR '':'' # x) = t' @ CHR '':'' # (p' @ CHR '':'' # x')"
    by (simp add: signed_message_def)
  then have t: "t = t'" "p @ CHR '':'' # x = p' @ CHR '':'' # x'"
    using split_first_append [OF assms(2)] split_first_append [OF assms(3)] by (metis Pair_inject option.inject)+
  then have "rev x @ CHR '':'' # rev p = rev x' @ CHR '':'' # rev p'" by (metis append.assoc append_Cons append_Nil rev.simps(2) rev_append)
  then have "rev x = rev x'" "rev p = rev p'"
    using split_first_append [of "CHR '':''" "rev x"] split_first_append [of "CHR '':''" "rev x'"] assms(4,5)
    by (metis Pair_inject option.inject set_rev)+
  with t show ?thesis by simp
qed

lemma ParseInt_no_colon: "ParseInt s = Some n \<Longrightarrow> CHR '':'' \<notin> set s"
proof -
  have d: "parse_digits k xs = Some m \<Longrightarrow> CHR '':'' \<notin> set xs" for k m xs
  proof (induction k xs arbitrary: m rule: parse_digits.induct)
    case (2 acc c cs)
    have "digit_val (CHR '':'') = None" by code_simp
    with 2 show ?case by (auto split: option.splits)
  qed simp
  then have "parse_uint xs = Some m \<Longrightarrow> CHR '':'' \<notin> set xs" for m xs by (simp add: parse_uint_def split: if_splits)
  then show "ParseInt s = Some n \<Longrightarrow> CHR '':'' \<notin> set s"
    by (fastforce simp: ParseInt_def bind_eq_Some_conv split: list.splits if_splits)
qed

lemma validate_sound:
  assumes "validateTunnelCapability rt t p x sig c w = (Inr True, w')"
  shows "sig = signTunnelCapability rt t p x \<and> (\<exists>n. ParseInt x = Some n \<and> w_clock w 0 \<le> Unix_time n)"
  using assms
  by (auto simp: validateTunnelCapability_def bindE_def now_utc_def split: if_splits option.splits)

text \<open>
  C16: a signature is bound to one tunnel, one path and one expiry. When the keyed hash has no collisions, a
  signature made for a tunnel, path and expiry is accepted for no other tunnel, path or expiry, and not
  after that expiry.
\<close>

theorem signature_binds:
  assumes "validateTunnelCapability rt t p x sig c w = (Inr True, w')"
    and "sig = signTunnelCapability rt t' p' (fmt_int n)" and "in_int64 n"
    and "ro_HMAC rt (ro_tunnelSigningKey rt) (signed_message t p x)
       = ro_HMAC rt (ro_tunnelSigningKey rt) (signed_message t' p' (fmt_int n)) \<longrightarrow>
         signed_message t p x = signed_message t' p' (fmt_int n)"
    and "CHR '':'' \<notin> set t" and "CHR '':'' \<notin> set t'"
  shows "t = t' \<and> p = p' \<and> x = fmt_int n \<and> w_clock w 0 \<le> Unix_time n"
proof -
  from validate_sound [OF assms(1)] obtain m where s: "sig = signTunnelCapability rt t p x"
    and m: "ParseInt x = Some m" "w_clock w 0 \<le> Unix_time m" by blast
  have "RawURL_EncodeToString a = RawURL_EncodeToString b \<Longrightarrow> a = b" for a b
    by (metis RawURL_roundtrip sum.inject(2))
  with s assms(2,4) have msg: "signed_message t p x = signed_message t' p' (fmt_int n)"
    by (simp add: signTunnelCapability_def)
  note n = ParseInt_fmt_int [OF assms(3)]
  from message_injective [OF msg assms(5,6) ParseInt_no_colon [OF m(1)] ParseInt_no_colon [OF n]]
  show ?thesis using m n by auto
qed

theorem signature_binds_witness:
  "fst (validateTunnelCapability demo_router ''tun-1'' ''/'' ''60'' (signTunnelCapability demo_router ''tun-1'' ''/'' (fmt_int 60)) []
     running_world) = Inr True \<and> w_clock running_world 0 \<le> Unix_time 60"
proof -
  let ?run = "validateTunnelCapability demo_router ''tun-1'' ''/'' ''60'' (signTunnelCapability demo_router ''tun-1'' ''/'' (fmt_int 60)) []
     running_world"
  have f: "fst ?run = Inr True" by code_simp
  then have r: "?run = (Inr True, snd ?run)" by (metis prod.collapse)
  have i: "in_int64 60" and c: "CHR '':'' \<notin> set ''tun-1''" by code_simp+
  have h: "ro_HMAC demo_router (ro_tunnelSigningKey demo_router) (signed_message ''tun-1'' ''/'' ''60'')
       = ro_HMAC demo_router (ro_tunnelSigningKey demo_router) (signed_message ''tun-1'' ''/'' (fmt_int 60)) \<longrightarrow>
         signed_message ''tun-1'' ''/'' ''60'' = signed_message ''tun-1'' ''/'' (fmt_int 60)"
    by (simp add: demo_router_def)
  from signature_binds [OF r refl i h c c] f show ?thesis by blast
qed

text \<open>
  C19: one-time URLs are not one-time. The signature does not cover the capability identifier, so whatever a
  signed URL with a one-time capability is accepted for, the same URL without its capability parameter is
  accepted for too, at any later moment before it expires, as often as wanted and also after the
  capability has been consumed or revoked.
\<close>

theorem one_time_url_reusable:
  assumes "validateTunnelCapability rt t p x sig c w = (Inr True, w')"
    and "w_clock v 0 \<le> Unix_time (the (ParseInt x))"
  shows "fst (validateTunnelCapability rt t p x sig [] v) = Inr True"
  using assms
  by (auto simp: validateTunnelCapability_def bindE_def now_utc_def split: if_splits option.splits)

definition once_world :: "unit world" where
  "once_world = running_world\<lparr>w_db := running_db\<lparr>db_tunnels := [sample_tunnel],
     db_capabilities := [sample_capability\<lparr>cap_ExpiresAt := 60000000000\<rparr>]\<rparr>\<rparr>"

theorem one_time_url_reusable_witness:
  "fst (validateTunnelCapability demo_router ''tun-1'' ''/'' ''60'' (signTunnelCapability demo_router ''tun-1'' ''/'' ''60'') ''cap-1'' once_world)
     = Inr True \<and>
   fst (validateTunnelCapability demo_router ''tun-1'' ''/'' ''60'' (signTunnelCapability demo_router ''tun-1'' ''/'' ''60'') ''cap-1''
     (snd (validateTunnelCapability demo_router ''tun-1'' ''/'' ''60'' (signTunnelCapability demo_router ''tun-1'' ''/'' ''60'') ''cap-1'' once_world)))
     = Inr False \<and>
   fst (validateTunnelCapability demo_router ''tun-1'' ''/'' ''60'' (signTunnelCapability demo_router ''tun-1'' ''/'' ''60'') []
     (snd (validateTunnelCapability demo_router ''tun-1'' ''/'' ''60'' (signTunnelCapability demo_router ''tun-1'' ''/'' ''60'') ''cap-1'' once_world)))
     = Inr True"
proof -
  let ?val = "validateTunnelCapability demo_router ''tun-1'' ''/'' ''60'' (signTunnelCapability demo_router ''tun-1'' ''/'' ''60'')"
  have f: "fst (?val ''cap-1'' once_world) = Inr True" by code_simp
  then have r: "?val ''cap-1'' once_world = (Inr True, snd (?val ''cap-1'' once_world))" by (metis prod.collapse)
  have g: "fst (?val ''cap-1'' (snd (?val ''cap-1'' once_world))) = Inr False"
    and c: "w_clock (snd (?val ''cap-1'' once_world)) 0 \<le> Unix_time (the (ParseInt ''60''))" by code_simp+
  from f g one_time_url_reusable [OF r c] show ?thesis by blast
qed

section \<open>The decision of the proxy\<close>

text \<open>A browser session: a cookie with an unexpired signature for this tunnel that covers the request.\<close>

definition session_cookie :: "router \<Rightarrow> http_request \<Rightarrow> tunnel \<Rightarrow> time \<Rightarrow> bool" where
  "session_cookie rt r t now \<longleftrightarrow> (\<exists>value p x sig c n requested.
     Cookie r tunnelAuthCookieName = Some value \<and> parseTunnelAuthCookie value = Some (p, x, sig, c) \<and>
     sig = signTunnelCapability rt (tun_ID t) p x \<and> ParseInt x = Some n \<and> now \<le> Unix_time n \<and>
     tunnelCapabilityFromProxyRequest r (tun_ID t) = Inr requested \<and> tunnelCapabilityAllowsRequest p requested)"

lemma cookie_session_sound:
  assumes "cookie_session rt r t requested w = (Inr True, w')"
    and "tunnelCapabilityFromProxyRequest r (tun_ID t) = Inr requested"
  shows "session_cookie rt r t (w_clock w 0)"
proof -
  from assms(1) obtain val p x sig c w1 where "Cookie r tunnelAuthCookieName = Some val"
    "parseTunnelAuthCookie val = Some (p, x, sig, c)"
    and v: "validateTunnelCapability rt (tun_ID t) p x sig c w = (Inr True, w1)" and a: "tunnelCapabilityAllowsRequest p requested"
    by (auto simp: cookie_session_def bind_eq_Some_conv elim!: bindE_InrE split: option.splits)
  with validate_sound [OF v] a assms(2) show ?thesis unfolding session_cookie_def by blast
qed

lemma browser_session_sound:
  assumes "authorizeTunnelBrowserSession rt r t w = (Inr CookieAuthorized, w')"
  shows "session_cookie rt r t (w_clock w 0)"
proof -
  from assms obtain requested w1 where "tunnelCapabilityFromProxyRequest r (tun_ID t) = Inr requested"
    and "cookie_session rt r t requested w = (Inr True, w1)"
    by (auto simp: authorizeTunnelBrowserSession_def Let_def elim!: bindE_InrE split: sum.splits if_splits)
  then show ?thesis using cookie_session_sound by blast
qed

lemma deny_never_forwards: "deny_proxy q t detail (ProxyFailed a b c) w \<noteq> (Inr (ProxyForward t' s k src), w')"
  by (auto simp: deny_proxy_def thenE_def bindE_def split: prod.splits sum.splits)

lemma authorize_proxy_sound:
  assumes "authorize_proxy svc ctx r t s q browser w = (Inr (ProxyForward t' s' k src), w')"
  shows "t' = t \<and> s' = s \<and> (tun_Visibility t = ''public'' \<or> own_tenant ctx t \<or> browser) \<and>
    (tun_AuthMode t = ''token'' \<longrightarrow> browser \<or> (\<exists>tok. fst (presented_token r) = tok \<and> tok \<noteq> [] \<and>
       svc_HashToken svc tok = tun_AuthSecretHash t))"
  using assms by (auto simp: authorize_proxy_def Let_def deny_never_forwards split: if_splits prod.splits)

lemma GetTunnelForProxy_Inr:
  assumes "GetTunnelForProxy i w = (Inr (t, s), w')"
  shows "t \<in> set (db_tunnels (w_db w)) \<and> tun_ID t = i \<and> w_clock w' = w_clock w"
  using assms
  by (auto simp: GetTunnelForProxy_def Store_GetTunnelByID_def Store_GetSandbox_def sql_query_def Let_def not_found_or_def
      elim!: bindE_InrE dest!: find_row_Some_set split: if_splits option.splits)

text \<open>
  C15: the proxy forwards only authorised requests. A request that is passed on to a sandbox is for a stored
  tunnel that is not revoked; a tunnel that is not public is reached by its own tenant or through a browser
  session only; and one with token authentication only with a token that hashes to the stored secret, or
  through a browser session. A browser session is a cookie with an unexpired signature of this tunnel whose
  path covers the request.
\<close>

theorem proxy_authorized:
  assumes "handleTunnelProxy rt svc ctx r i w = (Inr (ProxyForward t s k src), w')"
  shows "t \<in> set (db_tunnels (w_db w)) \<and> tun_ID t = i \<and> tun_RevokedAt t = None \<and>
    (tun_Visibility t = ''public'' \<or> own_tenant ctx t \<or> session_cookie rt r t (w_clock w 0)) \<and>
    (tun_AuthMode t = ''token'' \<longrightarrow> session_cookie rt r t (w_clock w 0) \<or>
       (\<exists>tok. fst (presented_token r) = tok \<and> tok \<noteq> [] \<and> svc_HashToken svc tok = tun_AuthSecretHash t))"
proof -
  obtain res w1 where g: "GetTunnelForProxy i w = (res, w1)" by force
  from assms g obtain t0 s0 where r: "res = Inr (t0, s0)"
    by (auto simp: handleTunnelProxy_def tryE_def split: sum.splits prod.splits)
  note t0 = GetTunnelForProxy_Inr [OF g [unfolded r]]
  from assms g r have nr: "tun_RevokedAt t0 = None"
    by (auto simp: handleTunnelProxy_def tryE_def Let_def deny_never_forwards split: if_splits)
  with assms g r obtain session w2 q where b: "authorizeTunnelBrowserSession rt r t0 w1 = (Inr session, w2)"
    and a: "session = CookieAuthorized \<and> authorize_proxy svc ctx r t0 s0 q True w2 = (Inr (ProxyForward t s k src), w') \<or>
       session = NotAuthorized \<and> authorize_proxy svc ctx r t0 s0 q False w2 = (Inr (ProxyForward t s k src), w')"
    by (auto simp: handleTunnelProxy_def tryE_def Let_def elim!: bindE_InrE split: browser_session.splits)
  from a show ?thesis
  proof
    assume c: "session = CookieAuthorized \<and> authorize_proxy svc ctx r t0 s0 q True w2 = (Inr (ProxyForward t s k src), w')"
    then have "session_cookie rt r t0 (w_clock w1 0)" using b browser_session_sound by blast
    moreover have "t = t0" using c authorize_proxy_sound by blast
    ultimately show ?thesis using t0 nr by simp
  next
    assume "session = NotAuthorized \<and> authorize_proxy svc ctx r t0 s0 q False w2 = (Inr (ProxyForward t s k src), w')"
    then have "authorize_proxy svc ctx r t0 s0 q False w2 = (Inr (ProxyForward t s k src), w')" by blast
    from authorize_proxy_sound [OF this] t0 nr show ?thesis by auto
  qed
qed

definition token_request :: http_request where
  "token_request = \<lparr>hr_Method = ''POST'', hr_URL = \<lparr>url_path = \<lparr>up_Path = ''/v1/tunnels/tun-1/proxy/x'', up_RawPath = []\<rparr>,
     url_RawQuery = ''token=other''\<rparr>, hr_Header = [(''X-Tunnel-Token'', ''s3''), (''Cookie'', ''a=b; or3_tunnel_auth=c; d=e'')],
     hr_TLS = True, hr_Host = ''sandbox.example''\<rparr>"

theorem proxy_authorized_witness:
  "\<exists>t s k src w'. handleTunnelProxy demo_router dev_service (Some (scoped_context)) token_request ''tun-1''
     (once_world\<lparr>w_db := (w_db once_world)\<lparr>db_tunnels := [sample_tunnel\<lparr>tun_AuthSecretHash := ''#s3''\<rparr>]\<rparr>\<rparr>)
       = (Inr (ProxyForward t s k src), w') \<and> tun_RevokedAt t = None \<and>
     (tun_Visibility t = ''public'' \<or> own_tenant (Some scoped_context) t \<or>
       session_cookie demo_router token_request t (w_clock once_world 0))"
proof -
  let ?w = "once_world\<lparr>w_db := (w_db once_world)\<lparr>db_tunnels := [sample_tunnel\<lparr>tun_AuthSecretHash := ''#s3''\<rparr>]\<rparr>\<rparr>"
  let ?run = "handleTunnelProxy demo_router dev_service (Some (scoped_context)) token_request ''tun-1'' ?w"
  have "case fst ?run of Inr (ProxyForward t s k src) \<Rightarrow> True | _ \<Rightarrow> False" by code_simp
  then obtain t s k src where run: "?run = (Inr (ProxyForward t s k src), snd ?run)"
    by (cases ?run) (auto split: sum.splits proxy_reply.splits)
  have c: "w_clock ?w 0 = w_clock once_world 0" by simp
  from proxy_authorized [OF run, unfolded c] have "tun_RevokedAt t = None" and
    "tun_Visibility t = ''public'' \<or> own_tenant (Some scoped_context) t \<or> session_cookie demo_router token_request t (w_clock once_world 0)"
    by blast+
  with run show ?thesis by blast
qed

section \<open>What is forwarded\<close>

lemma split_join_semicolon:
  assumes "\<forall>p \<in> set ps. CHR '';'' \<notin> set p" and "ps \<noteq> []"
  shows "split_on (CHR '';'') (join_with ''; '' ps) = hd ps # map ((#) (CHR '' '')) (tl ps)"
  using assms
proof (induction "''; ''" ps rule: join_with.induct)
  case (2 s)
  then show ?case by (simp add: split_on_no_sep)
next
  case (3 s t ts)
  then have ih: "split_on (CHR '';'') (join_with ''; '' (t # ts)) = t # map ((#) (CHR '' '')) ts" by simp
  have "split_on (CHR '';'') (s @ CHR '';'' # (CHR '' '' # join_with ''; '' (t # ts)))
      = s # split_on (CHR '';'') (CHR '' '' # join_with ''; '' (t # ts))"
    using 3 by (intro split_on_append_sep) simp
  also have "\<dots> = s # (CHR '' '' # t) # map ((#) (CHR '' '')) ts" using ih by simp
  finally show ?case by simp
qed simp

lemma TrimSpace_blank: "TrimSpace (CHR '' '' # s) = TrimSpace s"
  by (simp add: TrimSpace_def trim_left_by_def is_space_def)

lemma filter_cookies_parts:
  assumes "p \<in> set (split_on (CHR '';'') (filter_cookies line))"
  shows "\<not> HasPrefix (TrimSpace p) (tunnelAuthCookieName @ ''='')"
proof -
  define ps where "ps = filter (\<lambda>p. p \<noteq> [] \<and> \<not> HasPrefix p (tunnelAuthCookieName @ ''=''))
       (map TrimSpace (split_on (CHR '';'') line))"
  have f: "filter_cookies line = join_with ''; '' ps" by (simp add: filter_cookies_def ps_def)
  have good: "\<not> HasPrefix (TrimSpace x) (tunnelAuthCookieName @ ''='') \<and> CHR '';'' \<notin> set x" if "x \<in> set ps" for x
  proof -
    from that obtain y where "x = TrimSpace y" "y \<in> set (split_on (CHR '';'') line)" "\<not> HasPrefix x (tunnelAuthCookieName @ ''='')"
      by (auto simp: ps_def)
    then show ?thesis using split_on_parts_no_sep set_TrimSpace by fastforce
  qed
  show ?thesis
  proof (cases "ps = []")
    case True
    then show ?thesis using assms f by (simp add: HasPrefix_def)
  next
    case False
    then have "p = hd ps \<or> (\<exists>x \<in> set (tl ps). p = CHR '' '' # x)"
      using assms good unfolding f by (subst (asm) split_join_semicolon) auto
    then show ?thesis using good False by (metis TrimSpace_blank hd_in_set list.set_sel(2))
  qed
qed

lemma sanitized_header:
  assumes "(name, text) \<in> set (sanitizeTunnelProxyRequest h)"
  shows "name \<notin> {''Authorization'', ''X-Tunnel-Token''} \<and>
    (name = ''Cookie'' \<longrightarrow> (\<forall>p \<in> set (split_on (CHR '';'') text). \<not> HasPrefix (TrimSpace p) (tunnelAuthCookieName @ ''='')))"
  using assms by (auto simp: sanitizeTunnelProxyRequest_def Let_def Header_Del_def Header_Values_def dest: filter_cookies_parts)

lemma websocket_header: "(name, text) \<in> set (ups_Header (websocket_request r t k)) \<Longrightarrow> name \<in> {''Origin'', ''User-Agent''}"
  by (auto simp: websocket_request_def split: if_splits)

lemma authorize_proxy_token:
  assumes "authorize_proxy svc ctx r t0 s0 q b w = (Inr (ProxyForward t s k src), w')"
  shows "k = (if tun_AuthMode t = ''token'' then snd (presented_token r) else [])"
  using assms by (auto simp: authorize_proxy_def deny_proxy_def Let_def okE_def elim!: thenE_InrE split: if_splits prod.splits)

lemma proxy_token:
  assumes "handleTunnelProxy rt svc ctx r i w = (Inr (ProxyForward t s k src), w')"
  shows "k = (if tun_AuthMode t = ''token'' \<and> Header_Get r ''X-Tunnel-Token'' = [] then Values_Get (url_Query (hr_URL r)) ''token'' else [])"
proof -
  from assms obtain t0 s0 q b w2 where "authorize_proxy svc ctx r t0 s0 q b w2 = (Inr (ProxyForward t s k src), w')"
    by (auto simp: handleTunnelProxy_def deny_proxy_def tryE_def Let_def elim!: bindE_InrE thenE_InrE
        split: browser_session.splits prod.splits sum.splits if_splits)
  from authorize_proxy_token [OF this] show ?thesis by (simp add: presented_token_def Let_def)
qed

text \<open>
  C18: which credentials reach the sandbox. A request that the proxy forwards, as HTTP or as a WebSocket, has no
  \<open>Authorization\<close> and no \<open>X-Tunnel-Token\<close> header, and no part of its cookies starts with the name of the tunnel
  session and an equals sign. Of the query exactly the parameters of signed URLs are dropped, and the parameter
  \<open>token\<close> with the value the request presents, provided the tunnel asks for a token and the header does not carry one.
  So a token that stands in the header and in the query as well reaches the sandbox.
\<close>

theorem forwarded_credentials:
  assumes "handleTunnelProxy rt svc ctx r i w = (Inr (ProxyForward t s k src), w')"
    and "up \<in> {upstream_request client r t k, websocket_request r t k}"
  shows "(\<forall>(name, text) \<in> set (ups_Header up). name \<notin> {''Authorization'', ''X-Tunnel-Token''} \<and>
      (name = ''Cookie'' \<longrightarrow> (\<forall>p \<in> set (split_on (CHR '';'') text). \<not> HasPrefix (TrimSpace p) (tunnelAuthCookieName @ ''='')))) \<and>
    (\<forall>name v. (name, v) \<in> set (ups_Query up) \<longleftrightarrow> (name, v) \<in> set (url_Query (hr_URL r)) \<and> \<not> signed_key name \<and>
      \<not> (name = ''token'' \<and> v \<noteq> [] \<and> v = Values_Get (url_Query (hr_URL r)) ''token'' \<and>
         tun_AuthMode t = ''token'' \<and> Header_Get r ''X-Tunnel-Token'' = []))"
proof
  from assms(2) consider "ups_Header up = sanitizeTunnelProxyRequest (proxied_header client r)" | "up = websocket_request r t k"
    by (auto simp: upstream_request_def)
  then show "\<forall>(name, text) \<in> set (ups_Header up). name \<notin> {''Authorization'', ''X-Tunnel-Token''} \<and>
      (name = ''Cookie'' \<longrightarrow> (\<forall>p \<in> set (split_on (CHR '';'') text). \<not> HasPrefix (TrimSpace p) (tunnelAuthCookieName @ ''='')))"
    by cases (auto dest: sanitized_header websocket_header)
  have "ups_Query up = tunnelUpstreamQuery (url_Query (hr_URL r)) k"
    using assms(2) by (auto simp: upstream_request_def websocket_request_def)
  then show "\<forall>name v. (name, v) \<in> set (ups_Query up) \<longleftrightarrow> (name, v) \<in> set (url_Query (hr_URL r)) \<and> \<not> signed_key name \<and>
      \<not> (name = ''token'' \<and> v \<noteq> [] \<and> v = Values_Get (url_Query (hr_URL r)) ''token'' \<and>
         tun_AuthMode t = ''token'' \<and> Header_Get r ''X-Tunnel-Token'' = [])"
    unfolding proxy_token [OF assms(1)] by (auto simp: tunnelUpstreamQuery_def)
qed

definition doubled_request :: http_request where
  "doubled_request = token_request\<lparr>hr_URL := \<lparr>url_path = \<lparr>up_Path = ''/v1/tunnels/tun-1/proxy/x'', up_RawPath = []\<rparr>,
     url_RawQuery = ''token=s3''\<rparr>\<rparr>"

theorem forwarded_credentials_witness:
  "\<exists>t s k src w'. handleTunnelProxy demo_router dev_service (Some (scoped_context)) doubled_request ''tun-1''
     (once_world\<lparr>w_db := (w_db once_world)\<lparr>db_tunnels := [sample_tunnel\<lparr>tun_AuthSecretHash := ''#s3''\<rparr>]\<rparr>\<rparr>)
       = (Inr (ProxyForward t s k src), w') \<and>
     (''token'', ''s3'') \<in> set (ups_Query (upstream_request None doubled_request t k)) \<and>
     (\<forall>(name, text) \<in> set (ups_Header (upstream_request None doubled_request t k)). name \<notin> {''Authorization'', ''X-Tunnel-Token''})"
proof -
  let ?w = "once_world\<lparr>w_db := (w_db once_world)\<lparr>db_tunnels := [sample_tunnel\<lparr>tun_AuthSecretHash := ''#s3''\<rparr>]\<rparr>\<rparr>"
  let ?run = "handleTunnelProxy demo_router dev_service (Some (scoped_context)) doubled_request ''tun-1'' ?w"
  have "case fst ?run of Inr (ProxyForward t s k src) \<Rightarrow> True | _ \<Rightarrow> False" by code_simp
  then obtain t s k src where run: "?run = (Inr (ProxyForward t s k src), snd ?run)"
    by (cases ?run) (auto split: sum.splits proxy_reply.splits)
  have "(''token'', ''s3'') \<in> set (url_Query (hr_URL doubled_request))" "\<not> signed_key ''token''"
    "Header_Get doubled_request ''X-Tunnel-Token'' \<noteq> []" by code_simp+
  moreover note c = forwarded_credentials [OF run, of "upstream_request None doubled_request t k" None]
  ultimately have "(''token'', ''s3'') \<in> set (ups_Query (upstream_request None doubled_request t k))" by blast
  with run c show ?thesis by fast
qed

lemma trim_right_last: "v \<noteq> [] \<Longrightarrow> \<not> p (last v) \<Longrightarrow> trim_right_by p (u @ v) = u @ v"
  by (cases v rule: rev_cases) (simp_all add: trim_right_by_def)

text \<open>A session cookie with a blank before the equals sign is read by the proxy and not removed from the request.\<close>

lemma spaced_cookie_forwarded:
  assumes "hr_Header r = [(''Cookie'', tunnelAuthCookieName @ '' ='' @ v)]" and "list_all cookie_value_char v"
    and "v \<noteq> []" and "\<not> is_space (last v)"
  shows "Cookie r tunnelAuthCookieName = Some v \<and> filter_cookies (tunnelAuthCookieName @ '' ='' @ v) = tunnelAuthCookieName @ '' ='' @ v"
proof -
  let ?line = "tunnelAuthCookieName @ '' ='' @ v"
  have v: "CHR '';'' \<notin> set v" "CHR 0x22 \<notin> set v" using assms(2) by (auto simp: list_all_iff cookie_value_char_def)
  have one: "split_on (CHR '';'') ?line = [?line]" using v(1) by (intro split_on_no_sep) simp
  have trim: "trim_blanks ?line = ?line" "TrimSpace ?line = ?line"
    using assms(3,4) trim_right_last [of v _ "tunnelAuthCookieName @ '' =''"]
    by (simp_all add: trim_blanks_def TrimSpace_def trim_left_by_def is_space_def)
  have first: "split_first (CHR ''='') ?line = (tunnelAuthCookieName @ '' '', Some v)"
    using split_first_append [of "CHR ''=''" "tunnelAuthCookieName @ '' ''" v] by simp
  have name: "trim_blanks (tunnelAuthCookieName @ '' '') = tunnelAuthCookieName" "list_all token_char tunnelAuthCookieName" by code_simp+
  have "hd v \<noteq> CHR 0x22" using v(2) assms(3) by (metis hd_in_set)
  then have "parseCookieValue v = Some v" using assms(2) by (simp add: parseCookieValue_def)
  then have "read_cookie ?line = Some (tunnelAuthCookieName, v)"
    unfolding read_cookie_def Let_def trim first by (simp add: name [simplified])
  then have "Cookie r tunnelAuthCookieName = Some v"
    by (simp add: Cookie_def assms(1) Header_Values_def one [simplified] List.map_filter_def)
  moreover have "filter_cookies ?line = ?line"
    unfolding filter_cookies_def one by (simp add: trim [simplified] HasPrefix_def)
  ultimately show ?thesis by blast
qed

section \<open>The session cookie\<close>

lemma splitN_parts:
  assumes "CHR ''.'' \<notin> set a" and "CHR ''.'' \<notin> set b" and "CHR ''.'' \<notin> set c"
  shows "splitN 4 (CHR ''.'') (a @ ''.'' @ b @ ''.'' @ c) = [a, b, c]"
    and "splitN 4 (CHR ''.'') (a @ ''.'' @ b @ ''.'' @ c @ ''.'' @ d) = [a, b, c, d]"
proof -
  have four: "4 = Suc (Suc (Suc (Suc 0)))" by simp
  show "splitN 4 (CHR ''.'') (a @ ''.'' @ b @ ''.'' @ c) = [a, b, c]"
    and "splitN 4 (CHR ''.'') (a @ ''.'' @ b @ ''.'' @ c @ ''.'' @ d) = [a, b, c, d]"
    unfolding four using assms by (simp_all add: split_first_append split_first_none)
qed

text \<open>
  The session cookie reads back as it was written: the path, the expiry, the signature and the
  capability it names, whatever bytes path and capability consist of.
\<close>

theorem auth_cookie_roundtrip:
  assumes "p \<noteq> []" and "CHR ''.'' \<notin> set x" and "CHR ''.'' \<notin> set sig"
    and "TrimSpace x \<noteq> []" and "TrimSpace sig \<noteq> []"
  shows "parseTunnelAuthCookie (tunnelAuthCookieValue p x sig c) = Some (p, x, sig, if TrimSpace c = [] then [] else c)"
proof -
  have nd: "CHR ''.'' \<notin> set (RawURL_EncodeToString s)" for s using RawURL_chars by blast
  have tr: "TrimSpace (RawURL_EncodeToString s) = RawURL_EncodeToString s" for s
    using RawURL_chars by (intro TrimSpace_no_space) blast
  have ne: "s \<noteq> []" if "TrimSpace s \<noteq> []" for s using that by auto
  show ?thesis
  proof (cases "TrimSpace c = []")
    case True
    then show ?thesis using assms splitN_parts(1) [OF nd assms(2,3)] tr
      by (simp add: parseTunnelAuthCookie_def tunnelAuthCookieValue_def)
  next
    case False
    then show ?thesis using assms splitN_parts(2) [OF nd assms(2,3)] tr ne
      by (auto simp: parseTunnelAuthCookie_def tunnelAuthCookieValue_def)
  qed
qed

theorem auth_cookie_roundtrip_witness:
  "parseTunnelAuthCookie (tunnelAuthCookieValue ''/a.b'' ''60'' ''c2ln'' ''cap-1'') = Some (''/a.b'', ''60'', ''c2ln'', ''cap-1'')"
proof -
  have "CHR ''.'' \<notin> set ''60''" "CHR ''.'' \<notin> set ''c2ln''" "TrimSpace ''60'' \<noteq> []" "TrimSpace ''c2ln'' \<noteq> []"
    "TrimSpace ''cap-1'' \<noteq> []" by code_simp+
  with auth_cookie_roundtrip [of "''/a.b''" "''60''" "''c2ln''" "''cap-1''"] show ?thesis by simp
qed

section \<open>Paths and queries confused\<close>

text \<open>
  The capability of a request is computed from the decoded path, so a question mark that belongs to the
  path is taken for the start of the query. The target \<open>/a%3Fb=1\<close> and the target \<open>/a?b=1\<close> yield the same
  capability, and a signature for one opens the other, although they are different resources of the
  application behind the tunnel.
\<close>

theorem capability_path_confusion:
  "(let target = (\<lambda>s. the (ParseRequestURI (''/v1/tunnels/tun-1/proxy'' @ s)));
        one = visit (target ''/a?b=1''); other = visit (target ''/a%3Fb=1'') in
    tunnelCapabilityFromProxyRequest one ''tun-1'' = Inr ''/a?b=1'' \<and>
    tunnelCapabilityFromProxyRequest other ''tun-1'' = Inr ''/a?b=1'' \<and>
    ups_Path (upstream_request None one sample_tunnel []) = ''/a'' \<and>
    ups_Path (upstream_request None other sample_tunnel []) = ''/a?b=1'')"
  by code_simp

text \<open>
  The URL issued for a path with an escaped character escapes it twice. The launch URL for \<open>/a%20b\<close>
  leads the application behind the tunnel to a resource named \<open>a%20b\<close> instead of \<open>a b\<close>.
\<close>

theorem signed_url_double_escaped:
  "normalizeTunnelCapabilityPath ''/a%20b'' = Inr ''/a%20b'' \<and>
   buildTunnelProxyURL demo_router ''tun-1'' ''/a%20b'' [(tunnelSignedURLExpiryKey, ''60'')] demo_post
     = Inr ''https://sandbox.example/v1/tunnels/tun-1/proxy/a%2520b?or3_exp=60'' \<and>
   ups_Path (upstream_request None (visit (the (ParseRequestURI ''/v1/tunnels/tun-1/proxy/a%2520b''))) sample_tunnel []) = ''/a%20b'' \<and>
   ups_Path (upstream_request None (visit (the (ParseRequestURI ''/v1/tunnels/tun-1/proxy/a%20b''))) sample_tunnel []) = ''/a b''"
  by code_simp

section \<open>Lifetimes and keys\<close>

lemma handleError_fails [simp]: "handleError e \<noteq> Replied code x"
  by (simp add: handleError_def split: prod.split)

text \<open>
  No signed URL lives longer than fifteen minutes, whatever lifetime is asked for. A request for more is
  refused, and so is one whose number of seconds overflows the duration into a negative or longer one.
\<close>

theorem signed_url_lifetime:
  assumes "issue_signed_url rt svc r t req w = (Inr (Replied code su), w')"
  shows "w_clock w 0 < sd_ExpiresAt su \<and> sd_ExpiresAt su \<le> w_clock w 0 + tunnelSignedURLMaxTTL"
  using assms
  by (auto simp: issue_signed_url_def or_reply_def tryE_def Let_def now_utc_def
      elim!: bindE_InrE thenE_InrE split: if_splits sum.splits prod.splits)

lemma sorted_texts: "map g (map k (sort_key k xs)) = map g (sort (map k xs))"
proof -
  have "sort (map k xs) = map k (sort_key k xs)"
    by (rule properties_for_sort) (simp_all only: mset_map mset_sort sorted_sort_key)
  then show ?thesis by simp
qed

text \<open>
  The derived signing key is stable. Instances whose configurations list the same tenants or the same
  secret files in different orders derive the same key, so URLs signed by one are accepted by the others.
\<close>

theorem signing_key_stable:
  assumes "mset (cfg_Tenants c') = mset (cfg_Tenants c)"
    and "mset (cfg_AuthJWTSecretPaths c') = mset (cfg_AuthJWTSecretPaths c)"
    and "cfg_AuthMode c' = cfg_AuthMode c" and "cfg_AuthJWTIssuer c' = cfg_AuthJWTIssuer c"
    and "cfg_AuthJWTAudience c' = cfg_AuthJWTAudience c" and "cfg_TunnelSigningKey c' = cfg_TunnelSigningKey c"
    and "cfg_TunnelSigningKeyPath c' = cfg_TunnelSigningKeyPath c"
  shows "newTunnelSigningKey hash files c' = newTunnelSigningKey hash files c"
proof -
  let ?k = "\<lambda>t. (tc_ID t, tc_Token t)" and ?g = "\<lambda>(i, tok). ''tenant='' @ i @ '':'' @ tok @ [CHR 0x0A]"
  have "sort (map ?k (cfg_Tenants c')) = sort (map ?k (cfg_Tenants c))"
    using assms(1) by (intro properties_for_sort) (simp_all only: mset_map mset_sort sorted_sort)
  then have "map ?g (map ?k (sort_key ?k (cfg_Tenants c'))) = map ?g (map ?k (sort_key ?k (cfg_Tenants c)))"
    unfolding sorted_texts by simp
  moreover have "sort (cfg_AuthJWTSecretPaths c') = sort (cfg_AuthJWTSecretPaths c)"
    using assms(2) by (intro properties_for_sort) simp_all
  ultimately have "stableTunnelSigningSeed files c' = stableTunnelSigningSeed files c"
    using assms(3-5) by (simp add: stableTunnelSigningSeed_def Let_def o_def)
  then show ?thesis using assms(6,7) by (simp add: newTunnelSigningKey_def Let_def)
qed

end
