(* ===== verification/GoFloat.thy ===== *)
theory GoFloat
  imports GoStrings Complex_Main "HOL-Library.Log_Nat"
begin

text \<open>
  Go's \<open>float64\<close> for the ratios the reports show: a double is the rational number it stands for, and every
  conversion and division rounds to the nearest double, ties to the even mantissa. The exponent is not
  bounded here: quotients of 64-bit integers are far from the limits of the format. The lemmas say when
  comparing a rounded quotient with 1 or with 0.8 is comparing the exact one.
\<close>

section \<open>Rounding\<close>

definition round_half_even :: "rat \<Rightarrow> int" where
  "round_half_even q =
     (let f = \<lfloor>q\<rfloor>; r = q - of_int f in
      if r < 1 / 2 then f else if 1 / 2 < r then f + 1 else if even f then f else f + 1)"

definition pow2 :: "int \<Rightarrow> rat" where
  "pow2 e = (if 0 \<le> e then 2 ^ nat e else 1 / 2 ^ nat (- e))"

text \<open>The exponent \<open>e\<close> with \<open>2\<^sup>e \<le> q < 2\<^sup>e\<^sup>+\<^sup>1\<close> of a positive number.\<close>

definition binary_exponent :: "rat \<Rightarrow> int" where
  "binary_exponent q =
     (case quotient_of q of (n, d) \<Rightarrow>
        (let e = bitlen n - bitlen d in if pow2 e \<le> q then e else e - 1))"

definition float64 :: "rat \<Rightarrow> rat" where
  "float64 q =
     (if q = 0 then 0
      else (let e = binary_exponent \<bar>q\<bar> - 52 in of_int (round_half_even (q / pow2 e)) * pow2 e))"

definition float_div :: "rat \<Rightarrow> rat \<Rightarrow> rat" where "float_div a b = float64 (a / b)"

text \<open>\<open>%.6f\<close>: the decimal expansion of the double itself, rounded to six digits.\<close>

definition zero_padded :: "nat \<Rightarrow> nat \<Rightarrow> string" where
  "zero_padded w n = replicate (w - length (fmt_nat n)) CHR ''0'' @ fmt_nat n"

definition fmt_fixed6 :: "rat \<Rightarrow> string" where
  "fmt_fixed6 q =
     (let n = nat (round_half_even (\<bar>q\<bar> * 1000000)) in
      (if q < 0 then ''-'' else []) @ fmt_nat (n div 1000000) @ ''.'' @ zero_padded 6 (n mod 1000000))"

text \<open>
  The verb \<open>%g\<close> on a positive float: the fewest decimal digits that read back as the same float, with an
  exponent when it is below \<open>-4\<close> or at least \<open>6\<close>.
\<close>

definition decimal_exponent :: "rat \<Rightarrow> int" where
  "decimal_exponent x =
     (if 1 \<le> x then int (length (fmt_nat (nat \<lfloor>x\<rfloor>))) - 1
      else - int (length (takeWhile (\<lambda>k. x * 10 ^ k < 1) [0 ..< 400])))"

definition scale10 :: "int \<Rightarrow> rat" where
  "scale10 e = (if 0 \<le> e then 10 ^ nat e else 1 / 10 ^ nat (- e))"

definition decimal_digits :: "rat \<Rightarrow> nat \<Rightarrow> nat" where
  "decimal_digits x k = nat (round_half_even (x * scale10 (int k - 1 - decimal_exponent x)))"

definition shortest_digits :: "rat \<Rightarrow> string" where
  "shortest_digits x =
     (case List.find (\<lambda>k. float64 (of_nat (decimal_digits x k) * scale10 (decimal_exponent x - int k + 1)) = x) [1 ..< 18] of
        Some k \<Rightarrow> fmt_nat (decimal_digits x k) | None \<Rightarrow> fmt_nat (decimal_digits x 17))"

definition fmt_g :: "rat \<Rightarrow> string" where
  "fmt_g x =
     (let ds = shortest_digits x; e = decimal_exponent x; k = int (length ds) in
      if e < - 4 \<or> 6 \<le> e then
        take 1 ds @ (if k = 1 then [] else ''.'' @ drop 1 ds) @ ''e'' @ (if e < 0 then ''-'' else ''+'') @ zero_padded 2 (nat \<bar>e\<bar>)
      else if e < 0 then ''0.'' @ replicate (nat (- e - 1)) CHR ''0'' @ ds
      else if k \<le> e + 1 then ds @ replicate (nat (e + 1 - k)) CHR ''0''
      else take (nat (e + 1)) ds @ ''.'' @ drop (nat (e + 1)) ds)"

section \<open>Powers of two and the exponent\<close>

lemma pow2_pos [simp]: "0 < pow2 e"
  by (simp add: pow2_def)

lemma pow2_nonzero [simp]: "pow2 e \<noteq> 0"
  using pow2_pos [of e] by linarith

lemma abs_pow2 [simp]: "\<bar>pow2 e\<bar> = pow2 e"
  by (simp add: less_imp_le)

lemma pow2_numeral: "pow2 52 = of_int (2 ^ 52)" "pow2 53 = of_int (2 ^ 53)"
  by (simp_all add: pow2_def)

lemma pow2_powi: "pow2 e = 2 powi e"
  by (cases "0 \<le> e") (simp_all add: pow2_def power_int_def power_one_over)

lemma pow2_add: "pow2 (a + b) = pow2 a * pow2 b"
  by (simp add: pow2_powi power_int_add)

lemma pow2_diff: "pow2 (a - b) = pow2 a / pow2 b"
  by (simp add: pow2_powi power_int_diff)

lemma pow2_Suc: "pow2 (e + 1) = 2 * pow2 e"
  by (simp add: pow2_add) (simp add: pow2_def)

lemma pow2_mono: "a \<le> b \<Longrightarrow> pow2 a \<le> pow2 b"
  by (simp add: pow2_powi power_int_increasing)

lemma pow2_le_iff: "pow2 a \<le> pow2 b \<longleftrightarrow> a \<le> b"
  using power_int_strict_increasing [of b a "2 :: rat"] pow2_mono [of a b]
  by (auto simp: pow2_powi not_le [symmetric])

lemma pow2_nat: "pow2 (int n) = 2 ^ n"
  by (simp add: pow2_def)

lemma bitlen_bounds_rat:
  assumes "0 < n"
  shows "pow2 (bitlen n - 1) \<le> of_int n" and "of_int n < pow2 (bitlen n)"
proof -
  from assms have n: "2 ^ nat (bitlen n - 1) \<le> n" "n < 2 ^ nat (bitlen n)"
    using bitlen_bounds [of n] by auto
  have b: "0 < bitlen n" using assms by (simp add: bitlen_eq_zero_iff less_le bitlen_nonneg)
  have "rat_of_int (2 ^ nat (bitlen n - 1)) \<le> of_int n" using n(1) by (simp only: of_int_le_iff)
  with b show "pow2 (bitlen n - 1) \<le> of_int n" by (simp add: pow2_def)
  have "of_int n < rat_of_int (2 ^ nat (bitlen n))" using n(2) by (simp only: of_int_less_iff)
  with b show "of_int n < pow2 (bitlen n)" by (simp add: pow2_def)
qed

lemma binary_exponent_bounds:
  assumes "0 < q"
  shows "pow2 (binary_exponent q) \<le> q" and "q < pow2 (binary_exponent q + 1)"
proof -
  obtain n d where nd: "quotient_of q = (n, d)" by force
  then have d: "0 < d" and q: "q = of_int n / of_int d"
    by (auto intro: quotient_of_denom_pos quotient_of_div)
  with assms have n: "0 < n" by (simp add: zero_less_divide_iff)
  let ?e = "bitlen n - bitlen d"
  have "of_int n < pow2 (bitlen n)" "pow2 (bitlen d - 1) \<le> of_int d"
    using bitlen_bounds_rat n d by auto
  then have "q < pow2 (bitlen n) / pow2 (bitlen d - 1)"
    unfolding q using n d by (intro frac_less) auto
  also have "\<dots> = pow2 (?e + 1)"
    unfolding pow2_diff [symmetric] by (simp add: algebra_simps)
  finally have up: "q < pow2 (?e + 1)" .
  have "pow2 (bitlen n - 1) / pow2 (bitlen d) \<le> q"
    unfolding q using bitlen_bounds_rat n d by (intro frac_le) (auto simp: less_imp_le)
  then have low: "pow2 (?e - 1) \<le> q"
    by (simp add: pow2_powi power_int_diff)
  have e: "binary_exponent q = (if pow2 ?e \<le> q then ?e else ?e - 1)"
    by (simp add: binary_exponent_def nd Let_def)
  show "pow2 (binary_exponent q) \<le> q" using low e by auto
  show "q < pow2 (binary_exponent q + 1)" using up e by auto
qed

section \<open>Rounding is close and monotone around a threshold\<close>

lemma round_half_even_near: "\<bar>of_int (round_half_even q) - q\<bar> \<le> 1 / 2"
proof -
  have "of_int \<lfloor>q\<rfloor> \<le> q" "q < of_int \<lfloor>q\<rfloor> + 1" by linarith+
  then show ?thesis by (auto simp: round_half_even_def Let_def abs_le_iff)
qed

lemma round_half_even_ge: "of_int k \<le> q \<Longrightarrow> k \<le> round_half_even q"
proof -
  assume "of_int k \<le> q"
  then have "k \<le> \<lfloor>q\<rfloor>" by (simp add: le_floor_iff)
  moreover have "\<lfloor>q\<rfloor> \<le> round_half_even q" by (simp add: round_half_even_def Let_def)
  ultimately show ?thesis by simp
qed

lemma round_half_even_le: "q \<le> of_int k \<Longrightarrow> round_half_even q \<le> k"
proof -
  assume q: "q \<le> of_int k"
  have "\<bar>of_int (round_half_even q) - q\<bar> \<le> 1 / 2" by (rule round_half_even_near)
  then have "of_int (round_half_even q) \<le> q + 1 / 2" by linarith
  with q have "of_int (round_half_even q) \<le> of_int k + (1 / 2 :: rat)" by simp
  then have "of_int (round_half_even q) < rat_of_int (k + 1)" by simp
  then show ?thesis by linarith
qed

lemma round_half_even_int [simp]: "round_half_even (of_int k) = k"
  by (simp add: round_half_even_def)

text \<open>Integers of at most 53 bits are doubles.\<close>

lemma float64_int:
  assumes "\<bar>k\<bar> \<le> 2 ^ 53"
  shows "float64 (of_int k) = of_int k"
proof (cases "k = 0")
  case False
  let ?q = "rat_of_int \<bar>k\<bar>"
  let ?e = "binary_exponent ?q"
  have pos: "0 < ?q" using False by simp
  have "pow2 ?e \<le> ?q" by (rule binary_exponent_bounds(1) [OF pos])
  also have "?q \<le> 2 ^ 53" using assms by (metis of_int_le_iff of_int_numeral of_int_power)
  finally have "pow2 ?e \<le> pow2 53" by (simp add: pow2_def)
  then have le: "?e \<le> 53" by (simp only: pow2_le_iff)
  have "\<exists>m. rat_of_int k / pow2 (?e - 52) = of_int m"
  proof (cases "?e = 53")
    case True
    with binary_exponent_bounds(1) [OF pos] have "2 ^ 53 \<le> ?q" by (simp add: pow2_def)
    then have "rat_of_int (2 ^ 53) \<le> of_int \<bar>k\<bar>" by simp
    then have "2 ^ 53 \<le> \<bar>k\<bar>" by (simp only: of_int_le_iff)
    with assms have "\<bar>k\<bar> = 2 ^ 53" by simp
    then have "k = 2 * (sgn k * 2 ^ 52)" by (auto simp: abs_if sgn_if split: if_splits)
    then have "rat_of_int k = of_int (sgn k * 2 ^ 52) * 2" by (metis mult.commute of_int_mult of_int_numeral)
    moreover have "pow2 (?e - 52) = 2" using True by (simp add: pow2_def)
    ultimately show ?thesis by (metis nonzero_mult_div_cancel_right zero_neq_numeral)
  next
    case False
    with le have "?e - 52 \<le> 0" by simp
    then have "rat_of_int k / pow2 (?e - 52) = of_int (k * 2 ^ nat (52 - ?e))"
      by (cases "?e = 52") (simp_all add: pow2_def)
    then show ?thesis by blast
  qed
  then obtain m where m: "rat_of_int k / pow2 (?e - 52) = of_int m" ..
  then have "of_int m * pow2 (?e - 52) = rat_of_int k"
    by (metis less_irrefl nonzero_eq_divide_eq pow2_pos)
  with m False show ?thesis by (simp add: float64_def Let_def)
qed (simp add: float64_def)

lemma round_half_even_mono:
  assumes "p \<le> q"
  shows "round_half_even p \<le> round_half_even q"
proof (cases "\<lfloor>p\<rfloor> = \<lfloor>q\<rfloor>")
  case True
  with assms show ?thesis by (auto simp: round_half_even_def Let_def)
next
  case False
  with floor_mono [OF assms] have "\<lfloor>p\<rfloor> + 1 \<le> \<lfloor>q\<rfloor>" by simp
  moreover have "round_half_even p \<le> \<lfloor>p\<rfloor> + 1" by (simp add: round_half_even_def Let_def)
  moreover have "\<lfloor>q\<rfloor> \<le> round_half_even q" by (simp add: round_half_even_def Let_def)
  ultimately show ?thesis by simp
qed

text \<open>The double next to a positive number lies in the same binade or on its upper edge.\<close>

lemma float64_binade:
  assumes "0 < q"
  shows "pow2 (binary_exponent q) \<le> float64 q" and "float64 q \<le> pow2 (binary_exponent q + 1)"
proof -
  let ?e = "binary_exponent q"
  let ?k = "?e - 52"
  note b = binary_exponent_bounds [OF assms]
  have f: "float64 q = of_int (round_half_even (q / pow2 ?k)) * pow2 ?k"
    using assms by (simp add: float64_def Let_def)
  have "pow2 ?e / pow2 ?k = of_int (2 ^ 52)" "pow2 (?e + 1) / pow2 ?k = of_int (2 ^ 53)"
    unfolding pow2_diff [symmetric] by (simp_all add: pow2_def)
  moreover from b have "pow2 ?e / pow2 ?k \<le> q / pow2 ?k" "q / pow2 ?k \<le> pow2 (?e + 1) / pow2 ?k"
    by (simp_all add: divide_right_mono less_imp_le)
  ultimately have r: "2 ^ 52 \<le> round_half_even (q / pow2 ?k)" "round_half_even (q / pow2 ?k) \<le> 2 ^ 53"
    by (metis round_half_even_ge, metis round_half_even_le)
  have "pow2 ?e = of_int (2 ^ 52) * pow2 ?k" "pow2 (?e + 1) = of_int (2 ^ 53) * pow2 ?k"
    unfolding pow2_numeral [symmetric] pow2_add [symmetric] by (simp_all add: algebra_simps)
  with r f show "pow2 ?e \<le> float64 q" "float64 q \<le> pow2 (?e + 1)"
    by (simp_all only: mult_le_cancel_right_pos pow2_pos of_int_le_iff)
qed

lemma float64_mono:
  assumes "0 < p" and "p \<le> q"
  shows "float64 p \<le> float64 q"
proof (cases "binary_exponent p = binary_exponent q")
  case True
  with assms show ?thesis
    by (simp add: float64_def Let_def round_half_even_mono divide_right_mono less_imp_le)
next
  case False
  have q: "0 < q" using assms by simp
  have "pow2 (binary_exponent p) < pow2 (binary_exponent q + 1)"
    using binary_exponent_bounds(1) [OF assms(1)] assms(2) binary_exponent_bounds(2) [OF q] by linarith
  then have "\<not> binary_exponent q + 1 \<le> binary_exponent p" using pow2_le_iff by (metis not_le)
  with False have "pow2 (binary_exponent p + 1) \<le> pow2 (binary_exponent q)" by (simp add: pow2_mono)
  then show ?thesis using float64_binade [OF assms(1)] float64_binade [OF q] by linarith
qed

lemma float64_error:
  assumes "0 < q"
  shows "\<bar>float64 q - q\<bar> \<le> pow2 (binary_exponent q - 53)"
proof -
  let ?k = "binary_exponent q - 52"
  have "float64 q - q = (of_int (round_half_even (q / pow2 ?k)) - q / pow2 ?k) * pow2 ?k"
    using assms pow2_pos [of ?k] by (simp add: float64_def Let_def algebra_simps)
  then have "\<bar>float64 q - q\<bar> = \<bar>of_int (round_half_even (q / pow2 ?k)) - q / pow2 ?k\<bar> * pow2 ?k"
    by (simp add: abs_mult)
  also have "\<dots> \<le> 1 / 2 * pow2 ?k"
    by (intro mult_right_mono round_half_even_near) (simp add: less_imp_le)
  also have "\<dots> = pow2 (?k - 1)" by (simp add: pow2_diff) (simp add: pow2_def)
  finally show ?thesis by (simp add: algebra_simps)
qed

lemma exponent_below_one: "0 < q \<Longrightarrow> q < 1 \<Longrightarrow> binary_exponent q \<le> - 1"
proof -
  assume q: "0 < q" "q < 1"
  have "pow2 (binary_exponent q) < pow2 0" using binary_exponent_bounds(1) [OF q(1)] q(2) by (simp add: pow2_def)
  then have "\<not> 0 \<le> binary_exponent q" using pow2_le_iff by (metis not_le)
  then show ?thesis by simp
qed

section \<open>Thresholds\<close>

lemma float_ratio_ge_one:
  assumes "0 \<le> v" and "0 < l" and "l \<le> 2 ^ 53"
  shows "1 \<le> float64 (of_int v / of_int l) \<longleftrightarrow> l \<le> v"
proof (cases "l \<le> v")
  case True
  then have "1 \<le> rat_of_int v / of_int l" using assms by simp
  then have "float64 (of_int 1) \<le> float64 (of_int v / of_int l)" by (intro float64_mono) simp_all
  moreover have "float64 (of_int 1) = of_int 1" by (rule float64_int) simp
  ultimately show ?thesis using True by simp
next
  case False
  let ?q = "rat_of_int v / of_int l"
  have "float64 ?q < 1"
  proof (cases "v = 0")
    case True then show ?thesis by (simp add: float64_def)
  next
    case v: False
    have "rat_of_int v \<le> of_int (l - 1)" using False by (simp only: of_int_le_iff)
    then have "?q \<le> of_int (l - 1) / of_int l" using assms by (intro divide_right_mono) auto
    also have "\<dots> = 1 - 1 / of_int l" using assms by (simp add: diff_divide_distrib)
    also have "rat_of_int l \<le> of_int (2 ^ 53)" using assms(3) by (simp only: of_int_le_iff)
    then have "1 - 1 / rat_of_int l \<le> 1 - 1 / of_int (2 ^ 53)" using assms(2) by (intro diff_left_mono frac_le) auto
    finally have up: "?q \<le> 1 - 1 / 2 ^ 53" by simp
    have pos: "0 < ?q" using v assms by simp
    have below: "?q < 1" using up by (rule le_less_trans) simp
    have "pow2 (binary_exponent ?q - 53) \<le> pow2 (- 54)"
      using exponent_below_one [OF pos below] by (intro pow2_mono) simp
    then have "float64 ?q \<le> ?q + pow2 (- 54)" using float64_error [OF pos] by linarith
    also have "\<dots> < 1" using up by (simp add: pow2_def)
    finally show ?thesis .
  qed
  with False show ?thesis by simp
qed

lemma float_ratio_ge_80:
  assumes "0 \<le> v" and "0 < l" and "l \<le> 2 ^ 50"
  shows "float64 (8 / 10) \<le> float64 (of_int v / of_int l) \<longleftrightarrow> 4 * l \<le> 5 * v"
proof (cases "4 * l \<le> 5 * v")
  case True
  then have "rat_of_int (4 * l) \<le> of_int (5 * v)" by (simp only: of_int_le_iff)
  then have "8 / 10 \<le> rat_of_int v / of_int l" using assms(2) by (simp add: field_simps)
  with True show ?thesis by (simp add: float64_mono)
next
  case False
  let ?q = "rat_of_int v / of_int l"
  have l: "0 < rat_of_int l" "rat_of_int l \<le> 2 ^ 50"
    using assms(2,3) by (simp, metis of_int_le_iff of_int_numeral of_int_power)
  from False have "rat_of_int (5 * v) \<le> of_int (4 * l - 1)" by (simp only: of_int_le_iff)
  then have "?q \<le> 8 / 10 - 1 / (5 * of_int l)" using l by (simp add: field_simps)
  moreover have "1 / (5 * 2 ^ 50) \<le> 1 / (5 * rat_of_int l)" using l by (intro frac_le) auto
  ultimately have up: "?q \<le> 8 / 10 - 1 / (5 * 2 ^ 50)" by linarith
  have err: "\<bar>float64 x - x\<bar> \<le> pow2 (- 54)" if "0 < x" "x < 1" for x
  proof -
    have "pow2 (binary_exponent x - 53) \<le> pow2 (- 54)"
      using exponent_below_one [OF that] by (intro pow2_mono) simp
    then show ?thesis using float64_error [OF that(1)] by linarith
  qed
  have c: "8 / 10 - pow2 (- 54) \<le> float64 (8 / 10)" using err [of "8 / 10"] by (simp add: abs_le_iff)
  have "float64 ?q < float64 (8 / 10)"
  proof (cases "v = 0")
    case True
    have "float64 ?q = 0" using True by (simp add: float64_def)
    moreover have "0 < 8 / 10 - pow2 (- 54)" by (simp add: pow2_def)
    ultimately show ?thesis using c by linarith
  next
    case v: False
    have pos: "0 < ?q" using v assms by simp
    have below: "?q < 1" using up by (rule le_less_trans) simp
    have "float64 ?q \<le> ?q + pow2 (- 54)" using err [OF pos below] by linarith
    moreover have "8 / 10 - 1 / (5 * 2 ^ 50) + pow2 (- 54) < 8 / 10 - pow2 (- 54)" by (simp add: pow2_def)
    ultimately show ?thesis using up c by linarith
  qed
  with False show ?thesis by simp
qed

end
