(* ===== verification/Observability.thy ===== *)
theory Observability
  imports Policy GoFloat
begin

text \<open>
  What operators see: \<open>internal/service/observability.go\<close>, the inspection methods of
  \<open>internal/service/service.go\<close> and their payloads from \<open>internal/model\<close>: the quota view with its pressure
  ratios and alerts, node pressure, the capacity report, runtime health from the backends or from the stored
  state, and the metrics text. Ratios are \<open>float64\<close> values.
\<close>

section \<open>Payloads\<close>

record tenant_usage_view =
  uv_Sandboxes :: int
  uv_RunningSandboxes :: int
  uv_ConcurrentExecs :: int
  uv_ActiveTunnels :: int
  uv_RequestedCPU :: cpu_quantity
  uv_RequestedMemory :: int
  uv_RequestedStorage :: int
  uv_ActualStorageBytes :: int
  uv_ActualStorageEntries :: int

record tenant_quota_view =
  qv_Quota :: tenant_quota
  qv_Usage :: tenant_usage_view
  qv_StorageQuotaBytes :: int
  qv_StoragePressure :: rat
  qv_StorageEntries :: int
  qv_EntryPressure :: rat
  qv_RunningPressure :: rat
  qv_CPUPressure :: rat
  qv_MemoryPressure :: rat
  qv_Alerts :: "string list"

record node_pressure_view =
  np_Sandboxes :: int
  np_RunningSandboxes :: int
  np_RunningCPUMillis :: int
  np_RunningMemoryMB :: int
  np_FreeStorageBytes :: int
  np_MaxSandboxes :: int
  np_MaxRunningSandboxes :: int
  np_MaxCPUMillis :: int
  np_MaxMemoryMB :: int
  np_MinFreeStorageBytes :: int
  np_Alerts :: "string list"

record capacity_report =
  cp_Backend :: string
  cp_DefaultRuntimeSelection :: runtime_selection
  cp_EnabledRuntimeSelections :: "runtime_selection list"
  cp_CheckedAt :: time
  cp_QuotaView :: tenant_quota_view
  cp_NodePressure :: node_pressure_view
  cp_StatusCounts :: "string counts"
  cp_RuntimeSelectionCounts :: "string counts"
  cp_ProfileCounts :: "string counts"
  cp_CapabilityCounts :: "string counts"
  cp_SnapshotCounts :: "snapshot_status counts"
  cp_ExecutionCounts :: "execution_status counts"
  cp_AuditCounts :: "(string \<times> string) counts"
  cp_Alerts :: "string list"

record runtime_sandbox_health =
  rh_SandboxID :: string
  rh_TenantID :: string
  rh_RuntimeSelection :: runtime_selection
  rh_PersistedStatus :: sandbox_status
  rh_ObservedStatus :: sandbox_status
  rh_RuntimeID :: string
  rh_RuntimeStatus :: string
  rh_Pid :: int
  rh_IPAddress :: string
  rh_Error :: string

record runtime_health =
  he_DefaultRuntimeSelection :: runtime_selection
  he_EnabledRuntimeSelections :: "runtime_selection list"
  he_Backend :: string
  he_Healthy :: bool
  he_CheckedAt :: time
  he_RuntimeSelectionCounts :: "string counts"
  he_StatusCounts :: "string counts"
  he_AgentSessions :: "agent_sessions option"
  he_Sandboxes :: "runtime_sandbox_health list"

record guest_image_identity =
  gi_Path :: string
  gi_SidecarPath :: string
  gi_ContractVersion :: string
  gi_BuildVersion :: string
  gi_GitSHA :: string
  gi_ImageSHA256 :: string
  gi_Profile :: guest_profile
  gi_Capabilities :: "string list"
  gi_AllowedFeatures :: "string list"
  gi_ControlMode :: control_mode
  gi_ControlProtocolVersion :: string
  gi_WorkspaceContractVersion :: string

record runtime_info =
  ri_Backend :: string
  ri_Class :: string
  ri_DefaultRuntimeSelection :: runtime_selection
  ri_EnabledRuntimeSelections :: "runtime_selection list"
  ri_GuestImage :: "guest_image_identity option"
  ri_GuestImageError :: string

section \<open>Runtime info\<close>

definition RuntimeBackend :: "'r service \<Rightarrow> string" where
  "RuntimeBackend svc = Backend (cfg_DefaultRuntimeSelection (svc_cfg svc))"

fun class_string :: "runtime_class \<Rightarrow> string" where
  "class_string ClassTrustedDocker = ''trusted-docker''"
| "class_string ClassVM = ''vm''"
| "class_string (OtherClass s) = s"

definition image_identity :: "string \<Rightarrow> contract \<Rightarrow> guest_image_identity" where
  "image_identity imagePath c =
     \<lparr>gi_Path = imagePath, gi_SidecarPath = SidecarPath imagePath, gi_ContractVersion = gc_ContractVersion c,
      gi_BuildVersion = gc_BuildVersion c, gi_GitSHA = gc_GitSHA c, gi_ImageSHA256 = gc_ImageSHA256 c,
      gi_Profile = gc_Profile c, gi_Capabilities = gc_Capabilities c, gi_AllowedFeatures = gc_AllowedFeatures c,
      gi_ControlMode = gc_ControlMode c, gi_ControlProtocolVersion = gc_ProtocolVersion c,
      gi_WorkspaceContractVersion = gc_WorkspaceContractVersion c\<rparr>"

definition RuntimeInfo :: "'r service \<Rightarrow> runtime_info" where
  "RuntimeInfo svc =
     (let cfg = svc_cfg svc;
          info = \<lparr>ri_Backend = RuntimeBackend svc, ri_Class = class_string (config_RuntimeClass cfg),
                  ri_DefaultRuntimeSelection = cfg_DefaultRuntimeSelection cfg,
                  ri_EnabledRuntimeSelections = cfg_EnabledRuntimeSelections cfg,
                  ri_GuestImage = None, ri_GuestImageError = []\<rparr>;
          imagePath = TrimSpace (cfg_QEMUBaseImagePath cfg) in
      if cfg_DefaultRuntimeSelection cfg \<noteq> QEMUProfessional \<or> imagePath = [] then info
      else (case Load (svc_host svc) imagePath of
              Inl e \<Rightarrow> info\<lparr>ri_GuestImageError := err_text e\<rparr>
            | Inr c \<Rightarrow> info\<lparr>ri_GuestImage := Some (image_identity imagePath c)\<rparr>))"

section \<open>Quota and node pressure\<close>

text \<open>\<open>ratioInt\<close> and \<open>ratioInt64\<close> differ in the width of their arguments only, and an \<open>int\<close> has 64 bits.\<close>

definition ratioInt64 :: "int \<Rightarrow> int \<Rightarrow> rat" where
  "ratioInt64 val limit =
     (if limit \<le> 0 then 0 else float_div (float64 (of_int val)) (float64 (of_int limit)))"

abbreviation ratioInt :: "int \<Rightarrow> int \<Rightarrow> rat" where "ratioInt \<equiv> ratioInt64"

definition mebibytes :: "int \<Rightarrow> int" where "mebibytes n = mul64 (mul64 n 1024) 1024"

definition usage_view :: "tenant_usage \<Rightarrow> tenant_usage_view" where
  "usage_view u =
     \<lparr>uv_Sandboxes = tu_Sandboxes u, uv_RunningSandboxes = tu_RunningSandboxes u,
      uv_ConcurrentExecs = tu_ConcurrentExecs u, uv_ActiveTunnels = tu_ActiveTunnels u,
      uv_RequestedCPU = tu_RequestedCPU u, uv_RequestedMemory = tu_RequestedMemory u,
      uv_RequestedStorage = tu_RequestedStorage u, uv_ActualStorageBytes = tu_ActualStorageBytes u,
      uv_ActualStorageEntries = tu_ActualStorageEntries u\<rparr>"

definition quota_alerts :: "tenant_quota_view \<Rightarrow> string list" where
  "quota_alerts v =
     (if 1 \<le> qv_StoragePressure v then [''storage quota pressure exceeded'']
      else if float64 (8 / 10) \<le> qv_StoragePressure v then [''storage quota pressure above 80%''] else []) @
     (if 1 \<le> qv_EntryPressure v then [''storage file-count pressure exceeded'']
      else if float64 (8 / 10) \<le> qv_EntryPressure v then [''storage file-count pressure above 80%''] else []) @
     (if 1 \<le> qv_RunningPressure v then [''running sandbox quota exceeded''] else []) @
     (if 1 \<le> qv_CPUPressure v then [''cpu quota pressure exceeded''] else []) @
     (if 1 \<le> qv_MemoryPressure v then [''memory quota pressure exceeded''] else [])"

definition buildTenantQuotaView :: "config \<Rightarrow> tenant_quota \<Rightarrow> tenant_usage \<Rightarrow> tenant_quota_view" where
  "buildTenantQuotaView cfg quota usage =
     (let storageQuotaBytes = mebibytes (q_MaxStorageMB quota);
          view = \<lparr>qv_Quota = quota, qv_Usage = usage_view usage, qv_StorageQuotaBytes = storageQuotaBytes,
                  qv_StoragePressure = ratioInt64 (tu_ActualStorageBytes usage) storageQuotaBytes,
                  qv_StorageEntries = tu_ActualStorageEntries usage,
                  qv_EntryPressure = ratioInt64 (tu_ActualStorageEntries usage) (cfg_StorageWarningFileCount cfg),
                  qv_RunningPressure = ratioInt (tu_RunningSandboxes usage) (q_MaxRunningSandboxes quota),
                  qv_CPUPressure = ratioInt64 (MilliValue (tu_RequestedCPU usage)) (MilliValue (q_MaxCPUCores quota)),
                  qv_MemoryPressure = ratioInt (tu_RequestedMemory usage) (q_MaxMemoryMB quota),
                  qv_Alerts = []\<rparr> in
      view\<lparr>qv_Alerts := quota_alerts view\<rparr>)"

definition node_alerts :: "node_pressure_view \<Rightarrow> string list" where
  "node_alerts v =
     (if 0 < np_MaxSandboxes v \<and> np_MaxSandboxes v \<le> np_Sandboxes v
      then [''node sandbox admission pressure exceeded''] else []) @
     (if 0 < np_MaxRunningSandboxes v \<and> np_MaxRunningSandboxes v \<le> np_RunningSandboxes v
      then [''node running admission pressure exceeded''] else []) @
     (if 0 < np_MaxCPUMillis v \<and> np_MaxCPUMillis v \<le> np_RunningCPUMillis v
      then [''node cpu admission pressure exceeded''] else []) @
     (if 0 < np_MaxMemoryMB v \<and> np_MaxMemoryMB v \<le> np_RunningMemoryMB v
      then [''node memory admission pressure exceeded''] else []) @
     (if 0 < np_MinFreeStorageBytes v \<and> 0 \<le> np_FreeStorageBytes v \<and> np_FreeStorageBytes v \<le> np_MinFreeStorageBytes v
      then [''node free storage admission floor reached''] else [])"

definition buildNodePressureView :: "config \<Rightarrow> admission_snapshot \<Rightarrow> node_pressure_view" where
  "buildNodePressureView cfg a =
     (let view = \<lparr>np_Sandboxes = asn_nodeSandboxes a, np_RunningSandboxes = asn_nodeRunning a,
                  np_RunningCPUMillis = MilliValue (asn_runningCPU a), np_RunningMemoryMB = asn_runningMemory a,
                  np_FreeStorageBytes = asn_freeStorage a, np_MaxSandboxes = cfg_AdmissionMaxNodeSandboxes cfg,
                  np_MaxRunningSandboxes = cfg_AdmissionMaxNodeRunning cfg,
                  np_MaxCPUMillis = MilliValue (cfg_AdmissionMaxNodeCPU cfg),
                  np_MaxMemoryMB = cfg_AdmissionMaxNodeMemoryMB cfg,
                  np_MinFreeStorageBytes = mebibytes (cfg_AdmissionMinNodeFreeStorageMB cfg), np_Alerts = []\<rparr> in
      view\<lparr>np_Alerts := node_alerts view\<rparr>)"

definition GetTenantQuotaView :: "'r service \<Rightarrow> string \<Rightarrow> (goerr, 'r world, tenant_quota_view) eop" where
  "GetTenantQuotaView svc tenantID =
     bindE (Store_GetQuota tenantID) (\<lambda>quota.
     bindE (Store_TenantUsage tenantID) (\<lambda>usage.
       okE (buildTenantQuotaView (svc_cfg svc) quota usage)))"

section \<open>Counters\<close>

text \<open>\<open>m[key]++\<close>.\<close>

definition count_up :: "'k \<Rightarrow> 'k counts \<Rightarrow> 'k counts" where
  "count_up k m =
     (if k \<in> set (map fst m) then map (\<lambda>(a, n). (a, if a = k then n + 1 else n)) m else m @ [(k, 1)])"

definition tally :: "'k list \<Rightarrow> 'k counts" where
  "tally ks = foldl (\<lambda>m k. count_up k m) [] ks"

definition nonempty :: "string list \<Rightarrow> string list" where
  "nonempty ss = filter (\<lambda>s. s \<noteq> []) ss"

section \<open>The capacity report\<close>

definition CapacityReport :: "'r service \<Rightarrow> string \<Rightarrow> (goerr, 'r world, capacity_report) eop" where
  "CapacityReport svc tenantID =
     thenE (enforceAdminInspectionPolicy svc tenantID ''capacity.inspect'')
    (bindE (Store_GetQuota tenantID) (\<lambda>quota.
     bindE (Store_TenantUsage tenantID) (\<lambda>usage.
     bindE (Store_ListSandboxes tenantID) (\<lambda>sandboxes.
     bindE (Store_SnapshotCounts tenantID) (\<lambda>snapshotCounts.
     bindE (Store_ExecutionCounts tenantID) (\<lambda>executionCounts.
     bindE (Store_AuditEventCounts tenantID) (\<lambda>auditCounts.
     bindE (admissionSnapshot svc tenantID) (\<lambda>nodeSnapshot.
     bindE now_utc (\<lambda>now.
     (let cfg = svc_cfg svc;
          quotaView = buildTenantQuotaView cfg quota usage;
          nodeView = buildNodePressureView cfg nodeSnapshot;
          statusCounts = tally (map (\<lambda>s. status_string (sb_Status s)) sandboxes) in
      okE \<lparr>cp_Backend = Backend (cfg_DefaultRuntimeSelection cfg),
           cp_DefaultRuntimeSelection = cfg_DefaultRuntimeSelection cfg,
           cp_EnabledRuntimeSelections = cfg_EnabledRuntimeSelections cfg, cp_CheckedAt = now,
           cp_QuotaView = quotaView, cp_NodePressure = nodeView, cp_StatusCounts = statusCounts,
           cp_RuntimeSelectionCounts =
             tally (nonempty (map (\<lambda>s. selection_string (resolvedSandboxRuntimeSelection s)) sandboxes)),
           cp_ProfileCounts = tally (nonempty (map (\<lambda>s. TrimSpace (profile_string (sb_Profile s))) sandboxes)),
           cp_CapabilityCounts = tally (nonempty (concat (map (\<lambda>s. map TrimSpace (sb_Capabilities s)) sandboxes))),
           cp_SnapshotCounts = snapshotCounts, cp_ExecutionCounts = executionCounts, cp_AuditCounts = auditCounts,
           cp_Alerts = qv_Alerts quotaView @ np_Alerts nodeView @
             (if 0 < count_at statusCounts (status_string StatusDegraded)
              then [''one or more sandboxes are degraded''] else []) @
             (if 0 < count_at snapshotCounts SnapshotCreating
              then [''one or more snapshots are incomplete''] else [])\<rparr>))))))))))"

section \<open>Runtime health\<close>

definition health_of :: "'r service \<Rightarrow> time \<Rightarrow> agent_sessions option \<Rightarrow> runtime_sandbox_health list \<Rightarrow> bool \<Rightarrow> runtime_health" where
  "health_of svc now sessions entries healthy =
     \<lparr>he_DefaultRuntimeSelection = cfg_DefaultRuntimeSelection (svc_cfg svc),
      he_EnabledRuntimeSelections = cfg_EnabledRuntimeSelections (svc_cfg svc),
      he_Backend = Backend (cfg_DefaultRuntimeSelection (svc_cfg svc)), he_Healthy = healthy, he_CheckedAt = now,
      he_RuntimeSelectionCounts = tally (nonempty (map (\<lambda>e. selection_string (rh_RuntimeSelection e)) entries)),
      he_StatusCounts = tally (map (\<lambda>e. status_string (rh_ObservedStatus e)) entries),
      he_AgentSessions = sessions, he_Sandboxes = entries\<rparr>"

definition persisted_entry :: "sandbox \<Rightarrow> runtime_sandbox_health" where
  "persisted_entry s =
     \<lparr>rh_SandboxID = sb_ID s, rh_TenantID = sb_TenantID s,
      rh_RuntimeSelection = resolvedSandboxRuntimeSelection s, rh_PersistedStatus = sb_Status s,
      rh_ObservedStatus = sb_Status s, rh_RuntimeID = sb_RuntimeID s, rh_RuntimeStatus = sb_RuntimeStatus s,
      rh_Pid = 0, rh_IPAddress = [], rh_Error = sb_LastRuntimeError s\<rparr>"

definition observed_entry :: "sandbox \<Rightarrow> goerr + runtime_state \<Rightarrow> runtime_sandbox_health" where
  "observed_entry s result =
     (case result of
        Inl e \<Rightarrow> (persisted_entry s)\<lparr>rh_ObservedStatus := StatusDegraded,
                    rh_RuntimeStatus := status_string StatusDegraded, rh_Error := err_text e\<rparr>
      | Inr state \<Rightarrow> (persisted_entry s)\<lparr>rh_ObservedStatus := rs_Status state, rh_RuntimeID := rs_RuntimeID state,
                    rh_RuntimeStatus := status_string (rs_Status state), rh_Pid := rs_Pid state,
                    rh_IPAddress := rs_IPAddress state, rh_Error := rs_Error state\<rparr>)"

definition failed_status :: "sandbox_status \<Rightarrow> bool" where
  "failed_status st \<longleftrightarrow> st = StatusError \<or> st = StatusDegraded"

fun inspect_all ::
  "'r service \<Rightarrow> sandbox list \<Rightarrow> (goerr, 'r world, runtime_sandbox_health list) eop" where
  "inspect_all svc [] = okE []"
| "inspect_all svc (s # ss) =
     tryE (rt_call (rm_Inspect (svc_runtime svc) s)) (\<lambda>result.
     bindE (inspect_all svc ss) (\<lambda>entries. okE (observed_entry s result # entries)))"

definition scoped_sandboxes :: "string \<Rightarrow> (goerr, 'r world, sandbox list) eop" where
  "scoped_sandboxes tenantID =
     (if tenantID \<noteq> [] then Store_ListNonDeletedSandboxesByTenant tenantID else Store_ListNonDeletedSandboxes)"

definition agent_health :: "'r service \<Rightarrow> string \<Rightarrow> sandbox list \<Rightarrow> 'r \<Rightarrow> agent_sessions option" where
  "agent_health svc tenantID sandboxes r =
     (case rm_AgentSessionMetricsForSandboxes (svc_runtime svc) of
        Some f \<Rightarrow> f sandboxes r
      | None \<Rightarrow>
          (if tenantID \<noteq> [] then None
           else (case rm_AgentSessionMetrics (svc_runtime svc) of
                   None \<Rightarrow> None
                 | Some f \<Rightarrow> if f r = no_sessions then None else Some (f r))))"

definition RuntimeHealth :: "'r service \<Rightarrow> string \<Rightarrow> (goerr, 'r world, runtime_health) eop" where
  "RuntimeHealth svc tenantID =
     thenE (enforceAdminInspectionPolicy svc tenantID ''runtime.inspect'')
    (bindE now_utc (\<lambda>now.
     bindE (scoped_sandboxes tenantID) (\<lambda>sandboxes.
     getE (\<lambda>w.
     bindE (inspect_all svc sandboxes) (\<lambda>entries.
       okE (health_of svc now (agent_health svc tenantID sandboxes (w_rt w)) entries
              (list_all (\<lambda>e. \<not> failed_status (rh_ObservedStatus e)) entries)))))))"

definition stored_status :: "string \<Rightarrow> sandbox_status" where
  "stored_status text =
     (case find_row (\<lambda>st. status_string st = text)
        [StatusCreating, StatusBooting, StatusDegraded, StatusStopped, StatusStarting, StatusRunning,
         StatusSuspending, StatusSuspended, StatusStopping, StatusDeleting, StatusDeleted, StatusError] of
        None \<Rightarrow> StatusOther text | Some st \<Rightarrow> st)"

definition stored_entry :: "sandbox \<Rightarrow> runtime_sandbox_health" where
  "stored_entry s =
     (if sb_RuntimeStatus s = [] then persisted_entry s
      else (persisted_entry s)\<lparr>rh_ObservedStatus := stored_status (sb_RuntimeStatus s)\<rparr>)"

definition persistedRuntimeHealth :: "'r service \<Rightarrow> string \<Rightarrow> (goerr, 'r world, runtime_health) eop" where
  "persistedRuntimeHealth svc tenantID =
     bindE now_utc (\<lambda>now.
     bindE (scoped_sandboxes tenantID) (\<lambda>sandboxes.
     (let entries = map stored_entry sandboxes in
      okE (health_of svc now None entries
             (list_all (\<lambda>e. \<not> failed_status (rh_ObservedStatus e)) entries)))))"

section \<open>Metrics\<close>

definition boolMetric :: "bool \<Rightarrow> int" where "boolMetric b = (if b then 1 else 0)"

definition sortedStringKeys :: "string counts \<Rightarrow> string list" where
  "sortedStringKeys m = sort (map fst m)"

definition sortedSnapshotStatuses :: "snapshot_status counts \<Rightarrow> snapshot_status list" where
  "sortedSnapshotStatuses m = sort_key snapshot_status_string (map fst m)"

definition sortedExecutionStatuses :: "execution_status counts \<Rightarrow> execution_status list" where
  "sortedExecutionStatuses m = sort_key execution_status_string (map fst m)"

definition sortedNestedKeys :: "(string \<times> string) counts \<Rightarrow> string list" where
  "sortedNestedKeys m = sort (remdups (map (\<lambda>e. fst (fst e)) m))"

definition outcomes_of :: "(string \<times> string) counts \<Rightarrow> string \<Rightarrow> string counts" where
  "outcomes_of m action = map (\<lambda>e. (snd (fst e), snd e)) (filter (\<lambda>e. fst (fst e) = action) m)"

definition metric :: "string \<Rightarrow> int \<Rightarrow> string" where "metric name n = name @ '' '' @ fmt_int n"

definition labelled :: "string \<Rightarrow> (string \<times> string) list \<Rightarrow> int \<Rightarrow> string" where
  "labelled name labels n =
     name @ ''{'' @ join_with '','' (map (\<lambda>(k, v). k @ ''='' @ quote v) labels) @ ''} '' @ fmt_int n"

text \<open>\<open>Duration.Seconds\<close> and its conversion to an integer.\<close>

definition Duration_Seconds :: "int \<Rightarrow> rat" where
  "Duration_Seconds d =
     float64 (float64 (of_int (go_div d 1000000000)) + float_div (float64 (of_int (go_mod d 1000000000))) 1000000000)"

definition truncate :: "rat \<Rightarrow> int" where
  "truncate q = (if 0 \<le> q then \<lfloor>q\<rfloor> else - \<lfloor>- q\<rfloor>)"

definition audit_lines :: "string \<Rightarrow> string \<Rightarrow> int \<Rightarrow> string list" where
  "audit_lines action outcome n =
     (let both = [(''action'', action), (''outcome'', outcome)] in
      [labelled ''or3_sandbox_audit_events_total'' both n] @
      (if HasPrefix action ''admission.'' \<and> outcome = ''denied''
       then [labelled ''or3_sandbox_admission_denials_total'' [(''action'', action)] n] else []) @
      (if HasPrefix action ''snapshot.''
       then [labelled ''or3_sandbox_snapshot_operations_total'' both n] else []) @
      (if action \<in> {''sandbox.exec'', ''sandbox.exec.detached'', ''sandbox.tty.attach'', ''sandbox.tty.detach''}
       then [labelled ''or3_sandbox_interactive_events_total'' both n] else []) @
      (if action = ''tunnel.create'' \<or> action = ''tunnel.revoke''
       then [labelled ''or3_sandbox_tunnel_events_total'' both n] else []) @
      (if action = ''policy.profile.override''
       then [labelled ''or3_sandbox_dangerous_profile_exceptions_total'' [(''outcome'', outcome)] n] else []) @
      (if HasPrefix action ''sandbox.'' \<and> outcome = ''error''
       then [labelled ''or3_sandbox_lifecycle_failures_total'' [(''action'', action)] n] else []))"

definition gauge_lines :: "capacity_report \<Rightarrow> runtime_health \<Rightarrow> nat \<Rightarrow> string list" where
  "gauge_lines report health promoted =
     (let v = cp_QuotaView report; u = qv_Usage v; n = cp_NodePressure report in
      [''# TYPE or3_sandbox_sandboxes_total gauge'',
       metric ''or3_sandbox_sandboxes_total'' (uv_Sandboxes u),
       metric ''or3_sandbox_running_sandboxes'' (uv_RunningSandboxes u),
       metric ''or3_sandbox_exec_running'' (uv_ConcurrentExecs u),
       metric ''or3_sandbox_tunnels_active'' (uv_ActiveTunnels u),
       metric ''or3_sandbox_actual_storage_bytes'' (uv_ActualStorageBytes u),
       metric ''or3_sandbox_actual_storage_entries'' (uv_ActualStorageEntries u),
       ''or3_sandbox_storage_pressure_ratio '' @ fmt_fixed6 (qv_StoragePressure v),
       ''or3_sandbox_storage_entry_pressure_ratio '' @ fmt_fixed6 (qv_EntryPressure v),
       ''or3_sandbox_running_pressure_ratio '' @ fmt_fixed6 (qv_RunningPressure v),
       metric ''or3_sandbox_node_sandboxes'' (np_Sandboxes n),
       metric ''or3_sandbox_node_running_sandboxes'' (np_RunningSandboxes n),
       metric ''or3_sandbox_node_running_cpu_millis'' (np_RunningCPUMillis n),
       metric ''or3_sandbox_node_running_memory_mb'' (np_RunningMemoryMB n),
       metric ''or3_sandbox_runtime_healthy'' (boolMetric (he_Healthy health)),
       metric ''or3_sandbox_promoted_guest_images_total'' (int promoted)])"

definition count_lines :: "capacity_report \<Rightarrow> runtime_health \<Rightarrow> string list" where
  "count_lines report health =
     map (\<lambda>k. labelled ''or3_sandbox_runtime_status_count'' [(''status'', k)] (count_at (he_StatusCounts health) k))
       (sortedStringKeys (he_StatusCounts health)) @
     map (\<lambda>k. labelled ''or3_sandbox_runtime_selection_count'' [(''runtime_selection'', k)]
          (count_at (cp_RuntimeSelectionCounts report) k)) (sortedStringKeys (cp_RuntimeSelectionCounts report)) @
     map (\<lambda>k. labelled ''or3_sandbox_profile_count'' [(''profile'', k)] (count_at (cp_ProfileCounts report) k))
       (sortedStringKeys (cp_ProfileCounts report)) @
     map (\<lambda>k. labelled ''or3_sandbox_capability_count'' [(''capability'', k)] (count_at (cp_CapabilityCounts report) k))
       (sortedStringKeys (cp_CapabilityCounts report)) @
     map (\<lambda>k. labelled ''or3_sandbox_snapshots_count'' [(''status'', snapshot_status_string k)]
          (count_at (cp_SnapshotCounts report) k)) (sortedSnapshotStatuses (cp_SnapshotCounts report)) @
     map (\<lambda>k. labelled ''or3_sandbox_executions_count'' [(''status'', execution_status_string k)]
          (count_at (cp_ExecutionCounts report) k)) (sortedExecutionStatuses (cp_ExecutionCounts report))"

definition audit_metrics :: "(string \<times> string) counts \<Rightarrow> string list" where
  "audit_metrics m =
     concat (map (\<lambda>action. concat (map (\<lambda>outcome. audit_lines action outcome (count_at (outcomes_of m action) outcome))
         (sortedStringKeys (outcomes_of m action)))) (sortedNestedKeys m))"

definition MetricsReport :: "'r service \<Rightarrow> string \<Rightarrow> (goerr, 'r world, string) eop" where
  "MetricsReport svc tenantID =
     thenE (enforceAdminInspectionPolicy svc tenantID ''metrics.inspect'')
    (bindE (CapacityReport svc tenantID) (\<lambda>report.
     bindE (persistedRuntimeHealth svc tenantID) (\<lambda>health.
     bindE Store_ListPromotedGuestImages (\<lambda>promotedImages.
     bindE (Store_ListReleaseEvidence []) (\<lambda>releaseEvidence.
     bindE (case releaseEvidence of
              [] \<Rightarrow> okE []
            | e # _ \<Rightarrow> bindE now_utc (\<lambda>now. okE [metric ''or3_sandbox_release_gate_freshness_seconds''
                 (truncate (Duration_Seconds (time_Sub now (re_StartedAt e))))])) (\<lambda>freshness.
     (let free = np_FreeStorageBytes (cp_NodePressure report) in
      okE (join_with [CHR 0x0A] (gauge_lines report health (length promotedImages) @ freshness @
             (if 0 \<le> free then [metric ''or3_sandbox_node_free_storage_bytes'' free] else []) @
             count_lines report health @ audit_metrics (cp_AuditCounts report)) @ [CHR 0x0A]))))))))"

end
