(* ===== verification/Router.thy ===== *)
theory Router
  imports TunnelAccess Transfers Observability
begin

text \<open>
  The HTTP API (\<open>internal/api/router.go\<close>): the routes, the checks each makes before it calls the service,
  and the answer. A request body enters as what decoding it gives, an upgraded connection as the messages that
  arrive on it, and the answer is a status with the value that is rendered as JSON. Log output is left out.
\<close>

section \<open>Calls\<close>

record 'a json =
  js_first :: "goerr + 'a"
  js_eof :: bool

definition decodeJSON :: "'a json \<Rightarrow> goerr + 'a" where
  "decodeJSON j =
     (case js_first j of
        Inl e \<Rightarrow> Inl e
      | Inr a \<Rightarrow> if js_eof j then Inr a else Inl (Err ''request body must contain a single JSON value''))"

record file_write_request =
  fw_Content :: string
  fw_ContentBase64 :: string
  fw_Encoding :: string

text \<open>
  The body of a call, decoded into the type its handler asks for. The two limited decoders depend on the
  number of bytes the reader lets through. \<open>cb_Force\<close> is what the ignored decoding of a stop request leaves.
\<close>

record call_body =
  cb_Create :: "create_request json"
  cb_Force :: bool
  cb_Exec :: "exec_request json"
  cb_Mkdir :: "string json"
  cb_Write :: "int \<Rightarrow> file_write_request json"
  cb_Export :: "int \<Rightarrow> string list json"
  cb_Upload :: upload
  cb_Tunnel :: "tunnel_request json"
  cb_Snapshot :: "string json"
  cb_Restore :: "string json"
  cb_SignedURL :: "signed_url_request json"

text \<open>
  A terminal connection: the handshake error the upgrader finds, if any, the first message, and the messages
  relayed before and after the session is closed: one of the two goroutines may still be running then. Each
  message has the outcome of the call on the terminal it leads to.
\<close>

record tty_message =
  tm_Text :: bool
  tm_Payload :: string
  tm_Decoded :: "(string \<times> int \<times> int) option"
  tm_Result :: "goerr option"

record tty_connection =
  tt_Handshake :: "(int \<times> string) option"
  tt_Init :: "goerr + tty_request"
  tt_Messages :: "tty_message list"
  tt_Late :: "tty_message list"

record api_call =
  ac_Request :: http_request
  ac_Body :: call_body
  ac_TTY :: tty_connection
  ac_Tree :: tree_view
  ac_OpenArchive :: "goerr option"
  ac_Flusher :: bool

record 'r api =
  ap_router :: router
  ap_service :: "'r service"
  ap_workspaceFileUploadBodyBytes :: int
  ap_ParseOrigin :: "string \<Rightarrow> (string \<times> string) option"

definition workspaceFileUploadBodyBytes :: "int \<Rightarrow> int" where
  "workspaceFileUploadBodyBytes maxDecodedBytes =
     (let n = (if maxDecodedBytes \<le> 0 then DefaultWorkspaceFileTransferMaxBytes else maxDecodedBytes) in
      add64 (mul64 (go_div (add64 n 2) 3) 4) (64 * 1024))"

definition New_api ::
  "(string \<Rightarrow> string) \<Rightarrow> (string \<Rightarrow> goerr + string) \<Rightarrow> (string \<Rightarrow> string \<Rightarrow> string) \<Rightarrow> (string \<Rightarrow> goerr + base_url) \<Rightarrow>
   (string \<Rightarrow> bool) \<Rightarrow> (string \<Rightarrow> (string \<times> string) option) \<Rightarrow> 'r service \<Rightarrow> config \<Rightarrow> 'r api" where
  "New_api Sum256 readFile hmac parseBase authorityOK parseOrigin svc cfg =
     (let maxBytes = (if cfg_WorkspaceFileTransferMaxBytes cfg \<le> 0 then DefaultWorkspaceFileTransferMaxBytes
                      else cfg_WorkspaceFileTransferMaxBytes cfg) in
      \<lparr>ap_router = \<lparr>ro_operatorHost = trim_slashes (cfg_OperatorHost cfg),
           ro_tunnelSigningKey = newTunnelSigningKey Sum256 readFile cfg, ro_deploymentMode = cfg_DeploymentMode cfg,
           ro_HMAC = hmac, ro_ParseBase = parseBase, ro_AuthorityOK = authorityOK\<rparr>,
       ap_service = svc, ap_workspaceFileUploadBodyBytes = workspaceFileUploadBodyBytes maxBytes,
       ap_ParseOrigin = parseOrigin\<rparr>)"

definition checkWebSocketOrigin :: "'r api \<Rightarrow> http_request \<Rightarrow> bool" where
  "checkWebSocketOrigin api r =
     (let origin = TrimSpace (Header_Get r ''Origin'') in
      if origin = [] then True
      else
        (case ap_ParseOrigin api origin of
           None \<Rightarrow> False
         | Some (scheme, host) \<Rightarrow>
             if scheme = [] \<or> host = [] then False
             else
               (case ap_ParseOrigin api (base_of (ap_router api) r) of
                  None \<Rightarrow> False
                | Some (expectedScheme, expectedHost) \<Rightarrow>
                    if expectedScheme = [] \<or> expectedHost = [] then False
                    else EqualFold scheme expectedScheme \<and> EqualFold host expectedHost)))"

section \<open>Answers\<close>

datatype payload =
    NoBody
  | POk
  | PSandbox sandbox
  | PSandboxes "sandbox list"
  | PExecution execution
  | PStream "goerr + execution"
  | PTerminal string
  | PFile file_read_response
  | PArchive string
  | PTunnel tunnel
  | PTunnels "tunnel list"
  | PSnapshot snapshot
  | PSnapshots "snapshot list"
  | PSignedURL signed_url
  | PProxy proxy_reply
  | PInfo runtime_info
  | PHealth runtime_health
  | PCapacity capacity_report
  | PMetrics string
  | PQuota tenant_quota_view
  | PRedirect string

type_synonym 'r handler = "(goerr, 'r world, payload reply) eop"

definition answer :: "(goerr, 'r world, 'a) eop \<Rightarrow> int \<Rightarrow> ('a \<Rightarrow> payload) \<Rightarrow> 'r handler" where
  "answer m status f = or_reply m (\<lambda>a. okE (Replied status (f a)))"

definition with_body :: "goerr + 'a \<Rightarrow> ('a \<Rightarrow> 'r handler) \<Rightarrow> 'r handler" where
  "with_body b k = (case b of Inl e \<Rightarrow> okE (bad_request (err_text e)) | Inr a \<Rightarrow> k a)"

definition is_max_bytes :: "goerr \<Rightarrow> bool" where
  "is_max_bytes e = (case e of MaxBytesError n \<Rightarrow> True | _ \<Rightarrow> False)"

definition payload_too_large :: "string \<Rightarrow> 'a reply" where
  "payload_too_large m = Failed 413 (errorCodeForStatus 413) m"

definition with_limited_body :: "goerr + 'a \<Rightarrow> string \<Rightarrow> ('a \<Rightarrow> 'r handler) \<Rightarrow> 'r handler" where
  "with_limited_body b message k =
     (case b of
        Inl e \<Rightarrow> okE (if is_max_bytes e then payload_too_large message else bad_request (err_text e))
      | Inr a \<Rightarrow> k a)"

definition identified :: "tenant_context option \<Rightarrow> (tenant_context \<Rightarrow> 'r handler) \<Rightarrow> 'r handler" where
  "identified ctx k = (case ctx of None \<Rightarrow> okE unauthorized_reply | Some c \<Rightarrow> k c)"

definition only_method :: "string \<Rightarrow> http_request \<Rightarrow> 'r handler \<Rightarrow> 'r handler" where
  "only_method m r k = (if hr_Method r \<noteq> m then okE writeMethodNotAllowed else k)"

definition tenant_of :: "tenant_context \<Rightarrow> string" where "tenant_of c = tn_ID (tc_Tenant c)"

section \<open>Inspection\<close>

definition health :: "'r handler" where "health = okE (Replied 200 POk)"

definition handleRuntimeHealth :: "'r api \<Rightarrow> tenant_context option \<Rightarrow> http_request \<Rightarrow> 'r handler" where
  "handleRuntimeHealth api ctx r =
     identified ctx (\<lambda>c. only_method ''GET'' r (requirePermission ctx PermissionAdminInspect (
       answer (RuntimeHealth (ap_service api) (tenant_of c)) 200 PHealth)))"

definition handleRuntimeInfo :: "'r api \<Rightarrow> tenant_context option \<Rightarrow> http_request \<Rightarrow> 'r handler" where
  "handleRuntimeInfo api ctx r =
     identified ctx (\<lambda>c. only_method ''GET'' r (okE (Replied 200 (PInfo (RuntimeInfo (ap_service api))))))"

definition handleRuntimeCapacity :: "'r api \<Rightarrow> tenant_context option \<Rightarrow> http_request \<Rightarrow> 'r handler" where
  "handleRuntimeCapacity api ctx r =
     identified ctx (\<lambda>c. only_method ''GET'' r (requirePermission ctx PermissionAdminInspect (
       answer (CapacityReport (ap_service api) (tenant_of c)) 200 PCapacity)))"

definition handleMetrics :: "'r api \<Rightarrow> tenant_context option \<Rightarrow> http_request \<Rightarrow> 'r handler" where
  "handleMetrics api ctx r =
     identified ctx (\<lambda>c. only_method ''GET'' r (requirePermission ctx PermissionAdminInspect (
       answer (MetricsReport (ap_service api) (tenant_of c)) 200 PMetrics)))"

definition handleQuota :: "'r api \<Rightarrow> tenant_context option \<Rightarrow> http_request \<Rightarrow> 'r handler" where
  "handleQuota api ctx r =
     identified ctx (\<lambda>c. only_method ''GET'' r (
       answer (GetTenantQuotaView (ap_service api) (tenant_of c)) 200 PQuota))"

section \<open>Sandboxes\<close>

definition handleSandboxes :: "'r api \<Rightarrow> tenant_context option \<Rightarrow> api_call \<Rightarrow> 'r handler" where
  "handleSandboxes api ctx call =
     identified ctx (\<lambda>c.
       if hr_Method (ac_Request call) = ''POST'' then
         requirePermission ctx PermissionSandboxLifecycle (
         with_body (decodeJSON (cb_Create (ac_Body call))) (\<lambda>req.
           answer (CreateSandbox (ap_service api) (tc_Tenant c) (tc_Quota c) req) 201 PSandbox))
       else if hr_Method (ac_Request call) = ''GET'' then
         requirePermission ctx PermissionSandboxRead (answer (ListSandboxes (tenant_of c)) 200 PSandboxes)
       else okE writeMethodNotAllowed)"

definition handleLifecycle :: "http_request \<Rightarrow> (goerr, 'r world, sandbox) eop \<Rightarrow> 'r handler" where
  "handleLifecycle r fn = only_method ''POST'' r (answer fn 200 PSandbox)"

definition streamExec ::
  "'r api \<Rightarrow> tenant_context \<Rightarrow> api_call \<Rightarrow> string \<Rightarrow> exec_request \<Rightarrow> 'r handler" where
  "streamExec api c call sandboxID req =
     (if \<not> ac_Flusher call then okE (Failed 500 ''streaming_unsupported'' ''streaming unsupported'')
      else tryE (ExecSandbox (ap_service api) (tc_Tenant c) (tc_Quota c) sandboxID req) (\<lambda>result.
             okE (Replied 200 (PStream result))))"

definition handleExec :: "'r api \<Rightarrow> tenant_context \<Rightarrow> api_call \<Rightarrow> string \<Rightarrow> 'r handler" where
  "handleExec api c call sandboxID =
     only_method ''POST'' (ac_Request call) (
     with_body (decodeJSON (cb_Exec (ac_Body call))) (\<lambda>req0.
     (let req = (if xr_Timeout req0 = 0 then req0\<lparr>xr_Timeout := 300000000000\<rparr> else req0) in
      if Values_Get (url_Query (hr_URL (ac_Request call))) ''stream'' = ''1''
      then streamExec api c call sandboxID req
      else answer (ExecSandbox (ap_service api) (tc_Tenant c) (tc_Quota c) sandboxID req) 200 PExecution)))"

definition resize_of :: "tty_message \<Rightarrow> (int \<times> int) option" where
  "resize_of m =
     (if tm_Text m \<and> HasPrefix (tm_Payload m) ''{'' then
        (case tm_Decoded m of
           Some (kind, rows, cols) \<Rightarrow> if kind = ''resize'' then Some (rows, cols) else None
         | None \<Rightarrow> None)
      else None)"

fun relay :: "string \<Rightarrow> string \<Rightarrow> tty_message list \<Rightarrow> (goerr, 'r world, unit) eop" where
  "relay tenantID sessionID [] = okE ()"
| "relay tenantID sessionID (m # ms) =
     (case tm_Result m of
        Some e \<Rightarrow> okE ()
      | None \<Rightarrow>
          (case resize_of m of
             Some (rows, cols) \<Rightarrow> ignoreE (UpdateTTYResize tenantID sessionID rows cols) (relay tenantID sessionID ms)
           | None \<Rightarrow> relay tenantID sessionID ms))"

definition handleTTY :: "'r api \<Rightarrow> tenant_context \<Rightarrow> api_call \<Rightarrow> string \<Rightarrow> 'r handler" where
  "handleTTY api c call sandboxID =
     only_method ''GET'' (ac_Request call) (
     case tt_Handshake (ac_TTY call) of
       Some (status, message) \<Rightarrow> okE (Failed status ''invalid_request'' message)
     | None \<Rightarrow>
         if \<not> checkWebSocketOrigin api (ac_Request call)
         then okE (Failed 403 ''invalid_request'' ''websocket: request origin not allowed by Upgrader.CheckOrigin'')
         else
           (case tt_Init (ac_TTY call) of
              Inl e \<Rightarrow> okE (Replied 101 (PTerminal ''invalid tty init payload''))
            | Inr req \<Rightarrow>
                tryE (CreateTTYSession (ap_service api) (tenant_of c) sandboxID req) (\<lambda>result.
                case result of
                  Inl e \<Rightarrow> okE (Replied 101 (PTerminal (err_text e)))
                | Inr (s, session, handle) \<Rightarrow>
                    thenE (relay (tenant_of c) (tty_ID session) (tt_Messages (ac_TTY call)))
                   (ignoreE (CloseTTYSession (tenant_of c) (tty_ID session))
                   (thenE (relay (tenant_of c) (tty_ID session) (tt_Late (ac_TTY call)))
                      (okE (Replied 101 (PTerminal []))))))))"

section \<open>Workspace files\<close>

definition requireFilePermission :: "tenant_context option \<Rightarrow> http_request \<Rightarrow> 'r handler \<Rightarrow> 'r handler" where
  "requireFilePermission ctx r k =
     requirePermission ctx
       (if hr_Method r \<in> {''PUT'', ''DELETE'', ''POST''} then PermissionFilesWrite else PermissionFilesRead) k"

definition written_content :: "file_write_request \<Rightarrow> string + string" where
  "written_content req =
     (let encoding = TrimSpace (fw_Encoding req); contentBase64 = TrimSpace (fw_ContentBase64 req) in
      if EqualFold encoding ''base64'' \<and> contentBase64 = [] then
        Inl ''content_base64 is required when encoding=base64''
      else if EqualFold encoding ''base64'' \<or> contentBase64 \<noteq> [] then
        (case DecodeString contentBase64 of
           Inl e \<Rightarrow> Inl ''invalid content_base64 payload'' | Inr data \<Rightarrow> Inr data)
      else Inr (fw_Content req))"

definition handleFiles :: "'r api \<Rightarrow> api_call \<Rightarrow> string \<Rightarrow> string \<Rightarrow> string \<Rightarrow> 'r handler" where
  "handleFiles api call tenantID sandboxID path =
     (let svc = ap_service api; view = tv_file (ac_Tree call); r = ac_Request call;
          limit = ap_workspaceFileUploadBodyBytes api in
      if hr_Method r = ''GET'' then
        answer (ReadFile svc view tenantID sandboxID path (Values_Get (url_Query (hr_URL r)) ''encoding'')) 200 PFile
      else if hr_Method r = ''PUT'' then
        with_limited_body (decodeJSON (cb_Write (ac_Body call) limit))
          (''file upload body exceeds maximum size of '' @ fmt_int limit @ '' bytes'') (\<lambda>req.
          case written_content req of
            Inl message \<Rightarrow> okE (bad_request message)
          | Inr content \<Rightarrow> answer (WriteFileBytes svc view tenantID sandboxID path content) 204 (\<lambda>_. NoBody))
      else if hr_Method r = ''DELETE'' then
        answer (DeleteFile svc view tenantID sandboxID path) 204 (\<lambda>_. NoBody)
      else okE writeMethodNotAllowed)"

definition MaxBytesReader :: "int \<Rightarrow> upload \<Rightarrow> upload" where
  "MaxBytesReader limit body =
     (if limit < int (length (fst body)) then (take (nat limit) (fst body), Some (MaxBytesError limit)) else body)"

definition handleWorkspaceImport :: "'r api \<Rightarrow> api_call \<Rightarrow> string \<Rightarrow> string \<Rightarrow> 'r handler" where
  "handleWorkspaceImport api call tenantID sandboxID =
     only_method ''POST'' (ac_Request call) (
     (let limit = ap_workspaceFileUploadBodyBytes api in
      tryE (ImportWorkspaceArchive (ap_service api) (ac_Tree call) tenantID sandboxID
              (MaxBytesReader limit (cb_Upload (ac_Body call)))) (\<lambda>result.
      case result of
        Inl e \<Rightarrow>
          okE (if is_max_bytes e
               then payload_too_large (''workspace archive upload exceeds maximum size of '' @ fmt_int limit @ '' bytes'')
               else handleError e)
      | Inr u \<Rightarrow> okE (Replied 204 NoBody))))"

definition handleWorkspaceExport :: "'r api \<Rightarrow> api_call \<Rightarrow> string \<Rightarrow> string \<Rightarrow> 'r handler" where
  "handleWorkspaceExport api call tenantID sandboxID =
     only_method ''POST'' (ac_Request call) (
     with_limited_body (decodeJSON (cb_Export (ac_Body call) 1048576))
       ''workspace export request exceeds maximum size of 1048576 bytes'' (\<lambda>paths.
     or_reply (ExportWorkspaceArchive (ap_service api) (ac_Tree call) tenantID sandboxID paths) (\<lambda>archivePath.
     deferred (os_call (RemovePath archivePath))
       (okE (case ac_OpenArchive call of
               Some e \<Rightarrow> handleError e | None \<Rightarrow> Replied 200 (PArchive archivePath))))))"

section \<open>Tunnels and snapshots\<close>

definition handleTunnels :: "'r api \<Rightarrow> api_call \<Rightarrow> string \<Rightarrow> string \<Rightarrow> 'r handler" where
  "handleTunnels api call tenantID sandboxID =
     (if hr_Method (ac_Request call) = ''POST'' then
        with_body (decodeJSON (cb_Tunnel (ac_Body call))) (\<lambda>req.
          answer (CreateTunnel (ap_service api) tenantID sandboxID req) 201 PTunnel)
      else if hr_Method (ac_Request call) = ''GET'' then answer (ListTunnels tenantID sandboxID) 200 PTunnels
      else okE writeMethodNotAllowed)"

text \<open>What guards the tunnels of a sandbox: a method other than \<open>GET\<close> and \<open>POST\<close> meets no permission check.\<close>

definition require_for_tunnels :: "tenant_context option \<Rightarrow> http_request \<Rightarrow> bool \<Rightarrow> 'r handler \<Rightarrow> 'r handler" where
  "require_for_tunnels ctx r named k =
     (if named then requirePermission ctx PermissionTunnelsWrite k
      else if hr_Method r = ''GET'' then requirePermission ctx PermissionTunnelsRead k
      else if hr_Method r = ''POST'' then requirePermission ctx PermissionTunnelsWrite k
      else k)"

definition sandbox_resource ::
  "'r api \<Rightarrow> tenant_context option \<Rightarrow> tenant_context \<Rightarrow> api_call \<Rightarrow> string \<Rightarrow> 'r handler" where
  "sandbox_resource api ctx c call sandboxID =
     (let m = hr_Method (ac_Request call) in
      if m = ''GET'' then requirePermission ctx PermissionSandboxRead (
        answer (GetSandbox (tenant_of c) sandboxID) 200 PSandbox)
      else if m = ''DELETE'' then requirePermission ctx PermissionSandboxLifecycle (
        answer (DeleteSandbox (ap_service api) (tenant_of c) sandboxID False) 204 (\<lambda>_. NoBody))
      else okE writeMethodNotAllowed)"

definition handleMkdir :: "'r api \<Rightarrow> tenant_context \<Rightarrow> api_call \<Rightarrow> string \<Rightarrow> 'r handler" where
  "handleMkdir api c call sandboxID =
     only_method ''POST'' (ac_Request call) (
     with_body (decodeJSON (cb_Mkdir (ac_Body call))) (\<lambda>path.
       answer (Mkdir (ap_service api) (tv_file (ac_Tree call)) (tenant_of c) sandboxID path) 204 (\<lambda>_. NoBody)))"

definition sandbox_tunnels ::
  "'r api \<Rightarrow> tenant_context option \<Rightarrow> tenant_context \<Rightarrow> api_call \<Rightarrow> string \<Rightarrow> string list \<Rightarrow> 'r handler" where
  "sandbox_tunnels api ctx c call sandboxID rest =
     require_for_tunnels ctx (ac_Request call) (rest \<noteq> []) (
     case rest of
       tunnelID # tail \<Rightarrow>
         only_method ''DELETE'' (ac_Request call) (answer (RevokeTunnel (tenant_of c) tunnelID) 204 (\<lambda>_. NoBody))
     | [] \<Rightarrow> handleTunnels api call (tenant_of c) sandboxID)"

definition sandbox_snapshots ::
  "'r api \<Rightarrow> tenant_context option \<Rightarrow> tenant_context \<Rightarrow> api_call \<Rightarrow> string \<Rightarrow> 'r handler" where
  "sandbox_snapshots api ctx c call sandboxID =
     (if hr_Method (ac_Request call) = ''POST'' then requirePermission ctx PermissionSnapshotsWrite (
        with_body (decodeJSON (cb_Snapshot (ac_Body call))) (\<lambda>name.
          answer (CreateSnapshot (ap_service api) (tenant_of c) sandboxID name) 201 PSnapshot))
      else if hr_Method (ac_Request call) = ''GET'' then requirePermission ctx PermissionSnapshotsRead (
        answer (ListSnapshots (tenant_of c) sandboxID) 200 PSnapshots)
      else okE writeMethodNotAllowed)"

definition sandbox_action ::
  "'r api \<Rightarrow> tenant_context option \<Rightarrow> tenant_context \<Rightarrow> api_call \<Rightarrow> string \<Rightarrow> string \<Rightarrow> string list \<Rightarrow> 'r handler" where
  "sandbox_action api ctx c call sandboxID action rest =
     (let svc = ap_service api; t = tenant_of c; r = ac_Request call in
      if action = ''start'' then requirePermission ctx PermissionSandboxLifecycle (
        handleLifecycle r (StartSandbox svc t sandboxID (tc_Quota c)))
      else if action = ''stop'' then requirePermission ctx PermissionSandboxLifecycle (
        handleLifecycle r (StopSandbox svc t sandboxID (cb_Force (ac_Body call))))
      else if action = ''suspend'' then requirePermission ctx PermissionSandboxLifecycle (
        handleLifecycle r (SuspendSandbox svc t sandboxID))
      else if action = ''resume'' then requirePermission ctx PermissionSandboxLifecycle (
        handleLifecycle r (ResumeSandbox svc t sandboxID (tc_Quota c)))
      else if action = ''exec'' then requirePermission ctx PermissionExecRun (handleExec api c call sandboxID)
      else if action = ''tty'' then requirePermission ctx PermissionTTYAttach (handleTTY api c call sandboxID)
      else if action = ''files'' then
        requireFilePermission ctx r (handleFiles api call t sandboxID (join_with ''/'' rest))
      else if action = ''mkdir'' then requirePermission ctx PermissionFilesWrite (handleMkdir api c call sandboxID)
      else if action = ''workspace-import'' then requirePermission ctx PermissionFilesWrite (
        handleWorkspaceImport api call t sandboxID)
      else if action = ''workspace-export'' then requirePermission ctx PermissionFilesRead (
        handleWorkspaceExport api call t sandboxID)
      else if action = ''tunnels'' then sandbox_tunnels api ctx c call sandboxID rest
      else if action = ''snapshots'' then sandbox_snapshots api ctx c call sandboxID
      else okE writeNotFound)"

definition path_parts :: "string \<Rightarrow> http_request \<Rightarrow> string list" where
  "path_parts pre r = split_on slash (TrimPrefix (up_Path (url_path (hr_URL r))) pre)"

definition handleSandboxRoutes :: "'r api \<Rightarrow> tenant_context option \<Rightarrow> api_call \<Rightarrow> 'r handler" where
  "handleSandboxRoutes api ctx call =
     identified ctx (\<lambda>c.
       case path_parts ''/v1/sandboxes/'' (ac_Request call) of
         [] \<Rightarrow> okE writeNotFound
       | sandboxID # rest \<Rightarrow>
           if sandboxID = [] then okE writeNotFound
           else (case rest of
                   [] \<Rightarrow> sandbox_resource api ctx c call sandboxID
                 | action # tail \<Rightarrow> sandbox_action api ctx c call sandboxID action tail))"

definition handleSnapshotRoutes :: "'r api \<Rightarrow> tenant_context option \<Rightarrow> api_call \<Rightarrow> 'r handler" where
  "handleSnapshotRoutes api ctx call =
     identified ctx (\<lambda>c.
       case path_parts ''/v1/snapshots/'' (ac_Request call) of
         [] \<Rightarrow> okE writeNotFound
       | snapshotID # rest \<Rightarrow>
           if snapshotID = [] then okE writeNotFound
           else
             (case rest of
                [] \<Rightarrow>
                  only_method ''GET'' (ac_Request call) (requirePermission ctx PermissionSnapshotsRead (
                    answer (GetSnapshot (tenant_of c) snapshotID) 200 PSnapshot))
              | action # tail \<Rightarrow>
                  if action \<noteq> ''restore'' \<or> hr_Method (ac_Request call) \<noteq> ''POST'' then okE writeNotFound
                  else requirePermission ctx PermissionSnapshotsWrite (
                    with_body (decodeJSON (cb_Restore (ac_Body call))) (\<lambda>target.
                      answer (RestoreSnapshot (ap_service api) (tv_archive (ac_Tree call)) (tenant_of c) snapshotID target)
                        200 PSandbox))))"

fun map_reply :: "('a \<Rightarrow> 'b) \<Rightarrow> 'a reply \<Rightarrow> 'b reply" where
  "map_reply f (Failed status code m) = Failed status code m"
| "map_reply f (Replied status a) = Replied status (f a)"

definition handleTunnelRoutes :: "'r api \<Rightarrow> tenant_context option \<Rightarrow> api_call \<Rightarrow> 'r handler" where
  "handleTunnelRoutes api ctx call =
     (case path_parts ''/v1/tunnels/'' (ac_Request call) of
        [] \<Rightarrow> okE writeNotFound
      | tunnelID # rest \<Rightarrow>
          if tunnelID = [] then okE writeNotFound
          else
            (case rest of
               [] \<Rightarrow>
                 identified ctx (\<lambda>c. only_method ''DELETE'' (ac_Request call) (
                   requirePermission ctx PermissionTunnelsWrite (
                     answer (RevokeTunnel (tenant_of c) tunnelID) 204 (\<lambda>_. NoBody))))
             | action # tail \<Rightarrow>
                 if action = ''proxy'' then
                   bindE (handleTunnelProxy (ap_router api) (ap_service api) ctx (ac_Request call) tunnelID) (\<lambda>p.
                     okE (case p of
                            ProxyFailed status code message \<Rightarrow> Failed status code message
                          | ProxyBootstrap cookie target \<Rightarrow> Replied 200 (PProxy p)
                          | ProxyForward t s token src \<Rightarrow> Replied 200 (PProxy p)))
                 else if action = ''signed-url'' then
                   bindE (handleTunnelSignedURL (ap_router api) (ap_service api) ctx (ac_Request call)
                            (decodeJSON (cb_SignedURL (ac_Body call))) tunnelID) (\<lambda>p. okE (map_reply PSignedURL p))
                 else okE writeNotFound))"

section \<open>Dispatch\<close>

text \<open>
  \<open>http.ServeMux\<close>: a path that is not clean is redirected to its clean form, keeping a final slash; then the
  unescaped segments of the escaped path are matched, a pattern with a final slash standing for everything
  below it, and a path without that slash is redirected to it.
\<close>

definition cleanPath :: "string \<Rightarrow> string" where
  "cleanPath p =
     (if p = [] then ''/''
      else (let q = (if HasPrefix p ''/'' then p else ''/'' @ p); np = Clean q in
            if last q = slash \<and> np \<noteq> ''/'' then np @ ''/'' else np))"

definition segments :: "string \<Rightarrow> string list" where
  "segments p = map (\<lambda>s. case url_unescape EncodePath s of Some u \<Rightarrow> u | None \<Rightarrow> s) (split_on slash (TrimPrefix p ''/''))"

datatype route =
    RouteHealthz | RouteMetrics | RouteInfo | RouteHealth | RouteCapacity | RouteQuota
  | RouteSandboxes | RouteSandbox | RouteSnapshot | RouteTunnel | RouteSlash | RouteNone

definition mux_route :: "string list \<Rightarrow> route" where
  "mux_route segs =
     (case segs of
        [a] \<Rightarrow> if a = ''healthz'' then RouteHealthz else if a = ''metrics'' then RouteMetrics else RouteNone
      | [a, b] \<Rightarrow>
          if a \<noteq> ''v1'' then RouteNone
          else if b = ''sandboxes'' then RouteSandboxes
          else if b = ''snapshots'' \<or> b = ''tunnels'' then RouteSlash else RouteNone
      | a # b # c # tail \<Rightarrow>
          if a \<noteq> ''v1'' then RouteNone
          else if b = ''sandboxes'' then RouteSandbox
          else if b = ''snapshots'' then RouteSnapshot
          else if b = ''tunnels'' then RouteTunnel
          else if b = ''runtime'' \<and> c = ''info'' \<and> tail = [] then RouteInfo
          else if b = ''runtime'' \<and> c = ''health'' \<and> tail = [] then RouteHealth
          else if b = ''runtime'' \<and> c = ''capacity'' \<and> tail = [] then RouteCapacity
          else if b = ''quotas'' \<and> c = ''me'' \<and> tail = [] then RouteQuota else RouteNone
      | _ \<Rightarrow> RouteNone)"

definition dispatch :: "'r api \<Rightarrow> tenant_context option \<Rightarrow> api_call \<Rightarrow> route \<Rightarrow> 'r handler" where
  "dispatch api ctx call rte =
     (let r = ac_Request call in
      case rte of
        RouteHealthz \<Rightarrow> health
      | RouteMetrics \<Rightarrow> handleMetrics api ctx r
      | RouteInfo \<Rightarrow> handleRuntimeInfo api ctx r
      | RouteHealth \<Rightarrow> handleRuntimeHealth api ctx r
      | RouteCapacity \<Rightarrow> handleRuntimeCapacity api ctx r
      | RouteQuota \<Rightarrow> handleQuota api ctx r
      | RouteSandboxes \<Rightarrow> handleSandboxes api ctx call
      | RouteSandbox \<Rightarrow> handleSandboxRoutes api ctx call
      | RouteSnapshot \<Rightarrow> handleSnapshotRoutes api ctx call
      | RouteTunnel \<Rightarrow> handleTunnelRoutes api ctx call
      | RouteSlash \<Rightarrow> okE (Replied 301 (PRedirect (EscapedPath (url_path (hr_URL r)) @ ''/'')))
      | RouteNone \<Rightarrow> okE (Failed 404 [] ''404 page not found''))"

definition ServeHTTP :: "'r api \<Rightarrow> tenant_context option \<Rightarrow> api_call \<Rightarrow> 'r handler" where
  "ServeHTTP api ctx call =
     (let r = ac_Request call; escaped = EscapedPath (url_path (hr_URL r));
          path = (if hr_Method r = ''CONNECT'' then escaped else cleanPath escaped) in
      if path \<noteq> escaped then okE (Replied 301 (PRedirect path))
      else dispatch api ctx call (mux_route (segments path)))"

section \<open>Streaming and logging\<close>

text \<open>\<open>sseWriter.Write\<close>: one event per write, with line feeds spelled out.\<close>

definition spell_newline :: "char \<Rightarrow> string" where
  "spell_newline c = (if c = CHR 0x0A then [CHR 0x5C, CHR ''n''] else [c])"

definition sse_frame :: "string \<Rightarrow> string \<Rightarrow> string" where
  "sse_frame event p =
     (if p = [] then []
      else ''event: '' @ event @ [CHR 0x0A] @ ''data: '' @ concat (map spell_newline p) @ [CHR 0x0A, CHR 0x0A])"

definition httpOutcome :: "int \<Rightarrow> string" where
  "httpOutcome status = (if 500 \<le> status then ''error'' else if 400 \<le> status then ''denied'' else ''ok'')"

definition first_part :: "string \<Rightarrow> string \<Rightarrow> string" where
  "first_part pre path = (case split_on slash (TrimPrefix path pre) of [] \<Rightarrow> [] | p # ps \<Rightarrow> p)"

definition requestResourceAttrs :: "string \<Rightarrow> (string \<times> string) list" where
  "requestResourceAttrs path =
     (let attr = (\<lambda>key pre. if first_part pre path = [] then [] else [(key, first_part pre path)]) in
      if HasPrefix path ''/v1/sandboxes/'' then attr ''sandbox_id'' ''/v1/sandboxes/''
      else if HasPrefix path ''/v1/snapshots/'' then attr ''snapshot_id'' ''/v1/snapshots/''
      else if HasPrefix path ''/v1/tunnels/'' then attr ''tunnel_id'' ''/v1/tunnels/''
      else [])"

end
