(* ===== verification/ApiSafety.thy ===== *)
theory ApiSafety
  imports Router Example
begin

text \<open>
  What the HTTP API guarantees whatever it is sent: calls of a tenant stay inside that tenant and keep the
  database intact, nothing happens without an identity except through a tunnel, and nothing without the
  permission the route asks for.
\<close>

section \<open>The caller of a handler\<close>

definition speaks_for :: "string \<Rightarrow> tenant_context option \<Rightarrow> bool" where
  "speaks_for t ctx \<longleftrightarrow> (\<forall>c. ctx = Some c \<longrightarrow> tenant_of c = t)"

lemma speaks_forD: "speaks_for t ctx \<Longrightarrow> ctx = Some c \<Longrightarrow> tenant_of c = t"
  by (simp add: speaks_for_def)

text \<open>
  A relation on databases that every statement on behalf of tenant \<open>t\<close> respects is respected by every route
  called with an identity of \<open>t\<close>.
\<close>

locale caller_relation = db_relation R T U C for R T U C +
  fixes t :: string
  assumes T_caller: "T t" and T_nobody: "T []" and C_caller: "C t i"
    and U_caller: "sb_TenantID s = t \<Longrightarrow> U s" and U_nobody: "sb_TenantID s = [] \<Longrightarrow> U s"
begin

abbreviation keeps where "keeps m \<equiv> preserves (on_db R) m"

lemma writes_caller: "writes U t i X" and writes_nobody: "writes U [] i X"
  by (auto simp: writes_def intro: U_caller U_nobody)

lemma keepsI: "(\<And>w. on_db R w (snd (m w))) \<Longrightarrow> keeps m"
  by (simp add: preserves_def)

lemma service_keeps:
  "tn_ID tn = t \<Longrightarrow> keeps (CreateSandbox svc tn quota creq)"
  "keeps (StartSandbox svc t i quota)" "keeps (ResumeSandbox svc t i quota)"
  "keeps (StopSandbox svc t i force)" "keeps (SuspendSandbox svc t i)" "keeps (DeleteSandbox svc t i b)"
  "tn_ID tn = t \<Longrightarrow> keeps (ExecSandbox svc tn quota i xreq)"
  "keeps (CreateTTYSession svc t i treq)" "keeps (CloseTTYSession t sid)" "keeps (UpdateTTYResize t sid rows cols)"
  "keeps (ReadFile svc view t i path enc)" "keeps (WriteFileBytes svc view t i path content)"
  "keeps (DeleteFile svc view t i path)" "keeps (Mkdir svc view t i path)"
  "keeps (ImportWorkspaceArchive svc tview t i upload)" "keeps (ExportWorkspaceArchive svc tview t i paths)"
  "keeps (CreateTunnel svc t i tureq)" "keeps (RevokeTunnel t j)" "keeps (ListTunnels t i)"
  "keeps (CreateSnapshot svc t i name)" "keeps (RestoreSnapshot svc aview t j i)"
  by (intro keepsI CreateSandbox_keeps StartSandbox_keeps StopSandbox_keeps SuspendSandbox_keeps DeleteSandbox_keeps
      ExecSandbox_keeps CreateTTYSession_keeps tty_keeps file_keeps transfer_keeps CreateTunnel_keeps tunnel_keeps
      CreateSnapshot_keeps RestoreSnapshot_keeps;
      simp add: T_caller T_nobody C_caller writes_caller writes_nobody)+

lemma read_keeps:
  "keeps (ListSandboxes t')" "keeps (GetSandbox t' i)" "keeps (ListSnapshots t' i)" "keeps (GetSnapshot t' i)"
  "keeps (GetTunnelForProxy j)" "keeps (GetTunnelCapability j)"
  unfolding ListSandboxes_def GetSandbox_def ListSnapshots_def GetSnapshot_def GetTunnelForProxy_def GetTunnelCapability_def
  by (intro steps)+

lemma inspection_keeps:
  "keeps (enforceAdminInspectionPolicy svc t act)" "keeps (admissionSnapshot svc t')"
  unfolding enforceAdminInspectionPolicy_def admissionSnapshot_def Let_def
  by (intro steps policy_keeps T_caller)+

lemma inspect_all_keeps: "keeps (inspect_all svc ss)"
  by (induction ss) (simp_all only: inspect_all.simps, (intro steps; assumption?)+)

lemma scoped_keeps: "keeps (scoped_sandboxes t')"
  unfolding scoped_sandboxes_def by (intro steps)

lemma report_keeps:
  "keeps (GetTenantQuotaView svc t)" "keeps (CapacityReport svc t)" "keeps (RuntimeHealth svc t)"
  "keeps (persistedRuntimeHealth svc t)"
  unfolding GetTenantQuotaView_def CapacityReport_def RuntimeHealth_def persistedRuntimeHealth_def Let_def
  by (intro steps inspection_keeps inspect_all_keeps scoped_keeps)+

lemma freshness_keeps: "keeps (case es of [] \<Rightarrow> okE [] | e # es' \<Rightarrow> bindE now_utc (\<lambda>now. okE (f now e)))"
  by (cases es) (simp_all, (intro steps)+)

lemma metrics_keeps: "keeps (MetricsReport svc t)"
  unfolding MetricsReport_def Let_def by (intro steps inspection_keeps report_keeps freshness_keeps)

section \<open>Handlers\<close>

lemma or_reply_keeps: "keeps m \<Longrightarrow> (\<And>a. keeps (k a)) \<Longrightarrow> keeps (or_reply m k)"
  unfolding or_reply_def by (intro steps; assumption)

lemma requirePermission_keeps: "keeps h \<Longrightarrow> keeps (requirePermission ctx p h)"
  unfolding requirePermission_def by (intro steps; assumption)

lemma reply_keeps:
  "keeps m \<Longrightarrow> keeps (answer m status f)"
  "keeps h \<Longrightarrow> keeps (requireFilePermission ctx r h)"
  "keeps h \<Longrightarrow> keeps (require_for_tunnels ctx r b h)"
  "keeps h \<Longrightarrow> keeps (only_method m' r h)"
  "(\<And>b. keeps (g b)) \<Longrightarrow> keeps (with_body body g)"
  "(\<And>b. keeps (g b)) \<Longrightarrow> keeps (with_limited_body body msg g)"
  "keeps c \<Longrightarrow> keeps h \<Longrightarrow> keeps (deferred c h)"
  unfolding answer_def requireFilePermission_def require_for_tunnels_def
    only_method_def with_body_def with_limited_body_def deferred_def
  by (intro steps or_reply_keeps requirePermission_keeps; assumption)+

lemma relay_keeps: "keeps (relay t sid ms)"
  by (induction ms) (simp_all only: relay.simps, (intro steps service_keeps; assumption?)+)

lemmas handler_keeps = or_reply_keeps requirePermission_keeps reply_keeps service_keeps read_keeps report_keeps metrics_keeps relay_keeps steps

lemma call_keeps:
  assumes "tenant_of c = t"
  shows "keeps (handleExec api c call i)" "keeps (handleTTY api c call i)" "keeps (handleFiles api call t i path)"
    "keeps (handleMkdir api c call i)" "keeps (handleWorkspaceImport api call t i)"
    "keeps (handleWorkspaceExport api call t i)" "keeps (handleTunnels api call t i)"
    "keeps (sandbox_resource api ctx c call i)" "keeps (sandbox_snapshots api ctx c call i)"
  unfolding handleExec_def streamExec_def handleTTY_def handleFiles_def handleMkdir_def handleWorkspaceImport_def
    handleWorkspaceExport_def handleTunnels_def sandbox_resource_def sandbox_snapshots_def Let_def assms
  using assms by (intro handler_keeps; simp add: tenant_of_def)+

lemma sandbox_tunnels_keeps: "tenant_of c = t \<Longrightarrow> keeps (sandbox_tunnels api ctx c call i rest)"
  unfolding sandbox_tunnels_def by (cases rest) (simp_all, (intro handler_keeps call_keeps; assumption?)+)

lemma sandbox_action_keeps: "tenant_of c = t \<Longrightarrow> keeps (sandbox_action api ctx c call i action rest)"
  unfolding sandbox_action_def handleLifecycle_def Let_def
  by (simp only: , intro handler_keeps call_keeps sandbox_tunnels_keeps; assumption)

lemma identified_keeps:
  "(\<And>c. ctx = Some c \<Longrightarrow> keeps (k c)) \<Longrightarrow> keeps (identified ctx k)"
  unfolding identified_def by (cases ctx) (auto intro: steps)

lemma case_list_keeps:
  "keeps a \<Longrightarrow> (\<And>x xs. keeps (f x xs)) \<Longrightarrow> keeps (case l of [] \<Rightarrow> a | x # xs \<Rightarrow> f x xs)"
  by (cases l) simp_all

lemma routes_keep:
  assumes "speaks_for t ctx"
  shows "keeps (handleSandboxes api ctx call)" "keeps (handleSandboxRoutes api ctx call)"
    "keeps (handleSnapshotRoutes api ctx call)"
  unfolding handleSandboxes_def handleSandboxRoutes_def handleSnapshotRoutes_def
  by (intro identified_keeps, drule speaks_forD [OF assms], (simp only: )?,
      intro handler_keeps case_list_keeps call_keeps sandbox_action_keeps; simp add: tenant_of_def)+

lemma inspection_routes_keep:
  assumes "speaks_for t ctx"
  shows "keeps (handleMetrics api ctx r)" "keeps (handleRuntimeHealth api ctx r)" "keeps (handleRuntimeCapacity api ctx r)"
    "keeps (handleQuota api ctx r)" "keeps (handleRuntimeInfo api ctx r)"
  unfolding handleMetrics_def handleRuntimeHealth_def handleRuntimeCapacity_def handleQuota_def handleRuntimeInfo_def
  by (intro identified_keeps, drule speaks_forD [OF assms], (simp only: )?, intro handler_keeps)+

section \<open>Tunnel routes\<close>

lemma denial_keeps: "requester = t \<or> requester = [] \<Longrightarrow> keeps (recordTunnelDenial requester tun act detail)"
proof (cases "requester = tun_TenantID tun")
  case True
  assume "requester = t \<or> requester = []"
  with True have "T (tun_TenantID tun)" using T_caller T_nobody by auto
  then show ?thesis unfolding recordTunnelDenial_def RecordAuditEvent_def by (intro steps policy_keeps)
qed (simp add: recordTunnelDenial_def steps)

lemma validate_keeps: "keeps (validateTunnelCapability rt j path expiry sig cap)"
  unfolding validateTunnelCapability_def capability_live_def Let_def
  by (intro steps read_keeps tunnel_keeps)

lemma browser_keeps: "keeps (authorizeTunnelBrowserSession rt r tun)"
  unfolding authorizeTunnelBrowserSession_def cookie_session_def Let_def
  by (intro steps validate_keeps)

lemma authorize_proxy_keeps:
  "requester = t \<or> requester = [] \<Longrightarrow> keeps (authorize_proxy svc ctx r tun s requester b)"
  unfolding authorize_proxy_def deny_proxy_def Let_def by (intro steps denial_keeps)

lemma case_session_keeps:
  "keeps a \<Longrightarrow> keeps b \<Longrightarrow> (\<And>x y. keeps (f x y)) \<Longrightarrow>
   keeps (case session of NotAuthorized \<Rightarrow> a | CookieAuthorized \<Rightarrow> b | Bootstrapped x y \<Rightarrow> f x y)"
  by (cases session) simp_all

lemma proxy_keeps:
  assumes "speaks_for t ctx"
  shows "keeps (handleTunnelProxy rt svc ctx r j)"
proof -
  have "(case ctx of None \<Rightarrow> [] | Some c \<Rightarrow> tn_ID (tc_Tenant c)) = t \<or>
      (case ctx of None \<Rightarrow> [] | Some c \<Rightarrow> tn_ID (tc_Tenant c)) = []"
    using assms by (cases ctx) (auto simp: speaks_for_def tenant_of_def)
  then show ?thesis
    unfolding handleTunnelProxy_def deny_proxy_def Let_def
    by (intro steps read_keeps browser_keeps case_session_keeps authorize_proxy_keeps denial_keeps; assumption?)
qed

lemma issue_signed_url_keeps: "tun_TenantID tun = t \<Longrightarrow> keeps (issue_signed_url rt svc r tun req)"
  unfolding issue_signed_url_def issue_capability_def RecordAuditEvent_def Let_def
  by (intro steps or_reply_keeps tunnel_keeps policy_keeps) (simp_all add: T_caller)

lemma signed_url_keeps:
  assumes "speaks_for t ctx"
  shows "keeps (handleTunnelSignedURL rt svc ctx r body j)"
proof (cases ctx)
  case (Some c)
  with assms have t: "tn_ID (tc_Tenant c) = t" by (simp add: speaks_for_def tenant_of_def)
  have inner: "keeps (if tn_ID (tc_Tenant c) \<noteq> tun_TenantID tun
      then thenE (recordTunnelDenial (tn_ID (tc_Tenant c)) tun ''tunnel.signed_url'' ''reason=tenant_mismatch'') (okE writeNotFound)
      else case body of Inl e \<Rightarrow> okE (bad_request (err_text e)) | Inr req \<Rightarrow> issue_signed_url rt svc r tun req)" for tun
    unfolding t
    by (cases "t = tun_TenantID tun") (simp_all, (intro steps issue_signed_url_keeps denial_keeps; simp)+)
  show ?thesis
    unfolding handleTunnelSignedURL_def Some option.case Let_def
    by (intro steps or_reply_keeps requirePermission_keeps read_keeps denial_keeps inner) (simp_all add: t)
qed (simp add: handleTunnelSignedURL_def steps)

lemma tunnel_routes_keep: "speaks_for t ctx \<Longrightarrow> keeps (handleTunnelRoutes api ctx call)"
  unfolding handleTunnelRoutes_def
  by (intro case_list_keeps steps identified_keeps requirePermission_keeps reply_keeps proxy_keeps signed_url_keeps, drule (1) speaks_forD, simp add: service_keeps)

lemma dispatch_keeps:
  assumes "speaks_for t ctx"
  shows "keeps (dispatch api ctx call rte)"
  unfolding dispatch_def Let_def health_def
  by (cases rte) (simp_all add: routes_keep [OF assms] inspection_routes_keep [OF assms] tunnel_routes_keep [OF assms] steps)

lemma ServeHTTP_keeps: "speaks_for t ctx \<Longrightarrow> keeps (ServeHTTP api ctx call)"
  unfolding ServeHTTP_def Let_def by (intro steps dispatch_keeps)

end

interpretation caller_integrity: caller_relation keeps_integrity "\<lambda>_. True" "\<lambda>_. True" "\<lambda>_ _. True" t for t
  by unfold_locales simp_all

interpretation caller_frame: caller_relation "frame t" "\<lambda>x. x = t \<or> x = []"
  "\<lambda>s. sb_TenantID s = t \<or> sb_TenantID s = []" "\<lambda>_ _. True" t for t
  by unfold_locales simp_all

section \<open>Isolation and integrity\<close>

definition rows_of :: "string \<Rightarrow> database \<Rightarrow>
    sandbox_row list \<times> tunnel list \<times> snapshot list \<times> execution list \<times> tty_session list \<times> audit_event list" where
  "rows_of t d =
     (filter (\<lambda>r. c_tenant_id r = t) (db_sandboxes d), filter (\<lambda>r. tun_TenantID r = t) (db_tunnels d),
      filter (\<lambda>r. sn_TenantID r = t) (db_snapshots d), filter (\<lambda>r. ex_TenantID r = t) (db_executions d),
      filter (\<lambda>r. tty_TenantID r = t) (db_tty d), filter (\<lambda>r. au_TenantID r = t) (db_audit d))"

lemma others_filter:
  assumes "others f u xs = others f u ys" and "t \<noteq> u" and "t \<noteq> []"
  shows "filter (\<lambda>r. f r = t) xs = filter (\<lambda>r. f r = t) ys"
proof -
  have "filter (\<lambda>r. f r = t) (others f u zs) = filter (\<lambda>r. f r = t) zs" for zs
    unfolding others_def filter_filter by (rule filter_cong) (use assms(2,3) in auto)
  with assms(1) show ?thesis by metis
qed

lemma frame_rows: "frame u d d' \<Longrightarrow> t \<noteq> u \<Longrightarrow> t \<noteq> [] \<Longrightarrow> rows_of t d' = rows_of t d"
  unfolding frame_def rows_of_def by (elim conjE, simp) (metis others_filter)

lemma serve_relations:
  assumes "ServeHTTP api ctx call w = (r, w')" and "speaks_for u ctx"
  shows "keeps_integrity (w_db w) (w_db w')" and "frame u (w_db w) (w_db w')"
  using preservesD [OF caller_integrity.ServeHTTP_keeps [OF assms(2)] assms(1)]
    preservesD [OF caller_frame.ServeHTTP_keeps [OF assms(2)] assms(1)] by (simp_all add: on_db_def)

text \<open>
  C20: an API call stays inside the tenant that makes it. Whatever method, path, headers and body a request has,
  and however it fails, the sandboxes, tunnels, snapshots, executions, terminal sessions and audit events of
  every tenant other than the authenticated one are afterwards what they were before; a request without
  identity, as the tunnel proxy accepts, changes nobody's. The integrity of the database is kept.
\<close>

theorem api_isolation:
  assumes "ServeHTTP api ctx call w = (r, w')" and "speaks_for u ctx" and "t \<noteq> u" and "t \<noteq> []" and "db_ok (w_db w)"
  shows "rows_of t (w_db w') = rows_of t (w_db w) \<and> db_ok (w_db w')"
  using serve_relations [OF assms(1,2)] frame_rows assms(3-5) by (auto simp: keeps_integrity_def)

definition no_json :: "'a json" where "no_json = \<lparr>js_first = Inl (Err ''EOF''), js_eof = True\<rparr>"

definition empty_body :: call_body where
  "empty_body =
     \<lparr>cb_Create = no_json, cb_Force = False, cb_Exec = no_json, cb_Mkdir = no_json, cb_Write = (\<lambda>_. no_json),
      cb_Export = (\<lambda>_. no_json), cb_Upload = ([], None), cb_Tunnel = no_json, cb_Snapshot = no_json,
      cb_Restore = no_json, cb_SignedURL = no_json\<rparr>"

definition no_tree :: tree_view where
  "no_tree = \<lparr>tv_file = plain_view, tv_archive = no_archives, tv_Walk = (\<lambda>_. []), tv_Stat = (\<lambda>_. None)\<rparr>"

definition demo_call :: "string \<Rightarrow> string \<Rightarrow> api_call" where
  "demo_call m p =
     \<lparr>ac_Request = \<lparr>hr_Method = m, hr_URL = \<lparr>url_path = \<lparr>up_Path = p, up_RawPath = []\<rparr>, url_RawQuery = []\<rparr>,
        hr_Header = [], hr_TLS = True, hr_Host = ''or3.test''\<rparr>,
      ac_Body = empty_body,
      ac_TTY = \<lparr>tt_Handshake = None, tt_Init = Inl (Err ''EOF''), tt_Messages = [], tt_Late = []\<rparr>,
      ac_Tree = no_tree, ac_OpenArchive = None, ac_Flusher = True\<rparr>"

definition demo_api :: "unit api" where
  "demo_api = New_api (\<lambda>s. s) (\<lambda>_. Inl (Err ''no such file'')) (\<lambda>key text. text) (\<lambda>s. Inr \<lparr>bu_prefix = s, bu_path =
     \<lparr>up_Path = [], up_RawPath = []\<rparr>\<rparr>) (\<lambda>_. True) (\<lambda>s. Some (''https'', s)) dev_service dev_config"

definition outsider :: tenant_context where
  "outsider = scoped_context\<lparr>tc_Tenant := \<lparr>tn_ID = ''evil'', tn_Name = [], tn_TokenHash = [], tn_CreatedAt = 0\<rparr>\<rparr>"

theorem api_isolation_witness:
  "\<exists>r w'. ServeHTTP demo_api (Some outsider) (demo_call ''DELETE'' ''/v1/sandboxes/sbx-1'') running_world = (r, w') \<and>
     rows_of ''acme'' (w_db w') = rows_of ''acme'' running_db \<and> db_ok (w_db w')"
proof -
  obtain r w' where run: "ServeHTTP demo_api (Some outsider) (demo_call ''DELETE'' ''/v1/sandboxes/sbx-1'') running_world = (r, w')"
    by force
  have "speaks_for ''evil'' (Some outsider)" by (simp add: speaks_for_def tenant_of_def outsider_def)
  from api_isolation [OF run this, of "''acme''"] running_db_ok
  have "rows_of ''acme'' (w_db w') = rows_of ''acme'' (w_db running_world) \<and> db_ok (w_db w')" by simp
  with run show ?thesis by (auto simp: running_world_def)
qed

section \<open>Calls without identity\<close>

definition proxy_path :: "http_request \<Rightarrow> bool" where
  "proxy_path r \<longleftrightarrow> (case path_parts ''/v1/tunnels/'' r of tunnelID # action # tail \<Rightarrow> action = ''proxy'' | _ \<Rightarrow> False)"

definition harmless :: "payload reply \<Rightarrow> bool" where
  "harmless rep \<longleftrightarrow> rep = Replied 200 POk \<or> rep = unauthorized_reply \<or> (\<exists>code m. rep = Failed 404 code m) \<or>
     (\<exists>p. rep = Replied 301 (PRedirect p))"

lemma identified_none: "identified None k w = (Inr unauthorized_reply, w)"
  by (simp add: identified_def)

lemma tunnel_routes_none:
  assumes "\<not> proxy_path (ac_Request call)"
  shows "\<exists>rep. handleTunnelRoutes api None call w = (Inr rep, w) \<and> harmless rep"
proof (cases "path_parts ''/v1/tunnels/'' (ac_Request call)")
  case (Cons j rest)
  show ?thesis
  proof (cases rest)
    case Nil
    with Cons show ?thesis by (simp add: handleTunnelRoutes_def identified_none harmless_def)
  next
    case (Cons action tail)
    with \<open>path_parts _ _ = j # rest\<close> assms have "action \<noteq> ''proxy''" by (simp add: proxy_path_def)
    with Cons \<open>path_parts _ _ = j # rest\<close> show ?thesis
      by (simp add: handleTunnelRoutes_def handleTunnelSignedURL_def harmless_def)
  qed
qed (simp add: handleTunnelRoutes_def harmless_def)

text \<open>
  C21: nothing happens without an identity. A request that carries none, on any route but the tunnel proxy,
  leaves the world exactly as it is, the clock and the random numbers included, and is answered with the
  health check, a redirect to the clean path, 404 or 401.
\<close>

theorem api_unauthenticated:
  assumes "\<not> proxy_path (ac_Request call)"
  shows "\<exists>rep. ServeHTTP api None call w = (Inr rep, w) \<and> harmless rep"
proof -
  have "\<exists>rep. dispatch api None call rte w = (Inr rep, w) \<and> harmless rep" for rte
  proof (cases rte)
    case RouteTunnel
    then show ?thesis using tunnel_routes_none [OF assms] by (simp add: dispatch_def)
  qed (simp_all add: dispatch_def health_def handleMetrics_def handleRuntimeInfo_def handleRuntimeHealth_def
      handleRuntimeCapacity_def handleQuota_def handleSandboxes_def handleSandboxRoutes_def handleSnapshotRoutes_def
      identified_none harmless_def)
  then show ?thesis by (auto simp: ServeHTTP_def Let_def harmless_def)
qed

theorem api_unauthenticated_witness:
  "\<exists>rep. ServeHTTP demo_api None (demo_call ''DELETE'' ''/v1/sandboxes/sbx-1'') running_world = (Inr rep, running_world) \<and>
     harmless rep"
proof (rule api_unauthenticated)
  show "\<not> proxy_path (ac_Request (demo_call ''DELETE'' ''/v1/sandboxes/sbx-1''))"
    by (simp add: proxy_path_def path_parts_def demo_call_def) code_simp
qed

section \<open>Permissions\<close>

text \<open>The permission each call needs, by route, method and path below the route; none for what changes nothing.\<close>

definition action_permission :: "string \<Rightarrow> string \<Rightarrow> string list \<Rightarrow> string option" where
  "action_permission action m rest =
     (if action \<in> {''start'', ''stop'', ''suspend'', ''resume''} then Some PermissionSandboxLifecycle
      else if action = ''exec'' then Some PermissionExecRun
      else if action = ''tty'' then Some PermissionTTYAttach
      else if action = ''files'' then
        Some (if m \<in> {''PUT'', ''DELETE'', ''POST''} then PermissionFilesWrite else PermissionFilesRead)
      else if action \<in> {''mkdir'', ''workspace-import''} then Some PermissionFilesWrite
      else if action = ''workspace-export'' then Some PermissionFilesRead
      else if action = ''tunnels'' then
        (if rest \<noteq> [] \<or> m = ''POST'' then Some PermissionTunnelsWrite
         else if m = ''GET'' then Some PermissionTunnelsRead else None)
      else if action = ''snapshots'' then
        (if m = ''POST'' then Some PermissionSnapshotsWrite
         else if m = ''GET'' then Some PermissionSnapshotsRead else None)
      else None)"

definition sandbox_permission :: "string \<Rightarrow> string option" where
  "sandbox_permission m =
     (if m = ''GET'' then Some PermissionSandboxRead
      else if m = ''DELETE'' then Some PermissionSandboxLifecycle else None)"

definition route_permission :: "route \<Rightarrow> http_request \<Rightarrow> string option" where
  "route_permission rte r =
     (let m = hr_Method r in
      case rte of
        RouteMetrics \<Rightarrow> Some PermissionAdminInspect
      | RouteHealth \<Rightarrow> Some PermissionAdminInspect
      | RouteCapacity \<Rightarrow> Some PermissionAdminInspect
      | RouteSandboxes \<Rightarrow>
          if m = ''POST'' then Some PermissionSandboxLifecycle
          else if m = ''GET'' then Some PermissionSandboxRead else None
      | RouteSandbox \<Rightarrow>
          (case path_parts ''/v1/sandboxes/'' r of
             sandboxID # rest \<Rightarrow>
               if sandboxID = [] then None
               else (case rest of [] \<Rightarrow> sandbox_permission m | action # tail \<Rightarrow> action_permission action m tail)
           | [] \<Rightarrow> None)
      | RouteSnapshot \<Rightarrow>
          (case path_parts ''/v1/snapshots/'' r of
             snapshotID # rest \<Rightarrow>
               if snapshotID = [] then None
               else if rest = [] then Some PermissionSnapshotsRead else Some PermissionSnapshotsWrite
           | [] \<Rightarrow> None)
      | RouteTunnel \<Rightarrow>
          (case path_parts ''/v1/tunnels/'' r of
             tunnelID # rest \<Rightarrow>
               if tunnelID = [] then None
               else if rest = [] then Some PermissionTunnelsWrite
               else if hd rest = ''signed-url'' then Some PermissionTunnelsRead else None
           | [] \<Rightarrow> None)
      | _ \<Rightarrow> None)"

lemma forbidden:
  "\<not> HasPermission c p \<Longrightarrow> requirePermission (Some c) p k w = (Inr (handleError (ErrForbidden [])), w)"
  by (simp add: requirePermission_def Require_def)

lemma forbidden_method: "snd (only_method m r h w) = (if hr_Method r = m then snd (h w) else w)"
  by (simp add: only_method_def)

text \<open>A call leaves the world alone when it changes nothing but the answers consumed from the environment.\<close>

definition idle :: "'r handler \<Rightarrow> 'r world \<Rightarrow> bool" where
  "idle h w \<longleftrightarrow> w_db (snd (h w)) = w_db w"

lemma idle_ok [simp]: "idle (okE rep) w"
  by (simp add: idle_def)

lemma idle_forbidden: "\<not> HasPermission c p \<Longrightarrow> idle (requirePermission (Some c) p k) w"
  by (simp add: idle_def forbidden)

lemma idle_method: "(hr_Method r = m \<Longrightarrow> idle h w) \<Longrightarrow> idle (only_method m r h) w"
  by (simp add: idle_def only_method_def)

lemma idle_file:
  "\<not> HasPermission c (if hr_Method r \<in> {''PUT'', ''DELETE'', ''POST''} then PermissionFilesWrite else PermissionFilesRead) \<Longrightarrow>
   idle (requireFilePermission (Some c) r k) w"
  unfolding requireFilePermission_def by (rule idle_forbidden)

definition refused :: "tenant_context \<Rightarrow> string option \<Rightarrow> bool" where
  "refused c needed = (case needed of None \<Rightarrow> True | Some p \<Rightarrow> \<not> HasPermission c p)"

lemma idle_tunnels:
  assumes "refused c (action_permission ''tunnels'' (hr_Method (ac_Request call)) rest)"
  shows "idle (sandbox_tunnels api (Some c) c call i rest) w"
  using assms
  by (cases rest) (auto simp: sandbox_tunnels_def require_for_tunnels_def action_permission_def refused_def
      handleTunnels_def idle_forbidden split: if_splits)

lemma idle_snapshots:
  assumes "refused c (action_permission ''snapshots'' (hr_Method (ac_Request call)) rest)"
  shows "idle (sandbox_snapshots api (Some c) c call i) w"
  using assms by (auto simp: sandbox_snapshots_def action_permission_def refused_def idle_forbidden split: if_splits)

lemma idle_resource:
  "refused c (sandbox_permission (hr_Method (ac_Request call))) \<Longrightarrow> idle (sandbox_resource api (Some c) c call i) w"
  by (auto simp: sandbox_resource_def sandbox_permission_def refused_def idle_forbidden Let_def split: if_splits)

lemma idle_action:
  assumes "refused c (action_permission action (hr_Method (ac_Request call)) rest)"
  shows "idle (sandbox_action api (Some c) c call i action rest) w"
proof (cases "action = ''tunnels'' \<or> action = ''snapshots''")
  case True
  then show ?thesis
    using assms idle_tunnels [of c call rest] idle_snapshots [of c call rest] by (auto simp: sandbox_action_def)
next
  case False
  then show ?thesis
    using assms
    by (auto simp: sandbox_action_def action_permission_def refused_def Let_def idle_forbidden idle_file split: if_splits)
qed

lemma idle_quota: "idle (handleQuota api (Some c) r) w"
  by (auto simp: idle_def handleQuota_def identified_def only_method_def answer_def or_reply_def tryE_def
      GetTenantQuotaView_def Store_GetQuota_def Store_TenantUsage_def sql_query_def bindE_def Let_def split: sum.split)

lemma idle_tunnel_routes:
  assumes "refused c (route_permission RouteTunnel (ac_Request call))" and "\<not> proxy_path (ac_Request call)"
  shows "idle (handleTunnelRoutes api (Some c) call) w"
proof (cases "path_parts ''/v1/tunnels/'' (ac_Request call)")
  case (Cons j rest)
  show ?thesis
  proof (cases rest)
    case Nil
    with Cons assms(1) show ?thesis
      by (auto simp: handleTunnelRoutes_def identified_def route_permission_def refused_def Let_def
          intro!: idle_method idle_forbidden)
  next
    case (Cons action tail)
    note p = \<open>path_parts _ _ = j # rest\<close> [unfolded Cons]
    from assms(2) p have "action \<noteq> ''proxy''" by (simp add: proxy_path_def)
    with p assms(1) show ?thesis
      by (auto simp: handleTunnelRoutes_def handleTunnelSignedURL_def route_permission_def refused_def Let_def
          idle_def bindE_def forbidden)
  qed
qed (simp add: handleTunnelRoutes_def)

lemma idle_sandbox_routes:
  assumes "refused c (route_permission RouteSandbox (ac_Request call))"
  shows "idle (handleSandboxRoutes api (Some c) call) w"
  using assms
  by (auto simp: handleSandboxRoutes_def identified_def route_permission_def Let_def
      intro!: idle_resource idle_action split: list.splits if_splits)

lemma idle_snapshot_routes:
  assumes "refused c (route_permission RouteSnapshot (ac_Request call))"
  shows "idle (handleSnapshotRoutes api (Some c) call) w"
  using assms
  by (auto simp: handleSnapshotRoutes_def identified_def route_permission_def refused_def Let_def
      intro!: idle_method idle_forbidden split: list.splits if_splits)

lemma idle_dispatch:
  assumes "refused c (route_permission rte (ac_Request call))" and "\<not> proxy_path (ac_Request call)"
  shows "idle (dispatch api (Some c) call rte) w"
  using assms
  by (cases rte) (auto simp: dispatch_def health_def handleMetrics_def handleRuntimeInfo_def handleRuntimeHealth_def
      handleRuntimeCapacity_def handleSandboxes_def identified_def idle_quota idle_sandbox_routes idle_snapshot_routes
      idle_tunnel_routes route_permission_def refused_def Let_def idle_forbidden intro!: idle_method split: if_splits)

text \<open>
  C22: every change made through the API was permitted. When a call with an identity, on any path but the
  tunnel proxy, changes the database in any way, audit records included, then the route it is dispatched to
  asks for a permission in the table of routes, methods and actions, and the caller has that permission.
\<close>

theorem api_change_permitted:
  assumes "ServeHTTP api (Some c) call w = (r, w')" and "w_db w' \<noteq> w_db w" and "\<not> proxy_path (ac_Request call)"
  shows "\<exists>p. route_permission (mux_route (segments (EscapedPath (url_path (hr_URL (ac_Request call))))))
       (ac_Request call) = Some p \<and> HasPermission c p"
proof (rule ccontr)
  let ?rte = "mux_route (segments (EscapedPath (url_path (hr_URL (ac_Request call)))))"
  assume "\<not> ?thesis"
  then have "refused c (route_permission ?rte (ac_Request call))" by (auto simp: refused_def split: option.split)
  from idle_dispatch [OF this assms(3), of api w] assms(1,2) show False
    by (auto simp: ServeHTTP_def Let_def idle_def split: if_splits)
qed

definition developer :: tenant_context where
  "developer = \<lparr>tc_Tenant = sample_tenant, tc_Quota = sample_quota, tc_Identity =
     \<lparr>id_Subject = ''dev'', id_TenantID = ''acme'', id_Roles = [''developer''], id_Scopes = [],
      id_ServiceAccountID = [], id_IsService = False, id_AuthMethod = ''static''\<rparr>\<rparr>"

definition tunnel_world :: "unit world" where
  "tunnel_world = running_world\<lparr>w_db := running_db\<lparr>db_tunnels := [sample_tunnel]\<rparr>\<rparr>"

lemma revoke_call_revokes:
  "map tun_RevokedAt (db_tunnels (w_db (snd (ServeHTTP demo_api (Some developer)
     (demo_call ''DELETE'' (''/v1/tunnels/'' @ tun_ID sample_tunnel)) tunnel_world)))) = [Some 0]"
  by code_simp

theorem api_change_permitted_witness:
  "\<exists>p. route_permission RouteTunnel (ac_Request (demo_call ''DELETE'' ''/v1/tunnels/tun-1'')) = Some p \<and> HasPermission developer p"
proof -
  let ?call = "demo_call ''DELETE'' ''/v1/tunnels/tun-1''"
  obtain r w' where run: "ServeHTTP demo_api (Some developer) ?call tunnel_world = (r, w')" by force
  have call: "demo_call ''DELETE'' (''/v1/tunnels/'' @ tun_ID sample_tunnel) = ?call" by (simp add: sample_tunnel_def)
  have "map tun_RevokedAt (db_tunnels (w_db w')) = [Some 0]"
    using revoke_call_revokes run unfolding call by simp
  moreover have "map tun_RevokedAt (db_tunnels (w_db tunnel_world)) = [None]"
    by (simp add: tunnel_world_def sample_tunnel_def)
  ultimately have changed: "w_db w' \<noteq> w_db tunnel_world" by auto
  have "\<not> proxy_path (ac_Request ?call)" by (simp add: proxy_path_def path_parts_def demo_call_def) code_simp
  moreover have "mux_route (segments (EscapedPath (url_path (hr_URL (ac_Request ?call))))) = RouteTunnel" by code_simp
  ultimately show ?thesis using api_change_permitted [OF run changed] by simp
qed

section \<open>Uploads\<close>

lemma b64_digit_clean: "\<not> is_space (b64_char k)"
proof (cases "k < 64")
  case True
  have "\<forall>j \<in> set [0 ..< 64]. \<not> is_space (b64_char j)" by code_simp
  with True show ?thesis by simp
next
  case False
  then have "b64_char k = char_of (47 :: nat)" by (simp add: b64_char_def)
  moreover have "\<not> is_space (char_of (47 :: nat))" by code_simp
  ultimately show ?thesis by simp
qed

lemma b64_clean: "c \<in> set (b64_encode ns) \<Longrightarrow> \<not> is_space c"
proof (induction ns rule: b64_encode.induct)
  have pad: "\<not> is_space (CHR ''='')" by code_simp
  { case (2 a) with pad show ?case by (auto simp: b64_digit_clean) }
  { case (3 a b) with pad show ?case by (auto simp: b64_digit_clean) }
qed (auto simp: b64_digit_clean)

lemma EncodeToString_clean [simp]: "TrimSpace (EncodeToString s) = EncodeToString s"
  by (rule TrimSpace_no_space) (auto simp: EncodeToString_def dest: b64_clean)

lemma upload_limit:
  assumes "0 < n" and "n \<le> 2 ^ 60"
  shows "workspaceFileUploadBodyBytes n = (n + 2) div 3 * 4 + 65536"
proof -
  have "add64 n 2 = n + 2" using assms by (intro add64_id) (simp add: in_int64_def min_int64_def max_int64_def)
  moreover have "go_div (n + 2) 3 = (n + 2) div 3" using assms by (simp add: go_div_def)
  moreover have "(n + 2) div 3 \<le> 2 ^ 60" "0 \<le> (n + 2) div 3" using assms by simp_all
  moreover from this have "mul64 ((n + 2) div 3) 4 = (n + 2) div 3 * 4"
      "add64 ((n + 2) div 3 * 4) 65536 = (n + 2) div 3 * 4 + 65536"
    by (intro mul64_id add64_id; simp add: in_int64_def min_int64_def max_int64_def)+
  ultimately show ?thesis using assms by (simp add: workspaceFileUploadBodyBytes_def)
qed

text \<open>
  The body limit admits every file the transfer limit admits, and the file that was sent is the one that is
  written. A non-empty file of at most \<open>n\<close> bytes, encoded in base64, fits into the number of body bytes the
  router accepts for a transfer limit of \<open>n\<close>, with 64 KiB left for the JSON around it (the computation does not
  overflow for limits up to \<open>2\<^sup>6\<^sup>0\<close>), and decodes to the bytes it was made of, whatever the other fields say.
\<close>

theorem upload_fits_and_decodes:
  assumes "0 < n" and "n \<le> 2 ^ 60" and "int (length content) \<le> n" and "content \<noteq> []"
    and "fw_ContentBase64 req = EncodeToString content"
  shows "int (length (EncodeToString content)) + 64 * 1024 \<le> workspaceFileUploadBodyBytes n \<and>
    written_content req = Inr content"
proof -
  have "int (length (EncodeToString content)) = 4 * ((int (length content) + 2) div 3)"
    by (simp add: EncodeToString_def b64_length zdiv_int)
  also have "\<dots> \<le> 4 * ((n + 2) div 3)" using assms(3) by (simp add: zdiv_mono1)
  finally show ?thesis using assms(4,5) by (simp add: upload_limit [OF assms(1,2)] written_content_def)
qed

end
