(* ===== verification/TransferSafety.thy ===== *)
theory TransferSafety
  imports Transfers Example
begin

text \<open>
  Workspace archives are bounded and contained: what an export can put into an archive, where an import can
  write, and what is left behind when either fails.
\<close>

section \<open>Names inside an archive\<close>

definition relative_plain :: "string \<Rightarrow> bool" where
  "relative_plain p \<longleftrightarrow> (\<exists>cs. cs \<noteq> [] \<and> list_all plain cs \<and> p = rel_path cs)"

text \<open>
  What a walk guarantees of its callback: the path relative to the root is the dot for the root and plain
  below it, sizes are those of files, and the root of the workspace, which resolution has found to be a
  directory, is one.
\<close>

definition walk_documented :: "string \<Rightarrow> goerr + walk_entry \<Rightarrow> bool" where
  "walk_documented cleaned x =
     (case x of
        Inl _ \<Rightarrow> True
      | Inr e \<Rightarrow> (is_walk_root e \<and> (cleaned = [] \<longrightarrow> we_IsDir e) \<or> relative_plain (we_Rel e)) \<and>
           (case we_Info e of Inl _ \<Rightarrow> True | Inr info \<Rightarrow> 0 \<le> fi_Size info \<and> fi_Size info < 2 ^ 62))"

lemma relative_plain_not_dot: "relative_plain p \<Longrightarrow> p \<noteq> ''.'' \<and> p \<noteq> [] \<and> \<not> HasSuffix p ''/''"
proof -
  assume "relative_plain p"
  then obtain cs where cs: "cs \<noteq> []" "list_all plain cs" "p = rel_path cs" by (auto simp: relative_plain_def)
  have s: "split_on slash p = cs" using cs split_join_plain by (simp add: rel_path_def)
  have "\<not> HasSuffix p ''/''"
  proof
    assume "HasSuffix p ''/''"
    then obtain q where "p = q @ [slash]"
      by (cases p rule: rev_exhaust) (auto simp: HasSuffix_def HasPrefix_def slash_def)
    then have "split_on slash p = split_on slash q @ [[]]" using split_on_append_slash [of slash q "[]"] by simp
    with s cs show False by (auto simp: plain_def)
  qed
  moreover have "p \<noteq> ''.''" "p \<noteq> []" using s cs by (auto simp: plain_def slash_def)
  ultimately show ?thesis by simp
qed

lemma Join_relative:
  assumes "cleaned = [] \<or> relative_plain cleaned" and "relative_plain rel"
  shows "relative_plain (Join [cleaned, rel])"
proof -
  obtain ds where ds: "ds \<noteq> []" "list_all plain ds" "rel = rel_path ds" using assms(2) by (auto simp: relative_plain_def)
  have rel: "rel \<noteq> []" using relative_plain_not_dot [OF assms(2)] by simp
  show ?thesis
  proof (cases "cleaned = []")
    case True
    then have "Join [cleaned, rel] = rel" using rel ds Clean_rel_path by (simp add: Join_def)
    with assms(2) show ?thesis by simp
  next
    case False
    then obtain cs where cs: "cs \<noteq> []" "list_all plain cs" "cleaned = rel_path cs"
      using assms(1) by (auto simp: relative_plain_def)
    have "Join [cleaned, rel] = Clean (rel_path (cs @ ds))"
      using False rel cs ds by (simp add: Join_def rel_path_def join_with_append_rel)
    also have "\<dots> = rel_path (cs @ ds)" using cs ds by (intro Clean_rel_path) auto
    finally show ?thesis using cs ds unfolding relative_plain_def by (intro exI [of _ "cs @ ds"]) simp
  qed
qed

lemma archive_name_plain:
  assumes "walk_documented cleaned (Inr e)" and "cleaned = [] \<or> relative_plain cleaned"
    and "\<not> (is_walk_root e \<and> cleaned = [] \<and> we_IsDir e)"
  shows "relative_plain (archive_name cleaned target e)"
proof (cases "is_walk_root e")
  case True
  with assms have c: "relative_plain cleaned"
    by (auto simp: walk_documented_def is_walk_root_def dest: relative_plain_not_dot)
  then have "archive_name cleaned target e = cleaned"
    using True relative_plain_not_dot [OF c] by (simp add: archive_name_def)
  with c show ?thesis by simp
next
  case False
  then have "relative_plain (Join [cleaned, we_Rel e])"
    using assms by (intro Join_relative) (auto simp: walk_documented_def)
  moreover from this have "archive_name cleaned target e = Join [cleaned, we_Rel e]"
    using False by (simp add: archive_name_def Let_def relative_plain_not_dot)
  ultimately show ?thesis by simp
qed

section \<open>The tar writer\<close>

definition entry_bytes :: "string \<times> string option \<Rightarrow> int" where
  "entry_bytes x = (case snd x of None \<Rightarrow> 0 | Some content \<Rightarrow> int (length content))"

definition archive_bytes :: "(string \<times> string option) list \<Rightarrow> int" where
  "archive_bytes es = sum_list (map entry_bytes es)"

lemma archive_bytes_snoc [simp]: "archive_bytes (es @ [x]) = archive_bytes es + entry_bytes x"
  by (simp add: archive_bytes_def)

definition entry_base :: "string \<times> string option \<Rightarrow> string" where
  "entry_base x = (if snd x = None then butlast (fst x) else fst x)"

definition named :: "tar_writer \<Rightarrow> bool" where
  "named tw \<longleftrightarrow> map entry_base (tw_Entries tw) = rev (tw_Seen tw) \<and> distinct (tw_Seen tw) \<and>
     list_all relative_plain (tw_Seen tw)"

definition balanced :: "int \<Rightarrow> tar_writer \<Rightarrow> bool" where
  "balanced lim tw \<longleftrightarrow> archive_bytes (tw_Entries tw) \<le> tw_Total tw \<and> 0 \<le> tw_Total tw \<and> tw_Total tw \<le> lim"

definition transfer_limit :: "int \<Rightarrow> int" where
  "transfer_limit maxBytes = (if maxBytes \<le> 0 then DefaultWorkspaceFileTransferMaxBytes else maxBytes)"

lemma ensure_ok: "ensureWorkspaceTransferSize n maxBytes = Inr u \<Longrightarrow> n \<le> transfer_limit maxBytes"
  by (auto simp: ensureWorkspaceTransferSize_def transfer_limit_def Let_def split: if_splits)

definition entry_outcome :: "int \<Rightarrow> (goerr + unit) \<times> tar_writer \<Rightarrow> bool" where
  "entry_outcome lim res \<longleftrightarrow> named (snd res) \<and> archive_bytes (tw_Entries (snd res)) \<le> lim \<and>
     (\<not> isl (fst res) \<longrightarrow> balanced lim (snd res))"

lemma outcome_same: "named tw \<Longrightarrow> balanced lim tw \<Longrightarrow> entry_outcome lim (r, tw)"
  by (auto simp: entry_outcome_def balanced_def)

lemma outcome_file:
  assumes "named tw" and "balanced lim tw" and "relative_plain name" and "name \<notin> set (tw_Seen tw)"
    and "int (length taken) \<le> n" and "tw_Total tw' = tw_Total tw + n" and "tw_Total tw' \<le> lim"
    and "tw_Entries tw' = tw_Entries tw @ [(name, Some taken)]" and "tw_Seen tw' = name # tw_Seen tw"
  shows "entry_outcome lim (r, tw')"
  using assms by (simp add: entry_outcome_def named_def balanced_def entry_base_def entry_bytes_def)

lemma export_entry_outcome:
  assumes "named tw" and "balanced (transfer_limit maxBytes) tw" and "transfer_limit maxBytes \<le> 2 ^ 62"
    and "walk_documented cleaned (Inr e)" and "cleaned = [] \<or> relative_plain cleaned"
  shows "entry_outcome (transfer_limit maxBytes) (export_entry maxBytes cleaned target tw e)"
proof -
  let ?name = "archive_name cleaned target e"
  let ?lim = "transfer_limit maxBytes"
  note same = outcome_same [OF assms(1,2)]
  show ?thesis
  proof (cases "is_walk_root e \<and> cleaned = [] \<and> we_IsDir e \<or> ?name \<in> set (tw_Seen tw)")
    case False
    then have plain: "relative_plain ?name" using archive_name_plain assms(4,5) by blast
    from False have fresh: "?name \<notin> set (tw_Seen tw)" by simp
    show ?thesis
    proof (cases "we_Info e")
      case (Inr info)
      have sz: "0 \<le> fi_Size info" "fi_Size info < 2 ^ 62" using assms(4) Inr by (auto simp: walk_documented_def)
      have total: "add64 (tw_Total tw) (fi_Size info) = tw_Total tw + fi_Size info"
        using assms(2,3) sz by (intro add64_small) (auto simp: balanced_def)
      have failed: "entry_outcome ?lim (Inl err, tw\<lparr>tw_Seen := ?name # tw_Seen tw,
          tw_Total := tot, tw_Entries := tw_Entries tw @ [(?name, Some [])], tw_Missing := n\<rparr>)" for err tot n
        using assms(1,2) plain fresh
        by (simp add: entry_outcome_def named_def balanced_def entry_base_def entry_bytes_def)
      have dir: "entry_outcome ?lim (Inr (), tw\<lparr>tw_Seen := ?name # tw_Seen tw,
          tw_Entries := tw_Entries tw @ [(?name @ ''/'', None)]\<rparr>)"
        using assms(1,2) plain fresh
        by (simp add: entry_outcome_def named_def balanced_def entry_base_def entry_bytes_def)
      have copied: "entry_outcome ?lim (copy_content (tw\<lparr>tw_Seen := ?name # tw_Seen tw,
          tw_Total := tw_Total tw + fi_Size info\<rparr>) ?name (fi_Size info) content)"
        if "tw_Total tw + fi_Size info \<le> ?lim" for content
        unfolding copy_content_def Let_def
        by (simp, intro conjI impI; rule outcome_file [OF assms(1,2) plain fresh, of "take (nat (fi_Size info)) content" "fi_Size info"])
          (use sz that in auto)
      show ?thesis
        unfolding export_entry_def Let_def
        using Inr False same failed dir copied relative_plain_not_dot [OF plain]
        by (auto simp: total split: option.split sum.split dest!: ensure_ok)
    qed (use False same in \<open>simp add: export_entry_def Let_def\<close>)
  qed (use same in \<open>auto simp: export_entry_def Let_def\<close>)
qed

lemma export_walk_outcome:
  assumes "named tw" and "balanced (transfer_limit maxBytes) tw" and "transfer_limit maxBytes \<le> 2 ^ 62"
    and "list_all (walk_documented cleaned) xs" and "cleaned = [] \<or> relative_plain cleaned"
  shows "entry_outcome (transfer_limit maxBytes) (export_walk maxBytes cleaned target tw xs)"
  using assms(1,2,4)
proof (induction xs arbitrary: tw)
  case (Cons x xs)
  show ?case
  proof (cases x)
    case (Inr e)
    have o: "entry_outcome (transfer_limit maxBytes) (export_entry maxBytes cleaned target tw e)"
      using Cons.prems Inr assms(3,5) by (intro export_entry_outcome) auto
    show ?thesis
    proof (cases "export_entry maxBytes cleaned target tw e")
      case (Pair r tw')
      with o Inr Cons show ?thesis by (cases r) (auto simp: entry_outcome_def)
    qed
  qed (use Cons in \<open>simp add: outcome_same\<close>)
qed (simp add: outcome_same)

text \<open>The paths an export walks are the workspace root and plain paths below it.\<close>

lemma export_target_plain:
  assumes "resolveWorkspaceArchiveExportTarget view root requested = Inr (cleaned, target)"
  shows "cleaned = [] \<or> relative_plain cleaned"
proof -
  have "cleanWorkspaceRelativePath requested = Inr cleaned"
    using assms by (auto simp: resolveWorkspaceArchiveExportTarget_def split: sum.splits option.splits)
  from clean_relative_plain [OF this] show ?thesis by (auto simp: relative_plain_def)
qed

definition walks_documented :: "tree_view \<Rightarrow> bool" where
  "walks_documented view \<longleftrightarrow>
     (\<forall>root requested cleaned target.
        resolveWorkspaceArchiveExportTarget view root requested = Inr (cleaned, target) \<longrightarrow>
        list_all (walk_documented cleaned) (tv_Walk view target))"

lemma export_outcome:
  assumes "named tw" and "balanced (transfer_limit maxBytes) tw" and "transfer_limit maxBytes \<le> 2 ^ 62"
    and "walks_documented view"
  shows "entry_outcome (transfer_limit maxBytes) (writeWorkspaceTarGz view root tw paths maxBytes)"
  using assms(1,2)
proof (induction paths arbitrary: tw)
  case (Cons requested rest)
  show ?case
  proof (cases "resolveWorkspaceArchiveExportTarget view root requested")
    case (Inr ct)
    obtain cleaned target where ct: "ct = (cleaned, target)" by force
    have o: "entry_outcome (transfer_limit maxBytes) (export_walk maxBytes cleaned target tw (tv_Walk view target))"
      using Cons.prems Inr ct assms(3,4) export_target_plain
      by (intro export_walk_outcome) (auto simp: walks_documented_def)
    show ?thesis
    proof (cases "export_walk maxBytes cleaned target tw (tv_Walk view target)")
      case (Pair r tw')
      with o Inr ct Cons show ?thesis by (cases r) (auto simp: entry_outcome_def)
    qed
  qed (use Cons in \<open>simp add: outcome_same\<close>)
qed (simp add: outcome_same)

text \<open>
  C23: an exported workspace archive is bounded and safe to unpack, even when the export fails half way. The
  file contents in it add up to at most the configured transfer limit, no name occurs twice, and every entry
  has a plain relative name, with no dot-dot, no leading slash and no empty part, directories with a final
  slash. The walk delivers what its documentation says: relative paths, and sizes of real files.
\<close>

theorem export_archive_safe:
  assumes "writeWorkspaceTarGz view root new_writer paths maxBytes = (r, tw)"
    and "walks_documented view" and "transfer_limit maxBytes \<le> 2 ^ 62"
  shows "archive_bytes (tw_Entries tw) \<le> transfer_limit maxBytes \<and>
     distinct (map entry_base (tw_Entries tw)) \<and>
     list_all (\<lambda>x. relative_plain (entry_base x)) (tw_Entries tw)"
proof -
  have lim: "0 \<le> transfer_limit maxBytes" by (simp add: transfer_limit_def DefaultWorkspaceFileTransferMaxBytes_def)
  have "entry_outcome (transfer_limit maxBytes) (writeWorkspaceTarGz view root new_writer paths maxBytes)"
    using assms(2,3) lim by (intro export_outcome) (simp_all add: named_def balanced_def new_writer_def archive_bytes_def)
  with assms(1) have o: "named tw" "archive_bytes (tw_Entries tw) \<le> transfer_limit maxBytes"
    by (simp_all add: entry_outcome_def)
  then have "list_all relative_plain (map entry_base (tw_Entries tw)) \<and> distinct (map entry_base (tw_Entries tw))"
    by (simp add: named_def)
  then show ?thesis using o(2) by (simp add: list.pred_map o_def)
qed

definition demo_entry :: "string \<Rightarrow> bool \<Rightarrow> string \<Rightarrow> walk_entry" where
  "demo_entry rel isdir content =
     \<lparr>we_Rel = rel, we_IsDir = isdir,
      we_Info = Inr \<lparr>fi_Symlink = False, fi_Executable = False, fi_Size = int (length content), fi_Header = None\<rparr>,
      we_Content = Inr content, we_fs = fv_fs plain_view\<rparr>"

definition demo_tree :: tree_view where
  "demo_tree = \<lparr>tv_file = plain_view, tv_archive = no_archives,
     tv_Walk = (\<lambda>p. [Inr (demo_entry ''.'' True []), Inr (demo_entry ''a'' True []), Inr (demo_entry ''a/b'' False ''hello'')]),
     tv_Stat = (\<lambda>_. None)\<rparr>"

lemma demo_relative: "relative_plain ''a''" "relative_plain ''a/b''"
  unfolding relative_plain_def
  by (rule exI [of _ "[''a'']"], simp add: plain_def slash_def)
    (rule exI [of _ "[''a'', ''b'']"], simp add: plain_def slash_def rel_path_def)

lemma demo_walks: "walks_documented demo_tree"
  by (simp add: walks_documented_def demo_tree_def walk_documented_def demo_entry_def is_walk_root_def demo_relative)

theorem export_archive_safe_witness:
  "\<exists>r tw. writeWorkspaceTarGz demo_tree ''/ws'' new_writer [[]] 1024 = (r, tw) \<and>
     archive_bytes (tw_Entries tw) \<le> 1024"
proof -
  obtain r tw where run: "writeWorkspaceTarGz demo_tree ''/ws'' new_writer [[]] 1024 = (r, tw)" by force
  from export_archive_safe [OF run demo_walks] have "archive_bytes (tw_Entries tw) \<le> transfer_limit 1024"
    by (simp add: transfer_limit_def)
  with run show ?thesis by (auto simp: transfer_limit_def)
qed

section \<open>A failed export\<close>

lemma os_call_ok: "w_osfault w = (\<lambda>_. None) \<Longrightarrow> os_call oper w = (Inr (), w\<lparr>w_fs := w_fs w @ [oper]\<rparr>)"
  by (cases w) (simp add: os_call_def Let_def)

lemma write_export_failed:
  assumes "writeWorkspaceTarGz view root new_writer paths (svc_maxTransfer svc) = (Inl e, tw)"
    and "w_osfault w = (\<lambda>_. None)"
  shows "write_export svc view root archivePath paths w =
     (Inl e, w\<lparr>w_fs := w_fs w @ [WriteTar archivePath (tw_Entries tw), CloseFile archivePath]\<rparr>)"
  using assms by (simp add: write_export_def tryE_def ignoreE_def os_call_ok)

text \<open>
  A failed export leaves its temporary archive behind. When the export from the host's directory fails
  while the archive is written, for instance because the workspace is larger than the transfer limit, and the
  operating system itself reports no error, then the files it touched are a temporary archive that was
  created, written and closed, and nothing removes it: the deferred removal tests an error variable that is
  never set.
\<close>

theorem export_failure_leaks_archive:
  assumes "resolveWorkspacePath (fv_fs (tv_file view)) (sb_WorkspaceRoot s) [] = Inr root"
    and "Backend (resolvedSandboxRuntimeSelection s) \<noteq> ''qemu''"
    and "writeWorkspaceTarGz view root new_writer paths (svc_maxTransfer svc) = (Inl e, tw)"
    and "w_osfault w = (\<lambda>_. None)"
  shows "\<exists>archivePath w'. export_from_host svc view t i s paths w = (Inl e, w') \<and>
     w_fs w' = w_fs w @ [CreateFile archivePath, WriteTar archivePath (tw_Entries tw), CloseFile archivePath]"
proof -
  let ?p = "Join [Dir root, (''workspace-export-'' @ w_rand w 0) @ ''.tar.gz'']"
  let ?w1 = "w\<lparr>w_rand := (\<lambda>n. w_rand w (Suc n)), w_fs := w_fs w @ [CreateFile ?p]\<rparr>"
  have "CreateTemp (Dir root) ''workspace-export-'' ''.tar.gz'' w = (Inr ?p, ?w1)"
    using assms(4) by (simp add: CreateTemp_def bindE_def thenE_def newID_def os_call_ok)
  moreover have "write_export svc view root ?p paths ?w1 =
      (Inl e, ?w1\<lparr>w_fs := w_fs ?w1 @ [WriteTar ?p (tw_Entries tw), CloseFile ?p]\<rparr>)"
    using assms(3,4) by (intro write_export_failed) simp_all
  ultimately have "export_from_host svc view t i s paths w =
      (Inl e, ?w1\<lparr>w_fs := w_fs ?w1 @ [WriteTar ?p (tw_Entries tw), CloseFile ?p]\<rparr>)"
    using assms(1,2) by (simp add: export_from_host_def guardE_def bindE_def thenE_def)
  then show ?thesis by (intro exI conjI) (assumption, simp)
qed

definition full_tree :: tree_view where
  "full_tree = demo_tree\<lparr>tv_Walk := (\<lambda>p. [Inl (Err ''permission denied'')])\<rparr>"

section \<open>Import\<close>

text \<open>Where an import may write: under the workspace root, or the directory that holds it, which exists.\<close>

fun op_under :: "string \<Rightarrow> fs_op \<Rightarrow> bool" where
  "op_under root (MkdirAll p) = (under root p \<or> p = Dir root)"
| "op_under root (CopyFile src dst) = under root dst"
| "op_under root _ = False"

definition root_stays :: "string \<Rightarrow> walk_entry \<Rightarrow> bool" where
  "root_stays root e \<longleftrightarrow> os_documented (we_fs e) \<and> os_Abs (we_fs e) (Clean root) = Inr root \<and>
     os_EvalSymlinks (we_fs e) root = Inr root"

definition writes_under :: "string \<Rightarrow> 'r world \<Rightarrow> 'r world \<Rightarrow> bool" where
  "writes_under root w w' \<longleftrightarrow> (\<exists>ops. w_fs w' = w_fs w @ ops \<and> list_all (op_under root) ops)"

interpretation inside: step_preorder "writes_under root" for root
proof unfold_locales
  show "writes_under root w w" for w by (simp add: writes_under_def)
  show "writes_under root u v \<Longrightarrow> writes_under root v w \<Longrightarrow> writes_under root u w" for u v w
    by (auto simp: writes_under_def)
qed

lemma os_call_inside: "op_under root oper \<Longrightarrow> preserves (writes_under root) (os_call oper)"
  by (auto simp: preserves_def writes_under_def os_call_def Let_def split: option.split)

lemma lift_then: "(\<And>a. r = Inr a \<Longrightarrow> preserves (writes_under root) (k a)) \<Longrightarrow> preserves (writes_under root) (bindE (liftE r) k)"
  by (cases r) (auto simp: preserves_def bindE_def inside.R_refl)

lemma target_inside:
  assumes "root_stays root e" and "resolveWorkspacePath (we_fs e) root rel = Inr target"
  shows "under root target" and "op_under root (MkdirAll (Dir target))"
proof -
  show u: "under root target"
    using resolve_contained [OF _ assms(2)] assms(1) by (auto simp: root_stays_def)
  then obtain cs ds where "list_all plain (cs @ ds)" "root = abs_path cs" "target = abs_path (cs @ ds)"
    by (auto simp: under_def)
  with Dir_contained [of cs ds] show "op_under root (MkdirAll (Dir target))"
    by (auto simp: contained_def)
qed

lemma copy_entry_inside:
  assumes "root_stays root e"
  shows "preserves (writes_under root) (copy_entry src root e)"
  unfolding copy_entry_def
  using target_inside [OF assms]
  by (intro inside.preserves_if inside.preserves_ok inside.preserves_fail lift_then inside.preserves_then os_call_inside) auto

lemma walkDir_inside:
  assumes "\<And>e. Inr e \<in> set xs \<Longrightarrow> preserves (writes_under root) (f e)"
  shows "preserves (writes_under root) (walkDir xs f)"
  using assms
proof (induction xs)
  case (Cons x xs)
  have "preserves (writes_under root) (case x of Inl e \<Rightarrow> failE e | Inr e \<Rightarrow> f e)"
    using Cons.prems by (cases x) (auto intro: inside.preserves_fail)
  then show ?case
    using Cons unfolding walkDir_def by (auto intro!: inside.preserves_then)
qed (simp add: walkDir_def inside.preserves_ok)

text \<open>
  C24: an import writes into the workspace only. Copying the unpacked tree of an uploaded archive onto the
  host, with any entries and any failures on the way, creates directories and writes files under the
  workspace root and nowhere else, whatever symbolic links the workspace already holds; the one other
  operation is creating the directory that contains the root, which is there already. The root is a resolved
  path that stays what it is during the copy.
\<close>

theorem import_contained:
  assumes "copyWorkspaceTree view src root w = (r, w')"
    and "list_all (\<lambda>x. case x of Inl _ \<Rightarrow> True | Inr e \<Rightarrow> root_stays root e) (tv_Walk view src)"
  shows "\<exists>ops. w_fs w' = w_fs w @ ops \<and> list_all (op_under root) ops"
proof -
  have "preserves (writes_under root) (copyWorkspaceTree view src root)"
    unfolding copyWorkspaceTree_def
    by (rule walkDir_inside, rule copy_entry_inside) (use assms(2) in \<open>auto simp: list_all_iff\<close>)
  from preservesD [OF this assms(1)] show ?thesis by (simp add: writes_under_def)
qed

definition upload_tree :: tree_view where
  "upload_tree = demo_tree\<lparr>tv_Walk := (\<lambda>p. [Inr ((demo_entry ''.'' True [])\<lparr>we_fs := link_fs\<rparr>),
     Inr ((demo_entry ''l/f'' False ''data'')\<lparr>we_fs := link_fs\<rparr>), Inr ((demo_entry ''x/passwd'' False ''root'')\<lparr>we_fs := link_fs\<rparr>)])\<rparr>"

lemma link_root: "os_Abs link_fs (Clean ''/w'') = Inr ''/w''" "os_EvalSymlinks link_fs ''/w'' = Inr ''/w''"
  by code_simp+

theorem import_contained_witness:
  "\<exists>r w' ops. copyWorkspaceTree upload_tree ''/stage'' ''/w'' running_world = (r, w') \<and>
     w_fs w' = w_fs running_world @ ops \<and> list_all (op_under ''/w'') ops"
proof -
  obtain r w' where run: "copyWorkspaceTree upload_tree ''/stage'' ''/w'' running_world = (r, w')" by force
  have "list_all (\<lambda>x. case x of Inl _ \<Rightarrow> True | Inr e \<Rightarrow> root_stays ''/w'' e) (tv_Walk upload_tree ''/stage'')"
    by (simp add: upload_tree_def root_stays_def link_fs_documented link_root)
  from import_contained [OF run this] run show ?thesis by blast
qed

end
