(* ===== verification/Inspection.thy ===== *)
theory Inspection
  imports Observability Example
begin

text \<open>
  The reports are right about the state they describe: pressure alerts computed in floating point are those
  of exact integer arithmetic, node alerts announce refused admissions, and the health view lists exactly the
  tenant's own sandboxes with counters that count them.
\<close>

section \<open>Counters count\<close>

lemma count_at_up: "count_at (count_up k m) a = count_at m a + (if a = k then 1 else 0)"
proof (cases "k \<in> set (map fst m)")
  case True
  have "map_of (map (\<lambda>(a, n). (a, if a = k then n + 1 else n)) m) a =
      map_option (\<lambda>n. if a = k then n + 1 else n) (map_of m a)"
    by (induction m) auto
  moreover from True have "map_of m k \<noteq> None" by (simp add: map_of_eq_None_iff)
  ultimately show ?thesis using True by (auto simp: count_at_def count_up_def split: option.split)
next
  case False
  then have "map_of m k = None" by (simp add: map_of_eq_None_iff)
  with False show ?thesis
    by (auto simp: count_at_def count_up_def map_add_def map_of_append [symmetric] split: option.split)
qed

lemma count_at_tally: "count_at (tally ks) a = int (count_list ks a)"
proof -
  have "count_at (foldl (\<lambda>m k. count_up k m) m ks) a = count_at m a + int (count_list ks a)" for m
    by (induction ks arbitrary: m) (simp_all add: count_at_up)
  from this [of "[]"] show ?thesis by (simp add: tally_def count_at_def)
qed

section \<open>Alerts of the quota view\<close>

definition moderate :: "int \<Rightarrow> bool" where "moderate n \<longleftrightarrow> 0 \<le> n \<and> n \<le> 2 ^ 50"

lemma moderate_float: "moderate n \<Longrightarrow> float64 (of_int n) = of_int n"
  by (rule float64_int) (simp add: moderate_def)

lemma ratio_ge_one:
  assumes "moderate v" and "moderate l"
  shows "1 \<le> ratioInt64 v l \<longleftrightarrow> 0 < l \<and> l \<le> v"
proof (cases "0 < l")
  case True
  have "1 \<le> float64 (of_int v / of_int l) \<longleftrightarrow> l \<le> v"
    by (rule float_ratio_ge_one) (use assms True in \<open>auto simp: moderate_def\<close>)
  with True assms show ?thesis by (simp add: ratioInt64_def float_div_def moderate_float)
qed (simp add: ratioInt64_def)

lemma float_80_positive: "0 < float64 (8 / 10)"
proof -
  have "0 < pow2 (binary_exponent (8 / 10))" by (rule pow2_pos)
  also have "\<dots> \<le> float64 (8 / 10)" by (rule float64_binade(1)) simp
  finally show ?thesis .
qed

lemma ratio_ge_80:
  assumes "moderate v" and "moderate l"
  shows "float64 (8 / 10) \<le> ratioInt64 v l \<longleftrightarrow> 0 < l \<and> 4 * l \<le> 5 * v"
proof (cases "0 < l")
  case True
  have "float64 (8 / 10) \<le> float64 (of_int v / of_int l) \<longleftrightarrow> 4 * l \<le> 5 * v"
    by (rule float_ratio_ge_80) (use assms True in \<open>auto simp: moderate_def\<close>)
  with True assms show ?thesis by (simp add: ratioInt64_def float_div_def moderate_float)
qed (use float_80_positive in \<open>simp add: ratioInt64_def not_le\<close>)

text \<open>The alerts in integer arithmetic.\<close>

definition exact_alerts :: "config \<Rightarrow> tenant_quota \<Rightarrow> tenant_usage \<Rightarrow> string list" where
  "exact_alerts cfg q u =
     (let limit = q_MaxStorageMB q * 2 ^ 20; files = cfg_StorageWarningFileCount cfg in
      (if 0 < limit \<and> limit \<le> tu_ActualStorageBytes u then [''storage quota pressure exceeded'']
       else if 0 < limit \<and> 4 * limit \<le> 5 * tu_ActualStorageBytes u then [''storage quota pressure above 80%''] else []) @
      (if 0 < files \<and> files \<le> tu_ActualStorageEntries u then [''storage file-count pressure exceeded'']
       else if 0 < files \<and> 4 * files \<le> 5 * tu_ActualStorageEntries u
            then [''storage file-count pressure above 80%''] else []) @
      (if 0 < q_MaxRunningSandboxes q \<and> q_MaxRunningSandboxes q \<le> tu_RunningSandboxes u
       then [''running sandbox quota exceeded''] else []) @
      (if 0 < q_MaxCPUCores q \<and> q_MaxCPUCores q \<le> tu_RequestedCPU u then [''cpu quota pressure exceeded''] else []) @
      (if 0 < q_MaxMemoryMB q \<and> q_MaxMemoryMB q \<le> tu_RequestedMemory u
       then [''memory quota pressure exceeded''] else []))"

definition moderate_view :: "config \<Rightarrow> tenant_quota \<Rightarrow> tenant_usage \<Rightarrow> bool" where
  "moderate_view cfg q u \<longleftrightarrow>
     list_all moderate [q_MaxStorageMB q * 2 ^ 20, cfg_StorageWarningFileCount cfg, q_MaxRunningSandboxes q,
       q_MaxCPUCores q, q_MaxMemoryMB q, tu_ActualStorageBytes u, tu_ActualStorageEntries u,
       tu_RunningSandboxes u, tu_RequestedCPU u, tu_RequestedMemory u]"

lemma mebibytes_exact: "moderate (n * 2 ^ 20) \<Longrightarrow> mebibytes n = n * 2 ^ 20"
  by (simp add: mebibytes_def mul64_id in_int64_def min_int64_def max_int64_def moderate_def)

text \<open>
  C25: the alerts of a tenant's quota view, which the code computes by dividing floating-point numbers and
  comparing the quotients with 1 and 0.8, are exactly those that integer arithmetic gives, in the same order,
  whenever no quantity exceeds \<open>2\<^sup>5\<^sup>0\<close> (a pebibyte of storage): rounding never raises or hides an alert.
\<close>

theorem quota_alerts_exact:
  assumes "moderate_view cfg q u"
  shows "qv_Alerts (buildTenantQuotaView cfg q u) = exact_alerts cfg q u"
  using assms
  by (simp only: buildTenantQuotaView_def quota_alerts_def exact_alerts_def moderate_view_def Let_def
      list.pred_inject mebibytes_exact MilliValue_def ratio_ge_one ratio_ge_80
      tenant_quota_view.simps simp_thms)

definition busy_usage :: tenant_usage where
  "busy_usage = \<lparr>tu_Sandboxes = 2, tu_RunningSandboxes = 1, tu_ConcurrentExecs = 0, tu_ActiveTunnels = 0,
     tu_RequestedCPU = 1000, tu_RequestedMemory = 64, tu_RequestedStorage = 10, tu_ActualStorageBytes = 900000,
     tu_ActualStorageEntries = 3\<rparr>"

definition small_quota :: tenant_quota where
  "small_quota = \<lparr>q_TenantID = ''t1'', q_MaxSandboxes = 4, q_MaxRunningSandboxes = 1, q_MaxConcurrentExecs = 2,
     q_MaxTunnels = 1, q_MaxCPUCores = 4000, q_MaxMemoryMB = 512, q_MaxStorageMB = 1, q_AllowTunnels = True,
     q_DefaultTunnelAuthMode = [], q_DefaultTunnelVisibility = []\<rparr>"

theorem quota_alerts_exact_witness:
  "qv_Alerts (buildTenantQuotaView (dev_config\<lparr>cfg_StorageWarningFileCount := 100\<rparr>) small_quota busy_usage) =
     [''storage quota pressure above 80%'', ''running sandbox quota exceeded'']"
proof -
  have "moderate_view (dev_config\<lparr>cfg_StorageWarningFileCount := 100\<rparr>) small_quota busy_usage"
    by (simp add: moderate_view_def moderate_def small_quota_def busy_usage_def)
  then have "qv_Alerts (buildTenantQuotaView (dev_config\<lparr>cfg_StorageWarningFileCount := 100\<rparr>) small_quota busy_usage) =
      exact_alerts (dev_config\<lparr>cfg_StorageWarningFileCount := 100\<rparr>) small_quota busy_usage"
    by (rule quota_alerts_exact)
  then show ?thesis by (simp add: exact_alerts_def small_quota_def busy_usage_def)
qed

section \<open>Node alerts and admission\<close>

lemma refuse_if:
  "(\<exists>m. (if b then Some (AdmissionError n True) else x) = Some (AdmissionError m True)) \<longleftrightarrow>
     b \<or> (\<exists>m. x = Some (AdmissionError m True))"
  by simp

lemma alert_if: "(if b then [x] else []) = [] \<longleftrightarrow> \<not> b"
  by simp

text \<open>The sums that admission compares with its limits do not wrap around.\<close>

definition no_overflow :: "config \<Rightarrow> admission_snapshot \<Rightarrow> create_request \<Rightarrow> bool" where
  "no_overflow c a req \<longleftrightarrow>
     in_int64 (asn_nodeSandboxes a + 1) \<and> in_int64 (asn_nodeRunning a + 1) \<and>
     in_int64 (asn_runningCPU a + cr_CPULimit req) \<and> in_int64 (asn_runningMemory a + cr_MemoryLimitMB req) \<and>
     moderate (cfg_AdmissionMinNodeFreeStorageMB c * 2 ^ 20)"

text \<open>
  Node alerts announce refusals. Whenever the node pressure view shows any alert, admission control, on
  the same snapshot, refuses to create and start another sandbox with a retryable error; the one exception is
  free storage exactly at its floor, where the view already alerts and admission still accepts.
\<close>

theorem node_alert_refuses:
  assumes "np_Alerts (buildNodePressureView c a) \<noteq> []"
    and "cr_Start req" and "0 < cr_CPULimit req" and "0 < cr_MemoryLimitMB req" and "no_overflow c a req"
    and "asn_freeStorage a \<noteq> mebibytes (cfg_AdmissionMinNodeFreeStorageMB c)"
  shows "\<exists>m. evaluateAdmission c a (create_delta req) = Some (AdmissionError m True)"
proof -
  have sums: "add64 (asn_nodeSandboxes a) 1 = asn_nodeSandboxes a + 1"
      "add64 (asn_nodeRunning a) 1 = asn_nodeRunning a + 1"
      "add64 (asn_runningCPU a) (cr_CPULimit req) = asn_runningCPU a + cr_CPULimit req"
      "add64 (asn_runningMemory a) (cr_MemoryLimitMB req) = asn_runningMemory a + cr_MemoryLimitMB req"
    using assms(5) by (simp_all add: no_overflow_def add64_id)
  have floor: "mebibytes (cfg_AdmissionMinNodeFreeStorageMB c) = cfg_AdmissionMinNodeFreeStorageMB c * 2 ^ 20"
    using assms(5) by (simp add: no_overflow_def mebibytes_exact)
  have alert: "0 < cfg_AdmissionMaxNodeSandboxes c \<and> cfg_AdmissionMaxNodeSandboxes c \<le> asn_nodeSandboxes a \<or>
      0 < cfg_AdmissionMaxNodeRunning c \<and> cfg_AdmissionMaxNodeRunning c \<le> asn_nodeRunning a \<or>
      0 < cfg_AdmissionMaxNodeCPU c \<and> cfg_AdmissionMaxNodeCPU c \<le> asn_runningCPU a \<or>
      0 < cfg_AdmissionMaxNodeMemoryMB c \<and> cfg_AdmissionMaxNodeMemoryMB c \<le> asn_runningMemory a \<or>
      0 < mebibytes (cfg_AdmissionMinNodeFreeStorageMB c) \<and> 0 \<le> asn_freeStorage a \<and>
        asn_freeStorage a \<le> mebibytes (cfg_AdmissionMinNodeFreeStorageMB c)"
    using assms(1)
    by (simp only: buildNodePressureView_def node_alerts_def Let_def node_pressure_view.simps append_is_Nil_conv
        alert_if MilliValue_def) blast
  show ?thesis
    using alert assms(2-4,6)
    unfolding evaluateAdmission_def Let_def refuse_if create_delta_def mebibytes_def [symmetric]
    by (simp only: if_True admission_delta.simps sums MilliValue_def) (use floor in auto)
qed

definition full_node :: admission_snapshot where
  "full_node = \<lparr>asn_nodeSandboxes = 9, asn_nodeRunning = 5, asn_runningCPU = 4000, asn_runningMemory = 2048,
     asn_freeStorage = - 1, asn_tenantStarts = 0, asn_tenantHeavy = 0\<rparr>"

section \<open>The health view\<close>

lemma inspect_all_result:
  assumes "inspect_all svc ss w = (r, w')"
  shows "w_db w' = w_db w \<and> (\<exists>rs. length rs = length ss \<and> r = Inr (map2 observed_entry ss rs))"
  using assms
proof (induction ss arbitrary: r w w')
  case (Cons s ss)
  obtain res w1 where i: "rt_call (rm_Inspect (svc_runtime svc) s) w = (res, w1)" by fastforce
  then have db: "w_db w1 = w_db w" by (auto simp: rt_call_def split: prod.splits)
  obtain r2 w2 where rest: "inspect_all svc ss w1 = (r2, w2)" by fastforce
  from Cons.IH [OF rest] obtain rs where rs: "w_db w2 = w_db w1" "length rs = length ss"
      "r2 = Inr (map2 observed_entry ss rs)" by blast
  have "r = Inr (map2 observed_entry (s # ss) (res # rs)) \<and> w' = w2"
    using Cons.prems rest rs(3) by (simp add: tryE_def i bindE_def)
  with rs db show ?case by (intro conjI exI [of _ "res # rs"]) simp_all
qed simp

lemma observed_entry_ids [simp]:
  "rh_SandboxID (observed_entry s r) = sb_ID s" "rh_TenantID (observed_entry s r) = sb_TenantID s"
  by (simp_all add: observed_entry_def persisted_entry_def split: sum.split)

lemma map2_fst_only: "length rs = length ss \<Longrightarrow> (\<And>s r. g (h s r) = k s) \<Longrightarrow> map g (map2 h ss rs) = map k ss"
  by (induction ss arbitrary: rs) (auto simp: length_Suc_conv)

lemma joined_sandboxes_complete:
  assumes "keys_ok d"
  shows "map sb_ID (joined_sandboxes p d) = map c_sandbox_id (filter p (db_sandboxes d))"
    and "map sb_TenantID (joined_sandboxes p d) = map c_tenant_id (filter p (db_sandboxes d))"
proof -
  have "runtime_row_of d (c_sandbox_id r) \<noteq> None" if "r \<in> set (db_sandboxes d)" for r
  proof -
    from that have "c_sandbox_id r \<in> set (map rr_sandbox_id (db_runtime d))"
      using assms by (simp add: keys_ok_def)
    then show ?thesis by (auto simp: runtime_row_of_def find_row_None)
  qed
  then have "map sb_ID (List.map_filter (\<lambda>r. map_option (scanSandbox r) (runtime_row_of d (c_sandbox_id r))) rs) =
      map c_sandbox_id rs \<and>
    map sb_TenantID (List.map_filter (\<lambda>r. map_option (scanSandbox r) (runtime_row_of d (c_sandbox_id r))) rs) =
      map c_tenant_id rs" if "set rs \<subseteq> set (db_sandboxes d)" for rs
    using that by (induction rs) (auto simp: List.map_filter_simps scanSandbox_def Let_def split: option.split)
  from this [of "filter p (db_sandboxes d)"]
  show "map sb_ID (joined_sandboxes p d) = map c_sandbox_id (filter p (db_sandboxes d))"
    and "map sb_TenantID (joined_sandboxes p d) = map c_tenant_id (filter p (db_sandboxes d))"
    by (auto simp: joined_sandboxes_def)
qed

lemma scoped_result:
  assumes "scoped_sandboxes t w = (Inr ss, w')"
  shows "w_db w' = w_db w \<and>
     ss = joined_sandboxes (\<lambda>r. c_status r \<noteq> StatusDeleted \<and> (t = [] \<or> c_tenant_id r = t)) (w_db w)"
  using assms
  by (auto simp: scoped_sandboxes_def Store_ListNonDeletedSandboxes_def Store_ListNonDeletedSandboxesByTenant_def
      Store_listNonDeletedSandboxes_def sql_query_def Let_def split: if_splits)

lemma policy_result:
  assumes "enforceAdminInspectionPolicy svc t act w = (Inr u, w')"
  shows "w' = w"
  using assms
  by (auto simp: enforceAdminInspectionPolicy_def denied_def thenE_def bindE_def split: if_splits prod.splits sum.splits)

lemma now_result: "now_utc w = (Inr n, w') \<Longrightarrow> w_db w' = w_db w"
  by (auto simp: now_utc_def)

lemma RuntimeHealth_result:
  assumes "RuntimeHealth svc t w = (Inr h, w')"
  obtains ss rs where "w_db w' = w_db w" "length rs = length ss"
    "ss = joined_sandboxes (\<lambda>r. c_status r \<noteq> StatusDeleted \<and> (t = [] \<or> c_tenant_id r = t)) (w_db w)"
    "he_Sandboxes h = map2 observed_entry ss rs"
    "he_Healthy h = list_all (\<lambda>e. \<not> failed_status (rh_ObservedStatus e)) (he_Sandboxes h)"
    "he_StatusCounts h = tally (map (\<lambda>e. status_string (rh_ObservedStatus e)) (he_Sandboxes h))"
proof -
  from assms obtain u w1 where p: "enforceAdminInspectionPolicy svc t ''runtime.inspect'' w = (Inr u, w1)"
    and k1: "bindE now_utc (\<lambda>now. bindE (scoped_sandboxes t) (\<lambda>sandboxes. getE (\<lambda>w.
       bindE (inspect_all svc sandboxes) (\<lambda>entries.
         okE (health_of svc now (agent_health svc t sandboxes (w_rt w)) entries
              (list_all (\<lambda>e. \<not> failed_status (rh_ObservedStatus e)) entries)))))) w1 = (Inr h, w')"
    unfolding RuntimeHealth_def by (rule thenE_InrE)
  from k1 obtain n w2 where n: "now_utc w1 = (Inr n, w2)"
    and k2: "bindE (scoped_sandboxes t) (\<lambda>sandboxes. getE (\<lambda>w.
       bindE (inspect_all svc sandboxes) (\<lambda>entries.
         okE (health_of svc n (agent_health svc t sandboxes (w_rt w)) entries
              (list_all (\<lambda>e. \<not> failed_status (rh_ObservedStatus e)) entries))))) w2 = (Inr h, w')"
    by (rule bindE_InrE)
  from k2 obtain ss w3 where ss: "scoped_sandboxes t w2 = (Inr ss, w3)"
    and k3: "bindE (inspect_all svc ss) (\<lambda>entries.
         okE (health_of svc n (agent_health svc t ss (w_rt w3)) entries
              (list_all (\<lambda>e. \<not> failed_status (rh_ObservedStatus e)) entries))) w3 = (Inr h, w')"
    by (rule bindE_InrE) (simp add: getE_def)
  from k3 obtain es w4 where es: "inspect_all svc ss w3 = (Inr es, w4)"
    and h: "h = health_of svc n (agent_health svc t ss (w_rt w3)) es
       (list_all (\<lambda>e. \<not> failed_status (rh_ObservedStatus e)) es)" "w' = w4"
    by (rule bindE_InrE) simp
  from inspect_all_result [OF es] obtain rs where rs: "length rs = length ss" "es = map2 observed_entry ss rs"
    and w4: "w_db w4 = w_db w3" by blast
  have dbs: "w1 = w" "w_db w2 = w_db w1" using policy_result [OF p] now_result [OF n] by auto
  note sc = scoped_result [OF ss]
  show thesis
    by (rule that [of rs ss]) (use rs w4 dbs sc h in \<open>simp_all add: health_of_def\<close>)
qed

text \<open>
  The runtime health a tenant is shown is complete, confined and consistent. A successful report leaves
  the database as it is, has exactly one entry for each of the tenant's own sandboxes that is not deleted, in
  the order of the table, and none of another tenant; it says healthy exactly when no observed status is error
  or degraded; and each status counter is the number of entries with that status.
\<close>

theorem runtime_health_complete:
  assumes "RuntimeHealth svc t w = (Inr h, w')" and "t \<noteq> []" and "keys_ok (w_db w)"
  shows "w_db w' = w_db w \<and>
     map rh_SandboxID (he_Sandboxes h) =
       map c_sandbox_id (filter (\<lambda>r. c_status r \<noteq> StatusDeleted \<and> c_tenant_id r = t) (db_sandboxes (w_db w))) \<and>
     list_all (\<lambda>e. rh_TenantID e = t) (he_Sandboxes h) \<and>
     (he_Healthy h \<longleftrightarrow> list_all (\<lambda>e. rh_ObservedStatus e \<notin> {StatusError, StatusDegraded}) (he_Sandboxes h)) \<and>
     (\<forall>k. count_at (he_StatusCounts h) k =
        int (length (filter (\<lambda>e. status_string (rh_ObservedStatus e) = k) (he_Sandboxes h))))"
proof -
  from assms(1) obtain ss rs where r: "w_db w' = w_db w" "length rs = length ss"
    "ss = joined_sandboxes (\<lambda>r. c_status r \<noteq> StatusDeleted \<and> (t = [] \<or> c_tenant_id r = t)) (w_db w)"
    "he_Sandboxes h = map2 observed_entry ss rs"
    "he_Healthy h = list_all (\<lambda>e. \<not> failed_status (rh_ObservedStatus e)) (he_Sandboxes h)"
    "he_StatusCounts h = tally (map (\<lambda>e. status_string (rh_ObservedStatus e)) (he_Sandboxes h))"
    by (rule RuntimeHealth_result)
  let ?p = "\<lambda>r. c_status r \<noteq> StatusDeleted \<and> c_tenant_id r = t"
  have ss: "ss = joined_sandboxes ?p (w_db w)" using r(3) assms(2) by simp
  have ids: "map rh_SandboxID (he_Sandboxes h) = map sb_ID ss"
    unfolding r(4) by (rule map2_fst_only [OF r(2)]) simp
  have "map rh_TenantID (he_Sandboxes h) = map sb_TenantID ss"
    unfolding r(4) by (rule map2_fst_only [OF r(2)]) simp
  also have "\<dots> = map c_tenant_id (filter ?p (db_sandboxes (w_db w)))"
    unfolding ss by (rule joined_sandboxes_complete(2) [OF assms(3)])
  finally have "set (map rh_TenantID (he_Sandboxes h)) \<subseteq> {t}" by auto
  then have own: "list_all (\<lambda>e. rh_TenantID e = t) (he_Sandboxes h)" by (auto simp: list_all_iff)
  have counts: "count_at (he_StatusCounts h) k =
      int (length (filter (\<lambda>e. status_string (rh_ObservedStatus e) = k) (he_Sandboxes h)))" for k
    unfolding r(6) count_at_tally by (simp add: count_list_eq_length_filter filter_map o_def eq_commute)
  have healthy: "he_Healthy h \<longleftrightarrow> list_all (\<lambda>e. rh_ObservedStatus e \<notin> {StatusError, StatusDegraded}) (he_Sandboxes h)"
    unfolding r(5) by (simp add: failed_status_def)
  show ?thesis
    using r(1) own counts healthy ids joined_sandboxes_complete(1) [OF assms(3), of ?p] ss by simp
qed

text \<open>Inspection failures of a backend become entries, so the report itself fails only with the store.\<close>

lemma RuntimeHealth_answers:
  assumes "cfg_DeploymentMode (svc_cfg svc) \<noteq> ''production''" and "\<not> w_dbfault w 0"
  shows "\<exists>h w'. RuntimeHealth svc t w = (Inr h, w')"
proof -
  have policy: "enforceAdminInspectionPolicy svc t act = okE ()" for act
    using assms(1) by (simp add: enforceAdminInspectionPolicy_def)
  define v where "v = w\<lparr>w_clock := (\<lambda>n. w_clock w (Suc n))\<rparr>"
  obtain ss v' where ss: "scoped_sandboxes t v = (Inr ss, v')"
    using assms(2) by (cases "t = []") (simp_all add: v_def scoped_sandboxes_def Store_ListNonDeletedSandboxes_def
        Store_ListNonDeletedSandboxesByTenant_def Store_listNonDeletedSandboxes_def sql_query_def Let_def)
  obtain r u where i: "inspect_all svc ss v' = (r, u)" by fastforce
  with inspect_all_result obtain es where "r = Inr es" by blast
  with ss i show ?thesis
    unfolding RuntimeHealth_def by (simp add: policy bindE_def now_utc_def getE_def flip: v_def)
qed

end
