(* ===== verification/CliRuntime.thy ===== *)
theory CliRuntime
  imports Transfers
begin

text \<open>
  What the two container backends (\<open>internal/runtime/docker/runtime.go\<close>, \<open>internal/runtime/kata/runtime.go\<close>)
  share: they drive a container engine through a command line program. The engine and the program are a
  parameter: a function from the arguments and the state of the engine to the outcome. Every command line that
  is run, and every file operation, is recorded in order. Log output is left out.
\<close>

section \<open>Commands\<close>

record cli_result =
  cl_Stdout :: string
  cl_Stderr :: string
  cl_Combined :: string
  cl_Err :: "string option"

text \<open>
  A started command: the chunks it writes, how it ends, and which of the two watchers, the timer and the
  cancelled request, fires before it has ended.
\<close>

datatype proc_exit = ExitOK | ExitStatus int | ExitOther string

record process =
  pr_Stdout :: "string list"
  pr_Stderr :: "string list"
  pr_Exit :: proc_exit
  pr_TimerFires :: bool
  pr_RequestEnds :: bool

record inspect_payload =
  ip_ID :: string
  ip_Status :: string
  ip_Running :: bool
  ip_Paused :: bool
  ip_Pid :: int
  ip_Error :: string
  ip_StartedAt :: string
  ip_IPAddress :: string
  ip_Networks :: "string list"

datatype bridge_start = ReadyLine "goerr + string" | BridgeExited "string option" | BridgeTimeout

text \<open>The state the Kata backend keeps in a file beside the storage of a sandbox.\<close>

record local_state =
  ls_SandboxID :: string
  ls_BaseImageRef :: string
  ls_WorkspaceRoot :: string
  ls_CacheRoot :: string
  ls_ScratchRoot :: string
  ls_SecretsRoot :: string
  ls_CreatedAt :: time

text \<open>
  The host: running a command line, starting one and watching it, starting one on a terminal, starting a bridge
  and waiting for its first line, the path and archive functions of the operating system, and the codecs of
  the standard library for the output of \<open>docker inspect\<close>, for instants and for the state file.
\<close>

record 'd cli_host =
  ch_Run :: "string list \<Rightarrow> 'd \<Rightarrow> cli_result \<times> 'd"
  ch_Spawn :: "string list \<Rightarrow> 'd \<Rightarrow> (goerr + process) \<times> 'd"
  ch_PTY :: "string list \<Rightarrow> 16 word \<Rightarrow> 16 word \<Rightarrow> 'd \<Rightarrow> (goerr + string) \<times> 'd"
  ch_MakeRaw :: "string \<Rightarrow> goerr option"
  ch_Bridge :: "string list \<Rightarrow> 'd \<Rightarrow> (goerr + bridge_start \<times> string) \<times> 'd"
  ch_BridgeScript :: string
  ch_Abs :: "string \<Rightarrow> goerr + string"
  ch_Payload :: "string \<Rightarrow> goerr + inspect_payload list"
  ch_ParseTime :: "string \<Rightarrow> time option"
  ch_Walk :: "string \<Rightarrow> (goerr + walk_entry) list"
  ch_Archives :: archive_view
  ch_EncodeState :: "local_state \<Rightarrow> string"
  ch_ReadState :: "string \<Rightarrow> goerr + local_state"

record 'd engine =
  en_daemon :: 'd
  en_commands :: "string list list"
  en_fs :: "fs_op list"
  en_clock :: "nat \<Rightarrow> time"
  en_osfault :: "nat \<Rightarrow> goerr option"

type_synonym ('d, 'a) engine_op = "(goerr, 'd engine, 'a) eop"

definition engine_now :: "('d, time) engine_op" where
  "engine_now = (\<lambda>e. (Inr (en_clock e 0), e\<lparr>en_clock := (\<lambda>n. en_clock e (Suc n))\<rparr>))"

definition engine_os :: "fs_op \<Rightarrow> ('d, unit) engine_op" where
  "engine_os oper = (\<lambda>e.
     let e' = e\<lparr>en_osfault := (\<lambda>n. en_osfault e (Suc n))\<rparr> in
     case en_osfault e 0 of
       Some err \<Rightarrow> (Inl err, e')
     | None \<Rightarrow> (Inr (), e'\<lparr>en_fs := en_fs e @ [oper]\<rparr>))"

definition with_daemon :: "string list \<Rightarrow> ('d \<Rightarrow> (goerr + 'a) \<times> 'd) \<Rightarrow> ('d, 'a) engine_op" where
  "with_daemon args f = (\<lambda>e. case f (en_daemon e) of
     (r, d) \<Rightarrow> (r, e\<lparr>en_daemon := d, en_commands := en_commands e @ [args]\<rparr>))"

definition execute :: "'d cli_host \<Rightarrow> string list \<Rightarrow> ('d, cli_result) engine_op" where
  "execute h args = with_daemon args (\<lambda>d. case ch_Run h args d of (c, d') \<Rightarrow> (Inr c, d'))"

definition spawn :: "'d cli_host \<Rightarrow> string list \<Rightarrow> ('d, process) engine_op" where
  "spawn h args = with_daemon args (ch_Spawn h args)"

definition make_dirs :: "string list \<Rightarrow> ('d, unit) engine_op" where
  "make_dirs dirs = forE (filter (\<lambda>d. d \<noteq> []) dirs) (\<lambda>d. engine_os (MkdirAll d))"

definition remove_dirs :: "string list \<Rightarrow> ('d, unit) engine_op" where
  "remove_dirs dirs = forE (filter (\<lambda>d. d \<noteq> []) dirs) (\<lambda>d. engine_os (RemoveAll d))"

definition storage_dirs :: "sandbox \<Rightarrow> string list" where
  "storage_dirs s = [sb_WorkspaceRoot s, sb_CacheRoot s, sb_StorageRoot s,
     Join [Dir (sb_StorageRoot s), ''scratch''], Join [Dir (sb_StorageRoot s), ''secrets'']]"

definition extract_into :: "'d cli_host \<Rightarrow> string \<Rightarrow> string \<Rightarrow> limits \<Rightarrow> ('d, unit) engine_op" where
  "extract_into h source destination lim = (\<lambda>e.
     case ExtractTarGz (av_os (ch_Archives h)) (av_Open (ch_Archives h) source) destination lim of
       (r, effects) \<Rightarrow>
         (case r of Inl err \<Rightarrow> Inl err | Inr st \<Rightarrow> Inr (), e\<lparr>en_fs := en_fs e @ map effect_op effects\<rparr>))"

definition runtime_state_of :: "string \<Rightarrow> sandbox_status \<Rightarrow> runtime_state" where
  "runtime_state_of i st =
     \<lparr>rs_RuntimeID = i, rs_Status = st, rs_Running = False, rs_Pid = 0, rs_IPAddress = [],
      rs_ControlMode = no_control_mode, rs_ControlProtocolVersion = [], rs_StartedAt = None, rs_Error = []\<rparr>"

definition detached_handle :: "time \<Rightarrow> exec_handle" where
  "detached_handle now =
     \<lparr>eh_Stdout = [], eh_Stderr = [], eh_Wait = \<lparr>er_ExitCode = 0, er_Status = ExecDetached, er_CompletedAt = now,
        er_Duration = 0, er_StdoutTruncated = False, er_StderrTruncated = False\<rparr>\<rparr>"

section \<open>Limits and archives\<close>

definition defaultRestoreLimits :: limits where
  "defaultRestoreLimits = \<lparr>lim_MaxBytes = 256 * 1024 * 1024, lim_MaxFiles = 4096, lim_MaxExpansionRatio = 32\<rparr>"

definition restore_limits :: "int \<Rightarrow> int \<Rightarrow> int \<Rightarrow> limits" where
  "restore_limits maxBytes maxFiles maxRatio =
     \<lparr>lim_MaxBytes = (if 0 < maxBytes then maxBytes else lim_MaxBytes defaultRestoreLimits),
      lim_MaxFiles = (if 0 < maxFiles then maxFiles else lim_MaxFiles defaultRestoreLimits),
      lim_MaxExpansionRatio =
        (if 0 < maxRatio then maxRatio else lim_MaxExpansionRatio defaultRestoreLimits)\<rparr>"

text \<open>
  One entry of the walk that archives a directory. The header of a symbolic link announces no bytes, but the
  content that is copied after it is that of the file the link leads to. The two backends differ in the final
  slash of a directory's name.
\<close>

definition archive_dir_entry :: "bool \<Rightarrow> tar_writer \<Rightarrow> walk_entry \<Rightarrow> (goerr + unit) \<times> tar_writer" where
  "archive_dir_entry dirSlash tw e =
     (if is_walk_root e then (Inr (), tw)
      else
        (case we_Info e of
           Inl err \<Rightarrow> (Inl err, tw)
         | Inr info \<Rightarrow>
             (case fi_Header info of
                Some err \<Rightarrow> (Inl err, tw)
              | None \<Rightarrow>
                  if tw_Missing tw \<noteq> 0 then
                    (Inl (Err (''archive/tar: missed writing '' @ fmt_int (tw_Missing tw) @ '' bytes'')), tw)
                  else if we_IsDir e then
                    (Inr (), tw\<lparr>tw_Entries := tw_Entries tw @ [(we_Rel e @ (if dirSlash then ''/'' else []), None)]\<rparr>)
                  else
                    (let announced = (if fi_Symlink info then 0 else fi_Size info) in
                     case we_Content e of
                       Inl err \<Rightarrow> (Inl err, tw\<lparr>tw_Entries := tw_Entries tw @ [(we_Rel e, Some [])],
                                              tw_Missing := announced\<rparr>)
                     | Inr content \<Rightarrow> copy_content tw (we_Rel e) announced content))))"

fun archive_dir_walk ::
  "bool \<Rightarrow> tar_writer \<Rightarrow> (goerr + walk_entry) list \<Rightarrow> (goerr + unit) \<times> tar_writer" where
  "archive_dir_walk dirSlash tw [] = (Inr (), tw)"
| "archive_dir_walk dirSlash tw (Inl err # rest) = (Inl err, tw)"
| "archive_dir_walk dirSlash tw (Inr e # rest) =
     (case archive_dir_entry dirSlash tw e of
        (Inl err, tw') \<Rightarrow> (Inl err, tw')
      | (Inr u, tw') \<Rightarrow> archive_dir_walk dirSlash tw' rest)"

definition archiveDirectory :: "bool \<Rightarrow> 'd cli_host \<Rightarrow> string \<Rightarrow> string \<Rightarrow> ('d, unit) engine_op" where
  "archiveDirectory dirSlash h srcDir dest =
     thenE (engine_os (CreateFile dest))
       (case archive_dir_walk dirSlash new_writer (ch_Walk h srcDir) of
          (r, tw) \<Rightarrow> tryE (engine_os (WriteTar dest (tw_Entries tw))) (\<lambda>written.
             liftE (case r of Inl err \<Rightarrow> Inl err | Inr u \<Rightarrow> written)))"

section \<open>Words of the output\<close>

text \<open>\<open>strings.Fields\<close> and the cut at line feeds.\<close>

fun fields_from :: "string \<Rightarrow> string \<Rightarrow> string list" where
  "fields_from cur [] = (if cur = [] then [] else [cur])"
| "fields_from cur (c # cs) =
     (if is_space c then (if cur = [] then fields_from [] cs else cur # fields_from [] cs)
      else fields_from (cur @ [c]) cs)"

definition Fields :: "string \<Rightarrow> string list" where "Fields s = fields_from [] s"

definition text_lines :: "string \<Rightarrow> string list" where "text_lines s = split_on (CHR 0x0A) s"

end
