(* ===== verification/Docker.thy ===== *)
theory Docker
  imports CliRuntime
begin

text \<open>
  The Docker backend (\<open>internal/runtime/docker/runtime.go\<close>): how the runtime is configured, the command lines it
  builds, the security options it asks for and what it makes of the answers. \<open>docker_manager\<close> is the backend as
  a runtime manager, the form in which the registry and the service use it.
\<close>

section \<open>Configuration\<close>

record docker_options =
  do_Binary :: string
  do_HostOS :: string
  do_User :: string
  do_TmpfsSizeMB :: int
  do_SeccompProfile :: string
  do_AppArmorProfile :: string
  do_SELinuxLabel :: string
  do_AllowDangerousOverrides :: bool
  do_SnapshotMaxBytes :: int
  do_SnapshotMaxFiles :: int
  do_SnapshotMaxExpansionRatio :: int

record docker_runtime =
  dk_binary :: string
  dk_hostOS :: string
  dk_user :: string
  dk_tmpfsSizeMB :: int
  dk_seccompProfile :: string
  dk_appArmorProfile :: string
  dk_selinuxLabel :: string
  dk_allowDangerousOverrides :: bool
  dk_restoreLimits :: limits

definition dockerPreviewLimit :: int where "dockerPreviewLimit = 64 * 1024"
definition defaultUserFallback :: string where "defaultUserFallback = ''10001:10001''"
definition defaultTmpfsSizeMB :: int where "defaultTmpfsSizeMB = 64"
definition dockerCapabilityElevatedUser :: string where "dockerCapabilityElevatedUser = ''docker.elevated-user''"
definition dockerCapabilityExtraCapPrefix :: string where "dockerCapabilityExtraCapPrefix = ''docker.extra-cap:''"
definition dockerTunnelBridgeReady :: string where "dockerTunnelBridgeReady = ''__OR3_TUNNEL_BRIDGE_READY__''"

text \<open>\<open>current\<close> is what looking up the user of the process gives: its user and group identifiers.\<close>

definition defaultRuntimeUser :: "goerr + string \<times> string \<Rightarrow> string" where
  "defaultRuntimeUser current =
     (case current of
        Inl e \<Rightarrow> defaultUserFallback
      | Inr (uid, gid) \<Rightarrow>
          if uid = [] \<or> gid = [] \<or> ParseInt uid = None \<or> ParseInt gid = None then defaultUserFallback
          else uid @ '':'' @ gid)"

definition or_default :: "string \<Rightarrow> string \<Rightarrow> string" where
  "or_default s fallback = (if TrimSpace s = [] then fallback else s)"

definition docker_New :: "string \<Rightarrow> goerr + string \<times> string \<Rightarrow> docker_options option \<Rightarrow> docker_runtime" where
  "docker_New goos current options =
     (case options of
        None \<Rightarrow>
          \<lparr>dk_binary = ''docker'', dk_hostOS = goos, dk_user = defaultRuntimeUser current,
           dk_tmpfsSizeMB = defaultTmpfsSizeMB, dk_seccompProfile = [], dk_appArmorProfile = [], dk_selinuxLabel = [],
           dk_allowDangerousOverrides = False, dk_restoreLimits = defaultRestoreLimits\<rparr>
      | Some opts \<Rightarrow>
          \<lparr>dk_binary = or_default (do_Binary opts) ''docker'', dk_hostOS = or_default (do_HostOS opts) goos,
           dk_user = or_default (do_User opts) (defaultRuntimeUser current),
           dk_tmpfsSizeMB = (if 0 < do_TmpfsSizeMB opts then do_TmpfsSizeMB opts else defaultTmpfsSizeMB),
           dk_seccompProfile = TrimSpace (do_SeccompProfile opts),
           dk_appArmorProfile = TrimSpace (do_AppArmorProfile opts), dk_selinuxLabel = TrimSpace (do_SELinuxLabel opts),
           dk_allowDangerousOverrides = do_AllowDangerousOverrides opts,
           dk_restoreLimits = restore_limits (do_SnapshotMaxBytes opts) (do_SnapshotMaxFiles opts)
             (do_SnapshotMaxExpansionRatio opts)\<rparr>)"

section \<open>Names and errors\<close>

definition containerName :: "string \<Rightarrow> string" where "containerName i = ''or3-sandbox-'' @ i"
definition networkName :: "string \<Rightarrow> string" where "networkName i = ''or3-net-'' @ i"
definition hostname :: "string \<Rightarrow> string" where "hostname i = ''sandbox-'' @ i"
definition snapshotImage :: "string \<Rightarrow> string" where "snapshotImage i = ''or3-snapshot-'' @ i @ '':latest''"

definition isNoSuchContainer :: "goerr \<Rightarrow> bool" where
  "isNoSuchContainer e = Contains (err_text e) ''No such container''"

definition isNoSuchNetwork :: "goerr \<Rightarrow> bool" where
  "isNoSuchNetwork e = Contains (err_text e) ''No such network''"

definition dockerStorageOptUnsupported :: "goerr \<Rightarrow> bool" where
  "dockerStorageOptUnsupported e =
     list_ex (Contains (ToLower (err_text e)))
       [''storage-opt is supported only'', ''unsupported storage opt'', ''invalid option: size'',
        ''unknown storage opt'', ''xfs project quota'', ''project quota'']"

definition defaultInt :: "int \<Rightarrow> int \<Rightarrow> int" where
  "defaultInt n fallback = (if 0 < n then n else fallback)"

definition shellQuote :: "string \<Rightarrow> string" where
  "shellQuote v = [CHR 0x27] @
     concat (map (\<lambda>c. if c = CHR 0x27 then [CHR 0x27, CHR 0x22, CHR 0x27, CHR 0x22, CHR 0x27] else [c]) v) @ [CHR 0x27]"

definition docker_run :: "'d cli_host \<Rightarrow> string list \<Rightarrow> ('d, string) engine_op" where
  "docker_run h args =
     bindE (execute h args) (\<lambda>c.
     case cl_Err c of
       Some err \<Rightarrow> failE (Err (''docker '' @ join_with '' '' args @ '': '' @ err @ '': '' @ TrimSpace (cl_Combined c)))
     | None \<Rightarrow> okE (cl_Combined c))"

text \<open>A command whose failure is accepted when the error says the object is gone already.\<close>

definition docker_run_unless :: "(goerr \<Rightarrow> bool) \<Rightarrow> 'd cli_host \<Rightarrow> string list \<Rightarrow> ('d, unit) engine_op" where
  "docker_run_unless gone h args =
     tryE (docker_run h args) (\<lambda>r.
     case r of Inl e \<Rightarrow> if gone e then okE () else failE e | Inr out \<Rightarrow> okE ())"

definition ensureNetwork :: "'d cli_host \<Rightarrow> string \<Rightarrow> ('d, unit) engine_op" where
  "ensureNetwork h sandboxID =
     tryE (docker_run h [''network'', ''inspect'', networkName sandboxID]) (\<lambda>r.
     case r of
       Inr out \<Rightarrow> okE ()
     | Inl e \<Rightarrow> thenE (docker_run h [''network'', ''create'', ''--driver'', ''bridge'', networkName sandboxID]) (okE ()))"

definition absoluteHostPath :: "'d cli_host \<Rightarrow> string \<Rightarrow> goerr + string" where
  "absoluteHostPath h path =
     (if TrimSpace path = [] then Inl (Err ''host path is empty'')
      else (case ch_Abs h path of Inl e \<Rightarrow> Inl e | Inr p \<Rightarrow> Inr (Clean p)))"

section \<open>Security options\<close>

record docker_security =
  ds_User :: string
  ds_TmpfsMount :: string
  ds_SecurityOpts :: "string list"
  ds_CapAdd :: "string list"

definition upper_char :: "char \<Rightarrow> char" where
  "upper_char c = (case map_of (map (\<lambda>(u, l). (l, u)) case_table) c of None \<Rightarrow> c | Some d \<Rightarrow> d)"

definition cap_char :: "char \<Rightarrow> bool" where
  "cap_char c \<longleftrightarrow> c \<in> set (map fst case_table) \<or> digit_val c \<noteq> None \<or> c = CHR ''_''"

definition normalizeDockerLinuxCapability :: "string \<Rightarrow> string" where
  "normalizeDockerLinuxCapability text =
     (let name = map (\<lambda>c. upper_char (if c = CHR ''-'' then CHR ''_'' else c)) (TrimSpace text) in
      if list_all cap_char name then name else [])"

fun grant_capabilities :: "bool \<Rightarrow> string list \<Rightarrow> docker_security \<Rightarrow> goerr + docker_security" where
  "grant_capabilities allow [] sec = Inr sec"
| "grant_capabilities allow (cap # caps) sec =
     (if cap = dockerCapabilityElevatedUser then
        (if \<not> allow then Inl (Err (''docker capability '' @ quote cap @ '' requires dangerous override support''))
         else grant_capabilities allow caps (sec\<lparr>ds_User := ''0:0''\<rparr>))
      else if HasPrefix cap dockerCapabilityExtraCapPrefix then
        (if \<not> allow then Inl (Err (''docker capability '' @ quote cap @ '' requires dangerous override support''))
         else
           (let name = normalizeDockerLinuxCapability (TrimPrefix cap dockerCapabilityExtraCapPrefix) in
            if name = [] then Inl (Err (''docker capability '' @ quote cap @ '' is invalid''))
            else grant_capabilities allow caps (sec\<lparr>ds_CapAdd := ds_CapAdd sec @ [name]\<rparr>)))
      else Inl (Err (''docker capability '' @ quote cap @ '' is unsupported'')))"

definition resolveSecurityOptions :: "docker_runtime \<Rightarrow> sandbox_spec \<Rightarrow> goerr + docker_security" where
  "resolveSecurityOptions rt spec =
     grant_capabilities (dk_allowDangerousOverrides rt) (sp_Capabilities spec)
       \<lparr>ds_User = dk_user rt,
        ds_TmpfsMount = ''/tmp:rw,nosuid,nodev,noexec,size='' @ fmt_int (dk_tmpfsSizeMB rt) @ ''m'',
        ds_SecurityOpts =
          (if dk_hostOS rt = ''linux'' then
             (if dk_seccompProfile rt = [] then [] else [''seccomp='' @ dk_seccompProfile rt]) @
             (if dk_appArmorProfile rt = [] then [] else [''apparmor='' @ dk_appArmorProfile rt]) @
             (if dk_selinuxLabel rt = [] then [] else [''label='' @ dk_selinuxLabel rt])
           else []),
        ds_CapAdd = []\<rparr>"

section \<open>Creating a container\<close>

definition create_flags :: "sandbox_spec \<Rightarrow> docker_security \<Rightarrow> string \<Rightarrow> string list" where
  "create_flags spec sec workspaceMount =
     [''--name'', containerName (sp_SandboxID spec), ''--hostname'', hostname (sp_SandboxID spec), ''--init'',
      ''--label'', ''or3.sandbox.id='' @ sp_SandboxID spec, ''--label'', ''or3.tenant.id='' @ sp_TenantID spec,
      ''--cpus'', CPU_String (sp_CPULimit spec), ''--memory'', fmt_int (sp_MemoryLimitMB spec) @ ''m'',
      ''--pids-limit'', fmt_int (sp_PIDsLimit spec), ''--user'', ds_User sec, ''--cap-drop'', ''ALL'', ''--read-only'',
      ''--tmpfs'', ds_TmpfsMount sec, ''--security-opt'', ''no-new-privileges:true'',
      ''-v'', workspaceMount @ '':/workspace''] @
     concat (map (\<lambda>opt. [''--security-opt'', opt]) (ds_SecurityOpts sec)) @
     concat (map (\<lambda>cap. [''--cap-add'', cap]) (ds_CapAdd sec))"

definition add_mount :: "'d cli_host \<Rightarrow> string \<Rightarrow> string \<Rightarrow> string list \<Rightarrow> goerr + string list" where
  "add_mount h root target args =
     (if root = [] then Inr args
      else (case absoluteHostPath h root of
              Inl e \<Rightarrow> Inl e | Inr p \<Rightarrow> Inr (args @ [''-v'', p @ target])))"

definition network_args :: "sandbox_spec \<Rightarrow> goerr + string list" where
  "network_args spec =
     (case sp_NetworkMode spec of
        InternetEnabled \<Rightarrow> Inr [''--network'', networkName (sp_SandboxID spec)]
      | InternetDisabled \<Rightarrow> Inr [''--network'', ''none'']
      | OtherNetworkMode m \<Rightarrow> Inl (Err (''unsupported network mode '' @ quote m)))"

definition create_args :: "'d cli_host \<Rightarrow> docker_runtime \<Rightarrow> sandbox_spec \<Rightarrow> ('d, string list) engine_op" where
  "create_args h rt spec =
     bindE (liftE (absoluteHostPath h (sp_WorkspaceRoot spec))) (\<lambda>workspaceMount.
     bindE (liftE (resolveSecurityOptions rt spec)) (\<lambda>sec.
     bindE (liftE (add_mount h (sp_CacheRoot spec) '':/cache'' (create_flags spec sec workspaceMount))) (\<lambda>args1.
     bindE (liftE (add_mount h (sp_ScratchRoot spec) '':/scratch'' args1)) (\<lambda>args2.
     bindE (liftE (add_mount h (sp_SecretsRoot spec) '':/secrets:ro'' args2)) (\<lambda>args3.
     bindE (liftE (network_args spec)) (\<lambda>net.
       okE (args3 @ net)))))))"

definition create_container ::
  "'d cli_host \<Rightarrow> docker_runtime \<Rightarrow> sandbox_spec \<Rightarrow> string list \<Rightarrow> ('d, string) engine_op" where
  "create_container h rt spec args =
     (let image = [sp_BaseImageRef spec, ''sleep'', ''infinity''];
          withStorageOpt = (dk_hostOS rt = ''linux'' \<and> 0 < sp_DiskLimitMB spec);
          quota = (if withStorageOpt then [''--storage-opt'', ''size='' @ fmt_int (sp_DiskLimitMB spec) @ ''m''] else []) in
      tryE (docker_run h ([''create''] @ args @ quota @ image)) (\<lambda>r.
      case r of
        Inr out \<Rightarrow> okE out
      | Inl e \<Rightarrow>
          if withStorageOpt \<and> dockerStorageOptUnsupported e then
            ignoreE (docker_run h [''rm'', ''-f'', containerName (sp_SandboxID spec)])
              (docker_run h ([''create''] @ args @ image))
          else failE e))"

definition docker_Create :: "'d cli_host \<Rightarrow> docker_runtime \<Rightarrow> sandbox_spec \<Rightarrow> ('d, runtime_state) engine_op" where
  "docker_Create h rt spec =
     thenE (engine_os (MkdirAll (sp_StorageRoot spec)))
    (thenE (engine_os (MkdirAll (sp_WorkspaceRoot spec)))
    (thenE (make_dirs [sp_CacheRoot spec, sp_ScratchRoot spec, sp_SecretsRoot spec])
    (thenE (if sp_NetworkMode spec = InternetEnabled then ensureNetwork h (sp_SandboxID spec) else okE ())
    (bindE (create_args h rt spec) (\<lambda>args.
     bindE (create_container h rt spec args) (\<lambda>out.
       okE (runtime_state_of (TrimSpace out) StatusStopped)))))))"

section \<open>Lifecycle\<close>

definition container_status :: "inspect_payload \<Rightarrow> sandbox_status \<times> bool" where
  "container_status p =
     (if ip_Running p then (StatusRunning, True)
      else if ip_Paused p then (StatusSuspended, False)
      else if ip_Status p = ''created'' \<or> ip_Status p = ''exited'' then (StatusStopped, False)
      else if ip_Status p = ''removing'' then (StatusDeleting, False)
      else (StatusError, False))"

definition started_at :: "'d cli_host \<Rightarrow> inspect_payload \<Rightarrow> time option" where
  "started_at h p =
     (if ip_StartedAt p \<noteq> [] \<and> \<not> HasPrefix (ip_StartedAt p) ''0001-'' then ch_ParseTime h (ip_StartedAt p) else None)"

definition first_address :: "inspect_payload \<Rightarrow> string" where
  "first_address p =
     (if ip_IPAddress p \<noteq> [] then ip_IPAddress p
      else (case filter (\<lambda>a. a \<noteq> []) (ip_Networks p) of [] \<Rightarrow> [] | a # _ \<Rightarrow> a))"

definition payload_state :: "'d cli_host \<Rightarrow> inspect_payload \<Rightarrow> runtime_state" where
  "payload_state h p =
     (runtime_state_of (ip_ID p) (fst (container_status p)))\<lparr>rs_Running := snd (container_status p), rs_Pid := ip_Pid p,
        rs_IPAddress := first_address p, rs_StartedAt := started_at h p, rs_Error := ip_Error p\<rparr>"

definition docker_Inspect :: "'d cli_host \<Rightarrow> sandbox \<Rightarrow> ('d, runtime_state) engine_op" where
  "docker_Inspect h s =
     tryE (docker_run h [''inspect'', containerName (sb_ID s)]) (\<lambda>r.
     case r of
       Inl e \<Rightarrow> if isNoSuchContainer e then okE (runtime_state_of (sb_RuntimeID s) StatusDeleted) else failE e
     | Inr out \<Rightarrow>
         (case ch_Payload h out of
            Inl e \<Rightarrow> failE e
          | Inr [] \<Rightarrow> failE (Err ''docker inspect returned no payload'')
          | Inr (p # _) \<Rightarrow> okE (payload_state h p)))"

definition docker_Start :: "'d cli_host \<Rightarrow> sandbox \<Rightarrow> ('d, runtime_state) engine_op" where
  "docker_Start h s = thenE (docker_run h [''start'', containerName (sb_ID s)]) (docker_Inspect h s)"

definition docker_Stop :: "'d cli_host \<Rightarrow> sandbox \<Rightarrow> bool \<Rightarrow> ('d, runtime_state) engine_op" where
  "docker_Stop h s force =
     thenE (docker_run_unless isNoSuchContainer h [if force then ''kill'' else ''stop'', containerName (sb_ID s)])
       (docker_Inspect h s)"

definition docker_Suspend :: "'d cli_host \<Rightarrow> sandbox \<Rightarrow> ('d, runtime_state) engine_op" where
  "docker_Suspend h s =
     thenE (docker_run h [''pause'', containerName (sb_ID s)])
    (bindE (docker_Inspect h s) (\<lambda>state. okE (state\<lparr>rs_Status := StatusSuspended, rs_Running := False\<rparr>)))"

definition docker_Resume :: "'d cli_host \<Rightarrow> sandbox \<Rightarrow> ('d, runtime_state) engine_op" where
  "docker_Resume h s = thenE (docker_run h [''unpause'', containerName (sb_ID s)]) (docker_Inspect h s)"

definition docker_Destroy :: "'d cli_host \<Rightarrow> sandbox \<Rightarrow> ('d, unit) engine_op" where
  "docker_Destroy h s =
     thenE (docker_run_unless isNoSuchContainer h [''rm'', ''-f'', containerName (sb_ID s)])
    (thenE (if sb_NetworkMode s = InternetEnabled
            then docker_run_unless isNoSuchNetwork h [''network'', ''rm'', networkName (sb_ID s)] else okE ())
       (remove_dirs (storage_dirs s)))"

section \<open>Executions and terminals\<close>

definition execOptions :: "string \<Rightarrow> (string \<times> string) list \<Rightarrow> string list" where
  "execOptions cwd env =
     (if cwd = [] then [] else [''--workdir'', cwd]) @ concat (map (\<lambda>(k, v). [''-e'', k @ ''='' @ v]) env)"

definition pid_file :: "time \<Rightarrow> string" where
  "pid_file now = ''/tmp/or3-exec-'' @ fmt_int now @ ''.pid''"

definition script_text :: "string list \<Rightarrow> string" where
  "script_text ls = concat (map (\<lambda>l. CHR 0x0A # l) ls) @ [CHR 0x0A]"

definition double_quoted :: "string \<Rightarrow> string" where "double_quoted s = [CHR 0x22] @ s @ [CHR 0x22]"

definition exec_script :: "string \<Rightarrow> string" where
  "exec_script pidFile = script_text
     [''set -eu'', ''rm -f '' @ shellQuote pidFile, ''setsid '' @ double_quoted ''$@'' @ '' &'', ''child=$!'',
      ''echo '' @ double_quoted ''$child'' @ '' > '' @ shellQuote pidFile, ''wait '' @ double_quoted ''$child'']"

definition kill_script :: "string \<Rightarrow> string" where
  "kill_script pidFile = script_text
     [''if [ -f '' @ shellQuote pidFile @ '' ]; then'', [CHR 0x09] @ ''pgid=$(cat '' @ shellQuote pidFile @ '')'',
      [CHR 0x09] @ ''kill -TERM -- -'' @ double_quoted ''$pgid'' @ '' 2>/dev/null || true'', [CHR 0x09] @ ''sleep 1'',
      [CHR 0x09] @ ''kill -KILL -- -'' @ double_quoted ''$pgid'' @ '' 2>/dev/null || true'',
      [CHR 0x09] @ ''rm -f '' @ shellQuote pidFile, ''fi'']"

definition killProcessGroup :: "'d cli_host \<Rightarrow> string \<Rightarrow> string \<Rightarrow> ('d, unit) engine_op" where
  "killProcessGroup h containerID pidFile =
     thenE (docker_run h [''exec'', containerID, ''sh'', ''-lc'', kill_script pidFile]) (okE ())"

definition exec_command :: "exec_request \<Rightarrow> string list" where
  "exec_command req = (if xr_Command req = [] then [''sh'', ''-lc'', ''pwd''] else xr_Command req)"

definition exec_args :: "sandbox \<Rightarrow> exec_request \<Rightarrow> string \<Rightarrow> string list" where
  "exec_args s req pidFile =
     (if xr_Detached req
      then [''exec'', ''-d''] @ execOptions (xr_Cwd req) (xr_Env req) @ [containerName (sb_ID s)] @ exec_command req
      else [''exec''] @ execOptions (xr_Cwd req) (xr_Env req) @
             [containerName (sb_ID s), ''sh'', ''-lc'', exec_script pidFile, ''sh''] @ exec_command req)"

text \<open>The preview of a stream (\<open>previewWriter\<close>), which is full even after an empty write.\<close>

definition preview_Write :: "bounded_buffer \<Rightarrow> string \<Rightarrow> bounded_buffer" where
  "preview_Write b p =
     (let remaining = bb_limit b - int (length (bb_buf b)) in
      if 0 < remaining then
        (if remaining < int (length p)
         then b\<lparr>bb_buf := bb_buf b @ take (nat remaining) p, bb_truncated := True\<rparr>
         else b\<lparr>bb_buf := bb_buf b @ p\<rparr>)
      else b\<lparr>bb_truncated := True\<rparr>)"

definition preview :: "int \<Rightarrow> string list \<Rightarrow> bounded_buffer" where
  "preview limit chunks = foldl preview_Write (new_buffer limit) chunks"

definition cancel_kind :: "int \<Rightarrow> process \<Rightarrow> execution_status option" where
  "cancel_kind timeout p =
     (if 0 < timeout \<and> pr_TimerFires p then Some ExecTimedOut
      else if pr_RequestEnds p then Some ExecCanceled else None)"

definition docker_exec_result :: "int \<Rightarrow> process \<Rightarrow> time \<Rightarrow> time \<Rightarrow> exec_result" where
  "docker_exec_result timeout p startedAt completedAt =
     (let (status, code) =
        (case cancel_kind timeout p of
           Some kind \<Rightarrow> (kind, 0)
         | None \<Rightarrow>
             (case pr_Exit p of
                ExitOK \<Rightarrow> (ExecSucceeded, 0) | ExitStatus n \<Rightarrow> (ExecFailed, n) | ExitOther m \<Rightarrow> (ExecFailed, 1))) in
      \<lparr>er_ExitCode = code, er_Status = status, er_CompletedAt = completedAt,
       er_Duration = time_Sub completedAt startedAt,
       er_StdoutTruncated = bb_truncated (preview dockerPreviewLimit (pr_Stdout p)),
       er_StderrTruncated = bb_truncated (preview dockerPreviewLimit (pr_Stderr p))\<rparr>)"

definition docker_Exec :: "'d cli_host \<Rightarrow> sandbox \<Rightarrow> exec_request \<Rightarrow> ('d, exec_handle) engine_op" where
  "docker_Exec h s req =
     (if xr_Detached req then
        thenE (docker_run h (exec_args s req [])) (bindE engine_now (\<lambda>now. okE (detached_handle now)))
      else
        bindE engine_now (\<lambda>idTime.
        (let pidFile = pid_file idTime in
         bindE (spawn h (exec_args s req pidFile)) (\<lambda>p.
         bindE engine_now (\<lambda>startedAt.
         ignoreE (if cancel_kind (xr_Timeout req) p = None then okE ()
                  else killProcessGroup h (containerName (sb_ID s)) pidFile)
        (bindE engine_now (\<lambda>completedAt.
           okE \<lparr>eh_Stdout = pr_Stdout p, eh_Stderr = pr_Stderr p,
                eh_Wait = docker_exec_result (xr_Timeout req) p startedAt completedAt\<rparr>)))))))"

definition docker_AttachTTY :: "'d cli_host \<Rightarrow> sandbox \<Rightarrow> tty_request \<Rightarrow> ('d, string) engine_op" where
  "docker_AttachTTY h s req =
     (let args = [''exec'', ''-it''] @ execOptions (tr_Cwd req) (tr_Env req) @ [containerName (sb_ID s)] @
                 (if tr_Command req = [] then [''bash''] else tr_Command req) in
      bindE (with_daemon args (ch_PTY h args (of_int (defaultInt (tr_Rows req) 24)) (of_int (defaultInt (tr_Cols req) 80))))
        (\<lambda>ptmx. case ch_MakeRaw h ptmx of Some e \<Rightarrow> failE e | None \<Rightarrow> okE ptmx))"

definition bridge_failed :: "string \<Rightarrow> goerr" where
  "bridge_failed detail = Err (''sandbox-local tunnel bridge failed: '' @ detail)"

definition awaitDockerTunnelBridgeReady :: "bridge_start \<Rightarrow> string \<Rightarrow> goerr option" where
  "awaitDockerTunnelBridgeReady start stderr =
     (let detail = TrimSpace stderr; notReady = Err ''sandbox-local tunnel bridge did not become ready'';
          timedOut = Err ''timed out opening sandbox-local tunnel bridge'' in
      case start of
        ReadyLine (Inl e) \<Rightarrow> Some (if detail \<noteq> [] then bridge_failed detail else timedOut)
      | ReadyLine (Inr line) \<Rightarrow>
          (let text = TrimSpace line in
           if text = dockerTunnelBridgeReady then None
           else if text = [] then Some (if detail \<noteq> [] then bridge_failed detail else notReady)
           else Some (bridge_failed text))
      | BridgeExited err \<Rightarrow>
          Some (if detail \<noteq> [] then bridge_failed detail
                else (case err of Some m \<Rightarrow> bridge_failed m | None \<Rightarrow> notReady))
      | BridgeTimeout \<Rightarrow> Some timedOut)"

definition docker_OpenSandboxLocalConn :: "'d cli_host \<Rightarrow> sandbox \<Rightarrow> int \<Rightarrow> ('d, string) engine_op" where
  "docker_OpenSandboxLocalConn h s targetPort =
     guardE (targetPort < 1 \<or> 65535 < targetPort) (Err ''target port must be between 1 and 65535'') (
     (let args = [''exec'', ''-i''] @ execOptions ''/workspace'' [(''OR3_TUNNEL_TARGET_PORT'', fmt_int targetPort)] @
                 [containerName (sb_ID s), ''sh'', ''-lc'', ch_BridgeScript h] in
      bindE (with_daemon args (ch_Bridge h args)) (\<lambda>(start, stderr).
      case awaitDockerTunnelBridgeReady start stderr of
        Some e \<Rightarrow> failE e
      | None \<Rightarrow> okE (''sandbox:'' @ sb_ID s @ '':127.0.0.1:'' @ fmt_int targetPort))))"

section \<open>Snapshots\<close>

definition docker_CreateSnapshot :: "'d cli_host \<Rightarrow> sandbox \<Rightarrow> string \<Rightarrow> ('d, snapshot_info) engine_op" where
  "docker_CreateSnapshot h s snapshotID =
     (let imageRef = snapshotImage snapshotID;
          snapshotDir = Join [sb_StorageRoot s, ''.snapshots'', snapshotID];
          tarPath = Join [snapshotDir, ''workspace.tar.gz''] in
      thenE (docker_run h [''commit'', containerName (sb_ID s), imageRef])
     (thenE (engine_os (MkdirAll snapshotDir))
     (thenE (archiveDirectory True h (sb_WorkspaceRoot s) tarPath)
        (okE \<lparr>si_ImageRef = imageRef, si_WorkspaceTar = tarPath\<rparr>))))"

definition extractArchive :: "'d cli_host \<Rightarrow> docker_runtime \<Rightarrow> string \<Rightarrow> string \<Rightarrow> ('d, unit) engine_op" where
  "extractArchive h rt src dest =
     (let l = dk_restoreLimits rt in
      extract_into h src dest
        (if lim_MaxBytes l \<le> 0 \<or> lim_MaxFiles l \<le> 0 \<or> lim_MaxExpansionRatio l \<le> 0 then defaultRestoreLimits else l))"

definition restored_spec :: "sandbox \<Rightarrow> snapshot \<Rightarrow> sandbox_spec" where
  "restored_spec s sn =
     \<lparr>sp_SandboxID = sb_ID s, sp_TenantID = sb_TenantID s, sp_RuntimeSelection = no_selection, sp_RuntimeBackend = [],
      sp_RuntimeClass = no_class, sp_BaseImageRef = sn_ImageRef sn, sp_Profile = sn_Profile sn, sp_Features = [],
      sp_Capabilities = [], sp_ControlMode = no_control_mode, sp_ControlProtocolVersion = sn_ControlProtocolVersion sn,
      sp_WorkspaceContractVersion = sn_WorkspaceContractVersion sn, sp_ImageContractVersion = sn_ImageContractVersion sn,
      sp_CPULimit = sb_CPULimit s, sp_MemoryLimitMB = sb_MemoryLimitMB s, sp_PIDsLimit = sb_PIDsLimit s,
      sp_DiskLimitMB = sb_DiskLimitMB s, sp_NetworkMode = sb_NetworkMode s, sp_AllowTunnels = sb_AllowTunnels s,
      sp_StorageRoot = sb_StorageRoot s, sp_WorkspaceRoot = sb_WorkspaceRoot s, sp_CacheRoot = sb_CacheRoot s,
      sp_ScratchRoot = Join [Dir (sb_StorageRoot s), ''scratch''],
      sp_SecretsRoot = Join [Dir (sb_StorageRoot s), ''secrets''],
      sp_NetworkPolicy = ResolveNetworkPolicy (sb_NetworkMode s) (sb_AllowTunnels s)\<rparr>"

definition docker_RestoreSnapshot ::
  "'d cli_host \<Rightarrow> docker_runtime \<Rightarrow> sandbox \<Rightarrow> snapshot \<Rightarrow> ('d, runtime_state) engine_op" where
  "docker_RestoreSnapshot h rt s sn =
     thenE (docker_run_unless isNoSuchContainer h [''rm'', ''-f'', containerName (sb_ID s)])
    (thenE (if sb_NetworkMode s = InternetEnabled then ensureNetwork h (sb_ID s) else okE ())
    (thenE (engine_os (RemoveAll (sb_WorkspaceRoot s)))
    (thenE (engine_os (MkdirAll (sb_WorkspaceRoot s)))
    (thenE (if sn_WorkspaceTar sn = [] then okE () else extractArchive h rt (sn_WorkspaceTar sn) (sb_WorkspaceRoot s))
       (docker_Create h rt (restored_spec s sn))))))"

section \<open>The backend\<close>

definition docker_manager :: "'d cli_host \<Rightarrow> docker_runtime \<Rightarrow> 'd engine runtime_manager" where
  "docker_manager h rt =
     \<lparr>rm_Create = docker_Create h rt, rm_Start = docker_Start h, rm_Stop = docker_Stop h, rm_Suspend = docker_Suspend h,
      rm_Resume = docker_Resume h, rm_Destroy = docker_Destroy h, rm_Inspect = docker_Inspect h,
      rm_Exec = docker_Exec h, rm_AttachTTY = docker_AttachTTY h, rm_CreateSnapshot = docker_CreateSnapshot h,
      rm_RestoreSnapshot = docker_RestoreSnapshot h rt, rm_ReadWorkspaceFile = None, rm_WriteWorkspaceFile = None,
      rm_DeleteWorkspacePath = None, rm_MkdirWorkspace = None, rm_ReadWorkspaceFileBytes = None,
      rm_WriteWorkspaceFileBytes = None, rm_MeasureStorage = None, rm_ExportWorkspaceArchive = None,
      rm_OpenSandboxLocalConn = Some (docker_OpenSandboxLocalConn h), rm_AgentSessionMetrics = None,
      rm_AgentSessionMetricsForSandboxes = None\<rparr>"

end
