(* ===== verification/Kata.thy ===== *)
theory Kata
  imports CliRuntime GoFloat
begin

text \<open>
  The Kata backend (\<open>internal/runtime/kata/runtime.go\<close>), which drives containerd through its \<open>ctr\<close> program: the
  command lines, the parsers of its tables, executions, and workspace snapshots. \<open>kata_manager\<close> is the backend
  as a runtime manager.
\<close>

section \<open>Configuration and commands\<close>

record kata_options =
  ko_Binary :: string
  ko_RuntimeClass :: string
  ko_ContainerdSocket :: string
  ko_Namespace :: string
  ko_HostOS :: string
  ko_SnapshotMaxBytes :: int
  ko_SnapshotMaxFiles :: int
  ko_SnapshotMaxExpansionRatio :: int

record kata_runtime =
  kt_binary :: string
  kt_runtimeClass :: string
  kt_socket :: string
  kt_namespace :: string
  kt_hostOS :: string
  kt_restoreLimits :: limits

definition defaultNamespace :: string where "defaultNamespace = ''or3''"
definition kataPreviewLimit :: int where "kataPreviewLimit = 64 * 1024"

definition trimmed_or :: "string \<Rightarrow> string \<Rightarrow> string" where
  "trimmed_or s fallback = (if TrimSpace s = [] then fallback else TrimSpace s)"

definition kata_New :: "string \<Rightarrow> kata_options \<Rightarrow> kata_runtime" where
  "kata_New goos opts =
     \<lparr>kt_binary = trimmed_or (ko_Binary opts) ''ctr'', kt_runtimeClass = trimmed_or (ko_RuntimeClass opts) ''kata-qemu'',
      kt_socket = TrimSpace (ko_ContainerdSocket opts), kt_namespace = trimmed_or (ko_Namespace opts) defaultNamespace,
      kt_hostOS = trimmed_or (ko_HostOS opts) goos,
      kt_restoreLimits = restore_limits (ko_SnapshotMaxBytes opts) (ko_SnapshotMaxFiles opts)
        (ko_SnapshotMaxExpansionRatio opts)\<rparr>"

definition kata_container :: "string \<Rightarrow> string" where "kata_container sandboxID = ''or3-'' @ sandboxID"

definition baseArgs :: "kata_runtime \<Rightarrow> string list \<Rightarrow> string list" where
  "baseArgs rt sub =
     (if kt_namespace rt = [] then [] else [''--namespace'', kt_namespace rt]) @
     (if kt_socket rt = [] then [] else [''--address'', kt_socket rt]) @ sub"

definition bind_mount :: "string \<Rightarrow> string \<Rightarrow> string \<Rightarrow> string list" where
  "bind_mount src target options =
     (if src = [] then []
      else [''--mount'', ''type=bind,src='' @ src @ '',dst='' @ target @ '',options=rbind:'' @ options])"

definition runArgs :: "kata_runtime \<Rightarrow> sandbox_spec \<Rightarrow> string list" where
  "runArgs rt spec =
     baseArgs rt [''run''] @ [''--runtime'', kt_runtimeClass rt, ''--null-io'', ''--detach''] @
     bind_mount (sp_WorkspaceRoot spec) ''/workspace'' ''rw'' @ bind_mount (sp_CacheRoot spec) ''/cache'' ''rw'' @
     bind_mount (sp_ScratchRoot spec) ''/scratch'' ''rw'' @ bind_mount (sp_SecretsRoot spec) ''/secrets'' ''ro'' @
     (if 0 < sp_MemoryLimitMB spec
      then [''--memory-limit'', fmt_int (mul64 (mul64 (sp_MemoryLimitMB spec) 1024) 1024)] else []) @
     (if 0 < sp_CPULimit spec
      then [''--cpus'', fmt_g (float_div (float64 (of_int (sp_CPULimit spec))) 1000)] else []) @
     (if np_Internet (ResolveNetworkPolicy (sp_NetworkMode spec) (sp_AllowTunnels spec)) then []
      else [''--label'', ''or3.network.loopback-only=true'']) @
     [sp_BaseImageRef spec, kata_container (sp_SandboxID spec)]"

definition kata_run :: "'d cli_host \<Rightarrow> kata_runtime \<Rightarrow> string list \<Rightarrow> ('d, string) engine_op" where
  "kata_run h rt args =
     bindE (execute h args) (\<lambda>c.
     case cl_Err c of
       Some err \<Rightarrow> failE (Err (kt_binary rt @ '' '' @ join_with '' '' (take 3 args) @ '': '' @
                       TrimSpace (cl_Stderr c @ '' '' @ cl_Stdout c) @ '': '' @ err))
     | None \<Rightarrow> okE (TrimSpace (cl_Stdout c)))"

definition kata_wrap :: "string \<Rightarrow> goerr \<Rightarrow> goerr" where
  "kata_wrap step e = Err (step @ '': '' @ err_text e)"

definition isNotFoundErr :: "goerr \<Rightarrow> bool" where
  "isNotFoundErr e = (let msg = ToLower (err_text e) in Contains msg ''not found'' \<or> Contains msg ''no such'')"

definition kata_stateDir :: "sandbox \<Rightarrow> string" where
  "kata_stateDir s = (if sb_StorageRoot s = [] then [] else Join [sb_StorageRoot s, ''.kata''])"

definition writeState :: "'d cli_host \<Rightarrow> string \<Rightarrow> local_state \<Rightarrow> ('d, unit) engine_op" where
  "writeState h stateDir st = engine_os (WriteFile (Join [stateDir, ''state.json'']) (ch_EncodeState h st))"

definition readState :: "'d cli_host \<Rightarrow> string \<Rightarrow> goerr + local_state" where
  "readState h stateDir = ch_ReadState h (Join [stateDir, ''state.json''])"

section \<open>Parsers\<close>

definition line_pid :: "string \<Rightarrow> int option" where
  "line_pid line =
     (case ParseInt line of
        Some n \<Rightarrow> Some n
      | None \<Rightarrow> (case Fields line of [] \<Rightarrow> None | f # _ \<Rightarrow> ParseInt f))"

fun pid_of_lines :: "string list \<Rightarrow> int" where
  "pid_of_lines [] = 0"
| "pid_of_lines (l # ls) =
     (let line = TrimSpace l in
      if line = [] then pid_of_lines ls
      else (case line_pid line of Some n \<Rightarrow> n | None \<Rightarrow> pid_of_lines ls))"

definition parsePID :: "string \<Rightarrow> int" where "parsePID output = pid_of_lines (text_lines output)"

fun task_of_lines :: "string list \<Rightarrow> string \<Rightarrow> string \<times> int" where
  "task_of_lines [] name = ([], 0)"
| "task_of_lines (l # ls) name =
     (case Fields l of
        f0 # f1 # f2 # _ \<Rightarrow>
          if f0 = name then (f2, case ParseInt f1 of Some n \<Rightarrow> n | None \<Rightarrow> 0) else task_of_lines ls name
      | _ \<Rightarrow> task_of_lines ls name)"

definition parseTaskList :: "string \<Rightarrow> string \<Rightarrow> string \<times> int" where
  "parseTaskList output name = task_of_lines (text_lines output) name"

definition containerInList :: "string \<Rightarrow> string \<Rightarrow> bool" where
  "containerInList output name = list_ex (\<lambda>l. TrimSpace l = name) (text_lines output)"

section \<open>Lifecycle\<close>

definition local_state_of :: "sandbox_spec \<Rightarrow> time \<Rightarrow> local_state" where
  "local_state_of spec now =
     \<lparr>ls_SandboxID = sp_SandboxID spec, ls_BaseImageRef = sp_BaseImageRef spec, ls_WorkspaceRoot = sp_WorkspaceRoot spec,
      ls_CacheRoot = sp_CacheRoot spec, ls_ScratchRoot = sp_ScratchRoot spec, ls_SecretsRoot = sp_SecretsRoot spec,
      ls_CreatedAt = now\<rparr>"

definition kata_Create :: "'d cli_host \<Rightarrow> kata_runtime \<Rightarrow> sandbox_spec \<Rightarrow> ('d, runtime_state) engine_op" where
  "kata_Create h rt spec =
     guardE (kt_hostOS rt \<noteq> ''linux'') (Err (''kata runtime requires linux (host OS is '' @ quote (kt_hostOS rt) @ '')'')) (
     (let stateDir = Join [sp_StorageRoot spec, ''.kata''] in
      thenE (make_dirs [sp_StorageRoot spec, sp_WorkspaceRoot spec, sp_CacheRoot spec, sp_ScratchRoot spec,
               sp_SecretsRoot spec])
     (thenE (engine_os (MkdirAll stateDir))
     (bindE engine_now (\<lambda>now.
      thenE (writeState h stateDir (local_state_of spec now))
     (ignoreE (kata_run h rt (baseArgs rt [''images'', ''pull'', sp_BaseImageRef spec]))
     (tryE (kata_run h rt (runArgs rt spec)) (\<lambda>r.
      case r of
        Inl e \<Rightarrow> failE (kata_wrap ''kata create'' e)
      | Inr out \<Rightarrow> okE (runtime_state_of (kata_container (sp_SandboxID spec)) StatusStopped)))))))))"

definition kata_Start :: "'d cli_host \<Rightarrow> kata_runtime \<Rightarrow> sandbox \<Rightarrow> ('d, runtime_state) engine_op" where
  "kata_Start h rt s =
     (let name = kata_container (sb_ID s); stateDir = kata_stateDir s in
      tryE (kata_run h rt (baseArgs rt [''task'', ''start'', name])) (\<lambda>r.
      case r of
        Inl e \<Rightarrow> failE (kata_wrap ''kata start'' e)
      | Inr out \<Rightarrow>
          (let pid = parsePID out in
           ignoreE (if stateDir = [] then okE ()
                    else engine_os (WriteFile (Join [stateDir, ''task.pid'']) (fmt_int pid)))
          (bindE engine_now (\<lambda>now.
             okE ((runtime_state_of name StatusRunning)\<lparr>rs_Running := True, rs_Pid := pid, rs_StartedAt := Some now\<rparr>))))))"

definition kata_Stop :: "'d cli_host \<Rightarrow> kata_runtime \<Rightarrow> sandbox \<Rightarrow> bool \<Rightarrow> ('d, runtime_state) engine_op" where
  "kata_Stop h rt s force =
     (let name = kata_container (sb_ID s); stateDir = kata_stateDir s in
      tryE (kata_run h rt (baseArgs rt [''task'', ''kill'', name] @ (if force then [''--signal'', ''SIGKILL''] else []))) (\<lambda>r.
      case r of
        Inl e \<Rightarrow> if isNotFoundErr e
           then ignoreE (kata_run h rt (baseArgs rt [''task'', ''delete'', name]))
               (ignoreE (if stateDir = [] then okE () else engine_os (RemovePath (Join [stateDir, ''task.pid''])))
                 (okE (runtime_state_of name StatusStopped)))
           else failE (kata_wrap ''kata stop (kill)'' e)
      | Inr out \<Rightarrow>
          ignoreE (kata_run h rt (baseArgs rt [''task'', ''delete'', name]))
         (ignoreE (if stateDir = [] then okE () else engine_os (RemovePath (Join [stateDir, ''task.pid''])))
           (okE (runtime_state_of name StatusStopped)))))"

definition kata_Suspend :: "sandbox \<Rightarrow> ('d, runtime_state) engine_op" where
  "kata_Suspend s = failE (Err ''kata runtime does not support suspend'')"

definition kata_Resume :: "sandbox \<Rightarrow> ('d, runtime_state) engine_op" where
  "kata_Resume s = failE (Err ''kata runtime does not support resume'')"

definition kata_Destroy :: "'d cli_host \<Rightarrow> kata_runtime \<Rightarrow> sandbox \<Rightarrow> ('d, unit) engine_op" where
  "kata_Destroy h rt s =
     (let name = kata_container (sb_ID s) in
      ignoreE (kata_run h rt (baseArgs rt [''task'', ''kill'', name, ''--signal'', ''SIGKILL'']))
     (ignoreE (kata_run h rt (baseArgs rt [''task'', ''delete'', name]))
     (tryE (kata_run h rt (baseArgs rt [''containers'', ''delete'', name])) (\<lambda>r.
      case r of
        Inl e \<Rightarrow> if isNotFoundErr e then remove_dirs (storage_dirs s) else failE (kata_wrap ''kata destroy'' e)
      | Inr out \<Rightarrow> remove_dirs (storage_dirs s)))))"

definition degraded :: "runtime_state \<Rightarrow> string \<Rightarrow> runtime_state" where
  "degraded state m = state\<lparr>rs_Status := StatusDegraded, rs_Error := m\<rparr>"

definition kata_Inspect :: "'d cli_host \<Rightarrow> kata_runtime \<Rightarrow> sandbox \<Rightarrow> ('d, runtime_state) engine_op" where
  "kata_Inspect h rt s =
     (let name = kata_container (sb_ID s) in
      tryE (kata_run h rt (baseArgs rt [''task'', ''ls''])) (\<lambda>r.
      case r of
        Inl e \<Rightarrow> okE (degraded (runtime_state_of name StatusDegraded) (err_text e))
      | Inr out \<Rightarrow>
          (let (status, pid) = parseTaskList out name;
               state = (runtime_state_of name StatusStopped)\<lparr>rs_Pid := pid\<rparr> in
           if status = ''RUNNING'' then okE (state\<lparr>rs_Status := StatusRunning, rs_Running := True\<rparr>)
           else if status = ''STOPPED'' \<or> status = ''PAUSED'' then okE state
           else if status = [] then
             tryE (kata_run h rt (baseArgs rt [''containers'', ''ls'', ''--quiet''])) (\<lambda>c.
             case c of
               Inl e \<Rightarrow> okE (degraded state (err_text e))
             | Inr listing \<Rightarrow> okE (if containerInList listing name then state else state\<lparr>rs_Status := StatusDeleted\<rparr>))
           else okE (degraded state (''unexpected task status: '' @ status)))))"

section \<open>Executions and terminals\<close>

definition kata_preview_Write :: "bounded_buffer \<Rightarrow> string \<Rightarrow> bounded_buffer" where
  "kata_preview_Write b p =
     (let remaining = bb_limit b - int (length (bb_buf b)) in
      if 0 < remaining then
        b\<lparr>bb_buf := bb_buf b @ take (nat remaining) p, bb_truncated := bb_truncated b \<or> remaining < int (length p)\<rparr>
      else if p \<noteq> [] then b\<lparr>bb_truncated := True\<rparr> else b)"

definition kata_preview :: "int \<Rightarrow> string list \<Rightarrow> bounded_buffer" where
  "kata_preview limit chunks = foldl kata_preview_Write (new_buffer limit) chunks"

text \<open>Three events race: the end of the command, the timer, if there is one, and the end of the request.\<close>

definition kata_exec_result :: "int \<Rightarrow> process \<Rightarrow> time \<Rightarrow> time \<Rightarrow> exec_result" where
  "kata_exec_result timeout p startedAt completedAt =
     (let (status, code) =
        (if 0 < timeout \<and> pr_TimerFires p then (ExecTimedOut, - 1)
         else if pr_RequestEnds p then (ExecCanceled, - 1)
         else (case pr_Exit p of
                 ExitOK \<Rightarrow> (ExecSucceeded, 0) | ExitStatus n \<Rightarrow> (ExecFailed, n) | ExitOther m \<Rightarrow> (ExecFailed, - 1))) in
      \<lparr>er_ExitCode = code, er_Status = status, er_CompletedAt = completedAt,
       er_Duration = time_Sub completedAt startedAt,
       er_StdoutTruncated = bb_truncated (kata_preview kataPreviewLimit (pr_Stdout p)),
       er_StderrTruncated = bb_truncated (kata_preview kataPreviewLimit (pr_Stderr p))\<rparr>)"

definition kata_exec_args :: "kata_runtime \<Rightarrow> sandbox \<Rightarrow> exec_request \<Rightarrow> time \<Rightarrow> string list" where
  "kata_exec_args rt s req now =
     baseArgs rt [''task'', ''exec'', ''--exec-id'', ''exec-'' @ fmt_int now] @
     (if xr_Detached req then [''--detach''] else if xr_Cwd req = [] then [] else [''--cwd'', xr_Cwd req]) @
     [kata_container (sb_ID s)] @ (if xr_Command req = [] then [''sh'', ''-lc'', ''pwd''] else xr_Command req)"

definition kata_Exec :: "'d cli_host \<Rightarrow> kata_runtime \<Rightarrow> sandbox \<Rightarrow> exec_request \<Rightarrow> ('d, exec_handle) engine_op" where
  "kata_Exec h rt s req =
     bindE engine_now (\<lambda>idTime.
     if xr_Detached req then
       thenE (kata_run h rt (kata_exec_args rt s req idTime)) (bindE engine_now (\<lambda>now. okE (detached_handle now)))
     else
       bindE (spawn h (kata_exec_args rt s req idTime)) (\<lambda>p.
       bindE engine_now (\<lambda>startedAt.
       bindE engine_now (\<lambda>completedAt.
         okE \<lparr>eh_Stdout = pr_Stdout p, eh_Stderr = pr_Stderr p,
              eh_Wait = kata_exec_result (xr_Timeout req) p startedAt completedAt\<rparr>))))"

definition kata_AttachTTY :: "'d cli_host \<Rightarrow> kata_runtime \<Rightarrow> sandbox \<Rightarrow> tty_request \<Rightarrow> ('d, string) engine_op" where
  "kata_AttachTTY h rt s req =
     bindE engine_now (\<lambda>now.
     (let args = baseArgs rt [''task'', ''exec'', ''--exec-id'', ''tty-'' @ fmt_int now, ''--tty''] @
                 (if tr_Cwd req = [] then [] else [''--cwd'', tr_Cwd req]) @ [kata_container (sb_ID s)] @
                 (if tr_Command req = [] then [''bash''] else tr_Command req) in
      tryE (with_daemon args (ch_PTY h args (of_int (tr_Rows req)) (of_int (tr_Cols req)))) (\<lambda>r.
      case r of Inl e \<Rightarrow> failE (kata_wrap ''kata tty'' e) | Inr ptmx \<Rightarrow> okE ptmx)))"

section \<open>Snapshots\<close>

definition kata_CreateSnapshot :: "'d cli_host \<Rightarrow> sandbox \<Rightarrow> string \<Rightarrow> ('d, snapshot_info) engine_op" where
  "kata_CreateSnapshot h s snapshotID =
     guardE (sb_WorkspaceRoot s = []) (Err ''kata snapshot: workspace root not set'') (
     (let archivePath = Join [sb_StorageRoot s, ''snapshot-'' @ snapshotID @ ''.tar.gz'']; stateDir = kata_stateDir s in
      tryE (archiveDirectory False h (sb_WorkspaceRoot s) archivePath) (\<lambda>r.
      case r of
        Inl e \<Rightarrow> failE (kata_wrap ''kata snapshot archive'' e)
      | Inr u \<Rightarrow>
          okE \<lparr>si_ImageRef = (if stateDir = [] then []
                              else (case readState h stateDir of Inl e \<Rightarrow> [] | Inr st \<Rightarrow> ls_BaseImageRef st)),
               si_WorkspaceTar = archivePath\<rparr>)))"

definition kata_RestoreSnapshot ::
  "'d cli_host \<Rightarrow> kata_runtime \<Rightarrow> sandbox \<Rightarrow> snapshot \<Rightarrow> ('d, runtime_state) engine_op" where
  "kata_RestoreSnapshot h rt s sn =
     guardE (sb_WorkspaceRoot s = []) (Err ''kata restore: workspace root not set'') (
     guardE (sn_WorkspaceTar sn = []) (Err ''kata restore: snapshot has no workspace archive'') (
     thenE (engine_os (RemoveAll (sb_WorkspaceRoot s)))
    (thenE (engine_os (MkdirAll (sb_WorkspaceRoot s)))
    (tryE (extract_into h (sn_WorkspaceTar sn) (sb_WorkspaceRoot s) (kt_restoreLimits rt)) (\<lambda>r.
     case r of
       Inl e \<Rightarrow> failE (kata_wrap ''kata restore extract'' e)
     | Inr u \<Rightarrow> okE (runtime_state_of (kata_container (sb_ID s)) StatusStopped))))))"

section \<open>The backend\<close>

definition kata_manager :: "'d cli_host \<Rightarrow> kata_runtime \<Rightarrow> 'd engine runtime_manager" where
  "kata_manager h rt =
     \<lparr>rm_Create = kata_Create h rt, rm_Start = kata_Start h rt, rm_Stop = kata_Stop h rt, rm_Suspend = kata_Suspend,
      rm_Resume = kata_Resume, rm_Destroy = kata_Destroy h rt, rm_Inspect = kata_Inspect h rt, rm_Exec = kata_Exec h rt,
      rm_AttachTTY = kata_AttachTTY h rt, rm_CreateSnapshot = kata_CreateSnapshot h,
      rm_RestoreSnapshot = kata_RestoreSnapshot h rt, rm_ReadWorkspaceFile = None, rm_WriteWorkspaceFile = None,
      rm_DeleteWorkspacePath = None, rm_MkdirWorkspace = None, rm_ReadWorkspaceFileBytes = None,
      rm_WriteWorkspaceFileBytes = None, rm_MeasureStorage = None, rm_ExportWorkspaceArchive = None,
      rm_OpenSandboxLocalConn = None, rm_AgentSessionMetrics = None, rm_AgentSessionMetricsForSandboxes = None\<rparr>"

end
