(* ===== verification/ContainerSafety.thy ===== *)
theory ContainerSafety
  imports Docker Kata Example
begin

text \<open>
  Properties of the two container backends: what a container is created with, which containers the commands of
  a sandbox address, and two places where the reported status is not the real one. Command lines are read by
  the grammar the container engine documents: options first, then the image or container, then its command.
\<close>

section \<open>The commands an operation issues\<close>

definition issues :: "(string list \<Rightarrow> bool) \<Rightarrow> 'd engine \<Rightarrow> 'd engine \<Rightarrow> bool" where
  "issues P e e' \<longleftrightarrow> (\<exists>cs. en_commands e' = en_commands e @ cs \<and> list_all P cs)"

interpretation issuing: step_preorder "issues P" for P
proof unfold_locales
  show "issues P e e" for e by (simp add: issues_def)
  show "issues P a b \<Longrightarrow> issues P b c \<Longrightarrow> issues P a c" for a b c by (auto simp: issues_def)
qed

lemma issues_bind_result:
  assumes "preserves (issues P) m" and "\<And>a e0 e1. m e0 = (Inr a, e1) \<Longrightarrow> preserves (issues P) (k a)"
  shows "preserves (issues P) (bindE m k)"
proof -
  have "issues P e (snd (bindE m k e))" for e
  proof (cases "m e")
    case (Pair r e1)
    with assms(1) have "issues P e e1" by (metis preserves_def snd_conv)
    with assms(2) Pair show ?thesis
      by (cases r) (auto simp: preserves_def bindE_def intro: issuing.R_trans)
  qed
  then show ?thesis by (simp add: preserves_def)
qed

lemma engine_now_issues: "preserves (issues P) engine_now"
  by (simp add: preserves_def engine_now_def issues_def)

lemma engine_os_issues: "preserves (issues P) (engine_os oper)"
  by (auto simp: preserves_def engine_os_def issues_def Let_def split: option.split)

lemma extract_into_issues: "preserves (issues P) (extract_into h src dst l)"
  by (auto simp: preserves_def extract_into_def issues_def split: prod.split)

lemma with_daemon_issues: "P args \<Longrightarrow> preserves (issues P) (with_daemon args f)"
  by (auto simp: preserves_def with_daemon_def issues_def split: prod.split)

lemma make_dirs_issues: "preserves (issues P) (make_dirs ds)"
  unfolding make_dirs_def by (intro issuing.preserves_for engine_os_issues)

lemma remove_dirs_issues: "preserves (issues P) (remove_dirs ds)"
  unfolding remove_dirs_def by (intro issuing.preserves_for engine_os_issues)

lemma archiveDirectory_issues: "preserves (issues P) (archiveDirectory b h src dst)"
  unfolding archiveDirectory_def
  by (intro issuing.preserves_then engine_os_issues issuing.preserves_case_prod issuing.preserves_try issuing.preserves_lift)

lemma docker_run_issues:
  assumes "P args"
  shows "preserves (issues P) (docker_run h args)"
proof -
  have "preserves (issues P) (execute h args)" unfolding execute_def by (rule with_daemon_issues) (rule assms)
  then show ?thesis
    unfolding docker_run_def
    by (intro issuing.preserves_bind issuing.preserves_case_option issuing.preserves_ok issuing.preserves_fail)
qed

lemma docker_run_unless_issues: "P args \<Longrightarrow> preserves (issues P) (docker_run_unless gone h args)"
  unfolding docker_run_unless_def
  by (intro issuing.preserves_try docker_run_issues issuing.preserves_case_sum issuing.preserves_if
      issuing.preserves_ok issuing.preserves_fail)

lemma ensureNetwork_issues:
  assumes "P [''network'', ''inspect'', networkName i]" "P [''network'', ''create'', ''--driver'', ''bridge'', networkName i]"
  shows "preserves (issues P) (ensureNetwork h i)"
  unfolding ensureNetwork_def using assms
  by (intro issuing.preserves_try docker_run_issues issuing.preserves_case_sum issuing.preserves_then issuing.preserves_ok)

lemmas engine_issues = engine_now_issues engine_os_issues extract_into_issues make_dirs_issues remove_dirs_issues
  archiveDirectory_issues

section \<open>Reading a command line\<close>

fun parse_flags :: "string list \<Rightarrow> string list \<Rightarrow> (string \<times> string) list \<times> string list" where
  "parse_flags valued [] = ([], [])"
| "parse_flags valued (a # rest) =
     (if \<not> HasPrefix a ''-'' then ([], a # rest)
      else if a \<in> set valued then
        (case rest of
           [] \<Rightarrow> ([(a, [])], [])
         | v # later \<Rightarrow> (case parse_flags valued later of (fs, ps) \<Rightarrow> ((a, v) # fs, ps)))
      else (case parse_flags valued rest of (fs, ps) \<Rightarrow> ((a, []) # fs, ps)))"

declare parse_flags.simps(2) [simp del]

lemma parse_positional: "\<not> HasPrefix a ''-'' \<Longrightarrow> parse_flags valued (a # rest) = ([], a # rest)"
  by (simp add: parse_flags.simps)

text \<open>\<open>reads valued xs fs\<close>: the words \<open>xs\<close> are read as the options \<open>fs\<close>, whatever follows them.\<close>

definition reads :: "string list \<Rightarrow> string list \<Rightarrow> (string \<times> string) list \<Rightarrow> bool" where
  "reads valued xs fs \<longleftrightarrow>
     (\<forall>rest. parse_flags valued (xs @ rest) = (fs @ fst (parse_flags valued rest), snd (parse_flags valued rest)))"

lemma readsD: "reads valued xs fs \<Longrightarrow> parse_flags valued rest = (gs, ps) \<Longrightarrow> parse_flags valued (xs @ rest) = (fs @ gs, ps)"
  by (simp add: reads_def)

lemma reads_Nil: "reads valued [] []"
  by (simp add: reads_def)

lemma reads_value:
  "HasPrefix a ''-'' \<Longrightarrow> a \<in> set valued \<Longrightarrow> reads valued xs fs \<Longrightarrow> reads valued (a # v # xs) ((a, v) # fs)"
  by (simp add: reads_def parse_flags.simps split: prod.split)

lemma reads_switch:
  "HasPrefix a ''-'' \<Longrightarrow> a \<notin> set valued \<Longrightarrow> reads valued xs fs \<Longrightarrow> reads valued (a # xs) ((a, []) # fs)"
  by (simp add: reads_def parse_flags.simps split: prod.split)

lemma reads_append: "reads valued xs fs \<Longrightarrow> reads valued ys gs \<Longrightarrow> reads valued (xs @ ys) (fs @ gs)"
  by (simp add: reads_def)

lemma reads_concat:
  "HasPrefix a ''-'' \<Longrightarrow> a \<in> set valued \<Longrightarrow> reads valued (concat (map (\<lambda>v. [a, v]) vs)) (map (Pair a) vs)"
  by (induction vs) (auto intro: reads_Nil reads_value)

definition flag_values :: "(string \<times> string) list \<Rightarrow> string \<Rightarrow> string list" where
  "flag_values flags name = map snd (filter (\<lambda>f. fst f = name) flags)"

lemma flag_values_simps [simp]:
  "flag_values [] n = []" "flag_values (f # fs) n = (if fst f = n then [snd f] else []) @ flag_values fs n"
  "flag_values (fs @ gs) n = flag_values fs n @ flag_values gs n"
  by (simp_all add: flag_values_def)

section \<open>What a container is created with\<close>

definition create_valued :: "string list" where
  "create_valued = [''--name'', ''--hostname'', ''--label'', ''--cpus'', ''--memory'', ''--pids-limit'', ''--user'',
     ''--cap-drop'', ''--cap-add'', ''--tmpfs'', ''--security-opt'', ''-v'', ''--network'', ''--storage-opt'']"

text \<open>The directories of the sandbox, each with the place where it is mounted.\<close>

definition sandbox_mounts :: "sandbox_spec \<Rightarrow> (string \<times> string) list" where
  "sandbox_mounts spec = [(sp_WorkspaceRoot spec, '':/workspace''), (sp_CacheRoot spec, '':/cache''),
     (sp_ScratchRoot spec, '':/scratch''), (sp_SecretsRoot spec, '':/secrets:ro'')]"

definition own_mount :: "'d cli_host \<Rightarrow> sandbox_spec \<Rightarrow> string \<Rightarrow> bool" where
  "own_mount h spec v =
     list_ex (\<lambda>(root, target). case absoluteHostPath h root of Inl e \<Rightarrow> False | Inr p \<Rightarrow> v = p @ target) (sandbox_mounts spec)"

text \<open>
  \<open>hardened\<close>: read as options and a command, the arguments create the requested image with the daemon's user,
  no capability, a read-only root, no way to gain privileges and no network but the sandbox's own; nothing but
  the four storage directories of the sandbox is mounted, the secrets read-only; and no option is present beyond these.
\<close>

definition hardened :: "'d cli_host \<Rightarrow> docker_runtime \<Rightarrow> sandbox_spec \<Rightarrow> string list \<Rightarrow> bool" where
  "hardened h rt spec args \<longleftrightarrow>
     (case parse_flags create_valued (tl args) of
        (flags, positional) \<Rightarrow>
          positional = [sp_BaseImageRef spec, ''sleep'', ''infinity''] \<and>
          flag_values flags ''--user'' = [dk_user rt] \<and> flag_values flags ''--cap-drop'' = [''ALL''] \<and>
          flag_values flags ''--cap-add'' = [] \<and> flag_values flags ''--read-only'' = [[]] \<and>
          ''no-new-privileges:true'' \<in> set (flag_values flags ''--security-opt'') \<and>
          flag_values flags ''--network'' =
            [if sp_NetworkMode spec = InternetEnabled then networkName (sp_SandboxID spec) else ''none''] \<and>
          list_all (own_mount h spec) (flag_values flags ''-v'') \<and>
          list_all (\<lambda>f. fst f \<in> set (create_valued @ [''--init'', ''--read-only''])) flags)"

definition create_shape :: "'d cli_host \<Rightarrow> docker_runtime \<Rightarrow> sandbox_spec \<Rightarrow> (string \<times> string) list \<Rightarrow> bool" where
  "create_shape h rt spec flags \<longleftrightarrow>
     flag_values flags ''--user'' = [dk_user rt] \<and> flag_values flags ''--cap-drop'' = [''ALL''] \<and>
     flag_values flags ''--cap-add'' = [] \<and> flag_values flags ''--read-only'' = [[]] \<and>
     ''no-new-privileges:true'' \<in> set (flag_values flags ''--security-opt'') \<and>
     flag_values flags ''--network'' = [] \<and> list_all (own_mount h spec) (flag_values flags ''-v'') \<and>
     list_all (\<lambda>f. fst f \<in> set (create_valued @ [''--init'', ''--read-only''])) flags"

lemma grant_refused: "grant_capabilities False caps sec = Inr sec' \<Longrightarrow> sec' = sec"
  by (cases caps) (auto split: if_splits)

lemma reads_create_flags:
  "reads create_valued (create_flags spec sec m)
    ([(''--name'', containerName (sp_SandboxID spec)), (''--hostname'', hostname (sp_SandboxID spec)), (''--init'', []),
      (''--label'', ''or3.sandbox.id='' @ sp_SandboxID spec), (''--label'', ''or3.tenant.id='' @ sp_TenantID spec),
      (''--cpus'', CPU_String (sp_CPULimit spec)), (''--memory'', fmt_int (sp_MemoryLimitMB spec) @ ''m''),
      (''--pids-limit'', fmt_int (sp_PIDsLimit spec)), (''--user'', ds_User sec), (''--cap-drop'', ''ALL''),
      (''--read-only'', []), (''--tmpfs'', ds_TmpfsMount sec), (''--security-opt'', ''no-new-privileges:true''),
      (''-v'', m @ '':/workspace'')] @
     map (Pair ''--security-opt'') (ds_SecurityOpts sec) @ map (Pair ''--cap-add'') (ds_CapAdd sec))"
  unfolding create_flags_def
  by (intro reads_append reads_concat reads_value reads_switch reads_Nil) (simp_all add: create_valued_def HasPrefix_def)

lemma flag_values_map: "flag_values (map (Pair a) vs) n = (if a = n then vs else [])"
  by (induction vs) auto

lemma create_flags_shape:
  assumes "resolveSecurityOptions rt spec = Inr sec" and "\<not> dk_allowDangerousOverrides rt"
    and "absoluteHostPath h (sp_WorkspaceRoot spec) = Inr m"
  shows "\<exists>fs. reads create_valued (create_flags spec sec m) fs \<and> create_shape h rt spec fs"
proof -
  from assms(1,2) have sec: "ds_User sec = dk_user rt" "ds_CapAdd sec = []"
    by (auto simp: resolveSecurityOptions_def dest!: grant_refused)
  let ?opts = "map (Pair ''--security-opt'') (ds_SecurityOpts sec)"
  have "list_all (\<lambda>f. fst f \<in> set (create_valued @ [''--init'', ''--read-only''])) ?opts"
    by (simp add: create_valued_def list_all_iff)
  moreover have "own_mount h spec (m @ '':/workspace'')" using assms(3) by (simp add: own_mount_def sandbox_mounts_def)
  ultimately show ?thesis
    using reads_create_flags [of spec sec m] sec
    by (intro exI conjI) (assumption, simp add: create_shape_def flag_values_map create_valued_def)
qed

lemma add_mount_shape:
  assumes "add_mount h src target args = Inr args'" and "(src, target) \<in> set (sandbox_mounts spec)"
    and "\<exists>fs. reads create_valued args fs \<and> create_shape h rt spec fs"
  shows "\<exists>fs. reads create_valued args' fs \<and> create_shape h rt spec fs"
proof (cases "src = []")
  case False
  from assms(1) False obtain p where a: "args' = args @ [''-v'', p @ target]" and p: "absoluteHostPath h src = Inr p"
    by (auto simp: add_mount_def split: sum.splits)
  from assms(2) p have own: "own_mount h spec (p @ target)" by (force simp: own_mount_def list_ex_iff)
  from assms(3) obtain fs where fs: "reads create_valued args fs" "create_shape h rt spec fs" by blast
  have "reads create_valued [''-v'', p @ target] [(''-v'', p @ target)]"
    by (intro reads_value reads_Nil) (simp_all add: create_valued_def HasPrefix_def)
  with fs(1) have "reads create_valued args' (fs @ [(''-v'', p @ target)])" unfolding a by (rule reads_append)
  moreover have "create_shape h rt spec (fs @ [(''-v'', p @ target)])"
    using fs(2) own by (simp add: create_shape_def create_valued_def)
  ultimately show ?thesis by blast
qed (use assms(1,3) in \<open>simp add: add_mount_def\<close>)

lemma create_args_shape:
  assumes "create_args h rt spec e = (Inr args, e')" and "\<not> dk_allowDangerousOverrides rt"
  shows "\<exists>fs net. reads create_valued args (fs @ [(''--network'', net)]) \<and> create_shape h rt spec fs \<and>
     net = (if sp_NetworkMode spec = InternetEnabled then networkName (sp_SandboxID spec) else ''none'')"
proof -
  from assms(1) obtain m sec a1 a2 a3 net where
    steps: "resolveSecurityOptions rt spec = Inr sec" "absoluteHostPath h (sp_WorkspaceRoot spec) = Inr m" "add_mount h (sp_CacheRoot spec) '':/cache'' (create_flags spec sec m) = Inr a1"
      "add_mount h (sp_ScratchRoot spec) '':/scratch'' a1 = Inr a2" "add_mount h (sp_SecretsRoot spec) '':/secrets:ro'' a2 = Inr a3"
      "network_args spec = Inr net" "args = a3 @ net"
    by (auto simp: create_args_def bindE_def split: sum.splits)
  have t: "(sp_CacheRoot spec, '':/cache'') \<in> set (sandbox_mounts spec)" "(sp_ScratchRoot spec, '':/scratch'') \<in> set (sandbox_mounts spec)"
    "(sp_SecretsRoot spec, '':/secrets:ro'') \<in> set (sandbox_mounts spec)"
    by (simp_all add: sandbox_mounts_def)
  have "\<exists>fs. reads create_valued a3 fs \<and> create_shape h rt spec fs"
    by (rule add_mount_shape [OF steps(5) t(3)], rule add_mount_shape [OF steps(4) t(2)],
        rule add_mount_shape [OF steps(3) t(1)], rule create_flags_shape [OF steps(1) assms(2) steps(2)])
  then obtain fs where fs: "reads create_valued a3 fs" "create_shape h rt spec fs" by blast
  from steps(6) obtain n where n: "net = [''--network'', n]"
      "n = (if sp_NetworkMode spec = InternetEnabled then networkName (sp_SandboxID spec) else ''none'')"
    by (auto simp: network_args_def split: network_mode.splits)
  have "reads create_valued net [(''--network'', n)]"
    unfolding n(1) by (intro reads_value reads_Nil) (simp_all add: create_valued_def HasPrefix_def)
  with fs(1) have "reads create_valued args (fs @ [(''--network'', n)])" unfolding steps(7) by (rule reads_append)
  with fs(2) n(2) show ?thesis by blast
qed

lemma hardened_create:
  assumes "reads create_valued args (fs @ [(''--network'', net)])" and "create_shape h rt spec fs"
    and "net = (if sp_NetworkMode spec = InternetEnabled then networkName (sp_SandboxID spec) else ''none'')"
    and "\<not> HasPrefix (sp_BaseImageRef spec) ''-''"
    and "quota = [] \<or> quota = [''--storage-opt'', q]"
  shows "hardened h rt spec ([''create''] @ args @ quota @ [sp_BaseImageRef spec, ''sleep'', ''infinity''])"
proof -
  let ?image = "[sp_BaseImageRef spec, ''sleep'', ''infinity'']"
  have "reads create_valued [''--storage-opt'', q] [(''--storage-opt'', q)]"
    by (intro reads_value reads_Nil) (simp_all add: create_valued_def HasPrefix_def)
  then obtain qs where qs: "reads create_valued quota qs" "qs = [] \<or> qs = [(''--storage-opt'', q)]"
    using assms(5) reads_Nil by metis
  have "parse_flags create_valued ?image = ([], ?image)" by (rule parse_positional [OF assms(4)])
  from readsD [OF reads_append [OF assms(1) qs(1)] this]
  have "parse_flags create_valued (args @ quota @ ?image) = (fs @ (''--network'', net) # qs, ?image)" by simp
  then show ?thesis
    using assms(2,3) qs(2) by (auto simp: hardened_def create_shape_def create_valued_def)
qed

text \<open>
  C26: every Docker container is created hardened. Whatever specification the backend is given, as long as the
  dangerous overrides are off and the image reference does not look like an option, each \<open>docker create\<close> it
  runs, the retry without a disk quota included, creates that image with the daemon's user, all capabilities
  dropped and none added, a read-only root, \<open>no-new-privileges\<close>, only the sandbox's own network or none, only
  the sandbox's own directories mounted, with its secrets read-only, and no other option.
\<close>

theorem docker_create_hardened:
  assumes "docker_Create h rt spec e = (r, e')" and "\<not> dk_allowDangerousOverrides rt"
    and "\<not> HasPrefix (sp_BaseImageRef spec) ''-''"
  shows "\<exists>cs. en_commands e' = en_commands e @ cs \<and> list_all (hardened h rt spec) (filter (\<lambda>c. take 1 c = [''create'']) cs)"
proof -
  let ?P = "\<lambda>c. take 1 c \<noteq> [''create''] \<or> hardened h rt spec c"
  have other: "?P (''network'' # c)" "?P (''rm'' # c)" for c by simp_all
  have create: "preserves (issues ?P) (create_container h rt spec args)" if a: "create_args h rt spec e0 = (Inr args, e1)" for args e0 e1
  proof -
    from create_args_shape [OF a assms(2)] obtain fs net where
      shape: "reads create_valued args (fs @ [(''--network'', net)])" "create_shape h rt spec fs"
        "net = (if sp_NetworkMode spec = InternetEnabled then networkName (sp_SandboxID spec) else ''none'')"
      by blast
    note h = hardened_create [OF shape assms(3)]
    have "hardened h rt spec ([''create''] @ args @ [''--storage-opt'', q] @ [sp_BaseImageRef spec, ''sleep'', ''infinity''])" for q
      by (rule h [of _ q]) simp
    then have bare: "hardened h rt spec (''create'' # args @ [''--storage-opt'', q, sp_BaseImageRef spec, ''sleep'', ''infinity''])" for q
      by simp
    show ?thesis
      unfolding create_container_def Let_def
      by (intro issuing.preserves_try docker_run_issues issuing.preserves_case_sum issuing.preserves_ok issuing.preserves_if
          issuing.preserves_fail issuing.preserves_ignore) (use h [of "[]"] bare in auto)
  qed
  have args: "preserves (issues ?P) (create_args h rt spec)"
    unfolding create_args_def by (intro issuing.preserves_bind issuing.preserves_lift issuing.preserves_ok)
  have "preserves (issues ?P) (docker_Create h rt spec)"
    unfolding docker_Create_def
    by (intro issuing.preserves_then engine_issues issuing.preserves_if ensureNetwork_issues other issuing.preserves_ok
        issues_bind_result [OF args] issuing.preserves_bind create)
  from preservesD [OF this assms(1)] show ?thesis by (auto simp: issues_def list_all_iff)
qed

text \<open>
  A small engine for the examples: its state is the status of one container, and inspecting a paused container
  says, as the documentation of the engine has it, that the container is running and paused.
\<close>

definition demo_payload :: "string \<Rightarrow> inspect_payload" where
  "demo_payload st = \<lparr>ip_ID = ''cid'', ip_Status = st, ip_Running = (st = ''running'' \<or> st = ''paused''),
     ip_Paused = (st = ''paused''), ip_Pid = 7, ip_Error = [], ip_StartedAt = [], ip_IPAddress = [], ip_Networks = []\<rparr>"

definition demo_after :: "string list \<Rightarrow> string \<Rightarrow> string" where
  "demo_after args st =
     (let verb = (case args of [] \<Rightarrow> [] | v # _ \<Rightarrow> v) in
      if verb = ''create'' then ''created'' else if verb = ''start'' \<or> verb = ''unpause'' then ''running''
      else if verb = ''pause'' then ''paused'' else if verb = ''stop'' \<or> verb = ''kill'' then ''exited'' else st)"

definition demo_docker :: "string cli_host" where
  "demo_docker =
     \<lparr>ch_Run = (\<lambda>args st. (\<lparr>cl_Stdout = st, cl_Stderr = [], cl_Combined = demo_after args st, cl_Err = None\<rparr>, demo_after args st)),
      ch_Spawn = (\<lambda>args st. (Inl (Err ''no shell''), st)), ch_PTY = (\<lambda>args r c st. (Inl (Err ''no terminal''), st)),
      ch_MakeRaw = (\<lambda>_. None), ch_Bridge = (\<lambda>args st. (Inl (Err ''no bridge''), st)), ch_BridgeScript = [],
      ch_Abs = (\<lambda>p. Inr p), ch_Payload = (\<lambda>out. Inr [demo_payload out]), ch_ParseTime = (\<lambda>_. None), ch_Walk = (\<lambda>_. []),
      ch_Archives = no_archives, ch_EncodeState = (\<lambda>_. []), ch_ReadState = (\<lambda>_. Inl (Err ''no state''))\<rparr>"

definition demo_engine :: "string \<Rightarrow> string engine" where
  "demo_engine st = \<lparr>en_daemon = st, en_commands = [], en_fs = [], en_clock = (\<lambda>n. int n), en_osfault = (\<lambda>_. None)\<rparr>"

definition plain_docker :: docker_runtime where
  "plain_docker = docker_New ''linux'' (Inr (''1000'', ''1000'')) None"

definition docker_service :: "string engine service" where
  "docker_service = New dev_config (docker_manager demo_docker plain_docker) (\<lambda>s. ''#'' @ s) quiet_host"

definition docker_world :: "string engine world" where
  "docker_world = \<lparr>w_db = running_db, w_rt = demo_engine ''running'', w_fs = [], w_clock = (\<lambda>n. 0), w_rand = (\<lambda>n. ''x''),
     w_dbfault = (\<lambda>_. False), w_osfault = (\<lambda>_. None)\<rparr>"

definition demo_spec :: sandbox_spec where
  "demo_spec = (restored_spec running_sandbox \<lparr>sn_ID = ''snap'', sn_SandboxID = ''sbx-1'', sn_TenantID = ''acme'', sn_Name = [],
     sn_Status = SnapshotReady, sn_ImageRef = ''alpine'', sn_RuntimeSelection = DockerDev, sn_RuntimeBackend = ''docker'',
     sn_Profile = ProfileCore, sn_ImageContractVersion = [], sn_ControlProtocolVersion = [],
     sn_WorkspaceContractVersion = [], sn_WorkspaceTar = [], sn_BundleSHA256 = [], sn_ExportLocation = [],
     sn_CreatedAt = 0, sn_CompletedAt = None\<rparr>)"

theorem docker_create_hardened_witness:
  "\<exists>r e' cs. docker_Create demo_docker plain_docker demo_spec (demo_engine []) = (r, e') \<and> en_commands e' = cs \<and>
     list_all (hardened demo_docker plain_docker demo_spec) (filter (\<lambda>c. take 1 c = [''create'']) cs)"
proof -
  let ?run = "docker_Create demo_docker plain_docker demo_spec (demo_engine [])"
  obtain r e' where run: "?run = (r, e')" by force
  have "\<not> dk_allowDangerousOverrides plain_docker" by (simp add: plain_docker_def docker_New_def)
  moreover have "\<not> HasPrefix (sp_BaseImageRef demo_spec) ''-''" by (simp add: demo_spec_def restored_spec_def HasPrefix_def)
  ultimately show ?thesis using docker_create_hardened [OF run] run by (simp add: demo_engine_def)
qed

section \<open>Images that are options\<close>

text \<open>
  The words that the engine takes as a whole option: those that contain their value, as in \<open>--volume=/:/host\<close>, and the
  documented switches of \<open>docker create\<close>.
\<close>

definition create_switches :: "string list" where
  "create_switches = [''--privileged'', ''--publish-all'', ''-P'', ''--oom-kill-disable'', ''--no-healthcheck'', ''--interactive'',
     ''-i'', ''--tty'', ''-t'', ''--rm'']"

definition whole_option :: "string \<Rightarrow> bool" where
  "whole_option w \<longleftrightarrow> w \<in> set create_switches \<or> HasPrefix w ''--'' \<and> CHR ''='' \<in> set w"

definition misread :: "sandbox_spec \<Rightarrow> string list \<Rightarrow> bool" where
  "misread spec args \<longleftrightarrow>
     (case parse_flags create_valued (tl args) of
        (flags, positional) \<Rightarrow> flags \<noteq> [] \<and> last flags = (sp_BaseImageRef spec, []) \<and> positional = [''sleep'', ''infinity''])"

lemma whole_option_switch: "whole_option w \<Longrightarrow> HasPrefix w ''-'' \<and> w \<notin> set create_valued"
  by (cases w) (auto simp: whole_option_def create_switches_def create_valued_def HasPrefix_def)

lemma create_args_reads:
  assumes "create_args h rt spec e = (Inr args, e')"
  shows "\<exists>fs. reads create_valued args fs"
proof -
  have mount: "\<exists>gs. reads create_valued b gs" if "add_mount h src target a = Inr b" "\<exists>fs. reads create_valued a fs" for src target a b
  proof -
    have "reads create_valued [''-v'', v] [(''-v'', v)]" for v
      by (intro reads_value reads_Nil) (simp_all add: create_valued_def HasPrefix_def)
    then show ?thesis using that by (auto simp: add_mount_def split: if_splits sum.splits intro: reads_append)
  qed
  have net: "reads create_valued [''--network'', v] [(''--network'', v)]" for v
    by (intro reads_value reads_Nil) (simp_all add: create_valued_def HasPrefix_def)
  from assms obtain m sec a1 a2 a3 n where
    steps: "add_mount h (sp_CacheRoot spec) '':/cache'' (create_flags spec sec m) = Inr a1"
      "add_mount h (sp_ScratchRoot spec) '':/scratch'' a1 = Inr a2" "add_mount h (sp_SecretsRoot spec) '':/secrets:ro'' a2 = Inr a3"
      "network_args spec = Inr n" "args = a3 @ n"
    by (auto simp: create_args_def bindE_def split: sum.splits)
  have "\<exists>fs. reads create_valued a3 fs"
    by (rule mount [OF steps(3)], rule mount [OF steps(2)], rule mount [OF steps(1)]) (rule exI, rule reads_create_flags)
  moreover have "\<exists>gs. reads create_valued n gs"
    using steps(4) net by (auto simp: network_args_def split: network_mode.splits)
  ultimately show ?thesis unfolding steps(5) by (blast intro: reads_append)
qed

lemma misread_create:
  assumes "reads create_valued args fs" and "whole_option (sp_BaseImageRef spec)" and "quota = [] \<or> quota = [''--storage-opt'', q]"
  shows "misread spec (''create'' # args @ quota @ [sp_BaseImageRef spec, ''sleep'', ''infinity''])"
proof -
  let ?i = "sp_BaseImageRef spec"
  have "reads create_valued [''--storage-opt'', q] [(''--storage-opt'', q)]"
    by (intro reads_value reads_Nil) (simp_all add: create_valued_def HasPrefix_def)
  then obtain qs where qs: "reads create_valued quota qs" using assms(3) reads_Nil by metis
  have "reads create_valued [?i] [(?i, [])]"
    using whole_option_switch [OF assms(2)] by (intro reads_switch reads_Nil) simp_all
  moreover have "parse_flags create_valued [''sleep'', ''infinity''] = ([], [''sleep'', ''infinity''])"
    by (rule parse_positional) (simp add: HasPrefix_def)
  ultimately have "parse_flags create_valued ((args @ quota @ [?i]) @ [''sleep'', ''infinity'']) = ((fs @ qs @ [(?i, [])]) @ [], [''sleep'', ''infinity''])"
    by (intro readsD reads_append assms(1) qs)
  then show ?thesis by (simp add: misread_def)
qed

lemma docker_run_logs: "docker_run h args e = (r, e') \<Longrightarrow> en_commands e' = en_commands e @ [args]"
  by (auto simp: docker_run_def execute_def with_daemon_def bindE_def split: prod.splits option.splits)

lemma create_container_logs:
  assumes "create_container h rt spec args e = (r, e')"
  shows "\<exists>c cs. en_commands e' = en_commands e @ (''create'' # c) # cs"
  using assms
  by (auto simp: create_container_def Let_def tryE_def ignoreE_def okE_def failE_def split: prod.splits sum.splits if_splits
      dest!: docker_run_logs)

lemma docker_Create_logs:
  assumes "docker_Create h rt spec e = (Inr st, e')"
  shows "\<exists>cs c cs'. en_commands e' = en_commands e @ cs @ (''create'' # c) # cs'"
proof -
  let ?prepare = "thenE (engine_os (MkdirAll (sp_StorageRoot spec))) (thenE (engine_os (MkdirAll (sp_WorkspaceRoot spec)))
    (thenE (make_dirs [sp_CacheRoot spec, sp_ScratchRoot spec, sp_SecretsRoot spec])
    (thenE (if sp_NetworkMode spec = InternetEnabled then ensureNetwork h (sp_SandboxID spec) else okE ()) (create_args h rt spec))))"
  have "preserves (issues (\<lambda>_. True)) ?prepare"
    unfolding create_args_def
    by (intro issuing.preserves_then engine_issues issuing.preserves_if ensureNetwork_issues TrueI issuing.preserves_ok
        issuing.preserves_bind issuing.preserves_lift)
  moreover have "docker_Create h rt spec = bindE ?prepare (\<lambda>args. bindE (create_container h rt spec args) (\<lambda>out.
       okE (runtime_state_of (TrimSpace out) StatusStopped)))"
    by (simp add: docker_Create_def thenE_def bindE_assoc)
  with assms obtain args e1 out where "?prepare e = (Inr args, e1)" "create_container h rt spec args e1 = (Inr out, e')"
    by (auto simp: okE_def elim!: bindE_InrE)
  ultimately show ?thesis using create_container_logs preservesD by (fastforce simp: issues_def)
qed

text \<open>
  C28: an image reference can be an option. Whatever the engine and the rest of the specification, when the image
  reference is a word that the engine takes as a whole option, such as \<open>--privileged\<close> or \<open>--volume=/:/host\<close>, every
  \<open>docker create\<close> that the backend runs is read as one with that option and with the image \<open>sleep\<close>; and a creation
  that succeeds has run such a command.
\<close>

theorem docker_image_option_injection:
  assumes "docker_Create h rt spec e = (r, e')" and "whole_option (sp_BaseImageRef spec)"
  shows "\<exists>cs. en_commands e' = en_commands e @ cs \<and> list_all (misread spec) (filter (\<lambda>c. take 1 c = [''create'']) cs) \<and>
    (isl r \<or> filter (\<lambda>c. take 1 c = [''create'']) cs \<noteq> [])"
proof -
  let ?P = "\<lambda>c. take 1 c \<noteq> [''create''] \<or> misread spec c"
  have other: "?P (''network'' # c)" "?P (''rm'' # c)" for c by simp_all
  have create: "preserves (issues ?P) (create_container h rt spec args)" if a: "create_args h rt spec e0 = (Inr args, e1)" for args e0 e1
  proof -
    from create_args_reads [OF a] obtain fs where "reads create_valued args fs" ..
    note m = misread_create [OF this assms(2)]
    show ?thesis
      unfolding create_container_def Let_def
      by (intro issuing.preserves_try docker_run_issues issuing.preserves_case_sum issuing.preserves_ok issuing.preserves_if
          issuing.preserves_fail issuing.preserves_ignore) (use m [of "[]"] m [of "[_, _]"] in auto)
  qed
  have args: "preserves (issues ?P) (create_args h rt spec)"
    unfolding create_args_def by (intro issuing.preserves_bind issuing.preserves_lift issuing.preserves_ok)
  have "preserves (issues ?P) (docker_Create h rt spec)"
    unfolding docker_Create_def
    by (intro issuing.preserves_then engine_issues issuing.preserves_if ensureNetwork_issues other issuing.preserves_ok
        issues_bind_result [OF args] issuing.preserves_bind create)
  from preservesD [OF this assms(1)] obtain cs where cs: "en_commands e' = en_commands e @ cs" "list_all ?P cs" by (auto simp: issues_def)
  have "filter (\<lambda>c. take 1 c = [''create'']) cs \<noteq> []" if "\<not> isl r"
    using docker_Create_logs [of h rt spec e _ e'] that assms(1) cs(1) by (cases r) (fastforce simp: filter_empty_conv)+
  with cs show ?thesis by (auto simp: list_all_iff)
qed

definition injected_spec :: sandbox_spec where
  "injected_spec = demo_spec\<lparr>sp_BaseImageRef := ''--volume=/:/host''\<rparr>"

theorem docker_image_option_injection_witness:
  "\<exists>r e'. docker_Create demo_docker plain_docker injected_spec (demo_engine []) = (r, e') \<and>
     list_all (misread injected_spec) (filter (\<lambda>c. take 1 c = [''create'']) (en_commands e')) \<and>
     filter (\<lambda>c. take 1 c = [''create'']) (en_commands e') \<noteq> []"
proof -
  let ?run = "docker_Create demo_docker plain_docker injected_spec (demo_engine [])"
  obtain r e' where run: "?run = (r, e')" by force
  have "whole_option (sp_BaseImageRef injected_spec)" by code_simp
  from docker_image_option_injection [OF run this] have "list_all (misread injected_spec) (filter (\<lambda>c. take 1 c = [''create'']) (en_commands e'))"
    "isl r \<or> filter (\<lambda>c. take 1 c = [''create'']) (en_commands e') \<noteq> []" by (auto simp: demo_engine_def)
  moreover have "\<not> isl (fst ?run)" by code_simp
  ultimately show ?thesis using run by auto
qed

text \<open>The service of a development deployment, which has no list of allowed images, lets such a reference through.\<close>

definition injected :: "(goerr + sandbox) \<times> string engine world" where
  "injected = CreateSandbox docker_service sample_tenant sample_quota (dev_request\<lparr>cr_BaseImageRef := ''--privileged''\<rparr>)
     (docker_world\<lparr>w_db := sample_db\<rparr>)"

lemma image_option_accepted:
  "\<not> isl (fst injected)"
  "list_ex (\<lambda>c. case parse_flags create_valued (tl c) of
      (flags, positional) \<Rightarrow> flag_values flags ''--privileged'' = [[]] \<and> positional = [''sleep'', ''infinity''])
    (en_commands (w_rt (snd injected)))"
  by code_simp+

section \<open>Whose containers are touched\<close>

definition exec_valued :: "string list" where "exec_valued = [''--workdir'', ''-e'']"

text \<open>The container, or for network commands the network, that a command line is about.\<close>

definition addressed :: "string list \<Rightarrow> string" where
  "addressed args =
     (case args of
        [] \<Rightarrow> []
      | verb # rest \<Rightarrow>
          if verb = ''network'' then last rest
          else (case parse_flags (if verb = ''exec'' then exec_valued else []) rest of
                  (flags, []) \<Rightarrow> [] | (flags, p # ps) \<Rightarrow> p))"

definition own :: "string \<Rightarrow> string list \<Rightarrow> bool" where
  "own i args \<longleftrightarrow> addressed args = containerName i \<or> addressed args = networkName i"

lemma name_positional: "\<not> HasPrefix (containerName i) ''-''"
  by (simp add: containerName_def HasPrefix_def)

lemma own_simple:
  "verb \<noteq> ''network'' \<Longrightarrow> own i (verb # containerName i # rest)"
  by (simp add: own_def addressed_def parse_positional name_positional)

lemma own_rm: "own i [''rm'', ''-f'', containerName i]"
proof -
  have "HasPrefix ''-f'' ''-''" by (simp add: HasPrefix_def)
  then show ?thesis
    by (simp add: own_def addressed_def parse_flags.simps(2) [of _ "''-f''"] parse_positional name_positional)
qed

lemma own_network: "own i (''network'' # rest @ [networkName i])"
  by (simp add: own_def addressed_def)

lemma reads_execOptions:
  "reads exec_valued (execOptions cwd env)
     ((if cwd = [] then [] else [(''--workdir'', cwd)]) @ map (\<lambda>(k, v). (''-e'', k @ ''='' @ v)) env)"
proof -
  have "reads exec_valued (if cwd = [] then [] else [''--workdir'', cwd]) (if cwd = [] then [] else [(''--workdir'', cwd)])"
    by (auto intro!: reads_value reads_Nil simp: exec_valued_def HasPrefix_def)
  moreover have "reads exec_valued (concat (map (\<lambda>(k, v). [''-e'', k @ ''='' @ v]) env)) (map (\<lambda>(k, v). (''-e'', k @ ''='' @ v)) env)"
  proof (induction env)
    case (Cons kv env)
    then show ?case
      by (cases kv) (auto intro!: reads_value simp: exec_valued_def HasPrefix_def)
  qed (simp add: reads_Nil)
  ultimately show ?thesis unfolding execOptions_def by (rule reads_append)
qed

lemma own_exec:
  "own i (''exec'' # execOptions cwd env @ containerName i # rest)"
  "mode \<in> {''-d'', ''-i'', ''-it''} \<Longrightarrow> own i (''exec'' # mode # execOptions cwd env @ containerName i # rest)"
proof -
  have p: "parse_flags exec_valued (execOptions cwd env @ containerName i # rest) =
      (((if cwd = [] then [] else [(''--workdir'', cwd)]) @ map (\<lambda>(k, v). (''-e'', k @ ''='' @ v)) env) @ [], containerName i # rest)"
    by (rule readsD [OF reads_execOptions parse_positional [OF name_positional]])
  then show "own i (''exec'' # execOptions cwd env @ containerName i # rest)" by (simp add: own_def addressed_def)
  assume "mode \<in> {''-d'', ''-i'', ''-it''}"
  then have "HasPrefix mode ''-''" "mode \<notin> set exec_valued" by (auto simp: HasPrefix_def exec_valued_def)
  with p show "own i (''exec'' # mode # execOptions cwd env @ containerName i # rest)"
    by (simp add: own_def addressed_def parse_flags.simps(2) [of _ mode])
qed

lemma docker_Inspect_own: "preserves (issues (own (sb_ID s))) (docker_Inspect h s)"
  unfolding docker_Inspect_def
  by (intro issuing.preserves_try docker_run_issues own_simple issuing.preserves_case_sum issuing.preserves_if
      issuing.preserves_ok issuing.preserves_fail) (auto split: list.split intro: issuing.preserves_ok issuing.preserves_fail)

lemma docker_Exec_own: "preserves (issues (own (sb_ID s))) (docker_Exec h s req)"
proof -
  have "own (sb_ID s) (exec_args s req pidFile)" for pidFile
    using own_exec(1) own_exec(2) [of "''-d''"] by (simp add: exec_args_def)
  moreover have "preserves (issues (own (sb_ID s))) (killProcessGroup h (containerName (sb_ID s)) pidFile)" for pidFile
    unfolding killProcessGroup_def by (intro issuing.preserves_then docker_run_issues own_simple issuing.preserves_ok) simp
  ultimately show ?thesis
    unfolding docker_Exec_def Let_def spawn_def
    by (intro issuing.preserves_if issuing.preserves_then issuing.preserves_bind docker_run_issues engine_now_issues
        with_daemon_issues issuing.preserves_ignore issuing.preserves_ok)
qed

lemma docker_AttachTTY_own: "preserves (issues (own (sb_ID s))) (docker_AttachTTY h s req)"
  unfolding docker_AttachTTY_def Let_def
  using own_exec(2) [of "''-it''" "sb_ID s"]
  by (intro issuing.preserves_bind with_daemon_issues issuing.preserves_case_option issuing.preserves_ok issuing.preserves_fail) simp

lemma docker_OpenSandboxLocalConn_own: "preserves (issues (own (sb_ID s))) (docker_OpenSandboxLocalConn h s port)"
  unfolding docker_OpenSandboxLocalConn_def Let_def
  using own_exec(2) [of "''-i''" "sb_ID s"]
  by (intro issuing.preserves_guard issuing.preserves_bind with_daemon_issues issuing.preserves_case_prod
      issuing.preserves_case_option issuing.preserves_ok issuing.preserves_fail) simp

text \<open>
  C27: the commands for a sandbox address its own container. Whatever the engine answers and whatever command,
  directory and environment a request carries, every command line that the Docker backend runs to start, stop,
  suspend, resume, destroy, inspect, execute in, attach to, connect into or snapshot a sandbox is about the
  container or the network of that sandbox.
\<close>

theorem docker_own_container:
  "preserves (issues (own (sb_ID s))) (rm_Start (docker_manager h rt) s) \<and> preserves (issues (own (sb_ID s))) (rm_Stop (docker_manager h rt) s force) \<and>
    preserves (issues (own (sb_ID s))) (rm_Suspend (docker_manager h rt) s) \<and> preserves (issues (own (sb_ID s))) (rm_Resume (docker_manager h rt) s) \<and>
    preserves (issues (own (sb_ID s))) (rm_Destroy (docker_manager h rt) s) \<and> preserves (issues (own (sb_ID s))) (rm_Inspect (docker_manager h rt) s) \<and>
    preserves (issues (own (sb_ID s))) (rm_Exec (docker_manager h rt) s req) \<and> preserves (issues (own (sb_ID s))) (rm_AttachTTY (docker_manager h rt) s treq) \<and>
    preserves (issues (own (sb_ID s))) (rm_CreateSnapshot (docker_manager h rt) s snapshotID) \<and>
    (\<exists>f. rm_OpenSandboxLocalConn (docker_manager h rt) = Some f \<and> preserves (issues (own (sb_ID s))) (f s port))"
proof -
  let ?P = "own (sb_ID s)"
  have verb: "?P [v, containerName (sb_ID s)]" if "v \<in> {''start'', ''kill'', ''stop'', ''pause'', ''unpause''}" for v
    using that by (auto intro: own_simple)
  have net: "?P [''network'', ''rm'', networkName (sb_ID s)]" using own_network [of "sb_ID s" "[''rm'']"] by simp
  have "preserves (issues ?P) (docker_Start h s)" unfolding docker_Start_def
    by (intro issuing.preserves_then docker_run_issues docker_Inspect_own verb) simp
  moreover have "preserves (issues ?P) (docker_Stop h s force)" unfolding docker_Stop_def
    by (intro issuing.preserves_then docker_run_unless_issues docker_Inspect_own verb) simp
  moreover have "preserves (issues ?P) (docker_Suspend h s)" unfolding docker_Suspend_def
    by (intro issuing.preserves_then issuing.preserves_bind docker_run_issues docker_Inspect_own issuing.preserves_ok verb) simp
  moreover have "preserves (issues ?P) (docker_Resume h s)" unfolding docker_Resume_def
    by (intro issuing.preserves_then docker_run_issues docker_Inspect_own verb) simp
  moreover have "preserves (issues ?P) (docker_Destroy h s)" unfolding docker_Destroy_def
    by (intro issuing.preserves_then docker_run_unless_issues issuing.preserves_if issuing.preserves_ok own_rm net remove_dirs_issues)
  moreover have "preserves (issues ?P) (docker_CreateSnapshot h s snapshotID)" unfolding docker_CreateSnapshot_def Let_def
    by (intro issuing.preserves_then docker_run_issues engine_os_issues archiveDirectory_issues issuing.preserves_ok own_simple) simp
  ultimately show ?thesis
    by (simp add: docker_manager_def docker_Inspect_own docker_Exec_own docker_AttachTTY_own docker_OpenSandboxLocalConn_own)
qed

section \<open>Statuses that are not the real ones\<close>

definition suspended_world :: "string engine world" where
  "suspended_world = snd (SuspendSandbox docker_service ''acme'' ''sbx-1'' docker_world)"

definition reconciled_world :: "string engine world" where
  "reconciled_world = snd (Reconcile docker_service suspended_world)"

text \<open>
  The reconciler undoes a suspension. A sandbox of the Docker backend is suspended and recorded as suspended;
  the next round of the reconciler, with no other event in between, records it as running, although its
  container is still paused: the backend tests whether the container runs before it tests whether it is paused,
  and the engine reports a paused container as both.
\<close>

theorem docker_suspend_undone:
  "map c_status (db_sandboxes (w_db suspended_world)) = [StatusSuspended] \<and>
   map c_status (db_sandboxes (w_db reconciled_world)) = [StatusRunning] \<and> en_daemon (w_rt reconciled_world) = ''paused''"
  by (intro conjI; code_simp)

lemma issues_none: "issues (\<lambda>_. False) e e' \<longleftrightarrow> en_commands e' = en_commands e"
  by (auto simp: issues_def list_all_iff)

lemma quiet_step:
  assumes "preserves (issues (\<lambda>_. False)) m" and "m e = (r, e')"
  shows "en_commands e' = en_commands e"
  using preservesD [OF assms] by (simp add: issues_none)

lemma kata_run_command: "kata_run h rt args e = (r, e') \<Longrightarrow> en_commands e' = en_commands e @ [args]"
  by (auto simp: kata_run_def execute_def with_daemon_def bindE_def split: prod.splits option.splits sum.splits)

text \<open>
  Creating a Kata sandbox starts it. A successful creation reports the sandbox as stopped, but the commands
  it has run are an image pull and \<open>ctr run --detach\<close>, which creates and starts the task, and nothing that stops
  it, although the code says the task is stopped immediately.
\<close>

theorem kata_create_starts_task:
  assumes "kata_Create h rt spec e = (Inr st, e')"
  shows "rs_Status st = StatusStopped \<and>
    en_commands e' = en_commands e @ [baseArgs rt [''images'', ''pull'', sp_BaseImageRef spec], runArgs rt spec] \<and>
    ''--detach'' \<in> set (runArgs rt spec)"
proof -
  let ?pull = "baseArgs rt [''images'', ''pull'', sp_BaseImageRef spec]"
  from assms have "kt_hostOS rt = ''linux''" by (auto simp: kata_Create_def guardE_def split: if_splits)
  with assms obtain u1 e1 u2 e2 now e3 u4 e4 where
    steps: "make_dirs [sp_StorageRoot spec, sp_WorkspaceRoot spec, sp_CacheRoot spec, sp_ScratchRoot spec, sp_SecretsRoot spec] e = (Inr u1, e1)"
      "engine_os (MkdirAll (Join [sp_StorageRoot spec, ''.kata''])) e1 = (Inr u2, e2)" "engine_now e2 = (Inr now, e3)"
      "writeState h (Join [sp_StorageRoot spec, ''.kata'']) (local_state_of spec now) e3 = (Inr u4, e4)"
    and rest: "ignoreE (kata_run h rt ?pull) (tryE (kata_run h rt (runArgs rt spec)) (\<lambda>r. case r of
        Inl e \<Rightarrow> failE (kata_wrap ''kata create'' e)
      | Inr out \<Rightarrow> okE (runtime_state_of (kata_container (sp_SandboxID spec)) StatusStopped))) e4 = (Inr st, e')"
    by (auto simp: kata_Create_def Let_def elim!: thenE_InrE bindE_InrE)
  have "en_commands e4 = en_commands e"
    using quiet_step [OF make_dirs_issues steps(1)] quiet_step [OF engine_os_issues steps(2)]
      quiet_step [OF engine_now_issues steps(3)] quiet_step [OF engine_os_issues steps(4) [unfolded writeState_def]] by simp
  moreover obtain r5 e5 r6 e6 where
    runs: "kata_run h rt ?pull e4 = (r5, e5)" "kata_run h rt (runArgs rt spec) e5 = (r6, e6)" by force
  ultimately have "en_commands e6 = en_commands e @ [?pull, runArgs rt spec]"
    using kata_run_command [OF runs(1)] kata_run_command [OF runs(2)] by simp
  moreover from rest runs have "rs_Status st = StatusStopped" "e' = e6"
    by (auto simp: ignoreE_def tryE_def runtime_state_of_def split: sum.splits)
  ultimately show ?thesis by (simp add: runArgs_def)
qed

definition plain_kata :: kata_runtime where
  "plain_kata = kata_New ''linux'' \<lparr>ko_Binary = [], ko_RuntimeClass = [], ko_ContainerdSocket = [], ko_Namespace = [],
     ko_HostOS = [], ko_SnapshotMaxBytes = 0, ko_SnapshotMaxFiles = 0, ko_SnapshotMaxExpansionRatio = 0\<rparr>"

definition kata_spec :: sandbox_spec where
  "kata_spec = demo_spec\<lparr>sp_MemoryLimitMB := 0\<rparr>"

end
