(* ===== verification/AgentProtocol.thy ===== *)
theory AgentProtocol
  imports Encoding
begin

text \<open>
  The framed protocol between the QEMU backend and the agent in the guest
  (\<open>internal/runtime/qemu/agentproto/protocol.go\<close>): envelopes, their validation, and frames of a four-byte
  length and a JSON payload. The JSON codec of the standard library enters as a pair of functions; what the
  protocol relies on is that decoding undoes encoding.
\<close>

section \<open>Messages\<close>

definition ProtocolVersion :: string where "ProtocolVersion = ''3''"
definition MaxMessageSize :: int where "MaxMessageSize = 16 * 1024 * 1024"
definition MaxRequestIDLength :: nat where "MaxRequestIDLength = 128"
definition MaxFileChunkSize :: nat where "MaxFileChunkSize = 256 * 1024"
definition MaxBridgeChunkSize :: nat where "MaxBridgeChunkSize = 32 * 1024"

definition OpHello :: string where "OpHello = ''hello''"
definition OpPing :: string where "OpPing = ''ping''"
definition OpExecStart :: string where "OpExecStart = ''exec_start''"
definition OpExecEvent :: string where "OpExecEvent = ''exec_event''"
definition OpExecCancel :: string where "OpExecCancel = ''exec_cancel''"
definition OpPTYOpen :: string where "OpPTYOpen = ''pty_open''"
definition OpPTYData :: string where "OpPTYData = ''pty_data''"
definition OpPTYResize :: string where "OpPTYResize = ''pty_resize''"
definition OpPTYClose :: string where "OpPTYClose = ''pty_close''"
definition OpFileOpen :: string where "OpFileOpen = ''file_open''"
definition OpFileData :: string where "OpFileData = ''file_data''"
definition OpFileClose :: string where "OpFileClose = ''file_close''"
definition OpFileDelete :: string where "OpFileDelete = ''file_delete''"
definition OpMkdir :: string where "OpMkdir = ''mkdir''"
definition OpArchiveStream :: string where "OpArchiveStream = ''archive_stream''"
definition OpTCPBridgeOpen :: string where "OpTCPBridgeOpen = ''tcp_bridge_open''"
definition OpTCPBridgeData :: string where "OpTCPBridgeData = ''tcp_bridge_data''"
definition OpShutdown :: string where "OpShutdown = ''shutdown''"

record message =
  ms_ID :: string
  ms_Op :: string
  ms_OK :: bool
  ms_Error :: string
  ms_Result :: string

definition protocol_error :: "string \<Rightarrow> goerr" where
  "protocol_error m = Err (''guest agent protocol error: '' @ m)"

definition EncodeBytes :: "string \<Rightarrow> string" where "EncodeBytes data = EncodeToString data"
definition DecodeBytes :: "string \<Rightarrow> goerr + string" where "DecodeBytes text = DecodeString text"

definition ValidateEnvelope :: "message \<Rightarrow> goerr option" where
  "ValidateEnvelope m =
     (if TrimSpace (ms_Op m) = [] then Some (protocol_error ''agent message op is required'')
      else if MaxRequestIDLength < length (TrimSpace (ms_ID m)) then
        Some (protocol_error (''agent message id exceeds max length of '' @ fmt_nat MaxRequestIDLength @ '' bytes''))
      else None)"

definition RequiresRequestID :: "string \<Rightarrow> bool" where
  "RequiresRequestID oper \<longleftrightarrow>
     oper \<notin> {OpExecEvent, OpFileData, OpPTYData, OpPTYResize, OpPTYClose, OpTCPBridgeData, OpArchiveStream}"

definition ValidateRequest :: "message \<Rightarrow> goerr option" where
  "ValidateRequest m =
     (case ValidateEnvelope m of
        Some e \<Rightarrow> Some e
      | None \<Rightarrow>
          if RequiresRequestID (ms_Op m) \<and> TrimSpace (ms_ID m) = [] then
            Some (protocol_error (''request id is required for '' @ ms_Op m))
          else if ms_OK m then Some (protocol_error ''requests must not set ok=true'')
          else None)"

definition ValidateResponse :: "message \<Rightarrow> string \<Rightarrow> string \<Rightarrow> goerr option" where
  "ValidateResponse m expectedOp expectedID =
     (case ValidateEnvelope m of
        Some e \<Rightarrow> Some e
      | None \<Rightarrow>
          if TrimSpace (ms_ID m) = [] then Some (protocol_error ''response id is required'')
          else if expectedID \<noteq> [] \<and> ms_ID m \<noteq> expectedID then
            Some (protocol_error (''response id mismatch: expected '' @ quote expectedID @ '' got '' @ quote (ms_ID m)))
          else if expectedOp \<noteq> [] \<and> ms_Op m \<noteq> expectedOp then
            Some (protocol_error (''response op mismatch: expected '' @ quote expectedOp @ '' got '' @ quote (ms_Op m)))
          else None)"

section \<open>Frames\<close>

text \<open>\<open>binary.BigEndian\<close>: a 32-bit number as four bytes, the highest first.\<close>

definition PutUint32 :: "32 word \<Rightarrow> string" where
  "PutUint32 n = map (\<lambda>k. char_of (unat (drop_bit k n) mod 256)) [24, 16, 8, 0]"

fun Uint32 :: "string \<Rightarrow> 32 word" where
  "Uint32 [a, b, c, d] =
     of_nat (of_char a) * 2 ^ 24 + of_nat (of_char b) * 2 ^ 16 + of_nat (of_char c) * 2 ^ 8 + of_nat (of_char d)"
| "Uint32 _ = 0"

definition too_large :: goerr where
  "too_large = Err (''agent message exceeds max size of '' @ fmt_int MaxMessageSize @ '' bytes'')"

text \<open>
  Writing a message: the bytes it puts on the connection. The two writes of the code are one here, for a
  connection that takes what it is given.
\<close>

definition WriteMessage :: "(message \<Rightarrow> goerr + string) \<Rightarrow> message \<Rightarrow> goerr + string" where
  "WriteMessage marshal m =
     (case ValidateEnvelope m of
        Some e \<Rightarrow> Inl e
      | None \<Rightarrow>
          (case marshal m of
             Inl e \<Rightarrow> Inl e
           | Inr payload \<Rightarrow>
               if MaxMessageSize < int (length payload) then Inl too_large
               else Inr (PutUint32 (of_nat (length payload)) @ payload)))"

text \<open>\<open>io.ReadFull\<close>: nothing at all is the end of the stream, a part of what was asked for an unexpected end.\<close>

definition ReadFull :: "nat \<Rightarrow> string \<Rightarrow> (goerr + string) \<times> string" where
  "ReadFull n stream =
     (if n \<le> length stream then (Inr (take n stream), drop n stream)
      else (Inl (Err (if stream = [] then ''EOF'' else ''unexpected EOF'')), []))"

definition ReadMessage :: "(string \<Rightarrow> goerr + message) \<Rightarrow> string \<Rightarrow> (goerr + message) \<times> string" where
  "ReadMessage unmarshal stream =
     (case ReadFull 4 stream of
        (Inl e, rest) \<Rightarrow> (Inl e, rest)
      | (Inr header, rest) \<Rightarrow>
          (let len = Uint32 header in
           if len = 0 then (Inl (Err ''empty agent message''), rest)
           else if word_of_int MaxMessageSize < len then (Inl too_large, rest)
           else
             (case ReadFull (unat len) rest of
                (Inl e, rest') \<Rightarrow> (Inl e, rest')
              | (Inr payload, rest') \<Rightarrow>
                  (case unmarshal payload of
                     Inl e \<Rightarrow> (Inl (protocol_error (''invalid json: '' @ err_text e)), rest')
                   | Inr m \<Rightarrow>
                       (case ValidateEnvelope m of Some e \<Rightarrow> (Inl e, rest') | None \<Rightarrow> (Inr m, rest'))))))"

text \<open>Writing and reading several messages one after the other.\<close>

fun write_all :: "(message \<Rightarrow> goerr + string) \<Rightarrow> message list \<Rightarrow> goerr + string" where
  "write_all marshal [] = Inr []"
| "write_all marshal (m # ms) =
     (case WriteMessage marshal m of
        Inl e \<Rightarrow> Inl e
      | Inr frame \<Rightarrow> (case write_all marshal ms of Inl e \<Rightarrow> Inl e | Inr rest \<Rightarrow> Inr (frame @ rest)))"

fun read_n :: "(string \<Rightarrow> goerr + message) \<Rightarrow> nat \<Rightarrow> string \<Rightarrow> (goerr + message list) \<times> string" where
  "read_n unmarshal 0 stream = (Inr [], stream)"
| "read_n unmarshal (Suc n) stream =
     (case ReadMessage unmarshal stream of
        (Inl e, rest) \<Rightarrow> (Inl e, rest)
      | (Inr m, rest) \<Rightarrow>
          (case read_n unmarshal n rest of
             (Inl e, rest') \<Rightarrow> (Inl e, rest') | (Inr ms, rest') \<Rightarrow> (Inr (m # ms), rest')))"

section \<open>Round trip\<close>

lemma length_PutUint32 [simp]: "length (PutUint32 n) = 4"
  by (simp add: PutUint32_def)

lemma four_digits:
  fixes m :: nat
  assumes "m = a * 2 ^ 8 + r0" and "a = b * 256 + r1" and "b = c * 256 + r2"
  shows "m = c * 2 ^ 24 + r2 * 2 ^ 16 + r1 * 2 ^ 8 + r0"
  using assms by simp

lemma Uint32_PutUint32 [simp]: "Uint32 (PutUint32 n) = n"
proof -
  let ?m = "unat n"
  have parts: "?m = ?m div 2 ^ 24 mod 256 * 2 ^ 24 + ?m div 2 ^ 16 mod 256 * 2 ^ 16 + ?m div 2 ^ 8 mod 256 * 2 ^ 8 + ?m mod 256"
  proof -
    have "?m < 2 ^ 32" using unsigned_less [of n, where 'a = nat] by simp
    then have "?m div 2 ^ 24 < 256" by (intro less_mult_imp_div_less) simp
    then have top: "?m div 2 ^ 24 mod 256 = ?m div 2 ^ 24" by simp
    have step: "k = k div 256 * 256 + k mod 256" for k :: nat by simp
    have d: "?m div 2 ^ 8 div 256 = ?m div 2 ^ 16" "?m div 2 ^ 16 div 256 = ?m div 2 ^ 24" by (simp_all add: div_mult2_eq [symmetric])
    have "?m = ?m div 2 ^ 8 * 2 ^ 8 + ?m mod 256" using step [of ?m] by simp
    moreover have "?m div 2 ^ 8 = ?m div 2 ^ 16 * 256 + ?m div 2 ^ 8 mod 256" unfolding d(1) [symmetric] by (rule step)
    moreover have "?m div 2 ^ 16 = ?m div 2 ^ 24 * 256 + ?m div 2 ^ 16 mod 256" unfolding d(2) [symmetric] by (rule step)
    ultimately show ?thesis unfolding top by (rule four_digits)
  qed
  have shifted: "unat (drop_bit k n) = ?m div 2 ^ k" for k
    unfolding unat_drop_bit_eq by (rule drop_bit_eq_div)
  have "Uint32 (PutUint32 n) =
      of_nat (?m div 2 ^ 24 mod 256 * 2 ^ 24 + ?m div 2 ^ 16 mod 256 * 2 ^ 16 + ?m div 2 ^ 8 mod 256 * 2 ^ 8 + ?m mod 256)"
    by (simp add: PutUint32_def shifted)
  also have "\<dots> = n" unfolding parts [symmetric] by simp
  finally show ?thesis .
qed

text \<open>
  What arrives of a message is what the JSON codec makes of it: \<open>encoding/json\<close> replaces bytes that are not UTF-8 and writes
  a raw result in compact form, and what it yields has to pass the envelope checks again.
\<close>

definition arrives_as :: "(message \<Rightarrow> goerr + string) \<Rightarrow> (string \<Rightarrow> goerr + message) \<Rightarrow> message \<Rightarrow> message \<Rightarrow> bool" where
  "arrives_as marshal unmarshal m m' \<longleftrightarrow>
     (case marshal m of Inl e \<Rightarrow> False | Inr p \<Rightarrow> unmarshal p = Inr m' \<and> ValidateEnvelope m' = None)"

lemma read_written:
  assumes "arrives_as marshal unmarshal m m'" and "marshal m \<noteq> Inr []" and "WriteMessage marshal m = Inr frame"
  shows "ReadMessage unmarshal (frame @ rest) = (Inr m', rest)"
proof -
  from assms(3) obtain p where p: "marshal m = Inr p" "int (length p) \<le> MaxMessageSize"
      "frame = PutUint32 (of_nat (length p)) @ p"
    by (auto simp: WriteMessage_def split: option.splits sum.splits if_splits)
  with assms(1,2) have d: "unmarshal p = Inr m'" "ValidateEnvelope m' = None" "p \<noteq> []" by (auto simp: arrives_as_def)
  let ?len = "of_nat (length p) :: 32 word"
  have small: "length p < 2 ^ 32" "MaxMessageSize < 2 ^ 32" "0 \<le> MaxMessageSize" using p(2) by (simp_all add: MaxMessageSize_def)
  then have u: "unat ?len = length p" by (simp add: unat_of_nat)
  moreover have "?len \<noteq> 0" using d(3) u by auto
  moreover have "\<not> word_of_int MaxMessageSize < ?len"
  proof -
    have "uint (word_of_int MaxMessageSize :: 32 word) = MaxMessageSize" using small by (simp add: uint_word_of_int_eq take_bit_int_eq_self)
    moreover have "uint ?len = int (length p)" using small(1) by (simp add: unsigned_of_nat take_bit_nat_eq_self)
    ultimately show ?thesis using p(2) by (simp add: word_less_def)
  qed
  ultimately show ?thesis
    using p(3) d by (simp add: ReadMessage_def ReadFull_def Let_def)
qed

text \<open>
  C29: the frames of the guest-agent connection are exact. When a sequence of messages has been written, reading as many
  messages from the connection gives, in order, what the codec makes of each, and leaves exactly the bytes that follow,
  whatever they are: the frames neither run into each other nor lose a byte. In particular messages that the codec
  keeps as they are arrive unchanged. The codec is only asked to encode no message as nothing.
\<close>

theorem agent_stream_roundtrip:
  assumes "\<forall>m. marshal m \<noteq> Inr []" and "write_all marshal ms = Inr stream"
    and "list_all2 (arrives_as marshal unmarshal) ms ms'"
  shows "read_n unmarshal (length ms) (stream @ rest) = (Inr ms', rest)"
  using assms(3,2)
proof (induction ms ms' arbitrary: stream rule: list_all2_induct)
  case (Cons m ms m' ms')
  then obtain frame later where "WriteMessage marshal m = Inr frame" "write_all marshal ms = Inr later" "stream = frame @ later"
    by (auto split: sum.splits)
  with Cons read_written assms(1) show ?case by simp
qed simp

text \<open>
  Messages without result as JSON texts, where every byte beyond ASCII stands alone and is replaced, as \<open>encoding/json\<close>
  does, by the replacement character.
\<close>

definition json_string :: "string \<Rightarrow> string" where
  "json_string s = CHR 0x22 # concat (map (\<lambda>c. if (of_char c :: nat) < 128 then [c] else CHR 0x5C # ''ufffd'') s) @ [CHR 0x22]"

fun json_unquote :: "string \<Rightarrow> string" where
  "json_unquote [] = []"
| "json_unquote (c # cs) =
     (if c = CHR 0x5C then CHR 0xEF # CHR 0xBF # CHR 0xBD # json_unquote (drop 5 cs) else c # json_unquote cs)"

definition json_marshal :: "message \<Rightarrow> goerr + string" where
  "json_marshal m =
     (if ms_OK m \<or> ms_Error m \<noteq> [] \<or> ms_Result m \<noteq> [] then Inl (Err ''unsupported'')
      else Inr (''{'' @ json_string ''id'' @ '':'' @ json_string (ms_ID m) @ '','' @ json_string ''op'' @ '':'' @ json_string (ms_Op m) @ ''}''))"

definition json_unmarshal :: "string \<Rightarrow> goerr + message" where
  "json_unmarshal p =
     (case split_on (CHR 0x22) p of
        [_, _, _, i, _, _, _, oper, _] \<Rightarrow>
          Inr \<lparr>ms_ID = json_unquote i, ms_Op = json_unquote oper, ms_OK = False, ms_Error = [], ms_Result = []\<rparr>
      | _ \<Rightarrow> Inl (Err ''unsupported''))"

definition ping :: "string \<Rightarrow> message" where
  "ping i = \<lparr>ms_ID = i, ms_Op = OpPing, ms_OK = False, ms_Error = [], ms_Result = []\<rparr>"

theorem agent_stream_roundtrip_witness:
  "\<exists>stream. write_all json_marshal [ping ''1'', ping [CHR 0xFF]] = Inr stream \<and>
     read_n json_unmarshal 2 (stream @ ''rest'') = (Inr [ping ''1'', ping [CHR 0xEF, CHR 0xBF, CHR 0xBD]], ''rest'')"
proof -
  let ?ms = "[ping ''1'', ping [CHR 0xFF]]"
  have "\<forall>m. json_marshal m \<noteq> Inr []" by (simp add: json_marshal_def)
  moreover have "\<not> isl (write_all json_marshal ?ms)" by code_simp
  then obtain stream where s: "write_all json_marshal ?ms = Inr stream" by (cases "write_all json_marshal ?ms") auto
  moreover have "list_all2 (arrives_as json_marshal json_unmarshal) ?ms [ping ''1'', ping [CHR 0xEF, CHR 0xBF, CHR 0xBD]]" by code_simp
  ultimately have "read_n json_unmarshal (length ?ms) (stream @ ''rest'') = (Inr [ping ''1'', ping [CHR 0xEF, CHR 0xBF, CHR 0xBD]], ''rest'')"
    by (rule agent_stream_roundtrip)
  then show ?thesis using s by (simp add: numeral_2_eq_2)
qed

end
