(* ===== verification/Presets.thy ===== *)
theory Presets
  imports Images Workspace
begin

text \<open>
  The preset manifests of the command line client (\<open>internal/presets\<close>): the schema of \<open>manifest.go\<close>,
  the defaults that \<open>Normalize\<close> fills in, the checks of \<open>Validate\<close>, and the discovery and loading of
  \<open>load.go\<close>. The YAML decoder is a parameter (\<open>yaml_Unmarshal\<close>), as is what the operating system says
  about files and directories. A decoded duration is an \<open>int\<close> of nanoseconds, a decoded map a list of
  pairs with distinct keys.
\<close>

section \<open>The schema\<close>

record runtime_selector =
  rs_Allowed :: "string list"
  rs_Profile :: string

record sandbox_preset =
  pb_Image :: string
  pb_CPU :: string
  pb_MemoryMB :: int
  pb_PIDs :: int
  pb_DiskMB :: int
  pb_Network :: string
  pb_Tunnels :: bool
  pb_Start :: "bool option"

record preset_input =
  in_Name :: string
  in_Required :: bool
  in_Secret :: bool
  in_Description :: string
  in_Default :: string

record file_asset =
  fa_Path :: string
  fa_Content :: string
  fa_Source :: string
  fa_Binary :: bool

record preset_step =
  ps_Name :: string
  ps_Command :: "string list"
  ps_Env :: "(string \<times> string) list"
  ps_Cwd :: string
  ps_Timeout :: int
  ps_Detached :: bool
  ps_ContinueOnError :: bool

record readiness_check =
  rc_Type :: string
  rc_Command :: "string list"
  rc_Path :: string
  rc_Port :: int
  rc_ExpectedStatus :: int
  rc_Timeout :: int
  rc_Interval :: int

record preset_tunnel =
  pt_Port :: int
  pt_Protocol :: string
  pt_AuthMode :: string
  pt_Visibility :: string

record artifact =
  ar_RemotePath :: string
  ar_LocalPath :: string
  ar_Binary :: bool

record manifest =
  mf_Name :: string
  mf_Description :: string
  mf_Runtime :: runtime_selector
  mf_Sandbox :: sandbox_preset
  mf_Inputs :: "preset_input list"
  mf_Files :: "file_asset list"
  mf_Bootstrap :: "preset_step list"
  mf_Startup :: "preset_step option"
  mf_Readiness :: "readiness_check option"
  mf_Tunnel :: "preset_tunnel option"
  mf_Artifacts :: "artifact list"
  mf_Cleanup :: string
  mf_BaseDir :: string

definition ManifestFileName :: string where "ManifestFileName = ''preset.yaml''"

definition CleanupOnSuccess :: string where "CleanupOnSuccess = ''on-success''"
definition CleanupAlways :: string where "CleanupAlways = ''always''"
definition CleanupNever :: string where "CleanupNever = ''never''"

section \<open>Defaults\<close>

definition normalizeStep :: "preset_step \<Rightarrow> string \<Rightarrow> preset_step" where
  "normalizeStep s fallbackName =
     s\<lparr>ps_Name := (if ps_Name s = [] then fallbackName else ps_Name s),
       ps_Timeout := (if ps_Timeout s \<le> 0 then 300000000000 else ps_Timeout s),
       ps_Cwd := (if ps_Cwd s = [] then ''/workspace'' else ps_Cwd s)\<rparr>"

fun normalize_steps :: "nat \<Rightarrow> preset_step list \<Rightarrow> preset_step list" where
  "normalize_steps index [] = []"
| "normalize_steps index (s # ss) =
     normalizeStep s (''bootstrap['' @ fmt_nat index @ '']'') # normalize_steps (Suc index) ss"

definition normalize_sandbox :: "sandbox_preset \<Rightarrow> sandbox_preset" where
  "normalize_sandbox s =
     s\<lparr>pb_CPU := (if pb_CPU s = [] then ''1'' else pb_CPU s),
       pb_MemoryMB := (if pb_MemoryMB s \<le> 0 then 1024 else pb_MemoryMB s),
       pb_PIDs := (if pb_PIDs s \<le> 0 then 512 else pb_PIDs s),
       pb_DiskMB := (if pb_DiskMB s \<le> 0 then 4096 else pb_DiskMB s),
       pb_Network := (if TrimSpace (pb_Network s) = [] then ''internet-enabled'' else pb_Network s)\<rparr>"

definition normalize_readiness :: "readiness_check \<Rightarrow> readiness_check" where
  "normalize_readiness r =
     r\<lparr>rc_Timeout := (if rc_Timeout r \<le> 0 then 30000000000 else rc_Timeout r),
       rc_Interval := (if rc_Interval r \<le> 0 then 1000000000 else rc_Interval r),
       rc_ExpectedStatus := (if rc_ExpectedStatus r = 0 then 200 else rc_ExpectedStatus r),
       rc_Path := (if rc_Path r = [] then ''/'' else rc_Path r)\<rparr>"

definition normalize_tunnel :: "preset_tunnel \<Rightarrow> preset_tunnel" where
  "normalize_tunnel t =
     t\<lparr>pt_Protocol := (if pt_Protocol t = [] then ''http'' else pt_Protocol t),
       pt_AuthMode := (if pt_AuthMode t = [] then ''token'' else pt_AuthMode t),
       pt_Visibility := (if pt_Visibility t = [] then ''private'' else pt_Visibility t)\<rparr>"

definition Normalize :: "manifest \<Rightarrow> manifest" where
  "Normalize m =
     m\<lparr>mf_Name := (if TrimSpace (mf_Name m) = [] \<and> TrimSpace (mf_BaseDir m) \<noteq> [] then Base (mf_BaseDir m) else mf_Name m),
       mf_Sandbox := normalize_sandbox (mf_Sandbox m),
       mf_Cleanup := (if mf_Cleanup m = [] then CleanupOnSuccess else mf_Cleanup m),
       mf_Bootstrap := normalize_steps 0 (mf_Bootstrap m),
       mf_Startup := map_option (\<lambda>s. normalizeStep s ''startup'') (mf_Startup m),
       mf_Readiness := map_option normalize_readiness (mf_Readiness m),
       mf_Tunnel := map_option normalize_tunnel (mf_Tunnel m),
       mf_Runtime := (mf_Runtime m)\<lparr>rs_Allowed := sort (map (\<lambda>a. ToLower (TrimSpace a)) (rs_Allowed (mf_Runtime m)))\<rparr>\<rparr>"

section \<open>Checks\<close>

definition complain :: "string \<Rightarrow> goerr + unit" where "complain m = Inl (Err m)"

definition check_then :: "goerr + unit \<Rightarrow> goerr + unit \<Rightarrow> goerr + unit" where
  "check_then a b = (case a of Inl e \<Rightarrow> Inl e | Inr _ \<Rightarrow> b)"

definition check_unless :: "bool \<Rightarrow> string \<Rightarrow> goerr + unit" where
  "check_unless bad m = (if bad then complain m else Inr ())"

fun check_all :: "('x \<Rightarrow> goerr + unit) \<Rightarrow> 'x list \<Rightarrow> goerr + unit" where
  "check_all f [] = Inr ()"
| "check_all f (x # xs) = check_then (f x) (check_all f xs)"

fun check_allowed :: "string list \<Rightarrow> string list \<Rightarrow> goerr + unit" where
  "check_allowed seen [] = Inr ()"
| "check_allowed seen (runtimeName # rest) =
     (if runtimeName = [] then complain ''runtime.allowed entries must not be empty''
      else if runtimeName \<in> set seen then complain (''runtime.allowed contains duplicate value '' @ quote runtimeName)
      else check_allowed (runtimeName # seen) rest)"

fun check_inputs :: "string list \<Rightarrow> preset_input list \<Rightarrow> goerr + unit" where
  "check_inputs seen [] = Inr ()"
| "check_inputs seen (i # rest) =
     (let name = TrimSpace (in_Name i) in
      if name = [] then complain ''input name is required''
      else if name \<in> set seen then complain (''duplicate input name '' @ quote name)
      else check_inputs (name # seen) rest)"

definition check_file :: "file_asset \<Rightarrow> goerr + unit" where
  "check_file f =
     (if TrimSpace (fa_Path f) = [] then complain ''file path is required''
      else (let hasContent = TrimSpace (fa_Content f) \<noteq> []; hasSource = TrimSpace (fa_Source f) \<noteq> [] in
            check_unless (hasContent = hasSource)
              (''file '' @ quote (fa_Path f) @ '' must specify exactly one of content or source'')))"

fun check_steps :: "nat \<Rightarrow> preset_step list \<Rightarrow> goerr + unit" where
  "check_steps index [] = Inr ()"
| "check_steps index (s # ss) =
     (if ps_Command s = [] then complain (''bootstrap['' @ fmt_nat index @ ''] command is required'')
      else check_steps (Suc index) ss)"

definition check_readiness :: "preset_tunnel option \<Rightarrow> readiness_check \<Rightarrow> goerr + unit" where
  "check_readiness tun r =
     (let kind = ToLower (TrimSpace (rc_Type r)) in
      if kind = ''command'' then check_unless (rc_Command r = []) ''readiness.command requires command''
      else if kind = ''http'' then
        (case tun of
           None \<Rightarrow> complain ''readiness.http requires tunnel configuration''
         | Some t \<Rightarrow> check_unless (pt_Port t \<le> 0) ''tunnel.port must be positive for readiness.http'')
      else if kind = [] then complain ''readiness.type is required''
      else complain (''unsupported readiness.type '' @ quote (rc_Type r)))"

definition check_artifact :: "artifact \<Rightarrow> goerr + unit" where
  "check_artifact a =
     check_unless (TrimSpace (ar_RemotePath a) = [] \<or> TrimSpace (ar_LocalPath a) = [])
       ''artifacts require remote_path and local_path''"

definition Validate_manifest :: "manifest \<Rightarrow> goerr + unit" where
  "Validate_manifest m =
     check_then (check_unless (TrimSpace (mf_Name m) = []) ''name is required'')
     (check_then (check_unless (TrimSpace (pb_Image (mf_Sandbox m)) = []) ''sandbox.image is required'')
     (check_then (check_allowed [] (rs_Allowed (mf_Runtime m)))
     (check_then (check_unless (rs_Profile (mf_Runtime m) \<noteq> [] \<and>
         \<not> profile_IsValid (profile_of (TrimSpace (rs_Profile (mf_Runtime m)))))
         (''runtime.profile '' @ quote (rs_Profile (mf_Runtime m)) @ '' is invalid''))
     (check_then (check_inputs [] (mf_Inputs m))
     (check_then (check_all check_file (mf_Files m))
     (check_then (check_steps 0 (mf_Bootstrap m))
     (check_then (check_unless (case mf_Startup m of None \<Rightarrow> False | Some s \<Rightarrow> ps_Command s = []) ''startup command is required'')
     (check_then (case mf_Readiness m of None \<Rightarrow> Inr () | Some r \<Rightarrow> check_readiness (mf_Tunnel m) r)
     (check_then (check_unless (case mf_Tunnel m of None \<Rightarrow> False | Some t \<Rightarrow> pt_Port t \<le> 0) ''tunnel.port must be positive'')
     (check_then (check_all check_artifact (mf_Artifacts m))
     (check_unless (mf_Cleanup m \<notin> {CleanupOnSuccess, CleanupAlways, CleanupNever})
        (''unsupported cleanup policy '' @ quote (mf_Cleanup m)))))))))))))"

definition AllowsRuntime :: "manifest \<Rightarrow> string \<Rightarrow> bool" where
  "AllowsRuntime m runtimeName =
     (rs_Allowed (mf_Runtime m) = [] \<or> ToLower (TrimSpace runtimeName) \<in> set (rs_Allowed (mf_Runtime m)))"


section \<open>Discovery and loading\<close>

datatype stat_result = StatDir | StatFile | StatMissing goerr | StatFailed goerr

record preset_host =
  ho_LookupEnv :: "string \<Rightarrow> string option"
  ho_Getwd :: "goerr + string"
  ho_Abs :: "string \<Rightarrow> goerr + string"
  ho_Stat :: "string \<Rightarrow> stat_result"
  ho_ReadDir :: "string \<Rightarrow> goerr + (string \<times> bool) list"
  ho_ReadFile :: "string \<Rightarrow> goerr + string"
  yaml_Unmarshal :: "string \<Rightarrow> goerr + manifest"

definition Getenv :: "preset_host \<Rightarrow> string \<Rightarrow> string" where
  "Getenv h key = (case ho_LookupEnv h key of None \<Rightarrow> [] | Some v \<Rightarrow> v)"

record preset_summary =
  pm_Name :: string
  pm_Description :: string
  pm_Path :: string

text \<open>
  The weight of a component list is the length of its rendering. It does not grow when a path is
  cleaned, so that the walk towards the root ends.
\<close>

definition weight :: "string list \<Rightarrow> nat" where
  "weight cs = sum_list (map (\<lambda>c. Suc (length c)) cs)"

lemma weight_simps [simp]:
  "weight [] = 0" "weight (c # cs) = Suc (length c) + weight cs" "weight (cs @ ds) = weight cs + weight ds"
  "weight (rev cs) = weight cs"
  by (simp_all add: weight_def rev_map [symmetric])

lemma weight_split: "weight (split_on c s) = Suc (length s)"
  by (induction s) (auto split: list.split)

lemma length_join: "cs \<noteq> [] \<Longrightarrow> Suc (length (join_with ''/'' cs)) = weight cs"
  by (induction "''/''" cs rule: join_with.induct) auto

lemma weight_clean_step: "weight (clean_step r st c) \<le> weight st + (if c = [] then 0 else Suc (length c))"
  by (auto simp: clean_step_def split: list.split)

lemma weight_foldl_clean:
  "weight (foldl (clean_step r) st cs) \<le> weight st + weight (filter (\<lambda>c. c \<noteq> []) cs)"
proof (induction cs arbitrary: st)
  case (Cons c cs)
  from Cons.IH [of "clean_step r st c"] weight_clean_step [of r st c] show ?case by (auto split: if_splits)
qed simp

lemma weight_filter_Nil: "weight (filter (\<lambda>c. c \<noteq> []) cs) + length (filter (\<lambda>c. c = []) cs) = weight cs"
  by (induction cs) auto

lemma weight_clean: "weight (clean_comps r (split_on slash x)) + length (filter (\<lambda>c. c = []) (split_on slash x)) \<le> Suc (length x)"
  using weight_foldl_clean [of r "[]" "split_on slash x"] weight_filter_Nil [of "split_on slash x"]
  by (simp add: clean_comps_def weight_split)

lemma split_on_snoc: "split_on c (s @ [c]) = split_on c s @ [[]]"
  by (induction s) (auto split: list.split)

lemma Clean_ending_in_slash:
  assumes "x = y @ [slash]" and "x \<noteq> ''/''"
  shows "Clean x = ''.'' \<or> length (Clean x) < length x"
proof (cases "IsAbs x")
  case True
  from assms True obtain z where y: "y = slash # z"
    by (cases y) (auto simp: IsAbs_def HasPrefix_def slash_def)
  have "split_on slash x = [] # split_on slash z @ [[]]" unfolding assms(1) y by (simp add: split_on_snoc)
  with weight_clean [of True x] have "weight (clean_comps True (split_on slash x)) + 2 \<le> Suc (length x)" by simp
  moreover from y assms(1) have "2 \<le> length x" by simp
  ultimately show ?thesis using length_join [of "clean_comps True (split_on slash x)"] True
    by (cases "clean_comps True (split_on slash x) = []") (auto simp: Clean_def render_def)
next
  case False
  have "length (filter (\<lambda>c. c = []) (split_on slash x)) \<ge> 1" unfolding assms(1) by (simp add: split_on_snoc)
  with weight_clean [of False x] have "weight (clean_comps False (split_on slash x)) \<le> length x" by simp
  then show ?thesis using length_join [of "clean_comps False (split_on slash x)"] False
    by (auto simp: Clean_def render_def)
qed

lemma Dir_shrinks: "Dir d \<noteq> d \<Longrightarrow> Dir d = ''.'' \<or> length (Dir d) < length d"
proof -
  assume ne: "Dir d \<noteq> d"
  let ?x = "trim_right_by (\<lambda>c. c \<noteq> slash) d"
  have le: "length ?x \<le> length d"
    using trim_right_decomp [of d "\<lambda>c. c \<noteq> slash"] by (metis le_add1 length_append)
  from trim_right_snoc [of "\<lambda>c. c \<noteq> slash" d] consider "?x = []" | y where "?x = y @ [slash]" by auto
  then show ?thesis
  proof cases
    case 1
    then show ?thesis by (simp add: Dir_def Clean_def render_def IsAbs_def HasPrefix_def clean_comps_def clean_step_def)
  next
    case 2
    show ?thesis
    proof (cases "?x = ''/''")
      case True
      then have root: "Dir d = ''/''"
        by (simp add: Dir_def Clean_def render_def IsAbs_def HasPrefix_def clean_comps_def clean_step_def slash_def)
      from trim_right_decomp [of d "\<lambda>c. c \<noteq> slash"] True obtain zs where d: "d = ''/'' @ zs" by metis
      with ne root have "zs \<noteq> []" by auto
      then have "length (Dir d) < length d" using root d by simp
      then show ?thesis ..
    next
      case False
      with Clean_ending_in_slash [OF 2] le show ?thesis by (auto simp: Dir_def)
    qed
  qed
qed

function climb :: "preset_host \<Rightarrow> string \<Rightarrow> string option" where
  "climb h dir =
     (let candidate = Join [dir, ''examples'']; parent = Dir dir in
      if ho_Stat h candidate = StatDir then Some candidate
      else if parent = dir then None
      else climb h parent)"
  by pat_completeness simp

termination
proof (relation "measure (\<lambda>(h, d). if d = ''.'' then 0 else Suc (length d))")
  fix h d x p
  assume "x = Join [d, ''examples'']" and p: "p = Dir d" and "ho_Stat h x \<noteq> StatDir" and ne: "p \<noteq> d"
  have "Dir ''.'' = ''.''" by code_simp
  with ne p have "d \<noteq> ''.''" by auto
  with Dir_shrinks [of d] ne p
  show "((h, p), h, d) \<in> measure (\<lambda>(h, d). if d = ''.'' then 0 else Suc (length d))" by auto
qed simp

declare climb.simps [simp del]

definition DiscoverExamplesDir :: "preset_host \<Rightarrow> string \<Rightarrow> goerr + string" where
  "DiscoverExamplesDir h startDir =
     (let explicit = TrimSpace (Getenv h ''SANDBOX_EXAMPLES_DIR'') in
      if explicit \<noteq> [] then
        (case ho_Stat h explicit of
           StatMissing e \<Rightarrow> Inl e
         | StatFailed e \<Rightarrow> Inl e
         | StatFile \<Rightarrow> Inl (Err (''SANDBOX_EXAMPLES_DIR '' @ quote explicit @ '' is not a directory''))
         | StatDir \<Rightarrow> Inr explicit)
      else
        (case (if TrimSpace startDir = [] then ho_Getwd h else Inr startDir) of
           Inl e \<Rightarrow> Inl e
         | Inr dir \<Rightarrow>
             (case climb h dir of
                None \<Rightarrow> Inl (Err (''could not find examples directory from '' @ dir))
              | Some d \<Rightarrow> Inr d)))"

definition LoadManifest :: "preset_host \<Rightarrow> string \<Rightarrow> goerr + manifest" where
  "LoadManifest h path =
     (case ho_ReadFile h path of
        Inl e \<Rightarrow> Inl e
      | Inr data \<Rightarrow>
          (case yaml_Unmarshal h data of
             Inl e \<Rightarrow> Inl e
           | Inr decoded \<Rightarrow>
               (let m = Normalize (decoded\<lparr>mf_BaseDir := Dir path\<rparr>) in
                case Validate_manifest m of
                  Inl e \<Rightarrow> Inl (Err (''validate '' @ path @ '': '' @ err_text e))
                | Inr _ \<Rightarrow> Inr m)))"

definition Load_preset :: "preset_host \<Rightarrow> string \<Rightarrow> string \<Rightarrow> goerr + manifest" where
  "Load_preset h exampleDir name = LoadManifest h (Join [exampleDir, name, ManifestFileName])"

fun list_entries :: "preset_host \<Rightarrow> string \<Rightarrow> (string \<times> bool) list \<Rightarrow> goerr + preset_summary list" where
  "list_entries h exampleDir [] = Inr []"
| "list_entries h exampleDir ((name, isDir) # rest) =
     (if \<not> isDir then list_entries h exampleDir rest
      else
        (let manifestPath = Join [exampleDir, name, ManifestFileName] in
         case ho_Stat h manifestPath of
           StatMissing e \<Rightarrow> list_entries h exampleDir rest
         | StatFailed e \<Rightarrow> Inl e
         | _ \<Rightarrow>
             (case LoadManifest h manifestPath of
                Inl e \<Rightarrow> Inl e
              | Inr m \<Rightarrow>
                  (case list_entries h exampleDir rest of
                     Inl e \<Rightarrow> Inl e
                   | Inr ss \<Rightarrow> Inr (\<lparr>pm_Name = mf_Name m, pm_Description = mf_Description m, pm_Path = manifestPath\<rparr> # ss)))))"

definition List_presets :: "preset_host \<Rightarrow> string \<Rightarrow> goerr + preset_summary list" where
  "List_presets h exampleDir =
     (case ho_ReadDir h exampleDir of
        Inl e \<Rightarrow> Inl e
      | Inr entries \<Rightarrow> map_sum id (sort_key pm_Name) (list_entries h exampleDir entries))"

section \<open>What a loaded manifest guarantees\<close>

text \<open>The type invariant the runner relies on, stated of the fields and not of the checks.\<close>

definition blank :: "string \<Rightarrow> bool" where "blank s \<longleftrightarrow> TrimSpace s = []"

definition step_ready :: "preset_step \<Rightarrow> bool" where
  "step_ready s \<longleftrightarrow> ps_Name s \<noteq> [] \<and> ps_Command s \<noteq> [] \<and> 0 < ps_Timeout s \<and> ps_Cwd s \<noteq> []"

definition readiness_ready :: "preset_tunnel option \<Rightarrow> readiness_check \<Rightarrow> bool" where
  "readiness_ready tun r \<longleftrightarrow>
     0 < rc_Timeout r \<and> 0 < rc_Interval r \<and> rc_ExpectedStatus r \<noteq> 0 \<and> rc_Path r \<noteq> [] \<and>
     (ToLower (TrimSpace (rc_Type r)) = ''command'' \<and> rc_Command r \<noteq> [] \<or>
      ToLower (TrimSpace (rc_Type r)) = ''http'' \<and> tun \<noteq> None)"

definition tunnel_ready :: "preset_tunnel \<Rightarrow> bool" where
  "tunnel_ready t \<longleftrightarrow> 0 < pt_Port t \<and> pt_Protocol t \<noteq> [] \<and> pt_AuthMode t \<noteq> [] \<and> pt_Visibility t \<noteq> []"

definition sandbox_ready :: "sandbox_preset \<Rightarrow> bool" where
  "sandbox_ready s \<longleftrightarrow> \<not> blank (pb_Image s) \<and> pb_CPU s \<noteq> [] \<and> 0 < pb_MemoryMB s \<and> 0 < pb_PIDs s \<and>
     0 < pb_DiskMB s \<and> \<not> blank (pb_Network s)"

definition selector_ready :: "runtime_selector \<Rightarrow> bool" where
  "selector_ready r \<longleftrightarrow> sorted (rs_Allowed r) \<and> distinct (rs_Allowed r) \<and>
     list_all (\<lambda>a. a \<noteq> [] \<and> ToLower (TrimSpace a) = a) (rs_Allowed r) \<and>
     (rs_Profile r = [] \<or> profile_IsValid (profile_of (TrimSpace (rs_Profile r))))"

definition manifest_ready :: "manifest \<Rightarrow> bool" where
  "manifest_ready m \<longleftrightarrow>
     \<not> blank (mf_Name m) \<and> sandbox_ready (mf_Sandbox m) \<and> selector_ready (mf_Runtime m) \<and>
     distinct (map (\<lambda>i. TrimSpace (in_Name i)) (mf_Inputs m)) \<and> list_all (\<lambda>i. \<not> blank (in_Name i)) (mf_Inputs m) \<and>
     list_all (\<lambda>f. \<not> blank (fa_Path f) \<and> blank (fa_Content f) \<noteq> blank (fa_Source f)) (mf_Files m) \<and>
     list_all step_ready (mf_Bootstrap m) \<and> pred_option step_ready (mf_Startup m) \<and>
     pred_option (readiness_ready (mf_Tunnel m)) (mf_Readiness m) \<and> pred_option tunnel_ready (mf_Tunnel m) \<and>
     list_all (\<lambda>a. \<not> blank (ar_RemotePath a) \<and> \<not> blank (ar_LocalPath a)) (mf_Artifacts m) \<and>
     mf_Cleanup m \<in> {CleanupOnSuccess, CleanupAlways, CleanupNever}"

lemma check_then_Inr [simp]: "check_then a b = Inr u \<longleftrightarrow> a = Inr () \<and> b = Inr u"
  by (cases a) (auto simp: check_then_def)

lemma check_unless_Inr [simp]: "check_unless bad m = Inr u \<longleftrightarrow> \<not> bad"
  by (simp add: check_unless_def complain_def)

lemma complain_Inr [simp]: "complain m \<noteq> Inr u"
  by (simp add: complain_def)

lemma check_all_Inr [simp]: "check_all f xs = Inr u \<longleftrightarrow> list_all (\<lambda>x. f x = Inr ()) xs"
  by (induction xs) auto

lemma check_allowed_Inr:
  "check_allowed seen xs = Inr u \<longleftrightarrow> distinct xs \<and> set xs \<inter> set seen = {} \<and> [] \<notin> set xs"
  by (induction seen xs rule: check_allowed.induct) auto

lemma check_inputs_Inr:
  "check_inputs seen xs = Inr u \<longleftrightarrow>
     distinct (map (\<lambda>i. TrimSpace (in_Name i)) xs) \<and> (\<lambda>i. TrimSpace (in_Name i)) ` set xs \<inter> set seen = {} \<and>
     list_all (\<lambda>i. \<not> blank (in_Name i)) xs"
  by (induction seen xs rule: check_inputs.induct) (auto simp: Let_def blank_def)

lemma check_steps_Inr: "check_steps k xs = Inr u \<longleftrightarrow> list_all (\<lambda>s. ps_Command s \<noteq> []) xs"
  by (induction k xs rule: check_steps.induct) auto

lemma normalizeStep_ready:
  "name \<noteq> [] \<Longrightarrow> step_ready (normalizeStep s name) \<longleftrightarrow> ps_Command (normalizeStep s name) \<noteq> []"
  by (simp add: step_ready_def normalizeStep_def Let_def)

lemma normalize_steps_ready:
  "list_all (\<lambda>s. ps_Command s \<noteq> []) (normalize_steps k xs) \<Longrightarrow> list_all step_ready (normalize_steps k xs)"
  by (induction k xs rule: normalize_steps.induct) (auto simp: normalizeStep_ready)

lemma normalize_sandbox_ready: "\<not> blank (pb_Image (normalize_sandbox s)) \<Longrightarrow> sandbox_ready (normalize_sandbox s)"
  by (simp add: sandbox_ready_def normalize_sandbox_def Let_def blank_def TrimSpace_def trim_left_by_def
      trim_right_by_def is_space_def)

lemma normalize_readiness_ready:
  "check_readiness tun (normalize_readiness r) = Inr u \<Longrightarrow> readiness_ready tun (normalize_readiness r)"
  by (simp add: readiness_ready_def check_readiness_def normalize_readiness_def Let_def split: if_splits option.splits)

lemma normalize_tunnel_ready: "0 < pt_Port (normalize_tunnel t) \<Longrightarrow> tunnel_ready (normalize_tunnel t)"
  by (simp add: tunnel_ready_def normalize_tunnel_def Let_def)

lemma internet_not_blank [simp]: "TrimSpace ''internet-enabled'' = ''internet-enabled''"
  by code_simp

lemma Validate_manifest_Inr:
  "Validate_manifest m = Inr u \<longleftrightarrow>
     \<not> blank (mf_Name m) \<and> \<not> blank (pb_Image (mf_Sandbox m)) \<and>
     check_allowed [] (rs_Allowed (mf_Runtime m)) = Inr () \<and>
     (rs_Profile (mf_Runtime m) = [] \<or> profile_IsValid (profile_of (TrimSpace (rs_Profile (mf_Runtime m))))) \<and>
     check_inputs [] (mf_Inputs m) = Inr () \<and> list_all (\<lambda>f. check_file f = Inr ()) (mf_Files m) \<and>
     check_steps 0 (mf_Bootstrap m) = Inr () \<and> pred_option (\<lambda>s. ps_Command s \<noteq> []) (mf_Startup m) \<and>
     pred_option (\<lambda>r. check_readiness (mf_Tunnel m) r = Inr ()) (mf_Readiness m) \<and>
     pred_option (\<lambda>t. 0 < pt_Port t) (mf_Tunnel m) \<and>
     list_all (\<lambda>a. check_artifact a = Inr ()) (mf_Artifacts m) \<and>
     mf_Cleanup m \<in> {CleanupOnSuccess, CleanupAlways, CleanupNever}"
  unfolding Validate_manifest_def blank_def
  by (cases "mf_Startup m"; cases "mf_Readiness m"; cases "mf_Tunnel m") (simp_all add: not_le)

lemma Normalize_fields [simp]:
  "mf_Sandbox (Normalize m) = normalize_sandbox (mf_Sandbox m)"
  "mf_Inputs (Normalize m) = mf_Inputs m" "mf_Files (Normalize m) = mf_Files m"
  "mf_Artifacts (Normalize m) = mf_Artifacts m" "mf_BaseDir (Normalize m) = mf_BaseDir m"
  "mf_Bootstrap (Normalize m) = normalize_steps 0 (mf_Bootstrap m)"
  "mf_Startup (Normalize m) = map_option (\<lambda>s. normalizeStep s ''startup'') (mf_Startup m)"
  "mf_Readiness (Normalize m) = map_option normalize_readiness (mf_Readiness m)"
  "mf_Tunnel (Normalize m) = map_option normalize_tunnel (mf_Tunnel m)"
  "rs_Profile (mf_Runtime (Normalize m)) = rs_Profile (mf_Runtime m)"
  "rs_Allowed (mf_Runtime (Normalize m)) = sort (map (\<lambda>a. ToLower (TrimSpace a)) (rs_Allowed (mf_Runtime m)))"
  by (simp_all add: Normalize_def)

lemma normalized_valid_ready:
  assumes "Validate_manifest (Normalize m) = Inr u"
  shows "manifest_ready (Normalize m)"
  unfolding manifest_ready_def
proof (intro conjI)
  let ?n = "Normalize m"
  from assms have v: "\<not> blank (mf_Name ?n)" "\<not> blank (pb_Image (normalize_sandbox (mf_Sandbox m)))"
    "check_allowed [] (sort (map (\<lambda>a. ToLower (TrimSpace a)) (rs_Allowed (mf_Runtime m)))) = Inr ()"
    "rs_Profile (mf_Runtime m) = [] \<or> profile_IsValid (profile_of (TrimSpace (rs_Profile (mf_Runtime m))))"
    "check_inputs [] (mf_Inputs m) = Inr ()" "list_all (\<lambda>f. check_file f = Inr ()) (mf_Files m)"
    "check_steps 0 (normalize_steps 0 (mf_Bootstrap m)) = Inr ()"
    "pred_option (\<lambda>s. ps_Command s \<noteq> []) (mf_Startup ?n)"
    "pred_option (\<lambda>r. check_readiness (mf_Tunnel ?n) r = Inr ()) (mf_Readiness ?n)"
    "pred_option (\<lambda>t. 0 < pt_Port t) (mf_Tunnel ?n)"
    "list_all (\<lambda>a. check_artifact a = Inr ()) (mf_Artifacts m)"
    "mf_Cleanup ?n \<in> {CleanupOnSuccess, CleanupAlways, CleanupNever}"
    by (simp_all only: Validate_manifest_Inr Normalize_fields simp_thms)
  show "\<not> blank (mf_Name ?n)" by (fact v(1))
  show "sandbox_ready (mf_Sandbox ?n)" using normalize_sandbox_ready [OF v(2)] by simp
  show "selector_ready (mf_Runtime ?n)" using v(3,4) unfolding selector_ready_def
    by (auto simp: check_allowed_Inr list_all_iff TrimSpace_ToLower image_iff)
  show "distinct (map (\<lambda>i. TrimSpace (in_Name i)) (mf_Inputs ?n))" using v(5) by (simp add: check_inputs_Inr)
  show "list_all (\<lambda>i. \<not> blank (in_Name i)) (mf_Inputs ?n)" using v(5) by (simp add: check_inputs_Inr)
  show "list_all (\<lambda>f. \<not> blank (fa_Path f) \<and> blank (fa_Content f) \<noteq> blank (fa_Source f)) (mf_Files ?n)"
    using v(6) by (auto simp: list_all_iff check_file_def blank_def Let_def split: if_splits)
  show "list_all step_ready (mf_Bootstrap ?n)"
    using v(7) normalize_steps_ready by (simp add: check_steps_Inr)
  show "pred_option step_ready (mf_Startup ?n)"
    using v(8) by (cases "mf_Startup m") (simp_all add: normalizeStep_ready)
  show "pred_option (readiness_ready (mf_Tunnel ?n)) (mf_Readiness ?n)"
    using v(9) by (cases "mf_Readiness m") (auto intro: normalize_readiness_ready)
  show "pred_option tunnel_ready (mf_Tunnel ?n)"
    using v(10) by (cases "mf_Tunnel m") (auto intro: normalize_tunnel_ready)
  show "list_all (\<lambda>a. \<not> blank (ar_RemotePath a) \<and> \<not> blank (ar_LocalPath a)) (mf_Artifacts ?n)"
    using v(11) by (auto simp: list_all_iff check_artifact_def blank_def)
  show "mf_Cleanup ?n \<in> {CleanupOnSuccess, CleanupAlways, CleanupNever}" by (fact v(12))
qed

lemma normalizeStep_idem: "normalizeStep (normalizeStep s a) b = (if a = [] then normalizeStep s b else normalizeStep s a)"
  by (simp add: normalizeStep_def Let_def)

lemma normalize_steps_idem: "normalize_steps k (normalize_steps k xs) = normalize_steps k xs"
  by (induction k xs rule: normalize_steps.induct) (simp_all add: normalizeStep_idem)

lemma normalize_parts_idem [simp]:
  "normalize_sandbox (normalize_sandbox s) = normalize_sandbox s"
  "normalize_readiness (normalize_readiness r) = normalize_readiness r"
  "normalize_tunnel (normalize_tunnel t) = normalize_tunnel t"
  by (simp_all add: normalize_sandbox_def normalize_readiness_def normalize_tunnel_def Let_def)

lemma sort_normalized:
  "sort (map (\<lambda>a. ToLower (TrimSpace a)) (sort (map (\<lambda>a. ToLower (TrimSpace a)) xs))) =
   sort (map (\<lambda>a. ToLower (TrimSpace a)) xs)"
proof -
  let ?ys = "sort (map (\<lambda>a. ToLower (TrimSpace a)) xs)"
  have "map (\<lambda>a. ToLower (TrimSpace a)) ?ys = map (\<lambda>a. a) ?ys"
    by (rule map_cong) (auto simp: TrimSpace_ToLower)
  then show ?thesis by (simp add: sorted_sort_id)
qed

lemma Normalize_idem: "\<not> blank (mf_Name (Normalize m)) \<Longrightarrow> Normalize (Normalize m) = Normalize m"
proof -
  assume n: "\<not> blank (mf_Name (Normalize m))"
  have c: "mf_Cleanup (Normalize m) \<noteq> []" by (simp add: Normalize_def CleanupOnSuccess_def)
  have "Normalize (Normalize m) = (Normalize m)\<lparr>mf_Runtime := (mf_Runtime (Normalize m))
      \<lparr>rs_Allowed := rs_Allowed (mf_Runtime (Normalize m))\<rparr>\<rparr>"
    unfolding Normalize_def [of "Normalize m"] using n c
    by (simp add: blank_def normalize_steps_idem sort_normalized option.map_comp comp_def normalizeStep_idem)
  then show ?thesis by simp
qed

lemma LoadManifest_Inr:
  assumes "LoadManifest h path = Inr m"
  obtains decoded where "m = Normalize (decoded\<lparr>mf_BaseDir := Dir path\<rparr>)" and "Validate_manifest m = Inr ()"
  using assms by (auto simp: LoadManifest_def Let_def split: sum.splits)

lemma length_TrimSpace:
  assumes "length (TrimSpace s) = length s"
  shows "TrimSpace s = s"
proof -
  obtain a b where s: "s = a @ TrimSpace s @ b"
    by (metis TrimSpace_def trim_left_by_def trim_right_decomp append_assoc takeWhile_dropWhile_id)
  then have "length s = length a + (length (TrimSpace s) + length b)" by (metis length_append)
  with assms have "a = []" "b = []" by simp_all
  with s show ?thesis by simp
qed

text \<open>A kind that the validation knows is known to the runner exactly when nothing surrounds it.\<close>

lemma known_kind:
  assumes "ToLower (TrimSpace kind) \<in> {''command'', ''http''}"
  shows "ToLower kind \<in> {''command'', ''http''} \<longleftrightarrow> TrimSpace kind = kind"
proof
  assume "ToLower kind \<in> {''command'', ''http''}"
  moreover have "TrimSpace ''command'' = ''command''" "TrimSpace ''http'' = ''http''" by code_simp+
  ultimately have "ToLower (TrimSpace kind) = ToLower kind" by (metis TrimSpace_ToLower insertE singletonD)
  then have "length (TrimSpace kind) = length kind" by (metis length_map ToLower_def)
  then show "TrimSpace kind = kind" by (rule length_TrimSpace)
qed (use assms in simp)

text \<open>
  C30: what a manifest that loads is. Whatever the file says, a successful load gives a
  manifest whose image, name and resource limits are set and positive, whose steps all have a command, a
  directory and a positive timeout, whose readiness check has the kind \<open>command\<close> or \<open>http\<close>, up to case and
  surrounding blanks, with what that kind needs, a positive timeout and a positive interval, whose allowed
  runtimes are sorted, distinct and in lower case, and whose cleanup policy is one of the three; it belongs to the
  directory of its file, and normalising it again changes nothing. The runner itself ignores case and not blanks: a kind
  without surrounding blanks is one that it knows, while one with blanks loads and is never recognised.
\<close>

theorem loaded_manifest_ready:
  assumes "LoadManifest h path = Inr m"
  shows "manifest_ready m \<and> Normalize m = m \<and> mf_BaseDir m = Dir path \<and>
    pred_option (\<lambda>rc. ToLower (rc_Type rc) \<in> {''command'', ''http''} \<longleftrightarrow> TrimSpace (rc_Type rc) = rc_Type rc) (mf_Readiness m)"
proof -
  from assms obtain d where m: "m = Normalize (d\<lparr>mf_BaseDir := Dir path\<rparr>)" and v: "Validate_manifest m = Inr ()"
    by (rule LoadManifest_Inr)
  from v have r: "manifest_ready m" unfolding m by (rule normalized_valid_ready)
  then have "Normalize m = m" using Normalize_idem unfolding m manifest_ready_def by blast
  moreover have "pred_option (\<lambda>rc. ToLower (rc_Type rc) \<in> {''command'', ''http''} \<longleftrightarrow> TrimSpace (rc_Type rc) = rc_Type rc) (mf_Readiness m)"
  proof (cases "mf_Readiness m")
    case (Some rc)
    with r have "ToLower (TrimSpace (rc_Type rc)) \<in> {''command'', ''http''}" by (auto simp: manifest_ready_def readiness_ready_def)
    from known_kind [OF this] Some show ?thesis by simp
  qed simp
  ultimately show ?thesis using r by (simp add: m)
qed

definition bare_manifest :: manifest where
  "bare_manifest =
     \<lparr>mf_Name = [], mf_Description = [], mf_Runtime = \<lparr>rs_Allowed = ['' QEMU'', ''docker''], rs_Profile = []\<rparr>,
      mf_Sandbox = \<lparr>pb_Image = ''alpine'', pb_CPU = [], pb_MemoryMB = 0, pb_PIDs = 0, pb_DiskMB = 0, pb_Network = [],
        pb_Tunnels = False, pb_Start = None\<rparr>,
      mf_Inputs = [], mf_Files = [], mf_Bootstrap = [], mf_Startup = None,
      mf_Readiness = Some \<lparr>rc_Type = ''Command'', rc_Command = [''true''], rc_Path = [], rc_Port = 0, rc_ExpectedStatus = 0,
        rc_Timeout = 0, rc_Interval = 0\<rparr>,
      mf_Tunnel = None, mf_Artifacts = [], mf_Cleanup = [], mf_BaseDir = []\<rparr>"

definition preset_files :: preset_host where
  "preset_files =
     \<lparr>ho_LookupEnv = (\<lambda>_. None), ho_Getwd = Inr ''/repo'', ho_Abs = (\<lambda>p. Inr (Clean p)), ho_Stat = (\<lambda>_. StatDir),
      ho_ReadDir = (\<lambda>_. Inr [(''demo'', True)]), ho_ReadFile = (\<lambda>p. Inr []), yaml_Unmarshal = (\<lambda>_. Inr bare_manifest)\<rparr>"

lemma preset_files_load: "isl (Load_preset preset_files ''/repo/examples'' ''demo'') = False"
  by code_simp

theorem loaded_manifest_ready_witness:
  "\<exists>m. LoadManifest preset_files ''/repo/examples/demo/preset.yaml'' = Inr m \<and> manifest_ready m"
proof -
  have "isl (LoadManifest preset_files ''/repo/examples/demo/preset.yaml'') = False" by code_simp
  then obtain m where m: "LoadManifest preset_files ''/repo/examples/demo/preset.yaml'' = Inr m" by (auto simp: isl_def split: sum.split_asm) (metis sum.exhaust)
  with loaded_manifest_ready [OF m] show ?thesis by blast
qed

end
