(* ===== verification/GoFlag.thy ===== *)
theory GoFlag
  imports Images GoFloat
begin

text \<open>
  The parts of the packages \<open>flag\<close>, \<open>strconv\<close> and \<open>time\<close> that the commands read their arguments with:
  integers in any base, durations, and the scan of the argument list that separates flags from the rest.
\<close>

section \<open>Integers in any base\<close>

definition digit_in :: "nat \<Rightarrow> char \<Rightarrow> nat option" where
  "digit_in base c =
     (case map_of (zip ''0123456789abcdefghijklmnopqrstuvwxyz'' [0 ..< 36]) (lower_char c) of
        None \<Rightarrow> None | Some d \<Rightarrow> if d < base then Some d else None)"

fun digits_in :: "nat \<Rightarrow> nat \<Rightarrow> string \<Rightarrow> nat option" where
  "digits_in base acc [] = Some acc"
| "digits_in base acc (c # cs) =
     (if c = CHR ''_'' then digits_in base acc cs
      else (case digit_in base c of None \<Rightarrow> None | Some d \<Rightarrow> digits_in base (base * acc + d) cs))"

text \<open>The base a literal announces, and its digits.\<close>

definition base_of_literal :: "string \<Rightarrow> nat \<times> string" where
  "base_of_literal s =
     (if \<not> HasPrefix s ''0'' then (10, s)
      else if 3 \<le> length s \<and> lower_char (s ! 1) = CHR ''b'' then (2, drop 2 s)
      else if 3 \<le> length s \<and> lower_char (s ! 1) = CHR ''o'' then (8, drop 2 s)
      else if 3 \<le> length s \<and> lower_char (s ! 1) = CHR ''x'' then (16, drop 2 s)
      else (8, drop 1 s))"

text \<open>Underscores separate digits, or a base prefix from a digit.\<close>

fun underscores_from :: "bool \<Rightarrow> char \<Rightarrow> string \<Rightarrow> bool" where
  "underscores_from hex seen [] \<longleftrightarrow> seen \<noteq> CHR ''_''"
| "underscores_from hex seen (c # cs) \<longleftrightarrow>
     (if c \<in> set ''0123456789'' \<or> hex \<and> lower_char c \<in> set ''abcdef'' then underscores_from hex (CHR ''0'') cs
      else if c = CHR ''_'' then seen = CHR ''0'' \<and> underscores_from hex (CHR ''_'') cs
      else seen \<noteq> CHR ''_'' \<and> underscores_from hex (CHR ''!'') cs)"

definition underscoreOK :: "string \<Rightarrow> bool" where
  "underscoreOK s =
     (if 2 \<le> length s \<and> hd s = CHR ''0'' \<and> lower_char (s ! 1) \<in> set ''box''
      then underscores_from (lower_char (s ! 1) = CHR ''x'') (CHR ''0'') (drop 2 s)
      else underscores_from False (CHR ''^'') s)"

definition parse_literal :: "string \<Rightarrow> nat option" where
  "parse_literal s =
     (if s = [] then None
      else (case base_of_literal s of (base, digits) \<Rightarrow>
              if CHR ''_'' \<in> set s \<and> \<not> underscoreOK s then None else digits_in base 0 digits))"

text \<open>\<open>strconv.ParseInt(s, 0, 64)\<close>.\<close>

definition ParseInt0 :: "string \<Rightarrow> int option" where
  "ParseInt0 s =
     (case s of
        [] \<Rightarrow> None
      | c # cs \<Rightarrow>
          (if c = CHR ''-'' then Option.bind (parse_literal cs) (\<lambda>n. check_int64 (- int n))
           else if c = CHR ''+'' then Option.bind (parse_literal cs) (\<lambda>n. check_int64 (int n))
           else Option.bind (parse_literal s) (\<lambda>n. check_int64 (int n))))"

section \<open>Durations\<close>

definition is_digit :: "char \<Rightarrow> bool" where "is_digit c \<longleftrightarrow> c \<in> set ''0123456789''"

definition duration_units :: "(string \<times> int) list" where
  "duration_units = [(''ns'', 1), (''us'', 1000), ([CHR 0xC2, CHR 0xB5, CHR ''s''], 1000),
     ([CHR 0xCE, CHR 0xBC, CHR ''s''], 1000), (''ms'', 1000000), (''s'', 1000000000),
     (''m'', 60000000000), (''h'', 3600000000000)]"

text \<open>
  A fraction keeps the digits that fit 63 bits and the power of ten they are divided by; further digits are
  read and dropped.
\<close>

fun leadingFraction :: "int \<Rightarrow> int \<Rightarrow> bool \<Rightarrow> string \<Rightarrow> int \<times> int" where
  "leadingFraction f scale overflow [] = (f, scale)"
| "leadingFraction f scale overflow (c # cs) =
     (let y = 10 * f + int (the (digit_val c)) in
      if overflow \<or> (2 ^ 63 - 1) div 10 < f \<or> 2 ^ 63 < y then leadingFraction f scale True cs
      else leadingFraction y (10 * scale) False cs)"

definition duration_part :: "int \<Rightarrow> int \<times> int \<Rightarrow> int \<Rightarrow> int option" where
  "duration_part v fraction unit =
     (if 2 ^ 63 div unit < v then None
      else
        (let whole = v * unit;
             extra = (if fst fraction = 0 then 0
                      else \<lfloor>float64 (float64 (of_int (fst fraction)) * float_div (of_int unit) (of_int (snd fraction)))\<rfloor>) in
         if 2 ^ 63 < whole + extra then None else Some (whole + extra)))"

lemma length_dropWhile_less: "takeWhile p s \<noteq> [] \<Longrightarrow> length (dropWhile p s) < length s"
  by (cases s) (auto simp: length_dropWhile_le less_Suc_eq_le split: if_splits)

function duration_parts :: "int \<Rightarrow> string \<Rightarrow> int option" where
  "duration_parts d s =
     (if s = [] then Some d
      else
        (let intDigits = takeWhile is_digit s; s1 = dropWhile is_digit s;
             fracDigits = (if HasPrefix s1 ''.'' then takeWhile is_digit (drop 1 s1) else []);
             s2 = (if HasPrefix s1 ''.'' then dropWhile is_digit (drop 1 s1) else s1);
             u = takeWhile (\<lambda>c. c \<noteq> CHR ''.'' \<and> \<not> is_digit c) s2;
             rest = dropWhile (\<lambda>c. c \<noteq> CHR ''.'' \<and> \<not> is_digit c) s2 in
         if intDigits = [] \<and> fracDigits = [] then None
         else if u = [] then None
         else
           (case (parse_digits 0 intDigits, map_of duration_units u) of
              (Some v, Some unit) \<Rightarrow>
                if 2 ^ 63 < int v then None
                else
                  (case duration_part (int v) (leadingFraction 0 1 False fracDigits) unit of
                     None \<Rightarrow> None
                   | Some p \<Rightarrow> if 2 ^ 63 < d + p then None else duration_parts (d + p) rest)
            | _ \<Rightarrow> None)))"
  by pat_completeness simp

termination
proof (relation "measure (\<lambda>(d, s). length s)")
  fix d s i s1 f s2 u rest and dv v unit p
  assume s1: "s1 = dropWhile is_digit s" and s2: "s2 = (if HasPrefix s1 ''.'' then dropWhile is_digit (drop 1 s1) else s1)"
    and u: "u = takeWhile (\<lambda>c. c \<noteq> CHR ''.'' \<and> \<not> is_digit c) s2" and "u \<noteq> []"
    and rest: "rest = dropWhile (\<lambda>c. c \<noteq> CHR ''.'' \<and> \<not> is_digit c) s2"
  then have "length rest < length s2" using length_dropWhile_less by metis
  moreover have "length s2 \<le> length s1" unfolding s2
    using length_dropWhile_le [of is_digit "drop 1 s1"] by auto
  moreover have "length s1 \<le> length s" unfolding s1 by (rule length_dropWhile_le)
  ultimately show "((d + p, rest), d, s) \<in> measure (\<lambda>(d, s). length s)" by simp
qed simp

declare duration_parts.simps [simp del]

definition ParseDuration :: "string \<Rightarrow> int option" where
  "ParseDuration orig =
     (let neg = HasPrefix orig ''-''; s = (if neg \<or> HasPrefix orig ''+'' then drop 1 orig else orig) in
      if s = ''0'' then Some 0
      else if s = [] then None
      else
        (case duration_parts 0 s of
           None \<Rightarrow> None
         | Some d \<Rightarrow> if neg then Some (- d) else if 2 ^ 63 - 1 < d then None else Some d))"

section \<open>Flag sets\<close>

datatype flag_kind = FlagBool | FlagText | FlagInt | FlagDuration

type_synonym flag_settings = "(string \<times> string) list"

definition flag_ok :: "flag_kind \<Rightarrow> string \<Rightarrow> bool" where
  "flag_ok kind v =
     (case kind of
        FlagBool \<Rightarrow> ParseBool v \<noteq> None
      | FlagText \<Rightarrow> True
      | FlagInt \<Rightarrow> ParseInt0 v \<noteq> None
      | FlagDuration \<Rightarrow> ParseDuration v \<noteq> None)"

text \<open>\<open>FlagSet.Parse\<close>: the values set, in order, and the arguments that are left.\<close>

definition flag_error :: "string \<Rightarrow> goerr + 'a" where "flag_error m = Inl (Err m)"

definition keep_flag :: "string \<Rightarrow> string \<Rightarrow> goerr + flag_settings \<times> string list \<Rightarrow> goerr + flag_settings \<times> string list" where
  "keep_flag name v r = map_sum id (map_prod ((#) (name, v)) id) r"

fun parse_args :: "(string \<times> flag_kind) list \<Rightarrow> string list \<Rightarrow> goerr + flag_settings \<times> string list" where
  "parse_args formal [] = Inr ([], [])"
| "parse_args formal (s # args) =
     (if length s < 2 \<or> \<not> HasPrefix s ''-'' then Inr ([], s # args)
      else if s = ''--'' then Inr ([], args)
      else
        (let name0 = (if HasPrefix s ''--'' then drop 2 s else drop 1 s) in
         if name0 = [] \<or> HasPrefix name0 ''-'' \<or> HasPrefix name0 ''='' then flag_error (''bad flag syntax: '' @ s)
         else
           (let (name, given) = split_first (CHR ''='') name0 in
            case map_of formal name of
              None \<Rightarrow>
                (if name = ''help'' \<or> name = ''h'' then flag_error ''flag: help requested''
                 else flag_error (''flag provided but not defined: -'' @ name))
            | Some FlagBool \<Rightarrow>
                (let v = (case given of None \<Rightarrow> ''true'' | Some x \<Rightarrow> x) in
                 if flag_ok FlagBool v then keep_flag name v (parse_args formal args)
                 else flag_error (''invalid boolean value '' @ quote v @ '' for -'' @ name))
            | Some kind \<Rightarrow>
                (case (given, args) of
                   (None, []) \<Rightarrow> flag_error (''flag needs an argument: -'' @ name)
                 | (Some v, _) \<Rightarrow>
                     (if flag_ok kind v then keep_flag name v (parse_args formal args)
                      else flag_error (''invalid value '' @ quote v @ '' for flag -'' @ name))
                 | (None, v # rest) \<Rightarrow>
                     (if flag_ok kind v then keep_flag name v (parse_args formal rest)
                      else flag_error (''invalid value '' @ quote v @ '' for flag -'' @ name))))))"

definition flag_list :: "flag_settings \<Rightarrow> string \<Rightarrow> string list" where
  "flag_list vs name = map snd (filter (\<lambda>kv. fst kv = name) vs)"

definition flag_text :: "flag_settings \<Rightarrow> string \<Rightarrow> string \<Rightarrow> string" where
  "flag_text vs name fallback = (if flag_list vs name = [] then fallback else last (flag_list vs name))"

definition flag_bool :: "flag_settings \<Rightarrow> string \<Rightarrow> bool \<Rightarrow> bool" where
  "flag_bool vs name fallback =
     (if flag_list vs name = [] then fallback else ParseBool (last (flag_list vs name)) = Some True)"

definition flag_int :: "flag_settings \<Rightarrow> string \<Rightarrow> int \<Rightarrow> int" where
  "flag_int vs name fallback =
     (if flag_list vs name = [] then fallback
      else (case ParseInt0 (last (flag_list vs name)) of None \<Rightarrow> 0 | Some n \<Rightarrow> n))"

definition flag_duration :: "flag_settings \<Rightarrow> string \<Rightarrow> int \<Rightarrow> int" where
  "flag_duration vs name fallback =
     (if flag_list vs name = [] then fallback
      else (case ParseDuration (last (flag_list vs name)) of None \<Rightarrow> 0 | Some n \<Rightarrow> n))"

end
