(* ===== verification/Sandboxctl.thy ===== *)
theory Sandboxctl
  imports Router Presets GoFlag
begin

text \<open>
  The command line client \<open>cmd/sandboxctl\<close>: the construction of request URLs, the JSON calls and the commands
  of \<open>main.go\<close>, the path check of \<open>workspace_path.go\<close>, and the part of the package \<open>flag\<close> the commands use.
  The network, its timing, the JSON codec and the parsing of the configured origin are parameters of a
  \<open>ctl_host\<close>; the state keeps the calls made, the files written and what was printed, in order.
\<close>

section \<open>Workspace paths\<close>

definition normalizeWorkspaceAPIPath :: "string \<Rightarrow> goerr + string" where
  "normalizeWorkspaceAPIPath raw =
     (let trimmed = TrimSpace raw; cleaned = Clean trimmed in
      if trimmed = [] then Inl (Err ''workspace path is required'')
      else if HasPrefix trimmed ''/'' then
        (if cleaned = ''/'' \<or> cleaned = ''/workspace'' then Inr []
         else if HasPrefix cleaned ''/workspace/'' then Inr (TrimPrefix cleaned ''/workspace/'')
         else Inl (Err ''absolute workspace paths must stay under /workspace''))
      else if cleaned = ''.'' then Inr []
      else if cleaned = ''..'' \<or> HasPrefix cleaned ''../'' then Inl (Err ''path escapes workspace'')
      else Inr (TrimPrefix cleaned ''./''))"

section \<open>Request URLs\<close>

text \<open>
  \<open>url.Parse\<close> of an endpoint without its leading slashes. Every endpoint of the client starts with
  \<open>/v1/\<close>, so the text has no scheme and no authority, and its first segment has no colon. A single
  question mark at the end is kept as an empty query. The fragment is checked, and never sent.
\<close>

record reference =
  rf_Path :: string
  rf_Query :: "string option"

definition parse_endpoint :: "string \<Rightarrow> reference option" where
  "parse_endpoint s =
     (let (u, fragment) = split_first (CHR ''#'') s;
          (rest, query) = split_first (CHR ''?'') u in
      if (\<exists>c \<in> set u. is_control c) then None
      else if (case fragment of None \<Rightarrow> False | Some f \<Rightarrow> url_unescape EncodePath f = None) then None
      else map_option (\<lambda>path. \<lparr>rf_Path = path, rf_Query = query\<rparr>) (url_unescape EncodePath rest))"

text \<open>The path and query of the request line.\<close>

definition request_target :: "reference \<Rightarrow> string" where
  "request_target ref =
     url_escape EncodePath (rf_Path ref) @ (case rf_Query ref of None \<Rightarrow> [] | Some q \<Rightarrow> ''?'' @ q)"

definition buildRequestURL :: "(string \<Rightarrow> goerr + string) \<Rightarrow> string \<Rightarrow> string \<Rightarrow> goerr + string" where
  "buildRequestURL parse_origin baseURL endpoint =
     (case parse_origin (trim_slashes baseURL @ ''/'') of
        Inl e \<Rightarrow> Inl e
      | Inr origin \<Rightarrow>
          (case parse_endpoint (trim_left_by (\<lambda>c. c = slash) endpoint) of
             None \<Rightarrow> Inl (Err (''parse '' @ quote endpoint))
           | Some ref \<Rightarrow> Inr (origin @ request_target (ref\<lparr>rf_Path := Clean (''/'' @ rf_Path ref)\<rparr>))))"

section \<open>The client and its environment\<close>

datatype ctl_json =
    JCreate create_request
  | JNothing
  | JLifecycle bool
  | JExec exec_request
  | JFileWrite file_write_request
  | JMkdir string
  | JTunnel tunnel_request
  | JSnapshot string
  | JRestore string
  | JSignedURL signed_url_request

record http_call =
  hc_Method :: string
  hc_URL :: string
  hc_Header :: "(string \<times> string) list"
  hc_Body :: "string option"

datatype ctl_line =
    OutText string
  | ErrText string
  | OutJSON payload
  | OutValue string
  | OutSummaries "preset_summary list"
  | OutManifest manifest

record 'n ctl =
  ct_net :: 'n
  ct_clock :: time
  ct_calls :: "http_call list"
  ct_files :: "fs_op list"
  ct_out :: "ctl_line list"

record json_codec =
  jc_Marshal :: "ctl_json \<Rightarrow> goerr + string"
  jc_Sandbox :: "string \<Rightarrow> goerr + sandbox"
  jc_Sandboxes :: "string \<Rightarrow> goerr + sandbox list"
  jc_Execution :: "string \<Rightarrow> goerr + execution"
  jc_File :: "string \<Rightarrow> goerr + file_read_response"
  jc_Tunnel :: "string \<Rightarrow> goerr + tunnel"
  jc_Tunnels :: "string \<Rightarrow> goerr + tunnel list"
  jc_SignedURL :: "string \<Rightarrow> goerr + signed_url"
  jc_Snapshot :: "string \<Rightarrow> goerr + snapshot"
  jc_Snapshots :: "string \<Rightarrow> goerr + snapshot list"
  jc_Info :: "string \<Rightarrow> goerr + runtime_info"
  jc_Health :: "string \<Rightarrow> goerr + runtime_health"
  jc_Any :: "string \<Rightarrow> goerr + string"

text \<open>
  \<open>ck_Do\<close> is the network: it answers a call with a status and a body or an error, after some time. A sleep
  that begins at an instant lasts longer than asked for by \<open>ck_Late\<close> of that instant.
\<close>

record 'n ctl_host =
  ck_baseURL :: string
  ck_token :: string
  ck_Do :: "http_call \<Rightarrow> 'n \<Rightarrow> (goerr + int \<times> string) \<times> nat \<times> 'n"
  ck_ParseOrigin :: "string \<Rightarrow> goerr + string"
  ck_CheckURL :: "string \<Rightarrow> goerr option"
  ck_codec :: json_codec
  ck_files :: preset_host
  ck_WriteError :: "fs_op \<Rightarrow> goerr option"
  ck_Late :: "time \<Rightarrow> nat"

type_synonym ('n, 'a) ctl_op = "(goerr, 'n ctl, 'a) eop"

definition send :: "'n ctl_host \<Rightarrow> http_call \<Rightarrow> ('n, int \<times> string) ctl_op" where
  "send h c = (\<lambda>w.
     case ck_Do h c (ct_net w) of
       (r, elapsed, n) \<Rightarrow>
         (r, w\<lparr>ct_net := n, ct_clock := ct_clock w + int elapsed, ct_calls := ct_calls w @ [c]\<rparr>))"

definition print_line :: "ctl_line \<Rightarrow> ('n, unit) ctl_op" where
  "print_line l = (\<lambda>w. (Inr (), w\<lparr>ct_out := ct_out w @ [l]\<rparr>))"

definition write_op :: "'n ctl_host \<Rightarrow> fs_op \<Rightarrow> ('n, unit) ctl_op" where
  "write_op h oper = (\<lambda>w.
     case ck_WriteError h oper of
       Some e \<Rightarrow> (Inl e, w)
     | None \<Rightarrow> (Inr (), w\<lparr>ct_files := ct_files w @ [oper]\<rparr>))"

text \<open>
  \<open>doJSON\<close> with a value to decode into: an answer without content leaves the zero value there.
  \<open>doCall\<close> is \<open>doJSON\<close> with nothing to decode.
\<close>

definition exchange :: "'n ctl_host \<Rightarrow> string \<Rightarrow> string \<Rightarrow> ctl_json option \<Rightarrow> ('n, int \<times> string) ctl_op" where
  "exchange h method endpoint body =
     bindE (liftE (case body of None \<Rightarrow> Inr None | Some b \<Rightarrow> map_sum id Some (jc_Marshal (ck_codec h) b))) (\<lambda>data.
     bindE (liftE (buildRequestURL (ck_ParseOrigin h) (ck_baseURL h) endpoint)) (\<lambda>requestURL.
     bindE (send h \<lparr>hc_Method = method, hc_URL = requestURL,
              hc_Header = (''Authorization'', ''Bearer '' @ ck_token h) #
                (if body = None then [] else [(''Content-Type'', ''application/json'')]),
              hc_Body = data\<rparr>) (\<lambda>(status, text).
     if 300 \<le> status then failE (Err (TrimSpace text)) else okE (status, text))))"

definition doJSON ::
  "'n ctl_host \<Rightarrow> string \<Rightarrow> string \<Rightarrow> ctl_json option \<Rightarrow> (string \<Rightarrow> goerr + 'a) \<Rightarrow> 'a \<Rightarrow> ('n, 'a) ctl_op" where
  "doJSON h method endpoint body decode zero =
     bindE (exchange h method endpoint body) (\<lambda>(status, text).
       if status = 204 then okE zero else liftE (decode text))"

definition doCall :: "'n ctl_host \<Rightarrow> string \<Rightarrow> string \<Rightarrow> ctl_json option \<Rightarrow> ('n, unit) ctl_op" where
  "doCall h method endpoint body = bindE (exchange h method endpoint body) (\<lambda>_. okE ())"

definition printJSON :: "payload \<Rightarrow> ('n, unit) ctl_op" where
  "printJSON p = print_line (OutJSON p)"

definition env :: "preset_host \<Rightarrow> string \<Rightarrow> string \<Rightarrow> string" where
  "env h key fallback = (if Getenv h key \<noteq> [] then Getenv h key else fallback)"

section \<open>Zero values\<close>

definition zero_execution :: execution where
  "zero_execution = \<lparr>ex_ID = [], ex_SandboxID = [], ex_TenantID = [], ex_Command = [], ex_Cwd = [], ex_TimeoutSeconds = 0,
     ex_Status = OtherExecStatus [], ex_ExitCode = None, ex_StdoutPreview = [], ex_StderrPreview = [],
     ex_StdoutTruncated = False, ex_StderrTruncated = False, ex_StartedAt = zero_time, ex_CompletedAt = None,
     ex_DurationMS = None\<rparr>"

definition zero_file :: file_read_response where
  "zero_file = \<lparr>fr_Path = [], fr_Content = [], fr_ContentBase64 = [], fr_Size = 0, fr_Encoding = []\<rparr>"

definition zero_tunnel :: tunnel where
  "zero_tunnel = \<lparr>tun_ID = [], tun_SandboxID = [], tun_TenantID = [], tun_TargetPort = 0, tun_Protocol = OtherProtocol [],
     tun_AuthMode = [], tun_Visibility = [], tun_Endpoint = [], tun_AccessToken = [], tun_Access = no_access,
     tun_AuthSecretHash = [], tun_CreatedAt = zero_time, tun_RevokedAt = None\<rparr>"

definition zero_snapshot :: snapshot where
  "zero_snapshot = \<lparr>sn_ID = [], sn_SandboxID = [], sn_TenantID = [], sn_Name = [], sn_Status = OtherSnapshotStatus [],
     sn_ImageRef = [], sn_RuntimeSelection = no_selection, sn_RuntimeBackend = [], sn_Profile = no_profile,
     sn_ImageContractVersion = [], sn_ControlProtocolVersion = [], sn_WorkspaceContractVersion = [],
     sn_WorkspaceTar = [], sn_BundleSHA256 = [], sn_ExportLocation = [], sn_CreatedAt = zero_time, sn_CompletedAt = None\<rparr>"

definition zero_signed :: signed_url where
  "zero_signed = \<lparr>sd_URL = [], sd_ExpiresAt = zero_time, sd_CapabilityID = []\<rparr>"

definition zero_info :: runtime_info where
  "zero_info = \<lparr>ri_Backend = [], ri_Class = [], ri_DefaultRuntimeSelection = no_selection,
     ri_EnabledRuntimeSelections = [], ri_GuestImage = None, ri_GuestImageError = []\<rparr>"

definition zero_health :: runtime_health where
  "zero_health = \<lparr>he_DefaultRuntimeSelection = no_selection, he_EnabledRuntimeSelections = [], he_Backend = [],
     he_Healthy = False, he_CheckedAt = zero_time, he_RuntimeSelectionCounts = [], he_StatusCounts = [],
     he_AgentSessions = None, he_Sandboxes = []\<rparr>"

section \<open>Commands\<close>

definition network_mode_of :: "string \<Rightarrow> network_mode" where
  "network_mode_of s =
     (if s = ''internet-enabled'' then InternetEnabled else if s = ''internet-disabled'' then InternetDisabled
      else OtherNetworkMode s)"

definition tunnel_protocol_of :: "string \<Rightarrow> tunnel_protocol" where
  "tunnel_protocol_of s =
     (if s = ''http'' then TunnelHTTP else if s = ''tcp'' then TunnelTCP else OtherProtocol s)"

definition sandbox_url :: "string \<Rightarrow> string \<Rightarrow> string" where
  "sandbox_url sandboxID rest = ''/v1/sandboxes/'' @ sandboxID @ rest"

definition usage_error :: "string \<Rightarrow> ('n, 'a) ctl_op" where
  "usage_error m = failE (Err (''usage: sandboxctl '' @ m))"

definition one_arg :: "string list \<Rightarrow> string \<Rightarrow> (string \<Rightarrow> ('n, unit) ctl_op) \<Rightarrow> ('n, unit) ctl_op" where
  "one_arg args message k = (case args of [a] \<Rightarrow> k a | _ \<Rightarrow> usage_error message)"

definition with_flags ::
  "(string \<times> flag_kind) list \<Rightarrow> string list \<Rightarrow> (flag_settings \<Rightarrow> string list \<Rightarrow> ('n, unit) ctl_op) \<Rightarrow> ('n, unit) ctl_op" where
  "with_flags formal args k = bindE (liftE (parse_args formal args)) (\<lambda>(vs, rest). k vs rest)"

definition runCreate :: "'n ctl_host \<Rightarrow> string list \<Rightarrow> ('n, unit) ctl_op" where
  "runCreate h args =
     with_flags [(''image'', FlagText), (''profile'', FlagText), (''runtime'', FlagText), (''features'', FlagText),
         (''cpu'', FlagText), (''memory-mb'', FlagInt), (''pids'', FlagInt), (''disk-mb'', FlagInt),
         (''network'', FlagText), (''allow-tunnels'', FlagBool), (''start'', FlagBool)] args (\<lambda>vs rest.
     bindE (liftE (ParseCPUQuantity (flag_text vs ''cpu'' ''2''))) (\<lambda>cpuLimit.
     bindE (doJSON h ''POST'' ''/v1/sandboxes'' (Some (JCreate
        \<lparr>cr_RuntimeSelection = ParseRuntimeSelection (flag_text vs ''runtime'' []),
         cr_BaseImageRef = flag_text vs ''image'' [],
         cr_Profile = profile_of (ToLower (TrimSpace (flag_text vs ''profile'' []))),
         cr_Features = NormalizeFeatures (split_on (CHR '','') (flag_text vs ''features'' [])),
         cr_Capabilities = [], cr_DangerousProfileReason = [],
         cr_CPULimit = cpuLimit, cr_MemoryLimitMB = flag_int vs ''memory-mb'' 2048,
         cr_PIDsLimit = flag_int vs ''pids'' 512, cr_DiskLimitMB = flag_int vs ''disk-mb'' 10240,
         cr_NetworkMode = network_mode_of (flag_text vs ''network'' ''internet-enabled''),
         cr_AllowTunnels = Some (flag_bool vs ''allow-tunnels'' True), cr_Start = flag_bool vs ''start'' True\<rparr>))
        (jc_Sandbox (ck_codec h)) zero_sandbox) (\<lambda>sandbox.
     printJSON (PSandbox sandbox))))"

definition runList :: "'n ctl_host \<Rightarrow> ('n, unit) ctl_op" where
  "runList h =
     bindE (doJSON h ''GET'' ''/v1/sandboxes'' None (jc_Sandboxes (ck_codec h)) []) (\<lambda>sandboxes.
     printJSON (PSandboxes sandboxes))"

definition runInspect :: "'n ctl_host \<Rightarrow> string list \<Rightarrow> ('n, unit) ctl_op" where
  "runInspect h args =
     one_arg args ''inspect <sandbox-id>'' (\<lambda>i.
     bindE (doJSON h ''GET'' (sandbox_url i []) None (jc_Sandbox (ck_codec h)) zero_sandbox) (\<lambda>sandbox.
     printJSON (PSandbox sandbox)))"

definition runRuntimeHealth :: "'n ctl_host \<Rightarrow> ('n, unit) ctl_op" where
  "runRuntimeHealth h =
     bindE (doJSON h ''GET'' ''/v1/runtime/health'' None (jc_Health (ck_codec h)) zero_health) (\<lambda>health.
     printJSON (PHealth health))"

definition runLifecycle :: "'n ctl_host \<Rightarrow> string \<Rightarrow> string list \<Rightarrow> ('n, unit) ctl_op" where
  "runLifecycle h oper args =
     one_arg args (oper @ '' <sandbox-id>'') (\<lambda>i.
     bindE (doJSON h ''POST'' (sandbox_url i (''/'' @ oper)) (Some JNothing) (jc_Sandbox (ck_codec h)) zero_sandbox) (\<lambda>sandbox.
     printJSON (PSandbox sandbox)))"

definition runStop :: "'n ctl_host \<Rightarrow> string list \<Rightarrow> ('n, unit) ctl_op" where
  "runStop h args =
     with_flags [(''force'', FlagBool)] args (\<lambda>vs rest.
     one_arg rest ''stop [--force] <sandbox-id>'' (\<lambda>i.
     bindE (doJSON h ''POST'' (sandbox_url i ''/stop'') (Some (JLifecycle (flag_bool vs ''force'' False)))
              (jc_Sandbox (ck_codec h)) zero_sandbox) (\<lambda>sandbox.
     printJSON (PSandbox sandbox))))"

definition runDelete :: "'n ctl_host \<Rightarrow> string list \<Rightarrow> ('n, unit) ctl_op" where
  "runDelete h args = one_arg args ''delete <sandbox-id>'' (\<lambda>i. doCall h ''DELETE'' (sandbox_url i []) None)"

definition client_streamExec :: "'n ctl_host \<Rightarrow> string \<Rightarrow> exec_request \<Rightarrow> ('n, unit) ctl_op" where
  "client_streamExec h sandboxID req =
     bindE (liftE (jc_Marshal (ck_codec h) (JExec req))) (\<lambda>data.
     (let target = trim_slashes (ck_baseURL h) @ sandbox_url sandboxID ''/exec?stream=1'' in
      case ck_CheckURL h target of
        Some e \<Rightarrow> failE e
      | None \<Rightarrow>
          bindE (send h \<lparr>hc_Method = ''POST'', hc_URL = target,
                   hc_Header = [(''Authorization'', ''Bearer '' @ ck_token h), (''Content-Type'', ''application/json'')],
                   hc_Body = Some data\<rparr>) (\<lambda>(status, text).
          if 300 \<le> status then failE (Err text) else print_line (OutText text))))"

definition runExec :: "'n ctl_host \<Rightarrow> string list \<Rightarrow> ('n, unit) ctl_op" where
  "runExec h args =
     with_flags [(''stream'', FlagBool), (''timeout'', FlagDuration), (''cwd'', FlagText), (''detached'', FlagBool)] args (\<lambda>vs rest.
     case rest of
       sandboxID # c # cs \<Rightarrow>
         (let detached = flag_bool vs ''detached'' False;
              req = \<lparr>xr_Command = c # cs, xr_Env = [], xr_Cwd = flag_text vs ''cwd'' ''/workspace'',
                xr_Timeout = flag_duration vs ''timeout'' 300000000000, xr_Detached = detached\<rparr> in
          if flag_bool vs ''stream'' True \<and> \<not> detached then client_streamExec h sandboxID req
          else
            bindE (doJSON h ''POST'' (sandbox_url sandboxID ''/exec'') (Some (JExec req))
                     (jc_Execution (ck_codec h)) zero_execution) (\<lambda>execution.
            printJSON (PExecution execution)))
     | _ \<Rightarrow> usage_error ''exec [flags] <sandbox-id> <command...>'')"

definition file_url :: "string \<Rightarrow> string \<Rightarrow> string" where
  "file_url sandboxID remotePath = sandbox_url sandboxID (''/files/'' @ remotePath)"

definition remote_file :: "string \<Rightarrow> string \<Rightarrow> goerr + string" where
  "remote_file raw complaint =
     (case normalizeWorkspaceAPIPath raw of
        Inl e \<Rightarrow> Inl e
      | Inr remotePath \<Rightarrow> if remotePath = [] then Inl (Err complaint) else Inr remotePath)"

definition runUpload :: "'n ctl_host \<Rightarrow> string list \<Rightarrow> ('n, unit) ctl_op" where
  "runUpload h args =
     (case args of
        [sandboxID, localPath, raw] \<Rightarrow>
          bindE (liftE (ho_ReadFile (ck_files h) localPath)) (\<lambda>data.
          bindE (liftE (remote_file raw ''remote path must reference a file inside /workspace'')) (\<lambda>remotePath.
          doCall h ''PUT'' (file_url sandboxID remotePath) (Some (JFileWrite
            \<lparr>fw_Content = [], fw_ContentBase64 = EncodeToString data, fw_Encoding = ''base64''\<rparr>))))
      | _ \<Rightarrow> usage_error ''upload <sandbox-id> <local-path> <remote-path>'')"

definition runDownload :: "'n ctl_host \<Rightarrow> string list \<Rightarrow> ('n, unit) ctl_op" where
  "runDownload h args =
     (case args of
        [sandboxID, raw, localPath] \<Rightarrow>
          bindE (liftE (remote_file raw ''remote path must reference a file inside /workspace'')) (\<lambda>remotePath.
          bindE (doJSON h ''GET'' (file_url sandboxID remotePath @ ''?encoding=base64'') None
                   (jc_File (ck_codec h)) zero_file) (\<lambda>file.
          bindE (liftE (DecodeString (fr_ContentBase64 file))) (\<lambda>data.
          write_op h (WriteFile localPath data))))
      | _ \<Rightarrow> usage_error ''download <sandbox-id> <remote-path> <local-path>'')"

definition runMkdir :: "'n ctl_host \<Rightarrow> string list \<Rightarrow> ('n, unit) ctl_op" where
  "runMkdir h args =
     (case args of
        [sandboxID, raw] \<Rightarrow>
          bindE (liftE (normalizeWorkspaceAPIPath raw)) (\<lambda>workspacePath.
          doCall h ''POST'' (sandbox_url sandboxID ''/mkdir'') (Some (JMkdir workspacePath)))
      | _ \<Rightarrow> usage_error ''mkdir <sandbox-id> <path>'')"

definition runTunnelCreate :: "'n ctl_host \<Rightarrow> string list \<Rightarrow> ('n, unit) ctl_op" where
  "runTunnelCreate h args =
     with_flags [(''port'', FlagInt), (''protocol'', FlagText), (''auth-mode'', FlagText), (''visibility'', FlagText)] args (\<lambda>vs rest.
     (let port = flag_int vs ''port'' 0 in
      if port = 0 then usage_error ''tunnel-create --port <port> <sandbox-id>''
      else one_arg rest ''tunnel-create --port <port> <sandbox-id>'' (\<lambda>i.
        bindE (doJSON h ''POST'' (sandbox_url i ''/tunnels'') (Some (JTunnel
           \<lparr>tq_TargetPort = port, tq_Protocol = tunnel_protocol_of (flag_text vs ''protocol'' ''http''),
            tq_AuthMode = flag_text vs ''auth-mode'' ''token'', tq_Visibility = flag_text vs ''visibility'' ''private''\<rparr>))
           (jc_Tunnel (ck_codec h)) zero_tunnel) (\<lambda>tunnel.
        printJSON (PTunnel tunnel)))))"

definition runTunnelList :: "'n ctl_host \<Rightarrow> string list \<Rightarrow> ('n, unit) ctl_op" where
  "runTunnelList h args =
     one_arg args ''tunnel-list <sandbox-id>'' (\<lambda>i.
     bindE (doJSON h ''GET'' (sandbox_url i ''/tunnels'') None (jc_Tunnels (ck_codec h)) []) (\<lambda>tunnels.
     printJSON (PTunnels tunnels)))"

definition runTunnelRevoke :: "'n ctl_host \<Rightarrow> string list \<Rightarrow> ('n, unit) ctl_op" where
  "runTunnelRevoke h args =
     one_arg args ''tunnel-revoke <tunnel-id>'' (\<lambda>i. doCall h ''DELETE'' (''/v1/tunnels/'' @ i) None)"

definition runQuota :: "'n ctl_host \<Rightarrow> ('n, unit) ctl_op" where
  "runQuota h =
     bindE (doJSON h ''GET'' ''/v1/quotas/me'' None (jc_Any (ck_codec h)) ''null'') (\<lambda>view. print_line (OutValue view))"

definition runSnapshotCreate :: "'n ctl_host \<Rightarrow> string list \<Rightarrow> ('n, unit) ctl_op" where
  "runSnapshotCreate h args =
     with_flags [(''name'', FlagText)] args (\<lambda>vs rest.
     one_arg rest ''snapshot-create [--name <name>] <sandbox-id>'' (\<lambda>i.
     bindE (doJSON h ''POST'' (sandbox_url i ''/snapshots'') (Some (JSnapshot (flag_text vs ''name'' [])))
              (jc_Snapshot (ck_codec h)) zero_snapshot) (\<lambda>snapshot.
     printJSON (PSnapshot snapshot))))"

definition runSnapshotList :: "'n ctl_host \<Rightarrow> string list \<Rightarrow> ('n, unit) ctl_op" where
  "runSnapshotList h args =
     one_arg args ''snapshot-list <sandbox-id>'' (\<lambda>i.
     bindE (doJSON h ''GET'' (sandbox_url i ''/snapshots'') None (jc_Snapshots (ck_codec h)) []) (\<lambda>snapshots.
     printJSON (PSnapshots snapshots)))"

definition runSnapshotInspect :: "'n ctl_host \<Rightarrow> string list \<Rightarrow> ('n, unit) ctl_op" where
  "runSnapshotInspect h args =
     one_arg args ''snapshot-inspect <snapshot-id>'' (\<lambda>i.
     bindE (doJSON h ''GET'' (''/v1/snapshots/'' @ i) None (jc_Snapshot (ck_codec h)) zero_snapshot) (\<lambda>snapshot.
     printJSON (PSnapshot snapshot)))"

definition runSnapshotRestore :: "'n ctl_host \<Rightarrow> string list \<Rightarrow> ('n, unit) ctl_op" where
  "runSnapshotRestore h args =
     (case args of
        [snapshotID, targetID] \<Rightarrow>
          bindE (doJSON h ''POST'' (''/v1/snapshots/'' @ snapshotID @ ''/restore'') (Some (JRestore targetID))
                   (jc_Sandbox (ck_codec h)) zero_sandbox) (\<lambda>sandbox.
          printJSON (PSandbox sandbox))
      | _ \<Rightarrow> usage_error ''snapshot-restore <snapshot-id> <target-sandbox-id>'')"

end
