(* ===== verification/PresetRunner.thy ===== *)
theory PresetRunner
  imports Sandboxctl
begin

text \<open>
  The preset runner of \<open>cmd/sandboxctl/preset.go\<close>: inputs and templates, the request that creates the
  sandbox, the upload of files, the steps, the two polling loops, the tunnel, the artifacts and the deferred
  clean-up. A loop that waits for a deadline is a partial function into \<open>option\<close>: \<open>None\<close> is a run that
  never returns.
\<close>

section \<open>Templates\<close>

text \<open>\<open>os.Expand\<close>.\<close>

definition isShellSpecialVar :: "char \<Rightarrow> bool" where
  "isShellSpecialVar c \<longleftrightarrow> c \<in> set ''*#$@!?-0123456789''"

definition isAlphaNum :: "char \<Rightarrow> bool" where
  "isAlphaNum c \<longleftrightarrow> c = CHR ''_'' \<or> is_alnum c"

definition getShellName :: "string \<Rightarrow> string \<times> nat" where
  "getShellName s =
     (if HasPrefix s ''{'' then
        (if 2 < length s \<and> isShellSpecialVar (s ! 1) \<and> s ! 2 = CHR ''}'' then ([s ! 1], 3)
         else (let name = takeWhile (\<lambda>c. c \<noteq> CHR ''}'') (drop 1 s) in
               if Suc (length name) = length s then ([], 1)
               else if name = [] then ([], 2)
               else (name, length name + 2)))
      else if s \<noteq> [] \<and> isShellSpecialVar (hd s) then ([hd s], 1)
      else (let name = takeWhile isAlphaNum s in (name, length name)))"

fun Expand :: "(string \<Rightarrow> string) \<Rightarrow> string \<Rightarrow> string" where
  "Expand mapping [] = []"
| "Expand mapping [c] = [c]"
| "Expand mapping (c # d # s) =
     (if c = CHR ''$'' then
        (let (name, w) = getShellName (d # s) in
         (if name = [] \<and> 0 < w then [] else if name = [] then [c] else mapping name) @ Expand mapping (drop w (d # s)))
      else c # Expand mapping (d # s))"

type_synonym var_map = "string \<Rightarrow> string option"

definition expandTemplate :: "string \<Rightarrow> var_map \<Rightarrow> string" where
  "expandTemplate value vars = Expand (\<lambda>key. case vars key of None \<Rightarrow> [] | Some v \<Rightarrow> v) value"

definition expandSlice :: "string list \<Rightarrow> var_map \<Rightarrow> string list" where
  "expandSlice values vars = map (\<lambda>v. expandTemplate v vars) values"

definition expandMap :: "(string \<times> string) list \<Rightarrow> var_map \<Rightarrow> (string \<times> string) list" where
  "expandMap values vars =
     map (\<lambda>key. (key, expandTemplate (case map_of values key of None \<Rightarrow> [] | Some v \<Rightarrow> v) vars)) (sort (map fst values))"

section \<open>Arguments and inputs\<close>

fun key_value_flags :: "var_map \<Rightarrow> string list \<Rightarrow> goerr + var_map" where
  "key_value_flags parsed [] = Inr parsed"
| "key_value_flags parsed (value # rest) =
     (case split_first (CHR ''='') value of
        (key, Some v) \<Rightarrow>
          if TrimSpace key = [] then Inl (Err (''expected KEY=VALUE, got '' @ quote value))
          else key_value_flags (parsed(TrimSpace key \<mapsto> v)) rest
      | (_, None) \<Rightarrow> Inl (Err (''expected KEY=VALUE, got '' @ quote value)))"

definition parseKeyValueFlags :: "string list \<Rightarrow> goerr + var_map" where
  "parseKeyValueFlags values = key_value_flags Map.empty values"

definition overrideValue :: "string \<Rightarrow> var_map \<Rightarrow> string \<Rightarrow> string" where
  "overrideValue current overrides key = (case overrides key of None \<Rightarrow> current | Some v \<Rightarrow> v)"

definition overrideInt :: "int \<Rightarrow> var_map \<Rightarrow> string \<Rightarrow> goerr + int" where
  "overrideInt current overrides key =
     (case overrides key of
        None \<Rightarrow> Inr current
      | Some v \<Rightarrow> (case ParseInt v of None \<Rightarrow> Inl (Err (''invalid '' @ key @ '' override'')) | Some n \<Rightarrow> Inr n))"

definition presetRunFlagRequiresValue :: "string \<Rightarrow> bool" where
  "presetRunFlagRequiresValue arg =
     (CHR ''='' \<notin> set arg \<and> arg \<in> {''--examples-dir'', ''--cleanup'', ''--set'', ''--env''})"

fun sort_args :: "string list \<Rightarrow> string list \<times> string list" where
  "sort_args [] = ([], [])"
| "sort_args (arg # rest) =
     (if HasPrefix arg ''--'' then
        (case (presetRunFlagRequiresValue arg, rest) of
           (True, v # rest') \<Rightarrow> (case sort_args rest' of (fs, ps) \<Rightarrow> (arg # v # fs, ps))
         | _ \<Rightarrow> (case sort_args rest of (fs, ps) \<Rightarrow> (arg # fs, ps)))
      else (case sort_args rest of (fs, ps) \<Rightarrow> (fs, arg # ps)))"

definition normalizePresetRunArgs :: "string list \<Rightarrow> string list" where
  "normalizePresetRunArgs args = (if length args \<le> 1 then args else (case sort_args args of (fs, ps) \<Rightarrow> fs @ ps))"

record preset_runner =
  pr_manifest :: manifest
  pr_rootDir :: string
  pr_cleanupOverride :: string
  pr_keep :: bool
  pr_inputOverrides :: var_map
  pr_dotEnvValues :: var_map
  pr_sandboxOverrides :: var_map

definition input_value :: "preset_host \<Rightarrow> preset_runner \<Rightarrow> preset_input \<Rightarrow> string" where
  "input_value h r i =
     (let found =
        (case pr_inputOverrides r (in_Name i) of
           Some v \<Rightarrow> Some v
         | None \<Rightarrow>
             (let v = ho_LookupEnv h (in_Name i) in
              if (case v of None \<Rightarrow> True | Some t \<Rightarrow> TrimSpace t = []) then
                (case pr_dotEnvValues r (in_Name i) of Some d \<Rightarrow> Some d | None \<Rightarrow> v)
              else v)) in
      case found of
        None \<Rightarrow> in_Default i
      | Some v \<Rightarrow> if TrimSpace v = [] then in_Default i else v)"

fun resolve_inputs :: "preset_host \<Rightarrow> preset_runner \<Rightarrow> var_map \<Rightarrow> preset_input list \<Rightarrow> goerr + var_map" where
  "resolve_inputs h r resolved [] = Inr resolved"
| "resolve_inputs h r resolved (i # rest) =
     (let value = input_value h r i in
      if in_Required i \<and> TrimSpace value = [] then Inl (Err (''preset input '' @ quote (in_Name i) @ '' is required''))
      else if TrimSpace value \<noteq> [] then resolve_inputs h r (resolved(in_Name i \<mapsto> value)) rest
      else resolve_inputs h r (resolved(in_Name i := None)) rest)"

definition resolveInputs :: "preset_host \<Rightarrow> preset_runner \<Rightarrow> goerr + var_map" where
  "resolveInputs h r = resolve_inputs h r Map.empty (mf_Inputs (pr_manifest r))"

definition nonblank :: "var_map \<Rightarrow> var_map" where
  "nonblank m = (\<lambda>key. case m key of None \<Rightarrow> None | Some v \<Rightarrow> if TrimSpace v = [] then None else Some v)"

definition templateVars :: "preset_runner \<Rightarrow> var_map \<Rightarrow> var_map" where
  "templateVars r inputs = nonblank (pr_dotEnvValues r) ++ nonblank inputs ++ nonblank (pr_inputOverrides r)"

section \<open>The environment file\<close>

text \<open>
  \<open>strconv.Unquote\<close> of a double-quoted text, given the characters between the quotes. Bytes above the ASCII
  range stand for themselves: the text is taken to be UTF-8.
\<close>

definition utf8_encode :: "nat \<Rightarrow> string" where
  "utf8_encode r =
     map char_of
       (if r < 128 then [r]
        else if r < 2048 then [192 + r div 64, 128 + r mod 64]
        else if r < 65536 then [224 + r div 4096, 128 + r div 64 mod 64, 128 + r mod 64]
        else [240 + r div 262144, 128 + r div 4096 mod 64, 128 + r div 64 mod 64, 128 + r mod 64])"

definition valid_rune :: "nat \<Rightarrow> bool" where
  "valid_rune r \<longleftrightarrow> r < 55296 \<or> 57343 < r \<and> r \<le> 1114111"

definition simple_escape :: "char \<Rightarrow> char option" where
  "simple_escape c =
     map_of [(CHR ''a'', CHR 0x07), (CHR ''b'', CHR 0x08), (CHR ''f'', CHR 0x0C), (CHR ''n'', CHR 0x0A),
       (CHR ''r'', CHR 0x0D), (CHR ''t'', CHR 0x09), (CHR ''v'', CHR 0x0B), (CHR 0x5C, CHR 0x5C), (CHR 0x22, CHR 0x22)] c"

definition numeric_escape :: "char \<Rightarrow> string \<Rightarrow> (string \<times> nat) option" where
  "numeric_escape c s =
     (let run = (\<lambda>base n t. if length t < n \<or> CHR ''_'' \<in> set (take n t) then None else digits_in base 0 (take n t)) in
      if c = CHR ''x'' then map_option (\<lambda>v. ([char_of v], 2)) (run 16 2 s)
      else if c = CHR ''u'' then Option.bind (run 16 4 s) (\<lambda>v. if valid_rune v then Some (utf8_encode v, 4) else None)
      else if c = CHR ''U'' then Option.bind (run 16 8 s) (\<lambda>v. if valid_rune v then Some (utf8_encode v, 8) else None)
      else if c \<in> set ''01234567'' then Option.bind (run 8 3 (c # s)) (\<lambda>v. if v \<le> 255 then Some ([char_of v], 2) else None)
      else None)"

fun unquote_body :: "string \<Rightarrow> string option" where
  "unquote_body [] = Some []"
| "unquote_body [c] = (if c \<in> {CHR 0x22, CHR 0x5C, CHR 0x0A} then None else Some [c])"
| "unquote_body (c # d # s) =
     (if c = CHR 0x22 \<or> c = CHR 0x0A then None
      else if c = CHR 0x5C then
        (case simple_escape d of
           Some e \<Rightarrow> map_option ((#) e) (unquote_body s)
         | None \<Rightarrow>
             (case numeric_escape d s of
                None \<Rightarrow> None
              | Some (t, n) \<Rightarrow> map_option ((@) t) (unquote_body (drop n s))))
      else map_option ((#) c) (unquote_body (d # s)))"

definition dot_env_line :: "string \<Rightarrow> (string \<times> string) option" where
  "dot_env_line raw =
     (let line = TrimSpace raw;
          line = (if HasPrefix line ''export '' then TrimSpace (TrimPrefix line ''export '') else line);
          (key, rest) = split_first (CHR ''='') line in
      if TrimSpace raw = [] \<or> HasPrefix (TrimSpace raw) ''#'' then None
      else
        (case rest of
           None \<Rightarrow> None
         | Some v \<Rightarrow>
             (let key = TrimSpace key; value = TrimSpace v; inner = butlast (tl value) in
              if key = [] then None
              else if 2 \<le> length value \<and> hd value = CHR 0x27 \<and> last value = CHR 0x27 then Some (key, inner)
              else if 2 \<le> length value \<and> hd value = CHR 0x22 \<and> last value = CHR 0x22 then
                (case unquote_body inner of None \<Rightarrow> Some (key, value) | Some u \<Rightarrow> Some (key, u))
              else Some (key, value))))"

text \<open>The lines a \<open>bufio.Scanner\<close> yields; a line that does not fit its buffer is an error.\<close>

definition scan_lines :: "string \<Rightarrow> string list" where
  "scan_lines s =
     (let ls = split_on (CHR 0x0A) s in if last ls = [] then butlast ls else ls)"

definition loadPresetDotEnv :: "preset_host \<Rightarrow> goerr + var_map" where
  "loadPresetDotEnv h =
     (case ho_Getwd h of
        Inl e \<Rightarrow> Inl e
      | Inr cwd \<Rightarrow>
          (let path = Join [cwd, ''.env''] in
           case ho_Stat h path of
             StatMissing e \<Rightarrow> Inr Map.empty
           | _ \<Rightarrow>
               (case ho_ReadFile h path of
                  Inl e \<Rightarrow> Inl e
                | Inr data \<Rightarrow>
                    (let ls = scan_lines data in
                     if list_ex (\<lambda>l. 65535 < length l) ls then Inl (Err ''bufio.Scanner: token too long'')
                     else Inr (map_of (rev (List.map_filter dot_env_line ls)))))))"

section \<open>The request that creates the sandbox\<close>

definition override_bool :: "bool \<Rightarrow> var_map \<Rightarrow> string \<Rightarrow> goerr + bool" where
  "override_bool current overrides key =
     (case overrides key of
        None \<Rightarrow> Inr current
      | Some raw \<Rightarrow> (case ParseBool raw of None \<Rightarrow> Inl (Err (''invalid '' @ key @ '' override'')) | Some b \<Rightarrow> Inr b))"

definition or_else :: "goerr + 'a \<Rightarrow> ('a \<Rightarrow> goerr + 'b) \<Rightarrow> goerr + 'b" where
  "or_else r k = (case r of Inl e \<Rightarrow> Inl e | Inr a \<Rightarrow> k a)"

definition buildCreateRequest :: "preset_runner \<Rightarrow> var_map \<Rightarrow> goerr + create_request" where
  "buildCreateRequest r inputs =
     (let sb = mf_Sandbox (pr_manifest r); ov = pr_sandboxOverrides r;
          image = expandTemplate (overrideValue (pb_Image sb) ov ''image'') inputs in
      or_else (ParseCPUQuantity (overrideValue (pb_CPU sb) ov ''cpu'')) (\<lambda>cpuLimit.
      or_else (overrideInt (pb_MemoryMB sb) ov ''memory-mb'') (\<lambda>memoryMB.
      or_else (overrideInt (pb_PIDs sb) ov ''pids'') (\<lambda>pidsLimit.
      or_else (overrideInt (pb_DiskMB sb) ov ''disk-mb'') (\<lambda>diskMB.
      (let networkMode = expandTemplate (overrideValue (pb_Network sb) ov ''network'') inputs in
      or_else (override_bool (pb_Tunnels sb) ov ''allow-tunnels'') (\<lambda>allowTunnels.
      or_else (override_bool (case pb_Start sb of None \<Rightarrow> True | Some b \<Rightarrow> b) ov ''start'') (\<lambda>start.
      Inr \<lparr>cr_RuntimeSelection = no_selection, cr_BaseImageRef = image,
        cr_Profile = profile_of (ToLower (TrimSpace (rs_Profile (mf_Runtime (pr_manifest r))))),
        cr_Features = [], cr_Capabilities = [], cr_DangerousProfileReason = [],
        cr_CPULimit = cpuLimit, cr_MemoryLimitMB = memoryMB, cr_PIDsLimit = pidsLimit, cr_DiskLimitMB = diskMB,
        cr_NetworkMode = network_mode_of networkMode, cr_AllowTunnels = Some allowTunnels, cr_Start = start\<rparr>))))))))"

section \<open>The runtime adapter\<close>

record runtime_adapter =
  ra_name :: string
  ra_requiresGuestReady :: bool
  ra_profile :: string

definition looksLikeQEMUGuestImage :: "string \<Rightarrow> bool" where
  "looksLikeQEMUGuestImage value =
     (let trimmed = TrimSpace value; lower = ToLower trimmed in
      trimmed \<noteq> [] \<and>
      (IsAbs trimmed \<or> HasPrefix trimmed ''./'' \<or> HasPrefix trimmed ''../'' \<or>
       list_ex (\<lambda>suffix. HasSuffix lower suffix) [''.qcow2'', ''.img'', ''.raw'', ''.qcow'']))"

definition adapter_name :: "'n ctl_host \<Rightarrow> manifest \<Rightarrow> ('n, string) ctl_op" where
  "adapter_name h m =
     tryE (doJSON h ''GET'' ''/v1/runtime/info'' None (jc_Info (ck_codec h)) zero_info) (\<lambda>r.
       case r of
         Inr info \<Rightarrow>
           (let backend = (if selection_IsValid (ri_DefaultRuntimeSelection info) then Backend (ri_DefaultRuntimeSelection info)
                           else ToLower (TrimSpace (ri_Backend info))) in
            okE (if backend \<noteq> [] then backend else ''docker''))
       | Inl _ \<Rightarrow>
           tryE (doJSON h ''GET'' ''/v1/runtime/health'' None (jc_Health (ck_codec h)) zero_health) (\<lambda>r.
             case r of
               Inr view \<Rightarrow>
                 (let backend = ToLower (TrimSpace (he_Backend view)) in okE (if backend \<noteq> [] then backend else ''docker''))
             | Inl _ \<Rightarrow>
                 okE (case rs_Allowed (mf_Runtime m) of [a] \<Rightarrow> ToLower (TrimSpace a) | _ \<Rightarrow> ''docker'')))"

definition preset_text :: "manifest \<Rightarrow> string" where
  "preset_text m = ''preset '' @ quote (mf_Name m)"

definition resolvePresetRuntimeAdapter :: "'n ctl_host \<Rightarrow> manifest \<Rightarrow> create_request \<Rightarrow> ('n, runtime_adapter) ctl_op" where
  "resolvePresetRuntimeAdapter h m req =
     bindE (adapter_name h m) (\<lambda>name.
     (let profile = TrimSpace (rs_Profile (mf_Runtime m)) in
      if \<not> AllowsRuntime m name then failE (Err (preset_text m @ '' does not allow the '' @ name @ '' runtime''))
      else if name = ''docker'' then okE \<lparr>ra_name = name, ra_requiresGuestReady = False, ra_profile = profile\<rparr>
      else if name = ''qemu'' then
        (if \<not> cr_Start req then failE (Err (preset_text m @ '' requires start=true when running on qemu''))
         else if profile = [] \<and> \<not> looksLikeQEMUGuestImage (cr_BaseImageRef req) then
           failE (Err (preset_text m @ '' requires qemu guest packaging: set runtime.profile or use a guest image path in sandbox.image''))
         else okE \<lparr>ra_name = name, ra_requiresGuestReady = True, ra_profile = profile\<rparr>)
      else failE (Err (preset_text m @ '' requires unsupported runtime '' @ quote name))))"

section \<open>Files, steps and artifacts\<close>

definition printlnProgress :: "string \<Rightarrow> string \<Rightarrow> ('n, unit) ctl_op" where
  "printlnProgress action detail = print_line (OutText (''['' @ action @ ''] '' @ detail @ [CHR 0x0A]))"

definition resolvePresetPath :: "preset_host \<Rightarrow> string \<Rightarrow> string \<Rightarrow> goerr + string" where
  "resolvePresetPath h baseDir relativePath =
     (let value = TrimSpace relativePath in
      if value = [] then Inl (Err ''preset path is required'')
      else if IsAbs value then
        Inl (Err (''preset path '' @ quote relativePath @ '' must be relative to the preset directory''))
      else
        (case ho_Abs h baseDir of
           Inl e \<Rightarrow> Inl e
         | Inr baseAbs \<Rightarrow>
             (let resolved = Clean (Join [baseAbs, value]) in
              case Rel baseAbs resolved of
                None \<Rightarrow> Inl (Err ''Rel'')
              | Some rel \<Rightarrow>
                  if rel = ''..'' \<or> HasPrefix rel ''../'' then
                    Inl (Err (''preset path '' @ quote relativePath @ '' escapes the preset directory''))
                  else Inr resolved)))"

definition file_payload :: "preset_host \<Rightarrow> manifest \<Rightarrow> var_map \<Rightarrow> file_asset \<Rightarrow> goerr + file_write_request" where
  "file_payload h m vars asset =
     (if TrimSpace (fa_Content asset) \<noteq> [] then
        Inr \<lparr>fw_Content = expandTemplate (fa_Content asset) vars, fw_ContentBase64 = [], fw_Encoding = []\<rparr>
      else
        or_else (resolvePresetPath h (mf_BaseDir m) (fa_Source asset)) (\<lambda>sourcePath.
        or_else (ho_ReadFile h sourcePath) (\<lambda>data.
        Inr (if fa_Binary asset then \<lparr>fw_Content = [], fw_ContentBase64 = EncodeToString data, fw_Encoding = ''base64''\<rparr>
             else \<lparr>fw_Content = expandTemplate data vars, fw_ContentBase64 = [], fw_Encoding = []\<rparr>))))"

definition uploadFile :: "'n ctl_host \<Rightarrow> manifest \<Rightarrow> string \<Rightarrow> var_map \<Rightarrow> file_asset \<Rightarrow> ('n, unit) ctl_op" where
  "uploadFile h m sandboxID vars asset =
     thenE (printlnProgress ''uploading file'' (fa_Path asset))
     (bindE (liftE (remote_file (fa_Path asset)
        (''file path '' @ quote (fa_Path asset) @ '' must reference a file inside /workspace''))) (\<lambda>remotePath.
      bindE (liftE (file_payload (ck_files h) m vars asset)) (\<lambda>payload.
      doCall h ''PUT'' (file_url sandboxID remotePath) (Some (JFileWrite payload)))))"

definition uploadFiles :: "'n ctl_host \<Rightarrow> preset_runner \<Rightarrow> string \<Rightarrow> var_map \<Rightarrow> ('n, unit) ctl_op" where
  "uploadFiles h r sandboxID vars =
     forE (mf_Files (pr_manifest r)) (uploadFile h (pr_manifest r) sandboxID vars)"

definition runStep :: "'n ctl_host \<Rightarrow> string \<Rightarrow> var_map \<Rightarrow> preset_step \<Rightarrow> ('n, unit) ctl_op" where
  "runStep h sandboxID vars step =
     thenE (printlnProgress ''running step'' (ps_Name step))
     (tryE (doJSON h ''POST'' (sandbox_url sandboxID ''/exec'') (Some (JExec
        \<lparr>xr_Command = expandSlice (ps_Command step) vars, xr_Env = expandMap (ps_Env step) vars,
         xr_Cwd = expandTemplate (ps_Cwd step) vars, xr_Timeout = ps_Timeout step, xr_Detached = ps_Detached step\<rparr>))
        (jc_Execution (ck_codec h)) zero_execution) (\<lambda>result.
      case result of
        Inl e \<Rightarrow> failE (Err (''step '' @ quote (ps_Name step) @ '': '' @ err_text e))
      | Inr execution \<Rightarrow>
          thenE (if ex_StdoutPreview execution \<noteq> [] then print_line (OutText (ex_StdoutPreview execution)) else okE ())
          (thenE (if ex_StderrPreview execution \<noteq> [] then print_line (ErrText (ex_StderrPreview execution)) else okE ())
          (if \<not> ps_Detached step \<and> ex_Status execution \<noteq> ExecSucceeded then
             failE (Err (''step '' @ quote (ps_Name step) @ '' failed with status '' @ execution_status_string (ex_Status execution)))
           else okE ()))))"

fun runSteps :: "'n ctl_host \<Rightarrow> string \<Rightarrow> var_map \<Rightarrow> preset_step list \<Rightarrow> ('n, unit) ctl_op" where
  "runSteps h sandboxID vars [] = okE ()"
| "runSteps h sandboxID vars (step # rest) =
     tryE (runStep h sandboxID vars step) (\<lambda>result.
       case result of
         Inr _ \<Rightarrow> runSteps h sandboxID vars rest
       | Inl e \<Rightarrow>
           if ps_ContinueOnError step then
             thenE (print_line (ErrText (''step_continue_on_error='' @ ps_Name step @ '' err='' @ err_text e @ [CHR 0x0A])))
               (runSteps h sandboxID vars rest)
           else failE e)"

definition downloadArtifact :: "'n ctl_host \<Rightarrow> manifest \<Rightarrow> string \<Rightarrow> artifact \<Rightarrow> ('n, unit) ctl_op" where
  "downloadArtifact h m sandboxID a =
     thenE (printlnProgress ''downloading artifact'' (ar_LocalPath a))
     (bindE (liftE (remote_file (ar_RemotePath a)
        (''artifact path '' @ quote (ar_RemotePath a) @ '' must reference a file inside /workspace''))) (\<lambda>remotePath.
      bindE (doJSON h ''GET'' (file_url sandboxID remotePath @ (if ar_Binary a then ''?encoding=base64'' else [])) None
               (jc_File (ck_codec h)) zero_file) (\<lambda>file.
      bindE (liftE (resolvePresetPath (ck_files h) (mf_BaseDir m) (ar_LocalPath a))) (\<lambda>localPath.
      thenE (write_op h (MkdirAll (Dir localPath)))
      (bindE (liftE (if ar_Binary a then DecodeString (fr_ContentBase64 file) else Inr (fr_Content file))) (\<lambda>data.
      write_op h (WriteFile localPath data)))))))"

definition downloadArtifacts :: "'n ctl_host \<Rightarrow> preset_runner \<Rightarrow> string \<Rightarrow> ('n, unit) ctl_op" where
  "downloadArtifacts h r sandboxID =
     forE (mf_Artifacts (pr_manifest r)) (downloadArtifact h (pr_manifest r) sandboxID)"

section \<open>Tunnels\<close>

definition showTunnelAccessToken :: "preset_host \<Rightarrow> bool" where
  "showTunnelAccessToken h =
     (let value = TrimSpace (Getenv h ''SANDBOXCTL_SHOW_TUNNEL_ACCESS_TOKEN'') in
      value = ''1'' \<or> EqualFold value ''true'' \<or> EqualFold value ''yes'')"

definition createTunnel :: "'n ctl_host \<Rightarrow> preset_tunnel \<Rightarrow> string \<Rightarrow> ('n, tunnel) ctl_op" where
  "createTunnel h t sandboxID =
     thenE (printlnProgress ''creating tunnel'' (fmt_int (pt_Port t)))
     (bindE (doJSON h ''POST'' (sandbox_url sandboxID ''/tunnels'') (Some (JTunnel
        \<lparr>tq_TargetPort = pt_Port t, tq_Protocol = tunnel_protocol_of (pt_Protocol t),
         tq_AuthMode = pt_AuthMode t, tq_Visibility = pt_Visibility t\<rparr>))
        (jc_Tunnel (ck_codec h)) zero_tunnel) (\<lambda>tunnel.
      thenE (print_line (OutText (''tunnel_endpoint='' @ tun_Endpoint tunnel @ [CHR 0x0A])))
      (thenE (if EqualFold (tun_AuthMode tunnel) ''token'' \<and> TrimSpace (tun_AccessToken tunnel) \<noteq> [] \<and>
                 showTunnelAccessToken (ck_files h)
              then print_line (OutText (''tunnel_access_token='' @ tun_AccessToken tunnel @ [CHR 0x0A])) else okE ())
      (okE tunnel))))"

definition createTunnelSignedURL :: "'n ctl_host \<Rightarrow> string \<Rightarrow> string \<Rightarrow> ('n, signed_url) ctl_op" where
  "createTunnelSignedURL h tunnelID proxyPath =
     doJSON h ''POST'' (''/v1/tunnels/'' @ tunnelID @ ''/signed-url'')
       (Some (JSignedURL \<lparr>su_Path = proxyPath, su_TTLSeconds = 0, su_OneTime = False\<rparr>))
       (jc_SignedURL (ck_codec h)) zero_signed"

definition openClawDashboardURL :: "manifest \<Rightarrow> string \<Rightarrow> var_map \<Rightarrow> string option" where
  "openClawDashboardURL m browserURL vars =
     (let gatewayToken = TrimSpace (case vars ''OPENCLAW_GATEWAY_TOKEN'' of None \<Rightarrow> [] | Some v \<Rightarrow> v) in
      if \<not> EqualFold (TrimSpace (mf_Name m)) ''openclaw'' then None
      else if gatewayToken = [] then None
      else Some (browserURL @ ''#token='' @ url_escape EncodeQueryComponent gatewayToken))"

definition printTunnelBrowserURLs :: "'n ctl_host \<Rightarrow> manifest \<Rightarrow> tunnel \<Rightarrow> var_map \<Rightarrow> ('n, unit) ctl_op" where
  "printTunnelBrowserURLs h m tunnel vars =
     bindE (createTunnelSignedURL h (tun_ID tunnel) ''/'') (\<lambda>signed.
     thenE (print_line (OutText (''tunnel_browser_url='' @ sd_URL signed @ [CHR 0x0A])))
     (thenE (print_line (OutText (''tunnel_browser_url_expires_at='' @ RFC3339 (sd_ExpiresAt signed) @ [CHR 0x0A])))
     (case openClawDashboardURL m (sd_URL signed) vars of
        None \<Rightarrow> okE ()
      | Some dashboardURL \<Rightarrow> print_line (OutText (''dashboard_url='' @ dashboardURL @ [CHR 0x0A])))))"

section \<open>Waiting\<close>

definition sleep :: "'n ctl_host \<Rightarrow> int \<Rightarrow> 'n ctl \<Rightarrow> 'n ctl" where
  "sleep h d w = w\<lparr>ct_clock := ct_clock w + max 0 d + int (ck_Late h (ct_clock w))\<rparr>"

type_synonym ('n, 'a) ctl_run = "'n ctl \<Rightarrow> ((goerr + 'a) \<times> 'n ctl) option"

text \<open>
  The loop \<open>for time.Now().Before(deadline) { attempt; time.Sleep(interval) }\<close>: an attempt either decides
  the outcome or leaves it open.
\<close>

partial_function (option) poll ::
  "('n ctl \<Rightarrow> (goerr + unit) option \<times> 'n ctl) \<Rightarrow> ('n ctl \<Rightarrow> 'n ctl) \<Rightarrow> time \<Rightarrow> string \<Rightarrow> ('n, unit) ctl_run" where
  "poll attempt pause deadline complaint w =
     (if ct_clock w < deadline then
        (case attempt w of
           (Some r, w') \<Rightarrow> Some (r, w')
         | (None, w') \<Rightarrow> poll attempt pause deadline complaint (pause w'))
      else Some (Inl (Err complaint), w))"

definition undecided :: "('n, 'a) ctl_op \<Rightarrow> ('a \<Rightarrow> (goerr + unit) option) \<Rightarrow> 'n ctl \<Rightarrow> (goerr + unit) option \<times> 'n ctl" where
  "undecided m k w = (case m w of (Inl e, w') \<Rightarrow> (None, w') | (Inr a, w') \<Rightarrow> (k a, w'))"

definition guest_attempt :: "'n ctl_host \<Rightarrow> string \<Rightarrow> 'n ctl \<Rightarrow> (goerr + unit) option \<times> 'n ctl" where
  "guest_attempt h sandboxID =
     undecided (doJSON h ''GET'' (sandbox_url sandboxID []) None (jc_Sandbox (ck_codec h)) zero_sandbox) (\<lambda>sandbox.
       (let status = sb_Status sandbox;
            message = ''guest did not become ready: status='' @ status_string status;
            detail = (if TrimSpace (sb_LastRuntimeError sandbox) \<noteq> [] then TrimSpace (sb_LastRuntimeError sandbox)
                      else TrimSpace (sb_RuntimeStatus sandbox)) in
        if status = StatusRunning then Some (Inr ())
        else if status \<in> {StatusCreating, StatusStarting, StatusBooting} then None
        else if status \<in> {StatusError, StatusDegraded} then
          (if detail = [] then Some (Inl (Err message)) else Some (Inl (Err (message @ '' detail='' @ detail))))
        else Some (Inl (Err message))))"

definition presetGuestReadyTimeout :: int where "presetGuestReadyTimeout = 120000000000"
definition presetGuestReadyInterval :: int where "presetGuestReadyInterval = 1000000000"

definition waitForGuestReady :: "'n ctl_host \<Rightarrow> runtime_adapter \<Rightarrow> string \<Rightarrow> ('n, unit) ctl_run" where
  "waitForGuestReady h a sandboxID w =
     (if \<not> ra_requiresGuestReady a then Some (Inr (), w)
      else (let w1 = snd (printlnProgress ''waiting for guest-ready'' (ra_name a) w) in
            poll (guest_attempt h sandboxID) (sleep h presetGuestReadyInterval)
              (ct_clock w1 + presetGuestReadyTimeout) ''timed out waiting for guest readiness'' w1))"

definition readiness_attempt ::
  "'n ctl_host \<Rightarrow> readiness_check \<Rightarrow> string \<Rightarrow> var_map \<Rightarrow> tunnel option \<Rightarrow> 'n ctl \<Rightarrow> (goerr + unit) option \<times> 'n ctl" where
  "readiness_attempt h rc sandboxID vars tunnel =
     (if ToLower (rc_Type rc) = ''command'' then
        undecided (doJSON h ''POST'' (sandbox_url sandboxID ''/exec'') (Some (JExec
           \<lparr>xr_Command = expandSlice (rc_Command rc) vars, xr_Env = [], xr_Cwd = ''/workspace'',
            xr_Timeout = rc_Interval rc, xr_Detached = False\<rparr>)) (jc_Execution (ck_codec h)) zero_execution)
          (\<lambda>execution. if ex_Status execution = ExecSucceeded then Some (Inr ()) else None)
      else if ToLower (rc_Type rc) = ''http'' then
        (case tunnel of
           None \<Rightarrow> Pair (Some (Inl (Err ''http readiness requires an active tunnel'')))
         | Some t \<Rightarrow>
             (let target = trim_slashes (tun_Endpoint t) @ rc_Path rc in
              case ck_CheckURL h target of
                Some e \<Rightarrow> Pair (Some (Inl e))
              | None \<Rightarrow>
                  undecided (send h \<lparr>hc_Method = ''GET'', hc_URL = target,
                     hc_Header = (''Authorization'', ''Bearer '' @ ck_token h) #
                       (if tun_AuthMode t = ''token'' \<and> tun_AccessToken t \<noteq> [] then [(''X-Tunnel-Token'', tun_AccessToken t)] else []),
                     hc_Body = None\<rparr>)
                    (\<lambda>(status, text). if status = rc_ExpectedStatus rc then Some (Inr ()) else None)))
      else Pair None)"

definition waitForReadiness :: "'n ctl_host \<Rightarrow> preset_runner \<Rightarrow> string \<Rightarrow> var_map \<Rightarrow> tunnel option \<Rightarrow> ('n, unit) ctl_run" where
  "waitForReadiness h r sandboxID vars tunnel w =
     (case mf_Readiness (pr_manifest r) of
        None \<Rightarrow> Some (Inr (), w)
      | Some rc \<Rightarrow>
          (let w1 = snd (printlnProgress ''waiting for readiness'' (rc_Type rc) w) in
           poll (readiness_attempt h rc sandboxID vars tunnel) (sleep h (rc_Interval rc))
             (ct_clock w1 + rc_Timeout rc) ''timed out waiting for preset readiness'' w1))"

section \<open>The run\<close>

definition stepP :: "('n, 'a) ctl_op \<Rightarrow> ('a \<Rightarrow> ('n, 'b) ctl_run) \<Rightarrow> ('n, 'b) ctl_run" where
  "stepP m k w = (case m w of (Inl e, w') \<Rightarrow> Some (Inl e, w') | (Inr a, w') \<Rightarrow> k a w')"

definition waitP :: "('n, 'a) ctl_run \<Rightarrow> ('a \<Rightarrow> ('n, 'b) ctl_run) \<Rightarrow> ('n, 'b) ctl_run" where
  "waitP m k w =
     (case m w of None \<Rightarrow> None | Some (Inl e, w') \<Rightarrow> Some (Inl e, w') | Some (Inr a, w') \<Rightarrow> k a w')"

definition endP :: "('n, 'a) ctl_op \<Rightarrow> ('n, 'a) ctl_run" where "endP m w = Some (m w)"

definition shouldCleanup :: "string \<Rightarrow> bool \<Rightarrow> bool" where
  "shouldCleanup policy succeeded =
     (if policy = CleanupAlways then True else if policy = CleanupOnSuccess then succeeded else False)"

definition cleanup_policy :: "preset_runner \<Rightarrow> string" where
  "cleanup_policy r =
     (if pr_keep r then CleanupNever
      else if TrimSpace (pr_cleanupOverride r) \<noteq> [] then TrimSpace (pr_cleanupOverride r)
      else mf_Cleanup (pr_manifest r))"

definition open_sandbox :: "'n ctl_host \<Rightarrow> preset_runner \<Rightarrow> ('n, runtime_adapter \<times> string \<times> var_map) ctl_op" where
  "open_sandbox h r =
     bindE (liftE (resolveInputs (ck_files h) r)) (\<lambda>inputs.
     (let vars = templateVars r inputs in
      bindE (liftE (buildCreateRequest r vars)) (\<lambda>req.
      bindE (resolvePresetRuntimeAdapter h (pr_manifest r) req) (\<lambda>adapter.
      thenE (printlnProgress ''creating sandbox'' (mf_Name (pr_manifest r)))
      (bindE (doJSON h ''POST'' ''/v1/sandboxes'' (Some (JCreate req)) (jc_Sandbox (ck_codec h)) zero_sandbox) (\<lambda>sandbox.
       thenE (print_line (OutText (''sandbox_id='' @ sb_ID sandbox @ [CHR 0x0A])))
       (okE (adapter, sb_ID sandbox, [''SANDBOX_ID'' \<mapsto> sb_ID sandbox] ++ vars))))))))"

definition http_readiness :: "manifest \<Rightarrow> bool" where
  "http_readiness m =
     (mf_Tunnel m \<noteq> None \<and> (case mf_Readiness m of None \<Rightarrow> False | Some rc \<Rightarrow> EqualFold (rc_Type rc) ''http''))"

definition early_tunnel :: "'n ctl_host \<Rightarrow> manifest \<Rightarrow> string \<Rightarrow> ('n, tunnel option) ctl_op" where
  "early_tunnel h m sandboxID =
     (case mf_Tunnel m of
        Some t \<Rightarrow> if http_readiness m then bindE (createTunnel h t sandboxID) (\<lambda>created. okE (Some created)) else okE None
      | None \<Rightarrow> okE None)"

definition late_tunnel :: "'n ctl_host \<Rightarrow> manifest \<Rightarrow> string \<Rightarrow> tunnel option \<Rightarrow> ('n, tunnel option) ctl_op" where
  "late_tunnel h m sandboxID tunnel =
     (case (tunnel, mf_Tunnel m) of
        (None, Some t) \<Rightarrow> bindE (createTunnel h t sandboxID) (\<lambda>created. okE (Some created))
      | _ \<Rightarrow> okE tunnel)"

definition tunnel_vars :: "var_map \<Rightarrow> tunnel option \<Rightarrow> var_map" where
  "tunnel_vars vars tunnel =
     (case tunnel of
        None \<Rightarrow> vars
      | Some t \<Rightarrow> vars(''TUNNEL_ENDPOINT'' \<mapsto> tun_Endpoint t, ''TUNNEL_ACCESS_TOKEN'' \<mapsto> tun_AccessToken t))"

definition run_body :: "'n ctl_host \<Rightarrow> preset_runner \<Rightarrow> runtime_adapter \<Rightarrow> string \<Rightarrow> var_map \<Rightarrow> ('n, unit) ctl_run" where
  "run_body h r adapter sandboxID vars =
     (let m = pr_manifest r in
      waitP (waitForGuestReady h adapter sandboxID) (\<lambda>_.
      stepP (uploadFiles h r sandboxID vars) (\<lambda>_.
      stepP (runSteps h sandboxID vars (mf_Bootstrap m)) (\<lambda>_.
      stepP (case mf_Startup m of None \<Rightarrow> okE () | Some s \<Rightarrow> runStep h sandboxID vars s) (\<lambda>_.
      stepP (early_tunnel h m sandboxID) (\<lambda>early.
      (let vars = tunnel_vars vars early in
      waitP (waitForReadiness h r sandboxID vars early) (\<lambda>_.
      stepP (late_tunnel h m sandboxID early) (\<lambda>tunnel.
      stepP (case tunnel of None \<Rightarrow> okE () | Some t \<Rightarrow> printTunnelBrowserURLs h m t vars) (\<lambda>_.
      endP (downloadArtifacts h r sandboxID)))))))))))"

definition Run :: "'n ctl_host \<Rightarrow> preset_runner \<Rightarrow> ('n, unit) ctl_run" where
  "Run h r w =
     (case open_sandbox h r w of
        (Inl e, w') \<Rightarrow> Some (Inl e, w')
      | (Inr (adapter, sandboxID, vars), w1) \<Rightarrow>
          (case run_body h r adapter sandboxID vars w1 of
             None \<Rightarrow> None
           | Some (result, w2) \<Rightarrow>
               Some (result,
                 if shouldCleanup (cleanup_policy r) (result = Inr ())
                 then snd (doCall h ''DELETE'' (sandbox_url sandboxID []) None w2) else w2)))"

section \<open>The commands\<close>

definition resolveExamplesDir :: "preset_host \<Rightarrow> string \<Rightarrow> goerr + string" where
  "resolveExamplesDir h explicit = (if TrimSpace explicit \<noteq> [] then Inr explicit else DiscoverExamplesDir h [])"

definition runPresetList :: "'n ctl_host \<Rightarrow> string list \<Rightarrow> ('n, unit) ctl_op" where
  "runPresetList h args =
     with_flags [(''examples-dir'', FlagText)] args (\<lambda>vs rest.
     bindE (liftE (resolveExamplesDir (ck_files h) (flag_text vs ''examples-dir'' []))) (\<lambda>root.
     bindE (liftE (List_presets (ck_files h) root)) (\<lambda>summaries.
     print_line (OutSummaries summaries))))"

definition runPresetInspect :: "'n ctl_host \<Rightarrow> string list \<Rightarrow> ('n, unit) ctl_op" where
  "runPresetInspect h args =
     with_flags [(''examples-dir'', FlagText)] args (\<lambda>vs rest.
     one_arg rest ''preset inspect [--examples-dir <dir>] <preset-name>'' (\<lambda>name.
     bindE (liftE (resolveExamplesDir (ck_files h) (flag_text vs ''examples-dir'' []))) (\<lambda>root.
     bindE (liftE (Load_preset (ck_files h) root name)) (\<lambda>m.
     print_line (OutManifest m)))))"

definition preset_runner_of :: "'n ctl_host \<Rightarrow> string list \<Rightarrow> ('n, preset_runner) ctl_op" where
  "preset_runner_of h args =
     bindE (liftE (parse_args [(''examples-dir'', FlagText), (''cleanup'', FlagText), (''keep'', FlagBool),
         (''set'', FlagText), (''env'', FlagText)] (normalizePresetRunArgs args))) (\<lambda>(vs, rest).
     (case rest of
        [name] \<Rightarrow>
          bindE (liftE (resolveExamplesDir (ck_files h) (flag_text vs ''examples-dir'' []))) (\<lambda>root.
          bindE (liftE (Load_preset (ck_files h) root name)) (\<lambda>m.
          bindE (liftE (parseKeyValueFlags (flag_list vs ''env''))) (\<lambda>inputOverrides.
          bindE (liftE (parseKeyValueFlags (flag_list vs ''set''))) (\<lambda>sandboxOverrides.
          bindE (liftE (loadPresetDotEnv (ck_files h))) (\<lambda>dotEnvValues.
          okE \<lparr>pr_manifest = m, pr_rootDir = root, pr_cleanupOverride = flag_text vs ''cleanup'' [],
               pr_keep = flag_bool vs ''keep'' False, pr_inputOverrides = inputOverrides,
               pr_dotEnvValues = dotEnvValues, pr_sandboxOverrides = sandboxOverrides\<rparr>)))))
      | _ \<Rightarrow> usage_error ''preset run [flags] <preset-name>''))"

definition runPresetRun :: "'n ctl_host \<Rightarrow> string list \<Rightarrow> ('n, unit) ctl_run" where
  "runPresetRun h args = stepP (preset_runner_of h args) (Run h)"

definition runPreset :: "'n ctl_host \<Rightarrow> string list \<Rightarrow> ('n, unit) ctl_run" where
  "runPreset h args =
     (case args of
        [] \<Rightarrow> endP (usage_error ''preset <list|inspect|run>'')
      | c # rest \<Rightarrow>
          if c = ''list'' then endP (runPresetList h rest)
          else if c = ''inspect'' then endP (runPresetInspect h rest)
          else if c = ''run'' then runPresetRun h rest
          else endP (usage_error ''preset <list|inspect|run>''))"

end
