(* ===== verification/ClientSafety.thy ===== *)
theory ClientSafety
  imports PresetRunner
begin

text \<open>
  Properties of the command line client: the preset runner always returns, deletes the sandbox it created
  exactly when its policy says so and writes below the preset's directory only; a file path without URL
  syntax reaches the same file on the server, and one with percent signs may reach another sandbox.
\<close>

section \<open>Every run returns\<close>

text \<open>No operation turns the clock back, and a sleep of a positive interval moves it on.\<close>

definition onward :: "'n ctl \<Rightarrow> 'n ctl \<Rightarrow> bool" where "onward w w' \<longleftrightarrow> ct_clock w \<le> ct_clock w'"

interpretation onward: step_preorder onward
  by unfold_locales (auto simp: onward_def)

lemma send_onward: "preserves onward (send h c)"
  by (auto simp: preserves_def onward_def send_def split: prod.split)

lemma print_onward: "preserves onward (print_line l)"
  by (simp add: preserves_def onward_def print_line_def)

lemma write_onward: "preserves onward (write_op h oper)"
  by (simp add: preserves_def onward_def write_op_def split: option.split)

lemmas onward_rules = onward.preserves_rules send_onward print_onward write_onward

lemma exchange_onward: "preserves onward (exchange h method endpoint body)"
  unfolding exchange_def by (intro onward_rules)

lemma doJSON_onward: "preserves onward (doJSON h method endpoint body decode zero)"
  unfolding doJSON_def by (intro onward_rules exchange_onward)

lemma undecided_onward: "preserves onward m \<Longrightarrow> ct_clock w \<le> ct_clock (snd (undecided m k w))"
  by (auto simp: undecided_def preserves_def onward_def split: prod.split sum.split) (metis snd_conv)+

lemma guest_attempt_onward: "ct_clock w \<le> ct_clock (snd (guest_attempt h i w))"
  unfolding guest_attempt_def by (rule undecided_onward, rule doJSON_onward)

lemma readiness_attempt_onward: "ct_clock w \<le> ct_clock (snd (readiness_attempt h rc i vars t w))"
  by (auto simp: readiness_attempt_def Let_def split: option.split
      intro!: undecided_onward doJSON_onward send_onward)

lemma poll_returns:
  assumes forward: "\<And>w. ct_clock w \<le> ct_clock (snd (attempt w))" and pause: "\<And>w. ct_clock w + d \<le> ct_clock (pause w)"
    and "0 < d"
  shows "\<exists>r. poll attempt pause deadline complaint w = Some r"
proof (induction "nat (deadline - ct_clock w)" arbitrary: w rule: less_induct)
  case less
  show ?case
  proof (cases "ct_clock w < deadline")
    case True
    obtain o1 w1 where a: "attempt w = (o1, w1)" by (cases "attempt w")
    with forward [of w] pause [of w1] have "ct_clock w + d \<le> ct_clock (pause w1)" by simp
    with True \<open>0 < d\<close> have "nat (deadline - ct_clock (pause w1)) < nat (deadline - ct_clock w)" by linarith
    from less [OF this] show ?thesis using True a by (subst poll.simps) (simp split: option.split)
  qed (simp add: poll.simps)
qed

lemma sleep_forward: "ct_clock w + d \<le> ct_clock (sleep h d w)"
  by (simp add: sleep_def)

lemma guest_wait_returns: "\<exists>r. waitForGuestReady h a i w = Some r"
proof (cases "ra_requiresGuestReady a")
  case True
  have "0 < presetGuestReadyInterval" by (simp add: presetGuestReadyInterval_def)
  then show ?thesis unfolding waitForGuestReady_def Let_def using True
    by (simp only: simp_thms if_False) (rule poll_returns [OF guest_attempt_onward sleep_forward])
qed (simp add: waitForGuestReady_def)

lemma readiness_wait_returns:
  assumes "pred_option (readiness_ready tun) (mf_Readiness (pr_manifest r))"
  shows "\<exists>x. waitForReadiness h r i vars t w = Some x"
proof (cases "mf_Readiness (pr_manifest r)")
  case (Some rc)
  with assms have "0 < rc_Interval rc" by (simp add: readiness_ready_def)
  then show ?thesis unfolding waitForReadiness_def Some Let_def option.case
    by (rule poll_returns [OF readiness_attempt_onward sleep_forward])
qed (simp add: waitForReadiness_def)

lemma stepP_returns: "(\<And>a w. \<exists>x. k a w = Some x) \<Longrightarrow> \<exists>x. stepP m k w = Some x"
  by (auto simp: stepP_def split: prod.split sum.split)

lemma waitP_returns: "(\<And>w. \<exists>x. m w = Some x) \<Longrightarrow> (\<And>a w. \<exists>x. k a w = Some x) \<Longrightarrow> \<exists>x. waitP m k w = Some x"
proof -
  assume m: "\<And>w. \<exists>x. m w = Some x" and k: "\<And>a w. \<exists>x. k a w = Some x"
  from m obtain r w' where "m w = Some (r, w')" by (metis surj_pair)
  with k show ?thesis by (cases r) (auto simp: waitP_def)
qed

lemma endP_returns: "\<exists>x. endP m w = Some x"
  by (simp add: endP_def)

lemma run_body_returns:
  assumes "manifest_ready (pr_manifest r)"
  shows "\<exists>x. run_body h r a i vars w = Some x"
  using assms unfolding run_body_def Let_def manifest_ready_def
  by (intro waitP_returns stepP_returns endP_returns guest_wait_returns readiness_wait_returns) auto

lemma Run_returns:
  assumes "manifest_ready (pr_manifest r)"
  shows "\<exists>x. Run h r w = Some x"
proof (cases "open_sandbox h r w")
  case (Pair res w1)
  show ?thesis
  proof (cases res)
    case (Inr t)
    obtain a i vars where "t = (a, i, vars)" by (cases t)
    moreover obtain r2 w2 where "run_body h r a i vars w1 = Some (r2, w2)"
      using run_body_returns [OF assms] by (metis surj_pair)
    ultimately show ?thesis using Pair Inr by (simp add: Run_def)
  qed (use Pair in \<open>simp add: Run_def\<close>)
qed

lemma loaded_runner:
  assumes "preset_runner_of h args w = (Inr r, w')"
  shows "\<exists>path. LoadManifest (ck_files h) path = Inr (pr_manifest r)"
  using assms unfolding preset_runner_of_def
  by (auto simp: usage_error_def Load_preset_def split: list.splits elim!: bindE_InrE) blast

text \<open>
  C31: \<open>sandboxctl preset\<close> always returns. Whatever the arguments, the preset file, the server and the network
  do, and however long every call takes, the command comes to an end: the two polling loops of a run stop at
  their deadlines, because a manifest that loads has a positive polling interval.
\<close>

theorem preset_command_returns: "\<exists>result w'. runPreset h args w = Some (result, w')"
proof -
  have "\<exists>x. runPresetRun h rest w = Some x" for rest
  proof (cases "preset_runner_of h rest w")
    case (Pair res w1)
    show ?thesis
    proof (cases res)
      case (Inr r)
      with Pair obtain path where "LoadManifest (ck_files h) path = Inr (pr_manifest r)" using loaded_runner by blast
      then obtain d where "pr_manifest r = Normalize (d\<lparr>mf_BaseDir := Dir path\<rparr>)"
        and "Validate_manifest (pr_manifest r) = Inr ()" by (rule LoadManifest_Inr)
      then have "manifest_ready (pr_manifest r)" using normalized_valid_ready by metis
      with Run_returns show ?thesis using Pair Inr by (simp add: runPresetRun_def stepP_def)
    qed (use Pair in \<open>simp add: runPresetRun_def stepP_def\<close>)
  qed
  then show ?thesis by (cases args) (simp_all add: runPreset_def endP_def)
qed


section \<open>What a run calls and writes\<close>

text \<open>
  \<open>trail P Q\<close>: the calls made are appended to the log and satisfy \<open>P\<close>, the files written are appended and
  satisfy \<open>Q\<close>.
\<close>

definition appended :: "('x \<Rightarrow> bool) \<Rightarrow> 'x list \<Rightarrow> 'x list \<Rightarrow> bool" where
  "appended P xs ys \<longleftrightarrow> take (length xs) ys = xs \<and> list_all P (drop (length xs) ys)"

lemma appended_iff: "appended P xs ys \<longleftrightarrow> (\<exists>zs. ys = xs @ zs \<and> list_all P zs)"
proof
  assume "appended P xs ys"
  then have "ys = xs @ drop (length xs) ys" and "list_all P (drop (length xs) ys)"
    by (metis appended_def append_take_drop_id) (simp add: \<open>appended P xs ys\<close> [unfolded appended_def])
  then show "\<exists>zs. ys = xs @ zs \<and> list_all P zs" by blast
qed (auto simp: appended_def)

definition trail :: "(http_call \<Rightarrow> bool) \<Rightarrow> (fs_op \<Rightarrow> bool) \<Rightarrow> 'n ctl \<Rightarrow> 'n ctl \<Rightarrow> bool" where
  "trail P Q w w' \<longleftrightarrow> appended P (ct_calls w) (ct_calls w') \<and> appended Q (ct_files w) (ct_files w')"

lemma appended_refl: "appended P xs xs"
  by (simp add: appended_iff)

lemma appended_trans: "appended P xs ys \<Longrightarrow> appended P ys zs \<Longrightarrow> appended P xs zs"
  by (auto simp: appended_iff)

interpretation trail: step_preorder "trail P Q" for P Q
  by unfold_locales (auto simp: trail_def appended_refl intro: appended_trans)

lemma send_trail: "P c \<Longrightarrow> preserves (trail P Q) (send h c)"
  by (auto simp: preserves_def trail_def send_def appended_iff split: prod.split)

lemma write_trail: "Q oper \<Longrightarrow> preserves (trail P Q) (write_op h oper)"
  by (auto simp: preserves_def trail_def write_op_def appended_iff split: option.split)

lemma print_trail: "preserves (trail P Q) (print_line l)"
  by (simp add: preserves_def trail_def print_line_def appended_refl)

lemma progress_trail: "preserves (trail P Q) (printlnProgress a d)"
  by (simp add: printlnProgress_def print_trail)

lemma progress_after: "trail P Q w (snd (printlnProgress a d w))"
  by (simp add: printlnProgress_def print_line_def trail_def appended_refl)

lemmas trail_rules = trail.preserves_rules print_trail progress_trail

text \<open>The calls of a run other than the clean-up: none of them deletes anything.\<close>

definition keeping :: "http_call \<Rightarrow> bool" where "keeping c \<longleftrightarrow> hc_Method c \<noteq> ''DELETE''"

lemma exchange_trail: "method \<noteq> ''DELETE'' \<Longrightarrow> preserves (trail keeping Q) (exchange h method endpoint body)"
  unfolding exchange_def by (intro trail_rules send_trail) (simp add: keeping_def)

lemma doJSON_trail: "method \<noteq> ''DELETE'' \<Longrightarrow> preserves (trail keeping Q) (doJSON h method endpoint body decode zero)"
  unfolding doJSON_def by (intro trail_rules exchange_trail)

lemma doCall_trail: "method \<noteq> ''DELETE'' \<Longrightarrow> preserves (trail keeping Q) (doCall h method endpoint body)"
  unfolding doCall_def by (intro trail_rules exchange_trail)

lemma posts: "''POST'' \<noteq> ''DELETE''" and gets: "''GET'' \<noteq> ''DELETE''" and puts: "''PUT'' \<noteq> ''DELETE''"
  by simp_all

lemmas call_rules = trail_rules doJSON_trail [OF posts] doJSON_trail [OF gets] doCall_trail [OF puts]

lemma adapter_name_trail: "preserves (trail keeping Q) (adapter_name h m)"
  unfolding adapter_name_def by (intro call_rules)

lemma adapter_trail: "preserves (trail keeping Q) (resolvePresetRuntimeAdapter h m req)"
  unfolding resolvePresetRuntimeAdapter_def by (intro call_rules adapter_name_trail)

lemma open_sandbox_trail: "preserves (trail keeping Q) (open_sandbox h r)"
  unfolding open_sandbox_def by (intro call_rules adapter_trail)

lemma uploadFiles_trail: "preserves (trail keeping Q) (uploadFiles h r i vars)"
  unfolding uploadFiles_def uploadFile_def by (intro call_rules)

lemma runStep_trail: "preserves (trail keeping Q) (runStep h i vars step)"
  unfolding runStep_def by (intro call_rules)

lemma runSteps_trail: "preserves (trail keeping Q) (runSteps h i vars steps)"
proof (induction steps)
  case Nil
  show ?case unfolding runSteps.simps by (rule trail.preserves_ok)
next
  case (Cons s steps)
  show ?case unfolding runSteps.simps by (intro call_rules runStep_trail Cons)
qed

lemma createTunnel_trail: "preserves (trail keeping Q) (createTunnel h t i)"
  unfolding createTunnel_def by (intro call_rules)

lemma early_tunnel_trail: "preserves (trail keeping Q) (early_tunnel h m i)"
  unfolding early_tunnel_def by (intro call_rules createTunnel_trail)

lemma late_tunnel_trail: "preserves (trail keeping Q) (late_tunnel h m i t)"
  unfolding late_tunnel_def by (intro call_rules createTunnel_trail)

lemma printTunnelBrowserURLs_trail: "preserves (trail keeping Q) (printTunnelBrowserURLs h m t vars)"
  unfolding printTunnelBrowserURLs_def createTunnelSignedURL_def by (intro call_rules)

text \<open>What an artifact writes: the file its local path resolves to, and the directory of that file.\<close>

definition local_write :: "preset_host \<Rightarrow> string \<Rightarrow> fs_op \<Rightarrow> bool" where
  "local_write ph baseDir oper \<longleftrightarrow>
     (\<exists>rel p. resolvePresetPath ph baseDir rel = Inr p \<and> (oper = MkdirAll (Dir p) \<or> (\<exists>data. oper = WriteFile p data)))"

lemma preserves_lift_bind:
  "(\<And>a. v = Inr a \<Longrightarrow> preserves (trail P Q) (k a)) \<Longrightarrow> preserves (trail P Q) (bindE (liftE v) k)"
  by (cases v) (auto simp: preserves_def bindE_def trail.R_refl)

lemma downloadArtifact_trail:
  "preserves (trail keeping (local_write (ck_files h) (mf_BaseDir m))) (downloadArtifact h m i a)"
  unfolding downloadArtifact_def
  by (intro trail.preserves_then trail.preserves_bind [OF doJSON_trail [OF gets]] preserves_lift_bind progress_trail write_trail)
    (auto simp: local_write_def)

lemma downloadArtifacts_trail:
  "preserves (trail keeping (local_write (ck_files h) (mf_BaseDir (pr_manifest r)))) (downloadArtifacts h r i)"
  unfolding downloadArtifacts_def by (intro call_rules downloadArtifact_trail)

section \<open>Runs that may not return\<close>

definition leads :: "('n ctl \<Rightarrow> 'n ctl \<Rightarrow> bool) \<Rightarrow> ('n, 'a) ctl_run \<Rightarrow> bool" where
  "leads R m \<longleftrightarrow> (\<forall>w r w'. m w = Some (r, w') \<longrightarrow> R w w')"

lemma leads_end: "preserves (trail P Q) m \<Longrightarrow> leads (trail P Q) (endP m)"
  by (auto simp: leads_def endP_def dest: preservesD)

lemma leads_step:
  "preserves (trail P Q) m \<Longrightarrow> (\<And>a. leads (trail P Q) (k a)) \<Longrightarrow> leads (trail P Q) (stepP m k)"
  by (auto simp: leads_def stepP_def split: prod.splits sum.splits dest!: preservesD intro: trail.R_trans)

lemma leads_wait:
  "leads (trail P Q) m \<Longrightarrow> (\<And>a. leads (trail P Q) (k a)) \<Longrightarrow> leads (trail P Q) (waitP m k)"
  by (auto simp: leads_def waitP_def split: option.splits prod.splits sum.splits) (blast intro: trail.R_trans)

lemma poll_leads:
  assumes "poll attempt pause deadline complaint w = Some y"
    and "\<And>w. trail P Q w (snd (attempt w))" and "\<And>w. trail P Q w (pause w)"
  shows "trail P Q w (snd y)"
proof -
  have "(\<forall>w. trail P Q w (snd (attempt w))) \<longrightarrow> (\<forall>w. trail P Q w (pause w)) \<longrightarrow> trail P Q w (snd y)"
  proof (rule poll.raw_induct [OF _ assms(1)])
    fix pl :: "('n ctl \<Rightarrow> (goerr + unit) option \<times> 'n ctl) \<Rightarrow> ('n ctl \<Rightarrow> 'n ctl) \<Rightarrow> time \<Rightarrow> string \<Rightarrow> ('n, unit) ctl_run"
      and attempt pause deadline complaint w y
    assume ih: "\<And>attempt pause deadline complaint w y. pl attempt pause deadline complaint w = Some y \<Longrightarrow>
        (\<forall>w. trail P Q w (snd (attempt w))) \<longrightarrow> (\<forall>w. trail P Q w (pause w)) \<longrightarrow> trail P Q w (snd y)"
      and y: "(if ct_clock w < deadline then
        (case attempt w of (None, w') \<Rightarrow> pl attempt pause deadline complaint (pause w') | (Some r, w') \<Rightarrow> Some (r, w'))
        else Some (Inl (Err complaint), w)) = Some y"
    show "(\<forall>w. trail P Q w (snd (attempt w))) \<longrightarrow> (\<forall>w. trail P Q w (pause w)) \<longrightarrow> trail P Q w (snd y)"
    proof (intro impI)
      assume a: "\<forall>w. trail P Q w (snd (attempt w))" and p: "\<forall>w. trail P Q w (pause w)"
      obtain o1 w1 where at: "attempt w = (o1, w1)" by (cases "attempt w")
      from a at have "trail P Q w w1" by (metis snd_conv)
      with p have q: "trail P Q w (pause w1)" by (metis trail.R_trans)
      from y at show "trail P Q w (snd y)"
        using ih [of attempt pause deadline complaint "pause w1" y] a p q \<open>trail P Q w w1\<close>
        by (auto split: if_splits option.splits intro: trail.R_trans trail.R_refl)
    qed
  qed
  with assms show ?thesis by blast
qed

lemma undecided_trail: "preserves (trail P Q) m \<Longrightarrow> trail P Q w (snd (undecided m k w))"
  by (auto simp: undecided_def split: prod.split sum.split dest: preservesD)

lemma sleep_trail: "trail P Q w (sleep h d w)"
  by (simp add: sleep_def trail_def appended_refl)

lemma guest_attempt_trail: "trail keeping Q w (snd (guest_attempt h i w))"
  unfolding guest_attempt_def by (rule undecided_trail, rule doJSON_trail, rule gets)

lemma guest_wait_leads: "leads (trail keeping Q) (waitForGuestReady h a i)"
  unfolding leads_def
proof (intro allI impI)
  fix w r w'
  assume run: "waitForGuestReady h a i w = Some (r, w')"
  show "trail keeping Q w w'"
  proof (cases "ra_requiresGuestReady a")
    case True
    let ?w = "snd (printlnProgress ''waiting for guest-ready'' (ra_name a) w)"
    from run True have "poll (guest_attempt h i) (sleep h presetGuestReadyInterval)
      (ct_clock ?w + presetGuestReadyTimeout) ''timed out waiting for guest readiness'' ?w = Some (r, w')"
      by (simp only: waitForGuestReady_def Let_def simp_thms if_False)
    from poll_leads [OF this guest_attempt_trail sleep_trail] have "trail keeping Q ?w w'" by simp
    with progress_after show ?thesis by (rule trail.R_trans)
  qed (use run in \<open>simp add: waitForGuestReady_def trail.R_refl\<close>)
qed

lemma readiness_attempt_trail: "trail keeping Q w (snd (readiness_attempt h rc i vars t w))"
  unfolding readiness_attempt_def Let_def
  by (auto simp: keeping_def trail.R_refl split: option.split intro!: undecided_trail doJSON_trail send_trail)

lemma readiness_wait_leads: "leads (trail keeping Q) (waitForReadiness h r i vars t)"
  unfolding leads_def
proof (intro allI impI)
  fix w x w'
  assume run: "waitForReadiness h r i vars t w = Some (x, w')"
  show "trail keeping Q w w'"
  proof (cases "mf_Readiness (pr_manifest r)")
    case (Some rc)
    let ?w = "snd (printlnProgress ''waiting for readiness'' (rc_Type rc) w)"
    from run have "poll (readiness_attempt h rc i vars t) (sleep h (rc_Interval rc)) (ct_clock ?w + rc_Timeout rc)
      ''timed out waiting for preset readiness'' ?w = Some (x, w')"
      by (simp only: waitForReadiness_def Some option.case Let_def)
    from poll_leads [OF this readiness_attempt_trail sleep_trail] have "trail keeping Q ?w w'" by simp
    with progress_after show ?thesis by (rule trail.R_trans)
  qed (use run in \<open>simp add: waitForReadiness_def trail.R_refl\<close>)
qed

lemma run_body_leads:
  "leads (trail keeping (local_write (ck_files h) (mf_BaseDir (pr_manifest r)))) (run_body h r a i vars)"
  unfolding run_body_def Let_def
  by (intro leads_wait leads_step leads_end guest_wait_leads readiness_wait_leads uploadFiles_trail runSteps_trail
      early_tunnel_trail late_tunnel_trail downloadArtifacts_trail trail.preserves_case_option trail.preserves_ok
      runStep_trail printTunnelBrowserURLs_trail)

section \<open>Clean-up\<close>

text \<open>The call the clean-up makes; none when the URL cannot be built.\<close>

definition deletion :: "'n ctl_host \<Rightarrow> string \<Rightarrow> http_call list" where
  "deletion h sandboxID =
     (case buildRequestURL (ck_ParseOrigin h) (ck_baseURL h) (sandbox_url sandboxID []) of
        Inl e \<Rightarrow> []
      | Inr url \<Rightarrow> [\<lparr>hc_Method = ''DELETE'', hc_URL = url, hc_Header = [(''Authorization'', ''Bearer '' @ ck_token h)],
          hc_Body = None\<rparr>])"

lemma doCall_deletion:
  "ct_calls (snd (doCall h ''DELETE'' (sandbox_url i []) None w)) = ct_calls w @ deletion h i \<and>
   ct_files (snd (doCall h ''DELETE'' (sandbox_url i []) None w)) = ct_files w"
  by (cases "buildRequestURL (ck_ParseOrigin h) (ck_baseURL h) (sandbox_url i [])")
    (auto simp: doCall_def exchange_def deletion_def bindE_def send_def split: prod.splits sum.splits)

lemma Run_cases:
  assumes "Run h r w = Some (res, w')"
  obtains (Refused) e where "open_sandbox h r w = (Inl e, w')" and "res = Inl e"
  | (Opened) a i vars w1 w2 where "open_sandbox h r w = (Inr (a, i, vars), w1)"
      and "run_body h r a i vars w1 = Some (res, w2)"
      and "w' = (if shouldCleanup (cleanup_policy r) (res = Inr ())
                 then snd (doCall h ''DELETE'' (sandbox_url i []) None w2) else w2)"
  using assms by (auto simp: Run_def split: prod.splits sum.splits option.splits)

lemma Run_opened_trail:
  assumes "open_sandbox h r w = (Inr (a, i, vars), w1)" and "run_body h r a i vars w1 = Some (res, w2)"
  shows "trail keeping (local_write (ck_files h) (mf_BaseDir (pr_manifest r))) w w2"
  using preservesD [OF open_sandbox_trail assms(1)] run_body_leads assms(2) unfolding leads_def by (metis trail.R_trans)

text \<open>
  C32: a preset run deletes the sandbox it created, exactly when its clean-up policy says so, and nothing else.
  Either no sandbox was created, and no deletion is requested; or the calls of the run contain no deletion
  but a last one, of the sandbox the server returned, which is made exactly when the policy is to clean up
  always, or on success and the run succeeded.
\<close>

theorem preset_cleanup:
  assumes "Run h r w = Some (res, w')"
  shows "(\<exists>e. open_sandbox h r w = (Inl e, w') \<and> res = Inl e \<and> appended keeping (ct_calls w) (ct_calls w')) \<or>
     (\<exists>a i vars w1 calls. open_sandbox h r w = (Inr (a, i, vars), w1) \<and> list_all keeping calls \<and>
        ct_calls w' = ct_calls w @ calls @
          (if shouldCleanup (cleanup_policy r) (res = Inr ()) then deletion h i else []))"
  using assms
proof (cases rule: Run_cases)
  case (Refused e)
  then show ?thesis using preservesD [OF open_sandbox_trail Refused(1)] by (auto simp: trail_def)
next
  case (Opened a i vars w1 w2)
  from Run_opened_trail [OF Opened(1,2)] obtain calls where c: "ct_calls w2 = ct_calls w @ calls" "list_all keeping calls"
    by (auto simp: trail_def appended_iff)
  have "ct_calls w' = ct_calls w @ calls @ (if shouldCleanup (cleanup_policy r) (res = Inr ()) then deletion h i else [])"
    unfolding Opened(3) using c(1) doCall_deletion [of h i w2] by simp
  with Opened(1) c(2) show ?thesis by blast
qed

text \<open>A run that creates a sandbox, downloads one artifact and cleans up.\<close>

definition artifact_manifest :: manifest where
  "artifact_manifest = (Normalize bare_manifest)
     \<lparr>mf_Name := ''demo'', mf_Readiness := None, mf_BaseDir := ''/repo/examples/demo'',
      mf_Artifacts := [\<lparr>ar_RemotePath = ''out.txt'', ar_LocalPath = ''results/out.txt'', ar_Binary = False\<rparr>]\<rparr>"

definition artifact_runner :: preset_runner where
  "artifact_runner = \<lparr>pr_manifest = artifact_manifest, pr_rootDir = ''/repo/examples'', pr_cleanupOverride = [], pr_keep = False,
     pr_inputOverrides = Map.empty, pr_dotEnvValues = Map.empty, pr_sandboxOverrides = Map.empty\<rparr>"

definition obliging_codec :: json_codec where
  "obliging_codec =
     \<lparr>jc_Marshal = (\<lambda>_. Inr ''{}''), jc_Sandbox = (\<lambda>_. Inr (zero_sandbox\<lparr>sb_ID := ''sbx-1''\<rparr>)), jc_Sandboxes = (\<lambda>_. Inr []),
      jc_Execution = (\<lambda>_. Inr zero_execution), jc_File = (\<lambda>_. Inr (zero_file\<lparr>fr_Content := ''done''\<rparr>)),
      jc_Tunnel = (\<lambda>_. Inr zero_tunnel), jc_Tunnels = (\<lambda>_. Inr []), jc_SignedURL = (\<lambda>_. Inr zero_signed),
      jc_Snapshot = (\<lambda>_. Inr zero_snapshot), jc_Snapshots = (\<lambda>_. Inr []), jc_Info = (\<lambda>_. Inr zero_info),
      jc_Health = (\<lambda>_. Inr zero_health), jc_Any = (\<lambda>t. Inr t)\<rparr>"

definition obliging_host :: "unit ctl_host" where
  "obliging_host =
     \<lparr>ck_baseURL = ''http://api'', ck_token = ''t'', ck_Do = (\<lambda>_ n. (Inr (200, ''{}''), 1, n)),
      ck_ParseOrigin = (\<lambda>_. Inr ''http://api''), ck_CheckURL = (\<lambda>_. None), ck_codec = obliging_codec,
      ck_files = preset_files, ck_WriteError = (\<lambda>_. None), ck_Late = (\<lambda>_. 0)\<rparr>"

definition idle_ctl :: "unit ctl" where
  "idle_ctl = \<lparr>ct_net = (), ct_clock = 0, ct_calls = [], ct_files = [], ct_out = []\<rparr>"

lemma artifact_run:
  "(case Run obliging_host artifact_runner idle_ctl of
      Some (Inr _, w) \<Rightarrow> ct_files w = [MkdirAll ''/repo/examples/demo/results'', WriteFile ''/repo/examples/demo/results/out.txt'' ''done'']
    | _ \<Rightarrow> False)"
  by code_simp

lemma artifact_open:
  "(case open_sandbox obliging_host artifact_runner idle_ctl of (Inr (a, i, vars), w) \<Rightarrow> i = ''sbx-1'' | _ \<Rightarrow> False)"
  by code_simp

theorem preset_cleanup_witness:
  "\<exists>w' calls. Run obliging_host artifact_runner idle_ctl = Some (Inr (), w') \<and> list_all keeping calls \<and>
     ct_calls w' = calls @ deletion obliging_host ''sbx-1''"
proof -
  from artifact_run obtain w' where r: "Run obliging_host artifact_runner idle_ctl = Some (Inr (), w')"
    by (auto split: option.splits prod.splits sum.splits)
  have p: "shouldCleanup (cleanup_policy artifact_runner) True" by code_simp
  have i: "ct_calls idle_ctl = []" by (simp add: idle_ctl_def)
  from preset_cleanup [OF r] artifact_open p i show ?thesis using r by (auto split: sum.splits prod.splits)
qed

lemma resolvePresetPath_contained:
  assumes "resolvePresetPath ph baseDir rel = Inr p" and "ho_Abs ph baseDir = Inr base" and "abs_clean base"
  shows "under base p"
proof -
  let ?j = "Join [base, TrimSpace rel]"
  from assms(1,2) have p: "p = Clean ?j" and ne: "TrimSpace rel \<noteq> []"
    and w: "pathWithinRoot base p"
    by (auto simp: resolvePresetPath_def pathWithinRoot_def Let_def split: if_splits option.splits)
  from assms(3) have a: "IsAbs base" by (auto simp: abs_clean_def)
  then have "base \<noteq> []" by (auto simp: IsAbs_def HasPrefix_def)
  with ne have "?j = Clean (base @ ''/'' @ TrimSpace rel)" by (simp add: Join_def)
  moreover have "IsAbs (base @ ''/'' @ TrimSpace rel)"
    using a by (cases base) (auto simp: IsAbs_def HasPrefix_def)
  ultimately have "abs_clean ?j" by (simp only: Clean_abs)
  then have "abs_clean p" unfolding p abs_clean_def by auto
  with pathWithinRoot_under [OF assms(3) _ w] show ?thesis by simp
qed

text \<open>Where a run may write, given the absolute directory of the preset.\<close>

definition below :: "string \<Rightarrow> fs_op \<Rightarrow> bool" where
  "below base oper =
     (case oper of
        WriteFile p data \<Rightarrow> under base p
      | MkdirAll d \<Rightarrow> (\<exists>p. under base p \<and> d = Dir p)
      | _ \<Rightarrow> False)"

lemma local_write_below:
  assumes "ho_Abs ph baseDir = Inr base" and "abs_clean base" and "local_write ph baseDir oper"
  shows "below base oper"
  using assms(3) resolvePresetPath_contained [OF _ assms(1,2)] by (auto simp: local_write_def below_def) blast

text \<open>
  C33: a preset run writes below the preset's own directory only. Whatever local paths the manifest names and
  whatever the server answers, every file it writes on the client's machine is, as a path, inside the
  directory of the manifest, and the directories it makes are those of such files.
\<close>

theorem preset_writes_contained:
  assumes "Run h r w = Some (res, w')"
    and "ho_Abs (ck_files h) (mf_BaseDir (pr_manifest r)) = Inr base" and "abs_clean base"
  shows "appended (below base) (ct_files w) (ct_files w')"
  using assms(1)
proof (cases rule: Run_cases)
  case (Refused e)
  then show ?thesis using preservesD [OF open_sandbox_trail [of "below base"] Refused(1)] by (simp add: trail_def)
next
  case (Opened a i vars w1 w2)
  from Run_opened_trail [OF Opened(1,2)] have "appended (below base) (ct_files w) (ct_files w2)"
    using local_write_below [OF assms(2,3)] by (auto simp: trail_def appended_iff list_all_iff)
  moreover have "ct_files w' = ct_files w2" unfolding Opened(3) using doCall_deletion [of h i w2] by simp
  ultimately show ?thesis by simp
qed

theorem preset_writes_contained_witness:
  "\<exists>w'. Run obliging_host artifact_runner idle_ctl = Some (Inr (), w') \<and>
     appended (below ''/repo/examples/demo'') [] (ct_files w') \<and>
     ct_files w' = [MkdirAll ''/repo/examples/demo/results'', WriteFile ''/repo/examples/demo/results/out.txt'' ''done'']"
proof -
  from artifact_run obtain w' where r: "Run obliging_host artifact_runner idle_ctl = Some (Inr (), w')"
    and f: "ct_files w' = [MkdirAll ''/repo/examples/demo/results'', WriteFile ''/repo/examples/demo/results/out.txt'' ''done'']"
    by (auto split: option.splits prod.splits sum.splits)
  have a: "ho_Abs (ck_files obliging_host) (mf_BaseDir (pr_manifest artifact_runner)) = Inr ''/repo/examples/demo''" by code_simp
  have "''/repo/examples/demo'' = abs_path [''repo'', ''examples'', ''demo''] \<and> list_all plain [''repo'', ''examples'', ''demo'']"
    by code_simp
  then have c: "abs_clean ''/repo/examples/demo''" unfolding abs_clean_def by blast
  have i: "ct_files idle_ctl = []" by (simp add: idle_ctl_def)
  from preset_writes_contained [OF r a c] r f show ?thesis unfolding i by blast
qed

section \<open>The file a path names\<close>

text \<open>Characters that mean nothing special in a URL reference.\<close>

definition literal :: "char \<Rightarrow> bool" where
  "literal c \<longleftrightarrow> c \<notin> set ''%?#'' \<and> \<not> is_control c"

lemma unescape_literal: "CHR ''%'' \<notin> set s \<Longrightarrow> url_unescape EncodePath s = Some s"
  by (induction s) auto

lemma question_mark: "\<not> is_control (CHR ''?'')"
  by code_simp

definition query_suffix :: "string option \<Rightarrow> string" where
  "query_suffix q = (case q of None \<Rightarrow> [] | Some x \<Rightarrow> ''?'' @ x)"

lemma parse_endpoint_literal:
  assumes "list_all literal s" and "list_all literal (case q of None \<Rightarrow> [] | Some x \<Rightarrow> x)"
  shows "parse_endpoint (s @ query_suffix q) = Some \<lparr>rf_Path = s, rf_Query = q\<rparr>"
proof -
  let ?t = "s @ query_suffix q"
  from assms have "CHR ''#'' \<notin> set ?t"
    by (cases q) (auto simp: literal_def list_all_iff query_suffix_def)
  from assms question_mark have nc: "\<forall>c \<in> set ?t. \<not> is_control c"
    by (cases q) (auto simp: literal_def list_all_iff query_suffix_def)
  from \<open>CHR ''#'' \<notin> set ?t\<close>
  have f: "split_first (CHR ''#'') ?t = (?t, None)" by (rule split_first_absent)
  from assms(1) have "CHR ''?'' \<notin> set s" and u: "url_unescape EncodePath s = Some s"
    by (auto simp: literal_def list_all_iff intro!: unescape_literal)
  then have "split_first (CHR ''?'') ?t = (s, q)"
    by (cases q) (simp_all add: query_suffix_def split_first_absent split_first_append)
  with f nc u show ?thesis by (auto simp: parse_endpoint_def)
qed

lemma escape_path_chars: "c \<in> set (url_escape EncodePath s) \<Longrightarrow> path_char c"
proof -
  assume "c \<in> set (url_escape EncodePath s)"
  then have "\<not> shouldEscape EncodePath c \<or> c \<in> set ''%+''" using escape_chars_of by fastforce
  moreover have "list_all path_char ''%+''" by code_simp
  ultimately show "path_char c" unfolding list_all_iff using path_charI [of c] by blast
qed

lemma ParseRequestURI_target:
  assumes "HasPrefix full ''/''" and "list_all literal (case q of None \<Rightarrow> [] | Some x \<Rightarrow> x)"
  shows "ParseRequestURI (request_target \<lparr>rf_Path = full, rf_Query = q\<rparr>) =
    Some \<lparr>url_path = \<lparr>up_Path = full, up_RawPath = []\<rparr>, url_RawQuery = (case q of None \<Rightarrow> [] | Some x \<Rightarrow> x)\<rparr>"
proof -
  let ?e = "url_escape EncodePath full"
  have "CHR ''?'' \<notin> set ?e" and nc: "\<forall>c \<in> set ?e. \<not> is_control c"
    using escape_path_chars by (auto simp: path_char_def)
  then have sp: "split_first (CHR ''?'') (?e @ (case q of None \<Rightarrow> [] | Some x \<Rightarrow> ''?'' @ x)) = (?e, q)"
    by (cases q) (simp_all add: split_first_absent split_first_append)
  have "setPath ?e = Some \<lparr>up_Path = full, up_RawPath = []\<rparr>" by (simp add: setPath_def)
  moreover have "HasPrefix (?e @ (case q of None \<Rightarrow> [] | Some x \<Rightarrow> ''?'' @ x)) ''/''" using assms(1) by (auto simp: HasPrefix_iff)
  moreover have "\<forall>c \<in> set (?e @ (case q of None \<Rightarrow> [] | Some x \<Rightarrow> ''?'' @ x)). \<not> is_control c"
    using nc assms(2) question_mark by (cases q) (auto simp: literal_def list_all_iff)
  ultimately show ?thesis by (simp only: request_target_def reference.simps ParseRequestURI_def sp) (simp add: Let_def)
qed

text \<open>Escaping a path escapes its components.\<close>

lemma escape_append: "url_escape mode (a @ b) = url_escape mode a @ url_escape mode b"
  by (simp add: url_escape_def)

lemma escape_Nil [simp]: "url_escape mode [] = []"
  by (simp add: url_escape_def)

lemma escape_eq_Nil [simp]: "url_escape mode s = [] \<longleftrightarrow> s = []"
  by (metis escape_Nil option.inject unescape_escape)

lemma escape_join: "url_escape EncodePath (join_with ''/'' cs) = join_with ''/'' (map (url_escape EncodePath) cs)"
  by (induction "''/''" cs rule: join_with.induct) (simp_all add: escape_append)

lemma escape_abs_path: "url_escape EncodePath (abs_path cs) = abs_path (map (url_escape EncodePath) cs)"
  by (simp add: abs_path_def render_def escape_join)

lemma escape_inj: "url_escape mode a = url_escape mode b \<longleftrightarrow> a = b"
  by (metis option.inject unescape_escape)

lemma escape_dots: "url_escape EncodePath ''.'' = ''.''" "url_escape EncodePath ''..'' = ''..''"
  by code_simp+

lemma escape_no_slash: "slash \<notin> set c \<Longrightarrow> slash \<notin> set (url_escape EncodePath c)"
proof -
  have "slash \<notin> set (escape_byte EncodePath x)" if "x \<noteq> slash" for x
  proof -
    have "hex_char n \<noteq> slash" if "n < 16" for n using hex_char_alnum [OF that] by (auto simp: slash_def is_alnum_def)
    moreover have "(of_char x :: nat) div 16 < 16" "(of_char x :: nat) mod 16 < 16"
      using byte_lt [of x] by (simp_all add: less_mult_imp_div_less)
    ultimately have "slash \<noteq> hex_char (of_char x div 16)" "slash \<noteq> hex_char (of_char x mod 16)" by metis+
    then show ?thesis using that by (auto simp: escape_byte_def slash_def)
  qed
  then show "slash \<notin> set c \<Longrightarrow> slash \<notin> set (url_escape EncodePath c)" by (auto simp: url_escape_def) metis
qed

lemma escape_plain: "plain c \<Longrightarrow> plain (url_escape EncodePath c)"
  using escape_no_slash escape_inj [of EncodePath c "''.''"] escape_inj [of EncodePath c "''..''"]
  by (simp add: plain_def escape_dots)

lemma escape_all_plain: "list_all plain cs \<Longrightarrow> list_all plain (map (url_escape EncodePath) cs)"
  by (simp add: list_all_iff escape_plain)

text \<open>A path of plain components passes the server's cleaning and comes apart into its components.\<close>

lemma last_abs_path:
  assumes "list_all plain cs" and "cs \<noteq> []"
  shows "last (abs_path cs) \<noteq> slash"
proof -
  obtain ds d where cs: "cs = ds @ [d]" using assms(2) by (metis append_butlast_last_id)
  with assms(1) have d: "d \<noteq> []" "slash \<notin> set d" by (auto simp: plain_def)
  have "\<exists>t. join_with ''/'' cs = t @ d" unfolding cs
    by (cases "ds = []") (auto simp: join_with_append_rel)
  moreover have "last d \<noteq> slash" using d last_in_set [of d] by metis
  ultimately show ?thesis using d by (auto simp: abs_path_def render_def)
qed

lemma cleanPath_plain: "list_all plain cs \<Longrightarrow> cs \<noteq> [] \<Longrightarrow> cleanPath (abs_path cs) = abs_path cs"
  using IsAbs_abs_path [of cs] last_abs_path [of cs]
  by (auto simp: cleanPath_def IsAbs_def Let_def HasPrefix_def)

lemma segments_escaped:
  assumes "list_all plain cs" and "cs \<noteq> []"
  shows "segments (url_escape EncodePath (abs_path cs)) = cs"
proof -
  let ?es = "map (url_escape EncodePath) cs"
  have "TrimPrefix (abs_path ?es) ''/'' = join_with ''/'' ?es"
    by (simp add: TrimPrefix_def abs_path_def render_def HasPrefix_def)
  moreover have "split_on slash (join_with ''/'' ?es) = ?es"
    using escape_all_plain [OF assms(1)] assms(2) by (intro split_join_plain) simp_all
  ultimately show ?thesis by (simp add: segments_def escape_abs_path comp_def)
qed

lemma ServeHTTP_plain:
  assumes "list_all plain cs" and "cs \<noteq> []" and "hr_Method (ac_Request call) \<noteq> ''CONNECT''"
    and "url_path (hr_URL (ac_Request call)) = \<lparr>up_Path = abs_path cs, up_RawPath = []\<rparr>"
  shows "ServeHTTP api ctx call = dispatch api ctx call (mux_route cs)"
proof -
  have "abs_path cs \<noteq> ''*''" by (simp add: abs_path_def render_def)
  with assms(4) have e: "EscapedPath (url_path (hr_URL (ac_Request call))) = url_escape EncodePath (abs_path cs)"
    by (simp add: EscapedPath_def)
  have "cleanPath (url_escape EncodePath (abs_path cs)) = url_escape EncodePath (abs_path cs)"
    unfolding escape_abs_path using cleanPath_plain escape_all_plain [OF assms(1)] assms(2) by simp
  with segments_escaped [OF assms(1,2)] assms(3) show ?thesis by (simp add: ServeHTTP_def e Let_def)
qed

text \<open>A path that the client accepts consists of plain components.\<close>

lemma normalizeWorkspaceAPIPath_plain:
  assumes "normalizeWorkspaceAPIPath raw = Inr p" and "p \<noteq> []"
  shows "\<exists>cs. cs \<noteq> [] \<and> list_all plain cs \<and> p = rel_path cs"
proof (cases "HasPrefix (TrimSpace raw) ''/''")
  case True
  with assms have pre: "HasPrefix (Clean (TrimSpace raw)) ''/workspace/''"
    and p: "p = TrimPrefix (Clean (TrimSpace raw)) ''/workspace/''"
    by (auto simp: normalizeWorkspaceAPIPath_def Let_def split: if_splits)
  from True have "abs_clean (Clean (TrimSpace raw))" by (intro Clean_abs) (simp add: IsAbs_def)
  then obtain cs where cs: "list_all plain cs" "Clean (TrimSpace raw) = abs_path cs" by (auto simp: abs_clean_def)
  from pre p cs(2) have a: "abs_path cs = ''/workspace/'' @ p"
    by (auto simp: HasPrefix_iff TrimPrefix_def HasPrefix_def)
  have "split_on slash (''/workspace/'' @ p) = [] # ''workspace'' # split_on slash p" by (simp add: slash_def)
  with a split_abs_path [OF cs(1)] have "cs = ''workspace'' # split_on slash p" by (auto split: if_splits)
  with cs(1) have "list_all plain (split_on slash p)" by simp
  moreover have "p = rel_path (split_on slash p)" by (simp add: rel_path_def slash_str join_split_with)
  ultimately show ?thesis by (metis split_on_nonempty)
next
  case False
  let ?cs = "clean_comps False (split_on slash (TrimSpace raw))"
  have c: "Clean (TrimSpace raw) = render False ?cs" using False by (simp add: Clean_def IsAbs_def)
  from assms False have r: "Clean (TrimSpace raw) \<noteq> ''.''" "Clean (TrimSpace raw) \<noteq> ''..''"
      "\<not> HasPrefix (Clean (TrimSpace raw)) ''../''" and p: "p = TrimPrefix (Clean (TrimSpace raw)) ''./''"
    by (auto simp: normalizeWorkspaceAPIPath_def Let_def split: if_splits)
  have cs: "list_all plain ?cs \<and> ?cs \<noteq> []" using render_relative_plain [OF clean_form_split] r c by metis
  then have q: "Clean (TrimSpace raw) = rel_path ?cs" using c by (simp add: render_def rel_path_def)
  have "hd (split_on slash (rel_path ?cs)) \<noteq> ''.''"
    using cs split_join_plain [of ?cs] by (cases ?cs) (auto simp: rel_path_def plain_def)
  then have "\<not> HasPrefix (rel_path ?cs) ''./''" by (auto simp: HasPrefix_iff slash_def)
  with p q have "p = rel_path ?cs" by (simp add: TrimPrefix_def)
  with cs show ?thesis by blast
qed

section \<open>Agreement between client and server\<close>

definition file_comps :: "string \<Rightarrow> string list \<Rightarrow> string list" where
  "file_comps i cs = [''v1'', ''sandboxes'', i, ''files''] @ cs"

lemma file_url_comps: "cs \<noteq> [] \<Longrightarrow> file_url i (rel_path cs) = abs_path (file_comps i cs)"
  by (cases cs) (simp_all add: file_url_def sandbox_url_def file_comps_def abs_path_def render_def rel_path_def)

lemma file_comps_plain: "plain i \<Longrightarrow> list_all plain cs \<Longrightarrow> list_all plain (file_comps i cs)"
  by (simp add: file_comps_def plain_def slash_def)

lemma trim_left_abs_path:
  assumes "list_all plain cs" and "cs \<noteq> []"
  shows "trim_left_by (\<lambda>c. c = slash) (abs_path cs @ t) = join_with ''/'' cs @ t"
proof -
  have "\<not> IsAbs (join_with ''/'' cs)" by (rule join_plain_hd [OF assms(1)])
  moreover have "join_with ''/'' cs \<noteq> []"
    using split_join_plain [OF assms] assms by (cases cs) (auto simp: plain_def)
  ultimately obtain x xs where "join_with ''/'' cs = x # xs" "x \<noteq> slash"
    by (cases "join_with ''/'' cs") (auto simp: IsAbs_def HasPrefix_def slash_def)
  then show ?thesis by (simp add: trim_left_by_def abs_path_def render_def slash_def)
qed

text \<open>The request for an endpoint made of plain components asks for that path.\<close>

lemma buildRequestURL_plain:
  assumes "list_all plain cs" and "cs \<noteq> []" and "list_all literal (join_with ''/'' cs)"
    and "list_all literal (case q of None \<Rightarrow> [] | Some x \<Rightarrow> x)"
    and "parse_origin (trim_slashes base @ ''/'') = Inr origin"
  shows "buildRequestURL parse_origin base (abs_path cs @ query_suffix q) =
    Inr (origin @ request_target \<lparr>rf_Path = abs_path cs, rf_Query = q\<rparr>)"
proof -
  have "''/'' @ join_with ''/'' cs = abs_path cs" by (simp add: abs_path_def render_def)
  with assms(1) have "Clean (''/'' @ join_with ''/'' cs) = abs_path cs" by simp
  then show ?thesis
    by (simp add: buildRequestURL_def assms(5) trim_left_abs_path [OF assms(1,2)] parse_endpoint_literal [OF assms(3,4)])
qed

lemma literal_join: "list_all literal (join_with ''/'' cs) \<longleftrightarrow> list_all (list_all literal) cs"
proof -
  have "literal (CHR ''/'')" by code_simp
  then show ?thesis by (induction "''/''" cs rule: join_with.induct) auto
qed

lemma literal_file: "list_all literal i \<Longrightarrow> list_all literal (rel_path cs) \<Longrightarrow> list_all literal (join_with ''/'' (file_comps i cs))"
proof -
  have "list_all (list_all literal) [''v1'', ''sandboxes'', ''files'', ''/'']" by code_simp
  then show "list_all literal i \<Longrightarrow> list_all literal (rel_path cs) \<Longrightarrow> list_all literal (join_with ''/'' (file_comps i cs))"
    by (simp add: rel_path_def literal_join file_comps_def)
qed

lemma ServeHTTP_file:
  assumes "plain i" and "list_all plain cs" and "cs \<noteq> []" and "hr_Method (ac_Request call) \<noteq> ''CONNECT''"
    and "url_path (hr_URL (ac_Request call)) = \<lparr>up_Path = file_url i (rel_path cs), up_RawPath = []\<rparr>"
  shows "ServeHTTP api (Some c) call =
    requireFilePermission (Some c) (ac_Request call) (handleFiles api call (tenant_of c) i (rel_path cs))"
proof -
  from assms(3) have ne: "file_comps i cs \<noteq> []" and route: "mux_route (file_comps i cs) = RouteSandbox"
    by (simp_all add: file_comps_def mux_route_def)
  have s: "ServeHTTP api (Some c) call = handleSandboxRoutes api (Some c) call"
    using ServeHTTP_plain [OF file_comps_plain [OF assms(1,2)] ne assms(4), of api "Some c"] assms(3,5)
    by (simp add: file_url_comps route dispatch_def)
  have "TrimPrefix (file_url i (rel_path cs)) ''/v1/sandboxes/'' = join_with ''/'' (i # ''files'' # cs)"
    using assms(3) by (cases cs) (simp_all add: file_url_def sandbox_url_def TrimPrefix_def HasPrefix_def rel_path_def)
  moreover have "split_on slash (join_with ''/'' (i # ''files'' # cs)) = i # ''files'' # cs"
    using assms(1,2) by (intro split_join_plain) (simp_all add: plain_def slash_def)
  ultimately have "path_parts ''/v1/sandboxes/'' (ac_Request call) = i # ''files'' # cs"
    using assms(5) by (simp only: path_parts_def url_path.simps)
  moreover have "i \<noteq> []" using assms(1) by (simp add: plain_def)
  ultimately show ?thesis
    by (simp add: s handleSandboxRoutes_def identified_def sandbox_action_def Let_def rel_path_def)
qed

text \<open>
  Client and server mean the same file. When the path a user gives is accepted by the client and neither it
  nor the sandbox identifier contains a percent sign, a question mark, a number sign or a control character,
  then the request that \<open>sandboxctl\<close> builds for it, with or without the query that asks for base64, is one
  that the server's router hands to the file handler for exactly that sandbox and that path, and the path is
  one that the service takes as it is.
\<close>

theorem client_file_request:
  assumes "normalizeWorkspaceAPIPath raw = Inr p" and "p \<noteq> []" and "plain i" and "list_all literal (i @ p)"
    and "parse_origin (trim_slashes base @ ''/'') = Inr origin" and "q = None \<or> q = Some ''encoding=base64''"
  shows "cleanWorkspaceRelativePath p = Inr p \<and>
    (\<exists>target u. buildRequestURL parse_origin base (file_url i p @ query_suffix q) = Inr (origin @ target) \<and>
       ParseRequestURI target = Some u \<and>
       (\<forall>api c call. hr_URL (ac_Request call) = u \<longrightarrow> hr_Method (ac_Request call) \<noteq> ''CONNECT'' \<longrightarrow>
          ServeHTTP api (Some c) call =
            requireFilePermission (Some c) (ac_Request call) (handleFiles api call (tenant_of c) i p)))"
proof -
  from normalizeWorkspaceAPIPath_plain [OF assms(1,2)] obtain cs where
    cs: "cs \<noteq> []" "list_all plain cs" and p: "p = rel_path cs" by blast
  have ql: "list_all literal (case q of None \<Rightarrow> [] | Some x \<Rightarrow> x)"
  proof -
    have "list_all literal ''encoding=base64''" by code_simp
    with assms(6) show ?thesis by auto
  qed
  let ?t = "request_target \<lparr>rf_Path = file_url i p, rf_Query = q\<rparr>"
  have ne: "file_comps i cs \<noteq> []" by (simp add: file_comps_def)
  from assms(4) have lit: "list_all literal (join_with ''/'' (file_comps i cs))"
    unfolding p by (simp add: literal_file)
  have "buildRequestURL parse_origin base (file_url i p @ query_suffix q) = Inr (origin @ ?t)"
    unfolding p file_url_comps [OF cs(1)]
    by (rule buildRequestURL_plain [where parse_origin = parse_origin, OF file_comps_plain [OF assms(3) cs(2)] ne lit ql assms(5)])
  moreover have "ParseRequestURI ?t = Some \<lparr>url_path = \<lparr>up_Path = file_url i p, up_RawPath = []\<rparr>,
      url_RawQuery = (case q of None \<Rightarrow> [] | Some x \<Rightarrow> x)\<rparr>"
    by (rule ParseRequestURI_target [OF _ ql]) (simp add: file_url_def sandbox_url_def HasPrefix_def)
  ultimately show ?thesis
    using clean_relative_of_plain [OF cs(2,1)] unfolding p
    by (intro conjI exI [of _ ?t] exI allI impI) (assumption | simp add: ServeHTTP_file [OF assms(3) cs(2,1)] p)+
qed


section \<open>Percent signs\<close>

lemma unescape_append:
  "CHR ''%'' \<notin> set a \<Longrightarrow> url_unescape EncodePath (a @ b) = map_option ((@) a) (url_unescape EncodePath b)"
  by (induction a; cases "url_unescape EncodePath b") auto

lemma unescape_dots:
  "url_unescape EncodePath (''%2e%2e/%2e%2e/'' @ b) = map_option ((@) ''../../'') (url_unescape EncodePath b)"
proof -
  have "unhex (CHR ''2'') = Some 2" "unhex (CHR ''e'') = Some 14" "char_of (46 :: nat) = CHR ''.''" by code_simp+
  then show ?thesis by (cases "url_unescape EncodePath b") simp_all
qed

lemma other_comps:
  assumes "plain other" and "cs \<noteq> []" and "list_all plain cs"
  shows "split_on slash (other @ ''/files/'' @ rel_path cs) = other # ''files'' # cs"
proof -
  have "other @ ''/files/'' @ rel_path cs = join_with ''/'' (other # ''files'' # cs)"
    using assms(2) by (cases cs) (simp_all add: rel_path_def)
  moreover have "split_on slash (join_with ''/'' (other # ''files'' # cs)) = other # ''files'' # cs"
    using assms by (intro split_join_plain) (simp_all add: plain_def slash_def)
  ultimately show ?thesis by simp
qed

lemma TrimSpace_unspaced:
  assumes "list_all (\<lambda>c. \<not> is_space c) s"
  shows "TrimSpace s = s"
proof -
  have "dropWhile is_space t = t" if "list_all (\<lambda>c. \<not> is_space c) t" for t using that by (cases t) auto
  from this [OF assms] this [of "rev s"] assms show ?thesis
    by (simp add: TrimSpace_def trim_left_by_def trim_right_by_def)
qed

lemma dotted_accepted:
  assumes "plain other" and "cs \<noteq> []" and "list_all plain cs"
    and "list_all (\<lambda>c. literal c \<and> \<not> is_space c) (i @ other @ rel_path cs)"
  shows "normalizeWorkspaceAPIPath (''%2e%2e/%2e%2e/'' @ other @ ''/files/'' @ rel_path cs) =
    Inr (''%2e%2e/%2e%2e/'' @ other @ ''/files/'' @ rel_path cs)"
proof -
  let ?ds = "''%2e%2e'' # ''%2e%2e'' # other # ''files'' # cs"
  have pl: "list_all plain ?ds" using assms(1,3) by (simp add: plain_def slash_def)
  have raw: "''%2e%2e/%2e%2e/'' @ other @ ''/files/'' @ rel_path cs = rel_path ?ds"
    using assms(2) by (cases cs) (simp_all add: rel_path_def)
  have "list_all (\<lambda>c. \<not> is_space c) ''%2e%2e/%2e%2e/'' \<and> list_all (\<lambda>c. \<not> is_space c) ''/files/''" by code_simp
  with assms(4) have "TrimSpace (rel_path ?ds) = rel_path ?ds"
    unfolding raw [symmetric] by (intro TrimSpace_unspaced) (simp add: list_all_iff)
  moreover have "Clean (rel_path ?ds) = rel_path ?ds" by (rule Clean_rel_path [OF pl]) simp
  moreover obtain u where "rel_path ?ds = CHR ''%'' # u" unfolding raw [symmetric] by simp
  ultimately show ?thesis unfolding raw
    by (simp add: normalizeWorkspaceAPIPath_def Let_def HasPrefix_def TrimPrefix_def)
qed

lemma dotted_split:
  assumes "plain i" and "plain other" and "cs \<noteq> []" and "list_all plain cs"
  shows "split_on slash (''/'' @ (''v1/sandboxes/'' @ i @ ''/files/'') @ ''../../'' @ other @ ''/files/'' @ rel_path cs) =
    [[], ''v1'', ''sandboxes'', i, ''files'', ''..'', ''..'', other, ''files''] @ cs"
proof -
  have t: "''/'' @ (''v1/sandboxes/'' @ i @ ''/files/'') @ ''../../'' @ other @ ''/files/'' @ rel_path cs =
      [] @ slash # ''v1'' @ slash # ''sandboxes'' @ slash # i @ slash # ''files'' @ slash # ''..'' @ slash # ''..'' @ slash #
      (other @ ''/files/'' @ rel_path cs)" by (simp add: slash_def)
  have n: "slash \<notin> set []" "slash \<notin> set ''v1''" "slash \<notin> set ''sandboxes''" "slash \<notin> set i" "slash \<notin> set ''files''"
    "slash \<notin> set ''..''" using assms(1) by (simp_all add: slash_def plain_def)
  show ?thesis unfolding t
    by (simp only: split_on_append_sep [OF n(1)] split_on_append_sep [OF n(2)] split_on_append_sep [OF n(3)] split_on_append_sep [OF n(4)]
        split_on_append_sep [OF n(5)] split_on_append_sep [OF n(6)] other_comps [OF assms(2-4)]) simp
qed

lemma dotted_request:
  assumes "plain i" and "plain other" and "cs \<noteq> []" and "list_all plain cs"
    and "list_all (\<lambda>c. literal c \<and> \<not> is_space c) (i @ other @ rel_path cs)"
  shows "buildRequestURL po b (file_url i (''%2e%2e/%2e%2e/'' @ other @ ''/files/'' @ rel_path cs)) =
    buildRequestURL po b (file_url other (rel_path cs))"
proof -
  let ?x = "rel_path cs" let ?tail = "other @ ''/files/'' @ ?x"
  let ?l = "''v1/sandboxes/'' @ i @ ''/files/''" let ?s = "?l @ ''%2e%2e/%2e%2e/'' @ ?tail"
  have lit: "list_all literal i" "list_all literal other" "list_all literal ?x" using assms(5) by (simp_all add: list_all_iff)
  define ok where "ok = (\<lambda>c. c \<noteq> CHR ''#'' \<and> c \<noteq> CHR ''?'' \<and> \<not> is_control c)"
  have w: "list_all ok xs \<and> CHR ''%'' \<notin> set xs" if "list_all literal xs" for xs
    using that by (auto simp: ok_def literal_def list_all_iff)
  have v: "list_all literal ''v1/sandboxes/''" and f: "list_all literal ''/files/''" by code_simp+
  have d: "list_all ok ''%2e%2e/%2e%2e/''" unfolding ok_def by code_simp
  from w [OF v] w [OF f] w [OF lit(1)] w [OF lit(2)] w [OF lit(3)] d have "list_all ok ?s"
    by (simp only: list_all_append simp_thms)
  then have a: "CHR ''#'' \<notin> set ?s" "CHR ''?'' \<notin> set ?s" "\<forall>c \<in> set ?s. \<not> is_control c"
    unfolding list_all_iff ok_def by blast+
  from w [OF v] w [OF f] w [OF lit(1)] w [OF lit(2)] w [OF lit(3)]
  have n: "CHR ''%'' \<notin> set ?l" "CHR ''%'' \<notin> set ?tail" by (simp_all only: set_append Un_iff simp_thms)
  have u: "url_unescape EncodePath ?s = Some (?l @ ''../../'' @ ?tail)"
    by (simp only: unescape_append [OF n(1)] unescape_dots unescape_literal [OF n(2)] option.map)
  have p: "parse_endpoint ?s = Some \<lparr>rf_Path = ?l @ ''../../'' @ ?tail, rf_Query = None\<rparr>"
    unfolding parse_endpoint_def split_first_absent [OF a(1)] split_first_absent [OF a(2)] Let_def prod.case u
    using a(3) by simp
  have t: "trim_left_by (\<lambda>c. c = slash) (file_url i (''%2e%2e/%2e%2e/'' @ ?tail)) = ?s"
    by (simp add: trim_left_by_def file_url_def sandbox_url_def slash_def)
  have "split_on slash (''/'' @ ?l @ ''../../'' @ ?tail) =
      [[], ''v1'', ''sandboxes'', i, ''files'', ''..'', ''..'', other, ''files''] @ cs"
    by (rule dotted_split [OF assms(1-4)])
  with assms(1-4) have cl: "Clean (''/'' @ ?l @ ''../../'' @ ?tail) = abs_path (file_comps other cs)"
    by (simp add: Clean_def IsAbs_def HasPrefix_def clean_comps_def clean_step_def plain_def file_comps_def abs_path_def
        foldl_clean_plain)
  have q: "parse_endpoint (trim_left_by (\<lambda>c. c = slash) (file_url other ?x)) =
      Some \<lparr>rf_Path = join_with ''/'' (file_comps other cs), rf_Query = None\<rparr>"
    using trim_left_abs_path [OF file_comps_plain [OF assms(2,4)], of "[]"] parse_endpoint_literal [OF literal_file [OF lit(2,3)], of None]
    by (simp add: file_url_comps [OF assms(3)] query_suffix_def file_comps_def)
  have cr: "Clean (''/'' @ join_with ''/'' (file_comps other cs)) = abs_path (file_comps other cs)"
    using Clean_abs_path [OF file_comps_plain [OF assms(2,4)]] by (simp add: abs_path_def render_def)
  show ?thesis unfolding buildRequestURL_def t p q option.case reference.simps reference.update_convs cl cr ..
qed

text \<open>
  C34: percent signs lead elsewhere. The client checks a path before it is put into a URL, and the URL is decoded
  and cleaned afterwards: a path of the form \<open>%2e%2e/%2e%2e/other/files/x\<close>, which passes the check as an
  ordinary relative path, makes any file call for one sandbox the very call for the file \<open>x\<close> of the sandbox
  \<open>other\<close>. A preset can so write to and read from every sandbox of the user who runs it.
\<close>

theorem client_path_escape:
  assumes "plain i" and "plain other" and "cs \<noteq> []" and "list_all plain cs"
    and "list_all (\<lambda>c. literal c \<and> \<not> is_space c) (i @ other @ rel_path cs)"
  shows "(let raw = ''%2e%2e/%2e%2e/'' @ other @ ''/files/'' @ rel_path cs in
     normalizeWorkspaceAPIPath raw = Inr raw \<and>
     doCall h method (file_url i raw) body = doCall h method (file_url other (rel_path cs)) body)"
proof -
  let ?raw = "''%2e%2e/%2e%2e/'' @ other @ ''/files/'' @ rel_path cs"
  have "normalizeWorkspaceAPIPath ?raw = Inr ?raw" by (rule dotted_accepted [OF assms(2-5)])
  moreover have "buildRequestURL po b (file_url i ?raw) = buildRequestURL po b (file_url other (rel_path cs))" for po b
    by (rule dotted_request [OF assms])
  then have "exchange h method (file_url i ?raw) body = exchange h method (file_url other (rel_path cs)) body"
    by (simp only: exchange_def)
  ultimately show ?thesis by (simp only: Let_def doCall_def simp_thms)
qed

theorem client_path_escape_witness:
  "normalizeWorkspaceAPIPath ''%2e%2e/%2e%2e/victim/files/key'' = Inr ''%2e%2e/%2e%2e/victim/files/key'' \<and>
   doCall obliging_host ''PUT'' (file_url ''own'' ''%2e%2e/%2e%2e/victim/files/key'') None = doCall obliging_host ''PUT'' (file_url ''victim'' ''key'') None"
proof -
  have p: "plain ''own''" "plain ''victim''" "[''key''] \<noteq> []" "list_all plain [''key'']"
    "list_all (\<lambda>c. literal c \<and> \<not> is_space c) (''own'' @ ''victim'' @ rel_path [''key''])" by code_simp+
  from client_path_escape [OF p, of obliging_host "''PUT''" None] show ?thesis by (simp add: Let_def)
qed

end
