(* ===== verification/AgentSession.thy ===== *)
theory AgentSession
  imports Model AgentProtocol
begin

text \<open>
  A session with the agent of a guest (\<open>internal/runtime/qemu/agent_client.go\<close>): the payloads of the protocol, and
  the reader that takes messages off the connection and hands each to the request or stream it belongs to. A stream
  is the list of what was put on its channel; the order of arrivals and registrations is an explicit sequence of
  events. The JSON decoders are a parameter.
\<close>

section \<open>Payloads\<close>

record file_data =
  fd_SessionID :: string
  fd_Data :: string
  fd_EOF :: bool
  fd_Error :: string

record exec_final =
  xf_ExitCode :: int
  xf_Status :: string
  xf_StartedAt :: time
  xf_CompletedAt :: time
  xf_StdoutTruncated :: bool
  xf_StderrTruncated :: bool

record exec_event =
  ev_ExecID :: string
  ev_Stream :: string
  ev_Data :: string
  ev_Error :: string
  ev_Result :: "exec_final option"

record pty_data =
  pd_SessionID :: string
  pd_Data :: string
  pd_EOF :: bool

record tcp_bridge_data =
  bd_SessionID :: string
  bd_Data :: string
  bd_EOF :: bool
  bd_Error :: string

record archive_chunk =
  ac_SessionID :: string
  ac_Path :: string
  ac_Type :: string
  ac_Size :: int
  ac_Data :: string
  ac_End :: bool
  ac_Error :: string

section \<open>Streams\<close>

text \<open>
  One kind of stream of a session: what arrived before anybody asked for it, the channels that are registered, and
  the channels that were closed after their last element.
\<close>

record 'p streams =
  ss_pending :: "(string \<times> 'p list) list"
  ss_open :: "(string \<times> 'p list) list"
  ss_ended :: "(string \<times> 'p list) list"

definition lookup_list :: "string \<Rightarrow> (string \<times> 'p list) list \<Rightarrow> 'p list" where
  "lookup_list k t = (case map_of t k of None \<Rightarrow> [] | Some ps \<Rightarrow> ps)"

definition put :: "string \<Rightarrow> 'v \<Rightarrow> (string \<times> 'v) list \<Rightarrow> (string \<times> 'v) list" where
  "put k v t = (k, v) # filter (\<lambda>(k', _). k' \<noteq> k) t"

definition del :: "string \<Rightarrow> (string \<times> 'v) list \<Rightarrow> (string \<times> 'v) list" where
  "del k t = filter (\<lambda>(k', _). k' \<noteq> k) t"

definition no_streams :: "'p streams" where
  "no_streams = \<lparr>ss_pending = [], ss_open = [], ss_ended = []\<rparr>"

text \<open>The same bound for files, executions, archives and terminals.\<close>

definition maxBufferedAgentEvents :: nat where "maxBufferedAgentEvents = 64"

text \<open>
  \<open>bufferFileLocked\<close> and its siblings: an element for which there is no channel yet is kept, up to a limit; beyond it
  the element is dropped.
\<close>

definition buffer :: "string \<Rightarrow> 'p \<Rightarrow> 'p streams \<Rightarrow> bool \<times> 'p streams" where
  "buffer sid p st =
     (let buffered = lookup_list sid (ss_pending st) in
      if maxBufferedAgentEvents \<le> length buffered then (False, st)
      else (True, st\<lparr>ss_pending := put sid (buffered @ [p]) (ss_pending st)\<rparr>))"

definition unregister :: "string \<Rightarrow> 'p streams \<Rightarrow> 'p streams" where
  "unregister sid st =
     (case map_of (ss_open st) sid of
        None \<Rightarrow> st\<lparr>ss_pending := del sid (ss_pending st)\<rparr>
      | Some ps \<Rightarrow> st\<lparr>ss_pending := del sid (ss_pending st), ss_open := del sid (ss_open st),
                       ss_ended := put sid ps (ss_ended st)\<rparr>)"

text \<open>\<open>deliverFile\<close>, \<open>deliverExec\<close>, \<open>deliverArchive\<close>: \<open>last\<close> says whether the element ends its stream. The first component tells
  whether the element was kept.\<close>

definition deliver :: "string \<Rightarrow> bool \<Rightarrow> 'p \<Rightarrow> 'p streams \<Rightarrow> bool \<times> 'p streams" where
  "deliver sid terminal p st =
     (case map_of (ss_open st) sid of
        None \<Rightarrow> buffer sid p st
      | Some ps \<Rightarrow>
          (let st' = st\<lparr>ss_open := put sid (ps @ [p]) (ss_open st)\<rparr> in
           (True, if terminal then unregister sid st' else st')))"

text \<open>\<open>registerFile\<close>, \<open>registerExec\<close>, \<open>registerArchive\<close>: the channel starts with what was buffered.\<close>

definition register :: "('p \<Rightarrow> bool) \<Rightarrow> string \<Rightarrow> 'p streams \<Rightarrow> 'p streams" where
  "register terminal sid st =
     (let buffered = lookup_list sid (ss_pending st);
          st' = st\<lparr>ss_pending := del sid (ss_pending st)\<rparr> in
      if list_ex terminal buffered then st'\<lparr>ss_ended := put sid buffered (ss_ended st')\<rparr>
      else st'\<lparr>ss_open := put sid buffered (ss_open st')\<rparr>)"

text \<open>What a reader of the channel gets: everything that was put on it.\<close>

definition channel :: "string \<Rightarrow> 'p streams \<Rightarrow> 'p list" where
  "channel sid st =
     (case map_of (ss_open st) sid of Some ps \<Rightarrow> ps | None \<Rightarrow> lookup_list sid (ss_ended st))"

section \<open>The session\<close>

record session_state =
  sn_Closed :: "goerr option"
  sn_Pending :: "string list"
  sn_Answered :: "(string \<times> message) list"
  sn_Files :: "file_data streams"
  sn_Execs :: "exec_event streams"
  sn_Archives :: "archive_chunk streams"
  sn_PTYs :: "pty_data streams"
  sn_Bridges :: "tcp_bridge_data streams"
  sn_BufferedFiles :: nat
  sn_DroppedFiles :: nat
  sn_BufferedExecs :: nat
  sn_DroppedExecs :: nat

record decoders =
  dc_File :: "string \<Rightarrow> goerr + file_data"
  dc_Exec :: "string \<Rightarrow> goerr + exec_event"
  dc_PTY :: "string \<Rightarrow> goerr + pty_data"
  dc_Bridge :: "string \<Rightarrow> goerr + tcp_bridge_data"
  dc_Archive :: "string \<Rightarrow> goerr + archive_chunk"

definition file_last :: "file_data \<Rightarrow> bool" where "file_last p \<longleftrightarrow> fd_EOF p \<or> fd_Error p \<noteq> []"
definition exec_last :: "exec_event \<Rightarrow> bool" where "exec_last p \<longleftrightarrow> ev_Result p \<noteq> None \<or> ev_Error p \<noteq> []"
definition archive_last :: "archive_chunk \<Rightarrow> bool" where "archive_last p \<longleftrightarrow> ac_End p \<or> ac_Error p \<noteq> []"
definition bridge_last :: "tcp_bridge_data \<Rightarrow> bool" where "bridge_last p \<longleftrightarrow> bd_EOF p \<or> bd_Error p \<noteq> []"

definition close_session :: "goerr \<Rightarrow> session_state \<Rightarrow> session_state" where
  "close_session e s =
     (if sn_Closed s \<noteq> None then s
      else s\<lparr>sn_Closed := Some e, sn_Pending := [],
        sn_Files := (sn_Files s)\<lparr>ss_pending := [], ss_open := [], ss_ended := ss_open (sn_Files s) @ ss_ended (sn_Files s)\<rparr>,
        sn_Execs := (sn_Execs s)\<lparr>ss_pending := [], ss_open := [], ss_ended := ss_open (sn_Execs s) @ ss_ended (sn_Execs s)\<rparr>,
        sn_Archives := (sn_Archives s)\<lparr>ss_pending := [], ss_open := [],
          ss_ended := ss_open (sn_Archives s) @ ss_ended (sn_Archives s)\<rparr>,
        sn_PTYs := (sn_PTYs s)\<lparr>ss_pending := [], ss_open := [], ss_ended := ss_open (sn_PTYs s) @ ss_ended (sn_PTYs s)\<rparr>,
        sn_Bridges := (sn_Bridges s)\<lparr>ss_pending := [], ss_open := [],
          ss_ended := ss_open (sn_Bridges s) @ ss_ended (sn_Bridges s)\<rparr>\<rparr>)"

definition deliverPending :: "message \<Rightarrow> session_state \<Rightarrow> bool \<times> session_state" where
  "deliverPending m s =
     (if TrimSpace (ms_ID m) = [] \<or> ms_ID m \<notin> set (sn_Pending s) then (False, s)
      else (True, s\<lparr>sn_Pending := removeAll (ms_ID m) (sn_Pending s), sn_Answered := put (ms_ID m) m (sn_Answered s)\<rparr>))"

definition deliverFile :: "file_data \<Rightarrow> session_state \<Rightarrow> session_state" where
  "deliverFile p s =
     (case deliver (fd_SessionID p) (file_last p) p (sn_Files s) of
        (kept, st) \<Rightarrow>
          (let s' = s\<lparr>sn_Files := st\<rparr> in
           if map_of (ss_open (sn_Files s)) (fd_SessionID p) \<noteq> None then s'
           else if kept then s'\<lparr>sn_BufferedFiles := Suc (sn_BufferedFiles s)\<rparr>
           else s'\<lparr>sn_DroppedFiles := Suc (sn_DroppedFiles s)\<rparr>))"

definition deliverExec :: "exec_event \<Rightarrow> session_state \<Rightarrow> session_state" where
  "deliverExec p s =
     (case deliver (ev_ExecID p) (exec_last p) p (sn_Execs s) of
        (kept, st) \<Rightarrow>
          (let s' = s\<lparr>sn_Execs := st\<rparr> in
           if map_of (ss_open (sn_Execs s)) (ev_ExecID p) \<noteq> None then s'
           else if kept then s'\<lparr>sn_BufferedExecs := Suc (sn_BufferedExecs s)\<rparr>
           else s'\<lparr>sn_DroppedExecs := Suc (sn_DroppedExecs s)\<rparr>))"

definition deliverArchive :: "archive_chunk \<Rightarrow> session_state \<Rightarrow> session_state" where
  "deliverArchive p s = s\<lparr>sn_Archives := snd (deliver (ac_SessionID p) (archive_last p) p (sn_Archives s))\<rparr>"

definition deliverPTY :: "pty_data \<Rightarrow> session_state \<Rightarrow> session_state" where
  "deliverPTY p s = s\<lparr>sn_PTYs := snd (deliver (pd_SessionID p) (pd_EOF p) p (sn_PTYs s))\<rparr>"

text \<open>A bridge that is not registered is not buffered: its data ends the session.\<close>

definition deliverBridge :: "tcp_bridge_data \<Rightarrow> session_state \<Rightarrow> session_state" where
  "deliverBridge p s =
     (case map_of (ss_open (sn_Bridges s)) (bd_SessionID p) of
        None \<Rightarrow> close_session (Err (''unexpected bridge stream session '' @ quote (bd_SessionID p))) s
      | Some ps \<Rightarrow> s\<lparr>sn_Bridges := snd (deliver (bd_SessionID p) (bridge_last p) p (sn_Bridges s))\<rparr>)"

text \<open>One turn of \<open>readLoop\<close>. A session that is closed reads no more.\<close>

definition decode_then :: "goerr + 'p \<Rightarrow> ('p \<Rightarrow> session_state \<Rightarrow> session_state) \<Rightarrow> session_state \<Rightarrow> session_state" where
  "decode_then r f s = (case r of Inl e \<Rightarrow> close_session e s | Inr p \<Rightarrow> f p s)"

definition readLoop_step :: "decoders \<Rightarrow> goerr + message \<Rightarrow> session_state \<Rightarrow> session_state" where
  "readLoop_step dc received s =
     (if sn_Closed s \<noteq> None then s
      else
        (case received of
           Inl e \<Rightarrow> close_session e s
         | Inr m \<Rightarrow>
             (case deliverPending m s of
                (True, s') \<Rightarrow> s'
              | (False, s') \<Rightarrow>
                  if ms_Op m = OpFileData then decode_then (dc_File dc (ms_Result m)) deliverFile s
                  else if ms_Op m = OpExecEvent then decode_then (dc_Exec dc (ms_Result m)) deliverExec s
                  else if ms_Op m = OpPTYData then decode_then (dc_PTY dc (ms_Result m)) deliverPTY s
                  else if ms_Op m = OpTCPBridgeData then decode_then (dc_Bridge dc (ms_Result m)) deliverBridge s
                  else if ms_Op m = OpArchiveStream then decode_then (dc_Archive dc (ms_Result m)) deliverArchive s
                  else if TrimSpace (ms_ID m) = [] then close_session (protocol_error ''response id is required'') s
                  else close_session (protocol_error (''response id mismatch: got '' @ quote (ms_ID m))) s)))"

definition registerFile :: "string \<Rightarrow> session_state \<Rightarrow> (goerr + unit) \<times> session_state" where
  "registerFile sid s =
     (if sn_Closed s \<noteq> None then (Inl (Err ''agent session closed''), s)
      else (Inr (), s\<lparr>sn_Files := register file_last sid (sn_Files s)\<rparr>))"

definition registerExec :: "string \<Rightarrow> session_state \<Rightarrow> (goerr + unit) \<times> session_state" where
  "registerExec sid s =
     (if sn_Closed s \<noteq> None then (Inl (Err ''agent session closed''), s)
      else (Inr (), s\<lparr>sn_Execs := register exec_last sid (sn_Execs s)\<rparr>))"

definition registerArchive :: "string \<Rightarrow> session_state \<Rightarrow> (goerr + unit) \<times> session_state" where
  "registerArchive sid s =
     (if sn_Closed s \<noteq> None then (Inl (Err ''agent session closed''), s)
      else (Inr (), s\<lparr>sn_Archives := register archive_last sid (sn_Archives s)\<rparr>))"

definition registerPTY :: "string \<Rightarrow> session_state \<Rightarrow> (goerr + unit) \<times> session_state" where
  "registerPTY sid s =
     (if sn_Closed s \<noteq> None then (Inl (Err ''agent session closed''), s)
      else (Inr (), s\<lparr>sn_PTYs := register pd_EOF sid (sn_PTYs s)\<rparr>))"

definition registerBridge :: "string \<Rightarrow> session_state \<Rightarrow> (goerr + unit) \<times> session_state" where
  "registerBridge sid s =
     (if sn_Closed s \<noteq> None then (Inl (Err ''agent session closed''), s)
      else (Inr (), s\<lparr>sn_Bridges := (sn_Bridges s)\<lparr>ss_open := put sid [] (ss_open (sn_Bridges s))\<rparr>\<rparr>))"

text \<open>The part of \<open>roundTrip\<close> that judges an answer; the JSON of the result stays encoded.\<close>

definition judge_response :: "string \<Rightarrow> string \<Rightarrow> message \<Rightarrow> goerr + string" where
  "judge_response oper requestID response =
     (case ValidateResponse response oper requestID of
        Some e \<Rightarrow> Inl e
      | None \<Rightarrow>
          if \<not> ms_OK response then
            Inl (Err (if ms_Error response = [] then ''guest agent request failed'' else ms_Error response))
          else Inr (ms_Result response))"

section \<open>What a reader gets\<close>

lemma map_of_put [simp]: "map_of (put k v t) x = (if x = k then Some v else map_of t x)"
  by (induction t) (auto simp: put_def)

lemma map_of_del [simp]: "map_of (del k t) x = (if x = k then None else map_of t x)"
  by (induction t) (auto simp: del_def)

lemma lookup_put [simp]: "lookup_list x (put k v t) = (if x = k then v else lookup_list x t)"
  by (simp add: lookup_list_def)

lemma lookup_del [simp]: "lookup_list x (del k t) = (if x = k then [] else lookup_list x t)"
  by (simp add: lookup_list_def)

text \<open>The elements of a stream up to the one that ends it.\<close>

fun upto_last :: "('p \<Rightarrow> bool) \<Rightarrow> 'p list \<Rightarrow> 'p list" where
  "upto_last terminal [] = []"
| "upto_last terminal (p # ps) = p # (if terminal p then [] else upto_last terminal ps)"

text \<open>Arrivals one after the other, for a stream kind with identifiers \<open>key\<close>.\<close>

definition arrive :: "('p \<Rightarrow> string) \<Rightarrow> ('p \<Rightarrow> bool) \<Rightarrow> 'p list \<Rightarrow> 'p streams \<Rightarrow> 'p streams" where
  "arrive key terminal ps st = foldl (\<lambda>s p. snd (deliver (key p) (terminal p) p s)) st ps"

lemma arrive_simps [simp]:
  "arrive key terminal [] st = st"
  "arrive key terminal (p # ps) st = arrive key terminal ps (snd (deliver (key p) (terminal p) p st))"
  by (simp_all add: arrive_def)

lemma deliver_other:
  assumes "k \<noteq> sid"
  shows "map_of (ss_open (snd (deliver k t p st))) sid = map_of (ss_open st) sid"
    and "lookup_list sid (ss_pending (snd (deliver k t p st))) = lookup_list sid (ss_pending st)"
    and "lookup_list sid (ss_ended (snd (deliver k t p st))) = lookup_list sid (ss_ended st)"
  using assms by (auto simp: deliver_def buffer_def unregister_def Let_def split: option.split)

lemma take_take_append: "take n (take n a @ b) = take n (a @ b)"
  by (cases "length a \<le> n") simp_all

text \<open>Before the registration: the first elements are buffered and the others dropped.\<close>

lemma arrive_unregistered:
  assumes "map_of (ss_open st) sid = None" and "length (lookup_list sid (ss_pending st)) \<le> maxBufferedAgentEvents"
  shows "map_of (ss_open (arrive key terminal ps st)) sid = None \<and>
    lookup_list sid (ss_pending (arrive key terminal ps st)) =
      take maxBufferedAgentEvents (lookup_list sid (ss_pending st) @ filter (\<lambda>p. key p = sid) ps)"
  using assms
proof (induction ps arbitrary: st)
  case (Cons p ps)
  let ?st = "snd (deliver (key p) (terminal p) p st)"
  show ?case
  proof (cases "key p = sid")
    case True
    with Cons.prems(1) have d: "?st = snd (buffer sid p st)" by (simp add: deliver_def)
    then have "map_of (ss_open ?st) sid = None" and
      l: "lookup_list sid (ss_pending ?st) = take maxBufferedAgentEvents (lookup_list sid (ss_pending st) @ [p])"
      using Cons.prems by (auto simp: buffer_def Let_def)
    moreover have "length (lookup_list sid (ss_pending ?st)) \<le> maxBufferedAgentEvents" by (simp add: l)
    ultimately show ?thesis
      using Cons.IH [of ?st] True take_take_append [of _ "lookup_list sid (ss_pending st) @ [p]"] by simp
  next
    case False
    with Cons.prems have "map_of (ss_open ?st) sid = None"
      and "lookup_list sid (ss_pending ?st) = lookup_list sid (ss_pending st)" by (simp_all add: deliver_other)
    with Cons.IH [of ?st] Cons.prems(2) False show ?thesis by simp
  qed
qed simp

text \<open>After it: every element reaches the channel, until the one that ends the stream.\<close>

lemma arrive_closed:
  assumes "map_of (ss_open st) sid = None"
  shows "map_of (ss_open (arrive key terminal ps st)) sid = None \<and>
    lookup_list sid (ss_ended (arrive key terminal ps st)) = lookup_list sid (ss_ended st)"
  using assms
proof (induction ps arbitrary: st)
  case (Cons p ps)
  let ?st = "snd (deliver (key p) (terminal p) p st)"
  have "map_of (ss_open ?st) sid = None \<and> lookup_list sid (ss_ended ?st) = lookup_list sid (ss_ended st)"
    using Cons.prems deliver_other [of "key p" sid "terminal p" p st]
    by (cases "key p = sid") (auto simp: deliver_def buffer_def Let_def)
  with Cons.IH [of ?st] show ?case by simp
qed simp

lemma arrive_registered:
  assumes "map_of (ss_open st) sid = Some hist"
  shows "channel sid (arrive key terminal ps st) = hist @ upto_last terminal (filter (\<lambda>p. key p = sid) ps)"
  using assms
proof (induction ps arbitrary: st hist)
  case Nil
  then show ?case by (simp add: channel_def)
next
  case (Cons p ps)
  let ?st = "snd (deliver (key p) (terminal p) p st)"
  consider "key p \<noteq> sid" | "key p = sid" "\<not> terminal p" | "key p = sid" "terminal p" by blast
  then show ?case
  proof cases
    case 1
    with Cons.prems have "map_of (ss_open ?st) sid = Some hist" by (simp add: deliver_other(1))
    with Cons.IH [of ?st hist] 1 show ?thesis by simp
  next
    case 2
    with Cons.prems have "map_of (ss_open ?st) sid = Some (hist @ [p])" by (simp add: deliver_def)
    with Cons.IH [of ?st "hist @ [p]"] 2 show ?thesis by simp
  next
    case 3
    with Cons.prems have e: "map_of (ss_open ?st) sid = None" "lookup_list sid (ss_ended ?st) = hist @ [p]"
      by (simp_all add: deliver_def unregister_def Let_def)
    with arrive_closed [OF e(1), of key terminal ps] 3 show ?thesis by (simp add: channel_def)
  qed
qed

text \<open>The reader of the messages changes the file streams by the file packets among them only.\<close>

definition file_packets :: "decoders \<Rightarrow> message list \<Rightarrow> file_data list" where
  "file_packets dc ms =
     concat (map (\<lambda>m. if ms_Op m = OpFileData then (case dc_File dc (ms_Result m) of Inl e \<Rightarrow> [] | Inr p \<Rightarrow> [p]) else []) ms)"

definition receive_all :: "decoders \<Rightarrow> message list \<Rightarrow> session_state \<Rightarrow> session_state" where
  "receive_all dc ms s = foldl (\<lambda>s m. readLoop_step dc (Inr m) s) s ms"

lemma close_stays: "sn_Closed s \<noteq> None \<Longrightarrow> receive_all dc ms s = s"
  by (induction ms) (auto simp: receive_all_def readLoop_step_def)

lemma close_session_closed [simp]: "sn_Closed (close_session e s) = None \<longleftrightarrow> False"
  by (simp add: close_session_def)

lemma deliver_fields [simp]:
  "sn_Files (deliverFile p s) = snd (deliver (fd_SessionID p) (file_last p) p (sn_Files s))"
  "sn_Files (deliverExec x s) = sn_Files s"
  "sn_Files (deliverPTY y s) = sn_Files s"
  "sn_Files (deliverArchive z s) = sn_Files s"
  by (simp_all add: deliverFile_def deliverExec_def deliverPTY_def deliverArchive_def Let_def split: prod.split)

lemma deliverBridge_files: "sn_Closed (deliverBridge p s) = None \<Longrightarrow> sn_Files (deliverBridge p s) = sn_Files s"
  by (auto simp: deliverBridge_def split: option.splits)

lemma decode_then_open:
  "sn_Closed (decode_then r f s) = None \<Longrightarrow> \<exists>p. r = Inr p \<and> decode_then r f s = f p s \<and> sn_Closed (f p s) = None"
  by (cases r) (auto simp: decode_then_def)

lemma op_distinct: "OpFileData \<notin> {OpExecEvent, OpPTYData, OpTCPBridgeData, OpArchiveStream}"
  by (simp add: OpFileData_def OpExecEvent_def OpPTYData_def OpTCPBridgeData_def OpArchiveStream_def)

lemma step_files:
  assumes "sn_Closed (readLoop_step dc (Inr m) s) = None" and "ms_Op m = OpFileData \<longrightarrow> TrimSpace (ms_ID m) = []"
  shows "sn_Files (readLoop_step dc (Inr m) s) = arrive fd_SessionID file_last (file_packets dc [m]) (sn_Files s)"
proof -
  have open_s: "sn_Closed s = None" using assms(1) by (auto simp: readLoop_step_def split: if_splits)
  show ?thesis
  proof (cases "deliverPending m s")
    case (Pair found s')
    show ?thesis
    proof (cases found)
      case True
      then have "ms_Op m \<noteq> OpFileData" "sn_Files s' = sn_Files s"
        using Pair assms(2) by (auto simp: deliverPending_def split: if_splits)
      then show ?thesis using Pair True open_s by (simp add: readLoop_step_def file_packets_def)
    next
      case False
      then show ?thesis
        using Pair assms(1) open_s op_distinct deliverBridge_files
        by (auto simp: readLoop_step_def file_packets_def split: if_splits dest!: decode_then_open)
    qed
  qed
qed

lemma receive_files:
  assumes "sn_Closed (receive_all dc ms s) = None"
    and "list_all (\<lambda>m. ms_Op m = OpFileData \<longrightarrow> TrimSpace (ms_ID m) = []) ms"
  shows "sn_Files (receive_all dc ms s) = arrive fd_SessionID file_last (file_packets dc ms) (sn_Files s)"
  using assms
proof (induction ms arbitrary: s)
  case (Cons m ms)
  let ?s = "readLoop_step dc (Inr m) s"
  have r: "receive_all dc (m # ms) s = receive_all dc ms ?s" by (simp add: receive_all_def)
  with Cons.prems(1) close_stays have "sn_Closed ?s = None" by metis
  with step_files [of dc m s] Cons.IH [of ?s] Cons.prems r show ?case
    by (simp add: file_packets_def arrive_def)
qed (simp add: receive_all_def file_packets_def)

text \<open>The packets of one file session among the messages.\<close>

definition packets_of :: "decoders \<Rightarrow> string \<Rightarrow> message list \<Rightarrow> file_data list" where
  "packets_of dc sid ms = filter (\<lambda>p. fd_SessionID p = sid) (file_packets dc ms)"

definition fresh_stream :: "string \<Rightarrow> 'p streams \<Rightarrow> bool" where
  "fresh_stream sid st \<longleftrightarrow> map_of (ss_open st) sid = None \<and> map_of (ss_pending st) sid = None"


text \<open>A decoder and a session for the example: the payload is the data, and a dot ends the stream.\<close>

definition demo_packet :: "string \<Rightarrow> file_data" where
  "demo_packet t = \<lparr>fd_SessionID = ''f1'', fd_Data = t, fd_EOF = (t = ''.''), fd_Error = []\<rparr>"

definition demo_decoders :: decoders where
  "demo_decoders =
     \<lparr>dc_File = (\<lambda>t. Inr (demo_packet t)), dc_Exec = (\<lambda>t. Inl (Err t)), dc_PTY = (\<lambda>t. Inl (Err t)),
      dc_Bridge = (\<lambda>t. Inl (Err t)), dc_Archive = (\<lambda>t. Inl (Err t))\<rparr>"

definition demo_message :: "string \<Rightarrow> message" where
  "demo_message t = \<lparr>ms_ID = [], ms_Op = OpFileData, ms_OK = True, ms_Error = [], ms_Result = t\<rparr>"

definition new_session :: session_state where
  "new_session =
     \<lparr>sn_Closed = None, sn_Pending = [], sn_Answered = [], sn_Files = no_streams, sn_Execs = no_streams,
      sn_Archives = no_streams, sn_PTYs = no_streams, sn_Bridges = no_streams, sn_BufferedFiles = 0, sn_DroppedFiles = 0,
      sn_BufferedExecs = 0, sn_DroppedExecs = 0\<rparr>"


section \<open>The reader and the channel\<close>

text \<open>
  One turn of the loop in \<open>agentReadWorkspaceFileBytesWithLimit\<close>: the result so far, and whether the loop is left.
\<close>

definition read_packet :: "int \<Rightarrow> string \<Rightarrow> file_data \<Rightarrow> (goerr + string) \<times> bool" where
  "read_packet maxBytes output p =
     (if fd_Error p \<noteq> [] then (Inl (Err (fd_Error p)), True)
      else if fd_Data p = [] then (Inr output, fd_EOF p)
      else
        (case DecodeBytes (fd_Data p) of
           Inl e \<Rightarrow> (Inl e, True)
         | Inr chunk \<Rightarrow>
             if 0 < maxBytes \<and> maxBytes < int (length output + length chunk)
             then (Inl (ErrFileTransferTooLarge maxBytes), True)
             else (Inr (output @ chunk), fd_EOF p)))"

fun read_packets :: "int \<Rightarrow> string \<Rightarrow> file_data list \<Rightarrow> goerr + string" where
  "read_packets maxBytes output [] = Inr output"
| "read_packets maxBytes output (p # ps) =
     (case read_packet maxBytes output p of
        (Inl e, stop) \<Rightarrow> Inl e
      | (Inr output', stop) \<Rightarrow> if stop then Inr output' else read_packets maxBytes output' ps)"

text \<open>
  The two goroutines that share the channel of a file stream. \<open>deliverFile\<close> looks the channel up under the lock, gives the
  lock back and then sends (\<open>rc_Holding\<close> is the packet in between); the reader takes packets and, when it returns, its
  deferred \<open>unregisterFile\<close> closes the channel. Sending on a closed channel panics, and nothing recovers it.
\<close>

record race =
  rc_Incoming :: "file_data list"
  rc_Holding :: "file_data option"
  rc_Queue :: "file_data list"
  rc_Registered :: bool
  rc_Output :: string
  rc_Returned :: "(goerr + string) option"
  rc_Panicked :: bool

definition race_start :: "file_data list \<Rightarrow> race" where
  "race_start ps =
     \<lparr>rc_Incoming = ps, rc_Holding = None, rc_Queue = [], rc_Registered = True, rc_Output = [], rc_Returned = None,
      rc_Panicked = False\<rparr>"

inductive race_step :: "int \<Rightarrow> race \<Rightarrow> race \<Rightarrow> bool" for maxBytes where
  look_up: "\<lbrakk>\<not> rc_Panicked z; rc_Incoming z = p # ps; rc_Holding z = None; rc_Registered z\<rbrakk> \<Longrightarrow>
    race_step maxBytes z (z\<lparr>rc_Incoming := ps, rc_Holding := Some p\<rparr>)"
| set_aside: "\<lbrakk>\<not> rc_Panicked z; rc_Incoming z = p # ps; rc_Holding z = None; \<not> rc_Registered z\<rbrakk> \<Longrightarrow>
    race_step maxBytes z (z\<lparr>rc_Incoming := ps\<rparr>)"
| send: "\<lbrakk>\<not> rc_Panicked z; rc_Holding z = Some p; rc_Registered z; length (rc_Queue z) < maxBufferedAgentEvents\<rbrakk> \<Longrightarrow>
    race_step maxBytes z
      (z\<lparr>rc_Holding := None, rc_Queue := rc_Queue z @ [p], rc_Registered := \<not> file_last p\<rparr>)"
| crash: "\<lbrakk>\<not> rc_Panicked z; rc_Holding z = Some p; \<not> rc_Registered z\<rbrakk> \<Longrightarrow>
    race_step maxBytes z (z\<lparr>rc_Panicked := True\<rparr>)"
| take_one: "\<lbrakk>\<not> rc_Panicked z; rc_Returned z = None; rc_Queue z = p # ps;
    read_packet maxBytes (rc_Output z) p = (Inr output, False)\<rbrakk> \<Longrightarrow>
    race_step maxBytes z (z\<lparr>rc_Queue := ps, rc_Output := output\<rparr>)"
| finish: "\<lbrakk>\<not> rc_Panicked z; rc_Returned z = None; rc_Queue z = p # ps; read_packet maxBytes (rc_Output z) p = (r, True)\<rbrakk> \<Longrightarrow>
    race_step maxBytes z (z\<lparr>rc_Queue := ps, rc_Returned := Some r, rc_Registered := False\<rparr>)"
| drained: "\<lbrakk>\<not> rc_Panicked z; rc_Returned z = None; rc_Queue z = []; \<not> rc_Registered z\<rbrakk> \<Longrightarrow>
    race_step maxBytes z (z\<lparr>rc_Returned := Some (Inr (rc_Output z))\<rparr>)"

text \<open>
  Packets the reader accepts to the end: each fits, and only the last one ends the stream.
\<close>

fun acceptable :: "int \<Rightarrow> string \<Rightarrow> file_data list \<Rightarrow> bool" where
  "acceptable maxBytes output [] \<longleftrightarrow> True"
| "acceptable maxBytes output (p # ps) \<longleftrightarrow>
     (case read_packet maxBytes output p of
        (Inl e, stop) \<Rightarrow> False
      | (Inr output', stop) \<Rightarrow> (stop \<longleftrightarrow> ps = []) \<and> (file_last p \<longleftrightarrow> ps = []) \<and> acceptable maxBytes output' ps)"

definition race_ok :: "int \<Rightarrow> race \<Rightarrow> bool" where
  "race_ok maxBytes z \<longleftrightarrow> \<not> rc_Panicked z \<and>
     (\<not> rc_Registered z \<longrightarrow> rc_Holding z = None \<and> rc_Incoming z = []) \<and>
     (rc_Returned z = None \<longrightarrow>
        acceptable maxBytes (rc_Output z)
          (rc_Queue z @ (case rc_Holding z of None \<Rightarrow> [] | Some p \<Rightarrow> [p]) @ rc_Incoming z)) \<and>
     (rc_Returned z \<noteq> None \<longrightarrow> rc_Queue z = [] \<and> \<not> rc_Registered z)"

lemma acceptable_last: "acceptable m out (qs @ p # ps) \<Longrightarrow> file_last p \<longleftrightarrow> ps = []"
proof (induction qs arbitrary: out)
  case (Cons q qs)
  then show ?case by (auto split: prod.splits sum.splits)
qed (auto split: prod.splits sum.splits)

lemma race_ok_step: "race_step m z z' \<Longrightarrow> race_ok m z \<Longrightarrow> race_ok m z'"
proof (induction rule: race_step.induct)
  case (send z p)
  then show ?case
    using acceptable_last [of m "rc_Output z" "rc_Queue z" p "rc_Incoming z"] by (auto simp: race_ok_def)
next
  case (finish z p ps r)
  then show ?case by (auto simp: race_ok_def split: option.splits prod.splits sum.splits)
qed (auto simp: race_ok_def split: option.splits)

lemma fitting_read_never_panics:
  assumes "acceptable m [] ps" and "(race_step m)\<^sup>*\<^sup>* (race_start ps) z"
  shows "\<not> rc_Panicked z"
proof -
  have "race_ok m (race_start ps)" using assms(1) by (simp add: race_ok_def race_start_def)
  with assms(2) have "race_ok m z" by (induction rule: rtranclp_induct) (auto intro: race_ok_step)
  then show ?thesis by (simp add: race_ok_def)
qed

text \<open>
  C37: a guest can bring the control plane down. When the first packet of a file it streams does not fit the limit of the
  transfer (or does not decode) and another packet follows, there is a schedule in which the reader gives up and
  closes the channel while the session reader is about to send the next packet: the send panics, and with it the
  process that serves all sandboxes.
\<close>

theorem oversized_read_panics:
  assumes "read_packet maxBytes [] p = (Inl e, True)" and "\<not> file_last p"
  shows "\<exists>z. (race_step maxBytes)\<^sup>*\<^sup>* (race_start (p # q # rest)) z \<and> rc_Panicked z"
proof -
  let ?z0 = "race_start (p # q # rest)"
  let ?z1 = "?z0\<lparr>rc_Incoming := q # rest, rc_Holding := Some p\<rparr>"
  let ?z2 = "?z1\<lparr>rc_Holding := None, rc_Queue := [p]\<rparr>"
  let ?z3 = "?z2\<lparr>rc_Incoming := rest, rc_Holding := Some q\<rparr>"
  let ?z4 = "?z3\<lparr>rc_Queue := [], rc_Returned := Some (Inl e), rc_Registered := False\<rparr>"
  let ?z5 = "?z4\<lparr>rc_Panicked := True\<rparr>"
  have "race_step maxBytes ?z0 ?z1" using look_up [of ?z0 p "q # rest" maxBytes] by (simp add: race_start_def)
  moreover have "race_step maxBytes ?z1 ?z2"
    using send [of ?z1 p maxBytes] assms(2) by (simp add: race_start_def maxBufferedAgentEvents_def)
  moreover have "race_step maxBytes ?z2 ?z3" using look_up [of ?z2 q rest maxBytes] by (simp add: race_start_def)
  moreover have "race_step maxBytes ?z3 ?z4"
    using finish [of ?z3 p "[]" maxBytes "Inl e"] assms(1) by (simp add: race_start_def)
  moreover have "race_step maxBytes ?z4 ?z5" using crash [of ?z4 q maxBytes] by (simp add: race_start_def)
  ultimately have "(race_step maxBytes)\<^sup>*\<^sup>* ?z0 ?z5" by (meson rtranclp.rtrancl_refl rtranclp.rtrancl_into_rtrancl)
  then show ?thesis by (intro exI [of _ ?z5]) simp
qed

theorem oversized_read_panics_witness:
  "\<exists>z. (race_step 2)\<^sup>*\<^sup>* (race_start (replicate 2 (demo_packet (EncodeBytes ''abc'')))) z \<and> rc_Panicked z"
proof -
  have "read_packet 2 [] (demo_packet (EncodeBytes ''abc'')) = (Inl (ErrFileTransferTooLarge 2), True)" by code_simp
  moreover have "\<not> file_last (demo_packet (EncodeBytes ''abc''))" by code_simp
  ultimately show ?thesis
    using oversized_read_panics [of 2 "demo_packet (EncodeBytes ''abc'')" _ "demo_packet (EncodeBytes ''abc'')" "[]"]
    by (simp add: numeral_2_eq_2)
qed

end
