(* ===== verification/Qemu.thy ===== *)
theory Qemu
  imports Docker AgentSession
begin

text \<open>
  The virtual machine backend (\<open>internal/runtime/qemu\<close>): the layout of a sandbox on disk, the life cycle of
  its QEMU process (\<open>runtime.go\<close>), commands, files and archives over SSH or the guest agent (\<open>exec.go\<close>,
  \<open>workspace.go\<close>, \<open>archive.go\<close>). The host is a parameter: the programs that are run, signals, the process
  table, files and sockets. Every program run, signal sent and file
  operation is recorded in order.
\<close>

section \<open>The host\<close>

datatype signal = SIG0 | SIGTERM | SIGKILL | SIGSTOP | SIGCONT

datatype kill_result = KillOK | KillNoProcess | KillError goerr

datatype file_answer = FileText string | FileMissing goerr | FileError goerr

datatype file_result = FileDone | FileAbsent goerr | FileFailed goerr

text \<open>File operations: those of the other components, creating a file without touching its content, and setting a size.\<close>

datatype vm_file = Plain fs_op | Touch string | Truncate string int

text \<open>
  What happened, in order: a program with its arguments and its input, a signal, the command line of a process as
  the process table showed it, and a file operation.
\<close>

datatype vm_event =
    Ran string "string list" string
  | Signalled int signal
  | Looked int string
  | Filed vm_file

text \<open>The size on disk that \<open>allocatedPathUsage\<close> sees: of a single file, or of the entries below a directory.\<close>

record file_size =
  fz_Blocks :: int
  fz_Size :: int
  fz_IsDir :: bool

datatype usage_entry = UsageMissing | UsageError goerr | UsageFile file_size

datatype usage_view = PathMissing | PathError goerr | PathFile file_size | PathTree "usage_entry list"

text \<open>Requests to the guest agent and what the answers carry.\<close>

datatype agent_request =
    HelloRequest
  | PingRequest
  | ExecStartRequest exec_request
  | ExecCancelRequest string
  | FileOpenRequest string string bool
  | FileCloseRequest string
  | FileDeleteRequest string
  | MkdirRequest string
  | PTYOpenRequest "string list" string "(string \<times> string) list" int int
  | ArchiveStreamRequest "string list"
  | TCPBridgeOpenRequest int
  | ShutdownRequest

record agent_reply =
  ar_SessionID :: string
  ar_Size :: int
  ar_Ready :: bool
  ar_Reason :: string
  ar_ProtocolVersion :: string
  ar_WorkspaceContractVersion :: string
  ar_Capabilities :: "string list"
  ar_MaxFileTransferBytes :: int

text \<open>
  \<open>vh_Run\<close> is a program that is run to its end on an input, with the time it takes. \<open>vh_Late\<close> is how late a sleeping
  goroutine wakes up, and \<open>vh_Spins\<close> how often a choice between an expired timeout and a waiting tick falls on the
  tick. \<open>vh_ImageInfo\<close> decodes the report of \<open>qemu-img info\<close> and
  \<open>vh_ScanError\<close> is the message of \<open>fmt.Sscanf\<close> for a text without a number. The fields from \<open>vh_Dial\<close> on
  are the connections to guest agents: a request with its answer, and the streams as the session reader (\<open>AgentSession\<close>)
  hands them out.
\<close>

record 'q vm_host =
  vh_Run :: "string \<Rightarrow> string list \<Rightarrow> string \<Rightarrow> 'q \<Rightarrow> cli_result \<times> nat \<times> 'q"
  vh_Spawn :: "string \<Rightarrow> string list \<Rightarrow> 'q \<Rightarrow> (goerr + process) \<times> 'q"
  vh_PTY :: "string \<Rightarrow> string list \<Rightarrow> 16 word \<Rightarrow> 16 word \<Rightarrow> 'q \<Rightarrow> (goerr + string) \<times> 'q"
  vh_MakeRaw :: "string \<Rightarrow> goerr option"
  vh_Kill :: "int \<Rightarrow> signal \<Rightarrow> 'q \<Rightarrow> kill_result \<times> 'q"
  vh_ProcessArgs :: "int \<Rightarrow> 'q \<Rightarrow> (goerr + string) \<times> 'q"
  vh_ScanError :: "string \<Rightarrow> string"
  vh_ReadFile :: "string \<Rightarrow> 'q \<Rightarrow> file_answer"
  vh_ModTime :: "string \<Rightarrow> 'q \<Rightarrow> time option"
  vh_File :: "vm_file \<Rightarrow> 'q \<Rightarrow> file_result \<times> 'q"
  vh_MkdirTemp :: "string \<Rightarrow> string \<Rightarrow> 'q \<Rightarrow> (goerr + string) \<times> 'q"
  vh_CreateTemp :: "string \<Rightarrow> string \<Rightarrow> 'q \<Rightarrow> (goerr + string) \<times> 'q"
  vh_PortFree :: "int \<Rightarrow> 'q \<Rightarrow> bool"
  vh_AllocatePort :: "'q \<Rightarrow> goerr + int"
  vh_Images :: host
  vh_ImageInfo :: "string \<Rightarrow> goerr + int"
  vh_Walk :: "string \<Rightarrow> 'q \<Rightarrow> (goerr + walk_entry) list"
  vh_Usage :: "string \<Rightarrow> 'q \<Rightarrow> usage_view"
  vh_Archives :: archive_view
  vh_Late :: "time \<Rightarrow> nat"
  vh_Spins :: nat
  vh_Dial :: "string \<Rightarrow> 'q \<Rightarrow> (goerr + nat) \<times> nat \<times> 'q"
  vh_Alive :: "nat \<Rightarrow> 'q \<Rightarrow> bool"
  vh_Hangup :: "nat \<Rightarrow> 'q \<Rightarrow> 'q"
  vh_RoundTrip :: "nat \<Rightarrow> agent_request \<Rightarrow> 'q \<Rightarrow> (goerr + agent_reply) \<times> nat \<times> 'q"
  vh_SendFile :: "nat \<Rightarrow> file_data \<Rightarrow> 'q \<Rightarrow> goerr option \<times> 'q"
  vh_FileStream :: "nat \<Rightarrow> string \<Rightarrow> 'q \<Rightarrow> (goerr + file_data list) \<times> 'q"
  vh_ExecStream :: "nat \<Rightarrow> string \<Rightarrow> 'q \<Rightarrow> (goerr + exec_event list) \<times> 'q"
  vh_ArchiveStream :: "nat \<Rightarrow> string \<Rightarrow> 'q \<Rightarrow> (goerr + archive_chunk list) \<times> 'q"
  vh_Handle :: "nat \<Rightarrow> string \<Rightarrow> 'q \<Rightarrow> goerr option \<times> 'q"

record guest_handshake =
  gh_ProtocolVersion :: string
  gh_WorkspaceContractVersion :: string
  gh_Capabilities :: "string list"
  gh_MaxFileTransferBytes :: int

record agent_session =
  ag_runtimeID :: string
  ag_pid :: int
  ag_socketPath :: string
  ag_conn :: nat
  ag_handshake :: guest_handshake

record 'q vm =
  vm_state :: 'q
  vm_clock :: time
  vm_log :: "vm_event list"
  vm_sessions :: "(string \<times> agent_session) list"
  vm_metrics :: agent_sessions
  vm_sandboxMetrics :: "(string \<times> agent_sessions) list"

type_synonym ('q, 'a) vm_op = "(goerr, 'q vm, 'a) eop"

definition run_on :: "'q vm_host \<Rightarrow> string \<Rightarrow> string list \<Rightarrow> string \<Rightarrow> 'q vm \<Rightarrow> cli_result \<times> 'q vm" where
  "run_on h binary args stdin w = (case vh_Run h binary args stdin (vm_state w) of
     (c, elapsed, q) \<Rightarrow>
       (c, w\<lparr>vm_state := q, vm_clock := vm_clock w + int elapsed, vm_log := vm_log w @ [Ran binary args stdin]\<rparr>))"

definition defaultRunCommand :: "'q vm_host \<Rightarrow> string \<Rightarrow> string list \<Rightarrow> ('q, string) vm_op" where
  "defaultRunCommand h binary args = (\<lambda>w. case run_on h binary args [] w of
     (c, w') \<Rightarrow>
       (case cl_Err c of
          Some err \<Rightarrow> Inl (Err (binary @ '' '' @ join_with '' '' args @ '': '' @ err @ '': '' @ TrimSpace (cl_Combined c)))
        | None \<Rightarrow> Inr (cl_Combined c), w'))"

definition signal :: "'q vm_host \<Rightarrow> int \<Rightarrow> signal \<Rightarrow> 'q vm \<Rightarrow> kill_result \<times> 'q vm" where
  "signal h pid sig w = (case vh_Kill h pid sig (vm_state w) of
     (r, q) \<Rightarrow> (r, w\<lparr>vm_state := q, vm_log := vm_log w @ [Signalled pid sig]\<rparr>))"

definition processArgs :: "'q vm_host \<Rightarrow> int \<Rightarrow> ('q, string) vm_op" where
  "processArgs h pid = (\<lambda>w. case vh_ProcessArgs h pid (vm_state w) of
     (r, q) \<Rightarrow> (r, w\<lparr>vm_state := q, vm_log := vm_log w @ (case r of Inl e \<Rightarrow> [] | Inr args \<Rightarrow> [Looked pid args])\<rparr>))"

definition file_result_of :: "'q vm_host \<Rightarrow> vm_file \<Rightarrow> 'q vm \<Rightarrow> file_result \<times> 'q vm" where
  "file_result_of h oper w = (case vh_File h oper (vm_state w) of
     (r, q) \<Rightarrow> (r, w\<lparr>vm_state := q, vm_log := vm_log w @ [Filed oper]\<rparr>))"

definition file_op :: "'q vm_host \<Rightarrow> vm_file \<Rightarrow> ('q, unit) vm_op" where
  "file_op h oper = (\<lambda>w. case file_result_of h oper w of
     (r, w') \<Rightarrow> (case r of FileDone \<Rightarrow> Inr () | FileAbsent e \<Rightarrow> Inl e | FileFailed e \<Rightarrow> Inl e, w'))"

definition remove_if_present :: "'q vm_host \<Rightarrow> string \<Rightarrow> ('q, unit) vm_op" where
  "remove_if_present h p = (\<lambda>w. case file_result_of h (Plain (RemovePath p)) w of
     (r, w') \<Rightarrow> (case r of FileFailed e \<Rightarrow> Inl e | _ \<Rightarrow> Inr (), w'))"

definition remove :: "'q vm_host \<Rightarrow> string \<Rightarrow> 'q vm \<Rightarrow> 'q vm" where
  "remove h p w = snd (file_result_of h (Plain (RemovePath p)) w)"

definition vm_sleep :: "'q vm_host \<Rightarrow> int \<Rightarrow> 'q vm \<Rightarrow> 'q vm" where
  "vm_sleep h d w = w\<lparr>vm_clock := vm_clock w + max 0 d + int (vh_Late h (vm_clock w))\<rparr>"

text \<open>A step that cannot fail, and one whose answer is not an error value.\<close>

definition doE :: "('w \<Rightarrow> 'w) \<Rightarrow> ('e, 'w, 'a) eop \<Rightarrow> ('e, 'w, 'a) eop" where
  "doE f k = (\<lambda>w. k (f w))"

definition askE :: "('w \<Rightarrow> 'r \<times> 'w) \<Rightarrow> ('r \<Rightarrow> ('e, 'w, 'a) eop) \<Rightarrow> ('e, 'w, 'a) eop" where
  "askE f k = (\<lambda>w. case f w of (r, w') \<Rightarrow> k r w')"

section \<open>Configuration\<close>

record qemu_options =
  qo_Binary :: string
  qo_Accel :: string
  qo_BaseImagePath :: string
  qo_ControlMode :: control_mode
  qo_SSHUser :: string
  qo_SSHKeyPath :: string
  qo_SSHHostKeyPath :: string
  qo_BootTimeout :: int
  qo_SSHBinary :: string
  qo_SCPBinary :: string
  qo_WorkspaceFileTransferMaxBytes :: int

record qemu_runtime =
  qr_qemuBinary :: string
  qr_qemuImgBinary :: string
  qr_mkfsExt4Binary :: string
  qr_sshBinary :: string
  qr_scpBinary :: string
  qr_accelerator :: string
  qr_baseImagePath :: string
  qr_controlMode :: control_mode
  qr_agentTransport :: string
  qr_sshUser :: string
  qr_sshKeyPath :: string
  qr_sshHostKeyPath :: string
  qr_bootTimeout :: int
  qr_pollInterval :: int
  qr_workspaceFileTransferMaxBytes :: int

definition qemuRuntimePrefix :: string where "qemuRuntimePrefix = ''qemu-''"
definition defaultQEMUImgBinary :: string where "defaultQEMUImgBinary = ''qemu-img''"
definition defaultAgentTransport :: string where "defaultAgentTransport = ''virtio-serial''"
definition sshCompatTransport :: string where "sshCompatTransport = ''ssh-port-forward''"
definition readyMarkerPath :: string where "readyMarkerPath = ''/var/lib/or3/bootstrap.ready''"
definition defaultPollInterval :: int where "defaultPollInterval = 500000000"
definition serialTailLimit :: nat where "serialTailLimit = 64 * 1024"

definition bootFailureMarkers :: "string list" where
  "bootFailureMarkers = [''kernel panic'', ''no bootable device'', ''emergency mode'', ''failed to start'', ''gave up waiting'']"

definition resolveAccel :: "string \<Rightarrow> string \<Rightarrow> goerr + string" where
  "resolveAccel value goos =
     (let v = ToLower (TrimSpace value);
          wrong = Inl (Err (''qemu accel '' @ quote value @ '' is unsupported on host OS '' @ quote goos)) in
      if v = [] \<or> v = ''auto'' then
        (if goos = ''linux'' then Inr ''kvm'' else if goos = ''darwin'' then Inr ''hvf''
         else Inl (Err (''qemu runtime is unsupported on host OS '' @ quote goos)))
      else if v = ''kvm'' then (if goos \<noteq> ''linux'' then wrong else Inr ''kvm'')
      else if v = ''hvf'' then (if goos \<noteq> ''darwin'' then wrong else Inr ''hvf'')
      else Inl (Err (''unsupported qemu accelerator '' @ quote value)))"

definition deriveQEMUImgBinary :: "string \<Rightarrow> string" where
  "deriveQEMUImgBinary qemuBinary =
     (if TrimSpace qemuBinary = [] then defaultQEMUImgBinary
      else (let base = Base qemuBinary in
            if HasPrefix base ''qemu-system-'' then TrimSuffix qemuBinary base @ defaultQEMUImgBinary
            else defaultQEMUImgBinary))"

text \<open>What the host offers: programs, files and the two accelerators.\<close>

record host_probe =
  hp_goos :: string
  hp_commandExists :: "string \<Rightarrow> goerr option"
  hp_fileReadable :: "string \<Rightarrow> goerr option"
  hp_kvmAvailable :: "goerr option"
  hp_hvfAvailable :: "goerr option"

text \<open>The host as the probe sees it: \<open>hf_Stat\<close> tells whether a path is a directory, \<open>hf_Sysctl\<close> is the answer about the hypervisor.\<close>

record host_facts =
  hf_goos :: string
  hf_Stat :: "string \<Rightarrow> goerr + bool"
  hf_Open :: "string \<Rightarrow> goerr option"
  hf_LookPath :: "string \<Rightarrow> goerr option"
  hf_Sysctl :: cli_result

definition requireReadableFile :: "host_facts \<Rightarrow> string \<Rightarrow> goerr option" where
  "requireReadableFile f path =
     (case hf_Stat f path of
        Inl e \<Rightarrow> Some e
      | Inr isDir \<Rightarrow> if isDir then Some (Err (path @ '' is a directory'')) else hf_Open f path)"

definition requireCommand :: "host_facts \<Rightarrow> string \<Rightarrow> goerr option" where
  "requireCommand f name =
     (if TrimSpace name = [] then Some (Err ''command path is empty'')
      else if IsAbs name \<or> slash \<in> set name then requireReadableFile f name
      else hf_LookPath f name)"

definition requireKVM :: "host_facts \<Rightarrow> goerr option" where
  "requireKVM f = requireReadableFile f ''/dev/kvm''"

definition requireHVF :: "host_facts \<Rightarrow> goerr option" where
  "requireHVF f =
     (let output = TrimSpace (cl_Combined (hf_Sysctl f)) in
      case cl_Err (hf_Sysctl f) of
        Some err \<Rightarrow> Some (Err (err @ '': '' @ output))
      | None \<Rightarrow> if output \<noteq> ''1'' then Some (Err (''kern.hv_support='' @ output)) else None)"

definition defaultHostProbe :: "host_facts \<Rightarrow> host_probe" where
  "defaultHostProbe f =
     \<lparr>hp_goos = hf_goos f, hp_commandExists = requireCommand f, hp_fileReadable = requireReadableFile f,
      hp_kvmAvailable = requireKVM f, hp_hvfAvailable = requireHVF f\<rparr>"

fun first_missing :: "string \<Rightarrow> (string \<Rightarrow> goerr option) \<Rightarrow> string list \<Rightarrow> goerr + unit" where
  "first_missing what probe [] = Inr ()"
| "first_missing what probe (x # xs) =
     (case probe x of
        None \<Rightarrow> first_missing what probe xs
      | Some e \<Rightarrow> Inl (Err (''required '' @ what @ '' '' @ quote x @ '' is unavailable: '' @ err_text e)))"

definition validateHost :: "qemu_options \<Rightarrow> string \<Rightarrow> string \<Rightarrow> host_probe \<Rightarrow> goerr + unit" where
  "validateHost o1 qemuImgBinary accel probe =
     (let mode = (if control_mode_IsValid (qo_ControlMode o1) then qo_ControlMode o1 else ControlAgent);
          ssh = (mode = ControlSSHCompat) in
      if TrimSpace (qo_Binary o1) = [] then Inl (Err ''qemu binary is required'')
      else if TrimSpace (qo_BaseImagePath o1) = [] then Inl (Err ''qemu base image path is required'')
      else if ssh \<and> TrimSpace (qo_SSHUser o1) = [] then Inl (Err ''qemu ssh user is required'')
      else if ssh \<and> TrimSpace (qo_SSHKeyPath o1) = [] then Inl (Err ''qemu ssh key path is required'')
      else if ssh \<and> TrimSpace (qo_SSHHostKeyPath o1) = [] then Inl (Err ''qemu ssh host key path is required'')
      else if qo_BootTimeout o1 \<le> 0 then Inl (Err ''qemu boot timeout must be positive'')
      else
        (case first_missing ''host command'' (hp_commandExists probe)
            ([qo_Binary o1, qemuImgBinary, ''ps''] @ (if ssh then [qo_SSHBinary o1, qo_SCPBinary o1] else [])) of
           Inl e \<Rightarrow> Inl e
         | Inr _ \<Rightarrow>
             (case first_missing ''file'' (hp_fileReadable probe)
                 ([qo_BaseImagePath o1] @ (if ssh then [qo_SSHKeyPath o1, qo_SSHHostKeyPath o1] else [])) of
                Inl e \<Rightarrow> Inl e
              | Inr _ \<Rightarrow>
                  (case (if accel = ''kvm'' then hp_kvmAvailable probe
                         else if accel = ''hvf'' then hp_hvfAvailable probe else None) of
                     Some e \<Rightarrow> Inl e | None \<Rightarrow> Inr ()))))"

definition workspaceFileTransferLimit :: "int \<Rightarrow> int" where
  "workspaceFileTransferLimit limit =
     (if limit \<le> 0 then DefaultWorkspaceFileTransferMaxBytes
      else if MaxWorkspaceFileTransferCeilingBytes < limit then MaxWorkspaceFileTransferCeilingBytes
      else limit)"

definition qemu_New :: "host_facts \<Rightarrow> qemu_options \<Rightarrow> goerr + qemu_runtime" where
  "qemu_New facts opts =
     (let probe = defaultHostProbe facts; o1 = opts\<lparr>qo_SSHBinary := (if TrimSpace (qo_SSHBinary opts) = [] then ''ssh'' else qo_SSHBinary opts),
            qo_SCPBinary := (if TrimSpace (qo_SCPBinary opts) = [] then ''scp'' else qo_SCPBinary opts),
            qo_ControlMode := (if control_mode_IsValid (qo_ControlMode opts) then qo_ControlMode opts else ControlAgent)\<rparr> in
      case resolveAccel (qo_Accel o1) (hp_goos probe) of
        Inl e \<Rightarrow> Inl e
      | Inr accel \<Rightarrow>
          (let qemuImgBinary = deriveQEMUImgBinary (qo_Binary o1) in
           case validateHost o1 qemuImgBinary accel probe of
             Inl e \<Rightarrow> Inl e
           | Inr _ \<Rightarrow>
               Inr \<lparr>qr_qemuBinary = qo_Binary o1, qr_qemuImgBinary = qemuImgBinary, qr_mkfsExt4Binary = ''mkfs.ext4'',
                 qr_sshBinary = qo_SSHBinary o1, qr_scpBinary = qo_SCPBinary o1, qr_accelerator = accel,
                 qr_baseImagePath = qo_BaseImagePath o1, qr_controlMode = qo_ControlMode o1,
                 qr_agentTransport = defaultAgentTransport, qr_sshUser = qo_SSHUser o1, qr_sshKeyPath = qo_SSHKeyPath o1,
                 qr_sshHostKeyPath = qo_SSHHostKeyPath o1, qr_bootTimeout = qo_BootTimeout o1,
                 qr_pollInterval = defaultPollInterval,
                 qr_workspaceFileTransferMaxBytes = workspaceFileTransferLimit (qo_WorkspaceFileTransferMaxBytes o1)\<rparr>))"

definition effectiveBootTimeout :: "qemu_runtime \<Rightarrow> int" where
  "effectiveBootTimeout r = (if 0 < qr_bootTimeout r then qr_bootTimeout r else 120000000000)"

definition effectivePollInterval :: "qemu_runtime \<Rightarrow> int" where
  "effectivePollInterval r = (if 0 < qr_pollInterval r then qr_pollInterval r else defaultPollInterval)"

section \<open>Layout\<close>

record layout =
  ly_baseDir :: string
  ly_rootfsDir :: string
  ly_workspaceDir :: string
  ly_cacheDir :: string
  ly_scratchDir :: string
  ly_secretsDir :: string
  ly_runtimeDir :: string
  ly_rootDiskPath :: string
  ly_workspaceDiskPath :: string
  ly_pidPath :: string
  ly_monitorPath :: string
  ly_agentSocketPath :: string
  ly_knownHostsPath :: string
  ly_serialLogPath :: string

definition layout_for :: "string \<Rightarrow> string \<Rightarrow> string \<Rightarrow> string \<Rightarrow> string \<Rightarrow> layout" where
  "layout_for storageRoot workspaceRoot cacheRoot scratchRoot secretsRoot =
     (let baseDir = Dir storageRoot in
      \<lparr>ly_baseDir = baseDir, ly_rootfsDir = storageRoot, ly_workspaceDir = workspaceRoot, ly_cacheDir = cacheRoot,
       ly_scratchDir = scratchRoot, ly_secretsDir = secretsRoot, ly_runtimeDir = Join [baseDir, ''.runtime''],
       ly_rootDiskPath = Join [storageRoot, ''overlay.qcow2''], ly_workspaceDiskPath = Join [workspaceRoot, ''workspace.img''],
       ly_pidPath = Join [baseDir, ''.runtime'', ''qemu.pid''], ly_monitorPath = Join [baseDir, ''.runtime'', ''monitor.sock''],
       ly_agentSocketPath = Join [baseDir, ''.runtime'', ''agent.sock''],
       ly_knownHostsPath = Join [baseDir, ''.runtime'', ''ssh-known-hosts''],
       ly_serialLogPath = Join [baseDir, ''.runtime'', ''serial.log'']\<rparr>)"

definition layoutForSpec :: "sandbox_spec \<Rightarrow> layout" where
  "layoutForSpec spec =
     layout_for (sp_StorageRoot spec) (sp_WorkspaceRoot spec) (sp_CacheRoot spec) (sp_ScratchRoot spec) (sp_SecretsRoot spec)"

definition layoutForSandbox :: "sandbox \<Rightarrow> layout" where
  "layoutForSandbox s =
     layout_for (sb_StorageRoot s) (sb_WorkspaceRoot s) (sb_CacheRoot s)
       (Join [Dir (sb_StorageRoot s), ''scratch'']) (Join [Dir (sb_StorageRoot s), ''secrets''])"

definition suspendedMarkerPath :: "layout \<Rightarrow> string" where
  "suspendedMarkerPath l = Join [ly_runtimeDir l, ''suspended'']"

definition isSuspended :: "'q vm_host \<Rightarrow> layout \<Rightarrow> 'q vm \<Rightarrow> bool" where
  "isSuspended h l w \<longleftrightarrow> vh_ModTime h (suspendedMarkerPath l) (vm_state w) \<noteq> None"

definition ensureLayout :: "'q vm_host \<Rightarrow> layout \<Rightarrow> ('q, unit) vm_op" where
  "ensureLayout h l =
     forE (filter (\<lambda>d. d \<noteq> [])
       [ly_rootfsDir l, ly_workspaceDir l, ly_cacheDir l, ly_scratchDir l, ly_secretsDir l, ly_runtimeDir l])
       (\<lambda>d. file_op h (Plain (MkdirAll d)))"

section \<open>Control modes\<close>

definition mode_or_default :: "qemu_runtime \<Rightarrow> control_mode" where
  "mode_or_default r = (if control_mode_IsValid (qr_controlMode r) then qr_controlMode r else ControlAgent)"

definition controlModeForSandbox :: "'q vm_host \<Rightarrow> qemu_runtime \<Rightarrow> sandbox \<Rightarrow> control_mode" where
  "controlModeForSandbox h r s =
     (if control_mode_IsValid (sb_ControlMode s) then sb_ControlMode s
      else
        (let path = TrimSpace (sb_BaseImageRef s) in
         if path = [] then mode_or_default r
         else
           (case Load (vh_Images h) path of
              Inl e \<Rightarrow> mode_or_default r
            | Inr c \<Rightarrow> if control_mode_IsValid (gc_ControlMode c) then gc_ControlMode c else mode_or_default r)))"

definition controlModeForSpec :: "qemu_runtime \<Rightarrow> sandbox_spec \<Rightarrow> control_mode" where
  "controlModeForSpec r spec = (if control_mode_IsValid (sp_ControlMode spec) then sp_ControlMode spec else mode_or_default r)"

definition controlTransport :: "qemu_runtime \<Rightarrow> control_mode \<Rightarrow> goerr + control_mode \<times> string" where
  "controlTransport r mode =
     (case mode of
        ControlAgent \<Rightarrow>
          (let transport = TrimSpace (qr_agentTransport r) in
           Inr (mode, if transport = [] then defaultAgentTransport else transport))
      | ControlSSHCompat \<Rightarrow> Inr (mode, sshCompatTransport)
      | OtherControlMode m \<Rightarrow> Inl (Err (''unsupported control mode '' @ quote m)))"

definition controlTransportForSandbox :: "'q vm_host \<Rightarrow> qemu_runtime \<Rightarrow> sandbox \<Rightarrow> goerr + control_mode \<times> string" where
  "controlTransportForSandbox h r s = controlTransport r (controlModeForSandbox h r s)"

definition controlTransportForSpec :: "qemu_runtime \<Rightarrow> sandbox_spec \<Rightarrow> goerr + control_mode \<times> string" where
  "controlTransportForSpec r spec = controlTransport r (controlModeForSpec r spec)"

section \<open>The guest image\<close>

definition isReadableFile :: "'q vm_host \<Rightarrow> string \<Rightarrow> bool" where
  "isReadableFile h path \<longleftrightarrow> TrimSpace path \<noteq> [] \<and> h_Readable (vh_Images h) path"

definition fill_spec :: "contract \<Rightarrow> sandbox_spec \<Rightarrow> sandbox_spec" where
  "fill_spec c spec =
     spec\<lparr>sp_Profile := (if sp_Profile spec = no_profile then gc_Profile c else sp_Profile spec),
       sp_ControlMode := (if control_mode_IsValid (sp_ControlMode spec) then sp_ControlMode spec else gc_ControlMode c),
       sp_ControlProtocolVersion :=
         (if TrimSpace (sp_ControlProtocolVersion spec) = [] then gc_ProtocolVersion c else sp_ControlProtocolVersion spec),
       sp_WorkspaceContractVersion :=
         (if TrimSpace (sp_WorkspaceContractVersion spec) = [] then gc_WorkspaceContractVersion c
          else sp_WorkspaceContractVersion spec),
       sp_ImageContractVersion :=
         (if TrimSpace (sp_ImageContractVersion spec) = [] then gc_ContractVersion c else sp_ImageContractVersion spec)\<rparr>"

definition mismatch :: "string \<Rightarrow> string \<Rightarrow> string \<Rightarrow> string \<Rightarrow> goerr" where
  "mismatch what a whose b = Err (''guest image '' @ what @ '' '' @ quote a @ '' does not match sandbox '' @ whose @ '' '' @ quote b)"

definition check_spec :: "qemu_runtime \<Rightarrow> contract \<Rightarrow> sandbox_spec \<Rightarrow> goerr + unit" where
  "check_spec r c spec =
     (if sp_Profile spec \<noteq> no_profile \<and> gc_Profile c \<noteq> sp_Profile spec then
        Inl (mismatch ''profile'' (profile_string (gc_Profile c)) ''profile'' (profile_string (sp_Profile spec)))
      else if control_mode_IsValid (sp_ControlMode spec) \<and> gc_ControlMode c \<noteq> sp_ControlMode spec then
        Inl (mismatch ''control mode'' (control_mode_string (gc_ControlMode c)) ''control mode''
               (control_mode_string (sp_ControlMode spec)))
      else
        (case controlTransportForSpec r spec of
           Inl e \<Rightarrow> Inl e
         | Inr (mode, name) \<Rightarrow>
             if gc_ControlMode c = ControlAgent \<and> gc_SupportedTransports c \<noteq> [] \<and>
                \<not> list_ex (\<lambda>candidate. EqualFold (TrimSpace candidate) name) (gc_SupportedTransports c) then
               Inl (Err (''guest image does not support runtime agent transport '' @ quote name))
             else if TrimSpace (sp_ControlProtocolVersion spec) \<noteq> [] \<and>
                gc_ProtocolVersion c \<noteq> sp_ControlProtocolVersion spec then
               Inl (mismatch ''control protocol'' (gc_ProtocolVersion c) ''control protocol'' (sp_ControlProtocolVersion spec))
             else if TrimSpace (sp_WorkspaceContractVersion spec) \<noteq> [] \<and>
                gc_WorkspaceContractVersion c \<noteq> sp_WorkspaceContractVersion spec then
               Inl (mismatch ''workspace contract version'' (gc_WorkspaceContractVersion c) ''workspace contract version''
                      (sp_WorkspaceContractVersion spec))
             else if TrimSpace (sp_ImageContractVersion spec) \<noteq> [] \<and>
                gc_ContractVersion c \<noteq> sp_ImageContractVersion spec then
               Inl (mismatch ''contract version'' (gc_ContractVersion c) ''contract version'' (sp_ImageContractVersion spec))
             else Inr ()))"

definition guestBaseImage :: "'q vm_host \<Rightarrow> qemu_runtime \<Rightarrow> sandbox_spec \<Rightarrow> goerr + string \<times> sandbox_spec" where
  "guestBaseImage h r spec =
     (let requested = TrimSpace (sp_BaseImageRef spec);
          chosen = (if requested = [] then qr_baseImagePath r else requested) in
      if \<not> isReadableFile h chosen then Inl (Err (''qemu base image path '' @ quote chosen @ '' is not readable''))
      else
        (let path = Clean chosen in
         case Load (vh_Images h) path of
           Inl e \<Rightarrow> Inl e
         | Inr c \<Rightarrow>
             (case Validate_contract (vh_Images h) path c of
                Inl e \<Rightarrow> Inl e
              | Inr u \<Rightarrow>
                  (case check_spec r c (fill_spec c spec) of
                     Inl e \<Rightarrow> Inl e | Inr v \<Rightarrow> Inr (path, fill_spec c spec)))))"

end
