(* ===== verification/QemuProcess.thy ===== *)
theory QemuProcess
  imports Qemu
begin

text \<open>
  The parts of a virtual machine (\<open>internal/runtime/qemu/runtime.go\<close>): its disks, the SSH command line, the command line
  QEMU is started with, and the process behind the pid file.
\<close>

unbundle bit_operations_syntax

section \<open>Disks\<close>

definition splitDiskBytes :: "int \<Rightarrow> int \<Rightarrow> int \<times> int" where
  "splitDiskBytes totalMB minimumRootBytes =
     (let totalBytes = mul64 (mul64 totalMB 1024) 1024 in
      if totalBytes \<le> 0 then (0, 0)
      else
        (let half = totalBytes div 2; workspace = totalBytes - half in
         (if half < minimumRootBytes then minimumRootBytes else half, workspace)))"

definition qemuSize :: "int \<Rightarrow> string" where "qemuSize n = fmt_int n"

definition createSparseFile :: "'q vm_host \<Rightarrow> string \<Rightarrow> int \<Rightarrow> ('q, unit) vm_op" where
  "createSparseFile h path sizeBytes =
     guardE (sizeBytes \<le> 0) (Err (''invalid sparse file size '' @ fmt_int sizeBytes)) (
     thenE (file_op h (Plain (CreateFile path))) (file_op h (Truncate path sizeBytes)))"

definition createRootDisk :: "'q vm_host \<Rightarrow> qemu_runtime \<Rightarrow> string \<Rightarrow> string \<Rightarrow> int \<Rightarrow> ('q, unit) vm_op" where
  "createRootDisk h r baseImagePath outputPath sizeBytes =
     (if qr_qemuImgBinary r = [] then createSparseFile h outputPath sizeBytes
      else
        doE (remove h outputPath)
       (thenE (defaultRunCommand h (qr_qemuImgBinary r)
          [''create'', ''-f'', ''qcow2'', ''-F'', ''qcow2'', ''-b'', baseImagePath, outputPath, qemuSize sizeBytes])
          (okE ())))"

text \<open>The label, from \<open>agent_client.go\<close>: part of the sandbox identifier, cut to what ext4 allows.\<close>

definition label_char :: "char \<Rightarrow> bool" where
  "label_char c \<longleftrightarrow> c \<in> set (map snd case_table) \<or> c \<in> set (map fst case_table) \<or> digit_val c \<noteq> None"

definition workspaceDiskLabelForSandbox :: "string \<Rightarrow> string" where
  "workspaceDiskLabelForSandbox sandboxID =
     (let base = take 10 (map lower_char (filter label_char (TrimPrefix (Base (TrimSpace sandboxID)) ''sbx-''))) in
      ''or3-'' @ (if base = [] then ''workspace'' else base))"

definition createWorkspaceDisk ::
  "'q vm_host \<Rightarrow> qemu_runtime \<Rightarrow> string \<Rightarrow> int \<Rightarrow> string \<Rightarrow> string \<Rightarrow> ('q, unit) vm_op" where
  "createWorkspaceDisk h r outputPath sizeBytes sandboxID seedDir =
     (if qr_qemuImgBinary r = [] then createSparseFile h outputPath sizeBytes
      else
        doE (remove h outputPath)
       (thenE (defaultRunCommand h (qr_qemuImgBinary r) [''create'', ''-f'', ''raw'', outputPath, qemuSize sizeBytes])
       (if TrimSpace (qr_mkfsExt4Binary r) = [] then okE ()
        else
          thenE (defaultRunCommand h (qr_mkfsExt4Binary r)
            ([''-F'', ''-L'', workspaceDiskLabelForSandbox sandboxID] @
             (if TrimSpace seedDir = [] then [] else [''-d'', seedDir]) @ [outputPath]))
            (okE ()))))"

definition baseImageVirtualSizeBytes :: "'q vm_host \<Rightarrow> qemu_runtime \<Rightarrow> string \<Rightarrow> ('q, int) vm_op" where
  "baseImageVirtualSizeBytes h r imagePath =
     (if TrimSpace imagePath = [] \<or> TrimSpace (qr_qemuImgBinary r) = [] then okE 0
      else
        tryE (defaultRunCommand h (qr_qemuImgBinary r) [''info'', ''--output=json'', imagePath]) (\<lambda>res.
        case res of
          Inl e \<Rightarrow> failE (Err (''inspect qemu base image '' @ quote imagePath @ '': '' @ err_text e))
        | Inr output \<Rightarrow>
            (case vh_ImageInfo h output of
               Inl e \<Rightarrow> failE (Err (''parse qemu image info for '' @ quote imagePath @ '': '' @ err_text e))
             | Inr virtualSize \<Rightarrow>
                 if virtualSize \<le> 0 then
                   failE (Err (''qemu image '' @ quote imagePath @ '' reported non-positive virtual size ''
                     @ fmt_int virtualSize))
                 else okE virtualSize)))"

section \<open>SSH\<close>

record ssh_target =
  st_port :: int
  st_knownHostsPath :: string
  st_hostKeyAlias :: string

definition sshPortBase :: int where "sshPortBase = 22000"
definition sshPortSpan :: "32 word" where "sshPortSpan = 20000"

definition sandboxHostKeyAlias :: "string \<Rightarrow> string" where "sandboxHostKeyAlias i = ''or3-qemu-'' @ i"

text \<open>The 32-bit FNV-1a hash of \<open>hash/fnv\<close>.\<close>

definition fnv32a :: "string \<Rightarrow> 32 word" where
  "fnv32a s = foldl (\<lambda>hash c. (hash XOR of_char c) * 16777619) 2166136261 s"

definition sshPortForSandbox :: "string \<Rightarrow> int" where
  "sshPortForSandbox i = sshPortBase + uint (fnv32a i mod sshPortSpan)"

definition runtimeIDWithSSHPort :: "string \<Rightarrow> int \<Rightarrow> string" where
  "runtimeIDWithSSHPort sandboxID port = qemuRuntimePrefix @ sandboxID @ ''@'' @ fmt_int port"

definition sshPortFromRuntimeID :: "string \<Rightarrow> int option" where
  "sshPortFromRuntimeID runtimeID =
     (let suffix = TrimPrefix runtimeID qemuRuntimePrefix; index = LastIndex suffix (CHR ''@'') in
      if index < 0 \<or> index = int (length suffix) - 1 then None
      else
        (case ParseInt (drop (nat (index + 1)) suffix) of
           None \<Rightarrow> None
         | Some port \<Rightarrow> if port \<le> 0 then None else Some port))"

definition sshTarget :: "sandbox \<Rightarrow> layout \<Rightarrow> ssh_target" where
  "sshTarget s l =
     \<lparr>st_port = (case sshPortFromRuntimeID (sb_RuntimeID s) of Some p \<Rightarrow> p | None \<Rightarrow> sshPortForSandbox (sb_ID s)),
      st_knownHostsPath = ly_knownHostsPath l, st_hostKeyAlias = sandboxHostKeyAlias (sb_ID s)\<rparr>"

definition isTCPPortAvailable :: "'q vm_host \<Rightarrow> int \<Rightarrow> 'q vm \<Rightarrow> bool" where
  "isTCPPortAvailable h port w \<longleftrightarrow> 0 < port \<and> vh_PortFree h port (vm_state w)"

definition startTarget :: "'q vm_host \<Rightarrow> qemu_runtime \<Rightarrow> sandbox \<Rightarrow> layout \<Rightarrow> ('q, ssh_target \<times> string) vm_op" where
  "startTarget h r s l = (\<lambda>w.
     case controlTransportForSandbox h r s of
       Inl e \<Rightarrow> (Inl e, w)
     | Inr (mode, name) \<Rightarrow>
         if mode \<noteq> ControlSSHCompat then
           (Inr (\<lparr>st_port = 0, st_knownHostsPath = [], st_hostKeyAlias = []\<rparr>, qemuRuntimePrefix @ sb_ID s), w)
         else
           (let fresh = vh_AllocatePort h (vm_state w);
                chosen = (case sshPortFromRuntimeID (sb_RuntimeID s) of
                            Some port \<Rightarrow> if isTCPPortAvailable h port w then Inr port else fresh
                          | None \<Rightarrow> fresh) in
            case chosen of
              Inl e \<Rightarrow> (Inl e, w)
            | Inr port \<Rightarrow>
                (Inr (\<lparr>st_port = port, st_knownHostsPath = ly_knownHostsPath l, st_hostKeyAlias = sandboxHostKeyAlias (sb_ID s)\<rparr>,
                      runtimeIDWithSSHPort (sb_ID s) port), w)))"

definition ssh_options :: "qemu_runtime \<Rightarrow> ssh_target \<Rightarrow> string \<Rightarrow> string list" where
  "ssh_options r t timeout =
     [''-o'', ''BatchMode=yes'', ''-o'', ''IdentitiesOnly=yes'', ''-o'', ''StrictHostKeyChecking=yes'',
      ''-o'', ''UserKnownHostsFile='' @ st_knownHostsPath t, ''-o'', ''HostKeyAlias='' @ st_hostKeyAlias t,
      ''-o'', ''ConnectTimeout='' @ timeout, ''-i'', qr_sshKeyPath r, ''-p'', fmt_int (st_port t)]"

definition baseSSHArgs :: "qemu_runtime \<Rightarrow> ssh_target \<Rightarrow> bool \<Rightarrow> string list" where
  "baseSSHArgs r t tty = ssh_options r t ''5'' @ [if tty then ''-tt'' else ''-T'', qr_sshUser r @ ''@127.0.0.1'']"

definition probe_args :: "qemu_runtime \<Rightarrow> ssh_target \<Rightarrow> string list" where
  "probe_args r t =
     ssh_options r t ''2'' @ [qr_sshUser r @ ''@127.0.0.1'', ''sh'', ''-lc'', ''test -f '' @ shellQuote readyMarkerPath]"

definition defaultSSHProbe :: "'q vm_host \<Rightarrow> qemu_runtime \<Rightarrow> ssh_target \<Rightarrow> ('q, unit) vm_op" where
  "defaultSSHProbe h r t = thenE (defaultRunCommand h (qr_sshBinary r) (probe_args r t)) (okE ())"

definition knownHostEntry :: "string \<Rightarrow> string \<Rightarrow> goerr + string" where
  "knownHostEntry alias key =
     (let trimmedAlias = TrimSpace alias in
      if trimmedAlias = [] then Inl (Err ''known hosts alias is required'')
      else
        (case Fields (TrimSpace key) of
           kind # body # rest \<Rightarrow>
             if \<not> HasPrefix kind ''ssh-'' then Inl (Err ''invalid ssh host public key format'')
             else Inr (trimmedAlias @ '' '' @ kind @ '' '' @ body @ (if rest = [] then [] else '' '' @ join_with '' '' rest))
         | _ \<Rightarrow> Inl (Err ''invalid ssh host public key format'')))"

definition seedKnownHosts :: "'q vm_host \<Rightarrow> qemu_runtime \<Rightarrow> string \<Rightarrow> string \<Rightarrow> ('q, unit) vm_op" where
  "seedKnownHosts h r path alias =
     guardE (TrimSpace path = []) (Err ''known hosts path is required'') (\<lambda>w.
     case vh_ReadFile h (qr_sshHostKeyPath r) (vm_state w) of
       FileMissing e \<Rightarrow> (Inl e, w)
     | FileError e \<Rightarrow> (Inl e, w)
     | FileText keyData \<Rightarrow>
         (case knownHostEntry alias keyData of
            Inl e \<Rightarrow> (Inl e, w)
          | Inr entry \<Rightarrow> file_op h (Plain (WriteFile path (entry @ [CHR 0x0A]))) w))"

section \<open>The command line of QEMU\<close>

definition networkDeviceModel :: "qemu_runtime \<Rightarrow> string" where
  "networkDeviceModel r = (if Contains (qr_qemuBinary r) ''aarch64'' then ''virtio-net-device'' else ''virtio-net-pci'')"

definition networkArgs :: "'q vm_host \<Rightarrow> qemu_runtime \<Rightarrow> sandbox \<Rightarrow> int \<Rightarrow> string list" where
  "networkArgs h r s sshPort =
     (let base = (if sb_NetworkMode s = InternetDisabled then ''user,id=net0,restrict=on'' else ''user,id=net0'');
          forward = (case controlTransportForSandbox h r s of
            Inr (ControlSSHCompat, _) \<Rightarrow> '',hostfwd=tcp:127.0.0.1:'' @ fmt_int sshPort @ ''-:22'' | _ \<Rightarrow> []) in
      [''-netdev'', base @ forward, ''-device'', networkDeviceModel r @ '',netdev=net0''])"

definition defaultVCPUCount :: "cpu_quantity \<Rightarrow> int \<Rightarrow> int" where
  "defaultVCPUCount q fallback = (if 0 < q then VCPUCount q else fallback)"

definition startArgs :: "'q vm_host \<Rightarrow> qemu_runtime \<Rightarrow> sandbox \<Rightarrow> layout \<Rightarrow> int \<Rightarrow> string list" where
  "startArgs h r s l sshPort =
     [''-daemonize'', ''-pidfile'', ly_pidPath l, ''-monitor'', ''unix:'' @ ly_monitorPath l @ '',server,nowait'',
      ''-serial'', ''file:'' @ ly_serialLogPath l, ''-display'', ''none'', ''-accel'', qr_accelerator r,
      ''-m'', fmt_int (defaultInt (sb_MemoryLimitMB s) 512), ''-smp'', fmt_int (defaultVCPUCount (sb_CPULimit s) 1),
      ''-device'', ''virtio-serial'',
      ''-chardev'', ''socket,id=agent0,path='' @ ly_agentSocketPath l @ '',server=on,wait=off'',
      ''-device'', ''virtserialport,chardev=agent0,name=org.or3.guest_agent'',
      ''-drive'', ''if=virtio,file='' @ ly_rootDiskPath l @ '',format=qcow2'',
      ''-drive'', ''if=virtio,file='' @ ly_workspaceDiskPath l @ '',format=raw''] @
     networkArgs h r s sshPort"

section \<open>The process\<close>

text \<open>\<open>NoPid\<close> is an error for which \<open>errors.Is(err, os.ErrNotExist)\<close> holds.\<close>

datatype pid_answer = Pid int | NoPid goerr | PidFailed goerr

text \<open>\<open>fmt.Sscanf\<close> with \<open>%d\<close>: a sign and the digits that follow; what comes after them is not looked at.\<close>

definition scan_int :: "string \<Rightarrow> int option" where
  "scan_int s =
     (let (sign, rest) = (case s of c # cs \<Rightarrow> if c = CHR ''+'' \<or> c = CHR ''-'' then ([c], cs) else ([], s) | [] \<Rightarrow> ([], []));
          ds = takeWhile (\<lambda>c. digit_val c \<noteq> None) rest in
      if ds = [] then None else ParseInt (sign @ ds))"

definition readPID :: "'q vm_host \<Rightarrow> string \<Rightarrow> 'q vm \<Rightarrow> pid_answer" where
  "readPID h path w =
     (case vh_ReadFile h path (vm_state w) of
        FileMissing e \<Rightarrow> NoPid e
      | FileError e \<Rightarrow> PidFailed e
      | FileText t \<Rightarrow>
          (case scan_int (TrimSpace t) of
             None \<Rightarrow> PidFailed (Err (''parse pid '' @ path @ '': '' @ vh_ScanError h (TrimSpace t)))
           | Some pid \<Rightarrow> Pid pid))"

definition expected_args :: "qemu_runtime \<Rightarrow> layout \<Rightarrow> string list" where
  "expected_args r l = [Base (qr_qemuBinary r), ly_rootDiskPath l, ly_monitorPath l]"

definition args_match :: "qemu_runtime \<Rightarrow> layout \<Rightarrow> string \<Rightarrow> bool" where
  "args_match r l args \<longleftrightarrow> list_all (\<lambda>needle. TrimSpace needle = [] \<or> Contains args needle) (expected_args r l)"

definition processMatchesSandbox :: "'q vm_host \<Rightarrow> qemu_runtime \<Rightarrow> int \<Rightarrow> layout \<Rightarrow> ('q, bool) vm_op" where
  "processMatchesSandbox h r pid l =
     (if pid \<le> 0 then okE False
      else if TrimSpace (qr_qemuBinary r) = [] then okE True
      else bindE (processArgs h pid) (\<lambda>args. okE (args_match r l args)))"

definition not_exist :: goerr where "not_exist = OSError ''file does not exist''"

definition forget_pid :: "'q vm_host \<Rightarrow> layout \<Rightarrow> 'q vm \<Rightarrow> 'q vm" where
  "forget_pid h l w = remove h (suspendedMarkerPath l) (remove h (ly_pidPath l) w)"

definition liveSandboxPID :: "'q vm_host \<Rightarrow> qemu_runtime \<Rightarrow> layout \<Rightarrow> 'q vm \<Rightarrow> pid_answer \<times> 'q vm" where
  "liveSandboxPID h r l w =
     (case readPID h (ly_pidPath l) w of
        NoPid e \<Rightarrow> (NoPid e, w)
      | PidFailed e \<Rightarrow> (PidFailed e, w)
      | Pid pid \<Rightarrow>
          (case signal h pid SIG0 w of
             (KillNoProcess, w1) \<Rightarrow> (NoPid not_exist, forget_pid h l w1)
           | (KillError e, w1) \<Rightarrow> (PidFailed e, w1)
           | (KillOK, w1) \<Rightarrow>
               (case processMatchesSandbox h r pid l w1 of
                  (Inl e, w2) \<Rightarrow> (PidFailed e, w2)
                | (Inr True, w2) \<Rightarrow> (Pid pid, w2)
                | (Inr False, w2) \<Rightarrow> (NoPid not_exist, forget_pid h l w2))))"

lemma signal_clock: "signal h pid sig w = (k, w1) \<Longrightarrow> vm_clock w1 = vm_clock w"
  by (auto simp: signal_def split: prod.splits)

lemma processArgs_clock: "processArgs h pid w = (a, w1) \<Longrightarrow> vm_clock w1 = vm_clock w"
  by (auto simp: processArgs_def split: prod.splits)

lemma remove_clock [simp]: "vm_clock (remove h p w) = vm_clock w"
  by (simp add: remove_def file_result_of_def split: prod.split)

lemma processMatches_clock: "processMatchesSandbox h r pid l w = (a, w1) \<Longrightarrow> vm_clock w1 = vm_clock w"
  by (auto simp: processMatchesSandbox_def bindE_def dest: processArgs_clock split: if_splits prod.splits sum.splits)

lemma live_clock: "liveSandboxPID h r l w = (a, w1) \<Longrightarrow> vm_clock w1 = vm_clock w"
  by (auto simp: liveSandboxPID_def forget_pid_def dest!: signal_clock processMatches_clock
      split: pid_answer.splits prod.splits kill_result.splits sum.splits bool.splits)

end
