(* ===== verification/QemuAgent.thy ===== *)
theory QemuAgent
  imports QemuProcess
begin

text \<open>
  The client of the guest agent (\<open>internal/runtime/qemu/agent_client.go\<close>): the table of sessions with its counters, and
  the requests the backend makes. One caller at a time is modelled; the multiplexing of a session is in
  \<open>AgentSession\<close>, and what the session hands to a request (an answer, the elements of a stream) comes from the host.
\<close>

section \<open>Counters\<close>

definition sandbox_metrics :: "string \<Rightarrow> 'q vm \<Rightarrow> agent_sessions" where
  "sandbox_metrics i w =
     (case map_of (vm_sandboxMetrics w) (TrimSpace i) of None \<Rightarrow> no_sessions | Some m \<Rightarrow> m)"

definition recordAgentMetric :: "string \<Rightarrow> (agent_sessions \<Rightarrow> agent_sessions) \<Rightarrow> 'q vm \<Rightarrow> 'q vm" where
  "recordAgentMetric i f w =
     (let w1 = w\<lparr>vm_metrics := f (vm_metrics w)\<rparr> in
      if TrimSpace i = [] then w1
      else w1\<lparr>vm_sandboxMetrics := put (TrimSpace i) (f (sandbox_metrics i w)) (vm_sandboxMetrics w)\<rparr>)"

definition qemu_AgentSessionMetrics :: "'q vm \<Rightarrow> agent_sessions" where
  "qemu_AgentSessionMetrics w = vm_metrics w"

definition qemu_AgentSessionMetricsForSandboxes :: "sandbox list \<Rightarrow> 'q vm \<Rightarrow> agent_sessions option" where
  "qemu_AgentSessionMetricsForSandboxes ss w =
     (if ss = [] then None
      else Some (foldl (\<lambda>acc i. add_sessions acc (sandbox_metrics i w)) no_sessions
             (filter (\<lambda>i. i \<noteq> []) (rev (remdups (rev (map (\<lambda>s. TrimSpace (sb_ID s)) ss)))))))"

section \<open>Sessions\<close>

definition close_conn :: "'q vm_host \<Rightarrow> string \<Rightarrow> agent_session \<Rightarrow> 'q vm \<Rightarrow> 'q vm" where
  "close_conn h i a w =
     (if vh_Alive h (ag_conn a) (vm_state w) then
        (let w1 = recordAgentMetric i (\<lambda>m. m\<lparr>as_SessionsClosed := as_SessionsClosed m + 1\<rparr>) w in
         w1\<lparr>vm_state := vh_Hangup h (ag_conn a) (vm_state w1)\<rparr>)
      else w)"

definition agentSessionKey :: "string \<Rightarrow> string" where "agentSessionKey i = TrimSpace i"

definition invalidateAgentSession :: "'q vm_host \<Rightarrow> string \<Rightarrow> 'q vm \<Rightarrow> 'q vm" where
  "invalidateAgentSession h i w =
     (let key = agentSessionKey i; w1 = w\<lparr>vm_sessions := del key (vm_sessions w)\<rparr> in
      case map_of (vm_sessions w) key of
        None \<Rightarrow> w1
      | Some a \<Rightarrow>
          close_conn h i a (recordAgentMetric i (\<lambda>m. m\<lparr>as_SessionsInvalidated := as_SessionsInvalidated m + 1\<rparr>) w1))"

definition expectedAgentHandshakeForSandbox :: "'q vm_host \<Rightarrow> sandbox \<Rightarrow> string \<times> string list" where
  "expectedAgentHandshakeForSandbox h s =
     (let workspaceVersion = TrimSpace (sb_WorkspaceContractVersion s);
          capabilities = NormalizeCapabilities (sb_Capabilities s) in
      if TrimSpace (sb_BaseImageRef s) = [] then (workspaceVersion, capabilities)
      else
        (case Load (vh_Images h) (sb_BaseImageRef s) of
           Inl e \<Rightarrow> (workspaceVersion, capabilities)
         | Inr c \<Rightarrow>
             (if workspaceVersion = [] then gc_WorkspaceContractVersion c else workspaceVersion,
              if capabilities = [] then NormalizeCapabilities (gc_Capabilities c) else capabilities)))"

definition fallbackGuestHandshake :: "'q vm_host \<Rightarrow> sandbox \<Rightarrow> guest_handshake" where
  "fallbackGuestHandshake h s =
     (case expectedAgentHandshakeForSandbox h s of
        (workspaceVersion, capabilities) \<Rightarrow>
          \<lparr>gh_ProtocolVersion =
             (if TrimSpace (sb_ControlProtocolVersion s) = [] then ProtocolVersion else TrimSpace (sb_ControlProtocolVersion s)),
           gh_WorkspaceContractVersion = workspaceVersion, gh_Capabilities = capabilities,
           gh_MaxFileTransferBytes = DefaultWorkspaceFileTransferMaxBytes\<rparr>)"

definition defaultGuestFileTransferMaxBytes :: "int \<Rightarrow> int" where
  "defaultGuestFileTransferMaxBytes n = (if n \<le> 0 then DefaultWorkspaceFileTransferMaxBytes else n)"

text \<open>The handshake that compares the guest with the contract of its image.\<close>

definition hello_check :: "'q vm_host \<Rightarrow> sandbox \<Rightarrow> agent_reply \<Rightarrow> goerr + guest_handshake" where
  "hello_check h s res =
     (let mismatched = (\<lambda>what want got. Inl (Err (what @ '' mismatch: host='' @ want @ '' guest='' @ got)));
          shake = \<lparr>gh_ProtocolVersion = ar_ProtocolVersion res, gh_WorkspaceContractVersion = ar_WorkspaceContractVersion res,
            gh_Capabilities = NormalizeCapabilities (ar_Capabilities res),
            gh_MaxFileTransferBytes = defaultGuestFileTransferMaxBytes (ar_MaxFileTransferBytes res)\<rparr>;
          expectedProtocol = TrimSpace (sb_ControlProtocolVersion s) in
      case expectedAgentHandshakeForSandbox h s of
        (expectedWorkspace, expectedCapabilities) \<Rightarrow>
          if ar_ProtocolVersion res \<noteq> ProtocolVersion then
            mismatched ''guest agent protocol'' ProtocolVersion (ar_ProtocolVersion res)
          else if expectedProtocol \<noteq> [] \<and> gh_ProtocolVersion shake \<noteq> expectedProtocol then
            mismatched ''guest agent protocol'' expectedProtocol (gh_ProtocolVersion shake)
          else if expectedWorkspace \<noteq> [] \<and> gh_WorkspaceContractVersion shake \<noteq> expectedWorkspace then
            mismatched ''guest workspace contract'' expectedWorkspace (gh_WorkspaceContractVersion shake)
          else if expectedCapabilities \<noteq> [] \<and>
              join_with '','' (gh_Capabilities shake) \<noteq> join_with '','' expectedCapabilities then
            mismatched ''guest agent capabilities'' (join_with '','' expectedCapabilities) (join_with '','' (gh_Capabilities shake))
          else Inr shake)"

definition spend :: "nat \<Rightarrow> 'q \<Rightarrow> 'q vm \<Rightarrow> 'q vm" where
  "spend elapsed q w = w\<lparr>vm_state := q, vm_clock := vm_clock w + int elapsed\<rparr>"

definition openAgentSession :: "'q vm_host \<Rightarrow> sandbox \<Rightarrow> layout \<Rightarrow> int \<Rightarrow> ('q, agent_session) vm_op" where
  "openAgentSession h s l pid = (\<lambda>w.
     case vh_Dial h (ly_agentSocketPath l) (vm_state w) of
       (res, elapsed, q) \<Rightarrow>
         (let w1 = spend elapsed q w in
          case res of
            Inl e \<Rightarrow> (Inl e, w1)
          | Inr conn \<Rightarrow>
              (Inr \<lparr>ag_runtimeID = sb_RuntimeID s, ag_pid = pid, ag_socketPath = ly_agentSocketPath l, ag_conn = conn,
                    ag_handshake = fallbackGuestHandshake h s\<rparr>,
               recordAgentMetric (sb_ID s) (\<lambda>m. m\<lparr>as_SessionsOpened := as_SessionsOpened m + 1\<rparr>) w1)))"

definition session_matches :: "agent_session \<Rightarrow> string \<Rightarrow> int \<Rightarrow> string \<Rightarrow> bool" where
  "session_matches a runtimeID pid socketPath \<longleftrightarrow>
     ag_runtimeID a = runtimeID \<and> ag_pid a = pid \<and> ag_socketPath a = socketPath"

text \<open>An existing session is used again when it is for the same machine and still open; otherwise it is replaced.\<close>

definition replace_session ::
  "'q vm_host \<Rightarrow> sandbox \<Rightarrow> layout \<Rightarrow> int \<Rightarrow> agent_session option \<Rightarrow> ('q, agent_session) vm_op" where
  "replace_session h s l pid existing =
     (let key = agentSessionKey (sb_ID s) in
      doE (\<lambda>w. case existing of
             None \<Rightarrow> w
           | Some a \<Rightarrow> close_conn h (sb_ID s) a (w\<lparr>vm_sessions := del key (vm_sessions w)\<rparr>))
     (bindE (openAgentSession h s l pid) (\<lambda>a.
      doE (\<lambda>w. w\<lparr>vm_sessions := put key a (vm_sessions w)\<rparr>) (okE a))))"

definition ensureAgentSession :: "'q vm_host \<Rightarrow> qemu_runtime \<Rightarrow> sandbox \<Rightarrow> ('q, agent_session) vm_op" where
  "ensureAgentSession h r s =
     (let l = layoutForSandbox s in
      guardE (controlModeForSandbox h r s \<noteq> ControlAgent)
        (Err (''sandbox '' @ sb_ID s @ '' is not using agent control mode'')) (
      askE (liveSandboxPID h r l) (\<lambda>live.
      case live of
        NoPid e \<Rightarrow> failE e
      | PidFailed e \<Rightarrow> failE e
      | Pid pid \<Rightarrow>
          getE (\<lambda>w.
            (let existing = map_of (vm_sessions w) (agentSessionKey (sb_ID s)) in
             case existing of
               Some a \<Rightarrow>
                 if session_matches a (sb_RuntimeID s) pid (ly_agentSocketPath l) \<and> vh_Alive h (ag_conn a) (vm_state w) then
                   doE (recordAgentMetric (sb_ID s) (\<lambda>m. m\<lparr>as_SessionsReused := as_SessionsReused m + 1\<rparr>)) (okE a)
                 else replace_session h s l pid existing
             | None \<Rightarrow> replace_session h s l pid existing)))))"

section \<open>Requests\<close>

definition roundTrip :: "'q vm_host \<Rightarrow> agent_session \<Rightarrow> agent_request \<Rightarrow> ('q, agent_reply) vm_op" where
  "roundTrip h a req = (\<lambda>w. case vh_RoundTrip h (ag_conn a) req (vm_state w) of (res, elapsed, q) \<Rightarrow> (res, spend elapsed q w))"

definition from_host :: "('q \<Rightarrow> (goerr + 'a) \<times> 'q) \<Rightarrow> ('q, 'a) vm_op" where
  "from_host f = (\<lambda>w. case f (vm_state w) of (res, q) \<Rightarrow> (res, w\<lparr>vm_state := q\<rparr>))"

definition as_sum :: "('q \<Rightarrow> goerr option \<times> 'q) \<Rightarrow> 'q \<Rightarrow> (goerr + unit) \<times> 'q" where
  "as_sum f q = (case f q of (None, q') \<Rightarrow> (Inr (), q') | (Some e, q') \<Rightarrow> (Inl e, q'))"

definition agentPing :: "'q vm_host \<Rightarrow> qemu_runtime \<Rightarrow> sandbox \<Rightarrow> ('q, agent_reply) vm_op" where
  "agentPing h r s =
     bindE (ensureAgentSession h r s) (\<lambda>a.
     tryE (roundTrip h a PingRequest) (\<lambda>res.
     case res of Inl e \<Rightarrow> doE (invalidateAgentSession h (sb_ID s)) (failE e) | Inr reply \<Rightarrow> okE reply))"

definition agentShutdown :: "'q vm_host \<Rightarrow> qemu_runtime \<Rightarrow> sandbox \<Rightarrow> ('q, unit) vm_op" where
  "agentShutdown h r s = bindE (ensureAgentSession h r s) (\<lambda>a. thenE (roundTrip h a ShutdownRequest) (okE ()))"

text \<open>A request whose answer names a session of the guest, which must not be blank.\<close>

definition open_session :: "'q vm_host \<Rightarrow> agent_session \<Rightarrow> agent_request \<Rightarrow> string \<Rightarrow> ('q, agent_reply) vm_op" where
  "open_session h a req what =
     bindE (roundTrip h a req) (\<lambda>reply.
     guardE (TrimSpace (ar_SessionID reply) = []) (Err (''guest agent returned empty '' @ what @ '' id'')) (okE reply))"

definition workspaceGuestPath :: "string \<Rightarrow> goerr + string" where
  "workspaceGuestPath relativePath =
     (if TrimSpace relativePath = [] then Inr ''/workspace''
      else
        (let cleaned = Clean (''/workspace/'' @ relativePath) in
         if cleaned \<noteq> ''/workspace'' \<and> \<not> HasPrefix cleaned ''/workspace/'' then Inl (Err ''path escapes workspace'')
         else Inr cleaned))"

definition agentReadWorkspaceFileBytesWithLimit ::
  "'q vm_host \<Rightarrow> qemu_runtime \<Rightarrow> sandbox \<Rightarrow> string \<Rightarrow> int \<Rightarrow> ('q, string) vm_op" where
  "agentReadWorkspaceFileBytesWithLimit h r s relativePath maxBytes =
     bindE (liftE (workspaceGuestPath relativePath)) (\<lambda>target.
     bindE (ensureAgentSession h r s) (\<lambda>a.
     bindE (open_session h a (FileOpenRequest target ''read'' False) ''file session'') (\<lambda>opened.
     guardE (0 < maxBytes \<and> maxBytes < ar_Size opened) (ErrFileTransferTooLarge maxBytes) (
     bindE (from_host (vh_FileStream h (ag_conn a) (ar_SessionID opened))) (\<lambda>packets.
     bindE (liftE (read_packets maxBytes [] packets)) (\<lambda>output.
     ignoreE (roundTrip h a (FileCloseRequest (ar_SessionID opened))) (okE output)))))))"

definition effectiveWorkspaceFileTransferMaxBytes :: "'q vm_host \<Rightarrow> qemu_runtime \<Rightarrow> sandbox \<Rightarrow> ('q, int) vm_op" where
  "effectiveWorkspaceFileTransferMaxBytes h r s =
     bindE (ensureAgentSession h r s) (\<lambda>a.
     okE (min (defaultGuestFileTransferMaxBytes (gh_MaxFileTransferBytes (ag_handshake a)))
            (workspaceFileTransferLimit (qr_workspaceFileTransferMaxBytes r))))"

text \<open>The packets a content is sent in.\<close>

function content_packets :: "string \<Rightarrow> string \<Rightarrow> file_data list" where
  "content_packets sid content =
     (if length content \<le> MaxFileChunkSize
      then [\<lparr>fd_SessionID = sid, fd_Data = EncodeBytes content, fd_EOF = True, fd_Error = []\<rparr>]
      else \<lparr>fd_SessionID = sid, fd_Data = EncodeBytes (take MaxFileChunkSize content), fd_EOF = False, fd_Error = []\<rparr> #
           content_packets sid (drop MaxFileChunkSize content))"
  by pat_completeness auto
termination
  by (relation "measure (\<lambda>(sid, content). length content)") (auto simp: MaxFileChunkSize_def)

declare content_packets.simps [simp del]

definition agentWriteWorkspaceFileBytes ::
  "'q vm_host \<Rightarrow> qemu_runtime \<Rightarrow> sandbox \<Rightarrow> string \<Rightarrow> string \<Rightarrow> ('q, unit) vm_op" where
  "agentWriteWorkspaceFileBytes h r s relativePath content =
     bindE (liftE (workspaceGuestPath relativePath)) (\<lambda>target.
     bindE (effectiveWorkspaceFileTransferMaxBytes h r s) (\<lambda>maxBytes.
     guardE (maxBytes < int (length content)) (ErrFileTransferTooLarge maxBytes) (
     bindE (ensureAgentSession h r s) (\<lambda>a.
     bindE (open_session h a (FileOpenRequest target ''write'' True) ''file session'') (\<lambda>opened.
     thenE (forE (content_packets (ar_SessionID opened) content)
              (\<lambda>p. from_host (as_sum (vh_SendFile h (ag_conn a) p))))
    (thenE (roundTrip h a (FileCloseRequest (ar_SessionID opened))) (okE ())))))))"

definition agentDeleteWorkspacePath :: "'q vm_host \<Rightarrow> qemu_runtime \<Rightarrow> sandbox \<Rightarrow> string \<Rightarrow> ('q, unit) vm_op" where
  "agentDeleteWorkspacePath h r s relativePath =
     bindE (liftE (workspaceGuestPath relativePath)) (\<lambda>target.
     bindE (ensureAgentSession h r s) (\<lambda>a. thenE (roundTrip h a (FileDeleteRequest target)) (okE ())))"

definition agentMkdirWorkspace :: "'q vm_host \<Rightarrow> qemu_runtime \<Rightarrow> sandbox \<Rightarrow> string \<Rightarrow> ('q, unit) vm_op" where
  "agentMkdirWorkspace h r s relativePath =
     bindE (liftE (workspaceGuestPath relativePath)) (\<lambda>target.
     bindE (ensureAgentSession h r s) (\<lambda>a. thenE (roundTrip h a (MkdirRequest target)) (okE ())))"

definition agentAttachTTY :: "'q vm_host \<Rightarrow> qemu_runtime \<Rightarrow> sandbox \<Rightarrow> tty_request \<Rightarrow> ('q, string) vm_op" where
  "agentAttachTTY h r s req =
     bindE (ensureAgentSession h r s) (\<lambda>a.
     bindE (open_session h a (PTYOpenRequest (tr_Command req) (tr_Cwd req) (tr_Env req)
              (defaultInt (tr_Rows req) 24) (defaultInt (tr_Cols req) 80)) ''PTY session'') (\<lambda>opened.
     thenE (from_host (as_sum (vh_Handle h (ag_conn a) (ar_SessionID opened)))) (okE (ar_SessionID opened))))"

definition streamWorkspaceArchive :: "'q vm_host \<Rightarrow> qemu_runtime \<Rightarrow> sandbox \<Rightarrow> string list \<Rightarrow> ('q, archive_chunk list) vm_op" where
  "streamWorkspaceArchive h r s paths =
     bindE (ensureAgentSession h r s) (\<lambda>a.
     bindE (open_session h a (ArchiveStreamRequest paths) ''archive session'') (\<lambda>opened.
     from_host (vh_ArchiveStream h (ag_conn a) (ar_SessionID opened))))"

definition qemu_OpenSandboxLocalConn :: "'q vm_host \<Rightarrow> qemu_runtime \<Rightarrow> sandbox \<Rightarrow> int \<Rightarrow> ('q, string) vm_op" where
  "qemu_OpenSandboxLocalConn h r s targetPort =
     guardE (targetPort < 1 \<or> 65535 < targetPort) (Err ''target port must be between 1 and 65535'') (
     guardE (controlModeForSandbox h r s \<noteq> ControlAgent) (Err ''sandbox-local bridge requires agent control mode'') (
     bindE (ensureAgentSession h r s) (\<lambda>a.
     bindE (open_session h a (TCPBridgeOpenRequest targetPort) ''bridge session'') (\<lambda>opened.
     thenE (from_host (as_sum (vh_Handle h (ag_conn a) (ar_SessionID opened))))
       (okE (''sandbox:'' @ sb_ID s @ '':127.0.0.1:'' @ fmt_int targetPort))))))"

section \<open>Executions through the agent\<close>

definition execution_status_of :: "string \<Rightarrow> execution_status" where
  "execution_status_of t =
     (case find (\<lambda>st. execution_status_string st = t)
         [ExecRunning, ExecDetached, ExecSucceeded, ExecFailed, ExecTimedOut, ExecCanceled] of
        Some st \<Rightarrow> st | None \<Rightarrow> OtherExecStatus t)"

definition failed_exec :: "time \<Rightarrow> time \<Rightarrow> exec_result" where
  "failed_exec startedAt now =
     \<lparr>er_ExitCode = 0, er_Status = ExecFailed, er_CompletedAt = now, er_Duration = time_Sub now startedAt,
      er_StdoutTruncated = False, er_StderrTruncated = False\<rparr>"

text \<open>
  The goroutine that consumes the events of an execution: the chunks written to the two streams, and the result. A
  stream that ends without a result is a failure.
\<close>

fun consume_events ::
  "time \<Rightarrow> time \<Rightarrow> string list \<Rightarrow> string list \<Rightarrow> exec_event list \<Rightarrow> exec_handle" where
  "consume_events startedAt now out err [] = \<lparr>eh_Stdout = out, eh_Stderr = err, eh_Wait = failed_exec startedAt now\<rparr>"
| "consume_events startedAt now out err (e # es) =
     (if ev_Error e \<noteq> [] then \<lparr>eh_Stdout = out, eh_Stderr = err, eh_Wait = failed_exec startedAt now\<rparr>
      else
        (let decoded = (if ev_Stream e \<in> {''stdout'', ''stderr''} \<and> ev_Data e \<noteq> [] then DecodeBytes (ev_Data e) else Inr []) in
         case decoded of
           Inl x \<Rightarrow> \<lparr>eh_Stdout = out, eh_Stderr = err, eh_Wait = failed_exec startedAt now\<rparr>
         | Inr data \<Rightarrow>
             (let wrote = (ev_Stream e \<in> {''stdout'', ''stderr''} \<and> ev_Data e \<noteq> []);
                  out' = (if wrote \<and> ev_Stream e = ''stdout'' then out @ [data] else out);
                  err' = (if wrote \<and> ev_Stream e = ''stderr'' then err @ [data] else err) in
              case ev_Result e of
                None \<Rightarrow> consume_events startedAt now out' err' es
              | Some f \<Rightarrow>
                  \<lparr>eh_Stdout = out', eh_Stderr = err',
                   eh_Wait = \<lparr>er_ExitCode = xf_ExitCode f, er_Status = execution_status_of (xf_Status f),
                     er_CompletedAt = xf_CompletedAt f, er_Duration = time_Sub (xf_CompletedAt f) (xf_StartedAt f),
                     er_StdoutTruncated = (xf_StdoutTruncated f \<or> bb_truncated (preview dockerPreviewLimit out')),
                     er_StderrTruncated = (xf_StderrTruncated f \<or> bb_truncated (preview dockerPreviewLimit err'))\<rparr>\<rparr>)))"

definition agentExec :: "'q vm_host \<Rightarrow> qemu_runtime \<Rightarrow> sandbox \<Rightarrow> exec_request \<Rightarrow> ('q, exec_handle) vm_op" where
  "agentExec h r s req =
     bindE (ensureAgentSession h r s) (\<lambda>a.
     bindE (open_session h a (ExecStartRequest req) ''exec'') (\<lambda>opened.
     bindE (from_host (vh_ExecStream h (ag_conn a) (ar_SessionID opened))) (\<lambda>events.
     getE (\<lambda>w. okE (consume_events (vm_clock w) (vm_clock w) [] [] events)))))"

end
