(* ===== verification/QemuLife.thy ===== *)
theory QemuLife
  imports QemuAgent
begin

text \<open>
  The life cycle of a virtual machine (\<open>internal/runtime/qemu/runtime.go\<close>): readiness, the waiting loops, and the
  operations from \<open>Create\<close> to \<open>Inspect\<close>. Deadlines are instants of the host's clock; the waiting loops are total
  functions, as each round ends nearer to the deadline.
\<close>

section \<open>Readiness\<close>

definition withinBootWindow :: "'q vm_host \<Rightarrow> string \<Rightarrow> int \<Rightarrow> 'q vm \<Rightarrow> bool" where
  "withinBootWindow h pidPath bootTimeout w \<longleftrightarrow>
     0 < bootTimeout \<and>
     (case vh_ModTime h pidPath (vm_state w) of None \<Rightarrow> False | Some t \<Rightarrow> time_Sub (vm_clock w) t \<le> bootTimeout)"

definition readFileTail :: "'q vm_host \<Rightarrow> string \<Rightarrow> nat \<Rightarrow> 'q vm \<Rightarrow> string option" where
  "readFileTail h path limit w =
     (if limit = 0 then Some []
      else
        (case vh_ReadFile h path (vm_state w) of
           FileText t \<Rightarrow> Some (drop (length t - limit) t) | _ \<Rightarrow> None))"

definition bootFailureReason :: "'q vm_host \<Rightarrow> string \<Rightarrow> 'q vm \<Rightarrow> string option" where
  "bootFailureReason h serialLogPath w =
     (if TrimSpace serialLogPath = [] then None
      else
        (case readFileTail h serialLogPath serialTailLimit w of
           None \<Rightarrow> None
         | Some [] \<Rightarrow> None
         | Some data \<Rightarrow>
             map_option (\<lambda>marker. ''guest boot failed: '' @ marker)
               (find (Contains (ToLower data)) bootFailureMarkers)))"

definition probeReady :: "'q vm_host \<Rightarrow> qemu_runtime \<Rightarrow> sandbox \<Rightarrow> ssh_target \<Rightarrow> ('q, unit) vm_op" where
  "probeReady h r s t =
     (case controlTransportForSandbox h r s of
        Inl e \<Rightarrow> failE e
      | Inr (mode, name) \<Rightarrow>
          if mode = ControlAgent then
            bindE (agentPing h r s) (\<lambda>reply.
              guardE (\<not> ar_Ready reply)
                (Err (if ar_Reason reply = [] then ''guest agent reported not ready'' else ar_Reason reply)) (okE ()))
          else defaultSSHProbe h r t)"

section \<open>Waiting\<close>

definition tenth :: int where "tenth = 100000000"

lemma sleep_advances: "vm_clock w + tenth \<le> vm_clock (vm_sleep h tenth w)"
  by (simp add: vm_sleep_def tenth_def)

text \<open>The wait for the process to leave after the agent was asked to shut the guest down.\<close>

function await_exit :: "'q vm_host \<Rightarrow> qemu_runtime \<Rightarrow> layout \<Rightarrow> time \<Rightarrow> 'q vm \<Rightarrow> 'q vm" where
  "await_exit h r l deadline w =
     (if deadline \<le> vm_clock w then w
      else
        (case liveSandboxPID h r l w of
           (NoPid e, w1) \<Rightarrow> w1
         | (Pid p, w1) \<Rightarrow> await_exit h r l deadline (vm_sleep h tenth w1)
         | (PidFailed e, w1) \<Rightarrow> await_exit h r l deadline (vm_sleep h tenth w1)))"
  by pat_completeness auto
termination
  using sleep_advances
  by (relation "measure (\<lambda>(h, r, l, deadline, w). nat (deadline - vm_clock w))")
    (auto simp: vm_sleep_def tenth_def dest!: live_clock [OF sym])

function await_signal :: "'q vm_host \<Rightarrow> int \<Rightarrow> time \<Rightarrow> ('q, unit) vm_op" where
  "await_signal h pid deadline w =
     (if deadline \<le> vm_clock w then
        (case signal h pid SIGKILL w of (KillError e, w1) \<Rightarrow> (Inl e, w1) | (_, w1) \<Rightarrow> (Inr (), w1))
      else
        (case signal h pid SIG0 w of
           (KillNoProcess, w1) \<Rightarrow> (Inr (), w1)
         | (KillOK, w1) \<Rightarrow> await_signal h pid deadline (vm_sleep h tenth w1)
         | (KillError e, w1) \<Rightarrow> await_signal h pid deadline (vm_sleep h tenth w1)))"
  by pat_completeness auto
termination
  by (relation "measure (\<lambda>(h, pid, deadline, w). nat (deadline - vm_clock w))")
    (auto simp: vm_sleep_def tenth_def signal_def split: prod.splits)

definition terminatePID :: "'q vm_host \<Rightarrow> int \<Rightarrow> bool \<Rightarrow> ('q, unit) vm_op" where
  "terminatePID h pid force w =
     (case signal h pid (if force then SIGKILL else SIGTERM) w of
        (KillError e, w1) \<Rightarrow> (Inl e, w1)
      | (_, w1) \<Rightarrow> if force then (Inr (), w1) else await_signal h pid (vm_clock w1 + 3000000000) w1)"

function await_pid :: "'q vm_host \<Rightarrow> string \<Rightarrow> time \<Rightarrow> ('q, int) vm_op" where
  "await_pid h path deadline w =
     (if deadline \<le> vm_clock w then
        (Inl (Err (''qemu pidfile '' @ path @ '' did not appear before timeout'')), w)
      else
        (case readPID h path w of
           Pid p \<Rightarrow> (Inr p, w)
         | PidFailed e \<Rightarrow> (Inl e, w)
         | NoPid e \<Rightarrow> await_pid h path deadline (vm_sleep h tenth w)))"
  by pat_completeness auto
termination
  by (relation "measure (\<lambda>(h, path, deadline, w). nat (deadline - vm_clock w))")
    (auto simp: vm_sleep_def tenth_def)

definition waitForPID :: "'q vm_host \<Rightarrow> string \<Rightarrow> int \<Rightarrow> ('q, int) vm_op" where
  "waitForPID h path timeout w = await_pid h path (vm_clock w + timeout) w"

text \<open>
  The poll for readiness. The ticker delivers its ticks at multiples of the interval and drops those nobody waits
  for: \<open>tick\<close> is the next one. When the timeout has expired and a tick is there as well, the choice is a coin, which
  falls on the tick \<open>spins\<close> more times.
\<close>

definition wake :: "'q vm_host \<Rightarrow> time \<Rightarrow> time \<Rightarrow> 'q vm \<Rightarrow> 'q vm" where
  "wake h tick deadline w =
     (if vm_clock w < min tick deadline
      then w\<lparr>vm_clock := min tick deadline + int (vh_Late h (vm_clock w))\<rparr> else w)"

definition next_tick :: "time \<Rightarrow> int \<Rightarrow> time \<Rightarrow> time" where
  "next_tick begun interval now = begun + ((now - begun) div interval + 1) * interval"

lemma next_tick_later: "0 < interval \<Longrightarrow> now < next_tick begun interval now"
  using mod_pos_pos_trivial pos_mod_bound [of interval "now - begun"]
  by (simp add: next_tick_def algebra_simps minus_mod_eq_mult_div [symmetric])

lemma pollInterval_positive: "0 < effectivePollInterval r"
  by (simp add: effectivePollInterval_def defaultPollInterval_def)

function await_ready ::
  "'q vm_host \<Rightarrow> qemu_runtime \<Rightarrow> sandbox \<Rightarrow> ssh_target \<Rightarrow> string \<Rightarrow> time \<Rightarrow> time \<Rightarrow> time \<Rightarrow> nat \<Rightarrow> ('q, unit) vm_op" where
  "await_ready h r s t serialLogPath begun deadline tick spins w =
     (case probeReady h r s t w of
        (Inr u, w1) \<Rightarrow> (Inr (), w1)
      | (Inl lastErr, w1) \<Rightarrow>
          (case bootFailureReason h serialLogPath w1 of
             Some reason \<Rightarrow> (Inl (Err reason), w1)
           | None \<Rightarrow>
               (let w2 = wake h tick deadline w1; expired = (deadline \<le> vm_clock w2); ticked = (tick \<le> vm_clock w2) in
                if \<not> ticked \<or> (expired \<and> spins = 0) then
                  (Inl (Err (''guest readiness timed out: '' @ err_text lastErr)), w2)
                else await_ready h r s t serialLogPath begun deadline
                       (next_tick begun (effectivePollInterval r) (vm_clock w2)) (if expired then spins - 1 else spins) w2)))"
  by pat_completeness auto
termination
proof (relation "measure (\<lambda>(h, r, s, t, p, begun, deadline, tick, spins, w). spins + nat (deadline - tick))", simp)
  fix h :: "'q vm_host" and r s t p begun deadline tick and spins :: nat and w2 :: "'q vm" and expired ticked
  assume e: "expired = (deadline \<le> vm_clock w2)" and k: "ticked = (tick \<le> vm_clock w2)"
    and go: "\<not> (\<not> ticked \<or> expired \<and> spins = 0)"
  let ?next = "next_tick begun (effectivePollInterval r) (vm_clock w2)"
  have "tick < ?next" using k go next_tick_later [OF pollInterval_positive, of "vm_clock w2" begun r] by simp
  then show "((h, r, s, t, p, begun, deadline, ?next, if expired then spins - 1 else spins, w2),
      (h, r, s, t, p, begun, deadline, tick, spins, w)) \<in>
      measure (\<lambda>(h, r, s, t, p, begun, deadline, tick, spins, w). spins + nat (deadline - tick))" for w
    using e k go by auto
qed

declare await_exit.simps [simp del] await_signal.simps [simp del] await_pid.simps [simp del] await_ready.simps [simp del]

definition waitForReady ::
  "'q vm_host \<Rightarrow> qemu_runtime \<Rightarrow> sandbox \<Rightarrow> ssh_target \<Rightarrow> string \<Rightarrow> ('q, unit) vm_op" where
  "waitForReady h r s t serialLogPath w =
     await_ready h r s t serialLogPath (vm_clock w) (vm_clock w + effectiveBootTimeout r)
       (vm_clock w + effectivePollInterval r) (vh_Spins h) w"

section \<open>Lifecycle\<close>

definition vm_state_of :: "sandbox \<Rightarrow> sandbox_status \<Rightarrow> int \<Rightarrow> control_mode \<Rightarrow> string \<Rightarrow> runtime_state" where
  "vm_state_of s st pid mode reason =
     (runtime_state_of (sb_RuntimeID s) st)\<lparr>rs_Pid := pid, rs_ControlMode := mode, rs_Error := reason\<rparr>"

text \<open>\<open>deriveRuntimeState\<close> once a live process was found.\<close>

definition live_state :: "'q vm_host \<Rightarrow> qemu_runtime \<Rightarrow> sandbox \<Rightarrow> layout \<Rightarrow> int \<Rightarrow> ('q, runtime_state) vm_op" where
  "live_state h r s l pid = (\<lambda>w.
     if isSuspended h l w then (Inr (vm_state_of s StatusSuspended pid (controlModeForSandbox h r s) []), w)
     else
       (case controlTransportForSandbox h r s of
          Inl e \<Rightarrow> (Inl e, w)
        | Inr (mode, name) \<Rightarrow>
            (case probeReady h r s (sshTarget s l) w of
               (Inr u, w1) \<Rightarrow>
                 (Inr ((vm_state_of s StatusRunning pid mode [])\<lparr>rs_Running := True, rs_IPAddress := ''127.0.0.1''\<rparr>), w1)
             | (Inl e, w1) \<Rightarrow>
                 (Inr (case bootFailureReason h (ly_serialLogPath l) w1 of
                         Some reason \<Rightarrow> vm_state_of s StatusError pid mode reason
                       | None \<Rightarrow>
                           if withinBootWindow h (ly_pidPath l) (effectiveBootTimeout r) w1
                           then vm_state_of s StatusBooting pid mode (''guest is still booting: '' @ err_text e)
                           else vm_state_of s StatusDegraded pid mode
                                  (''guest process is alive but not ready: '' @ err_text e)), w1))))"

definition deriveRuntimeState :: "'q vm_host \<Rightarrow> qemu_runtime \<Rightarrow> sandbox \<Rightarrow> layout \<Rightarrow> ('q, runtime_state) vm_op" where
  "deriveRuntimeState h r s l =
     askE (liveSandboxPID h r l) (\<lambda>a.
     case a of
       NoPid e \<Rightarrow>
         doE (invalidateAgentSession h (sb_ID s))
        (doE (remove h (suspendedMarkerPath l)) (okE (runtime_state_of (sb_RuntimeID s) StatusStopped)))
     | PidFailed e \<Rightarrow> failE e
     | Pid pid \<Rightarrow> live_state h r s l pid)"

definition qemu_Inspect :: "'q vm_host \<Rightarrow> qemu_runtime \<Rightarrow> sandbox \<Rightarrow> ('q, runtime_state) vm_op" where
  "qemu_Inspect h r s = deriveRuntimeState h r s (layoutForSandbox s)"

definition qemu_Create :: "'q vm_host \<Rightarrow> qemu_runtime \<Rightarrow> sandbox_spec \<Rightarrow> ('q, runtime_state) vm_op" where
  "qemu_Create h r spec =
     (let l = layoutForSpec spec in
      thenE (ensureLayout h l)
     (thenE (remove_if_present h (ly_pidPath l))
     (bindE (liftE (guestBaseImage h r spec)) (\<lambda>(baseImagePath, spec').
      bindE (baseImageVirtualSizeBytes h r baseImagePath) (\<lambda>baseSize.
      (let (rootBytes, workspaceBytes) = splitDiskBytes (sp_DiskLimitMB spec') baseSize in
       thenE (createRootDisk h r baseImagePath (ly_rootDiskPath l) rootBytes)
      (thenE (createWorkspaceDisk h r (ly_workspaceDiskPath l) workspaceBytes (sp_SandboxID spec') [])
      (thenE (if controlModeForSpec r spec' = ControlSSHCompat
              then seedKnownHosts h r (ly_knownHostsPath l) (sandboxHostKeyAlias (sp_SandboxID spec')) else okE ())
      (thenE (file_op h (Touch (ly_serialLogPath l)))
         (okE ((runtime_state_of (qemuRuntimePrefix @ sp_SandboxID spec') StatusStopped)
                 \<lparr>rs_ControlMode := controlModeForSpec r spec'\<rparr>)))))))))))"

text \<open>
  \<open>Stop\<close>. The second look for the process may find it gone; the code then goes on with the pid zero it was given
  along with the error.
\<close>

definition stopped_pid :: "pid_answer \<Rightarrow> goerr + int" where
  "stopped_pid a = (case a of Pid p \<Rightarrow> Inr p | NoPid e \<Rightarrow> Inr 0 | PidFailed e \<Rightarrow> Inl e)"

definition continue_suspended :: "'q vm_host \<Rightarrow> layout \<Rightarrow> bool \<Rightarrow> int \<Rightarrow> ('q, unit) vm_op" where
  "continue_suspended h l force pid = (\<lambda>w.
     if isSuspended h l w \<and> \<not> force then
       (case signal h pid SIGCONT w of (KillError e, w1) \<Rightarrow> (Inl e, w1) | (_, w1) \<Rightarrow> (Inr (), w1))
     else (Inr (), w))"

definition ask_shutdown :: "'q vm_host \<Rightarrow> qemu_runtime \<Rightarrow> sandbox \<Rightarrow> layout \<Rightarrow> bool \<Rightarrow> 'q vm \<Rightarrow> 'q vm" where
  "ask_shutdown h r s l force w =
     (if \<not> force \<and> controlModeForSandbox h r s = ControlAgent then
        (let w1 = snd (agentShutdown h r s w) in await_exit h r l (vm_clock w1 + 5000000000) w1)
      else w)"

definition qemu_Stop :: "'q vm_host \<Rightarrow> qemu_runtime \<Rightarrow> sandbox \<Rightarrow> bool \<Rightarrow> ('q, runtime_state) vm_op" where
  "qemu_Stop h r s force =
     (let l = layoutForSandbox s; stopped = runtime_state_of (sb_RuntimeID s) StatusStopped in
      bindE (qemu_Inspect h r s) (\<lambda>state.
      if rs_Status state = StatusStopped then
        doE (invalidateAgentSession h (sb_ID s)) (doE (remove h (suspendedMarkerPath l)) (okE stopped))
      else
        askE (liveSandboxPID h r l) (\<lambda>a.
        bindE (liftE (stopped_pid a)) (\<lambda>pid.
        thenE (continue_suspended h l force pid)
       (doE (ask_shutdown h r s l force)
       (thenE (terminatePID h pid force)
       (doE (invalidateAgentSession h (sb_ID s))
       (doE (remove h (ly_pidPath l))
       (doE (remove h (suspendedMarkerPath l)) (okE stopped))))))))))"

definition sandboxWithRuntimeID :: "sandbox \<Rightarrow> string \<Rightarrow> sandbox" where
  "sandboxWithRuntimeID s runtimeID = s\<lparr>sb_RuntimeID := runtimeID\<rparr>"

definition boot :: "'q vm_host \<Rightarrow> qemu_runtime \<Rightarrow> sandbox \<Rightarrow> ('q, runtime_state) vm_op" where
  "boot h r s =
     (let l = layoutForSandbox s in
      thenE (ensureLayout h l)
     (bindE (startTarget h r s l) (\<lambda>(target, runtimeID).
      (let s' = sandboxWithRuntimeID s runtimeID in
       tryE (defaultRunCommand h (qr_qemuBinary r) (startArgs h r s l (st_port target))) (\<lambda>started.
       case started of
         Inl e \<Rightarrow> failE (Err (''start qemu guest: '' @ err_text e))
       | Inr out \<Rightarrow>
           thenE (waitForPID h (ly_pidPath l) (qr_bootTimeout r))
          (tryE (waitForReady h r s' target (ly_serialLogPath l)) (\<lambda>ready.
           case ready of
             Inl e \<Rightarrow> ignoreE (qemu_Stop h r s' True) (failE e)
           | Inr u \<Rightarrow> qemu_Inspect h r s')))))))"

definition qemu_Start :: "'q vm_host \<Rightarrow> qemu_runtime \<Rightarrow> sandbox \<Rightarrow> ('q, runtime_state) vm_op" where
  "qemu_Start h r s =
     tryE (qemu_Inspect h r s) (\<lambda>res.
     case res of
       Inr state \<Rightarrow> if rs_Status state = StatusRunning then okE state else boot h r s
     | Inl e \<Rightarrow> boot h r s)"

definition signal_or_fail :: "'q vm_host \<Rightarrow> int \<Rightarrow> signal \<Rightarrow> ('q, unit) vm_op" where
  "signal_or_fail h pid sig =
     askE (signal h pid sig) (\<lambda>k.
     case k of
       KillOK \<Rightarrow> okE () | KillNoProcess \<Rightarrow> failE (OSError ''no such process'') | KillError e \<Rightarrow> failE e)"

definition qemu_Suspend :: "'q vm_host \<Rightarrow> qemu_runtime \<Rightarrow> sandbox \<Rightarrow> ('q, runtime_state) vm_op" where
  "qemu_Suspend h r s =
     (let l = layoutForSandbox s in
      askE (liveSandboxPID h r l) (\<lambda>a.
      case a of
        NoPid e \<Rightarrow> okE (runtime_state_of (sb_RuntimeID s) StatusStopped)
      | PidFailed e \<Rightarrow> failE e
      | Pid pid \<Rightarrow>
          thenE (signal_or_fail h pid SIGSTOP)
         (thenE (file_op h (Touch (suspendedMarkerPath l)))
            (okE ((runtime_state_of (sb_RuntimeID s) StatusSuspended)\<lparr>rs_Pid := pid\<rparr>)))))"

definition qemu_Resume :: "'q vm_host \<Rightarrow> qemu_runtime \<Rightarrow> sandbox \<Rightarrow> ('q, runtime_state) vm_op" where
  "qemu_Resume h r s =
     (let l = layoutForSandbox s in
      askE (liveSandboxPID h r l) (\<lambda>a.
      case a of
        NoPid e \<Rightarrow> doE (remove h (suspendedMarkerPath l)) (okE (runtime_state_of (sb_RuntimeID s) StatusStopped))
      | PidFailed e \<Rightarrow> failE e
      | Pid pid \<Rightarrow>
          thenE (signal_or_fail h pid SIGCONT)
         (doE (remove h (suspendedMarkerPath l))
         (thenE (waitForReady h r s (sshTarget s l) (ly_serialLogPath l)) (qemu_Inspect h r s)))))"

definition qemu_Destroy :: "'q vm_host \<Rightarrow> qemu_runtime \<Rightarrow> sandbox \<Rightarrow> ('q, unit) vm_op" where
  "qemu_Destroy h r s =
     ignoreE (qemu_Stop h r s True)
    (doE (invalidateAgentSession h (sb_ID s)) (file_op h (Plain (RemoveAll (ly_baseDir (layoutForSandbox s))))))"

end
