(* ===== verification/QemuGuest.thy ===== *)
theory QemuGuest
  imports QemuLife
begin

text \<open>
  Work inside a virtual machine (\<open>exec.go\<close>, \<open>workspace.go\<close>, \<open>archive.go\<close> and the snapshot part of \<open>runtime.go\<close> under
  \<open>internal/runtime/qemu\<close>): commands and terminals over SSH or the agent, files of the workspace, archives, snapshots and
  storage accounting; \<open>qemu_manager\<close> is the backend as the registry and the service use it.
\<close>

section \<open>Scripts\<close>

definition shellJoin :: "string list \<Rightarrow> string" where
  "shellJoin parts = join_with '' '' (map shellQuote parts)"

definition buildCwdSnippet :: "string \<Rightarrow> string" where
  "buildCwdSnippet cwd = (if TrimSpace cwd = [] then [] else ''cd '' @ shellQuote cwd)"

text \<open>The pattern of the names of environment variables: a letter or underscore, then letters, digits and underscores.\<close>

definition name_start :: "char \<Rightarrow> bool" where
  "name_start c \<longleftrightarrow> c \<in> set (map fst case_table) \<or> c \<in> set (map snd case_table) \<or> c = CHR ''_''"

definition envVarKeyPattern :: "string \<Rightarrow> bool" where
  "envVarKeyPattern key =
     (case key of [] \<Rightarrow> False | c # cs \<Rightarrow> name_start c \<and> list_all (\<lambda>d. name_start d \<or> digit_val d \<noteq> None) cs)"

definition buildEnvSnippet :: "(string \<times> string) list \<Rightarrow> goerr + string" where
  "buildEnvSnippet env =
     (case find (\<lambda>(k, v). \<not> envVarKeyPattern k) env of
        Some (k, v) \<Rightarrow> Inl (Err (''invalid env key '' @ quote k))
      | None \<Rightarrow> Inr (join_with [CHR 0x0A] (map (\<lambda>(k, v). ''export '' @ k @ ''='' @ shellQuote v) (sort_key fst env))))"

definition buildTrackedRemoteScript ::
  "string list \<Rightarrow> string \<Rightarrow> (string \<times> string) list \<Rightarrow> string \<Rightarrow> goerr + string" where
  "buildTrackedRemoteScript command cwd env pidFile =
     (case buildEnvSnippet env of
        Inl e \<Rightarrow> Inl e
      | Inr envSnippet \<Rightarrow> Inr (script_text
          [''set -eu'', ''rm -f '' @ shellQuote pidFile, buildCwdSnippet cwd, envSnippet,
           ''setsid sh -lc '' @ shellQuote (shellJoin command) @ '' &'', ''child=$!'',
           ''echo '' @ double_quoted ''$child'' @ '' > '' @ shellQuote pidFile, ''wait '' @ double_quoted ''$child'']))"

definition buildDetachedRemoteScript :: "string list \<Rightarrow> string \<Rightarrow> (string \<times> string) list \<Rightarrow> goerr + string" where
  "buildDetachedRemoteScript command cwd env =
     (case buildEnvSnippet env of
        Inl e \<Rightarrow> Inl e
      | Inr envSnippet \<Rightarrow> Inr (script_text
          [''set -eu'', buildCwdSnippet cwd, envSnippet,
           ''nohup sh -lc '' @ shellQuote (shellJoin command) @ '' >/dev/null 2>&1 </dev/null &'']))"

definition buildInteractiveRemoteScript :: "string list \<Rightarrow> string \<Rightarrow> (string \<times> string) list \<Rightarrow> goerr + string" where
  "buildInteractiveRemoteScript command cwd env =
     (case buildEnvSnippet env of
        Inl e \<Rightarrow> Inl e
      | Inr envSnippet \<Rightarrow> Inr (TrimSpace (script_text
          [''set -eu'', buildCwdSnippet cwd, envSnippet, ''exec sh -lc '' @ shellQuote (shellJoin command)])))"

section \<open>Commands and terminals\<close>

definition ssh_args :: "qemu_runtime \<Rightarrow> sandbox \<Rightarrow> bool \<Rightarrow> string \<Rightarrow> string list" where
  "ssh_args r s tty script = baseSSHArgs r (sshTarget s (layoutForSandbox s)) tty @ [''sh'', ''-lc'', script]"

definition ssh_run :: "'q vm_host \<Rightarrow> qemu_runtime \<Rightarrow> sandbox \<Rightarrow> string \<Rightarrow> ('q, string) vm_op" where
  "ssh_run h r s script = defaultRunCommand h (qr_sshBinary r) (ssh_args r s False script)"

definition qemu_killProcessGroup :: "'q vm_host \<Rightarrow> qemu_runtime \<Rightarrow> sandbox \<Rightarrow> string \<Rightarrow> ('q, unit) vm_op" where
  "qemu_killProcessGroup h r s pidFile = thenE (ssh_run h r s (kill_script pidFile)) (okE ())"

definition started :: "'q vm_host \<Rightarrow> string \<Rightarrow> string list \<Rightarrow> ('q \<Rightarrow> (goerr + 'a) \<times> 'q) \<Rightarrow> ('q, 'a) vm_op" where
  "started h binary args f = (\<lambda>w. case f (vm_state w) of
     (res, q) \<Rightarrow> (res, w\<lparr>vm_state := q, vm_log := vm_log w @ [Ran binary args []]\<rparr>))"

definition qemu_exec_result :: "int \<Rightarrow> process \<Rightarrow> time \<Rightarrow> time \<Rightarrow> exec_result" where
  "qemu_exec_result timeout p startedAt completedAt =
     (let (status, code) =
        (case cancel_kind timeout p of
           Some kind \<Rightarrow> (kind, 0)
         | None \<Rightarrow>
             (case pr_Exit p of
                ExitOK \<Rightarrow> (ExecSucceeded, 0) | ExitStatus n \<Rightarrow> (ExecFailed, n) | ExitOther m \<Rightarrow> (ExecFailed, 1))) in
      \<lparr>er_ExitCode = code, er_Status = status, er_CompletedAt = completedAt,
       er_Duration = time_Sub completedAt startedAt,
       er_StdoutTruncated = bb_truncated (preview dockerPreviewLimit (pr_Stdout p)),
       er_StderrTruncated = bb_truncated (preview dockerPreviewLimit (pr_Stderr p))\<rparr>)"

definition ssh_exec :: "'q vm_host \<Rightarrow> qemu_runtime \<Rightarrow> sandbox \<Rightarrow> exec_request \<Rightarrow> ('q, exec_handle) vm_op" where
  "ssh_exec h r s req =
     (if xr_Detached req then
        bindE (liftE (buildDetachedRemoteScript (exec_command req) (xr_Cwd req) (xr_Env req))) (\<lambda>script.
        thenE (ssh_run h r s script) (getE (\<lambda>w. okE (detached_handle (vm_clock w)))))
      else
        getE (\<lambda>w0.
        (let pidFile = pid_file (vm_clock w0) in
         bindE (liftE (buildTrackedRemoteScript (exec_command req) (xr_Cwd req) (xr_Env req) pidFile)) (\<lambda>script.
         (let args = ssh_args r s False script in
          bindE (started h (qr_sshBinary r) args (vh_Spawn h (qr_sshBinary r) args)) (\<lambda>p.
          ignoreE (if cancel_kind (xr_Timeout req) p = None then okE () else qemu_killProcessGroup h r s pidFile)
         (getE (\<lambda>w1.
            okE \<lparr>eh_Stdout = pr_Stdout p, eh_Stderr = pr_Stderr p,
                 eh_Wait = qemu_exec_result (xr_Timeout req) p (vm_clock w0) (vm_clock w1)\<rparr>))))))))"

definition qemu_Exec :: "'q vm_host \<Rightarrow> qemu_runtime \<Rightarrow> sandbox \<Rightarrow> exec_request \<Rightarrow> ('q, exec_handle) vm_op" where
  "qemu_Exec h r s req =
     (if controlModeForSandbox h r s = ControlAgent then agentExec h r s req else ssh_exec h r s req)"

definition qemu_AttachTTY :: "'q vm_host \<Rightarrow> qemu_runtime \<Rightarrow> sandbox \<Rightarrow> tty_request \<Rightarrow> ('q, string) vm_op" where
  "qemu_AttachTTY h r s req =
     (if controlModeForSandbox h r s = ControlAgent then agentAttachTTY h r s req
      else
        bindE (liftE (buildInteractiveRemoteScript (if tr_Command req = [] then [''bash''] else tr_Command req)
                        (tr_Cwd req) (tr_Env req))) (\<lambda>script.
        (let args = ssh_args r s True script in
         bindE (started h (qr_sshBinary r) args
                  (vh_PTY h (qr_sshBinary r) args (of_int (defaultInt (tr_Rows req) 24)) (of_int (defaultInt (tr_Cols req) 80))))
           (\<lambda>ptmx. case vh_MakeRaw h ptmx of Some e \<Rightarrow> failE e | None \<Rightarrow> okE ptmx))))"

section \<open>Workspace files\<close>

text \<open>The commands that SSH runs for the files of a workspace.\<close>

definition read_command :: "string \<Rightarrow> string" where "read_command target = ''cat '' @ shellQuote target"
definition delete_command :: "string \<Rightarrow> string" where "delete_command target = ''rm -rf '' @ shellQuote target"
definition mkdir_command :: "string \<Rightarrow> string" where "mkdir_command target = ''mkdir -p '' @ shellQuote target"

definition write_command :: "string \<Rightarrow> string" where
  "write_command target = ''mkdir -p '' @ shellQuote (Dir target) @ '' && cat > '' @ shellQuote target"

definition readWorkspaceFileBytesWithLimit ::
  "'q vm_host \<Rightarrow> qemu_runtime \<Rightarrow> sandbox \<Rightarrow> string \<Rightarrow> int \<Rightarrow> ('q, string) vm_op" where
  "readWorkspaceFileBytesWithLimit h r s relativePath maxBytes =
     (if controlModeForSandbox h r s = ControlAgent
      then agentReadWorkspaceFileBytesWithLimit h r s relativePath maxBytes
      else
        bindE (liftE (workspaceGuestPath relativePath)) (\<lambda>target.
        bindE (ssh_run h r s (read_command target)) (\<lambda>output.
        guardE (0 < maxBytes \<and> maxBytes < int (length output)) (ErrFileTransferTooLarge maxBytes) (okE output))))"

definition qemu_ReadWorkspaceFile :: "'q vm_host \<Rightarrow> qemu_runtime \<Rightarrow> sandbox \<Rightarrow> string \<Rightarrow> ('q, file_read_response) vm_op" where
  "qemu_ReadWorkspaceFile h r s relativePath =
     bindE (readWorkspaceFileBytesWithLimit h r s relativePath (-1)) (\<lambda>output.
     okE \<lparr>fr_Path = relativePath, fr_Content = output, fr_ContentBase64 = [], fr_Size = int (length output),
          fr_Encoding = ''utf-8''\<rparr>)"

definition qemu_ReadWorkspaceFileBytes :: "'q vm_host \<Rightarrow> qemu_runtime \<Rightarrow> sandbox \<Rightarrow> string \<Rightarrow> ('q, string) vm_op" where
  "qemu_ReadWorkspaceFileBytes h r s relativePath =
     (if controlModeForSandbox h r s = ControlAgent then
        bindE (effectiveWorkspaceFileTransferMaxBytes h r s) (\<lambda>maxBytes.
        readWorkspaceFileBytesWithLimit h r s relativePath maxBytes)
      else readWorkspaceFileBytesWithLimit h r s relativePath (-1))"

definition writeWorkspaceFileBytes ::
  "'q vm_host \<Rightarrow> qemu_runtime \<Rightarrow> sandbox \<Rightarrow> string \<Rightarrow> string \<Rightarrow> ('q, unit) vm_op" where
  "writeWorkspaceFileBytes h r s relativePath content =
     bindE (liftE (workspaceGuestPath relativePath)) (\<lambda>target.
     askE (run_on h (qr_sshBinary r) (ssh_args r s False (write_command target)) content) (\<lambda>c.
     case cl_Err c of
       Some err \<Rightarrow> failE (Err (''write workspace file: '' @ err @ '': '' @ TrimSpace (cl_Combined c)))
     | None \<Rightarrow> okE ()))"

text \<open>The text variant goes over SSH whatever the control mode.\<close>

definition qemu_WriteWorkspaceFile :: "'q vm_host \<Rightarrow> qemu_runtime \<Rightarrow> sandbox \<Rightarrow> string \<Rightarrow> string \<Rightarrow> ('q, unit) vm_op" where
  "qemu_WriteWorkspaceFile h r s relativePath content = writeWorkspaceFileBytes h r s relativePath content"

definition qemu_WriteWorkspaceFileBytes ::
  "'q vm_host \<Rightarrow> qemu_runtime \<Rightarrow> sandbox \<Rightarrow> string \<Rightarrow> string \<Rightarrow> ('q, unit) vm_op" where
  "qemu_WriteWorkspaceFileBytes h r s relativePath content =
     (if controlModeForSandbox h r s = ControlAgent then agentWriteWorkspaceFileBytes h r s relativePath content
      else writeWorkspaceFileBytes h r s relativePath content)"

definition qemu_DeleteWorkspacePath :: "'q vm_host \<Rightarrow> qemu_runtime \<Rightarrow> sandbox \<Rightarrow> string \<Rightarrow> ('q, unit) vm_op" where
  "qemu_DeleteWorkspacePath h r s relativePath =
     (if controlModeForSandbox h r s = ControlAgent then agentDeleteWorkspacePath h r s relativePath
      else
        bindE (liftE (workspaceGuestPath relativePath)) (\<lambda>target.
        thenE (ssh_run h r s (delete_command target)) (okE ())))"

definition qemu_MkdirWorkspace :: "'q vm_host \<Rightarrow> qemu_runtime \<Rightarrow> sandbox \<Rightarrow> string \<Rightarrow> ('q, unit) vm_op" where
  "qemu_MkdirWorkspace h r s relativePath =
     (if controlModeForSandbox h r s = ControlAgent then agentMkdirWorkspace h r s relativePath
      else
        bindE (liftE (workspaceGuestPath relativePath)) (\<lambda>target.
        thenE (ssh_run h r s (mkdir_command target)) (okE ())))"

section \<open>Storage\<close>

definition allocatedFileSize :: "file_size \<Rightarrow> int" where
  "allocatedFileSize f = (if 0 < fz_Blocks f then mul64 (fz_Blocks f) 512 else fz_Size f)"

fun usage_walk :: "int \<Rightarrow> int \<Rightarrow> usage_entry list \<Rightarrow> goerr + int \<times> int" where
  "usage_walk bytes entries [] = Inr (bytes, entries)"
| "usage_walk bytes entries (UsageMissing # es) = usage_walk bytes entries es"
| "usage_walk bytes entries (UsageError e # es) = Inl e"
| "usage_walk bytes entries (UsageFile f # es) =
     (if fz_IsDir f then usage_walk bytes entries es
      else usage_walk (add64 bytes (allocatedFileSize f)) (entries + 1) es)"

definition allocatedPathUsage :: "'q vm_host \<Rightarrow> string \<Rightarrow> ('q, int \<times> int) vm_op" where
  "allocatedPathUsage h path = (\<lambda>w.
     (if TrimSpace path = [] then Inr (0, 0)
      else
        (case vh_Usage h path (vm_state w) of
           PathMissing \<Rightarrow> Inr (0, 0)
         | PathError e \<Rightarrow> Inl e
         | PathFile f \<Rightarrow> Inr (allocatedFileSize f, 1)
         | PathTree es \<Rightarrow> usage_walk 0 0 es), w))"

definition qemu_MeasureStorage :: "'q vm_host \<Rightarrow> sandbox \<Rightarrow> ('q, storage_usage) vm_op" where
  "qemu_MeasureStorage h s =
     (let l = layoutForSandbox s in
      bindE (allocatedPathUsage h (ly_rootDiskPath l)) (\<lambda>(rootfsBytes, rootfsEntries).
      bindE (allocatedPathUsage h (ly_workspaceDiskPath l)) (\<lambda>(workspaceBytes, workspaceEntries).
      bindE (allocatedPathUsage h (sb_CacheRoot s)) (\<lambda>(cacheBytes, cacheEntries).
      bindE (allocatedPathUsage h (Join [sb_StorageRoot s, ''.snapshots''])) (\<lambda>(snapshotBytes, snapshotEntries).
        okE \<lparr>su_RootfsBytes = rootfsBytes, su_WorkspaceBytes = workspaceBytes, su_CacheBytes = cacheBytes,
             su_SnapshotBytes = snapshotBytes, su_RootfsEntries = rootfsEntries, su_WorkspaceEntries = workspaceEntries,
             su_CacheEntries = cacheEntries, su_SnapshotEntries = snapshotEntries\<rparr>)))))"

section \<open>Archives\<close>

fun strip_dot_slash :: "string \<Rightarrow> string" where
  "strip_dot_slash (CHR ''.'' # CHR ''/'' # cs) = strip_dot_slash cs"
| "strip_dot_slash cs = cs"

definition normalizeWorkspaceArchiveEntryName :: "string \<Rightarrow> goerr + string" where
  "normalizeWorkspaceArchiveEntryName name =
     (let cleaned = strip_dot_slash (trim_left_by (\<lambda>c. c = slash) name) in
      if cleaned = [] then Inr []
      else
        (let path = Clean cleaned in
         if path = ''.'' then Inr []
         else if path = ''..'' \<or> HasPrefix path ''../'' then
           Inl (Err (''workspace archive contains invalid path: '' @ name))
         else Inr path))"

text \<open>The tar writer: a header needs the previous entry to be complete, data goes to the entry written last.\<close>

definition write_header :: "tar_writer \<Rightarrow> string \<Rightarrow> int option \<Rightarrow> (goerr + unit) \<times> tar_writer" where
  "write_header tw name fileSize =
     (if tw_Missing tw \<noteq> 0 then
        (Inl (Err (''archive/tar: missed writing '' @ fmt_int (tw_Missing tw) @ '' bytes'')), tw)
      else
        (Inr (), tw\<lparr>tw_Entries := tw_Entries tw @ [(name, map_option (\<lambda>_. []) fileSize)],
                    tw_Missing := (case fileSize of None \<Rightarrow> 0 | Some n \<Rightarrow> n)\<rparr>))"

definition append_data :: "(string \<times> string option) list \<Rightarrow> string \<Rightarrow> (string \<times> string option) list" where
  "append_data es data =
     (case rev es of
        (name, Some content) # before \<Rightarrow> rev before @ [(name, Some (content @ data))]
      | _ \<Rightarrow> es)"

definition write_data :: "tar_writer \<Rightarrow> string \<Rightarrow> (goerr + unit) \<times> tar_writer" where
  "write_data tw data =
     (let taken = take (nat (tw_Missing tw)) data;
          tw' = tw\<lparr>tw_Entries := append_data (tw_Entries tw) taken, tw_Missing := tw_Missing tw - int (length taken)\<rparr> in
      if length taken < length data then (Inl (Err ''archive/tar: write too long''), tw') else (Inr (), tw'))"

definition close_writer :: "tar_writer \<Rightarrow> goerr + unit" where
  "close_writer tw =
     (if tw_Missing tw \<noteq> 0 then Inl (Err (''archive/tar: missed writing '' @ fmt_int (tw_Missing tw) @ '' bytes''))
      else Inr ())"

definition chunk_data :: "int \<Rightarrow> tar_writer \<Rightarrow> archive_chunk \<Rightarrow> (goerr + unit) \<times> tar_writer" where
  "chunk_data maxBytes tw c =
     (if ac_Data c = [] then (Inr (), tw)
      else
        (case DecodeBytes (ac_Data c) of
           Inl e \<Rightarrow> (Inl e, tw)
         | Inr data \<Rightarrow>
             (let bytes = add64 (tw_Total tw) (int (length data)); tw' = tw\<lparr>tw_Total := bytes\<rparr> in
              if 0 < maxBytes \<and> maxBytes < bytes then (Inl (ErrFileTransferTooLarge maxBytes), tw')
              else write_data tw' data)))"

definition archive_chunk_step :: "int \<Rightarrow> tar_writer \<Rightarrow> archive_chunk \<Rightarrow> (goerr + unit) \<times> tar_writer" where
  "archive_chunk_step maxBytes tw c =
     (case normalizeWorkspaceArchiveEntryName (ac_Path c) of
        Inl e \<Rightarrow> (Inl e, tw)
      | Inr name \<Rightarrow>
          if ac_Type c = ''dir'' then
            (if name = [] \<or> name \<in> set (tw_Seen tw) then (Inr (), tw)
             else
               (case write_header tw (name @ ''/'') None of
                  (Inl e, tw') \<Rightarrow> (Inl e, tw') | (Inr u, tw') \<Rightarrow> (Inr (), tw'\<lparr>tw_Seen := name # tw_Seen tw'\<rparr>)))
          else if ac_Type c = ''file'' then
            (case (if name \<in> set (tw_Seen tw) then (Inr (), tw)
                   else (case write_header tw name (Some (ac_Size c)) of
                           (Inl e, tw') \<Rightarrow> (Inl e, tw') | (Inr u, tw') \<Rightarrow> (Inr (), tw'\<lparr>tw_Seen := name # tw_Seen tw'\<rparr>))) of
               (Inl e, tw') \<Rightarrow> (Inl e, tw')
             | (Inr u, tw') \<Rightarrow> chunk_data maxBytes tw' c)
          else (Inr (), tw))"

fun archive_chunks :: "int \<Rightarrow> tar_writer \<Rightarrow> archive_chunk list \<Rightarrow> (goerr + unit) \<times> tar_writer" where
  "archive_chunks maxBytes tw [] = (Inr (), tw)"
| "archive_chunks maxBytes tw (c # cs) =
     (if ac_Error c \<noteq> [] then (Inl (Err (ac_Error c)), tw)
      else if ac_End c then (Inr (), tw)
      else
        (case archive_chunk_step maxBytes tw c of
           (Inl e, tw') \<Rightarrow> (Inl e, tw') | (Inr u, tw') \<Rightarrow> archive_chunks maxBytes tw' cs))"

definition temp_file :: "'q vm_host \<Rightarrow> string \<Rightarrow> string \<Rightarrow> ('q, string) vm_op" where
  "temp_file h dir pat =
     bindE (from_host (vh_CreateTemp h dir pat)) (\<lambda>path.
     doE (\<lambda>w. w\<lparr>vm_log := vm_log w @ [Filed (Plain (CreateFile path))]\<rparr>) (okE path))"

definition temp_dir :: "'q vm_host \<Rightarrow> string \<Rightarrow> string \<Rightarrow> ('q, string) vm_op" where
  "temp_dir h dir pat =
     bindE (from_host (vh_MkdirTemp h dir pat)) (\<lambda>path.
     doE (\<lambda>w. w\<lparr>vm_log := vm_log w @ [Filed (Plain (MkdirAll path))]\<rparr>) (okE path))"

text \<open>
  The deferred removal of the archive looks at the error of the statement that opened the stream; the errors of the loop
  are other variables of the same name.
\<close>

definition qemu_ExportWorkspaceArchive ::
  "'q vm_host \<Rightarrow> qemu_runtime \<Rightarrow> sandbox \<Rightarrow> string list \<Rightarrow> int \<Rightarrow> ('q, string) vm_op" where
  "qemu_ExportWorkspaceArchive h r s paths maxBytes =
     bindE (temp_file h (Dir (sb_WorkspaceRoot s)) ''workspace-export-*.tar.gz'') (\<lambda>localArchive.
     tryE (streamWorkspaceArchive h r s paths) (\<lambda>opened.
     case opened of
       Inl e \<Rightarrow> doE (remove h localArchive) (failE e)
     | Inr chunks \<Rightarrow>
         (case archive_chunks maxBytes new_writer chunks of
            (res, tw) \<Rightarrow>
              tryE (file_op h (Plain (WriteTar localArchive (tw_Entries tw)))) (\<lambda>written.
              thenE (liftE res) (thenE (liftE (close_writer tw)) (thenE (liftE written) (okE localArchive)))))))"

section \<open>Snapshots\<close>

definition is_lost_found :: "string \<Rightarrow> bool" where
  "is_lost_found name \<longleftrightarrow> name = ''lost+found'' \<or> HasPrefix name ''lost+found/''"

definition snapshot_entry :: "int \<Rightarrow> tar_writer \<Rightarrow> walk_entry \<Rightarrow> (goerr + unit) \<times> tar_writer" where
  "snapshot_entry maxBytes tw e =
     (if is_walk_root e \<or> is_lost_found (we_Rel e) then (Inr (), tw)
      else
        (case we_Info e of
           Inl err \<Rightarrow> (Inl err, tw)
         | Inr info \<Rightarrow>
             if fi_Symlink info then (Inl (Err (''workspace path contains unsupported symlink: '' @ we_Rel e)), tw)
             else
               (case fi_Header info of
                  Some err \<Rightarrow> (Inl err, tw)
                | None \<Rightarrow>
                    if we_IsDir e then write_header tw (we_Rel e @ ''/'') None
                    else
                      (let bytes = add64 (tw_Total tw) (fi_Size info); tw1 = tw\<lparr>tw_Total := bytes\<rparr> in
                       if 0 < maxBytes \<and> maxBytes < bytes then (Inl (ErrFileTransferTooLarge maxBytes), tw1)
                       else
                         (case write_header tw1 (we_Rel e) (Some (fi_Size info)) of
                            (Inl err, tw2) \<Rightarrow> (Inl err, tw2)
                          | (Inr u, tw2) \<Rightarrow>
                              (case we_Content e of Inl err \<Rightarrow> (Inl err, tw2) | Inr content \<Rightarrow> write_data tw2 content)))))) "

fun snapshot_walk :: "int \<Rightarrow> tar_writer \<Rightarrow> (goerr + walk_entry) list \<Rightarrow> (goerr + unit) \<times> tar_writer" where
  "snapshot_walk maxBytes tw [] = (Inr (), tw)"
| "snapshot_walk maxBytes tw (Inl e # rest) = (Inl e, tw)"
| "snapshot_walk maxBytes tw (Inr e # rest) =
     (case snapshot_entry maxBytes tw e of
        (Inl err, tw') \<Rightarrow> (Inl err, tw') | (Inr u, tw') \<Rightarrow> snapshot_walk maxBytes tw' rest)"

definition createWorkspaceArchiveFromDirectory :: "'q vm_host \<Rightarrow> string \<Rightarrow> string \<Rightarrow> int \<Rightarrow> ('q, string) vm_op" where
  "createWorkspaceArchiveFromDirectory h rootDir outputDir maxBytes =
     bindE (temp_file h outputDir ''workspace-export-*.tar.gz'') (\<lambda>archiveFile.
     getE (\<lambda>w.
     (case snapshot_walk maxBytes new_writer (vh_Walk h rootDir (vm_state w)) of
        (res, tw) \<Rightarrow>
          tryE (file_op h (Plain (WriteTar archiveFile (tw_Entries tw)))) (\<lambda>written.
          case (res, close_writer tw, written) of
            (Inr u, Inr v, Inr x) \<Rightarrow> okE archiveFile
          | (Inl e, _, _) \<Rightarrow> doE (remove h archiveFile) (failE e)
          | (_, Inl e, _) \<Rightarrow> doE (remove h archiveFile) (failE e)
          | (_, _, Inl e) \<Rightarrow> doE (remove h archiveFile) (failE e)))))"

definition with_cleanup :: "'q vm_host \<Rightarrow> string \<Rightarrow> ('q, 'a) vm_op \<Rightarrow> ('q, 'a) vm_op" where
  "with_cleanup h path m = tryE m (\<lambda>res. ignoreE (file_op h (Plain (RemoveAll path))) (liftE res))"

definition exportWorkspaceArchiveFromDiskImage ::
  "'q vm_host \<Rightarrow> string \<Rightarrow> string \<Rightarrow> int \<Rightarrow> ('q, string) vm_op" where
  "exportWorkspaceArchiveFromDiskImage h workspaceDiskPath outputDir maxBytes =
     bindE (temp_dir h (Dir workspaceDiskPath) ''workspace-export-*'') (\<lambda>stagingRoot.
     with_cleanup h stagingRoot (
       (let dumpRoot = Join [stagingRoot, ''dump''] in
        thenE (file_op h (Plain (MkdirAll dumpRoot)))
       (tryE (defaultRunCommand h ''debugfs'' [''-R'', ''rdump / '' @ dumpRoot, workspaceDiskPath]) (\<lambda>res.
        case res of
          Inl e \<Rightarrow> failE (Err (''export workspace from '' @ quote workspaceDiskPath @ '': '' @ err_text e))
        | Inr out \<Rightarrow> createWorkspaceArchiveFromDirectory h dumpRoot outputDir maxBytes)))))"

definition exportStoppedWorkspaceArchive :: "'q vm_host \<Rightarrow> qemu_runtime \<Rightarrow> sandbox \<Rightarrow> ('q, string) vm_op" where
  "exportStoppedWorkspaceArchive h r s =
     (let l = layoutForSandbox s; maxBytes = workspaceFileTransferLimit (qr_workspaceFileTransferMaxBytes r) in
      getE (\<lambda>w.
      if qr_qemuImgBinary r \<noteq> [] \<and> vh_ModTime h (ly_workspaceDiskPath l) (vm_state w) \<noteq> None
      then exportWorkspaceArchiveFromDiskImage h (ly_workspaceDiskPath l) (Dir (sb_WorkspaceRoot s)) maxBytes
      else createWorkspaceArchiveFromDirectory h (sb_WorkspaceRoot s) (Dir (sb_WorkspaceRoot s)) maxBytes))"

definition qemu_CreateSnapshot :: "'q vm_host \<Rightarrow> qemu_runtime \<Rightarrow> sandbox \<Rightarrow> string \<Rightarrow> ('q, snapshot_info) vm_op" where
  "qemu_CreateSnapshot h r s snapshotID =
     bindE (qemu_Inspect h r s) (\<lambda>state.
     guardE (rs_Status state \<noteq> StatusStopped) (Err ''qemu snapshots require the sandbox to be stopped'') (
     bindE (exportStoppedWorkspaceArchive h r s) (\<lambda>archivePath.
     okE \<lparr>si_ImageRef = sb_BaseImageRef s, si_WorkspaceTar = archivePath\<rparr>)))"

definition vm_restore_limits :: limits where
  "vm_restore_limits =
     \<lparr>lim_MaxBytes = MaxWorkspaceFileTransferCeilingBytes, lim_MaxFiles = 100000, lim_MaxExpansionRatio = 64\<rparr>"

definition vm_extract :: "'q vm_host \<Rightarrow> string \<Rightarrow> string \<Rightarrow> ('q, unit) vm_op" where
  "vm_extract h source destination = (\<lambda>w.
     case ExtractTarGz (av_os (vh_Archives h)) (av_Open (vh_Archives h) source) destination vm_restore_limits of
       (res, effects) \<Rightarrow>
         (case res of Inl e \<Rightarrow> Inl e | Inr st \<Rightarrow> Inr (),
          w\<lparr>vm_log := vm_log w @ map (\<lambda>x. Filed (Plain (effect_op x))) effects\<rparr>))"

definition qemu_RestoreSnapshot :: "'q vm_host \<Rightarrow> qemu_runtime \<Rightarrow> sandbox \<Rightarrow> snapshot \<Rightarrow> ('q, runtime_state) vm_op" where
  "qemu_RestoreSnapshot h r s sn =
     (let l = layoutForSandbox s; ref = TrimSpace (sn_ImageRef sn);
          baseImagePath = (if ref = [] then sb_BaseImageRef s else ref);
          finish = doE (invalidateAgentSession h (sb_ID s)) (okE (runtime_state_of (sb_RuntimeID s) StatusStopped)) in
      thenE (ensureLayout h l)
     (guardE (baseImagePath = []) (Err ''qemu snapshot restore requires a base image reference'') (
      bindE (baseImageVirtualSizeBytes h r baseImagePath) (\<lambda>baseSize.
      (let (rootBytes, workspaceBytes) = splitDiskBytes (sb_DiskLimitMB s) baseSize in
       thenE (createRootDisk h r baseImagePath (ly_rootDiskPath l) rootBytes)
      (if sn_WorkspaceTar sn \<noteq> [] then
         bindE (temp_dir h (ly_baseDir l) ''workspace-restore-*'') (\<lambda>stagingRoot.
         with_cleanup h stagingRoot (
           thenE (vm_extract h (sn_WorkspaceTar sn) stagingRoot)
          (thenE (createWorkspaceDisk h r (ly_workspaceDiskPath l) workspaceBytes (sb_ID s) stagingRoot) finish)))
       else thenE (createWorkspaceDisk h r (ly_workspaceDiskPath l) workspaceBytes (sb_ID s) []) finish))))))"

section \<open>The backend\<close>

definition qemu_manager :: "'q vm_host \<Rightarrow> qemu_runtime \<Rightarrow> 'q vm runtime_manager" where
  "qemu_manager h r =
     \<lparr>rm_Create = qemu_Create h r, rm_Start = qemu_Start h r, rm_Stop = qemu_Stop h r, rm_Suspend = qemu_Suspend h r,
      rm_Resume = qemu_Resume h r, rm_Destroy = qemu_Destroy h r, rm_Inspect = qemu_Inspect h r,
      rm_Exec = qemu_Exec h r, rm_AttachTTY = qemu_AttachTTY h r, rm_CreateSnapshot = qemu_CreateSnapshot h r,
      rm_RestoreSnapshot = qemu_RestoreSnapshot h r, rm_ReadWorkspaceFile = Some (qemu_ReadWorkspaceFile h r),
      rm_WriteWorkspaceFile = Some (qemu_WriteWorkspaceFile h r), rm_DeleteWorkspacePath = Some (qemu_DeleteWorkspacePath h r),
      rm_MkdirWorkspace = Some (qemu_MkdirWorkspace h r), rm_ReadWorkspaceFileBytes = Some (qemu_ReadWorkspaceFileBytes h r),
      rm_WriteWorkspaceFileBytes = Some (qemu_WriteWorkspaceFileBytes h r), rm_MeasureStorage = Some (qemu_MeasureStorage h),
      rm_ExportWorkspaceArchive = Some (qemu_ExportWorkspaceArchive h r),
      rm_OpenSandboxLocalConn = Some (qemu_OpenSandboxLocalConn h r), rm_AgentSessionMetrics = Some qemu_AgentSessionMetrics,
      rm_AgentSessionMetricsForSandboxes = Some qemu_AgentSessionMetricsForSandboxes\<rparr>"

end
