(* ===== verification/QemuSafety.thy ===== *)
theory QemuSafety
  imports QemuGuest Example
begin

text \<open>
  Properties of the virtual machine backend: which processes it signals, what its SSH command lines mean to the shell of
  the guest, and that the packets a file is written in are read back as the file.
\<close>

section \<open>Signals\<close>

text \<open>
  \<open>own_signals ok seen events\<close>: every signal other than the empty probe goes to a process of \<open>seen\<close>, to one whose command
  line was looked up earlier and satisfied \<open>ok\<close>, or to the number zero, which the operating system takes as the group of
  the caller.
\<close>

fun own_signals :: "(string \<Rightarrow> bool) \<Rightarrow> int list \<Rightarrow> vm_event list \<Rightarrow> bool" where
  "own_signals ok seen [] \<longleftrightarrow> True"
| "own_signals ok seen (Looked pid args # es) \<longleftrightarrow> own_signals ok (if ok args then pid # seen else seen) es"
| "own_signals ok seen (Signalled pid sig # es) \<longleftrightarrow> (sig = SIG0 \<or> pid = 0 \<or> pid \<in> set seen) \<and> own_signals ok seen es"
| "own_signals ok seen (e # es) \<longleftrightarrow> own_signals ok seen es"

fun seen_after :: "(string \<Rightarrow> bool) \<Rightarrow> int list \<Rightarrow> vm_event list \<Rightarrow> int list" where
  "seen_after ok seen [] = seen"
| "seen_after ok seen (Looked pid args # es) = seen_after ok (if ok args then pid # seen else seen) es"
| "seen_after ok seen (e # es) = seen_after ok seen es"

lemma own_signals_append:
  "own_signals ok seen (xs @ ys) \<longleftrightarrow> own_signals ok seen xs \<and> own_signals ok (seen_after ok seen xs) ys"
  by (induction ok seen xs rule: own_signals.induct) auto

lemma own_signals_mono: "own_signals ok seen es \<Longrightarrow> set seen \<subseteq> set seen' \<Longrightarrow> own_signals ok seen' es"
proof (induction ok seen es arbitrary: seen' rule: own_signals.induct)
  case (2 ok seen pid args es)
  show ?case
  proof (cases "ok args")
    case True
    with "2.prems" have "own_signals ok (pid # seen) es" "set (pid # seen) \<subseteq> set (pid # seen')" by auto
    with "2.IH" [of "pid # seen'"] True show ?thesis by simp
  next
    case False
    with 2 show ?thesis by simp
  qed
qed auto

lemma seen_after_grows: "set seen \<subseteq> set (seen_after ok seen es)"
  by (induction ok seen es rule: seen_after.induct) (auto split: if_splits)

definition signals_own :: "(string \<Rightarrow> bool) \<Rightarrow> int list \<Rightarrow> 'q vm \<Rightarrow> 'q vm \<Rightarrow> bool" where
  "signals_own ok seen w w' \<longleftrightarrow> (\<exists>new. vm_log w' = vm_log w @ new \<and> own_signals ok seen new)"

interpretation signals: step_preorder "signals_own ok seen" for ok seen
proof
  show "signals_own ok seen w w" for w :: "'a vm" by (simp add: signals_own_def)
  fix u v w :: "'a vm"
  assume "signals_own ok seen u v" and "signals_own ok seen v w"
  then show "signals_own ok seen u w"
    by (auto simp: signals_own_def own_signals_append intro: own_signals_mono [OF _ seen_after_grows])
qed

text \<open>Operations that send no signal but the probe.\<close>

fun silent :: "vm_event \<Rightarrow> bool" where
  "silent (Signalled pid sig) \<longleftrightarrow> sig = SIG0"
| "silent e \<longleftrightarrow> True"

definition quiet :: "'q vm \<Rightarrow> 'q vm \<Rightarrow> bool" where
  "quiet w w' \<longleftrightarrow> (\<exists>new. vm_log w' = vm_log w @ new \<and> list_all silent new)"

interpretation quiet: step_preorder quiet
  by unfold_locales (auto simp: quiet_def)

lemma silent_own: "list_all silent es \<Longrightarrow> own_signals ok seen es"
  by (induction ok seen es rule: own_signals.induct) auto

lemma quiet_own: "quiet w w' \<Longrightarrow> signals_own ok seen w w'"
  by (auto simp: quiet_def signals_own_def intro: silent_own)

lemma preserves_quiet_own: "preserves quiet m \<Longrightarrow> preserves (signals_own ok seen) m"
  by (simp add: preserves_def quiet_own)

text \<open>The two combinators of the backend.\<close>

lemma quiet_do: "(\<And>w. quiet w (f w)) \<Longrightarrow> preserves quiet k \<Longrightarrow> preserves quiet (doE f k)"
  by (auto simp: preserves_def doE_def intro: quiet.R_trans)

lemma quiet_ask:
  assumes "\<And>w a w'. f w = (a, w') \<Longrightarrow> quiet w w'" and "\<And>a. preserves quiet (k a)"
  shows "preserves quiet (askE f k)"
proof -
  have "quiet w (snd (askE f k w))" for w
  proof (cases "f w")
    case (Pair a w')
    have "quiet w' (snd (k a w'))" using assms(2) by (simp add: preserves_def)
    with quiet.R_trans [OF assms(1) [OF Pair]] Pair show ?thesis by (simp add: askE_def)
  qed
  then show ?thesis by (simp add: preserves_def)
qed

lemma own_do: "(\<And>w. quiet w (f w)) \<Longrightarrow> preserves (signals_own ok seen) k \<Longrightarrow> preserves (signals_own ok seen) (doE f k)"
  unfolding preserves_def doE_def by (metis signals.R_trans quiet_own)

lemma quiet_log: "vm_log w' = vm_log w @ new \<Longrightarrow> list_all silent new \<Longrightarrow> quiet w w'"
  by (auto simp: quiet_def)

lemma quiet_same_log: "vm_log w' = vm_log w \<Longrightarrow> quiet w w'"
  by (auto simp: quiet_def)

lemma quiet_remove: "quiet w (remove h p w)"
  by (auto simp: remove_def file_result_of_def split: prod.split intro!: quiet_log)

lemma quiet_forget: "quiet w (forget_pid h l w)"
  unfolding forget_pid_def by (rule quiet.R_trans [OF quiet_remove quiet_remove])

lemma quiet_processMatches: "processMatchesSandbox h r pid l w = (a, w') \<Longrightarrow> quiet w w'"
  by (auto simp: processMatchesSandbox_def processArgs_def bindE_def quiet.R_refl
      split: if_splits prod.splits sum.splits intro!: quiet_log)

lemma quiet_probe: "signal h pid SIG0 w = (k, w') \<Longrightarrow> quiet w w'"
  by (auto simp: signal_def split: prod.splits intro!: quiet_log)

lemma quiet_live:
  assumes "liveSandboxPID h r l w = (a, w')"
  shows "quiet w w'"
  using assms
  by (auto simp: liveSandboxPID_def split: pid_answer.splits prod.splits kill_result.splits sum.splits bool.splits
      intro: quiet.R_refl quiet.R_trans [OF quiet_probe quiet_forget]
        quiet.R_trans [OF quiet_probe quiet.R_trans [OF quiet_processMatches quiet_forget]]
        quiet.R_trans [OF quiet_probe quiet_processMatches] quiet_probe)

lemma preserves_quietI: "(\<And>w a w'. m w = (a, w') \<Longrightarrow> quiet w w') \<Longrightarrow> preserves quiet m"
  unfolding preserves_def by (metis prod.collapse)

lemma quiet_file: "preserves quiet (file_op h oper)"
  by (rule preserves_quietI) (auto simp: file_op_def file_result_of_def split: prod.splits intro!: quiet_log)

lemma quiet_run: "preserves quiet (defaultRunCommand h binary args)"
  by (rule preserves_quietI) (auto simp: defaultRunCommand_def run_on_def split: prod.splits intro!: quiet_log)

lemma metric_log [simp]: "vm_log (recordAgentMetric i f w) = vm_log w"
  by (simp add: recordAgentMetric_def Let_def)

lemma close_conn_log [simp]: "vm_log (close_conn h i a w) = vm_log w"
  by (simp add: close_conn_def Let_def)

lemma invalidate_log [simp]: "vm_log (invalidateAgentSession h i w) = vm_log w"
  by (simp add: invalidateAgentSession_def Let_def split: option.split)

lemma quiet_invalidate: "quiet w (invalidateAgentSession h i w)"
  by (simp add: quiet_same_log)

lemma quiet_roundTrip: "preserves quiet (roundTrip h a req)"
  by (rule preserves_quietI) (auto simp: roundTrip_def spend_def split: prod.splits intro!: quiet_same_log)

lemma quiet_open: "preserves quiet (openAgentSession h s l pid)"
  by (rule preserves_quietI)
    (auto simp: openAgentSession_def spend_def Let_def split: prod.splits sum.splits intro!: quiet_same_log)

lemma quiet_replace: "preserves quiet (replace_session h s l pid existing)"
  unfolding replace_session_def Let_def
  by (intro quiet_do quiet.preserves_bind quiet.preserves_ok quiet_open)
    (auto split: option.split intro!: quiet_same_log)

lemma quiet_ensure: "preserves quiet (ensureAgentSession h r s)"
  unfolding ensureAgentSession_def Let_def
  by (intro quiet.preserves_guard quiet_ask quiet_live)
    (auto split: pid_answer.split option.split
      intro!: quiet.preserves_fail quiet.preserves_get quiet_replace quiet_do quiet.preserves_ok quiet_same_log)

lemma quiet_ping: "preserves quiet (agentPing h r s)"
  unfolding agentPing_def
  by (intro quiet.preserves_rules quiet_ensure quiet_roundTrip quiet_do quiet_invalidate)

lemma quiet_shutdown: "preserves quiet (agentShutdown h r s)"
  unfolding agentShutdown_def by (intro quiet.preserves_rules quiet_ensure quiet_roundTrip)

lemma quiet_probeReady: "preserves quiet (probeReady h r s t)"
  unfolding probeReady_def defaultSSHProbe_def
  by (intro quiet.preserves_rules quiet_ping quiet_run)

lemma quiet_inspect: "preserves quiet (qemu_Inspect h r s)"
proof -
  have "preserves quiet (live_state h r s l pid)" for l pid
    using quiet_probeReady [THEN preservesD] quiet.R_refl
    by (intro preserves_quietI) (auto simp: live_state_def split: if_splits sum.splits prod.splits)
  then show ?thesis
    unfolding qemu_Inspect_def deriveRuntimeState_def
    by (intro quiet_ask quiet_live)
      (auto split: pid_answer.split intro!: quiet.preserves_fail quiet.preserves_ok quiet_do quiet_invalidate quiet_remove)
qed

lemma quiet_layout: "preserves quiet (ensureLayout h l)"
  unfolding ensureLayout_def by (intro quiet.preserves_for quiet_file)

lemma quiet_target: "preserves quiet (startTarget h r s l)"
  by (rule preserves_quietI) (auto simp: startTarget_def Let_def quiet.R_refl split: sum.splits prod.splits if_splits option.splits)

lemma quiet_sleep: "quiet w (vm_sleep h d w)"
  by (simp add: vm_sleep_def quiet_same_log)

lemma quiet_await_exit: "quiet w (await_exit h r l deadline w)"
proof (induction h r l deadline w rule: await_exit.induct)
  case (1 h r l deadline w)
  show ?case
  proof (cases "deadline \<le> vm_clock w")
    case False
    obtain a w1 where a: "liveSandboxPID h r l w = (a, w1)" by fastforce
    with quiet_live have "quiet w w1" by blast
    moreover have "quiet w1 (await_exit h r l deadline (vm_sleep h tenth w1))" if "\<And>e. a \<noteq> NoPid e"
      using that "1.IH" [OF False a [symmetric]] by (cases a) (auto intro: quiet.R_trans [OF quiet_sleep])
    ultimately show ?thesis
      using False a by (cases a) (auto simp: await_exit.simps [of _ _ _ _ w] intro: quiet.R_trans)
  qed (simp add: quiet.R_refl await_exit.simps)
qed

lemma quiet_await_pid: "quiet w (snd (await_pid h path deadline w))"
proof (induction h path deadline w rule: await_pid.induct)
  case (1 h path deadline w)
  then show ?case
    by (cases "readPID h path w")
      (auto simp: await_pid.simps [of _ _ _ w] quiet.R_refl intro: quiet.R_trans [OF quiet_sleep])
qed

lemma quiet_waitForPID: "preserves quiet (waitForPID h path timeout)"
  by (simp add: preserves_def waitForPID_def quiet_await_pid)

lemma quiet_wake: "quiet w (wake h tick deadline w)"
  by (simp add: wake_def quiet_same_log)

lemma quiet_await_ready: "quiet w (snd (await_ready h r s t p begun deadline tick spins w))"
proof (induction h r s t p begun deadline tick spins w rule: await_ready.induct)
  case (1 h r s t p begun deadline tick spins w)
  obtain a w1 where a: "probeReady h r s t w = (a, w1)" by fastforce
  then have q: "quiet w w1" by (rule preservesD [OF quiet_probeReady])
  show ?case
  proof (cases a)
    case (Inl e)
    let ?w2 = "wake h tick deadline w1"
    have q2: "quiet w ?w2" by (rule quiet.R_trans [OF q quiet_wake])
    show ?thesis
    proof (cases "bootFailureReason h p w1")
      case None
      let ?stop = "\<not> tick \<le> vm_clock ?w2 \<or> deadline \<le> vm_clock ?w2 \<and> spins = 0"
      let ?next = "await_ready h r s t p begun deadline (next_tick begun (effectivePollInterval r) (vm_clock ?w2))
        (if deadline \<le> vm_clock ?w2 then spins - 1 else spins) ?w2"
      have "await_ready h r s t p begun deadline tick spins w =
          (if ?stop then (Inl (Err (''guest readiness timed out: '' @ err_text e)), ?w2) else ?next)"
        using a Inl None by (subst await_ready.simps) (simp add: Let_def)
      moreover have "\<not> ?stop \<Longrightarrow> quiet ?w2 (snd ?next)" using "1.IH" [OF a [symmetric] Inl None refl refl refl] by simp
      ultimately show ?thesis using q2 quiet.R_trans [OF q2] by (cases ?stop) simp_all
    qed (use a Inl q in \<open>subst await_ready.simps, simp\<close>)
  qed (use a q in \<open>subst await_ready.simps, simp\<close>)
qed

lemma quiet_waitForReady: "preserves quiet (waitForReady h r s t p)"
  by (simp add: preserves_def waitForReady_def quiet_await_ready)

lemma quiet_ask_shutdown: "quiet w (ask_shutdown h r s l force w)"
  using quiet_shutdown [of h r s]
  by (auto simp: ask_shutdown_def Let_def quiet.R_refl preserves_def intro: quiet.R_trans [OF _ quiet_await_exit])

text \<open>Once the process is known, signals to it are its own.\<close>

lemma own_signal: "pid \<in> set seen \<or> pid = 0 \<Longrightarrow> signal h pid sig w = (k, w') \<Longrightarrow> signals_own ok seen w w'"
  by (auto simp: signal_def signals_own_def split: prod.splits)

lemma own_await_signal:
  "pid \<in> set seen \<or> pid = 0 \<Longrightarrow> signals_own ok seen w (snd (await_signal h pid deadline w))"
proof (induction h pid deadline w rule: await_signal.induct)
  case (1 h pid deadline w)
  show ?case
  proof (cases "deadline \<le> vm_clock w")
    case True
    obtain k w1 where k: "signal h pid SIGKILL w = (k, w1)" by fastforce
    with own_signal [OF "1.prems"] True show ?thesis
      by (cases k) (auto simp: await_signal.simps [of _ _ _ w])
  next
    case False
    obtain k w1 where k: "signal h pid SIG0 w = (k, w1)" by fastforce
    then have s: "signals_own ok seen w w1" by (rule own_signal [OF "1.prems"])
    have "signals_own ok seen w (snd (await_signal h pid deadline (vm_sleep h tenth w1)))" if "k \<noteq> KillNoProcess"
      using that "1.IH" [OF False k [symmetric]] "1.prems"
      by (cases k) (auto intro: signals.R_trans [OF s] signals.R_trans [OF quiet_own [OF quiet_sleep]])
    with s k False show ?thesis
      by (cases k) (auto simp: await_signal.simps [of _ _ _ w])
  qed
qed

lemma own_terminate:
  assumes "pid \<in> set seen \<or> pid = 0"
  shows "preserves (signals_own ok seen) (terminatePID h pid force)"
proof -
  have "signals_own ok seen w (snd (terminatePID h pid force w))" for w
  proof -
    obtain k w1 where k: "signal h pid (if force then SIGKILL else SIGTERM) w = (k, w1)" by fastforce
    from signals.R_trans [OF own_signal [OF assms this] own_await_signal [OF assms]] own_signal [OF assms this] k
    show ?thesis by (cases k) (auto simp: terminatePID_def)
  qed
  then show ?thesis by (simp add: preserves_def)
qed

lemma own_continue:
  assumes "pid \<in> set seen \<or> pid = 0"
  shows "preserves (signals_own ok seen) (continue_suspended h l force pid)"
proof -
  have "signals_own ok seen w (snd (continue_suspended h l force pid w))" for w
  proof -
    obtain k w1 where k: "signal h pid SIGCONT w = (k, w1)" by fastforce
    from own_signal [OF assms this] k show ?thesis
      by (cases k) (auto simp: continue_suspended_def signals.R_refl)
  qed
  then show ?thesis by (simp add: preserves_def)
qed

lemma own_signal_or_fail:
  assumes "pid \<in> set seen \<or> pid = 0"
  shows "preserves (signals_own ok seen) (signal_or_fail h pid sig)"
proof -
  have "signals_own ok seen w (snd (signal_or_fail h pid sig w))" for w
  proof -
    obtain k w1 where k: "signal h pid sig w = (k, w1)" by fastforce
    from own_signal [OF assms this] k show ?thesis by (cases k) (auto simp: signal_or_fail_def askE_def)
  qed
  then show ?thesis by (simp add: preserves_def)
qed

text \<open>A live process was looked up, and its command line names the machine.\<close>

lemma live_looked:
  assumes "liveSandboxPID h r l w = (Pid pid, w1)" and "TrimSpace (qr_qemuBinary r) \<noteq> []"
  shows "\<exists>new. vm_log w1 = vm_log w @ new \<and> own_signals (args_match r l) seen new \<and>
    pid \<in> set (seen_after (args_match r l) seen new)"
  using assms
  by (auto simp: liveSandboxPID_def processMatchesSandbox_def processArgs_def signal_def bindE_def
      split: pid_answer.splits prod.splits kill_result.splits sum.splits bool.splits if_splits)

lemma own_ask_live:
  assumes "TrimSpace (qr_qemuBinary r) \<noteq> []"
    and "\<And>pid. preserves (signals_own (args_match r l) [pid]) (k (Pid pid))"
    and "\<And>e. preserves (signals_own (args_match r l) []) (k (NoPid e))"
    and "\<And>e. preserves (signals_own (args_match r l) []) (k (PidFailed e))"
  shows "preserves (signals_own (args_match r l) []) (askE (liveSandboxPID h r l) k)"
proof -
  have "signals_own (args_match r l) [] w (snd (askE (liveSandboxPID h r l) k w))" for w
  proof (cases "liveSandboxPID h r l w")
    case (Pair a w1)
    show ?thesis
    proof (cases a)
      case (Pid pid)
      from live_looked [OF Pair [unfolded Pid] assms(1), of "[]"] obtain new where
        new: "vm_log w1 = vm_log w @ new" "own_signals (args_match r l) [] new"
          "pid \<in> set (seen_after (args_match r l) [] new)" by blast
      from assms(2) obtain more where
        more: "vm_log (snd (k (Pid pid) w1)) = vm_log w1 @ more" "own_signals (args_match r l) [pid] more"
        by (auto simp: preserves_def signals_own_def)
      from more(2) new(3) have "own_signals (args_match r l) (seen_after (args_match r l) [] new) more"
        by (auto elim: own_signals_mono)
      with new more(1) Pair Pid show ?thesis
        by (auto simp: askE_def signals_own_def own_signals_append)
    next
      case (NoPid e)
      with assms(3) Pair signals.R_trans [OF quiet_own [OF quiet_live [OF Pair]]] show ?thesis
        by (simp add: askE_def preserves_def)
    next
      case (PidFailed e)
      with assms(4) Pair signals.R_trans [OF quiet_own [OF quiet_live [OF Pair]]] show ?thesis
        by (simp add: askE_def preserves_def)
    qed
  qed
  then show ?thesis by (simp add: preserves_def)
qed

lemmas own_rules =
  signals.preserves_bind signals.preserves_then signals.preserves_try signals.preserves_ignore signals.preserves_ok
  signals.preserves_fail signals.preserves_lift own_do quiet_invalidate quiet_remove quiet_ask_shutdown

lemma own_inspect: "preserves (signals_own ok seen) (qemu_Inspect h r s)"
  by (rule preserves_quiet_own [OF quiet_inspect])

lemma own_stop:
  assumes "TrimSpace (qr_qemuBinary r) \<noteq> []"
  shows "preserves (signals_own (args_match r (layoutForSandbox s)) []) (qemu_Stop h r s force)"
proof -
  have tail: "preserves (signals_own ok seen)
      (thenE (continue_suspended h l force pid) (doE (ask_shutdown h r s l force) (thenE (terminatePID h pid force)
        (doE (invalidateAgentSession h i) (doE (remove h p) (doE (remove h q) (okE st)))))))"
    if "pid \<in> set seen \<or> pid = 0" for ok seen l pid i p q st
    using that by (intro own_rules own_continue own_terminate)
  have lifted: "bindE (liftE (Inr a)) k = k a" "bindE (liftE (Inl e)) k = failE e" for a e and k :: "'b \<Rightarrow> ('c, 'd, 'e) eop"
    by (rule ext, simp add: bindE_def)+
  show ?thesis
    unfolding qemu_Stop_def Let_def
  proof (rule signals.preserves_bind [OF own_inspect], rule signals.preserves_if, goal_cases)
    case 1
    show ?case by (intro own_rules)
  next
    case 2
    show ?case by (rule own_ask_live [OF assms]) (simp_all add: stopped_pid_def lifted signals.preserves_fail tail)
  qed
qed

lemma own_boot:
  assumes "TrimSpace (qr_qemuBinary r) \<noteq> []"
  shows "preserves (signals_own (args_match r (layoutForSandbox s)) []) (boot h r s)"
proof -
  have l: "layoutForSandbox (sandboxWithRuntimeID s i) = layoutForSandbox s" for i
    by (simp add: layoutForSandbox_def sandboxWithRuntimeID_def)
  have stop: "preserves (signals_own (args_match r (layoutForSandbox s)) []) (qemu_Stop h r (sandboxWithRuntimeID s i) True)"
    for i using own_stop [OF assms, of "sandboxWithRuntimeID s i" h True] unfolding l .
  show ?thesis
    unfolding boot_def Let_def
    by (intro own_rules preserves_quiet_own [OF quiet_layout] preserves_quiet_own [OF quiet_target]
        preserves_quiet_own [OF quiet_run] preserves_quiet_own [OF quiet_waitForPID]
        preserves_quiet_own [OF quiet_waitForReady] signals.preserves_case_prod signals.preserves_case_sum stop own_inspect)
qed

text \<open>
  A host for the examples: programs succeed, the pid file of the machine is there, and its process answers the first look
  only (the state counts the probes).
\<close>

definition demo_args :: string where
  "demo_args = ''/usr/bin/qemu-system-x86_64 -drive file=/srv/sbx-1/rootfs/overlay.qcow2 -monitor unix:/srv/sbx-1/.runtime/monitor.sock''"

definition demo_vm_host :: "nat vm_host" where
  "demo_vm_host =
     \<lparr>vh_Run = (\<lambda>b a i q. (\<lparr>cl_Stdout = [], cl_Stderr = [], cl_Combined = [], cl_Err = None\<rparr>, 0, q)),
      vh_Spawn = (\<lambda>b a q. (Inl (Err ''no process''), q)), vh_PTY = (\<lambda>b a x y q. (Inl (Err ''no terminal''), q)),
      vh_MakeRaw = (\<lambda>p. None),
      vh_Kill = (\<lambda>pid sig q. if sig = SIG0 then (if q = 0 then KillOK else KillNoProcess, q + 1) else (KillOK, q)),
      vh_ProcessArgs = (\<lambda>pid q. (Inr demo_args, q)), vh_ScanError = (\<lambda>t. ''expected integer''),
      vh_ReadFile = (\<lambda>p q. FileText ''4242''), vh_ModTime = (\<lambda>p q. Some 0), vh_File = (\<lambda>f q. (FileDone, q)),
      vh_MkdirTemp = (\<lambda>d p q. (Inr d, q)), vh_CreateTemp = (\<lambda>d p q. (Inr d, q)), vh_PortFree = (\<lambda>p q. True),
      vh_AllocatePort = (\<lambda>q. Inr 2222), vh_Images = quiet_host, vh_ImageInfo = (\<lambda>t. Inr 1), vh_Walk = (\<lambda>p q. []),
      vh_Usage = (\<lambda>p q. PathMissing), vh_Archives = no_archives, vh_Late = (\<lambda>t. 0), vh_Spins = 0,
      vh_Dial = (\<lambda>p q. (Inr 1, 0, q)), vh_Alive = (\<lambda>c q. True), vh_Hangup = (\<lambda>c q. q),
      vh_RoundTrip = (\<lambda>c req q. (Inl (Err ''no guest''), 0, q)), vh_SendFile = (\<lambda>c p q. (None, q)),
      vh_FileStream = (\<lambda>c i q. (Inr [], q)), vh_ExecStream = (\<lambda>c i q. (Inr [], q)), vh_ArchiveStream = (\<lambda>c i q. (Inr [], q)),
      vh_Handle = (\<lambda>c i q. (None, q))\<rparr>"

definition demo_facts :: host_facts where
  "demo_facts =
     \<lparr>hf_goos = ''linux'', hf_Stat = (\<lambda>p. Inr False), hf_Open = (\<lambda>p. None), hf_LookPath = (\<lambda>p. None),
      hf_Sysctl = \<lparr>cl_Stdout = [], cl_Stderr = [], cl_Combined = [], cl_Err = None\<rparr>\<rparr>"

definition demo_options :: qemu_options where
  "demo_options =
     \<lparr>qo_Binary = ''/usr/bin/qemu-system-x86_64'', qo_Accel = ''auto'', qo_BaseImagePath = ''/images/base.qcow2'',
      qo_ControlMode = ControlAgent, qo_SSHUser = ''root'', qo_SSHKeyPath = ''/keys/id'', qo_SSHHostKeyPath = ''/keys/host.pub'',
      qo_BootTimeout = 60000000000, qo_SSHBinary = [], qo_SCPBinary = [], qo_WorkspaceFileTransferMaxBytes = 0\<rparr>"

definition demo_qemu :: qemu_runtime where
  "demo_qemu =
     \<lparr>qr_qemuBinary = ''/usr/bin/qemu-system-x86_64'', qr_qemuImgBinary = ''/usr/bin/qemu-img'', qr_mkfsExt4Binary = ''mkfs.ext4'',
      qr_sshBinary = ''ssh'', qr_scpBinary = ''scp'', qr_accelerator = ''kvm'', qr_baseImagePath = ''/images/base.qcow2'',
      qr_controlMode = ControlAgent, qr_agentTransport = ''virtio-serial'', qr_sshUser = ''root'', qr_sshKeyPath = ''/keys/id'',
      qr_sshHostKeyPath = ''/keys/host.pub'', qr_bootTimeout = 60000000000, qr_pollInterval = 500000000,
      qr_workspaceFileTransferMaxBytes = 67108864\<rparr>"

definition demo_machine :: sandbox where
  "demo_machine = running_sandbox\<lparr>sb_ControlMode := ControlAgent, sb_StorageRoot := ''/srv/sbx-1/rootfs'',
     sb_WorkspaceRoot := ''/srv/sbx-1/workspace''\<rparr>"

definition demo_vm :: "nat vm" where
  "demo_vm = \<lparr>vm_state = 0, vm_clock = 0, vm_log = [], vm_sessions = [], vm_metrics = no_sessions, vm_sandboxMetrics = []\<rparr>"

lemma demo_New: "qemu_New demo_facts demo_options = Inr demo_qemu"
  by code_simp

text \<open>
  C35: the backend of a runtime that \<open>New\<close> accepted signals its own machine only. Whatever the host does, every signal that
  starting, stopping, suspending, resuming, destroying or inspecting a sandbox sends goes to a process whose command line
  this operation has read before and found to name the QEMU program, the root disk and the monitor socket of this
  sandbox, so a stale pid file never hits a process that took over the number. The one exception is the number zero.
\<close>

theorem qemu_signals_own:
  assumes "qemu_New facts opts = Inr r"
  shows "list_all (signals_own (args_match r (layoutForSandbox s)) [] w)
    [snd (qemu_Start h r s w), snd (qemu_Stop h r s force w), snd (qemu_Suspend h r s w), snd (qemu_Resume h r s w),
     snd (qemu_Destroy h r s w), snd (qemu_Inspect h r s w)]"
proof -
  have b: "TrimSpace (qr_qemuBinary r) \<noteq> []"
    using assms by (auto simp: qemu_New_def validateHost_def Let_def split: sum.splits if_splits)
  let ?R = "signals_own (args_match r (layoutForSandbox s)) []"
  have "preserves ?R (qemu_Start h r s)"
    unfolding qemu_Start_def
    by (intro own_rules own_inspect own_boot [OF b] signals.preserves_case_sum signals.preserves_if)
  moreover have "preserves ?R (qemu_Suspend h r s)"
    unfolding qemu_Suspend_def Let_def
    by (intro own_ask_live [OF b])
      (simp_all add: signals.preserves_ok signals.preserves_fail signals.preserves_then own_signal_or_fail
        preserves_quiet_own [OF quiet_file])
  moreover have "preserves ?R (qemu_Resume h r s)"
    unfolding qemu_Resume_def Let_def
    by (intro own_ask_live [OF b])
      (simp_all add: signals.preserves_ok signals.preserves_fail signals.preserves_then own_signal_or_fail own_do quiet_remove
        preserves_quiet_own [OF quiet_waitForReady] own_inspect)
  moreover have "preserves ?R (qemu_Destroy h r s)"
    unfolding qemu_Destroy_def by (intro own_rules own_stop [OF b] preserves_quiet_own [OF quiet_file])
  ultimately show ?thesis
    using own_stop [OF b, of s h force] own_inspect [of "args_match r (layoutForSandbox s)" "[]" h r s]
    by (simp add: preserves_def)
qed

theorem qemu_signals_own_witness:
  "signals_own (args_match demo_qemu (layoutForSandbox demo_machine)) [] demo_vm
     (snd (qemu_Suspend demo_vm_host demo_qemu demo_machine demo_vm)) \<and>
   Signalled 4242 SIGSTOP \<in> set (vm_log (snd (qemu_Suspend demo_vm_host demo_qemu demo_machine demo_vm)))"
proof -
  have "Signalled 4242 SIGSTOP \<in> set (vm_log (snd (qemu_Suspend demo_vm_host demo_qemu demo_machine demo_vm)))" by code_simp
  with qemu_signals_own [OF demo_New, of demo_machine demo_vm demo_vm_host] show ?thesis by simp
qed

text \<open>
  C36: stopping a machine that is exiting signals the control plane itself. When the machine is found alive by the first look
  of a forced stop and gone by the second, the process number that is killed is zero, which the operating system reads as
  every process in the group of the caller.
\<close>

theorem qemu_stop_signals_own_group:
  assumes "qemu_Inspect h r s w = (Inr state, w1)" and "rs_Status state \<noteq> StatusStopped"
    and "liveSandboxPID h r (layoutForSandbox s) w1 = (NoPid e, w2)"
  shows "Signalled 0 SIGKILL \<in> set (vm_log (snd (qemu_Stop h r s True w)))"
proof -
  obtain k w3 where k: "signal h 0 SIGKILL w2 = (k, w3)" by fastforce
  then have "Signalled 0 SIGKILL \<in> set (vm_log w3)" by (auto simp: signal_def split: prod.splits)
  moreover have "\<exists>new. vm_log (snd (qemu_Stop h r s True w)) = vm_log w3 @ new"
  proof -
    have q: "\<exists>new. vm_log (remove h p (remove h q (invalidateAgentSession h i w3))) = vm_log w3 @ new" for p q i
      using quiet.R_trans [OF quiet.R_trans [OF quiet_invalidate [of w3 h i] quiet_remove [of _ h q]] quiet_remove [of _ h p]]
      by (auto simp: quiet_def)
    have c: "continue_suspended h (layoutForSandbox s) True 0 w2 = (Inr (), w2)" by (simp add: continue_suspended_def)
    show ?thesis
      using assms k c q
      by (cases k) (auto simp: qemu_Stop_def Let_def askE_def doE_def thenE_def bindE_def stopped_pid_def terminatePID_def
          ask_shutdown_def)
  qed
  ultimately show ?thesis by auto
qed

theorem qemu_stop_signals_own_group_witness:
  "Signalled 0 SIGKILL \<in> set (vm_log (snd (qemu_Stop demo_vm_host demo_qemu demo_machine True demo_vm)))"
proof -
  let ?x = "qemu_Inspect demo_vm_host demo_qemu demo_machine demo_vm"
  let ?y = "liveSandboxPID demo_vm_host demo_qemu (layoutForSandbox demo_machine) (snd ?x)"
  have "case fst ?x of Inl e \<Rightarrow> False | Inr state \<Rightarrow> rs_Status state = StatusSuspended" by code_simp
  then obtain state where x: "?x = (Inr state, snd ?x)" and "rs_Status state = StatusSuspended"
    by (cases ?x) (auto split: sum.splits)
  then have s: "rs_Status state \<noteq> StatusStopped" by simp
  have "fst ?y = NoPid not_exist" by code_simp
  then have y: "?y = (NoPid not_exist, snd ?y)" by (simp add: prod_eq_iff)
  show ?thesis by (rule qemu_stop_signals_own_group [OF x s y])
qed

section \<open>Command lines of the guest\<close>

text \<open>
  How a shell splits a simple command into words: blanks separate, single quotes protect everything, double quotes
  everything here but expansions. A command line with any other syntax has no reading.
\<close>

datatype quoting = Outside | Single | Double

definition plain_char :: "char \<Rightarrow> bool" where
  "plain_char c \<longleftrightarrow> name_start c \<or> digit_val c \<noteq> None \<or> c \<in> set ''-./:,+@%''"

fun sh_words :: "quoting \<Rightarrow> string option \<Rightarrow> string \<Rightarrow> string list option" where
  "sh_words Outside None [] = Some []"
| "sh_words Outside (Some w) [] = Some [w]"
| "sh_words Single cur [] = None"
| "sh_words Double cur [] = None"
| "sh_words Outside cur (c # cs) =
     (let w = (case cur of None \<Rightarrow> [] | Some v \<Rightarrow> v) in
      if c = CHR '' '' then
        (case cur of None \<Rightarrow> sh_words Outside None cs | Some v \<Rightarrow> map_option ((#) v) (sh_words Outside None cs))
      else if c = CHR 0x27 then sh_words Single (Some w) cs
      else if c = CHR 0x22 then sh_words Double (Some w) cs
      else if plain_char c then sh_words Outside (Some (w @ [c])) cs
      else None)"
| "sh_words Single cur (c # cs) =
     (let w = (case cur of None \<Rightarrow> [] | Some v \<Rightarrow> v) in
      if c = CHR 0x27 then sh_words Outside (Some w) cs else sh_words Single (Some (w @ [c])) cs)"
| "sh_words Double cur (c # cs) =
     (let w = (case cur of None \<Rightarrow> [] | Some v \<Rightarrow> v) in
      if c = CHR 0x22 then sh_words Outside (Some w) cs
      else if c = CHR ''$'' \<or> c = CHR 0x60 \<or> c = CHR 0x5C then None
      else sh_words Double (Some (w @ [c])) cs)"

definition sh_split :: "string \<Rightarrow> string list option" where "sh_split line = sh_words Outside None line"

lemma plain_char_not [simp]: "\<not> plain_char (CHR '' '')" "\<not> plain_char (CHR 0x27)" "\<not> plain_char (CHR 0x22)"
  by code_simp+

lemma plain_charD: "plain_char c \<Longrightarrow> c \<noteq> CHR '' '' \<and> c \<noteq> CHR 0x27 \<and> c \<noteq> CHR 0x22"
  using plain_char_not by metis

lemma quoted_body:
  "sh_words Single (Some w)
     (concat (map (\<lambda>c. if c = CHR 0x27 then [CHR 0x27, CHR 0x22, CHR 0x27, CHR 0x22, CHR 0x27] else [c]) v) @ CHR 0x27 # cs) =
   sh_words Outside (Some (w @ v)) cs"
  by (induction v arbitrary: w) auto

lemma sh_words_quote:
  "sh_words Outside None (shellQuote v @ cs) = sh_words Outside (Some v) cs"
  using quoted_body [of "[]" v cs] by (simp add: shellQuote_def)

lemma sh_words_blank: "sh_words Outside (Some v) (CHR '' '' # cs) = map_option ((#) v) (sh_words Outside None cs)"
  by simp

lemma sh_words_plain:
  "list_all plain_char word \<Longrightarrow> sh_words Outside (Some v) (word @ cs) = sh_words Outside (Some (v @ word)) cs"
proof (induction word arbitrary: v)
  case (Cons c word)
  then have "plain_char c" by simp
  with Cons plain_charD [OF this] show ?case by simp
qed simp

text \<open>A word that needs no quotes, followed by a blank.\<close>

lemma sh_words_word:
  assumes "list_all plain_char (c # word)"
  shows "sh_words Outside None (c # word @ CHR '' '' # cs) = map_option ((#) (c # word)) (sh_words Outside None cs)"
proof -
  have "plain_char c" using assms by simp
  with plain_charD [OF this] sh_words_plain [of word "[c]" "CHR '' '' # cs"] assms show ?thesis by simp
qed

text \<open>What a command is joined from is what the shell gets back: no argument can add a word or a second command.\<close>

lemma shellJoin_split: "sh_split (shellJoin parts) = Some parts"
proof (induction parts)
  case Nil
  then show ?case by (simp add: sh_split_def shellJoin_def)
next
  case (Cons p ps)
  show ?case
  proof (cases ps)
    case Nil
    then show ?thesis using sh_words_quote [of p "[]"] by (simp add: sh_split_def shellJoin_def)
  next
    case (Cons q qs)
    with Cons.IH sh_words_quote [of p "CHR '' '' # shellJoin ps"] show ?thesis
      by (simp add: sh_split_def shellJoin_def)
  qed
qed

text \<open>
  The command of an SSH command line is what follows the options and the destination; its words are sent joined by
  blanks, and the shell of the guest splits that line. \<open>guest_program\<close> is the command \<open>sh -lc\<close> then runs there.
\<close>

fun ssh_remote :: "string list \<Rightarrow> string list" where
  "ssh_remote [] = []"
| "ssh_remote [d] = []"
| "ssh_remote (a # v # rest) =
     (if a \<in> {''-o'', ''-i'', ''-p''} then ssh_remote rest
      else if a \<in> {''-T'', ''-tt''} then ssh_remote (v # rest)
      else v # rest)"

definition guest_program :: "string list \<Rightarrow> string list option" where
  "guest_program args =
     (case sh_split (join_with '' '' (ssh_remote args)) of
        Some (shell # flag # script # operands) \<Rightarrow>
          if shell = ''sh'' \<and> flag = ''-lc'' then sh_split script else None
      | _ \<Rightarrow> None)"

lemma destination_no_option: "u @ ''@127.0.0.1'' \<notin> {''-o'', ''-i'', ''-p'', ''-T'', ''-tt''}"
proof
  assume "u @ ''@127.0.0.1'' \<in> {''-o'', ''-i'', ''-p'', ''-T'', ''-tt''}"
  then have "length (u @ ''@127.0.0.1'') \<le> 3" by auto
  then show False by simp
qed

lemma ssh_remote_options: "ssh_remote (ssh_options r t timeout @ rest) = ssh_remote rest"
  by (simp add: ssh_options_def)

lemma ssh_remote_destination: "ssh_remote ((u @ ''@127.0.0.1'') # c # cs) = c # cs"
  using destination_no_option [of u] by simp

lemma ssh_remote_args: "ssh_remote (ssh_args r s False script) = [''sh'', ''-lc'', script]"
  using ssh_remote_destination [of "qr_sshUser r" "''sh''" "[''-lc'', script]"]
  by (simp add: ssh_args_def baseSSHArgs_def ssh_remote_options)

lemma ssh_remote_probe:
  "ssh_remote (probe_args r t) = [''sh'', ''-lc'', ''test -f '' @ shellQuote readyMarkerPath]"
  using ssh_remote_destination [of "qr_sshUser r" "''sh''" "[''-lc'', ''test -f '' @ shellQuote readyMarkerPath]"]
  by (simp add: probe_args_def ssh_remote_options)

lemma split_word:
  assumes "list_all plain_char word" and "word \<noteq> []"
  shows "sh_split (word @ CHR '' '' # line) = map_option ((#) word) (sh_split line)"
  using assms sh_words_word by (cases word) (simp_all add: sh_split_def)

lemma split_quoted: "sh_split (shellQuote v) = Some [v]"
  using sh_words_quote [of v "[]"] by (simp add: sh_split_def)

text \<open>A program, an option and a quoted operand, given to \<open>sh -lc\<close> as one argument of SSH.\<close>

lemma operand_lost:
  assumes "ssh_remote args = [''sh'', ''-lc'', script]" and "script = program @ '' '' @ line"
    and "sh_split line = Some operands" and "list_all plain_char program" and "program \<noteq> []"
  shows "guest_program args = Some [program]"
proof -
  have words: "list_all plain_char ''sh''" "list_all plain_char ''-lc''" by code_simp+
  have "sh_split (join_with '' '' (ssh_remote args)) = Some (''sh'' # ''-lc'' # program # operands)"
    using split_word [OF words(1), of "''-lc'' @ CHR '' '' # script"] split_word [OF words(2), of script]
      split_word [OF assms(4,5), of line] assms(2,3)
    by (simp add: assms(1))
  moreover have "sh_split program = Some [program]"
    using assms(4,5) sh_words_plain [of "tl program" "[hd program]" "[]"] plain_charD [of "hd program"]
    by (cases program) (simp_all add: sh_split_def)
  ultimately show ?thesis by (simp add: guest_program_def)
qed

text \<open>
  C40: over SSH the guest never sees the operands. SSH joins the words of a remote command with blanks and the shell of the
  guest splits the result again, so \<open>sh -lc\<close> takes only the first word of each script as its command and the rest as
  positional parameters: the readiness probe runs \<open>test\<close> alone, which is always false, and reading, deleting or creating a
  path runs \<open>cat\<close>, \<open>rm\<close> and \<open>mkdir\<close> without it, for every sandbox and every path.
\<close>

theorem ssh_commands_lose_operands:
  "guest_program (probe_args r t) = Some [''test''] \<and>
   guest_program (ssh_args r s False (read_command target)) = Some [''cat''] \<and>
   guest_program (ssh_args r s False (delete_command target)) = Some [''rm''] \<and>
   guest_program (ssh_args r s False (mkdir_command target)) = Some [''mkdir'']"
proof -
  have plain: "list_all plain_char ''test''" "list_all plain_char ''cat''" "list_all plain_char ''rm''"
    "list_all plain_char ''mkdir''" "list_all plain_char ''-f''" "list_all plain_char ''-rf''" "list_all plain_char ''-p''"
    by code_simp+
  have flag: "sh_split (f @ '' '' @ shellQuote v) = Some [f, v]" if "list_all plain_char f" "f \<noteq> []" for f v
    using split_word [OF that, of "shellQuote v"] by (simp add: split_quoted)
  have "guest_program (probe_args r t) = Some [''test'']"
    by (rule operand_lost [OF ssh_remote_probe _ flag [OF plain(5)] plain(1)]) simp_all
  moreover have "guest_program (ssh_args r s False (read_command target)) = Some [''cat'']"
    by (rule operand_lost [OF ssh_remote_args _ split_quoted plain(2)]) (simp_all add: read_command_def)
  moreover have "guest_program (ssh_args r s False (delete_command target)) = Some [''rm'']"
    by (rule operand_lost [OF ssh_remote_args _ flag [OF plain(6)] plain(3)]) (simp_all add: delete_command_def)
  moreover have "guest_program (ssh_args r s False (mkdir_command target)) = Some [''mkdir'']"
    by (rule operand_lost [OF ssh_remote_args _ flag [OF plain(7)] plain(4)]) (simp_all add: mkdir_command_def)
  ultimately show ?thesis by blast
qed

section \<open>Files through the agent\<close>

lemma read_encoded:
  assumes "0 < maxBytes \<longrightarrow> int (length acc + length chunk) \<le> maxBytes"
  shows "read_packet maxBytes acc \<lparr>fd_SessionID = sid, fd_Data = EncodeBytes chunk, fd_EOF = final, fd_Error = []\<rparr> =
    (Inr (acc @ chunk), final)"
  using assms by (auto simp: read_packet_def EncodeBytes_def DecodeBytes_def)

lemma read_content_packets:
  "0 < maxBytes \<longrightarrow> int (length acc + length content) \<le> maxBytes \<Longrightarrow>
   read_packets maxBytes acc (content_packets sid content) = Inr (acc @ content)"
proof (induction sid content arbitrary: acc rule: content_packets.induct)
  case (1 sid content)
  show ?case
  proof (cases "length content \<le> MaxFileChunkSize")
    case True
    with 1 show ?thesis by (subst content_packets.simps) (simp add: read_encoded)
  next
    case False
    let ?chunk = "take MaxFileChunkSize content" and ?later = "drop MaxFileChunkSize content"
    have "0 < maxBytes \<longrightarrow> int (length acc + length ?chunk) \<le> maxBytes"
      "0 < maxBytes \<longrightarrow> int (length (acc @ ?chunk) + length ?later) \<le> maxBytes" using "1.prems" False by auto
    with False "1.IH" [of "acc @ ?chunk"] show ?thesis
      by (subst content_packets.simps) (simp add: read_encoded)
  qed
qed

lemma content_packets_small:
  "p \<in> set (content_packets sid content) \<Longrightarrow> fd_SessionID p = sid \<and> int (length (fd_Data p)) \<le> 349528"
proof (induction sid content rule: content_packets.induct)
  case (1 sid content)
  have small: "int (length (EncodeBytes c)) \<le> 349528" if "length c \<le> MaxFileChunkSize" for c
    using that by (simp add: EncodeBytes_def EncodeToString_def b64_length MaxFileChunkSize_def)
  show ?case
    using 1 small [of content] small [of "take MaxFileChunkSize content"]
    by (cases "length content \<le> MaxFileChunkSize") (auto simp: content_packets.simps [of sid content])
qed

text \<open>
  C39: a file survives the packets it travels in. For every content within the limit of the transfer, reading the packets
  that writing it sends gives the content back byte for byte, each packet belongs to the session, only the last one ends the
  stream, and each payload stays far below the largest message of the protocol.
\<close>

theorem agent_file_roundtrip:
  assumes "int (length content) \<le> maxBytes"
  shows "read_packets maxBytes [] (content_packets sid content) = Inr content \<and>
    list_all (\<lambda>p. fd_SessionID p = sid \<and> 40 * int (length (fd_Data p)) < MaxMessageSize) (content_packets sid content) \<and>
    upto_last file_last (content_packets sid content) = content_packets sid content"
proof -
  have "upto_last file_last (content_packets sid content) = content_packets sid content"
  proof (induction sid content rule: content_packets.induct)
    case (1 sid content)
    then show ?case
      by (cases "length content \<le> MaxFileChunkSize") (simp_all add: content_packets.simps [of sid content] file_last_def)
  qed
  moreover have "list_all (\<lambda>p. fd_SessionID p = sid \<and> 40 * int (length (fd_Data p)) < MaxMessageSize) (content_packets sid content)"
    using content_packets_small [of _ sid content] by (fastforce simp: list_all_iff MaxMessageSize_def)
  ultimately show ?thesis using read_content_packets [of maxBytes "[]" content sid] assms by simp
qed

theorem agent_file_roundtrip_witness:
  "read_packets 5 [] (content_packets ''f1'' ''hello'') = Inr ''hello''"
  using agent_file_roundtrip [of "''hello''" 5 "''f1''"] by simp

end
