(* ===== verification/Spec2Isabelle.thy ===== *)
theory Spec2Isabelle
  imports Outcomes TunnelSafety ApiSafety TransferSafety Inspection ContainerSafety AgentProtocol ClientSafety QemuSafety
begin

text \<open>
  A verification library for or3-sandbox, a control plane that gives tenants isolated sandboxes (containers or
  virtual machines) over an HTTP API.

  \<^bold>\<open>The program.\<close> A request enters \<open>internal/api/router.go\<close>. The middleware of \<open>internal/auth\<close> attaches an identity to
  it (static tokens or JWTs) and the router checks the permission of the route and calls \<open>internal/service\<close>. The
  service checks policy, quota and admission, keeps every durable fact in SQLite through
  \<open>internal/repository/store.go\<close>, and drives a backend through \<open>internal/runtime/registry\<close>: the Docker, Kata and
  QEMU packages, each of which runs a command line program. A reconciliation round compares the database with
  what the backends report. Tunnels give the outside world a way into a sandbox through signed URLs, capabilities
  and cookies that the router checks itself. \<open>cmd/sandboxctl\<close> is the client: it builds requests for the API and
  runs presets, which are scripts of such requests.

  \<^bold>\<open>How code becomes definitions.\<close> An operation is a function from a state to a result and the new state; the result
  is a sum whose left side is the error, so each early return of the Go code is a branch, and the state after a
  failure is the state the code leaves behind (a failed statement, a half-done roll-back). Go integers that can
  wrap are 64-bit words or carry their wrap-around, ratios are doubles with their rounding, strings are byte lists.
  What the code calls and does not contain is an argument of the definitions that call it: the container programs
  and the processes they start, the JWT library and the token bucket, the hash functions, the host's files,
  symbolic links and directory walks, the tar, JSON and YAML codecs, the network, the clock and the random
  identifiers, and a schedule saying which storage statements fail.

  \<^bold>\<open>Foundations.\<close>
  \<^item> \<open>Prelude\<close>: Go integers, fallible operations and the calculus for them; the locale \<open>step_preorder\<close> (a reflexive
    and transitive relation that every step respects is respected by the whole operation) carries the safety
    proofs of the service, the backends and the client, each of which interprets it.
  \<^item> \<open>GoStrings\<close>, \<open>GoPath\<close>, \<open>GoUrl\<close>, \<open>GoFloat\<close>, \<open>GoFlag\<close>, \<open>Encoding\<close>: what the program uses of \<open>strings\<close>, \<open>strconv\<close>,
    \<open>path/filepath\<close>, \<open>net/url\<close>, \<open>float64\<close>, \<open>flag\<close>, \<open>time\<close> and \<open>encoding\<close>, with the laws the components rest on.

  \<^bold>\<open>Control plane.\<close>
  \<^item> \<open>Model\<close>, \<open>ModelFacts\<close>: \<open>internal/model\<close>; the records and enumerations, CPU quantities and their round trip, feature
    lists and runtime selections.
  \<^item> \<open>Store\<close>, \<open>StoreFacts\<close>, \<open>StoreLookup\<close>: \<open>internal/repository/store.go\<close> over the tables of \<open>internal/db/db.go\<close>. The locale
    \<open>db_relation\<close> states what a relation on databases has to satisfy for every method of the store to respect it;
    it is interpreted by integrity of the tables, by the ownership of child rows, by the growth of histories and by
    the frame of a tenant.
    \<open>StoreLookup\<close> says what is read back after a write.
  \<^item> \<open>Config\<close>: profiles, normalisation and validation of \<open>internal/config/config.go\<close>; a production configuration that
    validates is hardened.
  \<^item> \<open>Runtime\<close>, \<open>Images\<close>: the backend interface, \<open>internal/runtime/registry\<close>, \<open>internal/guestimage\<close>, \<open>internal/dockerimage\<close>.
  \<^item> \<open>Workspace\<close>, \<open>Archive\<close>, \<open>Transfers\<close>, \<open>TransferSafety\<close>: workspace paths, archive extraction
    (\<open>internal/archiveutil\<close>), export and import of workspaces; containment and size bounds of all of them.
  \<^item> \<open>Policy\<close>, \<open>Sandboxes\<close>, \<open>Work\<close>, \<open>Snapshots\<close>: \<open>internal/service\<close> (audit.go, policy.go, admission.go, service.go): creation with its
    roll-back, lifecycle, executions, terminals, tunnels, snapshots and reconciliation.
  \<^item> \<open>Requests\<close>, \<open>Lifecycle\<close>, \<open>Outcomes\<close>, \<open>Example\<close>: inside \<open>db_relation\<close> every handler is shown to respect the relation; the
    inductive relation \<open>system_step\<close> interleaves requests of all tenants, reconciliation and failures, and its runs
    are what the properties of this theory speak of. \<open>Lifecycle\<close> gives the abstract status machine and proves that
    every request refines it, \<open>Outcomes\<close> what an operation achieved when it reports success, and \<open>Example\<close> a
    concrete system on which the properties are applied.
  \<^item> \<open>Auth\<close>, \<open>TunnelAccess\<close>, \<open>TunnelSafety\<close>: \<open>internal/auth\<close> and the tunnel part of \<open>internal/api/router.go\<close> with
    \<open>internal/service/tunnel_tcp.go\<close>: who is let in, what a signature covers, what is forwarded.
  \<^item> \<open>Observability\<close>, \<open>Inspection\<close>: the capacity, quota, health and metrics reports and that they tell the truth.
  \<^item> \<open>Router\<close>, \<open>ApiSafety\<close>: the route table and the handlers of \<open>internal/api/router.go\<close>; tenant isolation, permissions and
    what a request without identity can do, for the whole API (locale \<open>caller_relation\<close>).

  \<^bold>\<open>Backends.\<close>
  \<^item> \<open>CliRuntime\<close>, \<open>Docker\<close>, \<open>Kata\<close>, \<open>ContainerSafety\<close>: \<open>internal/runtime/docker\<close> and \<open>internal/runtime/kata\<close> over a log of the
    commands they issue; what a container is created with, that commands address the sandbox's own container, and
    where the reported status is wrong or an image reference is read as an option.
  \<^item> \<open>AgentProtocol\<close>: \<open>internal/runtime/qemu/agentproto\<close>, framing and validation; a stream of messages is read back.
  \<^item> \<open>AgentSession\<close>, \<open>QemuAgent\<close>: \<open>internal/runtime/qemu/agent_client.go\<close>. \<open>AgentSession\<close> has the payloads and the reader that hands
    each message to its request or stream, with the order of arrivals and registrations explicit; a stream is
    received in order unless its early part exceeds the buffer, and the inductive relation \<open>race_step\<close> interleaves the
    reader of the connection with the reader of a file. \<open>QemuAgent\<close> has the table of sessions, the counters and the
    requests.
  \<^item> \<open>Qemu\<close>, \<open>QemuProcess\<close>, \<open>QemuLife\<close>, \<open>QemuGuest\<close>: \<open>runtime.go\<close>, \<open>exec.go\<close>, \<open>workspace.go\<close> and \<open>archive.go\<close> of \<open>internal/runtime/qemu\<close>, in this
    order: host, options and layout; disks, command lines and the process behind the pid file; readiness, waiting
    loops and lifecycle; commands, terminals, files, archives, snapshots and storage. Programs run, signals and
    file operations are recorded in a log.
  \<^item> \<open>QemuSafety\<close>: signals go to the verified process of the sandbox (or, where \<open>Stop\<close> loses a race, to number zero),
    quoting survives the shell of the guest while the SSH commands do not, and files make the round trip through
    the packets of the agent.

  \<^bold>\<open>Client.\<close>
  \<^item> \<open>Presets\<close>, \<open>Sandboxctl\<close>, \<open>PresetRunner\<close>, \<open>ClientSafety\<close>: \<open>internal/presets\<close> and \<open>cmd/sandboxctl\<close> (main.go, workspace_path.go,
    preset.go); the runner returns, cleans up after itself and writes below the preset's directory, and a path of
    the client reaches the file it names unless it contains URL syntax.

  \<^bold>\<open>Bounds and loops.\<close> There is no fuel. Loops over lists are structural; the searches through parent directories and
  duration strings are total functions with a measure; the two waiting loops of the preset runner go through a
  partial function into options, and \<open>ClientSafety\<close> proves that it always has a value: each attempt advances the
  clock towards the deadline. The waiting loops of the QEMU backend are total functions on the distance to their
  deadline; when the timeout of the readiness loop has expired and a tick waits too, Go chooses at random, and the
  host says how often the tick wins (\<open>vh_Spins\<close>, any natural number).
  Sizes keep the width of their Go type where the code adds or compares them.

  \<^bold>\<open>Not modelled.\<close> Log lines and printed tables of the client; the byte copying of an open connection; opening the
  SQLite file and its migrations; reading the process environment and host probes of \<open>config.Load\<close>; JSON field
  tags; the time that a request of the client takes (every call returns, as its HTTP client has a timeout);
  \<open>cmd/sandboxd\<close>, which only wires the parts and waits for signals; the diagnostics of \<open>cmd/sandboxctl\<close> (doctor.go, hardening.go), which print what they find on the host; the interactive terminal of the client;
  \<open>cmd/or3-guest-agent\<close>, which is made of operating system calls inside the guest; and, of the agent client, dialling
  with retries, the deadlines of single requests and the pipes of open terminals and bridges.
\<close>

section \<open>Properties of runs\<close>

lemma grows_row:
  assumes "grows ok xs ys" and "x \<in> set xs"
  obtains y where "y \<in> set ys" and "ok x y"
proof -
  from assms(2) obtain k where k: "k < length xs" "x = xs ! k" by (metis in_set_conv_nth)
  with assms(1) have "k < length ys" and "ok x (ys ! k)"
    by (auto simp: grows_def list_all2_conv_all_nth)
  with that show thesis by (metis nth_mem)
qed

lemma grows_eq: "grows (=) xs ys \<Longrightarrow> \<exists>zs. ys = xs @ zs"
  by (metis append_take_drop_id grows_def list.rel_eq)

lemma revoked_tunnel_kept: "tunnel_kept x y \<Longrightarrow> tun_RevokedAt x \<noteq> None \<Longrightarrow> y = x"
  by (cases x; cases y) (auto simp: tunnel_kept_def)

lemma capability_keptD:
  assumes "capability_kept c c'"
  shows "cap_ID c' = cap_ID c \<and> cap_TunnelID c' = cap_TunnelID c \<and> cap_ExpiresAt c' = cap_ExpiresAt c \<and>
    (cap_ConsumedAt c \<noteq> None \<longrightarrow> cap_ConsumedAt c' = cap_ConsumedAt c) \<and>
    (cap_RevokedAt c \<noteq> None \<longrightarrow> cap_RevokedAt c' = cap_RevokedAt c)"
  using assms by (cases c; cases c') (auto simp: capability_kept_def)

text \<open>
  C1: along every run of the service, with any tenants' requests, reconciliation rounds, backend and
  storage failures in any order, the database keeps its integrity: keys stay unique, every sandbox has
  exactly one runtime row and one storage row, references lead to existing rows, the per-action audit counters
  count the recorded events, and every tunnel, snapshot, execution and terminal session names a sandbox that
  belongs to the tenant the row itself names.
\<close>

theorem system_integrity:
  assumes "reaches w w'" and "db_ok (w_db w)" and "children_owned (w_db w)"
  shows "db_ok (w_db w') \<and> children_owned (w_db w')"
  using integrity_run.run_related [OF assms(1)] assms(2) run_children [OF assms(1,3)] by (simp add: keeps_integrity_def)

theorem system_integrity_witness:
  "db_snapshots (w_db (after (ReqCreateSnapshot ''acme'' ''sbx-1'' ''s'') running_world)) \<noteq> [] \<and>
   children_owned (w_db (after (ReqCreateSnapshot ''acme'' ''sbx-1'' ''s'') running_world))"
proof
  show "db_snapshots (w_db (after (ReqCreateSnapshot ''acme'' ''sbx-1'' ''s'') running_world)) \<noteq> []" by code_simp
qed (rule system_integrity [OF after_reaches running_db_ok running_children_owned, THEN conjunct2])

text \<open>
  C5: the audit trail is append-only: whatever runs, the events recorded so far stay the first events of
  the trail, in order and unchanged.
\<close>

theorem audit_append_only:
  assumes "reaches w w'"
  shows "\<exists>new. db_audit (w_db w') = db_audit (w_db w) @ new"
  using history_run.run_related [OF assms] by (auto simp: keeps_history_def dest: grows_eq)

theorem audit_append_only_witness:
  "\<exists>new. db_audit (w_db (after (ReqStop ''acme'' ''sbx-1'' True) running_world)) = db_audit (w_db running_world) @ new"
  by (rule audit_append_only [OF after_reaches])

text \<open>
  C4: a revoked tunnel stays revoked, with the instant of its revocation and everything else about it
  unchanged, and a consumed or revoked capability is never made valid again.
\<close>

theorem revocation_final:
  assumes "reaches w w'"
  shows "(tun \<in> set (db_tunnels (w_db w)) \<and> tun_RevokedAt tun \<noteq> None \<longrightarrow> tun \<in> set (db_tunnels (w_db w'))) \<and>
    (c \<in> set (db_capabilities (w_db w)) \<longrightarrow> (\<exists>c' \<in> set (db_capabilities (w_db w')). cap_ID c' = cap_ID c \<and>
       cap_TunnelID c' = cap_TunnelID c \<and> cap_ExpiresAt c' = cap_ExpiresAt c \<and>
       (cap_ConsumedAt c \<noteq> None \<longrightarrow> cap_ConsumedAt c' = cap_ConsumedAt c) \<and>
       (cap_RevokedAt c \<noteq> None \<longrightarrow> cap_RevokedAt c' = cap_RevokedAt c)))"
proof -
  have h: "grows tunnel_kept (db_tunnels (w_db w)) (db_tunnels (w_db w'))"
    "grows capability_kept (db_capabilities (w_db w)) (db_capabilities (w_db w'))"
    using history_run.run_related [OF assms] by (simp_all add: keeps_history_def)
  have "tun \<in> set (db_tunnels (w_db w'))" if "tun \<in> set (db_tunnels (w_db w))" "tun_RevokedAt tun \<noteq> None"
    using grows_row [OF h(1) that(1)] revoked_tunnel_kept that(2) by metis
  moreover have "\<exists>c' \<in> set (db_capabilities (w_db w')). capability_kept c c'" if "c \<in> set (db_capabilities (w_db w))"
    using grows_row [OF h(2) that] by metis
  ultimately show ?thesis by (intro conjI impI) (auto dest: capability_keptD)
qed

theorem revocation_final_witness:
  "sample_tunnel\<lparr>tun_RevokedAt := Some 4\<rparr> \<in> set (db_tunnels (w_db (after (ReqStop ''acme'' ''sbx-1'' True)
     (running_world\<lparr>w_db := running_db\<lparr>db_tunnels := [sample_tunnel\<lparr>tun_RevokedAt := Some 4\<rparr>],
        db_capabilities := [sample_capability\<lparr>cap_ConsumedAt := Some 4\<rparr>]\<rparr>\<rparr>)))) \<and>
   (\<exists>c' \<in> set (db_capabilities (w_db (after (ReqStop ''acme'' ''sbx-1'' True)
     (running_world\<lparr>w_db := running_db\<lparr>db_tunnels := [sample_tunnel\<lparr>tun_RevokedAt := Some 4\<rparr>],
        db_capabilities := [sample_capability\<lparr>cap_ConsumedAt := Some 4\<rparr>]\<rparr>\<rparr>)))). cap_ConsumedAt c' = Some 4)"
proof -
  let ?w = "running_world\<lparr>w_db := running_db\<lparr>db_tunnels := [sample_tunnel\<lparr>tun_RevokedAt := Some 4\<rparr>],
        db_capabilities := [sample_capability\<lparr>cap_ConsumedAt := Some 4\<rparr>]\<rparr>\<rparr>"
  have "sample_tunnel\<lparr>tun_RevokedAt := Some 4\<rparr> \<in> set (db_tunnels (w_db ?w))"
    and "sample_capability\<lparr>cap_ConsumedAt := Some 4\<rparr> \<in> set (db_capabilities (w_db ?w))" by simp_all
  with revocation_final [OF after_reaches [of ?w "ReqStop ''acme'' ''sbx-1'' True"],
      of "sample_tunnel\<lparr>tun_RevokedAt := Some 4\<rparr>" "sample_capability\<lparr>cap_ConsumedAt := Some 4\<rparr>"]
  show ?thesis by (intro conjI) (simp, fastforce)
qed

text \<open>
  C2: tenants are isolated. A request of one tenant, whatever it asks for and however it fails, leaves
  every sandbox, tunnel, snapshot, execution, terminal session and audit event of every other tenant
  exactly as it was.
\<close>

theorem tenant_isolation:
  assumes "perform svc fv av req w = (result, w')" and "t \<noteq> request_tenant req" and "t \<noteq> []"
  shows "filter (\<lambda>r. c_tenant_id r = t) (db_sandboxes (w_db w')) = filter (\<lambda>r. c_tenant_id r = t) (db_sandboxes (w_db w)) \<and>
    filter (\<lambda>r. tun_TenantID r = t) (db_tunnels (w_db w')) = filter (\<lambda>r. tun_TenantID r = t) (db_tunnels (w_db w)) \<and>
    filter (\<lambda>r. sn_TenantID r = t) (db_snapshots (w_db w')) = filter (\<lambda>r. sn_TenantID r = t) (db_snapshots (w_db w)) \<and>
    filter (\<lambda>r. ex_TenantID r = t) (db_executions (w_db w')) = filter (\<lambda>r. ex_TenantID r = t) (db_executions (w_db w)) \<and>
    filter (\<lambda>r. tty_TenantID r = t) (db_tty (w_db w')) = filter (\<lambda>r. tty_TenantID r = t) (db_tty (w_db w)) \<and>
    filter (\<lambda>r. au_TenantID r = t) (db_audit (w_db w')) = filter (\<lambda>r. au_TenantID r = t) (db_audit (w_db w))"
proof -
  have "frame (request_tenant req) (w_db w) (w_db w')"
    using frame.perform_keeps [where req = req and w = w and svc = svc and fv = fv and av = av and
        t = "request_tenant req"] permits_all [of req] assms(1)
    by (simp add: on_db_def)
  then show ?thesis using assms(2,3) unfolding frame_def by (intro conjI; elim conjE) (erule others_filter; assumption)+
qed

theorem tenant_isolation_witness:
  "filter (\<lambda>r. c_tenant_id r = ''acme'') (db_sandboxes (w_db (after (ReqDelete ''evil'' ''sbx-1'' True) running_world)))
     = [sandbox_to_row running_sandbox]"
proof -
  have "filter (\<lambda>r. c_tenant_id r = ''acme'') (db_sandboxes (w_db running_world)) = [sandbox_to_row running_sandbox]"
    by (simp add: running_world_def running_db_def sandbox_to_row_def running_sandbox_def sample_sandbox_def)
  moreover have "''acme'' \<noteq> request_tenant (ReqDelete ''evil'' ''sbx-1'' True)" by simp
  ultimately show ?thesis using tenant_isolation [OF after_perform, of "''acme''"] by (metis list.distinct(1))
qed

end
